(* ===== verification/Frametime_Prelude.thy ===== *)
theory Frametime_Prelude
  imports
    Main
    "HOL-Library.Word"
    "HOL-Library.FSet"
    "HOL-Library.Finite_Map"
    "HOL-Library.Char_ord"
    "HOL-Library.List_Lexorder"
begin

text \<open>
  Vocabulary shared by every component: Rust's \<open>Result\<close>, fixed-width integers, strings as
  their UTF-8 bytes, the decimal and hexadecimal text of numbers, \<open>f64\<close> as far as the code
  compares it, and \<open>BTreeMap\<close>/\<open>BTreeSet\<close> as finite maps and finite sets.  The lemmas are the
  generic facts the components use; \<open>guard_simps\<close> collects the laws of the fail-closed
  checks that every component chains together.
\<close>

named_theorems guard_simps \<open>laws of chained fail-closed checks\<close>

section \<open>Results\<close>

datatype ('a, 'e) result = Ok 'a | Err 'e

primrec is_ok :: "('a, 'e) result \<Rightarrow> bool" where
  "is_ok (Ok x) = True"
| "is_ok (Err e) = False"

primrec map_err :: "('e \<Rightarrow> 'f) \<Rightarrow> ('a, 'e) result \<Rightarrow> ('a, 'f) result" where
  "map_err f (Ok x) = Ok x"
| "map_err f (Err e) = Err (f e)"

text \<open>The early return of the \<open>?\<close> operator.\<close>

primrec and_then :: "('a, 'e) result \<Rightarrow> ('a \<Rightarrow> ('b, 'e) result) \<Rightarrow> ('b, 'e) result" where
  "and_then (Ok x) f = f x"
| "and_then (Err e) f = Err e"

definition ok_or :: "'e \<Rightarrow> 'a option \<Rightarrow> ('a, 'e) result" where
  "ok_or e x = (case x of None \<Rightarrow> Err e | Some y \<Rightarrow> Ok y)"

text \<open>\<open>if !c { return Err(e) }\<close>: the shape of nearly every validation in the code.\<close>

definition ensure :: "bool \<Rightarrow> 'e \<Rightarrow> (unit, 'e) result" where
  "ensure c e = (if c then Ok () else Err e)"

lemma ensure_eq_Ok [guard_simps]: "ensure c e = Ok u \<longleftrightarrow> c"
  by (simp add: ensure_def)

lemma ensure_eq_Err [guard_simps]: "ensure c e = Err e' \<longleftrightarrow> \<not> c \<and> e' = e"
  by (auto simp: ensure_def)

lemma and_then_eq_Ok [guard_simps]: "and_then r f = Ok y \<longleftrightarrow> (\<exists>x. r = Ok x \<and> f x = Ok y)"
  by (cases r) auto

lemma map_err_eq_Ok [guard_simps]: "map_err f r = Ok y \<longleftrightarrow> r = Ok y"
  by (cases r) auto

lemma map_err_eq_Err [guard_simps]: "map_err f r = Err e \<longleftrightarrow> (\<exists>e'. r = Err e' \<and> e = f e')"
  by (cases r) auto

lemma ok_or_eq_Ok [guard_simps]: "ok_or e x = Ok y \<longleftrightarrow> x = Some y"
  by (cases x) (auto simp: ok_or_def)

lemma not_Ok_unit_iff: "(r :: (unit, 'e) result) \<noteq> Ok () \<longleftrightarrow> (\<exists>e. r = Err e)"
  by (cases r) auto

lemma is_ok_iff: "is_ok r \<longleftrightarrow> (\<exists>x. r = Ok x)"
  by (cases r) auto

lemma is_ok_ensure [simp]: "is_ok (ensure c e) = c"
  by (simp add: ensure_def)

text \<open>Running a check over every element of a slice, stopping at the first error.\<close>

fun try_each :: "('a \<Rightarrow> (unit, 'e) result) \<Rightarrow> 'a list \<Rightarrow> (unit, 'e) result" where
  "try_each f [] = Ok ()"
| "try_each f (x # xs) = and_then (f x) (\<lambda>_. try_each f xs)"

lemma try_each_eq_Ok [guard_simps]: "try_each f xs = Ok u \<longleftrightarrow> (\<forall>x\<in>set xs. f x = Ok ())"
  by (induction xs) (auto simp: and_then_eq_Ok)

section \<open>Fixed-width integers\<close>

type_synonym u8 = "8 word"
type_synonym u16 = "16 word"
type_synonym u32 = "32 word"
type_synonym u64 = "64 word"

section \<open>Maps and sets\<close>

text \<open>
  A \<open>BTreeMap<String, V>\<close> is a finite map and a \<open>BTreeSet<String>\<close> a finite set; where the code
  depends on their iteration order the model sorts explicitly.
\<close>

type_synonym 'v fields = "(string, 'v) fmap"

definition contains_key :: "('k, 'v) fmap \<Rightarrow> 'k \<Rightarrow> bool" where
  "contains_key m k \<longleftrightarrow> fmlookup m k \<noteq> None"

definition is_empty_map :: "('k, 'v) fmap \<Rightarrow> bool" where
  "is_empty_map m \<longleftrightarrow> m = fmempty"

lemma contains_key_empty [simp]: "\<not> contains_key fmempty k"
  by (simp add: contains_key_def)

lemma contains_key_upd [simp]: "contains_key (fmupd a b m) k \<longleftrightarrow> k = a \<or> contains_key m k"
  by (auto simp: contains_key_def)

lemma contains_key_drop [simp]: "contains_key (fmdrop a m) k \<longleftrightarrow> k \<noteq> a \<and> contains_key m k"
  by (auto simp: contains_key_def)

lemma is_empty_map_empty [simp]: "is_empty_map fmempty"
  by (simp add: is_empty_map_def)

lemma is_empty_map_no_key: "is_empty_map m \<Longrightarrow> \<not> contains_key m k"
  by (simp add: is_empty_map_def)

text \<open>The values of a \<open>BTreeMap\<close> in the order of their keys.\<close>

definition btree_values :: "(string, 'v) fmap \<Rightarrow> 'v list" where
  "btree_values m = map snd (sorted_list_of_fmap m)"

text \<open>
  The loop that fills a \<open>BTreeMap\<close> from a slice: a key seen again must carry an equal value, or the
  whole is refused.  Items for which \<open>f\<close> gives nothing are skipped.
\<close>

fun collect_unique ::
  "('a \<Rightarrow> ((string \<times> 'b) option, 'e) result) \<Rightarrow> (string \<Rightarrow> 'e) \<Rightarrow> (string, 'b) fmap \<Rightarrow> 'a list
     \<Rightarrow> ((string, 'b) fmap, 'e) result" where
  "collect_unique f clash m [] = Ok m"
| "collect_unique f clash m (x # xs) =
     and_then (f x) (\<lambda>item.
     case item of
       None \<Rightarrow> collect_unique f clash m xs
     | Some (k, v) \<Rightarrow>
         (case fmlookup m k of
            None \<Rightarrow> collect_unique f clash (fmupd k v m) xs
          | Some existing \<Rightarrow> if existing = v then collect_unique f clash m xs else Err (clash k)))"

lemma collect_unique_Ok:
  assumes "collect_unique f clash m xs = Ok m'"
  shows "fmlookup m' k = Some v \<longleftrightarrow> fmlookup m k = Some v \<or> (\<exists>x\<in>set xs. f x = Ok (Some (k, v)))"
    and "x \<in> set xs \<Longrightarrow> is_ok (f x)"
proof -
  have "(\<forall>k v. fmlookup m' k = Some v \<longleftrightarrow> fmlookup m k = Some v \<or> (\<exists>x\<in>set xs. f x = Ok (Some (k, v))))
      \<and> (\<forall>x\<in>set xs. is_ok (f x))"
    using assms
  proof (induction f clash m xs arbitrary: m' rule: collect_unique.induct)
    case (2 f clash m x xs)
    obtain item where item: "f x = Ok item" using "2.prems" by (auto simp: and_then_eq_Ok)
    show ?case
    proof (cases item)
      case None
      then show ?thesis using "2.IH"(1) "2.prems" item by auto
    next
      case (Some kv)
      obtain k v where kv: "kv = (k, v)" by (cases kv)
      show ?thesis
      proof (cases "fmlookup m k")
        case None
        with "2.prems" item Some kv have "collect_unique f clash (fmupd k v m) xs = Ok m'" by simp
        from "2.IH"(2) [OF None this] show ?thesis
          using item Some kv None by (auto split: if_splits)
      next
        case (Some w)
        with "2.prems" item \<open>item = Some kv\<close> kv have "w = v" and "collect_unique f clash m xs = Ok m'"
          by (auto split: if_splits)
        from "2.IH"(1) [OF \<open>collect_unique f clash m xs = Ok m'\<close>] show ?thesis
          using item \<open>item = Some kv\<close> kv Some \<open>w = v\<close> by auto
      qed
    qed
  qed simp
  then show "fmlookup m' k = Some v \<longleftrightarrow> fmlookup m k = Some v \<or> (\<exists>x\<in>set xs. f x = Ok (Some (k, v)))"
    and "x \<in> set xs \<Longrightarrow> is_ok (f x)" by blast+
qed

lemma set_btree_values: "set (btree_values m) = {v. \<exists>k. fmlookup m k = Some v}"
proof -
  have "set (btree_values m) = (\<lambda>k. the (fmlookup m k)) ` fset (fmdom m)"
    by (auto simp: btree_values_def sorted_list_of_fmap_def)
  then show ?thesis by (force simp: fmlookup_dom_iff)
qed

lemma length_btree_values: "length (btree_values m) = fcard (fmdom m)"
  by (simp add: btree_values_def sorted_list_of_fmap_def sorted_list_of_fset.rep_eq fcard.rep_eq)

section \<open>Bytes and text\<close>

text \<open>A Rust string is the list of its UTF-8 bytes, so \<open>length\<close> is \<open>str::len\<close>.\<close>

definition byte :: "char \<Rightarrow> nat" where
  "byte c = of_char c"

definition is_ascii_digit :: "char \<Rightarrow> bool" where
  "is_ascii_digit c \<longleftrightarrow> 48 \<le> byte c \<and> byte c \<le> 57"

definition is_lower_hex :: "char \<Rightarrow> bool" where
  "is_lower_hex c \<longleftrightarrow> is_ascii_digit c \<or> (97 \<le> byte c \<and> byte c \<le> 102)"

definition is_ascii_hexdigit :: "char \<Rightarrow> bool" where
  "is_ascii_hexdigit c \<longleftrightarrow> is_lower_hex c \<or> (65 \<le> byte c \<and> byte c \<le> 70)"

definition is_ascii_lowercase :: "char \<Rightarrow> bool" where
  "is_ascii_lowercase c \<longleftrightarrow> 97 \<le> byte c \<and> byte c \<le> 122"

definition is_ascii_uppercase :: "char \<Rightarrow> bool" where
  "is_ascii_uppercase c \<longleftrightarrow> 65 \<le> byte c \<and> byte c \<le> 90"

definition is_ascii_alphanumeric :: "char \<Rightarrow> bool" where
  "is_ascii_alphanumeric c \<longleftrightarrow> is_ascii_lowercase c \<or> is_ascii_uppercase c \<or> is_ascii_digit c"

definition to_ascii_uppercase :: "string \<Rightarrow> string" where
  "to_ascii_uppercase s = map (\<lambda>c. if is_ascii_lowercase c then char_of (byte c - 32) else c) s"

definition to_ascii_lowercase :: "string \<Rightarrow> string" where
  "to_ascii_lowercase s = map (\<lambda>c. if is_ascii_uppercase c then char_of (byte c + 32) else c) s"

definition eq_ignore_ascii_case :: "string \<Rightarrow> string \<Rightarrow> bool" where
  "eq_ignore_ascii_case a b \<longleftrightarrow> to_ascii_lowercase a = to_ascii_lowercase b"

text \<open>The Unicode scalar values of a string (\<open>str::chars\<close> on valid UTF-8).\<close>

fun chars :: "string \<Rightarrow> nat list" where
  "chars [] = []"
| "chars (a # s) =
     (if byte a < 128 then byte a # chars s
      else (case s of [] \<Rightarrow> [byte a]
            | b # s' \<Rightarrow>
              if byte a < 224 then ((byte a mod 32) * 64 + byte b mod 64) # chars s'
              else (case s' of [] \<Rightarrow> [byte a, byte b]
                    | c # s'' \<Rightarrow>
                      if byte a < 240
                      then ((byte a mod 16) * 4096 + (byte b mod 64) * 64 + byte c mod 64) # chars s''
                      else (case s'' of [] \<Rightarrow> [byte a, byte b, byte c]
                            | d # s''' \<Rightarrow>
                              ((byte a mod 8) * 262144 + (byte b mod 64) * 4096
                               + (byte c mod 64) * 64 + byte d mod 64) # chars s'''))))"

definition is_control :: "nat \<Rightarrow> bool" where
  "is_control n \<longleftrightarrow> n < 32 \<or> (127 \<le> n \<and> n \<le> 159)"

definition is_whitespace :: "nat \<Rightarrow> bool" where
  "is_whitespace n \<longleftrightarrow>
     (9 \<le> n \<and> n \<le> 13) \<or> n = 32 \<or> n = 133 \<or> n = 160 \<or> n = 5760 \<or> (8192 \<le> n \<and> n \<le> 8202)
     \<or> n = 8232 \<or> n = 8233 \<or> n = 8239 \<or> n = 8287 \<or> n = 12288"

text \<open>\<open>s.trim().is_empty()\<close> and \<open>s.chars().any(char::is_control)\<close>.\<close>

definition is_blank :: "string \<Rightarrow> bool" where
  "is_blank s \<longleftrightarrow> list_all is_whitespace (chars s)"

definition has_control :: "string \<Rightarrow> bool" where
  "has_control s \<longleftrightarrow> list_ex is_control (chars s)"

lemma is_blank_Nil [simp]: "is_blank []"
  by (simp add: is_blank_def)

section \<open>Splitting\<close>

definition strip_prefix :: "string \<Rightarrow> string \<Rightarrow> string option" where
  "strip_prefix p s = (if take (length p) s = p then Some (drop (length p) s) else None)"

fun split_once :: "char \<Rightarrow> string \<Rightarrow> (string \<times> string) option" where
  "split_once d [] = None"
| "split_once d (c # s) =
     (if c = d then Some ([], s)
      else (case split_once d s of None \<Rightarrow> None | Some (a, b) \<Rightarrow> Some (c # a, b)))"

text \<open>\<open>str::split\<close> by a set of separator characters: never empty.\<close>

fun split_on :: "(char \<Rightarrow> bool) \<Rightarrow> string \<Rightarrow> string list" where
  "split_on p [] = [[]]"
| "split_on p (c # s) =
     (if p c then [] # split_on p s
      else (case split_on p s of [] \<Rightarrow> [[c]] | w # ws \<Rightarrow> (c # w) # ws))"

lemma split_on_nonempty [simp]: "split_on p s \<noteq> []"
  by (induction s) (auto split: list.splits)

lemma strip_prefix_append [simp]: "strip_prefix p (p @ s) = Some s"
  by (simp add: strip_prefix_def)

lemma strip_prefix_Some: "strip_prefix p s = Some t \<longleftrightarrow> s = p @ t"
  by (auto simp: strip_prefix_def) (metis append_take_drop_id)

lemma split_once_append: "d \<notin> set a \<Longrightarrow> split_once d (a @ d # b) = Some (a, b)"
  by (induction a) auto

lemma split_once_Some: "split_once d s = Some (a, b) \<longleftrightarrow> s = a @ d # b \<and> d \<notin> set a"
proof (induction s arbitrary: a)
  case Nil
  then show ?case by simp
next
  case (Cons c s)
  show ?case
  proof (cases a)
    case Nil
    then show ?thesis by (auto split: option.splits)
  next
    case (Cons x xs)
    then show ?thesis using Cons.IH [of xs] by (auto split: option.splits)
  qed
qed

section \<open>Numbers as text\<close>

text \<open>\<open>Display\<close> of an unsigned integer, and \<open>str::parse\<close> for a type with \<open>bound\<close> values: an
  optional \<open>+\<close>, then at least one digit, with overflow an error.\<close>

definition digit :: "nat \<Rightarrow> char" where
  "digit d = char_of (48 + d)"

fun dec :: "nat \<Rightarrow> string" where
  "dec n = (if n < 10 then [digit n] else dec (n div 10) @ [digit (n mod 10)])"

declare dec.simps [simp del]

fun parse_digits :: "nat \<Rightarrow> nat \<Rightarrow> string \<Rightarrow> nat option" where
  "parse_digits bound acc [] = Some acc"
| "parse_digits bound acc (c # s) =
     (if is_ascii_digit c
      then (let v = acc * 10 + (byte c - 48) in if v < bound then parse_digits bound v s else None)
      else None)"

definition parse_unsigned :: "nat \<Rightarrow> string \<Rightarrow> nat option" where
  "parse_unsigned bound s =
     (case s of
        [] \<Rightarrow> None
      | c # s' \<Rightarrow>
          if s' = [] \<and> (c = CHR ''+'' \<or> c = CHR ''-'') then None
          else if c = CHR ''+'' then parse_digits bound 0 s'
          else parse_digits bound 0 s)"

lemma byte_digit [simp]: "d < 10 \<Longrightarrow> byte (digit d) = 48 + d"
  by (simp add: byte_def digit_def)

lemma is_ascii_digit_digit [simp]: "d < 10 \<Longrightarrow> is_ascii_digit (digit d)"
  by (simp add: is_ascii_digit_def)

lemma digit_inject: "d < 10 \<Longrightarrow> e < 10 \<Longrightarrow> digit d = digit e \<longleftrightarrow> d = e"
  by (metis add_left_cancel byte_digit)

lemma dec_nonempty [simp]: "dec n \<noteq> []"
  by (subst dec.simps) simp

lemma dec_digits: "c \<in> set (dec n) \<Longrightarrow> is_ascii_digit c"
proof (induction n rule: dec.induct)
  case (1 n)
  then show ?case
    by (cases "n < 10") (auto simp: dec.simps [of n])
qed

lemma parse_digits_append:
  "parse_digits b a (xs @ ys) = Option.bind (parse_digits b a xs) (\<lambda>v. parse_digits b v ys)"
  by (induction xs arbitrary: a) (auto simp: Let_def)

lemma parse_digits_dec: "n < b \<Longrightarrow> parse_digits b 0 (dec n) = Some n"
proof (induction n rule: dec.induct)
  case (1 n)
  show ?case
  proof (cases "n < 10")
    case True
    with "1.prems" show ?thesis by (simp add: dec.simps [of n])
  next
    case False
    with "1.prems" have "parse_digits b 0 (dec (n div 10)) = Some (n div 10)"
      by (intro "1.IH") auto
    with False "1.prems" show ?thesis
      by (simp add: dec.simps [of n] parse_digits_append)
  qed
qed

lemma parse_unsigned_dec [simp]: "n < b \<Longrightarrow> parse_unsigned b (dec n) = Some n"
proof -
  assume n: "n < b"
  obtain c s where cs: "dec n = c # s"
    by (cases "dec n") auto
  have "is_ascii_digit c"
    using dec_digits [of c n] cs by simp
  then have "c \<noteq> CHR ''+''" "c \<noteq> CHR ''-''"
    by (auto simp: is_ascii_digit_def byte_def)
  with cs parse_digits_dec [OF n] show ?thesis
    by (simp add: parse_unsigned_def)
qed

lemma dec_inject [simp]: "dec m = dec n \<longleftrightarrow> m = n"
  by (metis less_Suc_eq max_less_iff_conj option.inject parse_digits_dec)

lemma parse_digits_bound: "parse_digits b a s = Some v \<Longrightarrow> a < b \<Longrightarrow> v < b"
  by (induction s arbitrary: a) (auto simp: Let_def split: if_splits)

lemma parse_unsigned_bound: "parse_unsigned b s = Some v \<Longrightarrow> 0 < b \<Longrightarrow> v < b"
  by (auto simp: parse_unsigned_def Let_def dest: parse_digits_bound split: list.splits if_splits)

section \<open>Floating point\<close>

text \<open>
  An \<open>f64\<close> is one of the two infinities, a NaN, or the rational it denotes.  Only comparisons
  and \<open>is_finite\<close> are used by the modelled code; a comparison with a NaN is false, and so is
  its equality.
\<close>

datatype f64 = NaN | PosInf | NegInf | Finite rat

fun is_finite :: "f64 \<Rightarrow> bool" where
  "is_finite (Finite r) = True"
| "is_finite _ = False"

fun f64_le :: "f64 \<Rightarrow> f64 \<Rightarrow> bool" where
  "f64_le NaN _ = False"
| "f64_le _ NaN = False"
| "f64_le NegInf _ = True"
| "f64_le _ PosInf = True"
| "f64_le (Finite a) (Finite b) = (a \<le> b)"
| "f64_le _ _ = False"

fun f64_eq :: "f64 \<Rightarrow> f64 \<Rightarrow> bool" where
  "f64_eq NaN _ = False"
| "f64_eq a b = (a = b)"

definition f64_lt :: "f64 \<Rightarrow> f64 \<Rightarrow> bool" where
  "f64_lt a b \<longleftrightarrow> f64_le a b \<and> \<not> f64_eq a b"

abbreviation f64_zero :: f64 where
  "f64_zero \<equiv> Finite 0"

definition f64_of_u32 :: "u32 \<Rightarrow> f64" where
  "f64_of_u32 w = Finite (of_nat (unat w))"

fun opt_f64_eq :: "f64 option \<Rightarrow> f64 option \<Rightarrow> bool" where
  "opt_f64_eq None None = True"
| "opt_f64_eq (Some a) (Some b) = f64_eq a b"
| "opt_f64_eq _ _ = False"

lemma is_finite_iff: "is_finite x \<longleftrightarrow> (\<exists>r. x = Finite r)"
  by (cases x) auto

lemma f64_eq_refl [simp]: "f64_eq x x \<longleftrightarrow> x \<noteq> NaN"
  by (cases x) auto

lemma f64_eq_iff: "f64_eq x y \<longleftrightarrow> x = y \<and> x \<noteq> NaN"
  by (cases x) auto

lemma is_finite_not_NaN [simp]: "is_finite x \<Longrightarrow> x \<noteq> NaN"
  by (cases x) auto

lemma f64_lt_Finite [simp]: "f64_lt (Finite a) (Finite b) \<longleftrightarrow> a < b"
  by (auto simp: f64_lt_def)

lemma opt_f64_eq_Some [simp]: "opt_f64_eq x (Some b) \<longleftrightarrow> x = Some b \<and> b \<noteq> NaN"
  by (cases x) (auto simp: f64_eq_iff)

end
