(* ===== verification/Binding.thy ===== *)
theory Binding
  imports Frametime_Prelude
begin

text \<open>
  Native device identities (\<open>crates/frametime-domain/src/binding.rs\<close>): the PCI device and the
  network adapter a capture is bound to, their validation, the parser of PCI instance identities,
  and the receipt digest.  SHA-256 over the serialized record is a parameter.
\<close>

datatype binding_error =
    InvalidGuid string
  | InvalidPciIdentity string
  | InvalidPublishedName string
  | InvalidText string
  | DeviceIdentityMismatch
  | AdapterGuidMismatch
  | IncompleteAdapterIdentity
  | UnsupportedSchema
  | InvalidReceiptId

datatype binding_receipt_id = BindingReceiptId string

definition binding_receipt_id_parse :: "string \<Rightarrow> (binding_receipt_id, binding_error) result" where
  "binding_receipt_id_parse value =
     (if length value = 64 \<and> list_all is_lower_hex value then Ok (BindingReceiptId value)
      else Err InvalidReceiptId)"

text \<open>\<open>serde_json::to_vec\<close> may fail; the digest text is what \<open>parse\<close> sees.\<close>

definition digest_serializable ::
  "('x \<Rightarrow> string option) \<Rightarrow> (string \<Rightarrow> string) \<Rightarrow> 'x \<Rightarrow> (binding_receipt_id, binding_error) result" where
  "digest_serializable to_vec sha256_hex value =
     and_then (ok_or InvalidReceiptId (to_vec value)) (\<lambda>bytes.
     binding_receipt_id_parse (sha256_hex bytes))"

definition NATIVE_BINDING_SCHEMA_VERSION :: u8 where
  "NATIVE_BINDING_SCHEMA_VERSION = 1"

record 'v pci_device_binding =
  pci_schema_version :: u8
  instance_id :: string
  container_id :: string
  class_guid :: string
  vendor_id :: u16
  device_id :: u16
  subsystem_vendor_id :: u16
  subsystem_device_id :: u16
  revision_id :: u8
  driver_provider :: string
  driver_version :: string
  published_inf :: string
  pci_observed_at_utc :: string
  pci_unknown :: "'v fields"

record 'v network_adapter_binding =
  nic_schema_version :: u8
  adapter_name :: string
  interface_guid :: string
  interface_luid :: u64
  interface_index :: u32
  friendly_name :: string
  interface_description :: string
  physical_address :: "u8 list"
  nic_device :: "'v pci_device_binding"
  nic_observed_at_utc :: string
  nic_unknown :: "'v fields"

section \<open>Field checks\<close>

definition require_schema :: "u8 \<Rightarrow> (unit, binding_error) result" where
  "require_schema version =
     (if version = NATIVE_BINDING_SCHEMA_VERSION then Ok () else Err UnsupportedSchema)"

definition require_text :: "string \<Rightarrow> string \<Rightarrow> (unit, binding_error) result" where
  "require_text value field =
     (if is_blank value \<or> length value > 512 \<or> has_control value then Err (InvalidText field)
      else Ok ())"

text \<open>The slice \<open>bytes[1..37]\<close> is only reached when the length is 38.\<close>

definition require_guid :: "string \<Rightarrow> string \<Rightarrow> (unit, binding_error) result" where
  "require_guid value field =
     (if length value = 38
         \<and> hd value = CHR ''{''
         \<and> last value = CHR ''}''
         \<and> list_all (\<lambda>i. value ! i = CHR ''-'') [9, 14, 19, 24]
         \<and> list_all (\<lambda>(i, c). i \<in> {8, 13, 18, 23} \<or> is_ascii_hexdigit c)
             (zip [0..<36] (take 36 (drop 1 value)))
      then Ok () else Err (InvalidGuid field))"

definition ends_with :: "string \<Rightarrow> string \<Rightarrow> bool" where
  "ends_with suffix s \<longleftrightarrow>
     length suffix \<le> length s \<and> drop (length s - length suffix) s = suffix"

definition require_inf_leaf :: "string \<Rightarrow> string \<Rightarrow> (unit, binding_error) result" where
  "require_inf_leaf value field =
     (if length value \<le> 128
         \<and> ends_with ''.inf'' value
         \<and> 4 < length value
         \<and> list_all (\<lambda>c. is_ascii_lowercase c \<or> is_ascii_digit c
             \<or> c = CHR ''.'' \<or> c = CHR ''_'' \<or> c = CHR ''-'') value
      then Ok () else Err (InvalidPublishedName field))"

section \<open>PCI instance identities\<close>

text \<open>\<open>u64::from_str_radix(value, 16)\<close>: an optional \<open>+\<close>, then at least one hexadecimal digit.\<close>

definition hex_value :: "char \<Rightarrow> nat" where
  "hex_value c =
     (if is_ascii_digit c then byte c - 48
      else if is_lower_hex c then byte c - 87
      else byte c - 55)"

fun parse_hex_digits :: "nat \<Rightarrow> string \<Rightarrow> nat option" where
  "parse_hex_digits acc [] = Some acc"
| "parse_hex_digits acc (c # s) =
     (if is_ascii_hexdigit c
      then (let v = acc * 16 + hex_value c in
            if v < 2 ^ 64 then parse_hex_digits v s else None)
      else None)"

definition from_str_radix_16 :: "string \<Rightarrow> nat option" where
  "from_str_radix_16 s =
     (case s of
        [] \<Rightarrow> None
      | c # s' \<Rightarrow>
          if s' = [] \<and> (c = CHR ''+'' \<or> c = CHR ''-'') then None
          else if c = CHR ''+'' then parse_hex_digits 0 s'
          else parse_hex_digits 0 s)"

definition parse_hex :: "nat \<Rightarrow> string \<Rightarrow> nat \<Rightarrow> nat option" where
  "parse_hex bound value width =
     (if length value = width
      then Option.bind (from_str_radix_16 value) (\<lambda>v. if v < bound then Some v else None)
      else None)"

text \<open>The four optional fields the loop over the parts fills; a later part overwrites.\<close>

record pci_parts =
  pp_vendor :: "nat option"
  pp_device :: "nat option"
  pp_subsystem :: "nat option"
  pp_revision :: "nat option"

definition pci_part :: "string \<Rightarrow> pci_parts \<Rightarrow> pci_parts" where
  "pci_part part acc =
     (case strip_prefix ''VEN_'' part of
        Some v \<Rightarrow> acc\<lparr>pp_vendor := parse_hex (2 ^ 16) v 4\<rparr>
      | None \<Rightarrow> (case strip_prefix ''DEV_'' part of
          Some v \<Rightarrow> acc\<lparr>pp_device := parse_hex (2 ^ 16) v 4\<rparr>
        | None \<Rightarrow> (case strip_prefix ''SUBSYS_'' part of
            Some v \<Rightarrow> acc\<lparr>pp_subsystem := parse_hex (2 ^ 32) v 8\<rparr>
          | None \<Rightarrow> (case strip_prefix ''REV_'' part of
              Some v \<Rightarrow> acc\<lparr>pp_revision := parse_hex (2 ^ 8) v 2\<rparr>
            | None \<Rightarrow> acc))))"

definition pci_separator :: "char \<Rightarrow> bool" where
  "pci_separator c \<longleftrightarrow> byte c = 92 \<or> c = CHR ''&''"

definition parse_pci_instance :: "string \<Rightarrow> (u16 \<times> u16 \<times> u16 \<times> u16 \<times> u8, binding_error) result" where
  "parse_pci_instance value =
     (let bad = InvalidPciIdentity ''instanceId'' in
      if length value > 512 \<or> has_control value then Err bad
      else (case split_on pci_separator (to_ascii_uppercase value) of
              [] \<Rightarrow> Err bad
            | first # parts \<Rightarrow>
                if first \<noteq> ''PCI'' then Err bad
                else
                  (let p = fold pci_part parts
                             \<lparr>pp_vendor = None, pp_device = None, pp_subsystem = None,
                              pp_revision = None\<rparr> in
                   and_then (ok_or bad (pp_subsystem p)) (\<lambda>subsystem.
                   and_then (ok_or bad (pp_vendor p)) (\<lambda>vendor.
                   and_then (ok_or bad (pp_device p)) (\<lambda>device.
                   and_then (ok_or bad (pp_revision p)) (\<lambda>revision.
                   Ok (of_nat vendor, of_nat device, of_nat (subsystem mod 65536),
                       of_nat (subsystem div 65536), of_nat revision))))))))"

section \<open>Records\<close>

definition pci_validate :: "'v pci_device_binding \<Rightarrow> (unit, binding_error) result" where
  "pci_validate d =
     and_then (require_schema (pci_schema_version d)) (\<lambda>_.
     and_then (require_guid (container_id d) ''containerId'') (\<lambda>_.
     and_then (require_guid (class_guid d) ''classGuid'') (\<lambda>_.
     and_then (require_text (driver_provider d) ''driverProvider'') (\<lambda>_.
     and_then (require_text (driver_version d) ''driverVersion'') (\<lambda>_.
     and_then (require_text (pci_observed_at_utc d) ''observedAtUtc'') (\<lambda>_.
     and_then (require_inf_leaf (published_inf d) ''publishedInf'') (\<lambda>_.
     and_then (parse_pci_instance (instance_id d)) (\<lambda>parsed.
     if parsed \<noteq> (vendor_id d, device_id d, subsystem_vendor_id d, subsystem_device_id d,
                   revision_id d)
     then Err DeviceIdentityMismatch else Ok ()))))))))"

definition pci_receipt_id ::
  "('v pci_device_binding \<Rightarrow> string option) \<Rightarrow> (string \<Rightarrow> string) \<Rightarrow> 'v pci_device_binding
   \<Rightarrow> (binding_receipt_id, binding_error) result" where
  "pci_receipt_id to_vec sha256_hex d =
     and_then (pci_validate d) (\<lambda>_. digest_serializable to_vec sha256_hex d)"

definition same_pnp_device :: "'v pci_device_binding \<Rightarrow> 'v pci_device_binding \<Rightarrow> bool" where
  "same_pnp_device a b \<longleftrightarrow>
     eq_ignore_ascii_case (instance_id a) (instance_id b)
     \<and> eq_ignore_ascii_case (container_id a) (container_id b)
     \<and> eq_ignore_ascii_case (class_guid a) (class_guid b)
     \<and> vendor_id a = vendor_id b
     \<and> device_id a = device_id b
     \<and> subsystem_vendor_id a = subsystem_vendor_id b
     \<and> subsystem_device_id a = subsystem_device_id b
     \<and> revision_id a = revision_id b"

definition nic_validate :: "'v network_adapter_binding \<Rightarrow> (unit, binding_error) result" where
  "nic_validate n =
     and_then (require_schema (nic_schema_version n)) (\<lambda>_.
     and_then (require_guid (adapter_name n) ''adapterName'') (\<lambda>_.
     and_then (require_guid (interface_guid n) ''interfaceGuid'') (\<lambda>_.
     if \<not> eq_ignore_ascii_case (adapter_name n) (interface_guid n) then Err AdapterGuidMismatch
     else if interface_luid n = 0
         \<or> interface_index n = 0
         \<or> \<not> (6 \<le> length (physical_address n) \<and> length (physical_address n) \<le> 32)
         \<or> list_all (\<lambda>b. b = 0) (physical_address n)
     then Err IncompleteAdapterIdentity
     else
     and_then (require_text (friendly_name n) ''friendlyName'') (\<lambda>_.
     and_then (require_text (interface_description n) ''interfaceDescription'') (\<lambda>_.
     and_then (require_text (nic_observed_at_utc n) ''observedAtUtc'') (\<lambda>_.
     pci_validate (nic_device n)))))))"

definition nic_receipt_id ::
  "('v network_adapter_binding \<Rightarrow> string option) \<Rightarrow> (string \<Rightarrow> string) \<Rightarrow> 'v network_adapter_binding
   \<Rightarrow> (binding_receipt_id, binding_error) result" where
  "nic_receipt_id to_vec sha256_hex n =
     and_then (nic_validate n) (\<lambda>_. digest_serializable to_vec sha256_hex n)"

section \<open>Lemmas\<close>

lemma require_schema_Ok [guard_simps]:
  "require_schema v = Ok u \<longleftrightarrow> v = NATIVE_BINDING_SCHEMA_VERSION"
  by (simp add: require_schema_def)

lemma require_text_Ok [guard_simps]:
  "require_text v f = Ok u \<longleftrightarrow> \<not> is_blank v \<and> length v \<le> 512 \<and> \<not> has_control v"
  by (auto simp: require_text_def)

lemma pci_validate_Ok:
  "pci_validate d = Ok u \<longleftrightarrow>
     pci_schema_version d = NATIVE_BINDING_SCHEMA_VERSION
     \<and> require_guid (container_id d) ''containerId'' = Ok ()
     \<and> require_guid (class_guid d) ''classGuid'' = Ok ()
     \<and> require_text (driver_provider d) ''driverProvider'' = Ok ()
     \<and> require_text (driver_version d) ''driverVersion'' = Ok ()
     \<and> require_text (pci_observed_at_utc d) ''observedAtUtc'' = Ok ()
     \<and> require_inf_leaf (published_inf d) ''publishedInf'' = Ok ()
     \<and> parse_pci_instance (instance_id d)
         = Ok (vendor_id d, device_id d, subsystem_vendor_id d, subsystem_device_id d,
               revision_id d)"
  by (simp add: pci_validate_def and_then_eq_Ok require_schema_Ok)

lemma nic_validate_device: "nic_validate n = Ok u \<Longrightarrow> pci_validate (nic_device n) = Ok ()"
  by (auto simp: nic_validate_def and_then_eq_Ok split: if_splits)

lemma same_pnp_device_refl: "same_pnp_device d d"
  by (simp add: same_pnp_device_def eq_ignore_ascii_case_def)

lemma same_pnp_device_sym: "same_pnp_device a b \<Longrightarrow> same_pnp_device b a"
  by (simp add: same_pnp_device_def eq_ignore_ascii_case_def)

lemma same_pnp_device_trans: "same_pnp_device a b \<Longrightarrow> same_pnp_device b c \<Longrightarrow> same_pnp_device a c"
  by (simp add: same_pnp_device_def eq_ignore_ascii_case_def)

section \<open>Properties\<close>

text \<open>A graphics adapter and a network adapter as the inventory reports them.\<close>

definition sample_gpu :: "unit pci_device_binding" where
  "sample_gpu =
     \<lparr>pci_schema_version = 1,
      instance_id = ''PCI'' @ [char_of (92 :: nat)] @ ''VEN_10DE&DEV_2684&SUBSYS_16F110DE&REV_A1'',
      container_id = ''{00000000-0000-0000-ffff-ffffffffffff}'',
      class_guid = ''{4d36e968-e325-11ce-bfc1-08002be10318}'',
      vendor_id = 0x10DE, device_id = 0x2684, subsystem_vendor_id = 0x10DE,
      subsystem_device_id = 0x16F1, revision_id = 0xA1,
      driver_provider = ''NVIDIA'', driver_version = ''32.0.15.6094'', published_inf = ''oem12.inf'',
      pci_observed_at_utc = ''2026-01-01T00:00:00Z'', pci_unknown = fmempty\<rparr>"

definition sample_nic :: "unit network_adapter_binding" where
  "sample_nic =
     \<lparr>nic_schema_version = 1, adapter_name = ''{11111111-2222-3333-4444-555555555555}'',
      interface_guid = ''{11111111-2222-3333-4444-555555555555}'', interface_luid = 7,
      interface_index = 3, friendly_name = ''Ethernet'', interface_description = ''Controller'',
      physical_address = [2, 0, 0, 0, 0, 1], nic_device = sample_gpu,
      nic_observed_at_utc = ''2026-01-01T00:00:00Z'', nic_unknown = fmempty\<rparr>"

lemma hex_digits_of_sample:
  "hex_value (CHR ''0'') = 0" "hex_value (CHR ''1'') = 1" "hex_value (CHR ''2'') = 2"
  "hex_value (CHR ''4'') = 4" "hex_value (CHR ''6'') = 6" "hex_value (CHR ''8'') = 8"
  "hex_value (CHR ''A'') = 10" "hex_value (CHR ''D'') = 13" "hex_value (CHR ''E'') = 14"
  "hex_value (CHR ''F'') = 15"
  "is_ascii_hexdigit (CHR ''0'')" "is_ascii_hexdigit (CHR ''1'')" "is_ascii_hexdigit (CHR ''2'')"
  "is_ascii_hexdigit (CHR ''4'')" "is_ascii_hexdigit (CHR ''6'')" "is_ascii_hexdigit (CHR ''8'')"
  "is_ascii_hexdigit (CHR ''A'')" "is_ascii_hexdigit (CHR ''D'')" "is_ascii_hexdigit (CHR ''E'')"
  "is_ascii_hexdigit (CHR ''F'')"
  by code_simp+

lemma sample_gpu_identity:
  "parse_pci_instance (instance_id sample_gpu) = Ok (0x10DE, 0x2684, 0x10DE, 0x16F1, 0xA1)"
proof -
  have split: "split_on pci_separator (to_ascii_uppercase (instance_id sample_gpu))
      = [''PCI'', ''VEN_10DE'', ''DEV_2684'', ''SUBSYS_16F110DE'', ''REV_A1'']"
    and small: "length (instance_id sample_gpu) \<le> 512" "\<not> has_control (instance_id sample_gpu)"
    by code_simp+
  show ?thesis
    using small
    by (simp add: parse_pci_instance_def split Let_def pci_part_def strip_prefix_def parse_hex_def
        from_str_radix_16_def hex_digits_of_sample ok_or_def)
qed

lemma sample_gpu_valid: "pci_validate sample_gpu = Ok ()"
proof -
  have "(require_guid (container_id sample_gpu) ''containerId'' = Ok ())
      \<and> (require_guid (class_guid sample_gpu) ''classGuid'' = Ok ())
      \<and> (require_text (driver_provider sample_gpu) ''driverProvider'' = Ok ())
      \<and> (require_text (driver_version sample_gpu) ''driverVersion'' = Ok ())
      \<and> (require_text (pci_observed_at_utc sample_gpu) ''observedAtUtc'' = Ok ())
      \<and> (require_inf_leaf (published_inf sample_gpu) ''publishedInf'' = Ok ())"
    by code_simp
  then show ?thesis
    using sample_gpu_identity
    by (simp add: pci_validate_Ok sample_gpu_def NATIVE_BINDING_SCHEMA_VERSION_def)
qed

lemma sample_nic_valid: "nic_validate sample_nic = Ok ()"
proof -
  have "(require_guid (adapter_name sample_nic) ''adapterName'' = Ok ())
      \<and> (require_guid (interface_guid sample_nic) ''interfaceGuid'' = Ok ())
      \<and> (require_text (friendly_name sample_nic) ''friendlyName'' = Ok ())
      \<and> (require_text (interface_description sample_nic) ''interfaceDescription'' = Ok ())
      \<and> (require_text (nic_observed_at_utc sample_nic) ''observedAtUtc'' = Ok ())
      \<and> (eq_ignore_ascii_case (adapter_name sample_nic) (interface_guid sample_nic))"
    by code_simp
  then show ?thesis
    using sample_gpu_valid
    by (simp add: nic_validate_def sample_nic_def NATIVE_BINDING_SCHEMA_VERSION_def require_schema_def)
qed

lemma uppercase_of_lowercase: "to_ascii_uppercase (to_ascii_lowercase s) = to_ascii_uppercase s"
proof -
  have "is_ascii_uppercase c \<Longrightarrow> is_ascii_lowercase (char_of (byte c + 32))
      \<and> char_of (byte (char_of (byte c + 32)) - 32) = c \<and> \<not> is_ascii_lowercase c" for c
    by (auto simp: is_ascii_uppercase_def is_ascii_lowercase_def byte_def)
  then show ?thesis
    unfolding to_ascii_uppercase_def to_ascii_lowercase_def list.map_comp
    by (intro map_cong refl) (simp add: comp_def)
qed

lemma same_uppercase: "eq_ignore_ascii_case a b \<Longrightarrow> to_ascii_uppercase a = to_ascii_uppercase b"
  by (metis eq_ignore_ascii_case_def uppercase_of_lowercase)

lemma parse_pci_instance_uppercase:
  assumes "parse_pci_instance a = Ok x" and "parse_pci_instance b = Ok y"
    and "to_ascii_uppercase a = to_ascii_uppercase b"
  shows "x = y"
  using assms by (auto simp: parse_pci_instance_def Let_def split: if_splits)

text \<open>
  A validated PCI binding cannot lie about its device: vendor, device, subsystem and revision
  are the ones its Plug and Play instance identity spells, so two valid bindings of the same
  instance, whatever the case of its letters, agree on all of them.
\<close>

theorem instance_identity_determines_device:
  assumes "pci_validate a = Ok ()" and "pci_validate b = Ok ()"
    and "eq_ignore_ascii_case (instance_id a) (instance_id b)"
  shows "vendor_id a = vendor_id b \<and> device_id a = device_id b
     \<and> subsystem_vendor_id a = subsystem_vendor_id b
     \<and> subsystem_device_id a = subsystem_device_id b \<and> revision_id a = revision_id b"
proof -
  note a = assms(1) [unfolded pci_validate_Ok] and b = assms(2) [unfolded pci_validate_Ok]
  show ?thesis
    using parse_pci_instance_uppercase [OF _ _ same_uppercase [OF assms(3)]] a b by blast
qed

theorem instance_identity_determines_device_witness:
  "vendor_id sample_gpu = vendor_id sample_gpu \<and> device_id sample_gpu = device_id sample_gpu
     \<and> subsystem_vendor_id sample_gpu = subsystem_vendor_id sample_gpu
     \<and> subsystem_device_id sample_gpu = subsystem_device_id sample_gpu
     \<and> revision_id sample_gpu = revision_id sample_gpu"
  by (rule instance_identity_determines_device [OF sample_gpu_valid sample_gpu_valid])
    (simp add: eq_ignore_ascii_case_def)

end
