(* ===== verification/Handoff.thy ===== *)
theory Handoff
  imports Frametime_Prelude
begin

text \<open>
  The persisted reboot transaction (\<open>crates/frametime-domain/src/handoff.rs\<close>): transaction
  identifiers, the stage machine, the immutable runtime record, and the test that a transaction
  authorizes work at a stage.  A JSON value of \<open>serde_json\<close> is the type variable \<open>'v\<close>; the
  accessors the deserializer calls on it are the record \<open>json_access\<close>, a parameter.  The lemmas
  characterise authorization, the text form of stages and the transitions the stage machine can
  take.
\<close>

section \<open>Access to JSON values\<close>

record 'v json_access =
  as_str :: "'v \<Rightarrow> string option"
  as_u64 :: "'v \<Rightarrow> u64 option"
  as_f64 :: "'v \<Rightarrow> f64 option"
  is_bool_true :: "'v \<Rightarrow> bool"
  as_array :: "'v \<Rightarrow> 'v list option"
  as_object :: "'v \<Rightarrow> 'v fields option"

definition tolerant_string :: "'v json_access \<Rightarrow> 'v option \<Rightarrow> string option" where
  "tolerant_string J value = Option.bind value (as_str J)"

definition tolerant_record :: "('v \<Rightarrow> 'r option) \<Rightarrow> 'v option \<Rightarrow> 'r option" where
  "tolerant_record from_value value = Option.bind value from_value"

text \<open>\<open>u64\<close> read as \<open>u8\<close> through \<open>u8::try_from\<close>.\<close>

definition u8_try_from :: "u64 \<Rightarrow> u8 option" where
  "u8_try_from w = (if unat w < 256 then Some (of_nat (unat w)) else None)"

definition u32_try_from :: "u64 \<Rightarrow> u32 option" where
  "u32_try_from w = (if unat w < 2 ^ 32 then Some (of_nat (unat w)) else None)"

section \<open>Transaction identifiers\<close>

datatype transaction_id = TransactionId string

fun transaction_id_as_str :: "transaction_id \<Rightarrow> string" where
  "transaction_id_as_str (TransactionId s) = s"

definition transaction_id_parse :: "string \<Rightarrow> (transaction_id, string) result" where
  "transaction_id_parse value =
     (if length value = 32 \<and> list_all is_lower_hex value then Ok (TransactionId value)
      else Err ''transaction id must be 32 lowercase hexadecimal characters'')"

section \<open>Stages\<close>

datatype reboot_stage =
    PhaseOneSafeModeArmed
  | PhaseTwoSafeMode
  | PhaseThreeArmed
  | PhaseThreeComplete
  | RecoveryRequired
  | StageUnknown string

definition stage_parse :: "string \<Rightarrow> reboot_stage" where
  "stage_parse value =
     (if value = ''phase1SafeModeArmed'' then PhaseOneSafeModeArmed
      else if value = ''phase2SafeMode'' then PhaseTwoSafeMode
      else if value = ''phase3Armed'' then PhaseThreeArmed
      else if value = ''phase3Complete'' then PhaseThreeComplete
      else if value = ''recoveryRequired'' then RecoveryRequired
      else StageUnknown value)"

fun stage_as_str :: "reboot_stage \<Rightarrow> string" where
  "stage_as_str PhaseOneSafeModeArmed = ''phase1SafeModeArmed''"
| "stage_as_str PhaseTwoSafeMode = ''phase2SafeMode''"
| "stage_as_str PhaseThreeArmed = ''phase3Armed''"
| "stage_as_str PhaseThreeComplete = ''phase3Complete''"
| "stage_as_str RecoveryRequired = ''recoveryRequired''"
| "stage_as_str (StageUnknown value) = value"

fun allows_transition_to :: "reboot_stage \<Rightarrow> reboot_stage \<Rightarrow> bool" where
  "allows_transition_to PhaseOneSafeModeArmed PhaseTwoSafeMode = True"
| "allows_transition_to PhaseTwoSafeMode PhaseThreeArmed = True"
| "allows_transition_to PhaseThreeArmed PhaseThreeComplete = True"
| "allows_transition_to _ RecoveryRequired = True"
| "allows_transition_to _ _ = False"

section \<open>Records\<close>

record 'v runtime_record =
  rt_generation :: string
  rt_manifest_sha256 :: string
  rt_payload_contract_hash :: string
  rt_executable_path :: string
  rt_executable_sha256 :: string
  rt_unknown :: "'v fields"

record 'v driver_package_record =
  dp_published_name :: string
  dp_provider :: "string option"
  dp_class_guid :: "string option"
  dp_version :: "string option"
  dp_unknown :: "'v fields"

record 'v reboot_transaction =
  tx_schema_version :: u8
  tx_id :: "transaction_id option"
  tx_user_sid :: "string option"
  tx_stage :: reboot_stage
  tx_runtime :: "'v runtime_record option"
  tx_driver_package :: "'v driver_package_record option"
  tx_created_utc :: "string option"
  tx_updated_utc :: "string option"
  tx_unknown :: "'v fields"

definition REBOOT_TRANSACTION_SCHEMA_VERSION :: u8 where
  "REBOOT_TRANSACTION_SCHEMA_VERSION = 1"

definition transaction_default :: "'v reboot_transaction" where
  "transaction_default =
     \<lparr>tx_schema_version = REBOOT_TRANSACTION_SCHEMA_VERSION, tx_id = None, tx_user_sid = None,
      tx_stage = StageUnknown ''missing'', tx_runtime = None, tx_driver_package = None,
      tx_created_utc = None, tx_updated_utc = None, tx_unknown = fmempty\<rparr>"

section \<open>Field validators\<close>

definition valid_generation_id :: "string \<Rightarrow> bool" where
  "valid_generation_id value \<longleftrightarrow> length value = 32 \<and> list_all is_lower_hex value"

definition valid_sha256 :: "string \<Rightarrow> bool" where
  "valid_sha256 value \<longleftrightarrow> length value = 64 \<and> list_all is_ascii_hexdigit value"

definition valid_relative_path :: "string \<Rightarrow> bool" where
  "valid_relative_path value \<longleftrightarrow>
     value \<noteq> []
     \<and> \<not> (hd value = CHR ''/'' \<or> byte (hd value) = 92)
     \<and> \<not> list_ex (\<lambda>c. byte c = 92 \<or> c = CHR '':'' \<or> byte c = 0) value
     \<and> list_all (\<lambda>part. part \<noteq> [] \<and> part \<noteq> ''.'' \<and> part \<noteq> ''..'')
         (split_on (\<lambda>c. c = CHR ''/'') value)"

definition canonical_decimal :: "string \<Rightarrow> bool" where
  "canonical_decimal value \<longleftrightarrow>
     value \<noteq> [] \<and> list_all is_ascii_digit value \<and> (value = ''0'' \<or> hd value \<noteq> CHR ''0'')"

definition valid_user_sid :: "string \<Rightarrow> bool" where
  "valid_user_sid value =
     (case split_on (\<lambda>c. c = CHR ''-'') value of
        s # one # rest \<Rightarrow>
          if s \<noteq> ''S'' \<or> one \<noteq> ''1'' then False
          else (case rest of
                  [] \<Rightarrow> False
                | authority # subauthorities \<Rightarrow>
                    if \<not> canonical_decimal authority \<or> parse_unsigned (2 ^ 64) authority = None
                    then False
                    else 1 \<le> length subauthorities \<and> length subauthorities \<le> 15
                         \<and> list_all
                             (\<lambda>part. canonical_decimal part \<and> parse_unsigned (2 ^ 32) part \<noteq> None)
                             subauthorities)
      | _ \<Rightarrow> False)"

definition runtime_is_complete :: "'v runtime_record \<Rightarrow> bool" where
  "runtime_is_complete r \<longleftrightarrow>
     valid_generation_id (rt_generation r)
     \<and> valid_sha256 (rt_manifest_sha256 r)
     \<and> valid_sha256 (rt_payload_contract_hash r)
     \<and> valid_relative_path (rt_executable_path r)
     \<and> valid_sha256 (rt_executable_sha256 r)"

section \<open>Authorization and transitions\<close>

definition is_authorized_at :: "'v reboot_transaction \<Rightarrow> reboot_stage \<Rightarrow> bool" where
  "is_authorized_at t expected_stage \<longleftrightarrow>
     tx_schema_version t = REBOOT_TRANSACTION_SCHEMA_VERSION
     \<and> tx_id t \<noteq> None
     \<and> (case tx_user_sid t of None \<Rightarrow> False | Some sid \<Rightarrow> valid_user_sid sid)
     \<and> (case tx_runtime t of None \<Rightarrow> False | Some r \<Rightarrow> runtime_is_complete r)
     \<and> tx_stage t = expected_stage"

definition transition_to ::
  "'v reboot_transaction \<Rightarrow> reboot_stage \<Rightarrow> ('v reboot_transaction, string) result" where
  "transition_to t next =
     (if \<not> allows_transition_to (tx_stage t) next
      then Err ''reboot transaction transition is not allowed''
      else Ok (t\<lparr>tx_stage := next\<rparr>))"

section \<open>Tolerant deserialization\<close>

text \<open>
  The fields are removed from the map one by one; what is left is retained as unknown.  The
  derived \<open>from_value\<close> of the two nested records is a parameter.
\<close>

definition transaction_deserialize ::
  "'v json_access \<Rightarrow> ('v \<Rightarrow> 'v runtime_record option) \<Rightarrow> ('v \<Rightarrow> 'v driver_package_record option)
   \<Rightarrow> 'v fields \<Rightarrow> 'v reboot_transaction" where
  "transaction_deserialize J runtime_from_value package_from_value raw =
     (let remove = (\<lambda>k. fmlookup raw k) in
      \<lparr>tx_schema_version =
         (case Option.bind (Option.bind (remove ''schemaVersion'') (as_u64 J)) u8_try_from of
            None \<Rightarrow> 0 | Some v \<Rightarrow> v),
       tx_id =
         Option.bind (Option.bind (remove ''transactionId'') (as_str J))
           (\<lambda>v. case transaction_id_parse v of Ok i \<Rightarrow> Some i | Err _ \<Rightarrow> None),
       tx_user_sid = tolerant_string J (remove ''initiatorUserSid''),
       tx_stage =
         (case Option.bind (remove ''stage'') (as_str J) of
            None \<Rightarrow> StageUnknown ''missing'' | Some v \<Rightarrow> stage_parse v),
       tx_runtime = tolerant_record runtime_from_value (remove ''runtime''),
       tx_driver_package = tolerant_record package_from_value (remove ''driverPackage''),
       tx_created_utc = tolerant_string J (remove ''createdUtc''),
       tx_updated_utc = tolerant_string J (remove ''updatedUtc''),
       tx_unknown =
         fmdrop ''transactionId'' (fmdrop ''initiatorUserSid'' (fmdrop ''stage''
         (fmdrop ''runtime'' (fmdrop ''driverPackage'' (fmdrop ''schemaVersion''
         (fmdrop ''createdUtc'' (fmdrop ''updatedUtc'' raw)))))))\<rparr>)"

section \<open>Lemmas\<close>

lemma stage_as_str_parse [simp]: "stage_as_str (stage_parse v) = v"
  by (simp add: stage_parse_def)

lemma is_authorized_at_stage: "is_authorized_at t s \<Longrightarrow> tx_stage t = s"
  by (simp add: is_authorized_at_def)

lemma is_authorized_at_unique: "is_authorized_at t s \<Longrightarrow> is_authorized_at t s' \<Longrightarrow> s = s'"
  by (auto simp: is_authorized_at_def)

lemma transition_to_Ok [guard_simps]:
  "transition_to t n = Ok t' \<longleftrightarrow> allows_transition_to (tx_stage t) n \<and> t' = t\<lparr>tx_stage := n\<rparr>"
  by (auto simp: transition_to_def)

lemma allows_transition_iff:
  "allows_transition_to s n \<longleftrightarrow>
     n = RecoveryRequired
     \<or> (s = PhaseOneSafeModeArmed \<and> n = PhaseTwoSafeMode)
     \<or> (s = PhaseTwoSafeMode \<and> n = PhaseThreeArmed)
     \<or> (s = PhaseThreeArmed \<and> n = PhaseThreeComplete)"
  by (cases s; cases n) auto

text \<open>A transition changes the stage and nothing the authorization test reads besides it.\<close>

lemma is_authorized_at_transition:
  "transition_to t n = Ok t' \<Longrightarrow> is_authorized_at t s \<Longrightarrow> is_authorized_at t' n"
  by (auto simp: is_authorized_at_def transition_to_Ok)

text \<open>The stages a transaction can still reach: a run of accepted transitions.\<close>

inductive stage_run :: "reboot_stage \<Rightarrow> reboot_stage list \<Rightarrow> reboot_stage \<Rightarrow> bool" where
  stage_run_refl: "stage_run s [] s"
| stage_run_step:
    "allows_transition_to s n \<Longrightarrow> stage_run n ns e \<Longrightarrow> stage_run s (n # ns) e"

inductive_cases stage_run_NilE: "stage_run s [] e"
inductive_cases stage_run_ConsE: "stage_run s (n # ns) e"
inductive_simps stage_run_Cons: "stage_run s (n # ns) e"

lemma stage_run_recovery: "stage_run s ns e \<Longrightarrow> s = RecoveryRequired \<Longrightarrow> e = RecoveryRequired"
  by (induction rule: stage_run.induct) (auto simp: allows_transition_iff)

fun stage_rank :: "reboot_stage \<Rightarrow> nat" where
  "stage_rank PhaseOneSafeModeArmed = 0"
| "stage_rank PhaseTwoSafeMode = 1"
| "stage_rank PhaseThreeArmed = 2"
| "stage_rank PhaseThreeComplete = 3"
| "stage_rank RecoveryRequired = 4"
| "stage_rank (StageUnknown v) = 3"

lemma allows_transition_rank:
  "allows_transition_to s n \<Longrightarrow> n \<noteq> RecoveryRequired \<Longrightarrow> stage_rank n = Suc (stage_rank s)"
  by (auto simp: allows_transition_iff)

lemma stage_run_rank:
  "stage_run s ns e \<Longrightarrow> e \<noteq> RecoveryRequired \<Longrightarrow> stage_rank e = stage_rank s + length ns"
proof (induction rule: stage_run.induct)
  case (stage_run_refl s)
  then show ?case by simp
next
  case (stage_run_step s n ns e)
  then have "n \<noteq> RecoveryRequired"
    using stage_run_recovery by blast
  with stage_run_step show ?case
    by (simp add: allows_transition_rank)
qed

lemma u8_try_from_Some: "u8_try_from w = Some v \<Longrightarrow> unat v = unat w"
  by (auto simp: u8_try_from_def unsigned_ucast_eq take_bit_nat_eq_self split: if_splits)

section \<open>Properties\<close>

text \<open>The code advances a transaction one accepted transition at a time.\<close>

fun apply_transitions ::
  "'v reboot_transaction \<Rightarrow> reboot_stage list \<Rightarrow> ('v reboot_transaction, string) result" where
  "apply_transitions t [] = Ok t"
| "apply_transitions t (n # ns) = and_then (transition_to t n) (\<lambda>t'. apply_transitions t' ns)"

lemma apply_transitions_run:
  "apply_transitions t ns = Ok t' \<Longrightarrow>
     stage_run (tx_stage t) ns (tx_stage t') \<and> t' = t\<lparr>tx_stage := tx_stage t'\<rparr>"
proof (induction ns arbitrary: t)
  case Nil
  then show ?case by (auto intro: stage_run_refl)
next
  case (Cons n ns)
  from Cons.prems have n: "allows_transition_to (tx_stage t) n"
      "apply_transitions (t\<lparr>tx_stage := n\<rparr>) ns = Ok t'"
    by (auto simp: and_then_eq_Ok transition_to_Ok)
  from Cons.IH [OF n(2)] n(1) show ?case by (auto intro: stage_run_step)
qed

text \<open>
  A reboot transaction only moves forward: along any sequence of accepted transitions nothing
  but the stage changes, recovery is final, and without recovery each transition advances the
  stage by exactly one, so no stage is skipped or entered twice.
\<close>

theorem transaction_only_advances:
  assumes "apply_transitions t ns = Ok t'"
  shows "t' = t\<lparr>tx_stage := tx_stage t'\<rparr>
     \<and> (tx_stage t = RecoveryRequired \<longrightarrow> tx_stage t' = RecoveryRequired)
     \<and> (tx_stage t' \<noteq> RecoveryRequired \<longrightarrow>
          stage_rank (tx_stage t') = stage_rank (tx_stage t) + length ns)"
  using apply_transitions_run [OF assms] stage_run_recovery stage_run_rank by blast

theorem transaction_only_advances_witness:
  "stage_rank PhaseThreeComplete = stage_rank PhaseOneSafeModeArmed + 3"
  using transaction_only_advances
    [of "(transaction_default :: unit reboot_transaction)\<lparr>tx_stage := PhaseOneSafeModeArmed\<rparr>"
      "[PhaseTwoSafeMode, PhaseThreeArmed, PhaseThreeComplete]"
      "transaction_default\<lparr>tx_stage := PhaseThreeComplete\<rparr>"]
  by (simp add: transition_to_def)

text \<open>A transaction that is authorized at a chosen stage.\<close>

definition demo_sid :: string where
  "demo_sid = ''S-1-5-18''"

definition demo_runtime :: "unit runtime_record" where
  "demo_runtime =
     \<lparr>rt_generation = replicate 32 (CHR ''a''), rt_manifest_sha256 = replicate 64 (CHR ''b''),
      rt_payload_contract_hash = replicate 64 (CHR ''c''), rt_executable_path = ''bin/frametime.exe'',
      rt_executable_sha256 = replicate 64 (CHR ''d''), rt_unknown = fmempty\<rparr>"

definition demo_transaction :: "reboot_stage \<Rightarrow> unit reboot_transaction" where
  "demo_transaction stage = transaction_default
     \<lparr>tx_id := Some (TransactionId ''0123456789abcdef0123456789abcdef''),
      tx_user_sid := Some demo_sid, tx_stage := stage, tx_runtime := Some demo_runtime\<rparr>"

lemma demo_runtime_complete: "runtime_is_complete demo_runtime"
  by code_simp

lemma demo_sid_valid: "valid_user_sid demo_sid"
proof -
  have "split_on (\<lambda>c. c = CHR ''-'') demo_sid = [''S'', ''1'', ''5'', ''18'']" by code_simp
  moreover have "canonical_decimal ''5'' \<and> canonical_decimal ''18''" by code_simp
  moreover have "byte (CHR ''5'') = 53" "byte (CHR ''1'') = 49" "byte (CHR ''8'') = 56"
    and "is_ascii_digit (CHR ''5'')" "is_ascii_digit (CHR ''1'')" "is_ascii_digit (CHR ''8'')"
    by code_simp+
  ultimately show ?thesis
    by (simp add: valid_user_sid_def parse_unsigned_def)
qed

lemma demo_transaction_authorized: "is_authorized_at (demo_transaction g) g"
  using demo_runtime_complete demo_sid_valid
  by (simp add: is_authorized_at_def demo_transaction_def transaction_default_def
      REBOOT_TRANSACTION_SCHEMA_VERSION_def)

text \<open>
  An accepted transition carries the authorization along: an authorized transaction is
  authorized at its new stage and at no other.
\<close>

theorem transition_moves_authorization:
  assumes "is_authorized_at t stage" and "transition_to t next = Ok t'"
  shows "is_authorized_at t' other \<longleftrightarrow> other = next"
  using is_authorized_at_transition [OF assms(2,1)] is_authorized_at_unique by blast

theorem transition_moves_authorization_witness:
  "\<not> is_authorized_at (demo_transaction PhaseThreeComplete) PhaseThreeArmed"
proof -
  have "transition_to (demo_transaction PhaseThreeArmed) PhaseThreeComplete =
      Ok (demo_transaction PhaseThreeComplete)"
    by (simp add: transition_to_def demo_transaction_def)
  note transition_moves_authorization [OF demo_transaction_authorized this]
  then show ?thesis by simp
qed

end
