(* ===== verification/Evidence.thy ===== *)
theory Evidence
  imports Binding Handoff
begin

text \<open>
  Receipts of read-only prerequisite observations
  (\<open>crates/frametime-domain/src/evidence.rs\<close>): the closed set of subjects, their validation, the
  receipt bound to one step, and the evidence document.  Serializing a receipt identity and
  SHA-256 are parameters.  The lemmas say what an accepted receipt guarantees and that the
  document answers with the receipt that was stored last.
\<close>

datatype evidence_requirement = EvidenceNone | DurableReceipt

datatype evidence_error =
    EvidenceUnsupportedSchema
  | StepMismatch
  | ReceiptMismatch
  | EvidenceUnknownFields
  | InvalidField string
  | InvalidSubjectSet
  | InvalidBinding string

fun binding_error_text :: "binding_error \<Rightarrow> string" where
  "binding_error_text (InvalidGuid f) = f @ '' is not a canonical braced GUID''"
| "binding_error_text (InvalidPciIdentity f) = f @ '' is not a canonical PCI instance identity''"
| "binding_error_text (InvalidPublishedName f) = f @ '' is not a canonical driver INF leaf''"
| "binding_error_text (InvalidText f) = f @ '' contains invalid or missing text''"
| "binding_error_text DeviceIdentityMismatch =
     ''device numeric identity disagrees with its PCI instance id''"
| "binding_error_text AdapterGuidMismatch =
     ''network adapter permanent name and interface GUID disagree''"
| "binding_error_text IncompleteAdapterIdentity =
     ''network adapter has no usable interface or physical identity''"
| "binding_error_text UnsupportedSchema = ''binding schema version is unsupported''"
| "binding_error_text InvalidReceiptId = ''binding receipt digest is invalid''"

fun evidence_error_text :: "evidence_error \<Rightarrow> string" where
  "evidence_error_text EvidenceUnsupportedSchema = ''evidence schema version is unsupported''"
| "evidence_error_text StepMismatch = ''evidence step is not the exact subject binding''"
| "evidence_error_text ReceiptMismatch =
     ''evidence receipt id does not match its canonical subject''"
| "evidence_error_text EvidenceUnknownFields =
     ''evidence contains unknown fields and cannot authorize work''"
| "evidence_error_text (InvalidField f) = ''evidence contains an empty or invalid field: '' @ f"
| "evidence_error_text InvalidSubjectSet =
     ''evidence subject set is empty, duplicated, or noncanonical''"
| "evidence_error_text (InvalidBinding m) = ''nested Windows identity is invalid: '' @ m"

section \<open>Subjects\<close>

datatype (plugins only: code size) 'v observation_subject =
    DriverCleanupPreparation "'v pci_device_binding" "'v pci_device_binding list"
  | NvidiaDrsPreparation "'v pci_device_binding" string string string string string
  | MsiDeviceSet "'v pci_device_binding list"
  | NicAffinityProposal "'v network_adapter_binding" u16 u16 u16 u64

fun expected_step :: "'v observation_subject \<Rightarrow> string" where
  "expected_step (DriverCleanupPreparation _ _) = ''P1:18''"
| "expected_step (NvidiaDrsPreparation _ _ _ _ _ _) = ''P1:20''"
| "expected_step (MsiDeviceSet _) = ''P1:21''"
| "expected_step (NicAffinityProposal _ _ _ _ _) = ''P1:22''"

definition evidence_require_text :: "string \<Rightarrow> string \<Rightarrow> (unit, evidence_error) result" where
  "evidence_require_text value field =
     (if is_blank value \<or> length value > 512 \<or> has_control value then Err (InvalidField field)
      else Ok ())"

definition require_sha256 :: "string \<Rightarrow> string \<Rightarrow> (unit, evidence_error) result" where
  "require_sha256 value field =
     (if length value = 64 \<and> list_all is_lower_hex value then Ok () else Err (InvalidField field))"

definition valid_generation :: "string \<Rightarrow> bool" where
  "valid_generation value \<longleftrightarrow> length value = 32 \<and> list_all is_lower_hex value"

definition validate_device :: "'v pci_device_binding \<Rightarrow> (unit, evidence_error) result" where
  "validate_device d =
     and_then (map_err (\<lambda>e. InvalidBinding (binding_error_text e)) (pci_validate d)) (\<lambda>_.
     if pci_schema_version d \<noteq> NATIVE_BINDING_SCHEMA_VERSION \<or> \<not> is_empty_map (pci_unknown d)
     then Err EvidenceUnknownFields else Ok ())"

text \<open>The loop with the previous identity and the set of identities seen; \<open>String\<close> is ordered
  bytewise, as the order on character lists of \<open>List_Lexorder\<close>.\<close>

fun validate_devices_from ::
  "string option \<Rightarrow> string fset \<Rightarrow> 'v pci_device_binding list \<Rightarrow> (unit, evidence_error) result" where
  "validate_devices_from previous identities [] = Ok ()"
| "validate_devices_from previous identities (d # ds) =
     and_then (validate_device d) (\<lambda>_.
     let identity = to_ascii_uppercase (instance_id d) in
     if (case previous of None \<Rightarrow> False | Some known \<Rightarrow> known \<ge> identity) \<or> identity |\<in>| identities
     then Err InvalidSubjectSet
     else validate_devices_from (Some identity) (finsert identity identities) ds)"

definition validate_device_set :: "'v pci_device_binding list \<Rightarrow> (unit, evidence_error) result" where
  "validate_device_set devices =
     (if devices = [] then Err InvalidSubjectSet else validate_devices_from None {||} devices)"

text \<open>\<open>1_u64.checked_shl(n).unwrap_or(0)\<close>.\<close>

definition checked_shl_one :: "nat \<Rightarrow> u64" where
  "checked_shl_one n = (if n < 64 then push_bit n 1 else 0)"

fun subject_validate :: "'v observation_subject \<Rightarrow> (unit, evidence_error) result" where
  "subject_validate (DriverCleanupPreparation target_gpu installed_packages) =
     and_then (validate_device target_gpu) (\<lambda>_.
     and_then (validate_device_set installed_packages) (\<lambda>_.
     if list_ex (\<lambda>package.
          vendor_id package \<noteq> vendor_id target_gpu
          \<or> device_id package \<noteq> device_id target_gpu
          \<or> subsystem_vendor_id package \<noteq> subsystem_vendor_id target_gpu
          \<or> subsystem_device_id package \<noteq> subsystem_device_id target_gpu) installed_packages
     then Err InvalidSubjectSet else Ok ()))"
| "subject_validate (NvidiaDrsPreparation target_gpu version module_sha256 interface_version
       profile_name application_name) =
     and_then (validate_device target_gpu) (\<lambda>_.
     if vendor_id target_gpu \<noteq> 0x10de then Err (InvalidField ''targetGpu.vendorId'')
     else
     and_then (evidence_require_text version ''driverVersion'') (\<lambda>_.
     and_then (require_sha256 module_sha256 ''nvapiModuleSha256'') (\<lambda>_.
     and_then (evidence_require_text interface_version ''nvapiInterfaceVersion'') (\<lambda>_.
     if \<not> (profile_name = ''Counter-Strike 2'' \<or> profile_name = ''Counter-strike 2'')
         \<or> application_name \<noteq> ''cs2.exe''
     then Err (InvalidField ''drsProfileIdentity'') else Ok ()))))"
| "subject_validate (MsiDeviceSet devices) = validate_device_set devices"
| "subject_validate (NicAffinityProposal adapter processor_group logical_processor_count
       target_processor assignment_mask) =
     and_then (map_err (\<lambda>e. InvalidBinding (binding_error_text e)) (nic_validate adapter)) (\<lambda>_.
     if logical_processor_count = 0
        \<or> logical_processor_count > 64
        \<or> processor_group \<noteq> 0
        \<or> target_processor \<ge> logical_processor_count
        \<or> assignment_mask \<noteq> checked_shl_one (unat target_processor)
     then Err (InvalidField ''processorTopology'') else Ok ())"

section \<open>Receipts\<close>

definition EVIDENCE_SCHEMA_VERSION :: u8 where
  "EVIDENCE_SCHEMA_VERSION = 1"

record 'v observation_receipt =
  obs_schema_version :: u8
  obs_receipt_id :: binding_receipt_id
  obs_step :: string
  obs_captured_at_utc :: string
  obs_transaction_id :: "transaction_id option"
  obs_runtime_generation :: "string option"
  obs_subject :: "'v observation_subject"
  obs_unknown :: "'v fields"

record 'v receipt_identity =
  idn_schema_version :: u8
  idn_step :: string
  idn_captured_at_utc :: string
  idn_transaction_id :: "transaction_id option"
  idn_runtime_generation :: "string option"
  idn_subject :: "'v observation_subject"

text \<open>The two library calls the digest makes.\<close>

record 'v digester =
  to_vec :: "'v receipt_identity \<Rightarrow> string option"
  sha256_hex :: "string \<Rightarrow> string"

definition receipt_identity_of :: "'v observation_receipt \<Rightarrow> 'v receipt_identity" where
  "receipt_identity_of r =
     \<lparr>idn_schema_version = obs_schema_version r, idn_step = obs_step r,
      idn_captured_at_utc = obs_captured_at_utc r, idn_transaction_id = obs_transaction_id r,
      idn_runtime_generation = obs_runtime_generation r, idn_subject = obs_subject r\<rparr>"

definition canonical_receipt_id ::
  "'v digester \<Rightarrow> 'v observation_receipt \<Rightarrow> (binding_receipt_id, evidence_error) result" where
  "canonical_receipt_id D r =
     map_err (\<lambda>_. ReceiptMismatch)
       (digest_serializable (to_vec D) (sha256_hex D) (receipt_identity_of r))"

definition validate_for ::
  "'v digester \<Rightarrow> 'v observation_receipt \<Rightarrow> string \<Rightarrow> (unit, evidence_error) result" where
  "validate_for D r step =
     (if obs_schema_version r \<noteq> EVIDENCE_SCHEMA_VERSION then Err EvidenceUnsupportedSchema
      else if \<not> is_empty_map (obs_unknown r) then Err EvidenceUnknownFields
      else if obs_step r \<noteq> step \<or> obs_step r \<noteq> expected_step (obs_subject r) then Err StepMismatch
      else
      and_then (evidence_require_text (obs_captured_at_utc r) ''capturedAtUtc'') (\<lambda>_.
      if (case obs_runtime_generation r of None \<Rightarrow> False | Some g \<Rightarrow> \<not> valid_generation g)
      then Err (InvalidField ''runtimeGeneration'')
      else
      and_then (subject_validate (obs_subject r)) (\<lambda>_.
      and_then (canonical_receipt_id D r) (\<lambda>canonical.
      if canonical \<noteq> obs_receipt_id r then Err ReceiptMismatch else Ok ()))))"

definition observation_receipt_new ::
  "'v digester \<Rightarrow> string \<Rightarrow> transaction_id option \<Rightarrow> string option \<Rightarrow> 'v observation_subject
   \<Rightarrow> ('v observation_receipt, evidence_error) result" where
  "observation_receipt_new D captured_at_utc transaction_id runtime_generation subject =
     (let receipt =
        \<lparr>obs_schema_version = EVIDENCE_SCHEMA_VERSION,
         obs_receipt_id = BindingReceiptId (replicate 64 (CHR ''0'')),
         obs_step = expected_step subject, obs_captured_at_utc = captured_at_utc,
         obs_transaction_id = transaction_id, obs_runtime_generation = runtime_generation,
         obs_subject = subject, obs_unknown = fmempty\<rparr> in
      and_then (canonical_receipt_id D receipt) (\<lambda>canonical.
      let receipt = receipt\<lparr>obs_receipt_id := canonical\<rparr> in
      and_then (validate_for D receipt (obs_step receipt)) (\<lambda>_.
      Ok receipt)))"

section \<open>The evidence document\<close>

datatype 'v evidence_entry = EvObservation "'v observation_receipt" | EvUnknown 'v

record 'v evidence_file =
  ev_entries :: "'v evidence_entry list"
  ev_created :: string
  ev_unknown :: "'v fields"

definition observes :: "string \<Rightarrow> 'v evidence_entry \<Rightarrow> bool" where
  "observes step e = (case e of EvObservation r \<Rightarrow> obs_step r = step | EvUnknown _ \<Rightarrow> False)"

definition replace_observation ::
  "'v observation_receipt \<Rightarrow> 'v evidence_file \<Rightarrow> 'v evidence_file" where
  "replace_observation r f =
     f\<lparr>ev_entries := filter (\<lambda>e. \<not> observes (obs_step r) e) (ev_entries f) @ [EvObservation r]\<rparr>"

definition observation_for ::
  "'v digester \<Rightarrow> 'v evidence_file \<Rightarrow> string
   \<Rightarrow> ('v observation_receipt option, evidence_error) result" where
  "observation_for D f step =
     (let matches = List.map_filter
            (\<lambda>e. case e of EvObservation r \<Rightarrow> if obs_step r = step then Some r else None
                 | EvUnknown _ \<Rightarrow> None) (ev_entries f) in
      case matches of
        [] \<Rightarrow> Ok None
      | [receipt] \<Rightarrow> and_then (validate_for D receipt step) (\<lambda>_. Ok (Some receipt))
      | _ \<Rightarrow> Err InvalidSubjectSet)"

section \<open>Lemmas\<close>

lemma evidence_require_text_Ok [guard_simps]:
  "evidence_require_text v f = Ok u \<longleftrightarrow> \<not> is_blank v \<and> length v \<le> 512 \<and> \<not> has_control v"
  by (auto simp: evidence_require_text_def)

lemma validate_device_Ok [guard_simps]:
  "validate_device d = Ok u \<longleftrightarrow> pci_validate d = Ok () \<and> is_empty_map (pci_unknown d)"
  by (auto simp: validate_device_def guard_simps pci_validate_Ok)

lemma validate_devices_from_Ok:
  "validate_devices_from previous seen ds = Ok u \<Longrightarrow>
     (\<forall>d\<in>set ds. validate_device d = Ok ())
     \<and> sorted_wrt (<) (map (to_ascii_uppercase \<circ> instance_id) ds)
     \<and> (case (previous, ds) of
          (Some p, d # _) \<Rightarrow> p < to_ascii_uppercase (instance_id d) | _ \<Rightarrow> True)"
proof (induction previous seen ds rule: validate_devices_from.induct)
  case (1 previous seen)
  then show ?case by (cases previous) auto
next
  case (2 previous seen d ds)
  let ?i = "to_ascii_uppercase (instance_id d)"
  have ok: "validate_device d = Ok ()"
    and rest: "validate_devices_from (Some ?i) (finsert ?i seen) ds = Ok u"
    and prev: "case previous of None \<Rightarrow> True | Some p \<Rightarrow> p < ?i"
    and new: "\<not> ((case previous of None \<Rightarrow> False | Some x \<Rightarrow> ?i \<le> x) \<or> ?i |\<in>| seen)"
    using "2.prems" by (auto simp: and_then_eq_Ok Let_def not_le split: if_splits option.splits)
  have ih: "\<forall>d\<in>set ds. validate_device d = Ok ()"
      "sorted_wrt (<) (map (to_ascii_uppercase \<circ> instance_id) ds)"
      "case ds of [] \<Rightarrow> True | e # _ \<Rightarrow> ?i < to_ascii_uppercase (instance_id e)"
    using "2.IH" [OF refl new rest] by (auto simp: comp_def split: list.splits)
  have "\<forall>e\<in>set ds. ?i < to_ascii_uppercase (instance_id e)"
    using ih(2,3) by (cases ds) (auto dest: less_trans)
  with ok ih(1,2) prev show ?case by (cases previous) (auto simp: comp_def)
qed

lemma validate_device_set_Ok:
  assumes "validate_device_set ds = Ok u"
  shows "ds \<noteq> []" and "\<forall>d\<in>set ds. validate_device d = Ok ()"
    and "sorted_wrt (<) (map (to_ascii_uppercase \<circ> instance_id) ds)"
  using assms validate_devices_from_Ok [of None "{||}" ds u]
  by (auto simp: validate_device_set_def split: if_splits)

lemma validate_for_Ok:
  "validate_for D r step = Ok u \<longleftrightarrow>
     obs_schema_version r = EVIDENCE_SCHEMA_VERSION
     \<and> is_empty_map (obs_unknown r)
     \<and> obs_step r = step \<and> expected_step (obs_subject r) = step
     \<and> evidence_require_text (obs_captured_at_utc r) ''capturedAtUtc'' = Ok ()
     \<and> (case obs_runtime_generation r of None \<Rightarrow> True | Some g \<Rightarrow> valid_generation g)
     \<and> subject_validate (obs_subject r) = Ok ()
     \<and> canonical_receipt_id D r = Ok (obs_receipt_id r)"
  by (auto simp: validate_for_def and_then_eq_Ok split: option.splits)

lemma canonical_receipt_id_update [simp]:
  "canonical_receipt_id D (r\<lparr>obs_receipt_id := i\<rparr>) = canonical_receipt_id D r"
  by (simp add: canonical_receipt_id_def receipt_identity_of_def)

lemma observation_receipt_new_valid:
  "observation_receipt_new D at t g s = Ok r \<Longrightarrow>
     validate_for D r (expected_step s) = Ok () \<and> obs_subject r = s \<and> obs_transaction_id r = t"
  by (auto simp: observation_receipt_new_def Let_def and_then_eq_Ok)

lemma replace_observation_unknown:
  "EvUnknown v \<in> set (ev_entries (replace_observation r f)) \<longleftrightarrow> EvUnknown v \<in> set (ev_entries f)"
  by (auto simp: replace_observation_def observes_def)

text \<open>The receipts of a step, as \<open>observation_for\<close> collects them.\<close>

definition receipts_of :: "string \<Rightarrow> 'v evidence_entry list \<Rightarrow> 'v observation_receipt list" where
  "receipts_of step es =
     List.map_filter
       (\<lambda>e. case e of EvObservation r \<Rightarrow> if obs_step r = step then Some r else None
            | EvUnknown _ \<Rightarrow> None) es"

lemma receipts_of_simps [simp]:
  "receipts_of s [] = []"
  "receipts_of s (EvUnknown v # es) = receipts_of s es"
  "receipts_of s (EvObservation r # es) =
     (if obs_step r = s then r # receipts_of s es else receipts_of s es)"
  by (simp_all add: receipts_of_def map_filter_simps)

lemma receipts_of_append [simp]: "receipts_of s (es @ es') = receipts_of s es @ receipts_of s es'"
  by (simp add: receipts_of_def List.map_filter_def)

lemma receipts_of_retain:
  "receipts_of s (filter (\<lambda>e. \<not> observes t e) es) = (if s = t then [] else receipts_of s es)"
proof (induction es)
  case Nil
  then show ?case by simp
next
  case (Cons e es)
  then show ?case by (cases e) (auto simp: observes_def)
qed

lemma receipts_of_replace:
  "receipts_of s (ev_entries (replace_observation r f)) =
     (if s = obs_step r then [r] else receipts_of s (ev_entries f))"
  by (simp add: replace_observation_def receipts_of_retain)

lemma observation_for_receipts:
  "observation_for D f s =
     (case receipts_of s (ev_entries f) of
        [] \<Rightarrow> Ok None
      | [r] \<Rightarrow> and_then (validate_for D r s) (\<lambda>_. Ok (Some r))
      | _ \<Rightarrow> Err InvalidSubjectSet)"
  by (simp add: observation_for_def receipts_of_def Let_def)

lemma observation_for_replace_same:
  "observation_for D (replace_observation r f) (obs_step r) =
     and_then (validate_for D r (obs_step r)) (\<lambda>_. Ok (Some r))"
  by (simp add: observation_for_receipts receipts_of_replace)

lemma observation_for_replace_other:
  "s \<noteq> obs_step r \<Longrightarrow>
     observation_for D (replace_observation r f) s = observation_for D f s"
  by (simp add: observation_for_receipts receipts_of_replace)

section \<open>Properties\<close>

definition sample_digester :: "unit digester" where
  "sample_digester = \<lparr>to_vec = \<lambda>_. Some [], sha256_hex = \<lambda>_. replicate 64 (CHR ''0'')\<rparr>"

lemma sample_device_valid: "validate_device sample_gpu = Ok ()"
  using sample_gpu_valid by (simp add: validate_device_Ok) (simp add: sample_gpu_def is_empty_map_def)

lemma sample_receipt_ok:
  "is_ok (observation_receipt_new sample_digester ''2026-01-01T00:00:00Z'' None None
     (MsiDeviceSet [sample_gpu]))"
proof -
  have t: "evidence_require_text ''2026-01-01T00:00:00Z'' ''capturedAtUtc'' = Ok ()"
    and d: "binding_receipt_id_parse (replicate 64 (CHR ''0''))
      = Ok (BindingReceiptId (replicate 64 (CHR ''0'')))"
    by code_simp+
  show ?thesis
    using sample_device_valid t d
    by (simp add: observation_receipt_new_def Let_def canonical_receipt_id_def digest_serializable_def
        sample_digester_def ok_or_def is_ok_iff validate_for_Ok is_empty_map_def validate_device_set_def
        and_then_eq_Ok)
qed

text \<open>
  Evidence that was constructed is found again and authorizes its own step only: after a new
  receipt replaces the observations of its step in the evidence file, reading that step returns
  exactly this receipt with the observed subject, and what any other step reads is unchanged.
\<close>

theorem stored_observation_reads_back:
  assumes "observation_receipt_new D at transaction generation subject = Ok receipt"
  shows "observation_for D (replace_observation receipt f) (expected_step subject) = Ok (Some receipt)
     \<and> obs_subject receipt = subject \<and> obs_transaction_id receipt = transaction
     \<and> (other \<noteq> expected_step subject \<longrightarrow>
          observation_for D (replace_observation receipt f) other = observation_for D f other)"
proof -
  note new = observation_receipt_new_valid [OF assms]
  then have "obs_step receipt = expected_step subject" by (simp add: validate_for_Ok)
  then show ?thesis
    using new observation_for_replace_same [of D receipt f] observation_for_replace_other [of other receipt D f]
    by simp
qed

theorem stored_observation_reads_back_witness:
  "\<exists>receipt. observation_for sample_digester (replace_observation receipt
        \<lparr>ev_entries = [EvUnknown ()], ev_created = [], ev_unknown = fmempty\<rparr>) ''P1:21''
      = Ok (Some receipt)
     \<and> obs_subject receipt = MsiDeviceSet [sample_gpu]"
proof -
  obtain receipt where "observation_receipt_new sample_digester ''2026-01-01T00:00:00Z'' None None
      (MsiDeviceSet [sample_gpu]) = Ok receipt"
    using sample_receipt_ok by (auto simp: is_ok_iff)
  from stored_observation_reads_back [OF this] show ?thesis by (intro exI [of _ receipt]) simp
qed

text \<open>
  A validated driver-cleanup subject names one device model: its packages are a nonempty set
  in canonical order, no two of them for the same instance, each valid, and each bound to the
  vendor, device and subsystem of the target graphics adapter.
\<close>

theorem cleanup_subject_is_canonical:
  assumes "subject_validate (DriverCleanupPreparation target packages) = Ok ()"
  shows "packages \<noteq> []
     \<and> sorted_wrt (<) (map (to_ascii_uppercase \<circ> instance_id) packages)
     \<and> list_all (\<lambda>d. pci_validate d = Ok () \<and> is_empty_map (pci_unknown d)
          \<and> vendor_id d = vendor_id target \<and> device_id d = device_id target
          \<and> subsystem_vendor_id d = subsystem_vendor_id target
          \<and> subsystem_device_id d = subsystem_device_id target) packages"
proof -
  have set: "validate_device_set packages = Ok ()"
    using assms by (auto simp: and_then_eq_Ok split: if_splits)
  have same: "\<not> list_ex (\<lambda>package.
          vendor_id package \<noteq> vendor_id target \<or> device_id package \<noteq> device_id target
          \<or> subsystem_vendor_id package \<noteq> subsystem_vendor_id target
          \<or> subsystem_device_id package \<noteq> subsystem_device_id target) packages"
    using assms by (auto simp: and_then_eq_Ok split: if_splits)
  show ?thesis
    using validate_device_set_Ok [OF set] same
    by (auto simp: list_all_iff list_ex_iff validate_device_Ok)
qed

theorem cleanup_subject_is_canonical_witness:
  "[sample_gpu] \<noteq> []
     \<and> sorted_wrt (<) (map (to_ascii_uppercase \<circ> instance_id) [sample_gpu])
     \<and> list_all (\<lambda>d. pci_validate d = Ok () \<and> is_empty_map (pci_unknown d)
          \<and> vendor_id d = vendor_id sample_gpu \<and> device_id d = device_id sample_gpu
          \<and> subsystem_vendor_id d = subsystem_vendor_id sample_gpu
          \<and> subsystem_device_id d = subsystem_device_id sample_gpu) [sample_gpu]"
  by (rule cleanup_subject_is_canonical)
    (simp add: sample_device_valid validate_device_set_def)

end
