(* ===== verification/Network_Stack.thy ===== *)
theory Network_Stack
  imports Evidence
begin

text \<open>
  Device-bound recovery records: the interrupt-policy backup of P3:2 and P3:3
  (\<open>crates/frametime-domain/src/backup/interrupt.rs\<close>) and the closed network transaction of P1:16
  (\<open>backup/network_stack.rs\<close>).  The lemmas show that a record is accepted only with the complete
  fixed inventory, consistent existence facts and values of the type its setting has.
\<close>

section \<open>Interrupt policies\<close>

datatype interrupt_policy_kind =
    MsiSupported | MessageNumberLimit | DevicePolicy | AssignmentSetOverride

fun value_name :: "interrupt_policy_kind \<Rightarrow> string" where
  "value_name MsiSupported = ''MSISupported''"
| "value_name MessageNumberLimit = ''MessageNumberLimit''"
| "value_name DevicePolicy = ''DevicePolicy''"
| "value_name AssignmentSetOverride = ''AssignmentSetOverride''"

fun policy_expected_step :: "interrupt_policy_kind \<Rightarrow> string" where
  "policy_expected_step MsiSupported = ''P3:2''"
| "policy_expected_step MessageNumberLimit = ''P3:2''"
| "policy_expected_step DevicePolicy = ''P3:3''"
| "policy_expected_step AssignmentSetOverride = ''P3:3''"

definition reg_sep :: string where
  "reg_sep = [char_of (92 :: nat)]"

fun registry_suffix :: "interrupt_policy_kind \<Rightarrow> string" where
  "registry_suffix MsiSupported =
     ''Device Parameters'' @ reg_sep @ ''Interrupt Management'' @ reg_sep
     @ ''MessageSignaledInterruptProperties''"
| "registry_suffix MessageNumberLimit =
     ''Device Parameters'' @ reg_sep @ ''Interrupt Management'' @ reg_sep
     @ ''MessageSignaledInterruptProperties''"
| "registry_suffix DevicePolicy =
     ''Device Parameters'' @ reg_sep @ ''Interrupt Management'' @ reg_sep @ ''Affinity Policy''"
| "registry_suffix AssignmentSetOverride =
     ''Device Parameters'' @ reg_sep @ ''Interrupt Management'' @ reg_sep @ ''Affinity Policy''"

datatype interrupt_policy_value = PolicyDword u32 | PolicyBinary "u8 list"

record 'v interrupt_policy_backup =
  ip_step :: string
  ip_timestamp :: string
  ip_device :: "'v pci_device_binding"
  ip_policy :: interrupt_policy_kind
  ip_existed :: bool
  ip_original_value :: "interrupt_policy_value option"
  ip_unknown :: "'v fields"

datatype interrupt_policy_backup_error =
    InterruptUnknownFields
  | InterruptStepMismatch
  | InterruptInvalidDevice string
  | InterruptExistenceMismatch
  | InterruptValueTypeMismatch
  | InterruptInvalidTimestamp

definition bounded_timestamp :: "string \<Rightarrow> bool" where
  "bounded_timestamp t \<longleftrightarrow> \<not> (is_blank t \<or> length t > 64 \<or> has_control t)"

fun policy_value_fits :: "interrupt_policy_kind \<Rightarrow> interrupt_policy_value option \<Rightarrow> bool" where
  "policy_value_fits _ None = True"
| "policy_value_fits MsiSupported (Some (PolicyDword _)) = True"
| "policy_value_fits MessageNumberLimit (Some (PolicyDword _)) = True"
| "policy_value_fits DevicePolicy (Some (PolicyDword _)) = True"
| "policy_value_fits AssignmentSetOverride (Some (PolicyBinary _)) = True"
| "policy_value_fits _ _ = False"

definition interrupt_validate ::
  "'v interrupt_policy_backup \<Rightarrow> (unit, interrupt_policy_backup_error) result" where
  "interrupt_validate b =
     (if \<not> is_empty_map (ip_unknown b) then Err InterruptUnknownFields
      else if ip_step b \<noteq> policy_expected_step (ip_policy b) then Err InterruptStepMismatch
      else if \<not> bounded_timestamp (ip_timestamp b) then Err InterruptInvalidTimestamp
      else
      and_then
        (map_err (\<lambda>e. InterruptInvalidDevice (binding_error_text e)) (pci_validate (ip_device b)))
        (\<lambda>_.
      if ip_existed b \<noteq> (ip_original_value b \<noteq> None) then Err InterruptExistenceMismatch
      else if policy_value_fits (ip_policy b) (ip_original_value b) then Ok ()
      else Err InterruptValueTypeMismatch))"

definition registry_key :: "'v interrupt_policy_backup \<Rightarrow> string" where
  "registry_key b =
     ''SYSTEM'' @ reg_sep @ ''CurrentControlSet'' @ reg_sep @ ''Enum'' @ reg_sep
     @ instance_id (ip_device b) @ reg_sep @ registry_suffix (ip_policy b)"

section \<open>The network stack transaction\<close>

definition NETWORK_STACK_TRANSACTION_STEP :: string where
  "NETWORK_STACK_TRANSACTION_STEP = ''P1:16''"

datatype (plugins only: code size) network_stack_setting =
    Eee
  | FlowControl
  | InterruptModeration
  | ReceiveBuffers
  | TransmitBuffers
  | GreenEthernet
  | PowerSavingMode
  | RssEnabled
  | RssBaseProcessor
  | RssMaxProcessor
  | RssMaxProcessors
  | UroEnabled
  | QosNlaBypass

fun setting_rank :: "network_stack_setting \<Rightarrow> nat" where
  "setting_rank Eee = 0"
| "setting_rank FlowControl = 1"
| "setting_rank InterruptModeration = 2"
| "setting_rank ReceiveBuffers = 3"
| "setting_rank TransmitBuffers = 4"
| "setting_rank GreenEthernet = 5"
| "setting_rank PowerSavingMode = 6"
| "setting_rank RssEnabled = 7"
| "setting_rank RssBaseProcessor = 8"
| "setting_rank RssMaxProcessor = 9"
| "setting_rank RssMaxProcessors = 10"
| "setting_rank UroEnabled = 11"
| "setting_rank QosNlaBypass = 12"

lemma setting_rank_inject [simp]: "setting_rank a = setting_rank b \<longleftrightarrow> a = b"
  by (cases a; cases b) simp_all

instantiation network_stack_setting :: linorder
begin

definition less_eq_network_stack_setting :: "network_stack_setting \<Rightarrow> network_stack_setting \<Rightarrow> bool" where
  "less_eq_network_stack_setting a b \<longleftrightarrow> setting_rank a \<le> setting_rank b"

definition less_network_stack_setting :: "network_stack_setting \<Rightarrow> network_stack_setting \<Rightarrow> bool" where
  "less_network_stack_setting a b \<longleftrightarrow> setting_rank a < setting_rank b"

instance
  by standard (auto simp: less_eq_network_stack_setting_def less_network_stack_setting_def)

end

definition SETTING_INVENTORY :: "network_stack_setting list" where
  "SETTING_INVENTORY = [Eee, FlowControl, RssEnabled, UroEnabled, QosNlaBypass]"

datatype network_stack_value =
    StackDword u32
  | StackString string
  | StackMultiString "string list"
  | StackBinary "u8 list"

record network_stack_raw_registry_value =
  raw_value_type :: u32
  raw_bytes :: "u8 list"

record network_stack_nla_backup =
  nla_key_existed :: bool
  nla_value_existed :: bool
  nla_original_value :: "network_stack_raw_registry_value option"

record 'v network_stack_setting_backup =
  sb_setting :: network_stack_setting
  sb_existed :: bool
  sb_original_value :: "network_stack_value option"
  sb_nla :: "network_stack_nla_backup option"
  sb_unknown :: "'v fields"

datatype network_stack_policy = Cs2UdpPorts | Cs2App

fun stack_policy_rank :: "network_stack_policy \<Rightarrow> nat" where
  "stack_policy_rank Cs2UdpPorts = 0"
| "stack_policy_rank Cs2App = 1"

instantiation network_stack_policy :: linorder
begin

definition less_eq_network_stack_policy :: "network_stack_policy \<Rightarrow> network_stack_policy \<Rightarrow> bool" where
  "less_eq_network_stack_policy a b \<longleftrightarrow> stack_policy_rank a \<le> stack_policy_rank b"

definition less_network_stack_policy :: "network_stack_policy \<Rightarrow> network_stack_policy \<Rightarrow> bool" where
  "less_network_stack_policy a b \<longleftrightarrow> stack_policy_rank a < stack_policy_rank b"

instance
proof
  fix a b :: network_stack_policy
  show "a \<le> b \<Longrightarrow> b \<le> a \<Longrightarrow> a = b"
    by (cases a; cases b) (simp_all add: less_eq_network_stack_policy_def)
qed (auto simp: less_eq_network_stack_policy_def less_network_stack_policy_def)

end

definition POLICY_INVENTORY :: "network_stack_policy list" where
  "POLICY_INVENTORY = [Cs2UdpPorts, Cs2App]"

text \<open>An \<open>i8\<close> is an 8-bit word read with \<open>sint\<close>.\<close>

record network_stack_policy_snapshot =
  network_profile :: u32
  precedence :: u32
  template_match_condition :: u32
  user_match_condition :: string
  ip_protocol :: u32
  ip_port_match_condition :: u16
  source_prefix_match_condition :: string
  source_port_start :: u16
  source_port_end :: u16
  destination_prefix_match_condition :: string
  destination_port_start :: u16
  destination_port_end :: u16
  app_path_match_condition :: string
  uri_match_condition :: string
  uri_recursive_match_condition :: bool
  net_direct_port_match_condition :: u16
  priority_value_8021_action :: u8
  dscp_action :: u8
  min_bandwidth_weight_action :: u8
  throttle_rate_action :: u64

datatype network_stack_backup_error =
    StackUnknownFields
  | StackWrongStep
  | StackInvalidAdapter string
  | StackInvalidTimestamp
  | StackDuplicateIdentity
  | StackExistenceMismatch
  | StackValueTypeMismatch
  | StackInvalidNlaValue
  | StackInvalidPolicySnapshot
  | StackIncompleteInventory

definition policy_snapshot_validate ::
  "network_stack_policy_snapshot \<Rightarrow> (unit, network_stack_backup_error) result" where
  "policy_snapshot_validate p =
     (if precedence p > 255
         \<or> template_match_condition p \<noteq> 0
         \<or> \<not> ip_protocol p \<le> 3
         \<or> \<not> (-1 \<le> sint (priority_value_8021_action p) \<and> sint (priority_value_8021_action p) \<le> 7)
         \<or> \<not> (-1 \<le> sint (dscp_action p) \<and> sint (dscp_action p) \<le> 63)
         \<or> min_bandwidth_weight_action p > 100
         \<or> list_ex (\<lambda>value. length value > 1024 \<or> has_control value)
             [user_match_condition p, source_prefix_match_condition p,
              destination_prefix_match_condition p, app_path_match_condition p,
              uri_match_condition p]
      then Err StackInvalidPolicySnapshot
      else Ok ())"

record 'v network_stack_policy_backup =
  pb_policy :: network_stack_policy
  pb_existed :: bool
  pb_original_policy :: "network_stack_policy_snapshot option"
  pb_unknown :: "'v fields"

record 'v network_stack_transaction =
  ns_step :: string
  ns_timestamp :: string
  ns_adapter :: "'v network_adapter_binding"
  ns_settings :: "'v network_stack_setting_backup list"
  ns_policies :: "'v network_stack_policy_backup list"
  ns_unknown :: "'v fields"

text \<open>\<open>windows(2).any(|pair| pair[0] == pair[1])\<close>.\<close>

fun adjacent_equal :: "'a list \<Rightarrow> bool" where
  "adjacent_equal (x # y # zs) \<longleftrightarrow> x = y \<or> adjacent_equal (y # zs)"
| "adjacent_equal _ \<longleftrightarrow> False"

definition setting_backup_validate ::
  "'v network_stack_setting_backup \<Rightarrow> (unit, network_stack_backup_error) result" where
  "setting_backup_validate item =
     (if \<not> is_empty_map (sb_unknown item) then Err StackUnknownFields
      else if sb_existed item \<noteq> (sb_original_value item \<noteq> None) \<and> sb_setting item \<noteq> QosNlaBypass
      then Err StackExistenceMismatch
      else if sb_setting item = QosNlaBypass then
        (case sb_nla item of
           None \<Rightarrow> Err StackValueTypeMismatch
         | Some nla \<Rightarrow>
             if sb_original_value item \<noteq> None \<or> sb_existed item \<noteq> nla_value_existed nla
             then Err StackExistenceMismatch
             else if nla_value_existed nla \<noteq> (nla_original_value nla \<noteq> None)
             then Err StackExistenceMismatch
             else if \<not> nla_key_existed nla \<and> nla_value_existed nla
             then Err StackExistenceMismatch
             else if (case nla_original_value nla of None \<Rightarrow> False | Some v \<Rightarrow> length (raw_bytes v) > 64)
             then Err StackInvalidNlaValue
             else Ok ())
      else if sb_nla item \<noteq> None then Err StackValueTypeMismatch
      else (case sb_original_value item of
              None \<Rightarrow> Ok ()
            | Some value \<Rightarrow>
                if (sb_setting item = InterruptModeration)
                     \<noteq> (case value of StackString _ \<Rightarrow> True | _ \<Rightarrow> False)
                then Err StackValueTypeMismatch else Ok ()))"

definition policy_backup_validate ::
  "'v network_stack_policy_backup \<Rightarrow> (unit, network_stack_backup_error) result" where
  "policy_backup_validate item =
     (if \<not> is_empty_map (pb_unknown item) then Err StackUnknownFields
      else if pb_existed item \<noteq> (pb_original_policy item \<noteq> None) then Err StackExistenceMismatch
      else (case pb_original_policy item of
              None \<Rightarrow> Ok ()
            | Some policy \<Rightarrow> policy_snapshot_validate policy))"

definition network_stack_validate ::
  "'v network_stack_transaction \<Rightarrow> (unit, network_stack_backup_error) result" where
  "network_stack_validate t =
     (if ns_step t \<noteq> NETWORK_STACK_TRANSACTION_STEP then Err StackWrongStep
      else if \<not> bounded_timestamp (ns_timestamp t) then Err StackInvalidTimestamp
      else if \<not> is_empty_map (ns_unknown t) then Err StackUnknownFields
      else
      and_then
        (map_err (\<lambda>e. StackInvalidAdapter (binding_error_text e)) (nic_validate (ns_adapter t)))
        (\<lambda>_.
      let settings = sort (map sb_setting (ns_settings t));
          policies = sort (map pb_policy (ns_policies t)) in
      if adjacent_equal settings then Err StackDuplicateIdentity
      else if adjacent_equal policies then Err StackDuplicateIdentity
      else if settings \<noteq> SETTING_INVENTORY \<or> policies \<noteq> POLICY_INVENTORY
      then Err StackIncompleteInventory
      else
      and_then (try_each setting_backup_validate (ns_settings t)) (\<lambda>_.
      try_each policy_backup_validate (ns_policies t))))"

section \<open>Lemmas\<close>

lemma interrupt_validate_Ok [guard_simps]:
  "interrupt_validate b = Ok u \<longleftrightarrow>
     is_empty_map (ip_unknown b)
     \<and> ip_step b = policy_expected_step (ip_policy b)
     \<and> bounded_timestamp (ip_timestamp b)
     \<and> pci_validate (ip_device b) = Ok ()
     \<and> ip_existed b = (ip_original_value b \<noteq> None)
     \<and> policy_value_fits (ip_policy b) (ip_original_value b)"
  by (auto simp: interrupt_validate_def guard_simps)

lemma adjacent_equal_sorted: "sorted (xs :: 'a::linorder list) \<Longrightarrow> adjacent_equal xs \<longleftrightarrow> \<not> distinct xs"
  by (induction xs rule: adjacent_equal.induct) auto

lemma network_stack_validate_Ok [guard_simps]:
  "network_stack_validate t = Ok u \<longleftrightarrow>
     ns_step t = NETWORK_STACK_TRANSACTION_STEP
     \<and> bounded_timestamp (ns_timestamp t)
     \<and> is_empty_map (ns_unknown t)
     \<and> nic_validate (ns_adapter t) = Ok ()
     \<and> sort (map sb_setting (ns_settings t)) = SETTING_INVENTORY
     \<and> sort (map pb_policy (ns_policies t)) = POLICY_INVENTORY
     \<and> (\<forall>s\<in>set (ns_settings t). setting_backup_validate s = Ok ())
     \<and> (\<forall>p\<in>set (ns_policies t). policy_backup_validate p = Ok ())"
  by (auto simp: network_stack_validate_def guard_simps Let_def SETTING_INVENTORY_def
      POLICY_INVENTORY_def)

lemma sorted_inventory_distinct:
  assumes "sort xs = ys" and "distinct (ys :: 'a::linorder list)"
  shows "distinct xs" and "set xs = set ys"
  using assms by (metis distinct_sort, metis set_sort)

lemma network_stack_settings_bound:
  assumes "network_stack_validate t = Ok u"
  shows "distinct (map sb_setting (ns_settings t))"
    and "set (map sb_setting (ns_settings t)) = {Eee, FlowControl, RssEnabled, UroEnabled, QosNlaBypass}"
    and "distinct (map pb_policy (ns_policies t))"
    and "set (map pb_policy (ns_policies t)) = {Cs2UdpPorts, Cs2App}"
  using assms sorted_inventory_distinct [of "map sb_setting (ns_settings t)" SETTING_INVENTORY]
    sorted_inventory_distinct [of "map pb_policy (ns_policies t)" POLICY_INVENTORY]
  by (simp_all add: network_stack_validate_Ok SETTING_INVENTORY_def POLICY_INVENTORY_def)

lemma setting_backup_value_type:
  assumes "setting_backup_validate s = Ok u" and "sb_setting s \<noteq> QosNlaBypass"
    and "sb_original_value s = Some value"
  shows "sb_existed s" and "sb_nla s = None"
    and "(\<exists>x. value = StackString x) \<longleftrightarrow> sb_setting s = InterruptModeration"
  using assms by (auto simp: setting_backup_validate_def split: if_splits network_stack_value.splits)

lemma setting_backup_nla:
  assumes "setting_backup_validate s = Ok u" and "sb_setting s = QosNlaBypass"
  obtains nla where "sb_nla s = Some nla" and "sb_original_value s = None"
    and "sb_existed s = nla_value_existed nla"
    and "nla_value_existed nla = (nla_original_value nla \<noteq> None)"
    and "nla_value_existed nla \<Longrightarrow> nla_key_existed nla"
    and "\<And>v. nla_original_value nla = Some v \<Longrightarrow> length (raw_bytes v) \<le> 64"
  using assms by (auto simp: setting_backup_validate_def split: if_splits option.splits)

lemma policy_snapshot_validate_Ok [guard_simps]:
  "policy_snapshot_validate p = Ok u \<longleftrightarrow>
     precedence p \<le> 255 \<and> template_match_condition p = 0 \<and> ip_protocol p \<le> 3
     \<and> -1 \<le> sint (priority_value_8021_action p) \<and> sint (priority_value_8021_action p) \<le> 7
     \<and> -1 \<le> sint (dscp_action p) \<and> sint (dscp_action p) \<le> 63
     \<and> min_bandwidth_weight_action p \<le> 100
     \<and> (\<forall>value\<in>{user_match_condition p, source_prefix_match_condition p,
           destination_prefix_match_condition p, app_path_match_condition p,
           uri_match_condition p}. length value \<le> 1024 \<and> \<not> has_control value)"
  by (auto simp: policy_snapshot_validate_def not_less)

section \<open>Properties\<close>

definition untouched_setting :: "network_stack_setting \<Rightarrow> unit network_stack_setting_backup" where
  "untouched_setting setting =
     \<lparr>sb_setting = setting, sb_existed = False, sb_original_value = None,
      sb_nla = (if setting = QosNlaBypass
        then Some \<lparr>nla_key_existed = False, nla_value_existed = False, nla_original_value = None\<rparr>
        else None),
      sb_unknown = fmempty\<rparr>"

definition untouched_policy :: "network_stack_policy \<Rightarrow> unit network_stack_policy_backup" where
  "untouched_policy policy =
     \<lparr>pb_policy = policy, pb_existed = False, pb_original_policy = None, pb_unknown = fmempty\<rparr>"

definition sample_network_transaction :: "unit network_stack_transaction" where
  "sample_network_transaction =
     \<lparr>ns_step = ''P1:16'', ns_timestamp = ''2026-01-01T00:00:00Z'', ns_adapter = sample_nic,
      ns_settings = map untouched_setting [QosNlaBypass, Eee, FlowControl, RssEnabled, UroEnabled],
      ns_policies = map untouched_policy [Cs2App, Cs2UdpPorts], ns_unknown = fmempty\<rparr>"

lemma sample_network_valid: "network_stack_validate sample_network_transaction = Ok ()"
proof -
  have "(bounded_timestamp ''2026-01-01T00:00:00Z'')
      \<and> (sort (map sb_setting (ns_settings sample_network_transaction)) = SETTING_INVENTORY)
      \<and> (sort (map pb_policy (ns_policies sample_network_transaction)) = POLICY_INVENTORY)"
    by code_simp
  then show ?thesis
    using sample_nic_valid
    by (simp add: network_stack_validate_Ok)
      (simp add: sample_network_transaction_def NETWORK_STACK_TRANSACTION_STEP_def is_empty_map_def
        setting_backup_validate_def policy_backup_validate_def untouched_setting_def
        untouched_policy_def)
qed

text \<open>
  A network transaction that validates is complete: it is bound to one valid adapter, captures
  each of the five settings and each of the two policies of P1:16 exactly once and nothing else,
  and every captured existence flag agrees with the captured value.
\<close>

theorem network_transaction_is_complete:
  assumes "network_stack_validate t = Ok ()"
  shows "nic_validate (ns_adapter t) = Ok ()
     \<and> distinct (map sb_setting (ns_settings t))
     \<and> set (map sb_setting (ns_settings t)) = {Eee, FlowControl, RssEnabled, UroEnabled, QosNlaBypass}
     \<and> distinct (map pb_policy (ns_policies t))
     \<and> set (map pb_policy (ns_policies t)) = {Cs2UdpPorts, Cs2App}
     \<and> list_all (\<lambda>s. sb_setting s = QosNlaBypass \<or> sb_existed s = (sb_original_value s \<noteq> None))
         (ns_settings t)
     \<and> list_all (\<lambda>p. pb_existed p = (pb_original_policy p \<noteq> None)) (ns_policies t)"
proof -
  have s: "setting_backup_validate s = Ok () \<Longrightarrow>
      sb_setting s = QosNlaBypass \<or> sb_existed s = (sb_original_value s \<noteq> None)"
    for s :: "'a network_stack_setting_backup"
    by (auto simp: setting_backup_validate_def split: if_splits)
  have p: "policy_backup_validate p = Ok () \<Longrightarrow> pb_existed p = (pb_original_policy p \<noteq> None)"
    for p :: "'a network_stack_policy_backup"
    by (auto simp: policy_backup_validate_def split: if_splits)
  note v = assms [unfolded network_stack_validate_Ok]
  show ?thesis
    using network_stack_settings_bound [OF assms] v s p unfolding list_all_iff by blast
qed

theorem network_transaction_is_complete_witness:
  "set (map sb_setting (ns_settings sample_network_transaction))
     = {Eee, FlowControl, RssEnabled, UroEnabled, QosNlaBypass}"
  using network_transaction_is_complete [OF sample_network_valid] by blast

text \<open>
  An interrupt-policy backup is accepted exactly when it can be restored to the device it was
  taken from: it belongs to the step of its policy, names a valid device, has no unknown field,
  its existence flag agrees with its value, and the value has the registry type of the policy.
\<close>

theorem interrupt_backup_accepted_exactly:
  "interrupt_validate b = Ok () \<longleftrightarrow>
     is_empty_map (ip_unknown b)
     \<and> ip_step b = policy_expected_step (ip_policy b)
     \<and> bounded_timestamp (ip_timestamp b)
     \<and> pci_validate (ip_device b) = Ok ()
     \<and> ip_existed b = (ip_original_value b \<noteq> None)
     \<and> policy_value_fits (ip_policy b) (ip_original_value b)"
  by (rule interrupt_validate_Ok)

end
