(* ===== verification/Cs2_Targets.thy ===== *)
theory Cs2_Targets
  imports Frametime_Prelude
begin

text \<open>
  The closed vocabulary of CS2 configuration files: the embedded optional assets, a request and
  the write set it names (\<open>crates/frametime-domain/src/cs2_config.rs\<close>, lines 56-253, and
  \<open>cs2_config/targets.rs\<close>).  A \<open>BTreeSet\<close> that is iterated is its ascending list without
  repetition.  The contents of the embedded asset files are data and stay a parameter of the
  controller.
\<close>

section \<open>Optional assets\<close>

datatype (plugins only: code size) optional_cfg_asset =
    NetStable
  | NetHighPing
  | NetUnstable
  | NetBad
  | DebugHud
  | DebugHudOff
  | AudioStable
  | AudioLowLatency025
  | AudioLowLatency001
  | FrameBaseline400
  | FrameRawUncapped
  | AudioEqCrisp
  | AudioEqSmooth
  | AudioLegacyLrIsolation
  | Competitive2026

text \<open>\<open>OptionalCfgAsset\<close> derives \<open>Ord\<close>: declaration order.\<close>

fun asset_rank :: "optional_cfg_asset \<Rightarrow> nat" where
  "asset_rank NetStable = 0"
| "asset_rank NetHighPing = 1"
| "asset_rank NetUnstable = 2"
| "asset_rank NetBad = 3"
| "asset_rank DebugHud = 4"
| "asset_rank DebugHudOff = 5"
| "asset_rank AudioStable = 6"
| "asset_rank AudioLowLatency025 = 7"
| "asset_rank AudioLowLatency001 = 8"
| "asset_rank FrameBaseline400 = 9"
| "asset_rank FrameRawUncapped = 10"
| "asset_rank AudioEqCrisp = 11"
| "asset_rank AudioEqSmooth = 12"
| "asset_rank AudioLegacyLrIsolation = 13"
| "asset_rank Competitive2026 = 14"

lemma asset_rank_inject [simp]: "asset_rank a = asset_rank b \<longleftrightarrow> a = b"
  by (cases a; cases b) simp_all

instantiation optional_cfg_asset :: linorder
begin

definition less_eq_optional_cfg_asset :: "optional_cfg_asset \<Rightarrow> optional_cfg_asset \<Rightarrow> bool" where
  "less_eq_optional_cfg_asset a b \<longleftrightarrow> asset_rank a \<le> asset_rank b"

definition less_optional_cfg_asset :: "optional_cfg_asset \<Rightarrow> optional_cfg_asset \<Rightarrow> bool" where
  "less_optional_cfg_asset a b \<longleftrightarrow> asset_rank a < asset_rank b"

instance
  by standard (auto simp: less_eq_optional_cfg_asset_def less_optional_cfg_asset_def)

end

definition ALL_ASSETS :: "optional_cfg_asset list" where
  "ALL_ASSETS =
     [NetStable, NetHighPing, NetUnstable, NetBad, DebugHud,
      DebugHudOff, AudioStable, AudioLowLatency025, AudioLowLatency001, FrameBaseline400,
      FrameRawUncapped, AudioEqCrisp, AudioEqSmooth, AudioLegacyLrIsolation, Competitive2026]"

fun asset_file_name :: "optional_cfg_asset \<Rightarrow> string" where
  "asset_file_name NetStable = ''net_stable.cfg''"
| "asset_file_name NetHighPing = ''net_highping.cfg''"
| "asset_file_name NetUnstable = ''net_unstable.cfg''"
| "asset_file_name NetBad = ''net_bad.cfg''"
| "asset_file_name DebugHud = ''debug_hud.cfg''"
| "asset_file_name DebugHudOff = ''debug_hud_off.cfg''"
| "asset_file_name AudioStable = ''audio_stable.cfg''"
| "asset_file_name AudioLowLatency025 = ''audio_lowlatency_025.cfg''"
| "asset_file_name AudioLowLatency001 = ''audio_lowlatency_001.cfg''"
| "asset_file_name FrameBaseline400 = ''frame_baseline_400.cfg''"
| "asset_file_name FrameRawUncapped = ''frame_raw_uncapped.cfg''"
| "asset_file_name AudioEqCrisp = ''audio_eq_crisp.cfg''"
| "asset_file_name AudioEqSmooth = ''audio_eq_smooth.cfg''"
| "asset_file_name AudioLegacyLrIsolation = ''audio_legacy_lr_isolation.cfg''"
| "asset_file_name Competitive2026 = ''competitive_2026.cfg''"

fun cli_token :: "optional_cfg_asset \<Rightarrow> string" where
  "cli_token NetStable = ''net-stable''"
| "cli_token NetHighPing = ''net-highping''"
| "cli_token NetUnstable = ''net-unstable''"
| "cli_token NetBad = ''net-bad''"
| "cli_token DebugHud = ''debug-hud''"
| "cli_token DebugHudOff = ''debug-hud-off''"
| "cli_token AudioStable = ''audio-stable''"
| "cli_token AudioLowLatency025 = ''audio-lowlatency-025''"
| "cli_token AudioLowLatency001 = ''audio-lowlatency-001''"
| "cli_token FrameBaseline400 = ''frame-baseline-400''"
| "cli_token FrameRawUncapped = ''frame-raw-uncapped''"
| "cli_token AudioEqCrisp = ''audio-eq-crisp''"
| "cli_token AudioEqSmooth = ''audio-eq-smooth''"
| "cli_token AudioLegacyLrIsolation = ''audio-legacy-lr-isolation''"
| "cli_token Competitive2026 = ''competitive-2026''"

fun display_label :: "optional_cfg_asset \<Rightarrow> string" where
  "display_label NetStable = ''Network stable''"
| "display_label NetHighPing = ''Network high ping''"
| "display_label NetUnstable = ''Network unstable''"
| "display_label NetBad = ''Network loss diagnostics''"
| "display_label DebugHud = ''Debug HUD on''"
| "display_label DebugHudOff = ''Debug HUD off''"
| "display_label AudioStable = ''Audio stable''"
| "display_label AudioLowLatency025 = ''Audio low latency 0.025''"
| "display_label AudioLowLatency001 = ''Audio auto latency / 0.001 alias''"
| "display_label FrameBaseline400 = ''Frame baseline 400''"
| "display_label FrameRawUncapped = ''Frame raw uncapped''"
| "display_label AudioEqCrisp = ''Audio EQ crisp''"
| "display_label AudioEqSmooth = ''Audio EQ smooth''"
| "display_label AudioLegacyLrIsolation = ''Audio legacy L/R isolation''"
| "display_label Competitive2026 = ''Competitive 2026''"

definition from_cli_token :: "string \<Rightarrow> optional_cfg_asset option" where
  "from_cli_token value = find (\<lambda>asset. cli_token asset = value) ALL_ASSETS"

section \<open>Requests\<close>

text \<open>Collecting into a \<open>BTreeSet\<close> and iterating it.\<close>

definition btree_set :: "'a::linorder list \<Rightarrow> 'a list" where
  "btree_set xs = sort (remdups xs)"

record cs2_config_request =
  generated_at :: string
  optional_assets :: "optional_cfg_asset list"
  bootstrap_autoexec :: bool

definition valid_timestamp :: "string \<Rightarrow> bool" where
  "valid_timestamp value \<longleftrightarrow>
     length value = 16
     \<and> list_all
         (\<lambda>(index, c).
            ((index = 4 \<or> index = 7) \<and> c = CHR ''-'')
            \<or> (index = 10 \<and> c = CHR '' '')
            \<or> (index = 13 \<and> c = CHR '':'')
            \<or> (is_ascii_digit c \<and> \<not> (index = 4 \<or> index = 7 \<or> index = 10 \<or> index = 13)))
         (enumerate 0 value)"

text \<open>\<open>Cs2ConfigRequest::new\<close> and \<open>::at\<close> have the same body; \<open>None\<close> is \<open>InvalidTimestamp\<close>.\<close>

definition cs2_config_request_new ::
  "string \<Rightarrow> optional_cfg_asset list \<Rightarrow> cs2_config_request option" where
  "cs2_config_request_new at assets =
     (if \<not> valid_timestamp at then None
      else Some \<lparr>generated_at = at, optional_assets = btree_set assets, bootstrap_autoexec = False\<rparr>)"

definition with_autoexec_bootstrap :: "cs2_config_request \<Rightarrow> cs2_config_request" where
  "with_autoexec_bootstrap r = r\<lparr>bootstrap_autoexec := True\<rparr>"

section \<open>Targets\<close>

datatype (plugins only: code size) cs2_config_target =
    TargetOptimization
  | TargetAutoexec
  | TargetNetStable
  | TargetNetHighPing
  | TargetNetUnstable
  | TargetNetBad
  | TargetDebugHud
  | TargetDebugHudOff
  | TargetAudioStable
  | TargetAudioLowLatency025
  | TargetAudioLowLatency001
  | TargetFrameBaseline400
  | TargetFrameRawUncapped
  | TargetAudioEqCrisp
  | TargetAudioEqSmooth
  | TargetAudioLegacyLrIsolation
  | TargetCompetitive2026

definition OPTIMIZATION_FILE :: string where
  "OPTIMIZATION_FILE = ''optimization.cfg''"

definition AUTOEXEC_FILE :: string where
  "AUTOEXEC_FILE = ''autoexec.cfg''"

definition AUTOEXEC_BACKUP_FILE :: string where
  "AUTOEXEC_BACKUP_FILE = ''autoexec.cfg.bak''"

fun target_rank_of :: "cs2_config_target \<Rightarrow> nat" where
  "target_rank_of TargetOptimization = 0"
| "target_rank_of TargetAutoexec = 1"
| "target_rank_of TargetNetStable = 2"
| "target_rank_of TargetNetHighPing = 3"
| "target_rank_of TargetNetUnstable = 4"
| "target_rank_of TargetNetBad = 5"
| "target_rank_of TargetDebugHud = 6"
| "target_rank_of TargetDebugHudOff = 7"
| "target_rank_of TargetAudioStable = 8"
| "target_rank_of TargetAudioLowLatency025 = 9"
| "target_rank_of TargetAudioLowLatency001 = 10"
| "target_rank_of TargetFrameBaseline400 = 11"
| "target_rank_of TargetFrameRawUncapped = 12"
| "target_rank_of TargetAudioEqCrisp = 13"
| "target_rank_of TargetAudioEqSmooth = 14"
| "target_rank_of TargetAudioLegacyLrIsolation = 15"
| "target_rank_of TargetCompetitive2026 = 16"

lemma target_rank_of_inject [simp]: "target_rank_of a = target_rank_of b \<longleftrightarrow> a = b"
  by (cases a; cases b) simp_all

instantiation cs2_config_target :: linorder
begin

definition less_eq_cs2_config_target :: "cs2_config_target \<Rightarrow> cs2_config_target \<Rightarrow> bool" where
  "less_eq_cs2_config_target a b \<longleftrightarrow> target_rank_of a \<le> target_rank_of b"

definition less_cs2_config_target :: "cs2_config_target \<Rightarrow> cs2_config_target \<Rightarrow> bool" where
  "less_cs2_config_target a b \<longleftrightarrow> target_rank_of a < target_rank_of b"

instance
  by standard (auto simp: less_eq_cs2_config_target_def less_cs2_config_target_def)

end

fun from_optional_asset :: "optional_cfg_asset \<Rightarrow> cs2_config_target" where
  "from_optional_asset NetStable = TargetNetStable"
| "from_optional_asset NetHighPing = TargetNetHighPing"
| "from_optional_asset NetUnstable = TargetNetUnstable"
| "from_optional_asset NetBad = TargetNetBad"
| "from_optional_asset DebugHud = TargetDebugHud"
| "from_optional_asset DebugHudOff = TargetDebugHudOff"
| "from_optional_asset AudioStable = TargetAudioStable"
| "from_optional_asset AudioLowLatency025 = TargetAudioLowLatency025"
| "from_optional_asset AudioLowLatency001 = TargetAudioLowLatency001"
| "from_optional_asset FrameBaseline400 = TargetFrameBaseline400"
| "from_optional_asset FrameRawUncapped = TargetFrameRawUncapped"
| "from_optional_asset AudioEqCrisp = TargetAudioEqCrisp"
| "from_optional_asset AudioEqSmooth = TargetAudioEqSmooth"
| "from_optional_asset AudioLegacyLrIsolation = TargetAudioLegacyLrIsolation"
| "from_optional_asset Competitive2026 = TargetCompetitive2026"

text \<open>The same table, as \<open>for_request\<close> spells it out.\<close>

fun request_asset_target :: "optional_cfg_asset \<Rightarrow> cs2_config_target" where
  "request_asset_target NetStable = TargetNetStable"
| "request_asset_target NetHighPing = TargetNetHighPing"
| "request_asset_target NetUnstable = TargetNetUnstable"
| "request_asset_target NetBad = TargetNetBad"
| "request_asset_target DebugHud = TargetDebugHud"
| "request_asset_target DebugHudOff = TargetDebugHudOff"
| "request_asset_target AudioStable = TargetAudioStable"
| "request_asset_target AudioLowLatency025 = TargetAudioLowLatency025"
| "request_asset_target AudioLowLatency001 = TargetAudioLowLatency001"
| "request_asset_target FrameBaseline400 = TargetFrameBaseline400"
| "request_asset_target FrameRawUncapped = TargetFrameRawUncapped"
| "request_asset_target AudioEqCrisp = TargetAudioEqCrisp"
| "request_asset_target AudioEqSmooth = TargetAudioEqSmooth"
| "request_asset_target AudioLegacyLrIsolation = TargetAudioLegacyLrIsolation"
| "request_asset_target Competitive2026 = TargetCompetitive2026"

definition for_request :: "cs2_config_request \<Rightarrow> cs2_config_target list" where
  "for_request r =
     [TargetOptimization]
     @ (if bootstrap_autoexec r then [TargetAutoexec] else [])
     @ map request_asset_target (optional_assets r)"

definition for_optional_assets :: "optional_cfg_asset list \<Rightarrow> cs2_config_target list" where
  "for_optional_assets assets = map from_optional_asset assets"

fun optional_asset :: "cs2_config_target \<Rightarrow> optional_cfg_asset option" where
  "optional_asset TargetOptimization = None"
| "optional_asset TargetAutoexec = None"
| "optional_asset TargetNetStable = Some NetStable"
| "optional_asset TargetNetHighPing = Some NetHighPing"
| "optional_asset TargetNetUnstable = Some NetUnstable"
| "optional_asset TargetNetBad = Some NetBad"
| "optional_asset TargetDebugHud = Some DebugHud"
| "optional_asset TargetDebugHudOff = Some DebugHudOff"
| "optional_asset TargetAudioStable = Some AudioStable"
| "optional_asset TargetAudioLowLatency025 = Some AudioLowLatency025"
| "optional_asset TargetAudioLowLatency001 = Some AudioLowLatency001"
| "optional_asset TargetFrameBaseline400 = Some FrameBaseline400"
| "optional_asset TargetFrameRawUncapped = Some FrameRawUncapped"
| "optional_asset TargetAudioEqCrisp = Some AudioEqCrisp"
| "optional_asset TargetAudioEqSmooth = Some AudioEqSmooth"
| "optional_asset TargetAudioLegacyLrIsolation = Some AudioLegacyLrIsolation"
| "optional_asset TargetCompetitive2026 = Some Competitive2026"

fun target_file_name :: "cs2_config_target \<Rightarrow> string" where
  "target_file_name TargetOptimization = OPTIMIZATION_FILE"
| "target_file_name TargetAutoexec = AUTOEXEC_FILE"
| "target_file_name TargetNetStable = ''net_stable.cfg''"
| "target_file_name TargetNetHighPing = ''net_highping.cfg''"
| "target_file_name TargetNetUnstable = ''net_unstable.cfg''"
| "target_file_name TargetNetBad = ''net_bad.cfg''"
| "target_file_name TargetDebugHud = ''debug_hud.cfg''"
| "target_file_name TargetDebugHudOff = ''debug_hud_off.cfg''"
| "target_file_name TargetAudioStable = ''audio_stable.cfg''"
| "target_file_name TargetAudioLowLatency025 = ''audio_lowlatency_025.cfg''"
| "target_file_name TargetAudioLowLatency001 = ''audio_lowlatency_001.cfg''"
| "target_file_name TargetFrameBaseline400 = ''frame_baseline_400.cfg''"
| "target_file_name TargetFrameRawUncapped = ''frame_raw_uncapped.cfg''"
| "target_file_name TargetAudioEqCrisp = ''audio_eq_crisp.cfg''"
| "target_file_name TargetAudioEqSmooth = ''audio_eq_smooth.cfg''"
| "target_file_name TargetAudioLegacyLrIsolation = ''audio_legacy_lr_isolation.cfg''"
| "target_file_name TargetCompetitive2026 = ''competitive_2026.cfg''"

section \<open>Lemmas\<close>

lemma btree_set_facts [simp]:
  "set (btree_set xs) = set xs" "sorted (btree_set xs)" "distinct (btree_set xs)"
  by (simp_all add: btree_set_def)

lemma btree_set_id: "sorted xs \<Longrightarrow> distinct xs \<Longrightarrow> btree_set xs = xs"
  by (simp add: btree_set_def sorted_sort_id distinct_remdups_id)

lemma ALL_ASSETS_complete [simp]: "a \<in> set ALL_ASSETS"
  by (cases a) (simp_all add: ALL_ASSETS_def)

lemma cli_token_inject [simp]: "cli_token a = cli_token b \<longleftrightarrow> a = b"
  by (cases a; cases b) simp_all

lemma from_cli_token_iff: "from_cli_token v = Some a \<longleftrightarrow> v = cli_token a"
proof
  assume "from_cli_token v = Some a"
  then show "v = cli_token a"
    by (auto simp: from_cli_token_def find_Some_iff)
next
  assume v: "v = cli_token a"
  then have "from_cli_token v \<noteq> None"
    using ALL_ASSETS_complete [of a] by (auto simp: from_cli_token_def find_None_iff)
  then obtain b where b: "from_cli_token v = Some b" by auto
  then have "cli_token b = v"
    by (auto simp: from_cli_token_def find_Some_iff)
  with v b show "from_cli_token v = Some a" by simp
qed

lemma request_asset_target_eq: "request_asset_target = from_optional_asset"
  by (rule ext, case_tac x) simp_all

lemma from_optional_asset_inject [simp]: "from_optional_asset a = from_optional_asset b \<longleftrightarrow> a = b"
  by (cases a; cases b) simp_all

lemma optional_asset_from [simp]: "optional_asset (from_optional_asset a) = Some a"
  by (cases a) simp_all

lemma optional_asset_Some_iff: "optional_asset t = Some a \<longleftrightarrow> t = from_optional_asset a"
  by (cases t; cases a) simp_all

lemma from_optional_asset_not_fixed [simp]:
  "from_optional_asset a \<noteq> TargetOptimization" "from_optional_asset a \<noteq> TargetAutoexec"
  "TargetOptimization \<noteq> from_optional_asset a" "TargetAutoexec \<noteq> from_optional_asset a"
  by (cases a; simp)+

lemma target_file_name_asset [simp]: "target_file_name (from_optional_asset a) = asset_file_name a"
  by (cases a) simp_all

lemma target_file_name_inject [simp]: "target_file_name a = target_file_name b \<longleftrightarrow> a = b"
  by (cases a; cases b) (simp_all add: OPTIMIZATION_FILE_def AUTOEXEC_FILE_def)

lemma target_file_name_safe:
  "target_file_name t \<noteq> []" "target_file_name t \<noteq> ''.''" "target_file_name t \<noteq> ''..''"
  by (cases t; simp add: OPTIMIZATION_FILE_def AUTOEXEC_FILE_def)+

lemma distinct_for_request:
  "distinct (optional_assets r) \<Longrightarrow> distinct (for_request r)"
  by (auto simp: for_request_def request_asset_target_eq distinct_map inj_on_def)

lemma distinct_for_optional_assets [simp]:
  "distinct (for_optional_assets as) \<longleftrightarrow> distinct as"
  by (simp add: for_optional_assets_def distinct_map inj_on_def)

lemma from_optional_asset_mono: "from_optional_asset a < from_optional_asset b \<longleftrightarrow> a < b"
  by (cases a; cases b) (simp_all add: less_cs2_config_target_def less_optional_cfg_asset_def)

section \<open>Properties\<close>

text \<open>
  The closed set of files the tool may write is addressed without ambiguity: a command-line
  token selects an asset exactly when it is the token of that asset, an asset's target leads back
  to the asset, and two targets with the same file name are the same target.
\<close>

theorem targets_are_unambiguous:
  "(from_cli_token token = Some asset \<longleftrightarrow> token = cli_token asset)
     \<and> optional_asset (from_optional_asset asset) = Some asset
     \<and> target_file_name (from_optional_asset asset) = asset_file_name asset
     \<and> (target_file_name target = target_file_name target' \<longleftrightarrow> target = target')"
  by (simp add: from_cli_token_iff)

end
