(* ===== verification/Fps.thy ===== *)
theory Fps
  imports Handoff
begin

text \<open>
  Benchmark captures, the cap they sustain (\<open>fps.rs\<close>), the validated configuration
  (\<open>config.rs\<close>) and the final benchmark receipt (\<open>benchmark.rs\<close>) of
  \<open>crates/frametime-domain/src\<close>.  Parsing VProf text and TOML is left to the \<open>regex\<close> and
  \<open>toml\<close> packages and is not modelled.
\<close>

section \<open>Captures and caps\<close>

record benchmark_capture =
  average_fps :: f64
  capture_p1_fps :: f64
  capture_runs :: u32

datatype fps_cap_strategy = RawLatency "u32 option" | Vrr u32 u32

definition sustainable_cap :: "u32 \<Rightarrow> benchmark_capture \<Rightarrow> u32 option" where
  "sustainable_cap cap c =
     (if 0 < cap
         \<and> is_finite (average_fps c)
         \<and> f64_lt f64_zero (average_fps c)
         \<and> is_finite (capture_p1_fps c)
         \<and> f64_le (f64_of_u32 cap) (capture_p1_fps c)
         \<and> 5 \<le> capture_runs c
      then Some cap else None)"

definition checked_sub :: "u32 \<Rightarrow> u32 \<Rightarrow> u32 option" where
  "checked_sub a b = (if b \<le> a then Some (a - b) else None)"

fun measured_fps_cap :: "fps_cap_strategy \<Rightarrow> benchmark_capture \<Rightarrow> u32 option" where
  "measured_fps_cap (RawLatency None) c = Some 0"
| "measured_fps_cap (RawLatency (Some cap)) c = sustainable_cap cap c"
| "measured_fps_cap (Vrr refresh_hz ceiling_margin_hz) c =
     Option.bind
       (case checked_sub refresh_hz ceiling_margin_hz of
          None \<Rightarrow> None | Some cap \<Rightarrow> if 0 < cap then Some cap else None)
       (\<lambda>cap. sustainable_cap cap c)"

section \<open>Configuration\<close>

datatype fps_cap_mode = ModeRaw | ModeVrr

record fps_cap_config =
  cap_strategy :: fps_cap_mode
  measured_cap :: u32
  refresh_hz :: u32
  ceiling_margin_hz :: u32

record runtime_paths =
  shader_cache :: "string list"
  nvidia_dx_cache :: string
  nvidia_gl_cache :: string
  directx_shader_cache :: string

record config =
  config_fps_cap :: fps_cap_config
  config_paths :: runtime_paths
  autostart_remove :: "string list"

datatype config_error = FpsMeasuredCap | FpsVrr | CachePath string | ShaderCachePath string

definition backslash :: string where
  "backslash = [char_of (92 :: nat)]"

definition NVIDIA_DX_CACHE_TEMPLATE :: string where
  "NVIDIA_DX_CACHE_TEMPLATE = ''%LOCALAPPDATA%'' @ backslash @ ''NVIDIA'' @ backslash @ ''DXCache''"

definition NVIDIA_GL_CACHE_TEMPLATE :: string where
  "NVIDIA_GL_CACHE_TEMPLATE = ''%LOCALAPPDATA%'' @ backslash @ ''NVIDIA'' @ backslash @ ''GLCache''"

definition DIRECTX_SHADER_CACHE_TEMPLATE :: string where
  "DIRECTX_SHADER_CACHE_TEMPLATE = ''%LOCALAPPDATA%'' @ backslash @ ''D3DSCache''"

definition CS2_SHADER_CACHE_TEMPLATES :: "string list" where
  "CS2_SHADER_CACHE_TEMPLATES =
     (let tail = backslash @ ''Steam'' @ backslash @ ''steamapps'' @ backslash @ ''shadercache''
                   @ backslash @ ''730'' in
      [''%ProgramFiles(x86)%'' @ tail, ''%ProgramFiles%'' @ tail, ''D:'' @ tail, ''E:'' @ tail,
       ''F:'' @ tail])"

definition cap_config_strategy :: "fps_cap_config \<Rightarrow> fps_cap_strategy" where
  "cap_config_strategy f =
     (case cap_strategy f of
        ModeRaw \<Rightarrow> RawLatency (if measured_cap f = 0 then None else Some (measured_cap f))
      | ModeVrr \<Rightarrow> Vrr (refresh_hz f) (ceiling_margin_hz f))"

text \<open>The loop over the shader-cache paths, with the set of lower-case paths seen so far.\<close>

fun check_shader_paths :: "string fset \<Rightarrow> string list \<Rightarrow> (unit, config_error) result" where
  "check_shader_paths seen [] = Ok ()"
| "check_shader_paths seen (path # rest) =
     (if path \<notin> set CS2_SHADER_CACHE_TEMPLATES \<or> to_ascii_lowercase path |\<in>| seen
      then Err (ShaderCachePath path)
      else check_shader_paths (finsert (to_ascii_lowercase path) seen) rest)"

definition config_validate :: "config \<Rightarrow> (unit, config_error) result" where
  "config_validate c =
     (let f = config_fps_cap c; p = config_paths c in
      if measured_cap f \<noteq> 0 \<and> \<not> (30 \<le> measured_cap f \<and> measured_cap f \<le> 1000)
      then Err FpsMeasuredCap
      else if cap_strategy f = ModeVrr
          \<and> (\<not> (30 \<le> refresh_hz f \<and> refresh_hz f \<le> 1000)
              \<or> ceiling_margin_hz f = 0
              \<or> ceiling_margin_hz f \<ge> refresh_hz f)
      then Err FpsVrr
      else if shader_cache p = []
      then Err (ShaderCachePath ''at least one CS2 shader-cache template is required'')
      else
      and_then (check_shader_paths {||} (shader_cache p)) (\<lambda>_.
      try_each (\<lambda>(path, expected). if path \<noteq> expected then Err (CachePath path) else Ok ())
        [(nvidia_dx_cache p, NVIDIA_DX_CACHE_TEMPLATE),
         (nvidia_gl_cache p, NVIDIA_GL_CACHE_TEMPLATE),
         (directx_shader_cache p, DIRECTX_SHADER_CACHE_TEMPLATE)]))"

section \<open>Receipts\<close>

definition FINAL_BENCHMARK_SCHEMA_VERSION :: u8 where
  "FINAL_BENCHMARK_SCHEMA_VERSION = 1"

definition FINAL_BENCHMARK_LABEL :: string where
  "FINAL_BENCHMARK_LABEL = ''After all optimizations''"

definition BASELINE_BENCHMARK_LABEL :: string where
  "BASELINE_BENCHMARK_LABEL = ''Baseline (before optimizations)''"

record 'v benchmark_record =
  rec_timestamp :: string
  rec_avg_fps :: f64
  rec_p1_fps :: f64
  rec_label :: string
  rec_runs :: u32
  rec_receipt_id :: "transaction_id option"
  rec_transaction_id :: "transaction_id option"
  rec_unknown :: "'v fields"

record 'v final_benchmark_receipt =
  fb_schema_version :: u8
  fb_receipt_id :: transaction_id
  fb_transaction_id :: transaction_id
  fb_captured_utc :: string
  fb_avg_fps :: f64
  fb_p1_fps :: f64
  fb_runs :: u32
  fb_fps_cap :: u32
  fb_label :: string
  fb_unknown :: "'v fields"

definition valid_capture_timestamp :: "string \<Rightarrow> bool" where
  "valid_capture_timestamp value \<longleftrightarrow>
     length value = 19
     \<and> list_all
         (\<lambda>(index, c).
            if index = 4 \<or> index = 7 then c = CHR ''-''
            else if index = 10 then c = CHR '' ''
            else if index = 13 \<or> index = 16 then c = CHR '':''
            else is_ascii_digit c)
         (enumerate 0 value)"

definition receipt_validate :: "'v final_benchmark_receipt \<Rightarrow> (unit, string) result" where
  "receipt_validate r =
     (if fb_schema_version r \<noteq> FINAL_BENCHMARK_SCHEMA_VERSION
      then Err ''unsupported final benchmark schema''
      else if fb_receipt_id r = fb_transaction_id r
      then Err ''final benchmark receipt id must differ from its reboot transaction id''
      else if \<not> valid_capture_timestamp (fb_captured_utc r)
      then Err ''final benchmark timestamp is invalid''
      else if \<not> is_finite (fb_avg_fps r)
          \<or> f64_le (fb_avg_fps r) f64_zero
          \<or> \<not> is_finite (fb_p1_fps r)
          \<or> f64_le (fb_p1_fps r) f64_zero
          \<or> f64_lt (fb_avg_fps r) (fb_p1_fps r)
          \<or> fb_runs r = 0
      then Err ''final benchmark capture is incomplete or invalid''
      else if fb_label r \<noteq> FINAL_BENCHMARK_LABEL
      then Err ''final benchmark label is not the fixed Phase 3 label''
      else Ok ())"

definition receipt_validate_for_transaction ::
  "'v final_benchmark_receipt \<Rightarrow> 'v reboot_transaction \<Rightarrow> (unit, string) result" where
  "receipt_validate_for_transaction r t =
     and_then (receipt_validate r) (\<lambda>_.
     if tx_id t \<noteq> Some (fb_transaction_id r)
     then Err ''final benchmark transaction id does not match active reboot transaction''
     else Ok ())"

definition receipt_new ::
  "transaction_id \<Rightarrow> transaction_id \<Rightarrow> string \<Rightarrow> benchmark_capture \<Rightarrow> u32
   \<Rightarrow> ('v final_benchmark_receipt, string) result" where
  "receipt_new receipt_id transaction_id captured_utc capture fps_cap =
     (let receipt =
        \<lparr>fb_schema_version = FINAL_BENCHMARK_SCHEMA_VERSION, fb_receipt_id = receipt_id,
         fb_transaction_id = transaction_id, fb_captured_utc = captured_utc,
         fb_avg_fps = average_fps capture, fb_p1_fps = capture_p1_fps capture,
         fb_runs = capture_runs capture, fb_fps_cap = fps_cap, fb_label = FINAL_BENCHMARK_LABEL,
         fb_unknown = fmempty\<rparr> in
      and_then (receipt_validate receipt) (\<lambda>_. Ok receipt))"

definition matches_history_record :: "'v final_benchmark_receipt \<Rightarrow> 'v benchmark_record \<Rightarrow> bool" where
  "matches_history_record r h \<longleftrightarrow>
     rec_timestamp h = fb_captured_utc r
     \<and> f64_eq (rec_avg_fps h) (fb_avg_fps r)
     \<and> f64_eq (rec_p1_fps h) (fb_p1_fps r)
     \<and> rec_label h = fb_label r
     \<and> rec_runs h = fb_runs r
     \<and> rec_receipt_id h = Some (fb_receipt_id r)
     \<and> rec_transaction_id h = Some (fb_transaction_id r)"

section \<open>Lemmas\<close>

lemma sustainable_cap_Some:
  "sustainable_cap cap c = Some v \<longleftrightarrow>
     v = cap \<and> 0 < cap \<and> is_finite (average_fps c) \<and> f64_lt f64_zero (average_fps c)
     \<and> is_finite (capture_p1_fps c) \<and> f64_le (f64_of_u32 cap) (capture_p1_fps c)
     \<and> 5 \<le> capture_runs c"
  by (auto simp: sustainable_cap_def)

lemma measured_fps_cap_sustained:
  "measured_fps_cap s c = Some v \<Longrightarrow> v \<noteq> 0 \<Longrightarrow>
     is_finite (capture_p1_fps c) \<and> f64_le (f64_of_u32 v) (capture_p1_fps c)
     \<and> 5 \<le> capture_runs c"
  by (induction s c rule: measured_fps_cap.induct)
    (auto simp: sustainable_cap_Some bind_eq_Some_conv split: option.splits if_splits)

lemma receipt_validate_Ok [guard_simps]:
  "receipt_validate r = Ok u \<longleftrightarrow>
     fb_schema_version r = FINAL_BENCHMARK_SCHEMA_VERSION
     \<and> fb_receipt_id r \<noteq> fb_transaction_id r
     \<and> valid_capture_timestamp (fb_captured_utc r)
     \<and> is_finite (fb_avg_fps r) \<and> \<not> f64_le (fb_avg_fps r) f64_zero
     \<and> is_finite (fb_p1_fps r) \<and> \<not> f64_le (fb_p1_fps r) f64_zero
     \<and> \<not> f64_lt (fb_avg_fps r) (fb_p1_fps r)
     \<and> fb_runs r \<noteq> 0 \<and> fb_label r = FINAL_BENCHMARK_LABEL"
  by (simp add: receipt_validate_def)

lemma receipt_for_transaction_Ok [guard_simps]:
  "receipt_validate_for_transaction r t = Ok u \<longleftrightarrow>
     receipt_validate r = Ok () \<and> tx_id t = Some (fb_transaction_id r)"
  by (auto simp: receipt_validate_for_transaction_def and_then_eq_Ok)

lemma check_shader_paths_Ok:
  "check_shader_paths seen ps = Ok u \<Longrightarrow>
     set ps \<subseteq> set CS2_SHADER_CACHE_TEMPLATES
     \<and> distinct (map to_ascii_lowercase ps)
     \<and> (\<forall>p\<in>set ps. to_ascii_lowercase p |\<notin>| seen)"
  by (induction seen ps rule: check_shader_paths.induct) (auto split: if_splits)

lemma config_validate_vrr:
  assumes "config_validate c = Ok u" and "cap_strategy (config_fps_cap c) = ModeVrr"
  shows "30 \<le> refresh_hz (config_fps_cap c)" and "refresh_hz (config_fps_cap c) \<le> 1000"
    and "0 < ceiling_margin_hz (config_fps_cap c)"
    and "ceiling_margin_hz (config_fps_cap c) < refresh_hz (config_fps_cap c)"
  using assms by (auto simp: config_validate_def Let_def word_gt_0 split: if_splits)

section \<open>Properties\<close>

text \<open>
  A nonzero measured cap is one the capture sustains: five runs at least, a finite positive
  average, and a finite 1\% low that is no lower than the cap.
\<close>

theorem measured_cap_is_sustained:
  assumes "measured_fps_cap strategy capture = Some cap" and "cap \<noteq> 0"
  shows "5 \<le> capture_runs capture \<and> is_finite (average_fps capture)
     \<and> f64_lt f64_zero (average_fps capture) \<and> is_finite (capture_p1_fps capture)
     \<and> f64_le (f64_of_u32 cap) (capture_p1_fps capture)"
  using assms
  by (induction strategy capture rule: measured_fps_cap.induct)
    (auto simp: sustainable_cap_Some bind_eq_Some_conv split: option.splits if_splits)

theorem measured_cap_is_sustained_witness:
  "f64_le (f64_of_u32 144) (Finite 144)"
  using measured_cap_is_sustained [of "Vrr 150 6"
      "\<lparr>average_fps = Finite 300, capture_p1_fps = Finite 144, capture_runs = 5\<rparr>" 144]
  by (simp add: checked_sub_def sustainable_cap_def f64_of_u32_def)

text \<open>
  A validated configuration cannot ask for an unreasonable cap: whatever the capture, the cap
  measured under it is at most 1000, and under VRR it is positive and stays below the refresh rate
  by the configured margin.
\<close>

theorem validated_configuration_bounds_cap:
  assumes "config_validate c = Ok ()"
    and "measured_fps_cap (cap_config_strategy (config_fps_cap c)) capture = Some cap"
  shows "cap \<le> 1000
     \<and> (cap_strategy (config_fps_cap c) = ModeVrr \<longrightarrow>
          0 < cap \<and> cap < refresh_hz (config_fps_cap c)
          \<and> unat cap + unat (ceiling_margin_hz (config_fps_cap c)) = unat (refresh_hz (config_fps_cap c)))"
proof (cases "cap_strategy (config_fps_cap c)")
  case ModeRaw
  with assms show ?thesis
    by (auto simp: config_validate_def cap_config_strategy_def sustainable_cap_Some Let_def
        split: if_splits)
next
  case ModeVrr
  let ?r = "refresh_hz (config_fps_cap c)" and ?m = "ceiling_margin_hz (config_fps_cap c)"
  note v = config_validate_vrr [OF assms(1) ModeVrr]
  have cap: "cap = ?r - ?m"
    using assms(2) ModeVrr v(4)
    by (auto simp: cap_config_strategy_def checked_sub_def sustainable_cap_Some bind_eq_Some_conv
        split: option.splits if_splits)
  have m: "?m \<le> ?r" using v(4) by simp
  have sub: "unat cap = unat ?r - unat ?m" using m by (simp add: cap unat_sub)
  have "0 < unat ?m" "unat ?m < unat ?r" "unat ?r \<le> 1000"
    using v by (simp_all add: word_less_nat_alt word_le_nat_alt)
  with sub show ?thesis by (auto simp: word_less_nat_alt word_le_nat_alt)
qed

definition sample_vrr :: config where
  "sample_vrr =
     \<lparr>config_fps_cap = \<lparr>cap_strategy = ModeVrr, measured_cap = 0, refresh_hz = 150,
        ceiling_margin_hz = 6\<rparr>,
      config_paths = \<lparr>shader_cache = [hd CS2_SHADER_CACHE_TEMPLATES],
        nvidia_dx_cache = NVIDIA_DX_CACHE_TEMPLATE, nvidia_gl_cache = NVIDIA_GL_CACHE_TEMPLATE,
        directx_shader_cache = DIRECTX_SHADER_CACHE_TEMPLATE\<rparr>,
      autostart_remove = []\<rparr>"

theorem validated_configuration_bounds_cap_witness:
  "(144 :: u32) \<le> 1000 \<and> 144 < refresh_hz (config_fps_cap sample_vrr)"
proof -
  have "config_validate sample_vrr = Ok ()"
    by (simp add: sample_vrr_def config_validate_def CS2_SHADER_CACHE_TEMPLATES_def Let_def)
  moreover have "measured_fps_cap (cap_config_strategy (config_fps_cap sample_vrr))
      \<lparr>average_fps = Finite 300, capture_p1_fps = Finite 144, capture_runs = 5\<rparr> = Some 144"
    by (simp add: sample_vrr_def cap_config_strategy_def checked_sub_def sustainable_cap_def
        f64_of_u32_def)
  ultimately have "(144 :: u32) \<le> 1000 \<and> (cap_strategy (config_fps_cap sample_vrr) = ModeVrr \<longrightarrow>
      0 < (144 :: u32) \<and> 144 < refresh_hz (config_fps_cap sample_vrr)
      \<and> unat (144 :: u32) + unat (ceiling_margin_hz (config_fps_cap sample_vrr))
        = unat (refresh_hz (config_fps_cap sample_vrr)))"
    by (rule validated_configuration_bounds_cap)
  then show ?thesis by (simp add: sample_vrr_def)
qed

end
