(* ===== verification/Catalog.thy ===== *)
theory Catalog
  imports Frametime_Prelude
begin

text \<open>
  The compiled step catalog (\<open>crates/frametime-domain/src/catalog.rs\<close>,
  \<open>catalog/definitions.rs\<close>) and the plan of one step for one GPU branch
  (\<open>operations.rs\<close>).  \<open>STEPS\<close> is the table of the source, row by row; the constructors of the
  enums carry the enum's name as a prefix where two enums share a variant name.  The lemmas show
  that step identities are unique, that the persisted text form of an identity parses back to
  it, and that the catalog's flags agree with each other.
\<close>

section \<open>Identities\<close>

datatype phase = PhaseOne | PhaseTwo | PhaseThree

fun phase_number :: "phase \<Rightarrow> u8" where
  "phase_number PhaseOne = 1"
| "phase_number PhaseTwo = 2"
| "phase_number PhaseThree = 3"

record step_id =
  id_phase :: phase
  id_number :: u8

definition step_id_new :: "phase \<Rightarrow> u8 \<Rightarrow> step_id" where
  "step_id_new p n = \<lparr>id_phase = p, id_number = n\<rparr>"

definition progress_key :: "step_id \<Rightarrow> string" where
  "progress_key i =
     ''P'' @ dec (unat (phase_number (id_phase i))) @ '':'' @ dec (unat (id_number i))"

definition from_progress_key :: "string \<Rightarrow> step_id option" where
  "from_progress_key value =
     Option.bind (strip_prefix ''P'' value) (\<lambda>rest.
     Option.bind (split_once (CHR '':'') rest) (\<lambda>(phase, number).
     Option.bind
       (if phase = ''1'' then Some PhaseOne
        else if phase = ''2'' then Some PhaseTwo
        else if phase = ''3'' then Some PhaseThree
        else None) (\<lambda>phase.
     Option.bind (parse_unsigned 256 number) (\<lambda>n.
       if 0 < n then Some (step_id_new phase (of_nat n)) else None))))"

section \<open>The fields of a step\<close>

datatype (plugins only: code size) action_intent =
    IntentConfiguration | IntentXmpExpoCheck | IntentShaderCacheHealth
  | IntentFullscreenOptimizationsCheck | IntentNvidiaDriverInventory
  | IntentPowerPolicyGuidance | IntentHagsCheck | IntentPagefile | IntentResizableBarCheck
  | IntentWindowsTimerDefaults | IntentMpoHealthCheck | IntentGameMode
  | IntentBackgroundAppGuidance | IntentAutostartInventory | IntentWindowsUpdateStatus
  | IntentRssBaseline | IntentBaselineBenchmark | IntentGpuDriverCleanPreparation
  | IntentNvidiaDriverDownloadPreparation | IntentNvidiaProfilePreparation
  | IntentMsiPreparation | IntentNicAffinityPreparation | IntentFastStartupGuidance
  | IntentMemoryTopology | IntentTcpDefaultsGuidance | IntentFullscreenPresentationGuidance
  | IntentMultimediaDefaultsGuidance | IntentTimerRequestGuidance
  | IntentPointerPreferenceGuidance | IntentCs2HighPerformanceGpu | IntentGameDvrGuidance
  | IntentOverlayGuidance | IntentAudioStackGuidance | IntentCs2Configuration
  | IntentChipsetDriverInventory | IntentVisualEffectsGuidance
  | IntentWindowsServicesGuidance | IntentSafeModeHandoff | IntentClearSafeBoot
  | IntentNvidiaDriverRemoval | IntentPhaseThreeHandoff | IntentNvidiaDriverInstall
  | IntentMsiInterrupts | IntentNicInterruptAffinity | IntentNvidiaProfileApply
  | IntentFpsCapInfo | IntentCs2LaunchVideoGuidance | IntentVbsHvciGuidance
  | IntentAmdRadeonGuidance | IntentDnsGuidance | IntentProcessPriorityGuidance
  | IntentVramUsageGuidance | IntentFinalChecklistGuidance | IntentFinalBenchmark

fun is_mutating :: "action_intent \<Rightarrow> bool" where
  "is_mutating i \<longleftrightarrow>
     i \<in> {IntentConfiguration, IntentPagefile, IntentGameMode, IntentRssBaseline,
          IntentCs2HighPerformanceGpu, IntentCs2Configuration, IntentSafeModeHandoff,
          IntentClearSafeBoot, IntentNvidiaDriverRemoval, IntentPhaseThreeHandoff,
          IntentNvidiaDriverInstall, IntentNvidiaProfileApply}"

datatype operation_kind_t =
    KindSetup | KindInspect | KindRegistry | KindService | KindBootConfiguration | KindDriver
  | KindNetwork | KindFilesystem | KindApplicationConfiguration

datatype gpu_applicability_t = GpuAny | GpuNvidiaOnly | GpuAmdOnly

datatype orchestration_role_t =
    RoleEngine | RoleArmSafeModeHandoff | RoleClearSafeBoot | RoleArmPhaseThreeHandoff
  | RolePersistFinalBenchmark

datatype risk = RiskSafe | RiskModerate | RiskAggressive | RiskCritical

fun risk_rank :: "risk \<Rightarrow> u8" where
  "risk_rank RiskSafe = 0"
| "risk_rank RiskModerate = 1"
| "risk_rank RiskAggressive = 2"
| "risk_rank RiskCritical = 3"

datatype depth =
    DepthSetup | DepthCheck | DepthRegistry | DepthService | DepthBoot | DepthDriver
  | DepthNetwork | DepthFilesystem | DepthApp

record step =
  step_ident :: step_id
  category :: string
  title :: string
  tier :: u8
  step_risk :: risk
  step_depth :: depth
  check_only :: bool
  reboot :: bool
  intent :: action_intent
  step_operation :: operation_kind_t
  step_gpu :: gpu_applicability_t
  step_role :: orchestration_role_t

section \<open>Named steps\<close>

definition PHASE_ONE_BASELINE_BENCHMARK :: step_id where
  "PHASE_ONE_BASELINE_BENCHMARK = step_id_new PhaseOne 17"

definition PHASE_ONE_XMP_EXPO_CHECK :: step_id where
  "PHASE_ONE_XMP_EXPO_CHECK = step_id_new PhaseOne 2"

definition PHASE_ONE_RESIZABLE_BAR_CHECK :: step_id where
  "PHASE_ONE_RESIZABLE_BAR_CHECK = step_id_new PhaseOne 9"

definition PHASE_ONE_SAFE_MODE_HANDOFF :: step_id where
  "PHASE_ONE_SAFE_MODE_HANDOFF = step_id_new PhaseOne 38"

definition PHASE_TWO_SAFE_BOOT_CLEAR :: step_id where
  "PHASE_TWO_SAFE_BOOT_CLEAR = step_id_new PhaseTwo 1"

definition PHASE_TWO_DRIVER_CLEANUP :: step_id where
  "PHASE_TWO_DRIVER_CLEANUP = step_id_new PhaseTwo 2"

definition PHASE_TWO_PHASE_THREE_HANDOFF :: step_id where
  "PHASE_TWO_PHASE_THREE_HANDOFF = step_id_new PhaseTwo 3"

definition PHASE_THREE_DRIVER_INSTALL :: step_id where
  "PHASE_THREE_DRIVER_INSTALL = step_id_new PhaseThree 1"

definition PHASE_THREE_FINAL_BENCHMARK :: step_id where
  "PHASE_THREE_FINAL_BENCHMARK = step_id_new PhaseThree 13"

lemmas named_step_defs =
  PHASE_ONE_BASELINE_BENCHMARK_def PHASE_ONE_XMP_EXPO_CHECK_def PHASE_ONE_RESIZABLE_BAR_CHECK_def
  PHASE_ONE_SAFE_MODE_HANDOFF_def PHASE_TWO_SAFE_BOOT_CLEAR_def PHASE_TWO_DRIVER_CLEANUP_def
  PHASE_TWO_PHASE_THREE_HANDOFF_def PHASE_THREE_DRIVER_INSTALL_def
  PHASE_THREE_FINAL_BENCHMARK_def

section \<open>Derived fields\<close>

fun operation_kind :: "depth \<Rightarrow> operation_kind_t" where
  "operation_kind DepthSetup = KindSetup"
| "operation_kind DepthCheck = KindInspect"
| "operation_kind DepthRegistry = KindRegistry"
| "operation_kind DepthService = KindService"
| "operation_kind DepthBoot = KindBootConfiguration"
| "operation_kind DepthDriver = KindDriver"
| "operation_kind DepthNetwork = KindNetwork"
| "operation_kind DepthFilesystem = KindFilesystem"
| "operation_kind DepthApp = KindApplicationConfiguration"

definition gpu_applicability :: "step_id \<Rightarrow> gpu_applicability_t" where
  "gpu_applicability i =
     (if id_phase i = PhaseOne \<and> id_number i \<in> {5, 19, 20}
         \<or> id_phase i = PhaseThree \<and> id_number i \<in> {1, 4}
      then GpuNvidiaOnly
      else if id_phase i = PhaseThree \<and> id_number i = 8 then GpuAmdOnly
      else GpuAny)"

definition orchestration_role :: "step_id \<Rightarrow> orchestration_role_t" where
  "orchestration_role i =
     (if i = PHASE_ONE_SAFE_MODE_HANDOFF then RoleArmSafeModeHandoff
      else if i = PHASE_TWO_SAFE_BOOT_CLEAR then RoleClearSafeBoot
      else if i = PHASE_TWO_PHASE_THREE_HANDOFF then RoleArmPhaseThreeHandoff
      else if i = PHASE_THREE_FINAL_BENCHMARK then RolePersistFinalBenchmark
      else RoleEngine)"

text \<open>One row of the table: the macro \<open>s!\<close>.\<close>

definition s_row ::
  "phase \<Rightarrow> u8 \<Rightarrow> string \<Rightarrow> string \<Rightarrow> u8 \<Rightarrow> risk \<Rightarrow> depth \<Rightarrow> action_intent \<Rightarrow> bool \<Rightarrow> bool \<Rightarrow> step" where
  "s_row p n c t ti r d i check rb =
     \<lparr>step_ident = step_id_new p n, category = c, title = t, tier = ti, step_risk = r,
      step_depth = d, check_only = check, reboot = rb, intent = i,
      step_operation = operation_kind d, step_gpu = gpu_applicability (step_id_new p n),
      step_role = orchestration_role (step_id_new p n)\<rparr>"

section \<open>The table\<close>

definition STEPS_a :: "step list" where
  "STEPS_a =
    [s_row PhaseOne 1 ''System'' ''Configuration'' 1 RiskSafe DepthSetup IntentConfiguration False False,
     s_row PhaseOne 2 ''Hardware'' ''XMP/EXPO Check'' 1 RiskSafe DepthCheck IntentXmpExpoCheck True False,
     s_row PhaseOne 3 ''GPU'' ''Shader Cache Health'' 1 RiskSafe DepthCheck IntentShaderCacheHealth True False,
     s_row PhaseOne 4 ''Display'' ''Fullscreen Optimizations Check'' 1 RiskSafe DepthCheck IntentFullscreenOptimizationsCheck True False,
     s_row PhaseOne 5 ''GPU'' ''NVIDIA Driver Version Inventory'' 1 RiskSafe DepthCheck IntentNvidiaDriverInventory True False,
     s_row PhaseOne 6 ''System'' ''Power Policy Guidance'' 1 RiskSafe DepthCheck IntentPowerPolicyGuidance True False,
     s_row PhaseOne 7 ''GPU'' ''HAGS Check'' 2 RiskSafe DepthCheck IntentHagsCheck True False,
     s_row PhaseOne 8 ''System'' ''Pagefile'' 2 RiskModerate DepthRegistry IntentPagefile False True,
     s_row PhaseOne 9 ''GPU'' ''Resizable BAR'' 2 RiskSafe DepthCheck IntentResizableBarCheck True True,
     s_row PhaseOne 10 ''System'' ''Windows Timer Defaults'' 3 RiskSafe DepthCheck IntentWindowsTimerDefaults True False,
     s_row PhaseOne 11 ''Display'' ''MPO Health Check'' 3 RiskSafe DepthCheck IntentMpoHealthCheck True False,
     s_row PhaseOne 12 ''System'' ''Game Mode'' 1 RiskSafe DepthRegistry IntentGameMode False False]"

definition STEPS_b :: "step list" where
  "STEPS_b =
    [s_row PhaseOne 13 ''System'' ''Background App Guidance'' 2 RiskSafe DepthCheck IntentBackgroundAppGuidance True False,
     s_row PhaseOne 14 ''System'' ''Autostart Inventory'' 2 RiskSafe DepthCheck IntentAutostartInventory True False,
     s_row PhaseOne 15 ''System'' ''Windows Update Status'' 3 RiskSafe DepthCheck IntentWindowsUpdateStatus True False,
     s_row PhaseOne 16 ''Network'' ''RSS Baseline'' 1 RiskSafe DepthNetwork IntentRssBaseline False True,
     s_row PhaseOne 17 ''Benchmark'' ''Baseline Benchmark'' 1 RiskSafe DepthCheck IntentBaselineBenchmark True False,
     s_row PhaseOne 18 ''GPU'' ''GPU Driver Clean (prep)'' 1 RiskSafe DepthCheck IntentGpuDriverCleanPreparation True False,
     s_row PhaseOne 19 ''GPU'' ''NVIDIA Driver Download'' 1 RiskSafe DepthCheck IntentNvidiaDriverDownloadPreparation True False,
     s_row PhaseOne 20 ''GPU'' ''NVIDIA Profile (prep)'' 3 RiskSafe DepthCheck IntentNvidiaProfilePreparation True False,
     s_row PhaseOne 21 ''Hardware'' ''MSI Interrupts (prep)'' 2 RiskSafe DepthCheck IntentMsiPreparation True False,
     s_row PhaseOne 22 ''Network'' ''NIC Interrupt Affinity (prep)'' 3 RiskSafe DepthCheck IntentNicAffinityPreparation True False,
     s_row PhaseOne 23 ''System'' ''Fast Startup Check'' 2 RiskSafe DepthCheck IntentFastStartupGuidance True False,
     s_row PhaseOne 24 ''Hardware'' ''Dual-Channel RAM'' 1 RiskSafe DepthCheck IntentMemoryTopology True False]"

definition STEPS_c :: "step list" where
  "STEPS_c =
    [s_row PhaseOne 25 ''Network'' ''TCP Defaults Check'' 2 RiskSafe DepthCheck IntentTcpDefaultsGuidance True False,
     s_row PhaseOne 26 ''Display'' ''Fullscreen Presentation Defaults'' 2 RiskSafe DepthCheck IntentFullscreenPresentationGuidance True False,
     s_row PhaseOne 27 ''System'' ''Scheduler Defaults'' 2 RiskSafe DepthCheck IntentMultimediaDefaultsGuidance True False,
     s_row PhaseOne 28 ''System'' ''Timer Defaults'' 2 RiskSafe DepthCheck IntentTimerRequestGuidance True False,
     s_row PhaseOne 29 ''Input'' ''Pointer Preference Check'' 2 RiskSafe DepthCheck IntentPointerPreferenceGuidance True False,
     s_row PhaseOne 30 ''GPU'' ''CS2 GPU Preference'' 2 RiskModerate DepthRegistry IntentCs2HighPerformanceGpu False False,
     s_row PhaseOne 31 ''System'' ''Capture Feature Check'' 2 RiskSafe DepthCheck IntentGameDvrGuidance True False,
     s_row PhaseOne 32 ''System'' ''Overlay Conflict Check'' 2 RiskSafe DepthCheck IntentOverlayGuidance True False,
     s_row PhaseOne 33 ''Audio'' ''Audio Path Check'' 2 RiskSafe DepthCheck IntentAudioStackGuidance True False,
     s_row PhaseOne 34 ''CS2'' ''optimization.cfg (fps_max only)'' 2 RiskModerate DepthApp IntentCs2Configuration False False,
     s_row PhaseOne 35 ''System'' ''Chipset Driver Check'' 2 RiskSafe DepthCheck IntentChipsetDriverInventory True False,
     s_row PhaseOne 36 ''Display'' ''Visual Effects + Auto HDR Check'' 3 RiskSafe DepthCheck IntentVisualEffectsGuidance True False]"

definition STEPS_d :: "step list" where
  "STEPS_d =
    [s_row PhaseOne 37 ''System'' ''Service Status Check'' 3 RiskSafe DepthCheck IntentWindowsServicesGuidance True False,
     s_row PhaseOne 38 ''System'' ''Driver Repair: Activate Safe Mode'' 3 RiskCritical DepthBoot IntentSafeModeHandoff False True,
     s_row PhaseTwo 1 ''Boot'' ''Disable Safe Mode'' 1 RiskModerate DepthBoot IntentClearSafeBoot False True,
     s_row PhaseTwo 2 ''GPU'' ''GPU Driver Clean Removal'' 1 RiskCritical DepthDriver IntentNvidiaDriverRemoval False True,
     s_row PhaseTwo 3 ''System'' ''Register Phase 3 for next boot'' 1 RiskModerate DepthRegistry IntentPhaseThreeHandoff False True,
     s_row PhaseThree 1 ''GPU'' ''Install NVIDIA Driver'' 1 RiskModerate DepthDriver IntentNvidiaDriverInstall False True,
     s_row PhaseThree 2 ''GPU'' ''MSI Interrupt Guidance'' 2 RiskSafe DepthCheck IntentMsiInterrupts True False,
     s_row PhaseThree 3 ''Network'' ''NIC Interrupt-Affinity Guidance'' 3 RiskSafe DepthCheck IntentNicInterruptAffinity True False,
     s_row PhaseThree 4 ''GPU'' ''NVIDIA DRS Profile'' 3 RiskSafe DepthDriver IntentNvidiaProfileApply False False,
     s_row PhaseThree 5 ''CS2'' ''FPS Cap Info'' 1 RiskSafe DepthCheck IntentFpsCapInfo True False,
     s_row PhaseThree 6 ''CS2'' ''Launch Options + Video Guidance'' 2 RiskSafe DepthApp IntentCs2LaunchVideoGuidance True False,
     s_row PhaseThree 7 ''Security'' ''VBS / Core Isolation Check'' 2 RiskSafe DepthCheck IntentVbsHvciGuidance True False]"

definition STEPS_e :: "step list" where
  "STEPS_e =
    [s_row PhaseThree 8 ''GPU'' ''AMD GPU Settings'' 2 RiskSafe DepthCheck IntentAmdRadeonGuidance True False,
     s_row PhaseThree 9 ''Network'' ''DNS Resolver Check'' 3 RiskSafe DepthCheck IntentDnsGuidance True False,
     s_row PhaseThree 10 ''CPU'' ''Process Priority Defaults'' 3 RiskSafe DepthCheck IntentProcessPriorityGuidance True False,
     s_row PhaseThree 11 ''System'' ''VRAM Usage Review'' 2 RiskSafe DepthCheck IntentVramUsageGuidance True False,
     s_row PhaseThree 12 ''System'' ''Final Checklist'' 1 RiskSafe DepthCheck IntentFinalChecklistGuidance True False,
     s_row PhaseThree 13 ''Benchmark'' ''Final Benchmark + FPS Strategy'' 1 RiskSafe DepthCheck IntentFinalBenchmark True False]"

definition STEPS :: "step list" where
  "STEPS = STEPS_a @ STEPS_b @ STEPS_c @ STEPS_d @ STEPS_e"

definition step_by_id :: "step_id \<Rightarrow> step option" where
  "step_by_id i = find (\<lambda>s. step_ident s = i) STEPS"

definition steps_for_phase_and_role :: "phase \<Rightarrow> orchestration_role_t \<Rightarrow> step list" where
  "steps_for_phase_and_role p r = filter (\<lambda>s. id_phase (step_ident s) = p \<and> step_role s = r) STEPS"

section \<open>The plan of a step for a GPU branch\<close>

datatype gpu_branch = BranchNvidiaRtx5000 | BranchNvidia | BranchAmd | BranchIntelArc

definition gpu_branch_try_from :: "u8 \<Rightarrow> (gpu_branch, string) result" where
  "gpu_branch_try_from v =
     (if v = 1 then Ok BranchNvidiaRtx5000
      else if v = 2 then Ok BranchNvidia
      else if v = 3 then Ok BranchAmd
      else if v = 4 then Ok BranchIntelArc
      else Err ''GPU branch must be 1, 2, 3, or 4'')"

fun gpu_branch_label :: "gpu_branch \<Rightarrow> string" where
  "gpu_branch_label BranchNvidiaRtx5000 = ''NVIDIA RTX 5000''"
| "gpu_branch_label BranchNvidia = ''other NVIDIA''"
| "gpu_branch_label BranchAmd = ''AMD Radeon''"
| "gpu_branch_label BranchIntelArc = ''Intel Arc''"

definition is_nvidia :: "gpu_branch \<Rightarrow> bool" where
  "is_nvidia b \<longleftrightarrow> b = BranchNvidiaRtx5000 \<or> b = BranchNvidia"

definition is_compatible_with_gpu :: "step \<Rightarrow> gpu_branch \<Rightarrow> bool" where
  "is_compatible_with_gpu s b =
     (case step_gpu s of
        GpuAny \<Rightarrow> True
      | GpuNvidiaOnly \<Rightarrow> is_nvidia b
      | GpuAmdOnly \<Rightarrow> b = BranchAmd)"

record planned_action =
  plan_id :: step_id
  plan_kind :: operation_kind_t
  plan_title :: string
  plan_mutating :: bool
  plan_applicable :: bool
  plan_branch :: gpu_branch

definition plan_for_step :: "step \<Rightarrow> gpu_branch \<Rightarrow> planned_action" where
  "plan_for_step s b =
     \<lparr>plan_id = step_ident s, plan_kind = step_operation s, plan_title = title s,
      plan_mutating = is_mutating (intent s), plan_applicable = is_compatible_with_gpu s b,
      plan_branch = b\<rparr>"

section \<open>Facts about the table\<close>

lemma length_STEPS: "length STEPS = 54"
  by code_simp

lemma distinct_step_idents: "distinct (map step_ident STEPS)"
  by code_simp

lemma catalog_numbers_positive: "list_all (\<lambda>s. 0 < unat (id_number (step_ident s))) STEPS"
  by code_simp

lemma catalog_flags: "list_all (\<lambda>s. check_only s = (\<not> is_mutating (intent s))) STEPS"
  by code_simp

lemma catalog_roles:
  "list_all (\<lambda>s. step_role s = orchestration_role (step_ident s)) STEPS"
  by code_simp

lemma step_by_id_iff: "step_by_id i = Some s \<longleftrightarrow> s \<in> set STEPS \<and> step_ident s = i"
proof
  assume "step_by_id i = Some s"
  then show "s \<in> set STEPS \<and> step_ident s = i"
    by (auto simp: step_by_id_def find_Some_iff)
next
  assume s: "s \<in> set STEPS \<and> step_ident s = i"
  then obtain t where t: "step_by_id i = Some t"
    by (cases "step_by_id i") (auto simp: step_by_id_def find_None_iff)
  then have "t \<in> set STEPS" "step_ident t = i"
    by (auto simp: step_by_id_def find_Some_iff)
  with s distinct_step_idents have "t = s"
    by (auto simp: distinct_map inj_on_def)
  with t show "step_by_id i = Some s" by simp
qed

lemma steps_for_phase_and_role_iff:
  "s \<in> set (steps_for_phase_and_role p r) \<longleftrightarrow>
     s \<in> set STEPS \<and> id_phase (step_ident s) = p \<and> step_role s = r"
  by (auto simp: steps_for_phase_and_role_def)

section \<open>The text form of an identity\<close>

lemma phase_number_less: "unat (phase_number p) < 10"
  by (cases p) auto

lemma phase_number_inject [simp]: "phase_number p = phase_number q \<longleftrightarrow> p = q"
  by (cases p; cases q) auto

lemma unat_phase_number_inject [simp]:
  "unat (phase_number p) = unat (phase_number q) \<longleftrightarrow> p = q"
  by (cases p; cases q) auto

lemma dec_small [simp]:
  "dec (Suc 0) = ''1''" "dec 2 = ''2''" "dec 3 = ''3''"
  by code_simp+

lemma not_colon_dec: "CHR '':'' \<notin> set (dec n)"
  using dec_digits [of "CHR '':''" n] by (auto simp: is_ascii_digit_def byte_def)

lemma split_progress_key:
  "split_once (CHR '':'') (dec m @ CHR '':'' # dec n) = Some (dec m, dec n)"
  by (rule split_once_append) (rule not_colon_dec)

lemma of_nat_unat_u8 [simp]: "(of_nat (unat (w :: u8)) :: u8) = w"
  by simp

lemma unat_u8_less [simp]: "unat (w :: u8) < 256"
  using unsigned_less [of w] by simp

lemma from_progress_key_key: "0 < id_number i \<Longrightarrow> from_progress_key (progress_key i) = Some i"
proof -
  assume pos: "0 < id_number i"
  then have "0 < unat (id_number i)"
    by (simp add: unat_gt_0 word_gt_0)
  then show ?thesis
    by (cases "id_phase i")
      (simp_all add: from_progress_key_def progress_key_def strip_prefix_def split_progress_key
        step_id_new_def)
qed

lemma progress_key_inject [simp]: "progress_key i = progress_key j \<longleftrightarrow> i = j"
proof
  assume eq: "progress_key i = progress_key j"
  have "Some (dec (unat (phase_number (id_phase i))), dec (unat (id_number i))) =
        Some (dec (unat (phase_number (id_phase j))), dec (unat (id_number j)))"
    using eq by (simp only: progress_key_def append_Cons append_Nil list.inject
        flip: split_progress_key)
  then show "i = j"
    by (auto intro: step_id.equality simp: word_unat_eq_iff)
qed simp

lemma from_progress_key_positive: "from_progress_key s = Some i \<Longrightarrow> 0 < id_number i"
proof -
  assume "from_progress_key s = Some i"
  then obtain p n k where k: "parse_unsigned 256 n = Some k" "0 < k"
    and i: "i = step_id_new p (of_nat k)"
    by (auto simp: from_progress_key_def bind_eq_Some_conv split: if_splits)
  have "k < 256" using parse_unsigned_bound [OF k(1)] by simp
  with k have "unat (of_nat k :: u8) = k" by (simp add: unat_of_nat)
  with k(2) i show ?thesis by (simp add: step_id_new_def unat_gt_0 word_gt_0) (metis unat_0 less_irrefl)
qed

section \<open>Properties\<close>

text \<open>
  The key under which progress records a step reads back as that step, and two steps never
  share a key.
\<close>

theorem progress_key_round_trip:
  assumes "0 < id_number i"
  shows "from_progress_key (progress_key i) = Some i \<and> (progress_key j = progress_key i \<longleftrightarrow> j = i)"
  using from_progress_key_key [OF assms] by simp

theorem progress_key_round_trip_witness:
  "from_progress_key (progress_key PHASE_THREE_FINAL_BENCHMARK) = Some PHASE_THREE_FINAL_BENCHMARK
     \<and> (progress_key PHASE_ONE_BASELINE_BENCHMARK = progress_key PHASE_THREE_FINAL_BENCHMARK
        \<longleftrightarrow> PHASE_ONE_BASELINE_BENCHMARK = PHASE_THREE_FINAL_BENCHMARK)"
  by (rule progress_key_round_trip) code_simp

text \<open>
  The catalog is a table of 54 rows keyed by their identifiers: a lookup returns a row exactly
  when the row is in the table under that identifier.
\<close>

theorem catalog_is_keyed:
  "length STEPS = 54 \<and> distinct (map step_ident STEPS)
     \<and> (step_by_id i = Some s \<longleftrightarrow> s \<in> set STEPS \<and> step_ident s = i)"
  by (simp add: length_STEPS distinct_step_idents step_by_id_iff)

text \<open>
  Every row of the catalog is consistent: it is marked as a check exactly when its action does
  not mutate, and its key reads back as a row of the catalog, so every resolution that progress
  records for it survives a reload.
\<close>

theorem catalog_rows_are_consistent:
  "list_all (\<lambda>s. check_only s = (\<not> is_mutating (intent s))
      \<and> Option.bind (from_progress_key (progress_key (step_ident s))) step_by_id = Some s) STEPS"
proof -
  have "Option.bind (from_progress_key (progress_key (step_ident s))) step_by_id = Some s"
    if "s \<in> set STEPS" for s
  proof -
    have "0 < id_number (step_ident s)"
      using catalog_numbers_positive that
      by (auto simp: list_all_iff unat_gt_0 word_gt_0)
    then show ?thesis using that by (simp add: from_progress_key_key step_by_id_iff)
  qed
  then show ?thesis
    using catalog_flags by (auto simp: list_all_iff)
qed

end
