(* ===== verification/Policy.thy ===== *)
theory Policy
  imports Catalog
begin

text \<open>
  The risk policy (\<open>crates/frametime-domain/src/policy.rs\<close>): what a profile does with a step of
  a given tier and risk before the engine looks at the machine.
\<close>

datatype profile =
    ProfileSafe | ProfileRecommended | ProfileCompetitive | ProfileCustom | ProfileYolo

datatype decision_t = Auto | Prompt | Skip

fun maximum_risk :: "profile \<Rightarrow> risk" where
  "maximum_risk ProfileSafe = RiskSafe"
| "maximum_risk ProfileRecommended = RiskModerate"
| "maximum_risk ProfileCompetitive = RiskAggressive"
| "maximum_risk ProfileYolo = RiskAggressive"
| "maximum_risk ProfileCustom = RiskCritical"

definition decision :: "profile \<Rightarrow> u8 \<Rightarrow> risk \<Rightarrow> decision_t" where
  "decision p t r =
     (if t = 1 then (case p of ProfileCustom \<Rightarrow> Prompt | _ \<Rightarrow> Auto)
      else if risk_rank r > risk_rank (maximum_risk p) then Skip
      else (case p of
              ProfileSafe \<Rightarrow> if t = 2 \<and> r = RiskSafe then Auto else Skip
            | ProfileRecommended \<Rightarrow> if t = 2 then Prompt else Skip
            | ProfileCompetitive \<Rightarrow> Prompt
            | ProfileCustom \<Rightarrow> Prompt
            | ProfileYolo \<Rightarrow> Auto))"

lemma risk_rank_le_iff:
  "risk_rank r \<le> risk_rank RiskSafe \<longleftrightarrow> r = RiskSafe"
  "risk_rank r \<le> risk_rank RiskCritical"
  by (cases r; simp)+

lemma decision_Safe_never_prompts: "decision ProfileSafe t r \<noteq> Prompt"
  by (simp add: decision_def)

lemma decision_Custom_never_auto: "decision ProfileCustom t r = Prompt"
  by (cases r) (simp_all add: decision_def)

lemma decision_above_maximum:
  "t \<noteq> 1 \<Longrightarrow> risk_rank (maximum_risk p) < risk_rank r \<Longrightarrow> decision p t r = Skip"
  by (simp add: decision_def)

text \<open>A profile's answer is a fixed table in the tier, the risk rank and the profile.\<close>

lemma decision_Auto_iff:
  "decision p t r = Auto \<longleftrightarrow>
     (t = 1 \<and> p \<noteq> ProfileCustom)
     \<or> (t = 2 \<and> p = ProfileSafe \<and> r = RiskSafe)
     \<or> (t \<noteq> 1 \<and> p = ProfileYolo \<and> r \<noteq> RiskCritical)"
  by (cases p; cases r) (auto simp: decision_def)

text \<open>How much a decision lets happen without asking.\<close>

fun permission :: "decision_t \<Rightarrow> nat" where
  "permission Skip = 0"
| "permission Prompt = 1"
| "permission Auto = 2"

text \<open>
  No profile treats a riskier step more permissively than a less risky one of the same tier,
  and outside the first tier a step above the profile's maximum risk is always skipped.
\<close>

theorem policy_is_monotone_in_risk:
  assumes "risk_rank r \<le> risk_rank r'"
  shows "permission (decision p t r') \<le> permission (decision p t r)
     \<and> (t = 1 \<or> risk_rank r' \<le> risk_rank (maximum_risk p) \<or> decision p t r' = Skip)"
  using assms by (cases p; cases r; cases r') (auto simp: decision_def word_le_nat_alt)

theorem policy_is_monotone_in_risk_witness:
  "permission (decision ProfileRecommended 2 RiskAggressive)
       \<le> permission (decision ProfileRecommended 2 RiskSafe)
     \<and> ((2 :: u8) = 1 \<or> risk_rank RiskAggressive \<le> risk_rank (maximum_risk ProfileRecommended)
        \<or> decision ProfileRecommended 2 RiskAggressive = Skip)"
  by (rule policy_is_monotone_in_risk) simp

end
