(* ===== verification/Session.thy ===== *)
theory Session
  imports Fps Policy
begin

text \<open>
  The two persisted session documents (\<open>crates/frametime-domain/src/state.rs\<close>,
  \<open>state/decode.rs\<close>, \<open>state/progress.rs\<close>): \<open>state\<close> with its validation and its tolerant
  deserializer, and \<open>progress\<close> with the three ways a step is resolved.  The lemmas show what
  each resolution changes, that a step is never resolved in two ways at once, and that the
  deserializer cannot produce an out-of-range value or lose a malformed transaction.
\<close>

section \<open>State\<close>

definition MAX_PAGEFILE_MB :: u64 where
  "MAX_PAGEFILE_MB = 1048576"

record 'v state =
  st_mode :: string
  st_log_level :: string
  st_profile :: profile
  st_fps_cap :: u32
  st_avg_fps :: f64
  st_p1_fps :: "f64 option"
  st_baseline_avg :: f64
  st_baseline_p1 :: "f64 option"
  st_cap_date :: "string option"
  st_gpu_input :: "string option"
  st_pagefile_mb :: u64
  st_work_dir :: string
  st_script_root :: string
  phase1_safe_mode_ready :: bool
  active_reboot_transaction :: "'v reboot_transaction option"
  final_benchmark :: "'v final_benchmark_receipt option"
  st_unknown :: "'v fields"

definition default_mode :: string where
  "default_mode = ''CONTROL''"

definition default_log_level :: string where
  "default_log_level = ''NORMAL''"

definition default_profile :: profile where
  "default_profile = ProfileRecommended"

definition default_work_dir :: string where
  "default_work_dir = ''C:'' @ backslash @ ''FRAMETIME_CFG''"

definition state_default :: "'v state" where
  "state_default =
     \<lparr>st_mode = default_mode, st_log_level = default_log_level, st_profile = default_profile,
      st_fps_cap = 0, st_avg_fps = f64_zero, st_p1_fps = None, st_baseline_avg = f64_zero,
      st_baseline_p1 = None, st_cap_date = None, st_gpu_input = None, st_pagefile_mb = 0,
      st_work_dir = default_work_dir, st_script_root = [], phase1_safe_mode_ready = False,
      active_reboot_transaction = None, final_benchmark = None, st_unknown = fmempty\<rparr>"

definition valid_gpu_input :: "string \<Rightarrow> bool" where
  "valid_gpu_input v \<longleftrightarrow> v \<in> {''1'', ''2'', ''3'', ''4''}"

definition baseline_coherent :: "'v state \<Rightarrow> bool" where
  "baseline_coherent s =
     (case st_baseline_p1 s of
        Some p1 \<Rightarrow>
          is_finite (st_baseline_avg s) \<and> f64_lt f64_zero (st_baseline_avg s)
          \<and> is_finite p1 \<and> f64_lt f64_zero p1 \<and> f64_le p1 (st_baseline_avg s)
      | None \<Rightarrow> f64_eq (st_baseline_avg s) f64_zero)"

definition state_validate :: "'v state \<Rightarrow> (unit, string) result" where
  "state_validate s =
     (if contains_key (st_unknown s) ''activeRebootTransaction''
      then Err ''activeRebootTransaction is malformed''
      else if contains_key (st_unknown s) ''finalBenchmark''
      then Err ''finalBenchmark is malformed''
      else if (case st_gpu_input s of None \<Rightarrow> False | Some v \<Rightarrow> \<not> valid_gpu_input v)
      then Err ''gpuInput must be one of 1, 2, 3, or 4''
      else if st_pagefile_mb s \<noteq> 0 \<and> st_pagefile_mb s > MAX_PAGEFILE_MB
      then Err ''pagefileMB must be 0 or between 1 and 1048576''
      else if \<not> baseline_coherent s
      then Err ''baselineAvg and baselineP1 must be a complete valid capture''
      else (case final_benchmark s of
              None \<Rightarrow> Ok ()
            | Some receipt \<Rightarrow>
                and_then
                  (ok_or ''finalBenchmark requires an active reboot transaction''
                     (active_reboot_transaction s)) (\<lambda>t.
                if \<not> (case tx_stage t of
                          PhaseThreeArmed \<Rightarrow> is_authorized_at t PhaseThreeArmed
                        | PhaseThreeComplete \<Rightarrow> is_authorized_at t PhaseThreeComplete
                        | _ \<Rightarrow> False)
                then Err ''finalBenchmark requires a Phase 3 reboot transaction''
                else receipt_validate_for_transaction receipt t)))"

section \<open>Tolerant deserialization of the state\<close>

definition parse_profile :: "string \<Rightarrow> profile option" where
  "parse_profile value =
     (let v = to_ascii_uppercase value in
      if v = ''SAFE'' then Some ProfileSafe
      else if v = ''RECOMMENDED'' then Some ProfileRecommended
      else if v = ''COMPETITIVE'' then Some ProfileCompetitive
      else if v = ''CUSTOM'' then Some ProfileCustom
      else if v = ''YOLO'' then Some ProfileYolo
      else None)"

fun mode_for_profile :: "profile \<Rightarrow> string" where
  "mode_for_profile ProfileSafe = ''AUTO''"
| "mode_for_profile ProfileRecommended = ''AUTO''"
| "mode_for_profile ProfileCompetitive = ''CONTROL''"
| "mode_for_profile ProfileCustom = ''INFORMED''"
| "mode_for_profile ProfileYolo = ''YOLO''"

definition filter_opt :: "('a \<Rightarrow> bool) \<Rightarrow> 'a option \<Rightarrow> 'a option" where
  "filter_opt p x = Option.bind x (\<lambda>y. if p y then Some y else None)"

definition unwrap_or :: "'a \<Rightarrow> 'a option \<Rightarrow> 'a" where
  "unwrap_or d x = (case x of None \<Rightarrow> d | Some y \<Rightarrow> y)"

definition field_string :: "'v json_access \<Rightarrow> 'v fields \<Rightarrow> string \<Rightarrow> string option" where
  "field_string J raw key = Option.bind (fmlookup raw key) (as_str J)"

definition field_u64 :: "'v json_access \<Rightarrow> 'v fields \<Rightarrow> string \<Rightarrow> u64 option" where
  "field_u64 J raw key = Option.bind (fmlookup raw key) (as_u64 J)"

definition field_u32 :: "'v json_access \<Rightarrow> 'v fields \<Rightarrow> string \<Rightarrow> u32 option" where
  "field_u32 J raw key = Option.bind (Option.bind (fmlookup raw key) (as_u64 J)) u32_try_from"

definition field_finite_f64 :: "'v json_access \<Rightarrow> 'v fields \<Rightarrow> string \<Rightarrow> f64 option" where
  "field_finite_f64 J raw key = filter_opt is_finite (Option.bind (fmlookup raw key) (as_f64 J))"

definition field_nonnegative_f64 :: "'v json_access \<Rightarrow> 'v fields \<Rightarrow> string \<Rightarrow> f64 option" where
  "field_nonnegative_f64 J raw key = filter_opt (f64_le f64_zero) (field_finite_f64 J raw key)"

definition field_is_true :: "'v json_access \<Rightarrow> 'v fields \<Rightarrow> string \<Rightarrow> bool" where
  "field_is_true J raw key = (case fmlookup raw key of None \<Rightarrow> False | Some v \<Rightarrow> is_bool_true J v)"

text \<open>
  A typed field whose value does not parse is put back into the map under its key; the map left
  over after the call is the second component.
\<close>

definition typed_preserving_malformed ::
  "('v \<Rightarrow> 'r option) \<Rightarrow> string \<Rightarrow> 'v fields \<Rightarrow> 'r option \<times> 'v fields" where
  "typed_preserving_malformed from_value key raw =
     (case fmlookup raw key of
        None \<Rightarrow> (None, raw)
      | Some value \<Rightarrow>
          (case from_value value of
             Some parsed \<Rightarrow> (Some parsed, fmdrop key raw)
           | None \<Rightarrow> (None, fmupd key value (fmdrop key raw))))"

definition state_known_keys :: "string list" where
  "state_known_keys =
     [''profile'', ''mode'', ''logLevel'', ''fpsCap'', ''avgFps'', ''p1Fps'', ''baselineAvg'',
      ''baselineP1'', ''capDate'', ''gpuInput'', ''pagefileMB'', ''workDir'', ''scriptRoot'',
      ''phase1SafeModeReady'']"

definition drop_keys :: "string list \<Rightarrow> 'v fields \<Rightarrow> 'v fields" where
  "drop_keys ks raw = fold fmdrop ks raw"

definition state_deserialize ::
  "'v json_access \<Rightarrow> ('v \<Rightarrow> 'v reboot_transaction option) \<Rightarrow> ('v \<Rightarrow> 'v final_benchmark_receipt option)
   \<Rightarrow> 'v fields \<Rightarrow> 'v state" where
  "state_deserialize J tx_from_value receipt_from_value raw =
     (let profile = unwrap_or default_profile
            (Option.bind (field_string J raw ''profile'') parse_profile);
          (tx, rest) = typed_preserving_malformed tx_from_value ''activeRebootTransaction''
            (drop_keys state_known_keys raw);
          (receipt, unknown) = typed_preserving_malformed receipt_from_value ''finalBenchmark'' rest
      in
      \<lparr>st_mode = unwrap_or (mode_for_profile profile)
         (filter_opt
            (\<lambda>v. v \<in> {''AUTO'', ''CONTROL'', ''INFORMED'', ''YOLO'', ''DRY-RUN''})
            (field_string J raw ''mode'')),
       st_log_level = unwrap_or default_log_level
         (filter_opt (\<lambda>v. v \<in> {''MINIMAL'', ''NORMAL'', ''VERBOSE''})
            (field_string J raw ''logLevel'')),
       st_profile = profile,
       st_fps_cap = unwrap_or 0 (field_u32 J raw ''fpsCap''),
       st_avg_fps = unwrap_or f64_zero (field_finite_f64 J raw ''avgFps''),
       st_p1_fps = field_nonnegative_f64 J raw ''p1Fps'',
       st_baseline_avg = unwrap_or f64_zero (field_nonnegative_f64 J raw ''baselineAvg''),
       st_baseline_p1 = field_nonnegative_f64 J raw ''baselineP1'',
       st_cap_date = field_string J raw ''capDate'',
       st_gpu_input = filter_opt valid_gpu_input (field_string J raw ''gpuInput''),
       st_pagefile_mb = unwrap_or 0
         (filter_opt (\<lambda>v. v = 0 \<or> v \<le> MAX_PAGEFILE_MB) (field_u64 J raw ''pagefileMB'')),
       st_work_dir = unwrap_or default_work_dir (field_string J raw ''workDir''),
       st_script_root = unwrap_or [] (field_string J raw ''scriptRoot''),
       phase1_safe_mode_ready = field_is_true J raw ''phase1SafeModeReady'',
       active_reboot_transaction = tx,
       final_benchmark = receipt,
       st_unknown = unknown\<rparr>)"

section \<open>Progress\<close>

record 'v advisory_resolution =
  advisory_reason :: string
  advisory_unknown :: "'v fields"

record 'v progress =
  pr_phase :: u8
  last_completed_step :: u8
  last_skipped_step :: u8
  completed_steps :: "string fset"
  skipped_steps :: "string fset"
  timestamps :: "(string, string) fmap"
  advisories :: "(string, 'v advisory_resolution) fmap"
  pr_unknown :: "'v fields"

definition progress_default :: "'v progress" where
  "progress_default =
     \<lparr>pr_phase = 0, last_completed_step = 0, last_skipped_step = 0, completed_steps = {||},
      skipped_steps = {||}, timestamps = fmempty, advisories = fmempty, pr_unknown = fmempty\<rparr>"

definition key :: "u8 \<Rightarrow> u8 \<Rightarrow> string" where
  "key phase step = ''P'' @ dec (unat phase) @ '':'' @ dec (unat step)"

definition timestamp_key :: "u8 \<Rightarrow> u8 \<Rightarrow> string" where
  "timestamp_key phase step = dec (unat phase) @ ''-'' @ dec (unat step)"

definition is_completed :: "'v progress \<Rightarrow> step_id \<Rightarrow> bool" where
  "is_completed p i \<longleftrightarrow> progress_key i |\<in>| completed_steps p"

definition is_skipped :: "'v progress \<Rightarrow> step_id \<Rightarrow> bool" where
  "is_skipped p i \<longleftrightarrow> progress_key i |\<in>| skipped_steps p"

definition has_advisory :: "'v progress \<Rightarrow> step_id \<Rightarrow> bool" where
  "has_advisory p i \<longleftrightarrow> contains_key (advisories p) (progress_key i)"

definition resolved_count_in_phase :: "'v progress \<Rightarrow> phase \<Rightarrow> nat" where
  "resolved_count_in_phase p ph =
     length (filter (\<lambda>s. is_completed p (step_ident s) \<or> is_skipped p (step_ident s))
       (filter (\<lambda>s. id_phase (step_ident s) = ph) STEPS))"

definition has_resolved_in_phase :: "'v progress \<Rightarrow> phase \<Rightarrow> bool" where
  "has_resolved_in_phase p ph \<longleftrightarrow> 0 < resolved_count_in_phase p ph"

definition complete :: "u8 \<Rightarrow> u8 \<Rightarrow> string \<Rightarrow> 'v progress \<Rightarrow> 'v progress" where
  "complete phase step timestamp p =
     (let k = key phase step in
      p\<lparr>skipped_steps := skipped_steps p |-| {|k|},
        advisories := fmdrop k (advisories p),
        completed_steps := finsert k (completed_steps p),
        timestamps := fmupd (timestamp_key phase step) timestamp (timestamps p),
        pr_phase := phase,
        last_completed_step := step\<rparr>)"

definition skip :: "u8 \<Rightarrow> u8 \<Rightarrow> 'v progress \<Rightarrow> 'v progress" where
  "skip phase step p =
     (let k = key phase step in
      p\<lparr>completed_steps := completed_steps p |-| {|k|},
        advisories := fmdrop k (advisories p),
        skipped_steps := finsert k (skipped_steps p),
        pr_phase := phase,
        last_skipped_step := max (last_skipped_step p) step\<rparr>)"

definition acknowledge_advisory :: "u8 \<Rightarrow> u8 \<Rightarrow> string \<Rightarrow> 'v progress \<Rightarrow> 'v progress" where
  "acknowledge_advisory phase step reason p =
     (let k = key phase step in
      p\<lparr>completed_steps := completed_steps p |-| {|k|},
        skipped_steps := skipped_steps p |-| {|k|},
        advisories := fmupd k \<lparr>advisory_reason = reason, advisory_unknown = fmempty\<rparr> (advisories p),
        pr_phase := phase\<rparr>)"

definition complete_step :: "step_id \<Rightarrow> string \<Rightarrow> 'v progress \<Rightarrow> 'v progress" where
  "complete_step i timestamp = complete (phase_number (id_phase i)) (id_number i) timestamp"

definition skip_step :: "step_id \<Rightarrow> 'v progress \<Rightarrow> 'v progress" where
  "skip_step i = skip (phase_number (id_phase i)) (id_number i)"

definition acknowledge_step_advisory :: "step_id \<Rightarrow> string \<Rightarrow> 'v progress \<Rightarrow> 'v progress" where
  "acknowledge_step_advisory i reason =
     acknowledge_advisory (phase_number (id_phase i)) (id_number i) reason"

section \<open>Tolerant deserialization of progress\<close>

definition valid_progress_key :: "string \<Rightarrow> bool" where
  "valid_progress_key k =
     (case from_progress_key k of None \<Rightarrow> False | Some i \<Rightarrow> step_by_id i \<noteq> None)"

definition tolerant_u8 :: "'v json_access \<Rightarrow> 'v option \<Rightarrow> u8 option" where
  "tolerant_u8 J value = Option.bind (Option.bind value (as_u64 J)) u8_try_from"

definition tolerant_keys :: "'v json_access \<Rightarrow> 'v option \<Rightarrow> string fset" where
  "tolerant_keys J value =
     (case Option.bind value (as_array J) of
        None \<Rightarrow> {||}
      | Some values \<Rightarrow>
          fset_of_list (filter valid_progress_key (List.map_filter (as_str J) values)))"

text \<open>\<open>into_iter().filter_map(..).collect()\<close> over the entries of a JSON object.\<close>

definition filter_map_object ::
  "(string \<Rightarrow> bool) \<Rightarrow> ('v \<Rightarrow> 'w option) \<Rightarrow> 'v fields \<Rightarrow> (string, 'w) fmap" where
  "filter_map_object p f m =
     fmmap (\<lambda>v. the (f v))
       (fmfilter (\<lambda>k. p k \<and> (case fmlookup m k of None \<Rightarrow> False | Some v \<Rightarrow> f v \<noteq> None)) m)"

definition progress_deserialize ::
  "'v json_access \<Rightarrow> ('v \<Rightarrow> 'v advisory_resolution option) \<Rightarrow> 'v fields \<Rightarrow> 'v progress" where
  "progress_deserialize J advisory_from_value raw =
     \<lparr>pr_phase = unwrap_or 0 (filter_opt (\<lambda>v. v \<le> 3) (tolerant_u8 J (fmlookup raw ''phase''))),
      last_completed_step = unwrap_or 0 (tolerant_u8 J (fmlookup raw ''lastCompletedStep'')),
      last_skipped_step = unwrap_or 0 (tolerant_u8 J (fmlookup raw ''lastSkippedStep'')),
      completed_steps = tolerant_keys J (fmlookup raw ''completedSteps''),
      skipped_steps = tolerant_keys J (fmlookup raw ''skippedSteps''),
      timestamps = unwrap_or fmempty
        (map_option (filter_map_object (\<lambda>_. True) (as_str J))
          (Option.bind (fmlookup raw ''timestamps'') (as_object J))),
      advisories = unwrap_or fmempty
        (map_option
          (filter_map_object valid_progress_key
             (\<lambda>v. filter_opt (\<lambda>a. advisory_reason a \<noteq> []) (advisory_from_value v)))
          (Option.bind (fmlookup raw ''advisories'') (as_object J))),
      pr_unknown = drop_keys
        [''phase'', ''lastCompletedStep'', ''lastSkippedStep'', ''completedSteps'',
         ''skippedSteps'', ''timestamps'', ''advisories''] raw\<rparr>"

section \<open>How a step is resolved\<close>

text \<open>\<open>resolution p i\<close> reads the three sets together: the abstract view of progress.\<close>

datatype resolution_t = Unresolved | Completed | Skipped | Advisory

definition resolved :: "'v progress \<Rightarrow> step_id \<Rightarrow> bool" where
  "resolved p i \<longleftrightarrow> is_completed p i \<or> is_skipped p i \<or> has_advisory p i"

definition resolution :: "'v progress \<Rightarrow> step_id \<Rightarrow> resolution_t" where
  "resolution p i =
     (if is_completed p i then Completed
      else if is_skipped p i then Skipped
      else if has_advisory p i then Advisory
      else Unresolved)"

definition progress_wf :: "'v progress \<Rightarrow> bool" where
  "progress_wf p \<longleftrightarrow>
     completed_steps p |\<inter>| skipped_steps p = {||}
     \<and> completed_steps p |\<inter>| fmdom (advisories p) = {||}
     \<and> skipped_steps p |\<inter>| fmdom (advisories p) = {||}"

named_theorems progress_simps \<open>what each resolution of a step changes\<close>

lemma key_step [simp]: "key (phase_number (id_phase i)) (id_number i) = progress_key i"
  by (simp add: key_def progress_key_def)

lemma is_completed_complete [progress_simps]:
  "is_completed (complete_step i ts p) j \<longleftrightarrow> j = i \<or> is_completed p j"
  by (auto simp: is_completed_def complete_step_def complete_def Let_def)

lemma is_skipped_complete [progress_simps]:
  "is_skipped (complete_step i ts p) j \<longleftrightarrow> j \<noteq> i \<and> is_skipped p j"
  by (auto simp: is_skipped_def complete_step_def complete_def Let_def)

lemma has_advisory_complete [progress_simps]:
  "has_advisory (complete_step i ts p) j \<longleftrightarrow> j \<noteq> i \<and> has_advisory p j"
  by (auto simp: has_advisory_def complete_step_def complete_def Let_def)

lemma is_completed_skip [progress_simps]:
  "is_completed (skip_step i p) j \<longleftrightarrow> j \<noteq> i \<and> is_completed p j"
  by (auto simp: is_completed_def skip_step_def skip_def Let_def)

lemma is_skipped_skip [progress_simps]:
  "is_skipped (skip_step i p) j \<longleftrightarrow> j = i \<or> is_skipped p j"
  by (auto simp: is_skipped_def skip_step_def skip_def Let_def)

lemma has_advisory_skip [progress_simps]:
  "has_advisory (skip_step i p) j \<longleftrightarrow> j \<noteq> i \<and> has_advisory p j"
  by (auto simp: has_advisory_def skip_step_def skip_def Let_def)

lemma is_completed_ack [progress_simps]:
  "is_completed (acknowledge_step_advisory i r p) j \<longleftrightarrow> j \<noteq> i \<and> is_completed p j"
  by (auto simp: is_completed_def acknowledge_step_advisory_def acknowledge_advisory_def Let_def)

lemma is_skipped_ack [progress_simps]:
  "is_skipped (acknowledge_step_advisory i r p) j \<longleftrightarrow> j \<noteq> i \<and> is_skipped p j"
  by (auto simp: is_skipped_def acknowledge_step_advisory_def acknowledge_advisory_def Let_def)

lemma has_advisory_ack [progress_simps]:
  "has_advisory (acknowledge_step_advisory i r p) j \<longleftrightarrow> j = i \<or> has_advisory p j"
  by (auto simp: has_advisory_def acknowledge_step_advisory_def acknowledge_advisory_def Let_def)

lemma timestamps_complete [progress_simps]:
  "fmlookup (timestamps (complete_step i ts p)) (timestamp_key (phase_number (id_phase i)) (id_number i))
     = Some ts"
  by (simp add: complete_step_def complete_def Let_def)

lemma resolution_complete: "resolution (complete_step i ts p) j = (if j = i then Completed else resolution p j)"
  by (simp add: resolution_def progress_simps)

lemma resolution_skip: "resolution (skip_step i p) j = (if j = i then Skipped else resolution p j)"
  by (simp add: resolution_def progress_simps)

lemma resolution_ack:
  "resolution (acknowledge_step_advisory i r p) j = (if j = i then Advisory else resolution p j)"
  by (simp add: resolution_def progress_simps)

lemma resolved_complete [progress_simps]: "resolved (complete_step i ts p) j \<longleftrightarrow> j = i \<or> resolved p j"
  by (auto simp: resolved_def progress_simps)

lemma resolved_skip [progress_simps]: "resolved (skip_step i p) j \<longleftrightarrow> j = i \<or> resolved p j"
  by (auto simp: resolved_def progress_simps)

lemma resolved_ack [progress_simps]:
  "resolved (acknowledge_step_advisory i r p) j \<longleftrightarrow> j = i \<or> resolved p j"
  by (auto simp: resolved_def progress_simps)

lemma progress_wf_complete: "progress_wf p \<Longrightarrow> progress_wf (complete_step i ts p)"
  by (auto simp: progress_wf_def complete_step_def complete_def Let_def)

lemma progress_wf_skip: "progress_wf p \<Longrightarrow> progress_wf (skip_step i p)"
  by (auto simp: progress_wf_def skip_step_def skip_def Let_def)

lemma progress_wf_ack: "progress_wf p \<Longrightarrow> progress_wf (acknowledge_step_advisory i r p)"
  by (auto simp: progress_wf_def acknowledge_step_advisory_def acknowledge_advisory_def Let_def)

lemma progress_wf_default: "progress_wf progress_default"
  by (simp add: progress_wf_def progress_default_def)

lemmas progress_wf_intros =
  progress_wf_complete progress_wf_skip progress_wf_ack progress_wf_default

section \<open>What validation and deserialization guarantee\<close>

lemma filter_opt_Some [guard_simps]: "filter_opt p x = Some y \<longleftrightarrow> x = Some y \<and> p y"
  by (auto simp: filter_opt_def bind_eq_Some_conv split: if_splits)

lemma contains_key_drop_keys [simp]:
  "contains_key (drop_keys ks m) k \<longleftrightarrow> k \<notin> set ks \<and> contains_key m k"
  unfolding drop_keys_def by (induction ks arbitrary: m) auto

lemma fmlookup_drop_keys [simp]: "k \<notin> set ks \<Longrightarrow> fmlookup (drop_keys ks m) k = fmlookup m k"
  unfolding drop_keys_def by (induction ks arbitrary: m) auto

lemma typed_malformed_kept:
  "fmlookup raw k = Some v \<Longrightarrow> from_value v = None \<Longrightarrow>
     typed_preserving_malformed from_value k raw = (None, fmupd k v (fmdrop k raw))"
  by (simp add: typed_preserving_malformed_def)

lemma typed_other_key:
  "k' \<noteq> k \<Longrightarrow> fmlookup (snd (typed_preserving_malformed f k raw)) k' = fmlookup raw k'"
  by (simp add: typed_preserving_malformed_def split: option.splits)

lemma state_validate_transaction:
  assumes "state_validate s = Ok u" and "final_benchmark s = Some r"
  shows "\<exists>t. active_reboot_transaction s = Some t
     \<and> (is_authorized_at t PhaseThreeArmed \<or> is_authorized_at t PhaseThreeComplete)
     \<and> receipt_validate r = Ok () \<and> tx_id t = Some (fb_transaction_id r)"
  using assms
  by (auto simp: state_validate_def guard_simps split: if_splits option.splits reboot_stage.splits)

lemma state_validate_Ok_iff:
  "state_validate s = Ok () \<longleftrightarrow>
     \<not> contains_key (st_unknown s) ''activeRebootTransaction''
     \<and> \<not> contains_key (st_unknown s) ''finalBenchmark''
     \<and> (\<forall>v. st_gpu_input s = Some v \<longrightarrow> valid_gpu_input v)
     \<and> st_pagefile_mb s \<le> MAX_PAGEFILE_MB
     \<and> baseline_coherent s
     \<and> (\<forall>r. final_benchmark s = Some r \<longrightarrow>
           (\<exists>t. active_reboot_transaction s = Some t
              \<and> (is_authorized_at t PhaseThreeArmed \<or> is_authorized_at t PhaseThreeComplete)
              \<and> receipt_validate_for_transaction r t = Ok ()))"
proof -
  have stage: "(case tx_stage t of
          PhaseThreeArmed \<Rightarrow> is_authorized_at t PhaseThreeArmed
        | PhaseThreeComplete \<Rightarrow> is_authorized_at t PhaseThreeComplete
        | _ \<Rightarrow> False)
      = (is_authorized_at t PhaseThreeArmed \<or> is_authorized_at t PhaseThreeComplete)" for t :: "'a reboot_transaction"
    by (cases "tx_stage t") (auto simp: is_authorized_at_def)
  have page: "(st_pagefile_mb s \<noteq> 0 \<and> st_pagefile_mb s > MAX_PAGEFILE_MB)
      = (\<not> st_pagefile_mb s \<le> MAX_PAGEFILE_MB)"
    by (auto simp: not_le)
  show ?thesis
    unfolding state_validate_def stage page
    by (auto simp: guard_simps split: option.splits)
qed

lemma deserialized_ranges:
  assumes s_def: "s = state_deserialize J f g raw"
  shows "st_pagefile_mb s \<le> MAX_PAGEFILE_MB"
    and "st_gpu_input s = Some v \<Longrightarrow> valid_gpu_input v"
    and "is_finite (st_avg_fps s)"
    and "is_finite (st_baseline_avg s)"
proof -
  show "st_pagefile_mb s \<le> MAX_PAGEFILE_MB"
    by (auto simp: s_def state_deserialize_def Let_def unwrap_or_def guard_simps
        split: prod.splits option.splits)
  show "st_gpu_input s = Some v \<Longrightarrow> valid_gpu_input v"
    by (auto simp: s_def state_deserialize_def Let_def guard_simps split: prod.splits)
  show "is_finite (st_avg_fps s)"
    by (auto simp: s_def state_deserialize_def Let_def unwrap_or_def field_finite_f64_def
        guard_simps split: prod.splits option.splits)
  show "is_finite (st_baseline_avg s)"
    by (auto simp: s_def state_deserialize_def Let_def unwrap_or_def field_nonnegative_f64_def
        field_finite_f64_def guard_simps split: prod.splits option.splits)
qed

text \<open>A malformed transaction or receipt keeps its key, so validation refuses the state.\<close>

lemma deserialized_keeps_malformed_transaction:
  assumes "fmlookup raw ''activeRebootTransaction'' = Some v" and "f v = None"
  shows "active_reboot_transaction (state_deserialize J f g raw) = None"
    and "contains_key (st_unknown (state_deserialize J f g raw)) ''activeRebootTransaction''"
proof -
  let ?raw = "drop_keys state_known_keys raw"
  have look: "fmlookup ?raw ''activeRebootTransaction'' = Some v"
    using assms(1) by (simp add: state_known_keys_def)
  define p where "p = typed_preserving_malformed f ''activeRebootTransaction'' ?raw"
  have p: "p = (None, fmupd ''activeRebootTransaction'' v (fmdrop ''activeRebootTransaction'' ?raw))"
    unfolding p_def by (rule typed_malformed_kept [of ?raw _ v f, OF look assms(2)])
  define q where "q = typed_preserving_malformed g ''finalBenchmark'' (snd p)"
  have q: "fmlookup (snd q) ''activeRebootTransaction'' = Some v"
    unfolding q_def by (subst typed_other_key) (simp_all add: p)
  have tx: "active_reboot_transaction (state_deserialize J f g raw) = fst p"
    by (simp add: state_deserialize_def Let_def p_def split: prod.splits)
  have un: "st_unknown (state_deserialize J f g raw) = snd q"
    by (simp add: state_deserialize_def Let_def p_def q_def split: prod.splits)
  show "active_reboot_transaction (state_deserialize J f g raw) = None"
    by (simp add: tx p)
  show "contains_key (st_unknown (state_deserialize J f g raw)) ''activeRebootTransaction''"
    by (simp add: un contains_key_def q)
qed

lemma tolerant_keys_valid: "k |\<in>| tolerant_keys J v \<Longrightarrow> valid_progress_key k"
  by (auto simp: tolerant_keys_def fset_of_list_elem split: option.splits)

end
