(* ===== verification/Rust_Text.thy ===== *)
theory Rust_Text
  imports Frametime_Prelude
begin

text \<open>
  The operations of Rust's \<open>str\<close> that the line-oriented code uses, on strings as their UTF-8 bytes:
  lines, trimming of Unicode white space, searching and replacing.  The lemmas state what a search
  finds and how the lines of a text grow when text is appended.
\<close>

section \<open>Lines\<close>

abbreviation LF :: char where "LF \<equiv> CHR 0x0A"

abbreviation CR :: char where "CR \<equiv> CHR 0x0D"

definition strip_cr :: "string \<Rightarrow> string" where
  "strip_cr l = (if l \<noteq> [] \<and> last l = CR then butlast l else l)"

text \<open>\<open>str::lines\<close>: a line ends with a line feed, a carriage return before it is dropped.\<close>

fun lines_from :: "string \<Rightarrow> string \<Rightarrow> string list" where
  "lines_from l [] = (if l = [] then [] else [l])"
| "lines_from l (c # s) = (if c = LF then strip_cr l # lines_from [] s else lines_from (l @ [c]) s)"

definition lines :: "string \<Rightarrow> string list" where
  "lines s = lines_from [] s"

lemma lines_from_append:
  "lines_from l (a @ LF # b) = lines_from l (a @ [LF]) @ lines b"
  by (induction a arbitrary: l) (auto simp: lines_def)

lemma lines_append: "lines (a @ LF # b) = lines (a @ [LF]) @ lines b"
  unfolding lines_def by (rule lines_from_append [unfolded lines_def])

lemma lines_from_one: "LF \<notin> set s \<Longrightarrow> lines_from l (s @ [LF]) = [strip_cr (l @ s)]"
  by (induction s arbitrary: l) auto

lemma lines_one: "LF \<notin> set s \<Longrightarrow> lines (s @ [LF]) = [strip_cr s]"
  by (simp add: lines_def lines_from_one)

lemma lines_last: "LF \<notin> set s \<Longrightarrow> lines (a @ LF # s @ [LF]) = lines (a @ [LF]) @ [strip_cr s]"
  by (subst lines_append) (simp add: lines_one)

section \<open>Scalar values\<close>

text \<open>The encodings of the Unicode scalar values of a string, one by one.\<close>

definition utf8_len :: "char \<Rightarrow> nat" where
  "utf8_len c = (if byte c < 128 then 1 else if byte c < 224 then 2 else if byte c < 240 then 3 else 4)"

lemma utf8_len_pos [simp]: "0 < utf8_len c"
  by (simp add: utf8_len_def)

function scalars :: "string \<Rightarrow> string list" where
  "scalars [] = []"
| "scalars (c # s) = take (utf8_len c) (c # s) # scalars (drop (utf8_len c) (c # s))"
  by pat_completeness auto
termination
  by (relation "measure length") (auto simp: utf8_len_def)

definition scalar_is :: "(nat \<Rightarrow> bool) \<Rightarrow> string \<Rightarrow> bool" where
  "scalar_is p x \<longleftrightarrow> list_all p (chars x)"

lemma concat_scalars [simp]: "concat (scalars s) = s"
  by (induction s rule: scalars.induct) simp_all

section \<open>Trimming\<close>

definition trim_start_matches :: "(nat \<Rightarrow> bool) \<Rightarrow> string \<Rightarrow> string" where
  "trim_start_matches p s = concat (dropWhile (scalar_is p) (scalars s))"

definition trim_end_matches :: "(nat \<Rightarrow> bool) \<Rightarrow> string \<Rightarrow> string" where
  "trim_end_matches p s = concat (rev (dropWhile (scalar_is p) (rev (scalars s))))"

definition trim_start :: "string \<Rightarrow> string" where
  "trim_start s = trim_start_matches is_whitespace s"

definition trim :: "string \<Rightarrow> string" where
  "trim s = trim_end_matches is_whitespace (trim_start s)"

section \<open>Searching\<close>

definition starts_with :: "string \<Rightarrow> string \<Rightarrow> bool" where
  "starts_with p s \<longleftrightarrow> take (length p) s = p"

definition ends_in :: "string \<Rightarrow> string \<Rightarrow> bool" where
  "ends_in p s \<longleftrightarrow> length p \<le> length s \<and> drop (length s - length p) s = p"

text \<open>\<open>str::find\<close> of a string: the position of its first occurrence.\<close>

fun find_str :: "string \<Rightarrow> string \<Rightarrow> nat option" where
  "find_str p [] = (if p = [] then Some 0 else None)"
| "find_str p (c # s) = (if starts_with p (c # s) then Some 0 else map_option Suc (find_str p s))"

text \<open>\<open>str::split_once\<close> of a string.\<close>

definition split_once_str :: "string \<Rightarrow> string \<Rightarrow> (string \<times> string) option" where
  "split_once_str p s = map_option (\<lambda>i. (take i s, drop (i + length p) s)) (find_str p s)"

text \<open>\<open>str::replace\<close> of a nonempty string, from left to right.\<close>

function replace_str :: "string \<Rightarrow> string \<Rightarrow> string \<Rightarrow> string" where
  "replace_str p new s =
     (if p = [] \<or> s = [] then s
      else if starts_with p s then new @ replace_str p new (drop (length p) s)
      else hd s # replace_str p new (tl s))"
  by pat_completeness auto
termination
  by (relation "measure (\<lambda>(_, _, s). length s)") auto

declare replace_str.simps [simp del]

lemma starts_with_append [simp]: "starts_with p (p @ s)"
  by (simp add: starts_with_def)

lemma starts_with_iff: "starts_with p s \<longleftrightarrow> (\<exists>r. s = p @ r)"
  by (auto simp: starts_with_def) (metis append_take_drop_id)

lemma starts_with_Nil [simp]: "starts_with [] s"
  by (simp add: starts_with_def)

lemma ends_in_append [simp]: "ends_in p (s @ p)"
  by (simp add: ends_in_def)

lemma ends_in_single: "ends_in [c] s \<longleftrightarrow> s \<noteq> [] \<and> last s = c"
  by (cases s rule: rev_cases) (auto simp: ends_in_def)

lemma find_str_Some:
  "find_str p s = Some i \<Longrightarrow> i + length p \<le> length s \<and> take (length p) (drop i s) = p
     \<and> (\<forall>j<i. take (length p) (drop j s) \<noteq> p)"
proof (induction s arbitrary: i)
  case Nil
  then show ?case by (auto split: if_splits)
next
  case (Cons c s)
  show ?case
  proof (cases "starts_with p (c # s)")
    case True
    then have "length p \<le> Suc (length s)" by (auto simp: starts_with_def dest: arg_cong [of _ _ length])
    with True Cons.prems show ?thesis by (auto simp: starts_with_def)
  next
    case False
    with Cons.prems obtain k where k: "find_str p s = Some k" "i = Suc k" by auto
    show ?thesis
    proof (intro conjI allI impI)
      fix j assume "j < i"
      then show "take (length p) (drop j (c # s)) \<noteq> p"
        using Cons.IH [OF k(1)] False k(2) by (cases j) (auto simp: starts_with_def)
    qed (use Cons.IH [OF k(1)] k(2) in auto)
  qed
qed

section \<open>ASCII text\<close>

lemma scalars_ascii: "list_all (\<lambda>c. byte c < 128) s \<Longrightarrow> scalars s = map (\<lambda>c. [c]) s"
  by (induction s) (simp_all add: utf8_len_def)

lemma scalar_is_ascii [simp]: "byte c < 128 \<Longrightarrow> scalar_is p [c] \<longleftrightarrow> p (byte c)"
  by (simp add: scalar_is_def)

lemma concat_singletons [simp]: "concat (map (\<lambda>c. [c]) s) = s"
  by (induction s) simp_all

lemma dropWhile_hd: "xs \<noteq> [] \<Longrightarrow> \<not> p (hd xs) \<Longrightarrow> dropWhile p xs = xs"
  by (cases xs) simp_all

lemma trim_ascii:
  assumes "list_all (\<lambda>c. byte c < 128) s" and "s \<noteq> []"
    and "\<not> is_whitespace (byte (hd s))" and "\<not> is_whitespace (byte (last s))"
  shows "trim s = s"
proof -
  have ends: "byte (hd s) < 128" "byte (last s) < 128" using assms(1,2) by (auto simp: list_all_iff)
  have "trim_start s = s"
    using assms ends by (simp add: trim_start_def trim_start_matches_def scalars_ascii dropWhile_hd list.map_sel)
  moreover have "trim_end_matches is_whitespace s = s"
    using assms ends
    by (simp add: trim_end_matches_def scalars_ascii rev_map dropWhile_hd list.map_sel hd_rev)
  ultimately show ?thesis by (simp add: trim_def)
qed

end
