(* ===== verification/Files.thy ===== *)
theory Files
  imports Rust_Text
begin

text \<open>
  Files as the program sees them: \<open>std::path\<close> paths as their components, actions that may fail with an
  \<open>io::Error\<close> and change the world, and a model of the operations of \<open>std::fs\<close> the code calls.  Every
  such operation may fail for a reason of its own (a fault of the medium, a sharing violation, ...); a
  write that fails may have written a part of its bytes.
\<close>

section \<open>Paths\<close>

datatype (plugins only: code size) path_component =
  PathPrefix string | RootDir | CurDir | ParentDir | Normal string

type_synonym path = "path_component list"

definition join_names :: "path \<Rightarrow> string list \<Rightarrow> path" where
  "join_names p names = p @ map Normal names"

definition strip_prefix_path :: "path \<Rightarrow> path \<Rightarrow> path option" where
  "strip_prefix_path root p = (if take (length root) p = root then Some (drop (length root) p) else None)"

fun is_normal :: "path_component \<Rightarrow> bool" where
  "is_normal (Normal n) = True"
| "is_normal _ = False"

definition path_parent :: "path \<Rightarrow> path option" where
  "path_parent p =
     (if p = [] then None
      else (case last p of PathPrefix _ \<Rightarrow> None | RootDir \<Rightarrow> None | _ \<Rightarrow> Some (butlast p)))"

text \<open>An absolute path on Windows has a prefix and a root.\<close>

fun is_absolute :: "path \<Rightarrow> bool" where
  "is_absolute (PathPrefix _ # RootDir # _) = True"
| "is_absolute _ = False"

lemma strip_prefix_path_Some: "strip_prefix_path root p = Some r \<longleftrightarrow> p = root @ r"
  by (auto simp: strip_prefix_path_def) (metis append_take_drop_id)

lemma strip_prefix_path_append [simp]: "strip_prefix_path root (root @ r) = Some r"
  by (simp add: strip_prefix_path_Some)

lemma path_parent_snoc [simp]: "path_parent (p @ [Normal n]) = Some p"
  by (simp add: path_parent_def)

lemma join_names_simps [simp]:
  "join_names p [] = p" "join_names p (n # ns) = join_names (p @ [Normal n]) ns"
  by (simp_all add: join_names_def)

section \<open>Actions\<close>

datatype (plugins only: code size) io_kind = IoNotFound | IoAlreadyExists | IoPermissionDenied | IoOther

datatype io_error = IoError (error_kind: io_kind) (error_text: string)

type_synonym ('w, 'e, 'a) io = "'w \<Rightarrow> ('a, 'e) result \<times> 'w"

definition io_ret :: "'a \<Rightarrow> ('w, 'e, 'a) io" where
  "io_ret x w = (Ok x, w)"

definition io_fail :: "'e \<Rightarrow> ('w, 'e, 'a) io" where
  "io_fail e w = (Err e, w)"

definition io_bind :: "('w, 'e, 'a) io \<Rightarrow> ('a \<Rightarrow> ('w, 'e, 'b) io) \<Rightarrow> ('w, 'e, 'b) io" where
  "io_bind m f w = (case m w of (Ok x, w') \<Rightarrow> f x w' | (Err e, w') \<Rightarrow> (Err e, w'))"

text \<open>A pure check in the middle of an action, and \<open>?\<close> with a conversion of the error.\<close>

definition io_check :: "('a, 'e) result \<Rightarrow> ('w, 'e, 'a) io" where
  "io_check r w = (r, w)"

definition io_map_err :: "('e \<Rightarrow> 'f) \<Rightarrow> ('w, 'e, 'a) io \<Rightarrow> ('w, 'f, 'a) io" where
  "io_map_err g m w = (case m w of (r, w') \<Rightarrow> (map_err g r, w'))"

text \<open>Looking at the result of an action without returning early.\<close>

definition io_match :: "('w, 'e, 'a) io \<Rightarrow> (('a, 'e) result \<Rightarrow> ('w, 'f, 'b) io) \<Rightarrow> ('w, 'f, 'b) io" where
  "io_match m f w = (case m w of (r, w') \<Rightarrow> f r w')"

fun io_each :: "('a \<Rightarrow> ('w, 'e, 'b) io) \<Rightarrow> 'a list \<Rightarrow> ('w, 'e, 'b list) io" where
  "io_each f [] = io_ret []"
| "io_each f (x # xs) =
     io_bind (f x) (\<lambda>y. io_bind (io_each f xs) (\<lambda>ys. io_ret (y # ys)))"

named_theorems io_Ok \<open>how a composed action succeeds\<close>

lemma io_ret_Ok [io_Ok]: "io_ret x w = (Ok y, w') \<longleftrightarrow> y = x \<and> w' = w"
  by (auto simp: io_ret_def)

lemma io_fail_Ok [io_Ok]: "io_fail e w = (Ok y, w') \<longleftrightarrow> False"
  by (auto simp: io_fail_def)

lemma io_check_Ok [io_Ok]: "io_check r w = (Ok y, w') \<longleftrightarrow> r = Ok y \<and> w' = w"
  by (auto simp: io_check_def)

lemma io_bind_Ok [io_Ok]:
  "io_bind m f w = (Ok y, w'') \<longleftrightarrow> (\<exists>x w'. m w = (Ok x, w') \<and> f x w' = (Ok y, w''))"
  by (auto simp: io_bind_def split: prod.splits result.splits)

lemma io_bind_cases:
  assumes "io_bind m f w = (r, w')"
  obtains (stopped) e where "m w = (Err e, w')" "r = Err e"
  | (went_on) x w1 where "m w = (Ok x, w1)" "f x w1 = (r, w')"
  using assms by (auto simp: io_bind_def split: prod.splits result.splits)

lemma io_map_err_Ok [io_Ok]: "io_map_err g m w = (Ok y, w') \<longleftrightarrow> m w = (Ok y, w')"
  by (auto simp: io_map_err_def guard_simps split: prod.splits)

lemma io_match_eq: "io_match m f w = (y, w'') \<longleftrightarrow> (\<exists>r w'. m w = (r, w') \<and> f r w' = (y, w''))"
  by (auto simp: io_match_def split: prod.splits)

text \<open>A relation between the world before and after that every step of an action keeps to.\<close>

definition io_within :: "('w \<Rightarrow> 'w \<Rightarrow> bool) \<Rightarrow> ('w, 'e, 'a) io \<Rightarrow> bool" where
  "io_within R m \<longleftrightarrow> (\<forall>w. R w (snd (m w)))"

named_theorems io_within_intros \<open>relations kept by composed actions\<close>

lemma io_within_ret [io_within_intros]: "reflp R \<Longrightarrow> io_within R (io_ret x)"
  by (simp add: io_within_def io_ret_def reflp_def)

lemma io_within_fail [io_within_intros]: "reflp R \<Longrightarrow> io_within R (io_fail e)"
  by (simp add: io_within_def io_fail_def reflp_def)

lemma io_within_check [io_within_intros]: "reflp R \<Longrightarrow> io_within R (io_check r)"
  by (simp add: io_within_def io_check_def reflp_def)

lemma io_within_bind [io_within_intros]:
  "transp R \<Longrightarrow> io_within R m \<Longrightarrow> (\<And>x. io_within R (f x)) \<Longrightarrow> io_within R (io_bind m f)"
  unfolding io_within_def io_bind_def
  by (auto split: prod.splits result.splits) (metis snd_conv transpE)+

lemma io_within_match [io_within_intros]:
  "transp R \<Longrightarrow> io_within R m \<Longrightarrow> (\<And>x. io_within R (f x)) \<Longrightarrow> io_within R (io_match m f)"
  unfolding io_within_def io_match_def
  by (auto split: prod.splits) (metis snd_conv transpE)

lemma io_within_map_err [io_within_intros]: "io_within R m \<Longrightarrow> io_within R (io_map_err g m)"
  unfolding io_within_def io_map_err_def by (auto split: prod.splits) (metis snd_conv)

lemma io_within_check_bind:
  "reflp R \<Longrightarrow> (\<And>x. r = Ok x \<Longrightarrow> io_within R (f x)) \<Longrightarrow> io_within R (io_bind (io_check r) f)"
  by (cases r) (auto simp: io_within_def io_bind_def io_check_def reflp_def)

lemma io_within_each:
  "reflp R \<Longrightarrow> transp R \<Longrightarrow> (\<And>x. x \<in> set xs \<Longrightarrow> io_within R (f x)) \<Longrightarrow> io_within R (io_each f xs)"
  by (induction xs) (auto intro!: io_within_intros)

lemma io_withinD: "io_within R m \<Longrightarrow> m w = (r, w') \<Longrightarrow> R w w'"
  unfolding io_within_def by (metis snd_conv)

text \<open>
  Partial correctness with two postconditions: from a world with \<open>P\<close>, the action ends in \<open>Q\<close> with a
  value or in \<open>E\<close> with an error.
\<close>

fun io_post :: "('a \<Rightarrow> 'w \<Rightarrow> bool) \<Rightarrow> ('e \<Rightarrow> 'w \<Rightarrow> bool) \<Rightarrow> ('a, 'e) result \<Rightarrow> 'w \<Rightarrow> bool" where
  "io_post Q E (Ok x) w = Q x w"
| "io_post Q E (Err e) w = E e w"

definition io_spec ::
  "('w \<Rightarrow> bool) \<Rightarrow> ('w, 'e, 'a) io \<Rightarrow> ('a \<Rightarrow> 'w \<Rightarrow> bool) \<Rightarrow> ('e \<Rightarrow> 'w \<Rightarrow> bool) \<Rightarrow> bool" where
  "io_spec P m Q E \<longleftrightarrow> (\<forall>w r w'. m w = (r, w') \<longrightarrow> P w \<longrightarrow> io_post Q E r w')"

lemma io_specI: "(\<And>w r w'. m w = (r, w') \<Longrightarrow> P w \<Longrightarrow> io_post Q E r w') \<Longrightarrow> io_spec P m Q E"
  by (simp add: io_spec_def)

lemma io_specD: "io_spec P m Q E \<Longrightarrow> m w = (r, w') \<Longrightarrow> P w \<Longrightarrow> io_post Q E r w'"
  by (simp add: io_spec_def)

lemma io_spec_bind:
  assumes m: "io_spec P m R E" and f: "\<And>x. io_spec (R x) (f x) Q E"
  shows "io_spec P (io_bind m f) Q E"
proof (rule io_specI)
  fix w r w' assume run: "io_bind m f w = (r, w')" and P: "P w"
  obtain r1 w1 where m1: "m w = (r1, w1)" by fastforce
  note post = io_specD [OF m m1 P]
  show "io_post Q E r w'"
  proof (cases r1)
    case (Ok x)
    then show ?thesis using run m1 post io_specD [OF f [of x], of w1 r w'] by (simp add: io_bind_def)
  next
    case (Err e)
    then show ?thesis using run m1 post by (auto simp: io_bind_def)
  qed
qed

lemma io_spec_match:
  assumes m: "io_spec P m R S" and f: "\<And>x. io_spec (R x) (f (Ok x)) Q E"
    and g: "\<And>e. io_spec (S e) (f (Err e)) Q E"
  shows "io_spec P (io_match m f) Q E"
proof (rule io_specI)
  fix w r w' assume run: "io_match m f w = (r, w')" and P: "P w"
  obtain r1 w1 where m1: "m w = (r1, w1)" by fastforce
  note post = io_specD [OF m m1 P]
  show "io_post Q E r w'"
  proof (cases r1)
    case (Ok x)
    then show ?thesis using run m1 post io_specD [OF f [of x], of w1 r w'] by (simp add: io_match_def)
  next
    case (Err e)
    then show ?thesis using run m1 post io_specD [OF g [of e], of w1 r w'] by (simp add: io_match_def)
  qed
qed

lemma io_spec_ret: "(\<And>w. P w \<Longrightarrow> Q x w) \<Longrightarrow> io_spec P (io_ret x) Q E"
  by (rule io_specI) (auto simp: io_ret_def)

lemma io_spec_fail: "(\<And>w. P w \<Longrightarrow> E e w) \<Longrightarrow> io_spec P (io_fail e) Q E"
  by (rule io_specI) (auto simp: io_fail_def)

lemma io_spec_check:
  "(\<And>x w. P w \<Longrightarrow> r = Ok x \<Longrightarrow> Q x w) \<Longrightarrow> (\<And>e w. P w \<Longrightarrow> r = Err e \<Longrightarrow> E e w) \<Longrightarrow>
     io_spec P (io_check r) Q E"
  by (rule io_specI, cases r) (auto simp: io_check_def)

lemma io_post_mono:
  "io_post Q E r w \<Longrightarrow> (\<And>x. Q x w \<Longrightarrow> Q' x w) \<Longrightarrow> (\<And>e. E e w \<Longrightarrow> E' e w) \<Longrightarrow> io_post Q' E' r w"
  by (cases r) auto

lemma io_spec_conseq:
  assumes m: "io_spec P m Q E" and P: "\<And>w. P' w \<Longrightarrow> P w"
    and Q: "\<And>x w. Q x w \<Longrightarrow> Q' x w" and E: "\<And>e w. E e w \<Longrightarrow> E' e w"
  shows "io_spec P' m Q' E'"
  by (rule io_specI, rule io_post_mono, erule io_specD [OF m]) (use P Q E in auto)

lemma io_spec_if:
  "(b \<Longrightarrow> io_spec P m Q E) \<Longrightarrow> (\<not> b \<Longrightarrow> io_spec P m' Q E) \<Longrightarrow> io_spec P (if b then m else m') Q E"
  by simp

section \<open>Determined runs\<close>

text \<open>From every world with \<open>P\<close> the action returns \<open>r\<close> and ends with \<open>Q\<close>.\<close>

definition gives ::
  "('w \<Rightarrow> bool) \<Rightarrow> ('w, 'e, 'a) io \<Rightarrow> ('a, 'e) result \<Rightarrow> ('w \<Rightarrow> bool) \<Rightarrow> bool" where
  "gives P m r Q \<longleftrightarrow> (\<forall>w. P w \<longrightarrow> (\<exists>w'. m w = (r, w') \<and> Q w'))"

lemma givesI: "(\<And>w. P w \<Longrightarrow> \<exists>w'. m w = (r, w') \<and> Q w') \<Longrightarrow> gives P m r Q"
  by (simp add: gives_def)

lemma givesD: "gives P m r Q \<Longrightarrow> P w \<Longrightarrow> \<exists>w'. m w = (r, w') \<and> Q w'"
  by (simp add: gives_def)

lemma gives_ret: "gives P (io_ret x) (Ok x) P"
  by (simp add: gives_def io_ret_def)

lemma gives_fail: "gives P (io_fail e) (Err e) P"
  by (simp add: gives_def io_fail_def)

lemma gives_check: "gives P (io_check r) r P"
  by (simp add: gives_def io_check_def)

lemma gives_bind: "gives P m (Ok x) R \<Longrightarrow> gives R (f x) r Q \<Longrightarrow> gives P (io_bind m f) r Q"
  by (force simp: gives_def io_bind_def)

lemma gives_bind_Err: "gives P m (Err e) Q \<Longrightarrow> gives P (io_bind m f) (Err e) Q"
  by (force simp: gives_def io_bind_def)

lemma gives_check_bind: "c = Ok x \<Longrightarrow> gives P (f x) r Q \<Longrightarrow> gives P (io_bind (io_check c) f) r Q"
  by (simp add: gives_def io_bind_def io_check_def)

lemma gives_match: "gives P m r1 R \<Longrightarrow> gives R (f r1) r Q \<Longrightarrow> gives P (io_match m f) r Q"
  by (force simp: gives_def io_match_def)

lemma gives_map_err: "gives P m r Q \<Longrightarrow> gives P (io_map_err g m) (map_err g r) Q"
  by (force simp: gives_def io_map_err_def)

lemma gives_map_err_Ok: "gives P m (Ok x) Q \<Longrightarrow> gives P (io_map_err g m) (Ok x) Q"
  by (force simp: gives_def io_map_err_def)

section \<open>\<open>std::fs\<close>\<close>

text \<open>
  A reparse point carries what reading through it yields, if it leads to a file.  The clock counts the
  calls; a fault of a call is its message and, for a write, how many bytes still reached the medium.
\<close>

datatype (plugins only: code size) node = Directory | Regular string | Reparse "string option"

record os =
  os_disk :: "(path, node) fmap"
  os_calls :: nat
  os_fault :: "nat \<Rightarrow> (string \<times> nat) option"
  os_canonical :: "path \<Rightarrow> path"
  os_nanos :: "nat \<Rightarrow> nat"
  os_process :: nat

type_synonym 'a os_call = "(os, io_error, 'a) io"

definition not_found :: io_error where
  "not_found = IoError IoNotFound ''entity not found''"

definition os_step :: "(os \<Rightarrow> ('a, io_error) result \<times> os) \<Rightarrow> (nat \<Rightarrow> os \<Rightarrow> os) \<Rightarrow> 'a os_call" where
  "os_step act damage w =
     (let w' = w\<lparr>os_calls := Suc (os_calls w)\<rparr> in
      case os_fault w (os_calls w) of
        Some (message, n) \<Rightarrow> (Err (IoError IoOther message), damage n w')
      | None \<Rightarrow> act w')"

definition on_disk :: "os \<Rightarrow> path \<Rightarrow> node option" where
  "on_disk w p = fmlookup (os_disk w) p"

definition set_node :: "path \<Rightarrow> node \<Rightarrow> os \<Rightarrow> os" where
  "set_node p x w = w\<lparr>os_disk := fmupd p x (os_disk w)\<rparr>"

definition drop_node :: "path \<Rightarrow> os \<Rightarrow> os" where
  "drop_node p w = w\<lparr>os_disk := fmdrop p (os_disk w)\<rparr>"

definition symlink_metadata :: "path \<Rightarrow> node os_call" where
  "symlink_metadata p =
     os_step (\<lambda>w. (ok_or not_found (on_disk w p), w)) (\<lambda>_ w. w)"

definition canonicalize :: "path \<Rightarrow> path os_call" where
  "canonicalize p =
     os_step (\<lambda>w. (case on_disk w p of None \<Rightarrow> Err not_found | Some _ \<Rightarrow> Ok (os_canonical w p), w)) (\<lambda>_ w. w)"

definition fs_read :: "path \<Rightarrow> string os_call" where
  "fs_read p =
     os_step (\<lambda>w. (case on_disk w p of
         None \<Rightarrow> Err not_found
       | Some (Regular bytes) \<Rightarrow> Ok bytes
       | Some (Reparse (Some bytes)) \<Rightarrow> Ok bytes
       | Some _ \<Rightarrow> Err (IoError IoPermissionDenied ''not a file''), w)) (\<lambda>_ w. w)"

definition has_directory :: "os \<Rightarrow> path \<Rightarrow> bool" where
  "has_directory w p =
     (case path_parent p of
        None \<Rightarrow> False
      | Some d \<Rightarrow> (case on_disk w d of Some Directory \<Rightarrow> True | Some (Reparse _) \<Rightarrow> True | _ \<Rightarrow> False))"

text \<open>\<open>OpenOptions::create_new(true).write(true).open\<close>, \<open>write_all\<close> on the new file and \<open>sync_all\<close>.\<close>

definition open_new :: "path \<Rightarrow> unit os_call" where
  "open_new p =
     os_step (\<lambda>w. (if on_disk w p \<noteq> None then (Err (IoError IoAlreadyExists ''file exists''), w)
                   else if \<not> has_directory w p then (Err not_found, w)
                   else (Ok (), set_node p (Regular []) w))) (\<lambda>_ w. w)"

fun is_regular :: "node option \<Rightarrow> bool" where
  "is_regular (Some (Regular _)) = True"
| "is_regular _ = False"

definition write_all :: "path \<Rightarrow> string \<Rightarrow> unit os_call" where
  "write_all p bytes =
     os_step
       (\<lambda>w. if is_regular (on_disk w p) then (Ok (), set_node p (Regular bytes) w)
            else (Err (IoError IoOther ''the file is gone''), w))
       (\<lambda>n w. if is_regular (on_disk w p) then set_node p (Regular (take n bytes)) w else w)"

definition sync_all :: "unit os_call" where
  "sync_all = os_step (\<lambda>w. (Ok (), w)) (\<lambda>_ w. w)"

definition fs_remove_file :: "path \<Rightarrow> unit os_call" where
  "fs_remove_file p =
     os_step (\<lambda>w. (case on_disk w p of
         None \<Rightarrow> (Err not_found, w)
       | Some Directory \<Rightarrow> (Err (IoError IoPermissionDenied ''is a directory''), w)
       | Some _ \<Rightarrow> (Ok (), drop_node p w))) (\<lambda>_ w. w)"

text \<open>A rename over an existing file replaces it at once or not at all; a directory is not replaced.\<close>

definition fs_rename :: "path \<Rightarrow> path \<Rightarrow> unit os_call" where
  "fs_rename p q =
     os_step (\<lambda>w. (case on_disk w p of
         None \<Rightarrow> (Err not_found, w)
       | Some x \<Rightarrow>
           if on_disk w q = Some Directory \<or> x = Directory
           then (Err (IoError IoPermissionDenied ''is a directory''), w)
           else (Ok (), set_node q x (drop_node p w)))) (\<lambda>_ w. w)"

text \<open>\<open>create_dir_all\<close>: the missing directories from the top down.\<close>

fun missing_directories :: "os \<Rightarrow> path \<Rightarrow> path list option" where
  "missing_directories w p =
     (case on_disk w p of
        Some (Regular _) \<Rightarrow> None
      | Some _ \<Rightarrow> Some []
      | None \<Rightarrow>
          (if p = [] then None
           else map_option (\<lambda>ds. ds @ [p]) (missing_directories w (butlast p))))"

declare missing_directories.simps [simp del]

definition create_dir_all :: "path \<Rightarrow> unit os_call" where
  "create_dir_all p =
     os_step (\<lambda>w. (case missing_directories w p of
         None \<Rightarrow> (Err (IoError IoAlreadyExists ''not a directory''), w)
       | Some ds \<Rightarrow> (Ok (), fold (\<lambda>d. set_node d Directory) ds w))) (\<lambda>_ w. w)"

end
