(* ===== verification/Pagefile.thy ===== *)
theory Pagefile
  imports Backup Session Files
begin

text \<open>
  The pagefile transaction of P1:8 (\<open>crates/frametime-windows/src/system/pagefile.rs\<close>): the captured
  binding, the mutation, its verification and compensation, and the restoration from the backup entry,
  over any store of pagefile settings.  The locale states what a store that checks exact tokens promises;
  in it, nothing but the target setting ever changes, a created setting is removed again exactly, and an
  updated one is never put back.
\<close>

section \<open>Settings\<close>

record pagefile_setting =
  ps_path :: string
  ps_initial_size :: u32
  ps_maximum_size :: u32
  ps_object_path :: string
  ps_relative_path :: string

record pagefile_inventory =
  automatic_managed :: bool
  computer_object_path :: string
  computer_relative_path :: string
  system_drive :: string
  physical_ram_mb :: u64
  free_space_mb :: u64
  pi_settings :: "pagefile_setting list"

record pagefile_binding =
  pb_step :: string
  pb_target_path :: string
  pb_initial_size :: u32
  pb_maximum_size :: u32
  pb_before :: pagefile_inventory
  pb_target :: "pagefile_setting option"

record created_pagefile_token =
  ct_object_path :: string
  ct_relative_path :: string
  ct_path :: string
  ct_initial_size :: u32
  ct_maximum_size :: u32

record 'w pagefile_store =
  pf_inventory :: "('w, string, pagefile_inventory) io"
  pf_set_automatic :: "string \<Rightarrow> string \<Rightarrow> bool option \<Rightarrow> bool \<Rightarrow> ('w, string, unit) io"
  pf_update :: "pagefile_setting \<Rightarrow> u32 \<Rightarrow> u32 \<Rightarrow> ('w, string, unit) io"
  pf_create :: "string \<Rightarrow> u32 \<Rightarrow> u32 \<Rightarrow> ('w, string, created_pagefile_token) io"
  pf_delete :: "created_pagefile_token \<Rightarrow> ('w, string, unit) io"

section \<open>Capture\<close>

definition pagefile_target :: "string \<Rightarrow> (string, string) result" where
  "pagefile_target drive =
     (if length drive \<noteq> 2 \<or> \<not> (is_ascii_lowercase (drive ! 0) \<or> is_ascii_uppercase (drive ! 0)) \<or> drive ! 1 \<noteq> CHR '':''
      then Err ''SystemDrive is not an exact local drive designator''
      else Ok (to_ascii_uppercase drive @ [CHR 0x5C] @ ''pagefile.sys''))"

definition pagefile_size_mb :: "'v state \<Rightarrow> u64 \<Rightarrow> (u32, string) result" where
  "pagefile_size_mb state ram_mb =
     (if st_pagefile_mb state \<noteq> 0
      then ok_or ''configured pagefile size does not fit Win32 uint32'' (u32_try_from (st_pagefile_mb state))
      else Err (''system-managed pagefiles are the baseline; a fixed pagefile experiment requires an ''
                @ ''explicit pagefile_mb override''))"

definition unsafe_identity_char :: "char \<Rightarrow> bool" where
  "unsafe_identity_char c \<longleftrightarrow> c = CHR 0x00 \<or> c = CHR 0x0D \<or> c = CHR 0x0A"

definition validate_pagefile_identity :: "pagefile_setting \<Rightarrow> (unit, string) result" where
  "validate_pagefile_identity s =
     (if ps_path s = [] \<or> ps_object_path s = [] \<or> ps_relative_path s = []
         \<or> list_ex (list_ex unsafe_identity_char) [ps_path s, ps_object_path s, ps_relative_path s]
      then Err ''CIM pagefile instance has an unsafe or incomplete identity''
      else if ps_initial_size s > ps_maximum_size s
      then Err ''CIM pagefile instance has invalid size ordering''
      else Ok ())"

fun validate_settings ::
  "string list \<Rightarrow> string list \<Rightarrow> string list \<Rightarrow> pagefile_setting list \<Rightarrow> (unit, string) result" where
  "validate_settings objects relatives paths [] = Ok ()"
| "validate_settings objects relatives paths (s # ss) =
     and_then (validate_pagefile_identity s) (\<lambda>_.
     if to_ascii_lowercase (ps_object_path s) \<in> set objects
        \<or> to_ascii_lowercase (ps_relative_path s) \<in> set relatives
        \<or> to_ascii_lowercase (ps_path s) \<in> set paths
     then Err ''CIM pagefile inventory contains duplicate identities''
     else validate_settings (to_ascii_lowercase (ps_object_path s) # objects)
       (to_ascii_lowercase (ps_relative_path s) # relatives) (to_ascii_lowercase (ps_path s) # paths) ss)"

definition validate_inventory :: "pagefile_inventory \<Rightarrow> (unit, string) result" where
  "validate_inventory i =
     (if computer_object_path i = [] \<or> computer_relative_path i = [] \<or> system_drive i = []
      then Err ''CIM computer-system identity or SystemDrive is missing''
      else validate_settings [] [] [] (pi_settings i))"

definition PAGEFILE_MAX_MB :: int where
  "PAGEFILE_MAX_MB = 1048576"

definition capture_pagefile_binding ::
  "string \<Rightarrow> 'v state \<Rightarrow> pagefile_inventory \<Rightarrow> (pagefile_binding, string) result" where
  "capture_pagefile_binding step state inventory =
     and_then (validate_inventory inventory) (\<lambda>_.
     and_then (pagefile_target (system_drive inventory)) (\<lambda>target_path.
     and_then (pagefile_size_mb state (physical_ram_mb inventory)) (\<lambda>size.
     if uint size > PAGEFILE_MAX_MB \<or> uint (free_space_mb inventory) < uint size
     then Err ''pagefile target size exceeds validated free space or safe bounds''
     else
       let target = filter (\<lambda>s. eq_ignore_ascii_case (ps_path s) target_path) (pi_settings inventory) in
       if length target > 1 then Err ''CIM inventory contains duplicate target pagefile instances''
       else Ok \<lparr>pb_step = step, pb_target_path = target_path, pb_initial_size = size, pb_maximum_size = size,
                pb_before = inventory, pb_target = (case target of [] \<Rightarrow> None | t # _ \<Rightarrow> Some t)\<rparr>)))"

section \<open>The backup entry\<close>

definition pagefile_setting_backup :: "pagefile_setting \<Rightarrow> 'v pagefile_transaction_setting" where
  "pagefile_setting_backup s =
     \<lparr>pts_path = ps_path s, pts_initial_size = ucast (ps_initial_size s), pts_maximum_size = ucast (ps_maximum_size s),
      pts_object_path = Some (ps_object_path s), pts_relative_path = Some (ps_relative_path s), pts_unknown = fmempty\<rparr>"

definition pagefile_backup_entry :: "string \<Rightarrow> pagefile_binding \<Rightarrow> 'v pagefile_transaction_backup" where
  "pagefile_backup_entry timestamp b =
     \<lparr>pft_step = pb_step b, pft_timestamp = timestamp, pft_automatic_managed = automatic_managed (pb_before b),
      pft_target_path = pb_target_path b, pft_target_existed = (pb_target b \<noteq> None),
      pft_settings = map pagefile_setting_backup (pi_settings (pb_before b)),
      pft_computer_object_path = Some (computer_object_path (pb_before b)),
      pft_computer_relative_path = Some (computer_relative_path (pb_before b)),
      pft_created_object_path = None, pft_created_relative_path = None,
      pft_created_initial_size = None, pft_created_maximum_size = None,
      pft_mutation_intent = Some (if pb_target b \<noteq> None then ''update_pending'' else ''create_pending''),
      pft_unknown = fmempty\<rparr>"

text \<open>
  The journal entry of a creation: \<open>persist_created_pagefile_token\<close> on the entries of the backup file.
  The file is read and written by \<open>read_json_trusted\<close> and \<open>write_json_atomic_trusted\<close>.
\<close>

definition is_p1_8_transaction :: "'v backup_entry \<Rightarrow> bool" where
  "is_p1_8_transaction e = (case e of BackupPagefileTransaction t \<Rightarrow> pft_step t = ''P1:8'' | _ \<Rightarrow> False)"

definition journal_created_token ::
  "created_pagefile_token \<Rightarrow> 'v pagefile_transaction_backup \<Rightarrow> 'v pagefile_transaction_backup" where
  "journal_created_token created t =
     t\<lparr>pft_created_object_path := Some (ct_object_path created),
       pft_created_relative_path := Some (ct_relative_path created),
       pft_created_initial_size := Some (ucast (ct_initial_size created)),
       pft_created_maximum_size := Some (ucast (ct_maximum_size created)),
       pft_mutation_intent := Some ''created''\<rparr>"

definition record_created_pagefile_token ::
  "created_pagefile_token \<Rightarrow> 'v backup_file \<Rightarrow> ('v backup_file, string) result" where
  "record_created_pagefile_token created file =
     (case filter is_p1_8_transaction (backup_entries file) of
        [BackupPagefileTransaction t] \<Rightarrow>
          if \<not> is_empty_map (pft_unknown t) \<or> pft_created_object_path t \<noteq> None
             \<or> pft_created_relative_path t \<noteq> None \<or> pft_created_initial_size t \<noteq> None
             \<or> pft_created_maximum_size t \<noteq> None \<or> pft_mutation_intent t \<noteq> Some ''create_pending''
          then Err ''persisted P1:8 create journal has unsafe provenance''
          else Ok (file\<lparr>backup_entries :=
            map (\<lambda>e. if is_p1_8_transaction e then BackupPagefileTransaction (journal_created_token created t) else e)
              (backup_entries file)\<rparr>)
      | _ \<Rightarrow> Err ''persisted backup does not contain exactly one P1:8 transaction'')"

definition persist_created_pagefile_token ::
  "('w, string, 'v backup_file) io \<Rightarrow> ('v backup_file \<Rightarrow> ('w, string, unit) io) \<Rightarrow> created_pagefile_token
     \<Rightarrow> ('w, string, unit) io" where
  "persist_created_pagefile_token read_json write_json created =
     (if ct_object_path created = [] \<or> ct_relative_path created = []
      then io_fail ''created pagefile token is incomplete''
      else
        io_bind (io_map_err (\<lambda>e. ''read persisted P1:8 backup: '' @ e) read_json) (\<lambda>backup.
        io_bind (io_check (record_created_pagefile_token created backup)) (\<lambda>updated.
        io_map_err (\<lambda>e. ''atomically persist exact created pagefile token: '' @ e) (write_json updated))))"


section \<open>Mutation, verification and compensation\<close>

definition check_foreign_preservation :: "pagefile_binding \<Rightarrow> pagefile_inventory \<Rightarrow> (unit, string) result" where
  "check_foreign_preservation b after =
     and_then (validate_inventory after) (\<lambda>_.
     try_each (\<lambda>original.
       if (case pb_target b of None \<Rightarrow> False | Some t \<Rightarrow> ps_object_path t = ps_object_path original) then Ok ()
       else if find (\<lambda>s. ps_object_path s = ps_object_path original) (pi_settings after) \<noteq> Some original
       then Err ''a non-target pagefile setting changed or disappeared''
       else Ok ()) (pi_settings (pb_before b)))"

definition begin_pagefile_mutation ::
  "'w pagefile_store \<Rightarrow> pagefile_binding \<Rightarrow> ('w, string, created_pagefile_token option) io" where
  "begin_pagefile_mutation S b =
     io_bind (pf_set_automatic S (computer_object_path (pb_before b)) (computer_relative_path (pb_before b))
       (Some (automatic_managed (pb_before b))) False) (\<lambda>_.
     io_bind (pf_inventory S) (\<lambda>disabled.
     if automatic_managed disabled then io_fail ''AutomaticManagedPagefile did not read back false''
     else
       io_bind (io_check (check_foreign_preservation b disabled)) (\<lambda>_.
       case pb_target b of
         Some target \<Rightarrow>
           io_bind (pf_update S target (pb_initial_size b) (pb_maximum_size b)) (\<lambda>_. io_ret None)
       | None \<Rightarrow>
           io_bind (pf_create S (pb_target_path b) (pb_initial_size b) (pb_maximum_size b)) (\<lambda>t.
           io_ret (Some t)))))"

definition verify_pagefile_mutation ::
  "'w pagefile_store \<Rightarrow> pagefile_binding \<Rightarrow> created_pagefile_token option \<Rightarrow> ('w, string, unit) io" where
  "verify_pagefile_mutation S b created =
     io_bind (pf_inventory S) (\<lambda>after.
     if automatic_managed after then io_fail ''AutomaticManagedPagefile changed during pagefile transaction''
     else
       io_bind (io_check (check_foreign_preservation b after)) (\<lambda>_.
       io_bind (io_check (ok_or ''target pagefile setting is absent after mutation''
         (find (\<lambda>s. eq_ignore_ascii_case (ps_path s) (pb_target_path b)) (pi_settings after)))) (\<lambda>target.
       if ps_initial_size target \<noteq> pb_initial_size b \<or> ps_maximum_size target \<noteq> pb_maximum_size b
       then io_fail ''target pagefile sizes did not read back exactly''
       else if (case created of None \<Rightarrow> False | Some c \<Rightarrow>
           ps_object_path target \<noteq> ct_object_path c \<or> ps_relative_path target \<noteq> ct_relative_path c)
       then io_fail ''created pagefile identity did not read back exactly''
       else io_ret ())))"

text \<open>The failures of the two compensating calls, in order.\<close>

definition failure_of :: "string \<Rightarrow> (unit, string) result \<Rightarrow> string list" where
  "failure_of prefix r = (case r of Ok _ \<Rightarrow> [] | Err e \<Rightarrow> [prefix @ e])"

definition compensate_target ::
  "'w pagefile_store \<Rightarrow> pagefile_binding \<Rightarrow> created_pagefile_token option \<Rightarrow> ('w, string, string list) io" where
  "compensate_target S b created =
     (case created of
        Some c \<Rightarrow> io_match (pf_delete S c) (\<lambda>r. io_ret (failure_of ''delete exact created pagefile: '' r))
      | None \<Rightarrow>
          (case pb_target b of
             Some t \<Rightarrow>
               io_match (pf_update S t (ps_initial_size t) (ps_maximum_size t)) (\<lambda>r.
               io_ret (failure_of ''restore target pagefile: '' r))
           | None \<Rightarrow> io_ret []))"

definition compensate_pagefile_mutation ::
  "'w pagefile_store \<Rightarrow> pagefile_binding \<Rightarrow> created_pagefile_token option \<Rightarrow> ('w, string, unit) io" where
  "compensate_pagefile_mutation S b created =
     io_bind (compensate_target S b created) (\<lambda>first.
     io_match (pf_set_automatic S (computer_object_path (pb_before b)) (computer_relative_path (pb_before b))
       None (automatic_managed (pb_before b))) (\<lambda>r.
     let failures = first @ failure_of ''restore AutomaticManagedPagefile last: '' r in
     if failures = [] then io_ret () else io_fail (intercalate ''; '' failures)))"

definition compound_pagefile_error :: "string \<Rightarrow> string \<Rightarrow> (unit, string) result \<Rightarrow> string" where
  "compound_pagefile_error prefix primary rollback =
     (case rollback of
        Ok _ \<Rightarrow> prefix @ '': '' @ primary @ ''; target and automatic-management compensation completed''
      | Err e \<Rightarrow> prefix @ '': '' @ primary @ ''; compensation also failed: '' @ e)"

section \<open>Restoration\<close>

definition created_token_of_backup ::
  "string \<Rightarrow> bool \<Rightarrow> string option \<Rightarrow> string option \<Rightarrow> u64 option \<Rightarrow> u64 option \<Rightarrow> string option
     \<Rightarrow> (created_pagefile_token option, string) result" where
  "created_token_of_backup target_path target_existed object_path relative_path initial_size maximum_size journal_intent =
     (case (object_path, relative_path) of
        (None, None) \<Rightarrow>
          if journal_intent = Some ''update_pending'' \<and> target_existed then Ok None
          else Err ''P1:8 backup has no exact deletion authority; manual recovery is required''
      | (Some object_path, Some relative_path) \<Rightarrow>
          if journal_intent = Some ''created'' \<and> \<not> target_existed \<and> object_path \<noteq> [] \<and> relative_path \<noteq> []
          then
            and_then (ok_or ''P1:8 created token lacks its expected initial size'' initial_size) (\<lambda>initial64.
            and_then (ok_or ''P1:8 created initial size exceeds uint32'' (u32_try_from initial64)) (\<lambda>initial.
            and_then (ok_or ''P1:8 created token lacks its expected maximum size'' maximum_size) (\<lambda>maximum64.
            and_then (ok_or ''P1:8 created maximum size exceeds uint32'' (u32_try_from maximum64)) (\<lambda>maximum.
            if initial > maximum then Err ''P1:8 created token has invalid expected sizes''
            else Ok (Some \<lparr>ct_object_path = object_path, ct_relative_path = relative_path, ct_path = target_path,
                           ct_initial_size = initial, ct_maximum_size = maximum\<rparr>)))))
          else Err ''P1:8 backup has no exact deletion authority; manual recovery is required''
      | _ \<Rightarrow> Err ''P1:8 backup has no exact deletion authority; manual recovery is required'')"

definition setting_of_backup :: "'v pagefile_transaction_setting \<Rightarrow> (pagefile_setting, string) result" where
  "setting_of_backup s =
     and_then (ok_or ''P1:8 initial size exceeds uint32'' (u32_try_from (pts_initial_size s))) (\<lambda>initial.
     and_then (ok_or ''P1:8 maximum size exceeds uint32'' (u32_try_from (pts_maximum_size s))) (\<lambda>maximum.
     and_then (ok_or ''P1:8 setting lacks exact object token'' (pts_object_path s)) (\<lambda>object_path.
     and_then (ok_or ''P1:8 setting lacks exact relative token'' (pts_relative_path s)) (\<lambda>relative_path.
     let item = \<lparr>ps_path = pts_path s, ps_initial_size = initial, ps_maximum_size = maximum,
                 ps_object_path = object_path, ps_relative_path = relative_path\<rparr> in
     and_then (validate_pagefile_identity item) (\<lambda>_. Ok item)))))"

fun collect_results :: "('a \<Rightarrow> ('b, 'e) result) \<Rightarrow> 'a list \<Rightarrow> ('b list, 'e) result" where
  "collect_results f [] = Ok []"
| "collect_results f (x # xs) =
     and_then (f x) (\<lambda>y. and_then (collect_results f xs) (\<lambda>ys. Ok (y # ys)))"

definition nonempty_text :: "string option \<Rightarrow> string option" where
  "nonempty_text v = (case v of Some s \<Rightarrow> if s = [] then None else Some s | None \<Rightarrow> None)"

text \<open>\<open>target_path.get(0..2)\<close>: the first two bytes, unless they end inside a character.\<close>

definition first_two :: "string \<Rightarrow> string option" where
  "first_two s =
     (if length s < 2 then None
      else if length s > 2 \<and> 128 \<le> byte (s ! 2) \<and> byte (s ! 2) < 192 then None
      else Some (take 2 s))"

definition parse_pagefile_restore_backup ::
  "'v backup_entry \<Rightarrow>
     (pagefile_inventory \<times> created_pagefile_token option \<times> string \<times> bool, string) result" where
  "parse_pagefile_restore_backup entry =
     (case entry of
        BackupPagefileTransaction t \<Rightarrow>
          (case (nonempty_text (pft_computer_object_path t), nonempty_text (pft_computer_relative_path t)) of
             (Some object_path, Some relative_path) \<Rightarrow>
               if pft_step t \<noteq> ''P1:8'' \<or> \<not> is_empty_map (pft_unknown t)
               then Err ''P1:8 backup has incomplete or untrusted transaction provenance''
               else
                 and_then (created_token_of_backup (pft_target_path t) (pft_target_existed t)
                   (pft_created_object_path t) (pft_created_relative_path t) (pft_created_initial_size t)
                   (pft_created_maximum_size t) (pft_mutation_intent t)) (\<lambda>created.
                 and_then (ok_or ''P1:8 target path is malformed'' (first_two (pft_target_path t))) (\<lambda>drive.
                 and_then (collect_results setting_of_backup (pft_settings t)) (\<lambda>settings.
                 Ok (\<lparr>automatic_managed = pft_automatic_managed t, computer_object_path = object_path,
                      computer_relative_path = relative_path, system_drive = drive, physical_ram_mb = 1,
                      free_space_mb = - 1, pi_settings = settings\<rparr>,
                     created, pft_target_path t, pft_target_existed t))))
           | _ \<Rightarrow> Err ''P1:8 backup has incomplete or untrusted transaction provenance'')
      | _ \<Rightarrow> Err ''pagefile transaction restore received the wrong entry type'')"

definition restore_created ::
  "'w pagefile_store \<Rightarrow> pagefile_inventory \<Rightarrow> created_pagefile_token option \<Rightarrow> string
     \<Rightarrow> ('w, string, unit) io" where
  "restore_created S live created target_path =
     (case created of
        None \<Rightarrow> io_ret ()
      | Some c \<Rightarrow>
          (case filter (\<lambda>s. ps_object_path s = ct_object_path c \<and> ps_relative_path s = ct_relative_path c
                  \<and> eq_ignore_ascii_case (ps_path s) target_path) (pi_settings live) of
             [s] \<Rightarrow>
               if ps_initial_size s \<noteq> ct_initial_size c \<or> ps_maximum_size s \<noteq> ct_maximum_size c
               then io_fail ''P1:8 created token sizes changed; refusing deletion''
               else pf_delete S c
           | _ \<Rightarrow> io_fail ''P1:8 created token is absent or ambiguous; refusing deletion''))"

definition restore_pagefile_settings ::
  "'w pagefile_store \<Rightarrow> pagefile_inventory \<Rightarrow> created_pagefile_token option \<Rightarrow> string \<Rightarrow> bool
     \<Rightarrow> ('w, string, unit) io" where
  "restore_pagefile_settings S before created target_path target_existed =
     io_bind (io_check (validate_inventory before)) (\<lambda>_.
     io_bind (pf_inventory S) (\<lambda>live.
     io_bind (io_check (validate_inventory live)) (\<lambda>_.
     if computer_object_path live \<noteq> computer_object_path before
        \<or> computer_relative_path live \<noteq> computer_relative_path before
     then io_fail ''P1:8 computer-system token no longer matches; manual recovery is required''
     else
       io_bind (restore_created S live created target_path) (\<lambda>_.
       if target_existed
       then
         io_bind (io_check (ok_or ''P1:8 target token is absent from the complete original inventory''
           (find (\<lambda>s. eq_ignore_ascii_case (ps_path s) target_path) (pi_settings before)))) (\<lambda>target.
         pf_update S target (ps_initial_size target) (ps_maximum_size target))
       else io_ret ()))))"

definition verify_pagefile_restoration ::
  "'w pagefile_store \<Rightarrow> pagefile_inventory \<Rightarrow> created_pagefile_token option \<Rightarrow> string \<Rightarrow> bool
     \<Rightarrow> ('w, string, unit) io" where
  "verify_pagefile_restoration S before created target_path target_existed =
     io_bind (pf_inventory S) (\<lambda>restored.
     io_bind (io_check (try_each (\<lambda>s.
       if find (\<lambda>c. ps_object_path c = ps_object_path s) (pi_settings restored) \<noteq> Some s
       then Err (if eq_ignore_ascii_case (ps_path s) target_path \<and> target_existed
                 then ''P1:8 target setting did not restore exactly''
                 else ''P1:8 foreign pagefile setting changed during restore'')
       else Ok ()) (pi_settings before))) (\<lambda>_.
     if (case created of None \<Rightarrow> False | Some c \<Rightarrow>
           list_ex (\<lambda>s. ps_object_path s = ct_object_path c \<or> ps_relative_path s = ct_relative_path c)
             (pi_settings restored))
     then io_fail ''P1:8 exact created setting remains after deletion''
     else
       io_bind (pf_set_automatic S (computer_object_path before) (computer_relative_path before) None
         (automatic_managed before)) (\<lambda>_.
       io_bind (pf_inventory S) (\<lambda>final.
       if automatic_managed final \<noteq> automatic_managed before
       then io_fail ''P1:8 AutomaticManagedPagefile restore did not read back exactly''
       else io_ret ()))))"

definition restore_pagefile_transaction ::
  "'w pagefile_store \<Rightarrow> 'v backup_entry \<Rightarrow> ('w, string, unit) io" where
  "restore_pagefile_transaction S entry =
     io_bind (io_check (parse_pagefile_restore_backup entry)) (\<lambda>(before, created, target_path, target_existed).
     io_bind (restore_pagefile_settings S before created target_path target_existed) (\<lambda>_.
     verify_pagefile_restoration S before created target_path target_existed))"


section \<open>Captured bindings\<close>

lemma capture_binding_Ok:
  assumes "capture_pagefile_binding step state inventory = Ok b"
  shows "pb_before b = inventory" and "pb_step b = step" and "pb_maximum_size b = pb_initial_size b"
    and "validate_inventory inventory = Ok ()"
    and "pb_target b = find (\<lambda>s. eq_ignore_ascii_case (ps_path s) (pb_target_path b)) (pi_settings inventory)"
    and "pagefile_target (system_drive inventory) = Ok (pb_target_path b)"
proof -
  have hd_filter: "(case filter P xs of [] \<Rightarrow> None | t # _ \<Rightarrow> Some t) = find P xs" for P and xs :: "pagefile_setting list"
    by (induction xs) auto
  show "pb_before b = inventory" "pb_step b = step" "pb_maximum_size b = pb_initial_size b"
    "validate_inventory inventory = Ok ()" "pagefile_target (system_drive inventory) = Ok (pb_target_path b)"
    "pb_target b = find (\<lambda>s. eq_ignore_ascii_case (ps_path s) (pb_target_path b)) (pi_settings inventory)"
    using assms by (auto simp: capture_pagefile_binding_def guard_simps Let_def hd_filter split: if_splits)
qed

lemma u32_try_from_ucast: "u32_try_from (ucast (x :: u32)) = Some x"
proof -
  have b: "unat x < 2 ^ 32" using unsigned_less [of x] by simp
  then have "unat (ucast x :: u64) = unat x" by (simp add: unsigned_ucast_eq take_bit_nat_eq_self)
  with b show ?thesis by (simp add: u32_try_from_def)
qed

lemma setting_of_backup_backup:
  "setting_of_backup (pagefile_setting_backup s) = and_then (validate_pagefile_identity s) (\<lambda>_. Ok s)"
  by (cases s) (simp add: setting_of_backup_def pagefile_setting_backup_def u32_try_from_ucast ok_or_def Let_def)

lemma settings_of_backups:
  "collect_results setting_of_backup (map pagefile_setting_backup ss) = Ok ss' \<Longrightarrow> ss' = ss"
  by (induction ss arbitrary: ss') (auto simp: guard_simps setting_of_backup_backup)

lemma parse_restore_of_entry:
  assumes "parse_pagefile_restore_backup (BackupPagefileTransaction t) = Ok (before, created, target_path, existed)"
    and "t = pagefile_backup_entry timestamp b"
  shows "pi_settings before = pi_settings (pb_before b)" and "created = None" and "target_path = pb_target_path b"
    and "existed"
  using assms
  by (auto simp: parse_pagefile_restore_backup_def pagefile_backup_entry_def created_token_of_backup_def guard_simps
      dest: settings_of_backups split: option.splits if_splits)

lemma parse_restore_of_journal:
  assumes "parse_pagefile_restore_backup (BackupPagefileTransaction t) = Ok (before, created, target_path, existed)"
    and "t = journal_created_token c (pagefile_backup_entry timestamp b)"
  shows "pi_settings before = pi_settings (pb_before b)" and "created = Some (c\<lparr>ct_path := pb_target_path b\<rparr>)"
    and "target_path = pb_target_path b" and "\<not> existed"
    and "automatic_managed before = automatic_managed (pb_before b)"
  using assms
  by (auto simp: parse_pagefile_restore_backup_def pagefile_backup_entry_def journal_created_token_def
      created_token_of_backup_def guard_simps u32_try_from_ucast dest: settings_of_backups split: option.splits if_splits)

section \<open>The interface of the store\<close>

definition resize :: "pagefile_setting \<Rightarrow> u32 \<Rightarrow> u32 \<Rightarrow> pagefile_setting \<Rightarrow> pagefile_setting" where
  "resize s i m x =
     (if ps_object_path x = ps_object_path s then x\<lparr>ps_initial_size := i, ps_maximum_size := m\<rparr> else x)"

definition setting_of_token :: "created_pagefile_token \<Rightarrow> pagefile_setting" where
  "setting_of_token c =
     \<lparr>ps_path = ct_path c, ps_initial_size = ct_initial_size c, ps_maximum_size = ct_maximum_size c,
      ps_object_path = ct_object_path c, ps_relative_path = ct_relative_path c\<rparr>"

text \<open>\<open>view\<close> is the inventory the store would report, \<open>ok\<close> the worlds in which its laws hold.\<close>

locale pagefile_store =
  fixes S :: "'w pagefile_store" and view :: "'w \<Rightarrow> pagefile_inventory" and ok :: "'w \<Rightarrow> bool"
  assumes distinct: "ok w \<Longrightarrow> distinct (map ps_object_path (pi_settings (view w)))"
    and inventory: "ok w \<Longrightarrow> pf_inventory S w = (found, w') \<Longrightarrow>
      ok w' \<and> view w' = view w \<and> (\<forall>i. found = Ok i \<longrightarrow> i = view w)"
    and set_automatic: "ok w \<Longrightarrow> pf_set_automatic S p q expected v w = (r, w') \<Longrightarrow>
      ok w' \<and> view w' = (if is_ok r then (view w)\<lparr>automatic_managed := v\<rparr> else view w)"
    and update: "ok w \<Longrightarrow> pf_update S s i m w = (r, w') \<Longrightarrow>
      ok w' \<and> (if is_ok r then s \<in> set (pi_settings (view w))
                 \<and> view w' = (view w)\<lparr>pi_settings := map (resize s i m) (pi_settings (view w))\<rparr>
               else view w' = view w)"
    and create: "ok w \<Longrightarrow> pf_create S path i m w = (token, w') \<Longrightarrow>
      ok w' \<and> (view w' = view w \<and> \<not> is_ok token
        \<or> (\<exists>x. eq_ignore_ascii_case (ps_path x) path
             \<and> view w' = (view w)\<lparr>pi_settings := pi_settings (view w) @ [x]\<rparr>
             \<and> (\<forall>c. token = Ok c \<longrightarrow> setting_of_token c = x)))"
    and delete: "ok w \<Longrightarrow> pf_delete S c w = (r, w') \<Longrightarrow>
      ok w' \<and> (if is_ok r then setting_of_token c \<in> set (pi_settings (view w))
                 \<and> view w' = (view w)\<lparr>pi_settings :=
                     filter (\<lambda>x. ps_object_path x \<noteq> ct_object_path c) (pi_settings (view w))\<rparr>
               else view w' = view w)"
begin

text \<open>The settings of other paths are what no operation on the target may touch.\<close>

definition foreign :: "string \<Rightarrow> 'w \<Rightarrow> pagefile_setting list" where
  "foreign target w = filter (\<lambda>x. \<not> eq_ignore_ascii_case (ps_path x) target) (pi_settings (view w))"

definition keeps_foreign :: "string \<Rightarrow> 'w \<Rightarrow> 'w \<Rightarrow> bool" where
  "keeps_foreign target w w' \<longleftrightarrow> (ok w \<longrightarrow> ok w' \<and> foreign target w' = foreign target w)"

lemma keeps_foreign_order [io_within_intros]: "reflp (keeps_foreign t)" "transp (keeps_foreign t)"
  by (auto simp: keeps_foreign_def intro!: reflpI transpI)

lemma same_object:
  "ok w \<Longrightarrow> x \<in> set (pi_settings (view w)) \<Longrightarrow> y \<in> set (pi_settings (view w)) \<Longrightarrow>
     ps_object_path x = ps_object_path y \<Longrightarrow> x = y"
  using distinct [of w] by (auto simp: distinct_map dest: inj_onD)

lemma keeps_inventory: "io_within (keeps_foreign t) (pf_inventory S)"
  unfolding io_within_def keeps_foreign_def foreign_def using inventory by (metis prod.collapse)

lemma keeps_set_automatic: "io_within (keeps_foreign t) (pf_set_automatic S p q e v)"
  unfolding io_within_def
proof
  fix w
  obtain r w' where run: "pf_set_automatic S p q e v w = (r, w')" by fastforce
  then show "keeps_foreign t w (snd (pf_set_automatic S p q e v w))"
    using set_automatic [OF _ run] by (simp add: keeps_foreign_def foreign_def)
qed

lemma filter_resize:
  assumes "\<And>x. x \<in> set xs \<Longrightarrow> ps_object_path x = ps_object_path s \<Longrightarrow> \<not> P x"
    and "\<And>x i m. P (x\<lparr>ps_initial_size := i, ps_maximum_size := m\<rparr>) = P x"
  shows "filter P (map (resize s i m) xs) = filter P xs"
  using assms(1)
proof (induction xs)
  case (Cons x xs)
  then show ?case using assms(2) [where x = x and i = i and m = m] by (auto simp: resize_def)
qed simp

lemma keeps_update:
  assumes "eq_ignore_ascii_case (ps_path s) t"
  shows "io_within (keeps_foreign t) (pf_update S s i m)"
  unfolding io_within_def
proof
  fix w
  obtain r w' where run: "pf_update S s i m w = (r, w')" by fastforce
  have "foreign t w' = foreign t w" if "ok w" "is_ok r"
  proof -
    have "s \<in> set (pi_settings (view w))" using update [OF that(1) run] that(2) by simp
    then have "\<not> \<not> eq_ignore_ascii_case (ps_path x) t"
      if "x \<in> set (pi_settings (view w))" "ps_object_path x = ps_object_path s" for x
      using same_object [OF \<open>ok w\<close> that(1), of s] that(2) assms by simp
    then show ?thesis
      using update [OF that(1) run] that(2) by (simp add: foreign_def filter_resize)
  qed
  then show "keeps_foreign t w (snd (pf_update S s i m w))"
    using update [OF _ run] run by (cases "is_ok r") (auto simp: keeps_foreign_def foreign_def)
qed

lemma keeps_create:
  assumes "\<And>path'. eq_ignore_ascii_case path' path \<Longrightarrow> eq_ignore_ascii_case path' t"
  shows "io_within (keeps_foreign t) (pf_create S path i m)"
  unfolding io_within_def
proof
  fix w
  obtain r w' where run: "pf_create S path i m w = (r, w')" by fastforce
  show "keeps_foreign t w (snd (pf_create S path i m w))"
    using create [OF _ run] run assms by (auto simp: keeps_foreign_def foreign_def)
qed

lemma keeps_delete:
  assumes "eq_ignore_ascii_case (ct_path c) t"
  shows "io_within (keeps_foreign t) (pf_delete S c)"
  unfolding io_within_def
proof
  fix w
  obtain r w' where run: "pf_delete S c w = (r, w')" by fastforce
  have "foreign t w' = foreign t w" if "ok w" "is_ok r"
  proof -
    have "setting_of_token c \<in> set (pi_settings (view w))" using delete [OF that(1) run] that(2) by simp
    then have "eq_ignore_ascii_case (ps_path x) t"
      if "x \<in> set (pi_settings (view w))" "ps_object_path x = ct_object_path c" for x
      using same_object [OF \<open>ok w\<close> that(1), of "setting_of_token c"] that(2) assms
      by (simp add: setting_of_token_def)
    then show ?thesis
      using delete [OF that(1) run] that(2)
      by (auto simp: foreign_def filter_filter intro!: filter_cong)
  qed
  then show "keeps_foreign t w (snd (pf_delete S c w))"
    using delete [OF _ run] run by (cases "is_ok r") (auto simp: keeps_foreign_def foreign_def)
qed

lemmas keeps_ops = keeps_inventory keeps_set_automatic keeps_update keeps_create keeps_delete

lemma begin_keeps_foreign:
  assumes "\<And>t. pb_target b = Some t \<Longrightarrow> eq_ignore_ascii_case (ps_path t) (pb_target_path b)"
  shows "io_within (keeps_foreign (pb_target_path b)) (begin_pagefile_mutation S b)"
  unfolding begin_pagefile_mutation_def
  by (auto intro!: io_within_intros keeps_ops assms split: option.split)

lemma compensate_keeps_foreign:
  assumes "\<And>t. pb_target b = Some t \<Longrightarrow> eq_ignore_ascii_case (ps_path t) (pb_target_path b)"
    and "\<And>c. created = Some c \<Longrightarrow> eq_ignore_ascii_case (ct_path c) (pb_target_path b)"
  shows "io_within (keeps_foreign (pb_target_path b)) (compensate_pagefile_mutation S b created)"
  unfolding compensate_pagefile_mutation_def compensate_target_def Let_def
  by (auto intro!: io_within_intros keeps_ops assms split: option.split)

end


context pagefile_store
begin

text \<open>A captured binding whose inventory is still what the store shows.\<close>

lemma inventory_Ok: "ok w \<Longrightarrow> pf_inventory S w = (Ok i, w') \<Longrightarrow> i = view w \<and> ok w' \<and> view w' = view w"
  using inventory by blast

lemma set_automatic_Ok:
  "ok w \<Longrightarrow> pf_set_automatic S p q e v w = (Ok u, w') \<Longrightarrow>
     ok w' \<and> view w' = (view w)\<lparr>automatic_managed := v\<rparr>"
  using set_automatic [of w p q e v "Ok u" w'] by simp

lemma begin_update:
  assumes "ok w" and "begin_pagefile_mutation S b w = (Ok None, w')"
  obtains t where "pb_target b = Some t" and "ok w'" and "t \<in> set (pi_settings (view w))"
    and "pi_settings (view w') = map (resize t (pb_initial_size b) (pb_maximum_size b)) (pi_settings (view w))"
proof -
  obtain u w1 i w2 t u' where a: "pf_set_automatic S (computer_object_path (pb_before b))
      (computer_relative_path (pb_before b)) (Some (automatic_managed (pb_before b))) False w = (Ok u, w1)"
    and inv: "pf_inventory S w1 = (Ok i, w2)" and t: "pb_target b = Some t"
    and up: "pf_update S t (pb_initial_size b) (pb_maximum_size b) w2 = (Ok u', w')"
    using assms(2) by (auto simp: begin_pagefile_mutation_def io_Ok split: if_splits option.splits)
  note w1 = set_automatic_Ok [OF assms(1) a]
  then have w2: "ok w2" "view w2 = (view w)\<lparr>automatic_managed := False\<rparr>"
    using inventory_Ok [OF _ inv] by auto
  show thesis using that [OF t] update [OF w2(1) up] w2(2) by simp
qed

text \<open>After the update no setting has the captured token, so the store refuses every exact update of it.\<close>

lemma stale_token_refused:
  assumes "ok w" and "x \<in> set (pi_settings (view w))" and "ps_object_path x = ps_object_path t" and "x \<noteq> t"
  shows "\<exists>e w'. pf_update S t i m w = (Err e, w') \<and> ok w' \<and> view w' = view w"
proof -
  obtain r w' where run: "pf_update S t i m w = (r, w')" by fastforce
  have "t \<notin> set (pi_settings (view w))" using same_object [OF assms(1,2) _ assms(3)] assms(4) by blast
  then have "\<not> is_ok r" using update [OF assms(1) run] by auto
  then obtain e where "r = Err e" by (cases r) auto
  then show ?thesis using update [OF assms(1) run] run by auto
qed

lemma updated_token_is_stale:
  assumes "ok w" and "t \<in> set (pi_settings (view w))"
    and "pi_settings (view w') = map (resize t i m) (pi_settings (view w))"
    and "ps_initial_size t \<noteq> i \<or> ps_maximum_size t \<noteq> m"
  shows "resize t i m t \<in> set (pi_settings (view w'))" and "ps_object_path (resize t i m t) = ps_object_path t"
    and "resize t i m t \<noteq> t"
proof -
  show "resize t i m t \<in> set (pi_settings (view w'))" using assms(2,3) by simp
  show "ps_object_path (resize t i m t) = ps_object_path t" by (simp add: resize_def)
  have "ps_initial_size (resize t i m t) = i" "ps_maximum_size (resize t i m t) = m" by (simp_all add: resize_def)
  then show "resize t i m t \<noteq> t" using assms(4) by auto
qed

lemma updated_is_not_compensated:
  assumes "ok w" and "begin_pagefile_mutation S b w = (Ok None, w0)" and again: "ok w1" "view w1 = view w0" and "pb_target b = Some t"
    and "ps_initial_size t \<noteq> pb_initial_size b \<or> ps_maximum_size t \<noteq> pb_maximum_size b"
    and "compensate_pagefile_mutation S b None w1 = (r, w2)"
  shows "(\<exists>e. r = Err e) \<and> pi_settings (view w2) = pi_settings (view w1)"
proof -
  obtain t: "t \<in> set (pi_settings (view w))"
    and s: "pi_settings (view w1) = map (resize t (pb_initial_size b) (pb_maximum_size b)) (pi_settings (view w))"
    using begin_update [OF assms(1,2)] assms(5) unfolding again(2) by (metis option.inject)
  obtain e w' where e: "pf_update S t (ps_initial_size t) (ps_maximum_size t) w1 = (Err e, w')" "ok w'" "view w' = view w1"
    using stale_token_refused [OF again(1) updated_token_is_stale [OF assms(1) t s assms(6)]] by blast
  obtain r' w'' where a: "pf_set_automatic S (computer_object_path (pb_before b)) (computer_relative_path (pb_before b))
       None (automatic_managed (pb_before b)) w' = (r', w'')" by fastforce
  have "r = Err (intercalate ''; '' (failure_of ''restore target pagefile: '' (Err e) @
      failure_of ''restore AutomaticManagedPagefile last: '' r'))" and "w2 = w''"
    using assms(5,7) e(1) a
    by (auto simp: compensate_pagefile_mutation_def compensate_target_def io_bind_def io_match_def io_ret_def io_fail_def
        Let_def failure_of_def)
  moreover have "pi_settings (view w'') = pi_settings (view w1)"
    using set_automatic [OF e(2) a] e(3) by (simp split: if_splits)
  ultimately show ?thesis by blast
qed

lemma restore_created_None: "restore_created S live None p = io_ret ()"
  by (simp add: restore_created_def)

lemma updated_is_not_restored:
  assumes "ok w" and "begin_pagefile_mutation S b w = (Ok None, w0)" and again: "ok w1" "view w1 = view w0" and "pb_target b = Some t"
    and "ps_initial_size t \<noteq> pb_initial_size b \<or> ps_maximum_size t \<noteq> pb_maximum_size b"
    and "find (\<lambda>s. eq_ignore_ascii_case (ps_path s) (pb_target_path b)) (pi_settings (pb_before b)) = Some t"
    and entry: "entry = pagefile_backup_entry timestamp b"
  shows "\<exists>e w2. restore_pagefile_transaction S (BackupPagefileTransaction entry) w1 = (Err e, w2) \<and> view w2 = view w1"
proof (cases "parse_pagefile_restore_backup (BackupPagefileTransaction entry)")
  case (Err e)
  then show ?thesis by (simp add: restore_pagefile_transaction_def io_bind_def io_check_def)
next
  case (Ok q)
  obtain before created p existed where q: "q = (before, created, p, existed)" by (cases q)
  note parsed = parse_restore_of_entry [OF Ok [unfolded q] entry]
  obtain t: "t \<in> set (pi_settings (view w))"
    and s: "pi_settings (view w1) = map (resize t (pb_initial_size b) (pb_maximum_size b)) (pi_settings (view w))"
    using begin_update [OF assms(1,2)] assms(5) unfolding again(2) by (metis option.inject)
  obtain live w' where inv: "pf_inventory S w1 = (live, w')" by fastforce
  then have w': "ok w'" "view w' = view w1" using inventory [OF again(1)] by auto
  then obtain e w'' where e: "pf_update S t (ps_initial_size t) (ps_maximum_size t) w' = (Err e, w'')" "view w'' = view w1"
    using stale_token_refused [OF w'(1), unfolded w'(2), OF updated_token_is_stale [OF assms(1) t s assms(6)]]
    by blast
  have "\<exists>e w2. restore_pagefile_settings S before None (pb_target_path b) True w1 = (Err e, w2) \<and> view w2 = view w1"
    using inv w' e assms(7) parsed(1)
    by (auto simp: restore_pagefile_settings_def restore_created_None io_bind_def io_check_def io_fail_def io_ret_def
        ok_or_def split: result.split)
  then show ?thesis
    using parsed by (auto simp: restore_pagefile_transaction_def io_bind_def io_check_def Ok q)
qed

section \<open>A created setting is removed again\<close>

lemma begin_create:
  assumes "ok w" and "begin_pagefile_mutation S b w = (Ok (Some c), w')"
  shows "pb_target b = None \<and> ok w' \<and> view w' = (view w)\<lparr>automatic_managed := False,
      pi_settings := pi_settings (view w) @ [setting_of_token c]\<rparr>"
proof -
  obtain u w1 i w2 where a: "pf_set_automatic S (computer_object_path (pb_before b))
      (computer_relative_path (pb_before b)) (Some (automatic_managed (pb_before b))) False w = (Ok u, w1)"
    and inv: "pf_inventory S w1 = (Ok i, w2)" and t: "pb_target b = None"
    and cr: "pf_create S (pb_target_path b) (pb_initial_size b) (pb_maximum_size b) w2 = (Ok c, w')"
    using assms(2) by (auto simp: begin_pagefile_mutation_def io_Ok split: if_splits option.splits)
  note w1 = set_automatic_Ok [OF assms(1) a]
  then have "ok w2" "view w2 = (view w)\<lparr>automatic_managed := False\<rparr>"
    using inventory_Ok [OF _ inv] by auto
  then show ?thesis using create [OF _ cr] t by auto
qed

lemma created_removed:
  assumes "ok w" and "pi_settings (view w) = settings @ [x]" and "pf_delete S c w = (Ok u, w')"
    and "ps_object_path x = ct_object_path c"
  shows "ok w' \<and> view w' = (view w)\<lparr>pi_settings := settings\<rparr>"
proof -
  have "\<forall>y\<in>set settings. ps_object_path y \<noteq> ct_object_path c"
    using distinct [OF assms(1)] assms(2,4) by force
  then have "filter (\<lambda>y. ps_object_path y \<noteq> ct_object_path c) settings = settings" by simp
  then show ?thesis using delete [OF assms(1,3)] assms(2,4) by simp
qed

lemma create_compensate:
  assumes "ok w" and "view w = pb_before b" and "begin_pagefile_mutation S b w = (Ok (Some c), w1)"
    and "compensate_pagefile_mutation S b (Some c) w1 = (Ok u, w2)"
  shows "view w2 = view w"
proof -
  note w1 = begin_create [OF assms(1,3)]
  obtain w' u' where d: "pf_delete S c w1 = (Ok u', w')"
    and a: "pf_set_automatic S (computer_object_path (pb_before b)) (computer_relative_path (pb_before b))
       None (automatic_managed (pb_before b)) w' = (Ok (), w2)"
    using assms(4)
    by (auto simp: compensate_pagefile_mutation_def compensate_target_def io_bind_def io_match_def io_ret_def io_fail_def
        Let_def failure_of_def split: prod.splits result.splits if_splits)
  have w': "ok w' \<and> view w' = (view w1)\<lparr>pi_settings := pi_settings (view w)\<rparr>"
    using created_removed [OF _ _ d, of "pi_settings (view w)" "setting_of_token c"] w1
    by (simp add: setting_of_token_def)
  show ?thesis using set_automatic_Ok [OF _ a] w' w1 assms(2) by auto
qed

lemma create_restore:
  assumes "ok w" and "view w = pb_before b" and "begin_pagefile_mutation S b w = (Ok (Some c), w0)"
    and again: "ok w1" "view w1 = view w0"
    and entry: "entry = journal_created_token c (pagefile_backup_entry timestamp b)"
    and "restore_pagefile_transaction S (BackupPagefileTransaction entry) w1 = (Ok u, w2)"
  shows "ok w2 \<and> view w2 = view w"
proof -
  note w1 = begin_create [OF assms(1,3), folded again(2)]
  define c' where "c' = c\<lparr>ct_path := pb_target_path b\<rparr>"
  obtain before created p existed wa where parse: "parse_pagefile_restore_backup (BackupPagefileTransaction entry)
      = Ok (before, created, p, existed)"
    and settings: "restore_pagefile_settings S before created p existed w1 = (Ok (), wa)"
    and verify: "verify_pagefile_restoration S before created p existed wa = (Ok (), w2)"
    using assms(7) by (auto simp: restore_pagefile_transaction_def io_Ok)
  note parsed = parse_restore_of_journal [OF parse entry, folded c'_def]
  obtain live wb u' where inv: "pf_inventory S w1 = (Ok live, wb)" and d: "pf_delete S c' wb = (Ok u', wa)"
    using settings parsed(2,4)
    by (auto simp: restore_pagefile_settings_def restore_created_def io_Ok split: if_splits list.splits)
  have wb: "ok wb" "view wb = view w1" using inventory_Ok [OF again(1) inv] by auto
  have wa: "ok wa \<and> view wa = (view wb)\<lparr>pi_settings := pi_settings (view w)\<rparr>"
    using created_removed [OF wb(1) _ d, of "pi_settings (view w)" "setting_of_token c"] w1 wb(2)
    by (simp add: setting_of_token_def c'_def)
  obtain i wc u'' wd i' where "pf_inventory S wa = (Ok i, wc)"
    and a: "pf_set_automatic S (computer_object_path before) (computer_relative_path before) None
        (automatic_managed before) wc = (Ok u'', wd)"
    and i': "pf_inventory S wd = (Ok i', w2)"
    using verify by (auto simp: verify_pagefile_restoration_def io_Ok split: if_splits)
  then have wc: "ok wc" "view wc = view wa" using inventory_Ok wa by blast+
  have "ok wd \<and> view wd = (view wc)\<lparr>automatic_managed := automatic_managed before\<rparr>"
    using set_automatic_Ok [OF wc(1) a] .
  then show ?thesis using inventory_Ok [OF _ i'] wc(2) wa wb(2) w1 parsed(5) assms(2) by auto
qed

end

end
