(* ===== verification/Wmi.thy ===== *)
theory Wmi
  imports Files
begin

text \<open>
  The object access of \<open>crates/frametime-windows/src/system/wmi.rs\<close> over a model of a CIM repository:
  the instances with their typed properties, a clock of calls of which any may fail, and the provider's
  rule for the path of a new instance.  A query returns the instances of a class, an update replaces the
  instance of the item's path, a creation fails when the path is taken.
\<close>

section \<open>The repository\<close>

datatype (plugins only: code size) cim_value =
    CimString string
  | CimUint64 string
  | CimUint32 u32
  | CimBoolean u16
  | CimOther

type_synonym cim_object = "(string, cim_value) fmap"

record cim =
  cim_objects :: "cim_object list"
  cim_identity :: "string \<Rightarrow> string \<times> string"
  cim_calls :: nat
  cim_fault :: "nat \<Rightarrow> string option"
  cim_security :: "(unit, string) result option"
  cim_privilege_held :: bool
  cim_privilege_enabled :: bool
  cim_prior_complete :: bool

definition wmi_call :: "string \<Rightarrow> (cim, string, 'a) io \<Rightarrow> (cim, string, 'a) io" where
  "wmi_call action m w =
     (let w' = w\<lparr>cim_calls := cim_calls w + 1\<rparr> in
      case cim_fault w (cim_calls w) of Some e \<Rightarrow> (Err (action @ e), w') | None \<Rightarrow> m w')"

text \<open>
  The dedicated thread of every operation: COM is initialized for the thread, its security once for the
  process; the result of the latter is kept.
\<close>

definition co_initialize_security :: "(cim, string, unit) io" where
  "co_initialize_security w =
     (case cim_security w of
        Some r \<Rightarrow> (r, w)
      | None \<Rightarrow> (case wmi_call ''CoInitializeSecurity: '' (io_ret ()) w of (r, w') \<Rightarrow> (r, w'\<lparr>cim_security := Some r\<rparr>)))"

definition on_mta :: "(cim, string, 'a) io \<Rightarrow> (cim, string, 'a) io" where
  "on_mta operation =
     io_bind (wmi_call ''CoInitializeEx(MTA): '' (io_ret ())) (\<lambda>_.
     io_bind co_initialize_security (\<lambda>_. operation))"

definition services_at :: "string \<Rightarrow> (cim, string, unit) io" where
  "services_at namespace =
     io_bind (wmi_call ''create IWbemLocator: '' (io_ret ())) (\<lambda>_.
     io_bind (wmi_call (''connect '' @ namespace @ '': '') (io_ret ())) (\<lambda>_.
     wmi_call ''CoSetProxyBlanket(IWbemServices): '' (io_ret ())))"

definition services :: "(cim, string, unit) io" where
  "services = services_at (''ROOT'' @ [CHR 0x5C] @ ''CIMV2'')"

section \<open>Properties of an object\<close>

definition cim_get :: "string \<Rightarrow> cim_object \<Rightarrow> (cim_value, string) result" where
  "cim_get name x = ok_or (''read WMI property '' @ name @ '': not found'') (fmlookup x name)"

definition cim_type_error :: "string \<Rightarrow> string" where
  "cim_type_error name = ''WMI property '' @ name @ '' has unexpected CIM/VARIANT type''"

definition cim_string :: "string \<Rightarrow> cim_object \<Rightarrow> (string, string) result" where
  "cim_string name x = and_then (cim_get name x) (\<lambda>v.
     case v of CimString s \<Rightarrow> Ok s | _ \<Rightarrow> Err (cim_type_error name))"

text \<open>The Automation payload of a \<open>uint32\<close> is signed.\<close>

definition cim_uint32 :: "string \<Rightarrow> cim_object \<Rightarrow> (u32, string) result" where
  "cim_uint32 name x = and_then (cim_get name x) (\<lambda>v.
     case v of
       CimUint32 n \<Rightarrow>
         if sint n < 0 then Err (''WMI property '' @ name @ '' contains a negative uint32 representation'') else Ok n
     | _ \<Rightarrow> Err (cim_type_error name))"

definition cim_boolean :: "string \<Rightarrow> cim_object \<Rightarrow> (bool, string) result" where
  "cim_boolean name x = and_then (cim_get name x) (\<lambda>v.
     case v of CimBoolean b \<Rightarrow> Ok (b = - 1) | _ \<Rightarrow> Err (cim_type_error name))"

definition cim_uint64 :: "string \<Rightarrow> cim_object \<Rightarrow> (u64, string) result" where
  "cim_uint64 name x = and_then (cim_get name x) (\<lambda>v.
     case v of
       CimUint64 s \<Rightarrow>
         (case parse_unsigned (2 ^ 64) s of
            Some n \<Rightarrow> Ok (of_nat n)
          | None \<Rightarrow> Err (''WMI property '' @ name @ '' is not a decimal uint64 string''))
     | _ \<Rightarrow> Err (cim_type_error name))"

definition put_string :: "string \<Rightarrow> string \<Rightarrow> cim_object \<Rightarrow> cim_object" where
  "put_string name s x = fmupd name (CimString s) x"

definition put_uint32 :: "string \<Rightarrow> u32 \<Rightarrow> cim_object \<Rightarrow> (cim_object, string) result" where
  "put_uint32 name n x =
     (if uint n < 2 ^ 31 then Ok (fmupd name (CimUint32 n) x)
      else Err (''WMI property '' @ name @ '' exceeds the signed Automation range''))"

definition put_bool :: "string \<Rightarrow> bool \<Rightarrow> cim_object \<Rightarrow> cim_object" where
  "put_bool name b x = fmupd name (CimBoolean (if b then - 1 else 0)) x"

definition require_class :: "string \<Rightarrow> string \<Rightarrow> cim_object \<Rightarrow> (unit, string) result" where
  "require_class expected scope x =
     and_then (cim_string ''__CLASS'' x) (\<lambda>c.
     if c \<noteq> expected then Err (scope @ '' returned the wrong class'') else Ok ())"

section \<open>Calls of the services\<close>

definition class_of :: "cim_object \<Rightarrow> cim_value option" where
  "class_of x = fmlookup x ''__CLASS''"

definition path_of :: "cim_object \<Rightarrow> cim_value option" where
  "path_of x = fmlookup x ''__PATH''"

definition instances_of :: "string \<Rightarrow> cim_object list \<Rightarrow> cim_object list" where
  "instances_of c xs = filter (\<lambda>x. class_of x = Some (CimString c)) xs"

definition next_object :: "'a \<Rightarrow> (cim, string, 'a) io" where
  "next_object x =
     io_map_err (\<lambda>_. ''WMI enumeration returned an unexpected status or object count'') (wmi_call [] (io_ret x))"

definition wmi_query :: "string \<Rightarrow> (cim, string, cim_object list) io" where
  "wmi_query c =
     io_bind (wmi_call ''WMI query: '' (\<lambda>w. (Ok (instances_of c (cim_objects w)), w))) (\<lambda>rows.
     io_bind (wmi_call ''CoSetProxyBlanket(IEnumWbemClassObject): '' (io_ret ())) (\<lambda>_.
     io_bind (io_each next_object rows) (\<lambda>values.
     io_bind (next_object ()) (\<lambda>_. io_ret values))))"

definition wmi_object :: "string \<Rightarrow> (cim, string, cim_object) io" where
  "wmi_object path =
     wmi_call ''resolve exact WMI object: '' (\<lambda>w.
       (ok_or ''resolve exact WMI object: not found''
          (find (\<lambda>x. path_of x = Some (CimString path)) (cim_objects w)), w))"

definition update_instance :: "string \<Rightarrow> cim_object \<Rightarrow> (cim, string, unit) io" where
  "update_instance action x =
     wmi_call action (\<lambda>w.
       if path_of x \<in> path_of ` set (cim_objects w)
       then (Ok (), w\<lparr>cim_objects := map (\<lambda>y. if path_of y = path_of x then x else y) (cim_objects w)\<rparr>)
       else (Err (action @ ''not found''), w))"

definition create_instance :: "string \<Rightarrow> string \<Rightarrow> cim_object \<Rightarrow> (cim, string, unit) io" where
  "create_instance action name x =
     wmi_call action (\<lambda>w.
       let (path, relative) = cim_identity w name;
           y = put_string ''__PATH'' path (put_string ''__RELPATH'' relative x) in
       if path_of y \<in> path_of ` set (cim_objects w)
       then (Err (action @ ''already exists''), w)
       else (Ok (), w\<lparr>cim_objects := cim_objects w @ [y]\<rparr>))"

definition delete_instance :: "string \<Rightarrow> string \<Rightarrow> (cim, string, unit) io" where
  "delete_instance action path =
     wmi_call action (\<lambda>w.
       if Some (CimString path) \<in> path_of ` set (cim_objects w)
       then (Ok (), w\<lparr>cim_objects := filter (\<lambda>y. path_of y \<noteq> Some (CimString path)) (cim_objects w)\<rparr>)
       else (Err (action @ ''not found''), w))"

section \<open>What a call does to the objects\<close>

text \<open>The worlds a call that is no mutation may lead to: the repository is the same.\<close>

definition same_objects :: "cim \<Rightarrow> cim \<Rightarrow> bool" where
  "same_objects w w' \<longleftrightarrow> cim_objects w' = cim_objects w \<and> cim_identity w' = cim_identity w"

lemma same_objects_order [io_within_intros]: "reflp same_objects" "transp same_objects"
  by (auto simp: same_objects_def intro!: reflpI transpI)

lemma wmi_call_result:
  "wmi_call action m w = (r, w') \<Longrightarrow>
     \<exists>w0. same_objects w w0 \<and> ((\<exists>e. r = Err e \<and> w' = w0) \<or> m w0 = (r, w'))"
  by (rule exI [where x = "w\<lparr>cim_calls := cim_calls w + 1\<rparr>"])
    (auto simp: wmi_call_def same_objects_def Let_def split: option.splits)

lemma wmi_call_same [io_within_intros]:
  assumes "io_within same_objects m"
  shows "io_within same_objects (wmi_call action m)"
  unfolding io_within_def
proof
  fix w
  obtain r w' where run: "wmi_call action m w = (r, w')" by fastforce
  obtain w0 where "same_objects w w0" and "(\<exists>e. r = Err e \<and> w' = w0) \<or> m w0 = (r, w')"
    using wmi_call_result [OF run] by blast
  then show "same_objects w (snd (wmi_call action m w))"
    using io_withinD [OF assms] same_objects_order(2) run by (auto dest: transpD)
qed

lemma next_object_same [io_within_intros]: "io_within same_objects (next_object x)"
  unfolding next_object_def by (intro io_within_intros)

lemma wmi_query_same [io_within_intros]: "io_within same_objects (wmi_query c)"
  unfolding wmi_query_def
  by (intro io_within_intros io_within_each) (auto simp: io_within_def same_objects_def)

lemma wmi_object_same [io_within_intros]: "io_within same_objects (wmi_object path)"
  unfolding wmi_object_def
  by (intro io_within_intros) (simp add: io_within_def same_objects_def)

lemma next_object_Ok: "next_object x w = (Ok y, w') \<Longrightarrow> y = x"
  by (auto simp: next_object_def io_Ok wmi_call_def io_ret_def Let_def split: option.splits)

lemma each_next_object_Ok: "io_each next_object xs w = (Ok ys, w') \<Longrightarrow> ys = xs"
  by (induction xs arbitrary: ys w) (auto simp: io_Ok dest: next_object_Ok)

lemma wmi_query_Ok:
  assumes "wmi_query c w = (Ok rows, w')"
  shows "rows = instances_of c (cim_objects w)"
  using assms
  by (auto simp: wmi_query_def io_Ok wmi_call_def Let_def dest!: each_next_object_Ok split: option.splits)

lemma wmi_object_Ok:
  assumes "wmi_object path w = (Ok x, w')"
  shows "x \<in> set (cim_objects w)" and "path_of x = Some (CimString path)"
  using assms
  by (auto simp: wmi_object_def wmi_call_def Let_def ok_or_def find_Some_iff split: option.splits)

lemma update_instance_result:
  assumes "update_instance action x w = (r, w')"
  shows "cim_identity w' = cim_identity w"
    and "is_ok r \<Longrightarrow> cim_objects w' = map (\<lambda>y. if path_of y = path_of x then x else y) (cim_objects w)"
    and "\<not> is_ok r \<Longrightarrow> cim_objects w' = cim_objects w"
  using assms by (auto simp: update_instance_def wmi_call_def Let_def split: option.splits if_splits)

lemma create_instance_result:
  assumes "create_instance action name x w = (r, w')"
  shows "cim_identity w' = cim_identity w"
    and "is_ok r \<Longrightarrow> cim_objects w' = cim_objects w @
      [put_string ''__PATH'' (fst (cim_identity w name)) (put_string ''__RELPATH'' (snd (cim_identity w name)) x)]"
    and "is_ok r \<Longrightarrow> Some (CimString (fst (cim_identity w name))) \<notin> path_of ` set (cim_objects w)"
    and "\<not> is_ok r \<Longrightarrow> cim_objects w' = cim_objects w"
  using assms
  by (auto simp: create_instance_def wmi_call_def Let_def put_string_def path_of_def
      split: option.splits if_splits prod.splits)

lemma delete_instance_result:
  assumes "delete_instance action path w = (r, w')"
  shows "cim_identity w' = cim_identity w"
    and "is_ok r \<Longrightarrow> cim_objects w' = filter (\<lambda>y. path_of y \<noteq> Some (CimString path)) (cim_objects w)"
    and "\<not> is_ok r \<Longrightarrow> cim_objects w' = cim_objects w"
  using assms by (auto simp: delete_instance_def wmi_call_def Let_def split: option.splits if_splits)

text \<open>A mutation that fails leaves the objects as they are, and so does all before it.\<close>

definition fails_same :: "(cim, 'e, 'a) io \<Rightarrow> bool" where
  "fails_same m \<longleftrightarrow> (\<forall>w r w'. m w = (r, w') \<longrightarrow> \<not> is_ok r \<longrightarrow> same_objects w w')"

lemma fails_sameD: "fails_same m \<Longrightarrow> m w = (r, w') \<Longrightarrow> \<not> is_ok r \<Longrightarrow> same_objects w w'"
  by (auto simp: fails_same_def)

lemma fails_same_bind:
  assumes "io_within same_objects m" and "\<And>x. fails_same (f x)"
  shows "fails_same (io_bind m f)"
  unfolding fails_same_def
proof (intro allI impI)
  fix w r w' assume run: "io_bind m f w = (r, w')" and r: "\<not> is_ok r"
  obtain r1 w1 where m: "m w = (r1, w1)" by fastforce
  then have w1: "same_objects w w1" by (rule io_withinD [OF assms(1)])
  show "same_objects w w'"
  proof (cases r1)
    case (Ok x)
    then have "f x w1 = (r, w')" using run m by (simp add: io_bind_def)
    then show ?thesis using fails_sameD [OF assms(2) _ r] w1 same_objects_order(2) by (blast dest: transpD)
  next
    case (Err e)
    then show ?thesis using run m w1 by (simp add: io_bind_def)
  qed
qed

lemma fails_same_mutations:
  "fails_same (update_instance action x)" "fails_same (create_instance action name x)"
  "fails_same (delete_instance action path)"
  unfolding fails_same_def same_objects_def
  by (blast dest: update_instance_result create_instance_result delete_instance_result)+

end
