(* ===== verification/Pagefile_Store.thy ===== *)
theory Pagefile_Store
  imports Pagefile Wmi
begin

text \<open>
  The store of pagefile settings in the CIM repository (\<open>WmiStore\<close> of
  \<open>crates/frametime-windows/src/system/pagefile_native.rs\<close>), the native operations under the scoped
  privilege, and the steps of the live backend that use them.  The store keeps the promises of the
  locale \<open>pagefile_store\<close>, so its theorems hold of the native transaction.
\<close>

section \<open>The inventory\<close>

definition COMPUTER_CLASS :: string where "COMPUTER_CLASS = ''Win32_ComputerSystem''"
definition MEMORY_CLASS :: string where "MEMORY_CLASS = ''Win32_PhysicalMemory''"
definition OS_CLASS :: string where "OS_CLASS = ''Win32_OperatingSystem''"
definition LOGICAL_DISK_CLASS :: string where "LOGICAL_DISK_CLASS = ''Win32_LogicalDisk''"
definition PAGEFILE_CLASS :: string where "PAGEFILE_CLASS = ''Win32_PageFileSetting''"

lemmas class_defs = COMPUTER_CLASS_def MEMORY_CLASS_def OS_CLASS_def LOGICAL_DISK_CLASS_def PAGEFILE_CLASS_def

definition computer_of_rows :: "cim_object list \<Rightarrow> (bool \<times> string \<times> string, string) result" where
  "computer_of_rows rows =
     (case rows of
        [computer] \<Rightarrow>
          and_then (require_class COMPUTER_CLASS ''computer-system inventory'' computer) (\<lambda>_.
          and_then (cim_boolean ''AutomaticManagedPagefile'' computer) (\<lambda>automatic.
          and_then (cim_string ''__PATH'' computer) (\<lambda>object_path.
          and_then (cim_string ''__RELPATH'' computer) (\<lambda>relative_path.
          Ok (automatic, object_path, relative_path)))))
      | _ \<Rightarrow> Err ''Win32_ComputerSystem inventory is not exact'')"

fun sum_capacity :: "u64 \<Rightarrow> cim_object list \<Rightarrow> (u64, string) result" where
  "sum_capacity acc [] = Ok acc"
| "sum_capacity acc (item # items) =
     and_then (require_class MEMORY_CLASS ''physical-memory inventory'' item) (\<lambda>_.
     and_then (cim_uint64 ''Capacity'' item) (\<lambda>capacity.
     if uint acc + uint capacity < 2 ^ 64 then sum_capacity (acc + capacity) items
     else Err ''physical-memory capacity overflow''))"

definition ram_of_rows :: "cim_object list \<Rightarrow> (u64, string) result" where
  "ram_of_rows rows =
     (if rows = [] then Err ''Win32_PhysicalMemory inventory is empty''
      else
        and_then (sum_capacity 0 rows) (\<lambda>bytes.
        if bytes = 0 then Err ''physical-memory capacity is zero'' else Ok (bytes div (1024 * 1024))))"

definition drive_of_rows :: "cim_object list \<Rightarrow> (string, string) result" where
  "drive_of_rows rows =
     (case rows of
        [os] \<Rightarrow>
          and_then (require_class OS_CLASS ''operating-system inventory'' os) (\<lambda>_. cim_string ''SystemDrive'' os)
      | _ \<Rightarrow> Err ''Win32_OperatingSystem inventory is not exact'')"

fun system_drive_disks :: "string \<Rightarrow> cim_object list \<Rightarrow> (cim_object list, string) result" where
  "system_drive_disks drive [] = Ok []"
| "system_drive_disks drive (disk # disks) =
     and_then (require_class LOGICAL_DISK_CLASS ''logical-disk inventory'' disk) (\<lambda>_.
     and_then (cim_string ''DeviceID'' disk) (\<lambda>device.
     and_then (system_drive_disks drive disks) (\<lambda>found.
     Ok (if eq_ignore_ascii_case device drive then disk # found else found))))"

definition free_space_of_rows :: "string \<Rightarrow> cim_object list \<Rightarrow> (u64, string) result" where
  "free_space_of_rows drive rows =
     and_then (system_drive_disks drive rows) (\<lambda>found.
     case found of
       [disk] \<Rightarrow> and_then (cim_uint64 ''FreeSpace'' disk) (\<lambda>bytes. Ok (bytes div (1024 * 1024)))
     | _ \<Rightarrow> Err ''system-drive logical-disk inventory is absent or ambiguous'')"

definition setting_of_object :: "cim_object \<Rightarrow> (pagefile_setting, string) result" where
  "setting_of_object item =
     and_then (require_class PAGEFILE_CLASS ''pagefile inventory'' item) (\<lambda>_.
     and_then (cim_string ''Name'' item) (\<lambda>path.
     and_then (cim_uint32 ''InitialSize'' item) (\<lambda>initial.
     and_then (cim_uint32 ''MaximumSize'' item) (\<lambda>maximum.
     and_then (cim_string ''__PATH'' item) (\<lambda>object_path.
     and_then (cim_string ''__RELPATH'' item) (\<lambda>relative_path.
     Ok \<lparr>ps_path = path, ps_initial_size = initial, ps_maximum_size = maximum,
          ps_object_path = object_path, ps_relative_path = relative_path\<rparr>))))))"

definition wmi_inventory :: "(cim, string, pagefile_inventory) io" where
  "wmi_inventory =
     io_bind (wmi_query COMPUTER_CLASS) (\<lambda>computers.
     io_bind (io_check (computer_of_rows computers)) (\<lambda>(automatic, object_path, relative_path).
     io_bind (wmi_query MEMORY_CLASS) (\<lambda>memory.
     io_bind (io_check (ram_of_rows memory)) (\<lambda>ram.
     io_bind (wmi_query OS_CLASS) (\<lambda>os.
     io_bind (io_check (drive_of_rows os)) (\<lambda>drive.
     io_bind (wmi_query LOGICAL_DISK_CLASS) (\<lambda>disks.
     io_bind (io_check (free_space_of_rows drive disks)) (\<lambda>free_space.
     io_bind (wmi_query PAGEFILE_CLASS) (\<lambda>rows.
     io_bind (io_check (collect_results setting_of_object rows)) (\<lambda>settings.
     io_ret \<lparr>automatic_managed = automatic, computer_object_path = object_path,
             computer_relative_path = relative_path, system_drive = drive, physical_ram_mb = ram,
             free_space_mb = free_space, pi_settings = settings\<rparr>))))))))))"

section \<open>Exact objects and the store\<close>

definition is_value :: "'a \<Rightarrow> ('a, string) result \<Rightarrow> (bool, string) result" where
  "is_value v r = and_then r (\<lambda>x. Ok (x = v))"

text \<open>A chain of \<open>read? == value\<close>: the first difference ends it, a failed read is an error.\<close>

fun all_values :: "(unit \<Rightarrow> (bool, string) result) list \<Rightarrow> (bool, string) result" where
  "all_values [] = Ok True"
| "all_values (c # cs) = and_then (c ()) (\<lambda>b. if b then all_values cs else Ok False)"

definition exact_pagefile :: "pagefile_setting \<Rightarrow> (cim, string, cim_object) io" where
  "exact_pagefile s =
     io_bind (wmi_object (ps_object_path s)) (\<lambda>item.
     io_bind (io_check (all_values
       [\<lambda>_. is_value PAGEFILE_CLASS (cim_string ''__CLASS'' item),
        \<lambda>_. is_value (ps_object_path s) (cim_string ''__PATH'' item),
        \<lambda>_. is_value (ps_relative_path s) (cim_string ''__RELPATH'' item),
        \<lambda>_. is_value (ps_path s) (cim_string ''Name'' item),
        \<lambda>_. is_value (ps_initial_size s) (cim_uint32 ''InitialSize'' item),
        \<lambda>_. is_value (ps_maximum_size s) (cim_uint32 ''MaximumSize'' item)])) (\<lambda>exact.
     if exact then io_ret item
     else io_fail ''exact pagefile token no longer resolves to its captured class, identity, or values''))"

definition exact_computer :: "string \<Rightarrow> string \<Rightarrow> bool option \<Rightarrow> (cim, string, cim_object) io" where
  "exact_computer object_path relative_path expected =
     io_bind (wmi_object object_path) (\<lambda>item.
     let has_expected_value = (case expected of
           None \<Rightarrow> True
         | Some v \<Rightarrow> cim_boolean ''AutomaticManagedPagefile'' item = Ok v) in
     io_bind (io_check (all_values
       [\<lambda>_. is_value COMPUTER_CLASS (cim_string ''__CLASS'' item),
        \<lambda>_. is_value object_path (cim_string ''__PATH'' item),
        \<lambda>_. is_value relative_path (cim_string ''__RELPATH'' item),
        \<lambda>_. Ok has_expected_value])) (\<lambda>exact.
     if exact then io_ret item
     else io_fail ''exact computer-system token no longer resolves to its captured identity or value''))"

definition wmi_set_automatic :: "string \<Rightarrow> string \<Rightarrow> bool option \<Rightarrow> bool \<Rightarrow> (cim, string, unit) io" where
  "wmi_set_automatic object_path relative_path expected v =
     io_bind (exact_computer object_path relative_path expected) (\<lambda>item.
     update_instance ''UPDATE_ONLY AutomaticManagedPagefile: '' (put_bool ''AutomaticManagedPagefile'' v item))"

definition put_sizes :: "u32 \<Rightarrow> u32 \<Rightarrow> cim_object \<Rightarrow> (cim_object, string) result" where
  "put_sizes initial maximum item =
     and_then (put_uint32 ''InitialSize'' initial item) (put_uint32 ''MaximumSize'' maximum)"

definition wmi_update :: "pagefile_setting \<Rightarrow> u32 \<Rightarrow> u32 \<Rightarrow> (cim, string, unit) io" where
  "wmi_update s initial maximum =
     io_bind (exact_pagefile s) (\<lambda>item.
     io_bind (io_check (put_sizes initial maximum item)) (\<lambda>item'.
     update_instance ''UPDATE_ONLY pagefile: '' item'))"

definition the_created :: "string \<Rightarrow> pagefile_setting list \<Rightarrow> (created_pagefile_token, string) result" where
  "the_created path settings =
     (case filter (\<lambda>x. eq_ignore_ascii_case (ps_path x) path) settings of
        [created] \<Rightarrow>
          Ok \<lparr>ct_object_path = ps_object_path created, ct_relative_path = ps_relative_path created,
              ct_path = ps_path created, ct_initial_size = ps_initial_size created,
              ct_maximum_size = ps_maximum_size created\<rparr>
      | _ \<Rightarrow> Err ''CREATE_ONLY pagefile did not produce one exact instance'')"

definition wmi_create :: "string \<Rightarrow> u32 \<Rightarrow> u32 \<Rightarrow> (cim, string, created_pagefile_token) io" where
  "wmi_create path initial maximum =
     io_bind (wmi_call ''resolve exact WMI object: '' (io_ret ())) (\<lambda>_.
     io_bind (wmi_call ''spawn pagefile setting: ''
       (io_ret (put_string ''__CLASS'' PAGEFILE_CLASS fmempty))) (\<lambda>item.
     io_bind (io_check (put_sizes initial maximum (put_string ''Name'' path item))) (\<lambda>item'.
     io_bind (create_instance ''CREATE_ONLY pagefile: '' path item') (\<lambda>_.
     io_bind wmi_inventory (\<lambda>inventory. io_check (the_created path (pi_settings inventory)))))))"

definition wmi_delete :: "created_pagefile_token \<Rightarrow> (cim, string, unit) io" where
  "wmi_delete created =
     io_bind (exact_pagefile (setting_of_token created)) (\<lambda>_.
     delete_instance ''delete exact created pagefile: '' (ct_object_path created))"

definition wmi_pagefile_store :: "cim pagefile_store" where
  "wmi_pagefile_store =
     \<lparr>pf_inventory = wmi_inventory, pf_set_automatic = wmi_set_automatic, pf_update = wmi_update,
      pf_create = wmi_create, pf_delete = wmi_delete\<rparr>"


section \<open>The store keeps the promises\<close>

definition cim_inventory :: "cim_object list \<Rightarrow> (pagefile_inventory, string) result" where
  "cim_inventory xs =
     and_then (computer_of_rows (instances_of COMPUTER_CLASS xs)) (\<lambda>(automatic, object_path, relative_path).
     and_then (ram_of_rows (instances_of MEMORY_CLASS xs)) (\<lambda>ram.
     and_then (drive_of_rows (instances_of OS_CLASS xs)) (\<lambda>drive.
     and_then (free_space_of_rows drive (instances_of LOGICAL_DISK_CLASS xs)) (\<lambda>free_space.
     and_then (collect_results setting_of_object (instances_of PAGEFILE_CLASS xs)) (\<lambda>settings.
     Ok \<lparr>automatic_managed = automatic, computer_object_path = object_path,
         computer_relative_path = relative_path, system_drive = drive, physical_ram_mb = ram,
         free_space_mb = free_space, pi_settings = settings\<rparr>)))))"

text \<open>
  The worlds of the theorems: the repository has a complete inventory, and no two of its instances
  have the same path.
\<close>

definition sound_repository :: "cim \<Rightarrow> bool" where
  "sound_repository w \<longleftrightarrow> is_ok (cim_inventory (cim_objects w)) \<and> distinct (map path_of (cim_objects w))"

definition pagefiles_of :: "cim \<Rightarrow> pagefile_inventory" where
  "pagefiles_of w =
     (case cim_inventory (cim_objects w) of
        Ok i \<Rightarrow> i
      | Err e \<Rightarrow> \<lparr>automatic_managed = False, computer_object_path = [], computer_relative_path = [],
          system_drive = [], physical_ram_mb = 0, free_space_mb = 0, pi_settings = []\<rparr>)"

lemma pagefiles_of_Ok: "cim_inventory (cim_objects w) = Ok i \<Longrightarrow> pagefiles_of w = i"
  by (simp add: pagefiles_of_def)

lemma sound_repositoryE:
  assumes "sound_repository w"
  obtains "cim_inventory (cim_objects w) = Ok (pagefiles_of w)" and "distinct (map path_of (cim_objects w))"
  using assms that by (auto simp: sound_repository_def is_ok_iff pagefiles_of_def)

lemma sound_same: "same_objects w w' \<Longrightarrow> sound_repository w' = sound_repository w \<and> pagefiles_of w' = pagefiles_of w"
  by (simp add: same_objects_def sound_repository_def pagefiles_of_def)

lemma wmi_inventory_same [io_within_intros]: "io_within same_objects wmi_inventory"
  unfolding wmi_inventory_def by (auto intro!: io_within_intros split: prod.splits)

lemma exact_pagefile_same [io_within_intros]: "io_within same_objects (exact_pagefile s)"
  unfolding exact_pagefile_def by (auto intro!: io_within_intros)

lemma exact_computer_same [io_within_intros]: "io_within same_objects (exact_computer p q e)"
  unfolding exact_computer_def Let_def by (auto intro!: io_within_intros)

lemma wmi_query_objects:
  assumes "wmi_query c w = (Ok rows, w')"
  shows "rows = instances_of c (cim_objects w) \<and> cim_objects w' = cim_objects w"
  using wmi_query_Ok [OF assms] io_withinD [OF wmi_query_same assms] by (auto simp: same_objects_def)

lemma wmi_inventory_Ok:
  assumes "wmi_inventory w = (Ok i, w')"
  shows "cim_inventory (cim_objects w) = Ok i"
  using assms
  by (auto simp: wmi_inventory_def cim_inventory_def io_Ok split: prod.splits dest!: wmi_query_objects)

lemma collect_results_Ok:
  "collect_results f xs = Ok ys \<longleftrightarrow> list_all2 (\<lambda>x y. f x = Ok y) xs ys"
  by (induction xs arbitrary: ys) (auto simp: guard_simps list_all2_Cons1)

lemma cim_string_Ok: "cim_string n x = Ok s \<longleftrightarrow> fmlookup x n = Some (CimString s)"
  by (auto simp: cim_string_def cim_get_def ok_or_def guard_simps split: option.splits cim_value.splits)

lemma cim_uint32_Ok: "cim_uint32 n x = Ok m \<longleftrightarrow> fmlookup x n = Some (CimUint32 m) \<and> 0 \<le> sint m"
  by (auto simp: cim_uint32_def cim_get_def ok_or_def guard_simps split: option.splits cim_value.splits)

lemma require_class_Ok: "require_class c scope x = Ok u \<longleftrightarrow> class_of x = Some (CimString c)"
  by (auto simp: require_class_def class_of_def guard_simps cim_string_Ok)

lemma setting_of_object_Ok:
  "setting_of_object x = Ok s \<longleftrightarrow>
     class_of x = Some (CimString PAGEFILE_CLASS) \<and> fmlookup x ''Name'' = Some (CimString (ps_path s))
     \<and> fmlookup x ''InitialSize'' = Some (CimUint32 (ps_initial_size s)) \<and> 0 \<le> sint (ps_initial_size s)
     \<and> fmlookup x ''MaximumSize'' = Some (CimUint32 (ps_maximum_size s)) \<and> 0 \<le> sint (ps_maximum_size s)
     \<and> path_of x = Some (CimString (ps_object_path s))
     \<and> fmlookup x ''__RELPATH'' = Some (CimString (ps_relative_path s))"
  by (cases s) (auto simp: setting_of_object_def guard_simps require_class_Ok cim_string_Ok cim_uint32_Ok path_of_def)

lemma is_value_Ok: "is_value v r = Ok b \<longleftrightarrow> (\<exists>x. r = Ok x \<and> b = (x = v))"
  by (auto simp: is_value_def guard_simps)

lemma exact_pagefile_Ok:
  assumes "exact_pagefile s w = (Ok item, w')"
  shows "item \<in> set (cim_objects w)" and "setting_of_object item = Ok s" and "same_objects w w'"
proof -
  obtain w1 where "wmi_object (ps_object_path s) w = (Ok item, w1)"
    using assms by (auto simp: exact_pagefile_def io_Ok split: if_splits)
  then show "item \<in> set (cim_objects w)" by (rule wmi_object_Ok)
  show "setting_of_object item = Ok s"
    using assms unfolding setting_of_object_Ok
    by (auto simp: exact_pagefile_def io_Ok guard_simps is_value_Ok cim_string_Ok cim_uint32_Ok class_of_def path_of_def
        split: if_splits)
  show "same_objects w w'" by (rule io_withinD [OF exact_pagefile_same assms])
qed

lemma exact_computer_Ok:
  assumes "exact_computer p q expected w = (Ok item, w')"
  shows "item \<in> set (cim_objects w)" and "class_of item = Some (CimString COMPUTER_CLASS)"
    and "path_of item = Some (CimString p)" and "same_objects w w'"
proof -
  obtain w1 where "wmi_object p w = (Ok item, w1)"
    using assms by (auto simp: exact_computer_def io_Ok Let_def split: if_splits)
  then show "item \<in> set (cim_objects w)" "path_of item = Some (CimString p)" by (rule wmi_object_Ok)+
  show "class_of item = Some (CimString COMPUTER_CLASS)"
    using assms by (auto simp: exact_computer_def io_Ok Let_def guard_simps is_value_Ok cim_string_Ok class_of_def
        split: if_splits)
  show "same_objects w w'" by (rule io_withinD [OF exact_computer_same assms])
qed

section \<open>Updating one instance\<close>

definition edit :: "cim_value option \<Rightarrow> (cim_object \<Rightarrow> cim_object) \<Rightarrow> cim_object \<Rightarrow> cim_object" where
  "edit p g x = (if path_of x = p then g x else x)"

definition keeps_identity :: "(cim_object \<Rightarrow> cim_object) \<Rightarrow> bool" where
  "keeps_identity g \<longleftrightarrow> (\<forall>x. class_of (g x) = class_of x \<and> path_of (g x) = path_of x)"

lemma update_is_edit:
  assumes "distinct (map path_of xs)" and "item \<in> set xs" and "keeps_identity g"
  shows "map (\<lambda>y. if path_of y = path_of (g item) then g item else y) xs = map (edit (path_of item) g) xs"
proof (rule map_cong [OF refl])
  fix y assume "y \<in> set xs"
  then show "(if path_of y = path_of (g item) then g item else y) = edit (path_of item) g y"
    using assms by (auto simp: edit_def keeps_identity_def distinct_map dest: inj_onD)
qed

lemma edit_identity: "keeps_identity g \<Longrightarrow> class_of (edit p g x) = class_of x \<and> path_of (edit p g x) = path_of x"
  by (simp add: edit_def keeps_identity_def)

lemma instances_of_edit:
  "keeps_identity g \<Longrightarrow> instances_of c (map (edit p g) xs) = map (edit p g) (instances_of c xs)"
  by (simp add: instances_of_def filter_map o_def edit_identity)

lemma instances_of_edit_other:
  assumes "keeps_identity g" and "distinct (map path_of xs)" and "item \<in> set xs"
    and "class_of item \<noteq> Some (CimString c)"
  shows "instances_of c (map (edit (path_of item) g) xs) = instances_of c xs"
  unfolding instances_of_edit [OF assms(1)]
proof (rule map_idI)
  fix y assume "y \<in> set (instances_of c xs)"
  then have "y \<in> set xs" and "y \<noteq> item" using assms(4) by (auto simp: instances_of_def)
  then have "path_of y \<noteq> path_of item" using assms(2,3) by (auto simp: distinct_map dest: inj_onD)
  then show "edit (path_of item) g y = y" by (simp add: edit_def)
qed

lemma paths_of_edit: "keeps_identity g \<Longrightarrow> map path_of (map (edit p g) xs) = map path_of xs"
  by (simp add: edit_identity)

lemma keeps_identity_put:
  "n \<noteq> ''__CLASS'' \<Longrightarrow> n \<noteq> ''__PATH'' \<Longrightarrow> keeps_identity (fmupd n v)"
  by (simp add: keeps_identity_def class_of_def path_of_def)

lemma keeps_identity_comp: "keeps_identity f \<Longrightarrow> keeps_identity g \<Longrightarrow> keeps_identity (\<lambda>x. f (g x))"
  by (simp add: keeps_identity_def)


section \<open>The laws\<close>

lemma cim_inventory_rows:
  assumes "cim_inventory xs = Ok i"
  shows "collect_results setting_of_object (instances_of PAGEFILE_CLASS xs) = Ok (pi_settings i)"
    and "computer_of_rows (instances_of COMPUTER_CLASS xs) =
      Ok (automatic_managed i, computer_object_path i, computer_relative_path i)"
  using assms by (auto simp: cim_inventory_def guard_simps)

lemma settings_distinct:
  assumes "sound_repository w"
  shows "distinct (map ps_object_path (pi_settings (pagefiles_of w)))"
proof -
  obtain i: "cim_inventory (cim_objects w) = Ok (pagefiles_of w)" and d: "distinct (map path_of (cim_objects w))"
    using assms by (rule sound_repositoryE)
  let ?rows = "instances_of PAGEFILE_CLASS (cim_objects w)"
  have r: "list_all2 (\<lambda>x s. setting_of_object x = Ok s) ?rows (pi_settings (pagefiles_of w))"
    using cim_inventory_rows(1) [OF i] by (simp add: collect_results_Ok)
  then have "map path_of ?rows = map (\<lambda>s. Some (CimString (ps_object_path s))) (pi_settings (pagefiles_of w))"
    by (induction rule: list_all2_induct) (simp_all add: setting_of_object_Ok)
  moreover have "distinct (map path_of ?rows)"
    using d by (simp add: instances_of_def distinct_map_filter)
  ultimately have "distinct (map (\<lambda>s. Some (CimString (ps_object_path s))) (pi_settings (pagefiles_of w)))" by simp
  then show ?thesis by (auto simp: distinct_map inj_on_def)
qed

text \<open>How an inventory depends on the rows of its classes.\<close>

lemma cim_inventory_computer:
  assumes "cim_inventory xs = Ok i" and "computer_of_rows (instances_of COMPUTER_CLASS ys) =
      Ok (v, computer_object_path i, computer_relative_path i)"
    and "\<And>c. c \<noteq> COMPUTER_CLASS \<Longrightarrow> instances_of c ys = instances_of c xs"
  shows "cim_inventory ys = Ok (i\<lparr>automatic_managed := v\<rparr>)"
  using assms(1,2) assms(3) [of MEMORY_CLASS] assms(3) [of OS_CLASS] assms(3) [of LOGICAL_DISK_CLASS]
    assms(3) [of PAGEFILE_CLASS]
  by (auto simp: cim_inventory_def guard_simps class_defs)

lemma cim_inventory_settings:
  assumes "cim_inventory xs = Ok i" and "collect_results setting_of_object (instances_of PAGEFILE_CLASS ys) = Ok ss"
    and "\<And>c. c \<noteq> PAGEFILE_CLASS \<Longrightarrow> instances_of c ys = instances_of c xs"
  shows "cim_inventory ys = Ok (i\<lparr>pi_settings := ss\<rparr>)"
  using assms(1,2) assms(3) [of MEMORY_CLASS] assms(3) [of OS_CLASS] assms(3) [of LOGICAL_DISK_CLASS]
    assms(3) [of COMPUTER_CLASS]
  by (auto simp: cim_inventory_def guard_simps class_defs)

lemma computer_of_rows_Ok:
  "computer_of_rows rows = Ok (v, p, q) \<longleftrightarrow>
     (\<exists>x. rows = [x] \<and> class_of x = Some (CimString COMPUTER_CLASS) \<and> cim_boolean ''AutomaticManagedPagefile'' x = Ok v
        \<and> fmlookup x ''__PATH'' = Some (CimString p) \<and> fmlookup x ''__RELPATH'' = Some (CimString q))"
  by (auto simp: computer_of_rows_def guard_simps require_class_Ok cim_string_Ok split: list.splits)

lemma cim_boolean_put: "cim_boolean n (put_bool n v x) = Ok v"
  by (simp add: cim_boolean_def cim_get_def ok_or_def put_bool_def)

lemma sound_after:
  assumes "cim_inventory (cim_objects w') = Ok i" and "distinct (map path_of (cim_objects w'))"
  shows "sound_repository w' \<and> pagefiles_of w' = i"
  using assms by (simp add: sound_repository_def pagefiles_of_def)

lemma wmi_set_automatic_law:
  assumes "sound_repository w" and "wmi_set_automatic p q expected v w = (r, w')"
  shows "sound_repository w' \<and>
     pagefiles_of w' = (if is_ok r then (pagefiles_of w)\<lparr>automatic_managed := v\<rparr> else pagefiles_of w)"
proof (cases "is_ok r")
  case False
  have "fails_same (wmi_set_automatic p q expected v)"
    unfolding wmi_set_automatic_def by (intro fails_same_bind exact_computer_same fails_same_mutations)
  then have "same_objects w w'" using assms(2) False by (rule fails_sameD)
  then show ?thesis using sound_same assms(1) False by simp
next
  case True
  let ?n = "''AutomaticManagedPagefile''"
  obtain item w1 where e: "exact_computer p q expected w = (Ok item, w1)"
    and u: "update_instance ''UPDATE_ONLY AutomaticManagedPagefile: '' (put_bool ?n v item) w1 = (r, w')"
    using assms(2) True by (auto simp: wmi_set_automatic_def io_bind_def split: prod.splits result.splits)
  note item = exact_computer_Ok [OF e]
  obtain i: "cim_inventory (cim_objects w) = Ok (pagefiles_of w)" and d: "distinct (map path_of (cim_objects w))"
    using assms(1) by (rule sound_repositoryE)
  have k: "keeps_identity (put_bool ?n v)" unfolding put_bool_def by (rule keeps_identity_put) simp_all
  have objects: "cim_objects w' = map (edit (path_of item) (put_bool ?n v)) (cim_objects w)"
    using update_instance_result(2) [OF u True] update_is_edit [OF d item(1) k] item(4)
    by (simp add: same_objects_def)
  obtain x where x: "instances_of COMPUTER_CLASS (cim_objects w) = [x]"
    using cim_inventory_rows(2) [OF i] by (auto simp: computer_of_rows_Ok)
  moreover have "item \<in> set (instances_of COMPUTER_CLASS (cim_objects w))"
    using item(1,2) by (simp add: instances_of_def)
  ultimately have "x = item" by simp
  then have "instances_of COMPUTER_CLASS (cim_objects w') = [put_bool ?n v item]"
    using x by (simp add: objects instances_of_edit [OF k] edit_def)
  moreover have "instances_of c (cim_objects w') = instances_of c (cim_objects w)" if "c \<noteq> COMPUTER_CLASS" for c
    unfolding objects using that item(2) by (intro instances_of_edit_other [OF k d item(1)]) simp
  ultimately have "cim_inventory (cim_objects w') = Ok ((pagefiles_of w)\<lparr>automatic_managed := v\<rparr>)"
    using cim_inventory_rows(2) [OF i] x \<open>x = item\<close>
    by (intro cim_inventory_computer [OF i])
      (auto simp: computer_of_rows_Ok cim_boolean_put put_bool_def class_of_def cim_boolean_def cim_get_def ok_or_def)
  then have "sound_repository w' \<and> pagefiles_of w' = (pagefiles_of w)\<lparr>automatic_managed := v\<rparr>"
    by (rule sound_after) (use d k in \<open>simp only: objects paths_of_edit\<close>)
  then show ?thesis using True by simp
qed


text \<open>Every store of the pagefile rows by one function on them.\<close>

lemma settings_after_edit:
  assumes "collect_results setting_of_object rows = Ok ss"
    and "\<And>x y. x \<in> set rows \<Longrightarrow> setting_of_object x = Ok y \<Longrightarrow> setting_of_object (g x) = Ok (h y)"
  shows "collect_results setting_of_object (map g rows) = Ok (map h ss)"
  using assms unfolding collect_results_Ok by (induction rows arbitrary: ss) (auto simp: list_all2_Cons1)

lemma setting_in_inventory:
  assumes "sound_repository w" and "item \<in> set (cim_objects w)" and "setting_of_object item = Ok s"
  shows "s \<in> set (pi_settings (pagefiles_of w))"
proof -
  obtain i: "cim_inventory (cim_objects w) = Ok (pagefiles_of w)" using assms(1) by (rule sound_repositoryE)
  have "item \<in> set (instances_of PAGEFILE_CLASS (cim_objects w))"
    using assms(2,3) by (simp add: instances_of_def setting_of_object_Ok)
  moreover note cim_inventory_rows(1) [OF i]
  ultimately show ?thesis
    using assms(3) unfolding collect_results_Ok by (auto simp: list_all2_conv_all_nth in_set_conv_nth)
qed

lemma put_sizes_Ok:
  "put_sizes i m x = Ok y \<longleftrightarrow>
     uint i < 2 ^ 31 \<and> uint m < 2 ^ 31 \<and> y = fmupd ''MaximumSize'' (CimUint32 m) (fmupd ''InitialSize'' (CimUint32 i) x)"
  by (auto simp: put_sizes_def put_uint32_def guard_simps)

lemma sint_small: "uint (n :: u32) < 2 ^ 31 \<Longrightarrow> 0 \<le> sint n"
  by (simp add: sint_uint signed_take_bit_eq_take_bit_minus take_bit_int_eq_self bit_iff_odd)

lemma wmi_update_law:
  assumes "sound_repository w" and "wmi_update s n m w = (r, w')"
  shows "sound_repository w' \<and> (if is_ok r then s \<in> set (pi_settings (pagefiles_of w))
      \<and> pagefiles_of w' = (pagefiles_of w)\<lparr>pi_settings := map (resize s n m) (pi_settings (pagefiles_of w))\<rparr>
    else pagefiles_of w' = pagefiles_of w)"
proof (cases "is_ok r")
  case False
  have "fails_same (wmi_update s n m)"
    unfolding wmi_update_def by (intro fails_same_bind exact_pagefile_same fails_same_mutations io_within_intros)
  then have "same_objects w w'" using assms(2) False by (rule fails_sameD)
  then show ?thesis using sound_same assms(1) False by simp
next
  case True
  define g where "g = (\<lambda>x. fmupd ''MaximumSize'' (CimUint32 m) (fmupd ''InitialSize'' (CimUint32 n) x))"
  obtain item w1 where e: "exact_pagefile s w = (Ok item, w1)" and range: "uint n < 2 ^ 31" "uint m < 2 ^ 31"
    and u: "update_instance ''UPDATE_ONLY pagefile: '' (g item) w1 = (r, w')"
  proof -
    obtain v where "r = Ok v" using True by (auto simp: is_ok_iff)
    with assms(2) have "wmi_update s n m w = (Ok v, w')" by simp
    then obtain item item' w1 where "exact_pagefile s w = (Ok item, w1)" "put_sizes n m item = Ok item'"
      "update_instance ''UPDATE_ONLY pagefile: '' item' w1 = (Ok v, w')" by (auto simp: wmi_update_def io_Ok)
    then show ?thesis using that \<open>r = Ok v\<close> by (auto simp: put_sizes_Ok g_def)
  qed
  note item = exact_pagefile_Ok [OF e]
  obtain i: "cim_inventory (cim_objects w) = Ok (pagefiles_of w)" and d: "distinct (map path_of (cim_objects w))"
    using assms(1) by (rule sound_repositoryE)
  have k: "keeps_identity g" unfolding g_def
    by (rule keeps_identity_comp [OF keeps_identity_put keeps_identity_put]) simp_all
  have objects: "cim_objects w' = map (edit (path_of item) g) (cim_objects w)"
    using update_instance_result(2) [OF u True] update_is_edit [OF d item(1) k] item(3)
    by (simp add: same_objects_def)
  have path: "path_of item = Some (CimString (ps_object_path s))"
    and c: "class_of item = Some (CimString PAGEFILE_CLASS)"
    using item(2) by (simp_all add: setting_of_object_Ok)
  have "collect_results setting_of_object (map (edit (path_of item) g) (instances_of PAGEFILE_CLASS (cim_objects w)))
      = Ok (map (resize s n m) (pi_settings (pagefiles_of w)))"
  proof (rule settings_after_edit [OF cim_inventory_rows(1) [OF i]])
    fix x y assume "setting_of_object x = Ok y"
    then show "setting_of_object (edit (path_of item) g x) = Ok (resize s n m y)"
      using range path by (auto simp: edit_def resize_def g_def setting_of_object_Ok class_of_def path_of_def sint_small)
  qed
  then have "cim_inventory (cim_objects w') =
      Ok ((pagefiles_of w)\<lparr>pi_settings := map (resize s n m) (pi_settings (pagefiles_of w))\<rparr>)"
    using c instances_of_edit_other [OF k d item(1)]
    by (intro cim_inventory_settings [OF i]) (simp_all add: objects instances_of_edit [OF k])
  then have "sound_repository w' \<and>
      pagefiles_of w' = (pagefiles_of w)\<lparr>pi_settings := map (resize s n m) (pi_settings (pagefiles_of w))\<rparr>"
    by (rule sound_after) (use d k in \<open>simp only: objects paths_of_edit\<close>)
  then show ?thesis using True setting_in_inventory [OF assms(1) item(1,2)] by simp
qed

lemma wmi_inventory_law:
  assumes "sound_repository w" and "wmi_inventory w = (found, w')"
  shows "sound_repository w' \<and> pagefiles_of w' = pagefiles_of w \<and> (\<forall>i. found = Ok i \<longrightarrow> i = pagefiles_of w)"
  using sound_same [OF io_withinD [OF wmi_inventory_same assms(2)]] assms wmi_inventory_Ok pagefiles_of_Ok by blast

lemma instances_of_append: "instances_of c (xs @ ys) = instances_of c xs @ instances_of c ys"
  by (simp add: instances_of_def)

lemma collect_results_append:
  "collect_results f xs = Ok us \<Longrightarrow> collect_results f ys = Ok vs \<Longrightarrow> collect_results f (xs @ ys) = Ok (us @ vs)"
  unfolding collect_results_Ok by (rule list_all2_appendI)

text \<open>The effect of the creation itself, before the inventory is read back.\<close>

lemma create_instance_law:
  assumes "sound_repository w" and "uint n < 2 ^ 31" and "uint m < 2 ^ 31"
    and item: "item = fmupd ''MaximumSize'' (CimUint32 m) (fmupd ''InitialSize'' (CimUint32 n)
      (put_string ''Name'' path (put_string ''__CLASS'' PAGEFILE_CLASS fmempty)))"
    and run: "create_instance action path item w = (Ok u, w')"
  shows "\<exists>x. ps_path x = path \<and> sound_repository w'
     \<and> pagefiles_of w' = (pagefiles_of w)\<lparr>pi_settings := pi_settings (pagefiles_of w) @ [x]\<rparr>"
proof -
  obtain i: "cim_inventory (cim_objects w) = Ok (pagefiles_of w)" and d: "distinct (map path_of (cim_objects w))"
    using assms(1) by (rule sound_repositoryE)
  obtain p q where id: "cim_identity w path = (p, q)" by fastforce
  define y where "y = put_string ''__PATH'' p (put_string ''__RELPATH'' q item)"
  define x where "x = \<lparr>ps_path = path, ps_initial_size = n, ps_maximum_size = m,
    ps_object_path = p, ps_relative_path = q\<rparr>"
  have objects: "cim_objects w' = cim_objects w @ [y]" and fresh: "Some (CimString p) \<notin> path_of ` set (cim_objects w)"
    using create_instance_result(2,3) [OF run] id by (simp_all add: y_def)
  have y: "setting_of_object y = Ok x"
    using assms(2,3) by (simp add: setting_of_object_Ok y_def x_def item put_string_def class_of_def path_of_def sint_small)
  then have "class_of y = Some (CimString PAGEFILE_CLASS)" "path_of y = Some (CimString p)"
    by (simp_all add: setting_of_object_Ok x_def)
  then have "cim_inventory (cim_objects w') = Ok ((pagefiles_of w)\<lparr>pi_settings := pi_settings (pagefiles_of w) @ [x]\<rparr>)"
    using y by (intro cim_inventory_settings [OF i])
      (auto simp: objects instances_of_append instances_of_def [of _ "[y]"]
        intro!: collect_results_append [OF cim_inventory_rows(1) [OF i]])
  moreover have "distinct (map path_of (cim_objects w'))"
    using d fresh \<open>path_of y = _\<close> by (simp add: objects)
  ultimately show ?thesis using sound_after by (intro exI [of _ x]) (simp add: x_def)
qed


lemma the_created_Ok:
  "the_created path ss = Ok c \<longleftrightarrow> filter (\<lambda>x. eq_ignore_ascii_case (ps_path x) path) ss = [setting_of_token c]"
  by (cases c) (auto simp: the_created_def setting_of_token_def split: list.splits)

lemma wmi_create_Ok:
  assumes "sound_repository w" and "wmi_create path n m w = (token, w')"
  shows "sound_repository w' \<and> (pagefiles_of w' = pagefiles_of w \<and> \<not> is_ok token
    \<or> (\<exists>x. eq_ignore_ascii_case (ps_path x) path
         \<and> pagefiles_of w' = (pagefiles_of w)\<lparr>pi_settings := pi_settings (pagefiles_of w) @ [x]\<rparr>
         \<and> (\<forall>c. token = Ok c \<longrightarrow> setting_of_token c = x)))"
proof -
  define tail where "tail = (\<lambda>_ :: unit. io_bind wmi_inventory (\<lambda>inventory. io_check (the_created path (pi_settings inventory))))"
  define before where "before = io_bind (wmi_call ''resolve exact WMI object: '' (io_ret ())) (\<lambda>_.
     io_bind (wmi_call ''spawn pagefile setting: ''
       (io_ret (put_string ''__CLASS'' PAGEFILE_CLASS fmempty))) (\<lambda>item.
     io_check (put_sizes n m (put_string ''Name'' path item))))"
  have run: "wmi_create path n m w =
      io_bind before (\<lambda>item'. io_bind (create_instance ''CREATE_ONLY pagefile: '' path item') tail) w"
    by (simp add: wmi_create_def before_def tail_def io_bind_def split: prod.split result.split)
  have tail_same: "io_within same_objects (tail u)" for u
    unfolding tail_def by (intro io_within_intros)
  have before_same: "io_within same_objects before"
    unfolding before_def by (intro io_within_intros)
  obtain r1 w1 where b: "before w = (r1, w1)" by fastforce
  note w1 = sound_same [OF io_withinD [OF before_same b]]
  show ?thesis
  proof (cases r1)
    case (Err e)
    then have "token = Err e" "w' = w1" using assms(2) b by (simp_all add: run io_bind_def)
    then show ?thesis using w1 assms(1) by simp
  next
    case (Ok item')
    have item': "item' = fmupd ''MaximumSize'' (CimUint32 m) (fmupd ''InitialSize'' (CimUint32 n)
        (put_string ''Name'' path (put_string ''__CLASS'' PAGEFILE_CLASS fmempty)))" "uint n < 2 ^ 31" "uint m < 2 ^ 31"
      using b Ok by (auto simp: before_def io_Ok put_sizes_Ok wmi_call_def Let_def split: option.splits)
    obtain r2 w2 where c: "create_instance ''CREATE_ONLY pagefile: '' path item' w1 = (r2, w2)" by fastforce
    show ?thesis
    proof (cases r2)
      case (Err e)
      then have "token = Err e" "w' = w2" using assms(2) b c Ok by (simp_all add: run io_bind_def)
      moreover have "same_objects w1 w2" using fails_sameD [OF fails_same_mutations(2) c] Err by simp
      ultimately show ?thesis using sound_same w1 assms(1) by fastforce
    next
      case r2: (Ok u)
      obtain x where x: "ps_path x = path" "sound_repository w2"
        "pagefiles_of w2 = (pagefiles_of w)\<lparr>pi_settings := pi_settings (pagefiles_of w) @ [x]\<rparr>"
        using create_instance_law [OF _ item'(2,3,1) c [unfolded r2]] w1 assms(1) by auto
      have t: "tail u w2 = (token, w')" using assms(2) b c Ok r2 by (simp add: run io_bind_def)
      note w' = sound_same [OF io_withinD [OF tail_same t]]
      have "setting_of_token k = x" if token: "token = Ok k" for k
      proof -
        obtain i w3 where i: "wmi_inventory w2 = (Ok i, w3)" and f: "the_created path (pi_settings i) = Ok k"
          using t by (auto simp: token tail_def io_Ok)
        have "i = pagefiles_of w2" using wmi_inventory_law [OF x(2) i] by simp
        then show ?thesis using f x(1,3) by (simp add: the_created_Ok eq_ignore_ascii_case_def)
      qed
      then show ?thesis using w' x by (auto simp: eq_ignore_ascii_case_def)
    qed
  qed
qed

lemma wmi_delete_law:
  assumes "sound_repository w" and "wmi_delete c w = (r, w')"
  shows "sound_repository w' \<and> (if is_ok r then setting_of_token c \<in> set (pi_settings (pagefiles_of w))
      \<and> pagefiles_of w' = (pagefiles_of w)\<lparr>pi_settings :=
          filter (\<lambda>x. ps_object_path x \<noteq> ct_object_path c) (pi_settings (pagefiles_of w))\<rparr>
    else pagefiles_of w' = pagefiles_of w)"
proof (cases "is_ok r")
  case False
  have "fails_same (wmi_delete c)"
    unfolding wmi_delete_def by (intro fails_same_bind exact_pagefile_same fails_same_mutations)
  then have "same_objects w w'" using assms(2) False by (rule fails_sameD)
  then show ?thesis using sound_same assms(1) False by simp
next
  case True
  obtain item w1 where e: "exact_pagefile (setting_of_token c) w = (Ok item, w1)"
    and u: "delete_instance ''delete exact created pagefile: '' (ct_object_path c) w1 = (r, w')"
    using assms(2) True by (auto simp: wmi_delete_def io_bind_def split: prod.splits result.splits)
  note item = exact_pagefile_Ok [OF e]
  let ?p = "Some (CimString (ct_object_path c))"
  obtain i: "cim_inventory (cim_objects w) = Ok (pagefiles_of w)" and d: "distinct (map path_of (cim_objects w))"
    using assms(1) by (rule sound_repositoryE)
  have objects: "cim_objects w' = filter (\<lambda>y. path_of y \<noteq> ?p) (cim_objects w)"
    using delete_instance_result(2) [OF u True] item(3) by (simp add: same_objects_def)
  have path: "path_of item = ?p" and cls: "class_of item = Some (CimString PAGEFILE_CLASS)"
    using item(2) by (simp_all add: setting_of_object_Ok setting_of_token_def)
  have rows: "instances_of k (cim_objects w') = filter (\<lambda>y. path_of y \<noteq> ?p) (instances_of k (cim_objects w))" for k
    by (simp add: objects instances_of_def filter_filter conj_commute)
  have other: "instances_of k (cim_objects w') = instances_of k (cim_objects w)" if "k \<noteq> PAGEFILE_CLASS" for k
    unfolding rows filter_id_conv
  proof
    fix y assume "y \<in> set (instances_of k (cim_objects w))"
    then have "y \<in> set (cim_objects w)" "y \<noteq> item" using cls that by (auto simp: instances_of_def)
    then show "path_of y \<noteq> ?p" using d item(1) path by (metis distinct_map inj_onD)
  qed
  have "collect_results setting_of_object (filter (\<lambda>y. path_of y \<noteq> ?p) xs) =
      Ok (filter (\<lambda>x. ps_object_path x \<noteq> ct_object_path c) ss)"
    if "collect_results setting_of_object xs = Ok ss" for xs ss
    using that unfolding collect_results_Ok
    by (induction rule: list_all2_induct) (simp_all add: setting_of_object_Ok)
  then have "cim_inventory (cim_objects w') = Ok ((pagefiles_of w)\<lparr>pi_settings :=
      filter (\<lambda>x. ps_object_path x \<noteq> ct_object_path c) (pi_settings (pagefiles_of w))\<rparr>)"
    using cim_inventory_rows(1) [OF i] other by (intro cim_inventory_settings [OF i]) (simp_all add: rows)
  moreover have "distinct (map path_of (cim_objects w'))" using d by (simp add: objects distinct_map_filter)
  ultimately show ?thesis
    using sound_after True setting_in_inventory [OF assms(1) item(1,2)] by simp
qed

lemmas wmi_ops = wmi_pagefile_store_def pagefile_store.simps

interpretation wmi: pagefile_store wmi_pagefile_store pagefiles_of sound_repository
proof
  show "distinct (map ps_object_path (pi_settings (pagefiles_of w)))" if "sound_repository w" for w
    using settings_distinct [OF that] .
next
  show "sound_repository w' \<and> pagefiles_of w' = pagefiles_of w \<and> (\<forall>i. found = Ok i \<longrightarrow> i = pagefiles_of w)"
    if "sound_repository w" "pf_inventory wmi_pagefile_store w = (found, w')" for w found w'
    using wmi_inventory_law [OF that(1)] that(2) unfolding wmi_ops .
next
  show "sound_repository w' \<and>
      pagefiles_of w' = (if is_ok r then (pagefiles_of w)\<lparr>automatic_managed := v\<rparr> else pagefiles_of w)"
    if "sound_repository w" "pf_set_automatic wmi_pagefile_store p q expected v w = (r, w')" for w p q expected v r w'
    using wmi_set_automatic_law [OF that(1)] that(2) unfolding wmi_ops .
next
  show "sound_repository w' \<and> (if is_ok r then s \<in> set (pi_settings (pagefiles_of w))
      \<and> pagefiles_of w' = (pagefiles_of w)\<lparr>pi_settings := map (resize s n m) (pi_settings (pagefiles_of w))\<rparr>
    else pagefiles_of w' = pagefiles_of w)"
    if "sound_repository w" "pf_update wmi_pagefile_store s n m w = (r, w')" for w s n m r w'
    using wmi_update_law [OF that(1)] that(2) unfolding wmi_ops .
next
  show "sound_repository w' \<and> (pagefiles_of w' = pagefiles_of w \<and> \<not> is_ok token
    \<or> (\<exists>x. eq_ignore_ascii_case (ps_path x) path
         \<and> pagefiles_of w' = (pagefiles_of w)\<lparr>pi_settings := pi_settings (pagefiles_of w) @ [x]\<rparr>
         \<and> (\<forall>c. token = Ok c \<longrightarrow> setting_of_token c = x)))"
    if "sound_repository w" "pf_create wmi_pagefile_store path n m w = (token, w')" for w path n m token w'
    using wmi_create_Ok [OF that(1)] that(2) unfolding wmi_ops .
next
  show "sound_repository w' \<and> (if is_ok r then setting_of_token c \<in> set (pi_settings (pagefiles_of w))
      \<and> pagefiles_of w' = (pagefiles_of w)\<lparr>pi_settings :=
          filter (\<lambda>x. ps_object_path x \<noteq> ct_object_path c) (pi_settings (pagefiles_of w))\<rparr>
    else pagefiles_of w' = pagefiles_of w)"
    if "sound_repository w" "pf_delete wmi_pagefile_store c w = (r, w')" for w c r w'
    using wmi_delete_law [OF that(1)] that(2) unfolding wmi_ops .
qed

end
