(* ===== verification/State_Audit.thy ===== *)
theory State_Audit
  imports Session
begin

text \<open>
  Recovery audits for mutations that cannot be restored byte for byte
  (\<open>crates/frametime-domain/src/audit.rs\<close>).  \<open>RebuildableTarget\<close> and \<open>AppxRemovalSubject\<close>
  derive \<open>Ord\<close>; the instantiations give them the derived order, so that the canonical sorted
  lists of the code are the library's.  The lemmas say exactly when an audit may authorize a
  mutation, and that recording its outcome makes it unusable for that purpose.
\<close>

datatype recovery_requirement =
    LosslessBackup | RequireRebuildableAudit | ManualRecoveryAuditRequired | MixedRecovery

datatype rebuildable_target = Cs2ShaderCache | NvidiaDxCache | NvidiaGlCache | DirectxD3dCache

fun target_rank :: "rebuildable_target \<Rightarrow> nat" where
  "target_rank Cs2ShaderCache = 0"
| "target_rank NvidiaDxCache = 1"
| "target_rank NvidiaGlCache = 2"
| "target_rank DirectxD3dCache = 3"

instantiation rebuildable_target :: linorder
begin

definition less_eq_rebuildable_target :: "rebuildable_target \<Rightarrow> rebuildable_target \<Rightarrow> bool" where
  "less_eq_rebuildable_target a b \<longleftrightarrow> target_rank a \<le> target_rank b"

definition less_rebuildable_target :: "rebuildable_target \<Rightarrow> rebuildable_target \<Rightarrow> bool" where
  "less_rebuildable_target a b \<longleftrightarrow> target_rank a < target_rank b"

instance
proof
  fix a b :: rebuildable_target
  show "a \<le> b \<Longrightarrow> b \<le> a \<Longrightarrow> a = b"
    by (cases a; cases b) (simp_all add: less_eq_rebuildable_target_def)
qed (auto simp: less_eq_rebuildable_target_def less_rebuildable_target_def)

end

definition P1_3_REBUILDABLE_TARGETS :: "rebuildable_target list" where
  "P1_3_REBUILDABLE_TARGETS = [Cs2ShaderCache, NvidiaDxCache, NvidiaGlCache, DirectxD3dCache]"

datatype manual_recovery_target = AppxRemovals | ExactDriverPackageRemoval | DriverInstallation

definition P1_13_MANUAL_RECOVERY_TARGET :: manual_recovery_target where
  "P1_13_MANUAL_RECOVERY_TARGET = AppxRemovals"

definition P2_2_MANUAL_RECOVERY_TARGET :: manual_recovery_target where
  "P2_2_MANUAL_RECOVERY_TARGET = ExactDriverPackageRemoval"

definition P3_1_MANUAL_RECOVERY_TARGET :: manual_recovery_target where
  "P3_1_MANUAL_RECOVERY_TARGET = DriverInstallation"

section \<open>Rebuildable audits\<close>

datatype rebuildable_audit_outcome = RebuildPending | RebuildVerified string

datatype rebuildable_record_type = RebuildableMutation

record 'v rebuildable_audit =
  ra_record_type :: rebuildable_record_type
  ra_step :: string
  ra_captured_at :: string
  ra_targets :: "rebuildable_target list"
  ra_outcome :: rebuildable_audit_outcome
  ra_unknown :: "'v fields"

text \<open>Inserting into a \<open>BTreeMap\<close> and reading its keys: sorted and without repetition.\<close>

definition deduplicated_targets :: "rebuildable_target list \<Rightarrow> rebuildable_target list" where
  "deduplicated_targets targets = sort (remdups targets)"

definition rebuildable_pending ::
  "string \<Rightarrow> string \<Rightarrow> rebuildable_target list \<Rightarrow> ('v rebuildable_audit, string) result" where
  "rebuildable_pending step captured_at targets =
     (let ts = deduplicated_targets targets in
      if ts = [] then Err ''rebuildable audit requires at least one fixed target''
      else Ok \<lparr>ra_record_type = RebuildableMutation, ra_step = step, ra_captured_at = captured_at,
               ra_targets = ts, ra_outcome = RebuildPending, ra_unknown = fmempty\<rparr>)"

definition rebuildable_is_pending :: "'v rebuildable_audit \<Rightarrow> bool" where
  "rebuildable_is_pending a \<longleftrightarrow> ra_outcome a = RebuildPending"

definition targets_are_unique_and_nonempty :: "'v rebuildable_audit \<Rightarrow> bool" where
  "targets_are_unique_and_nonempty a \<longleftrightarrow>
     ra_targets a \<noteq> [] \<and> ra_targets a = deduplicated_targets (ra_targets a)"

definition rebuildable_valid_pending_for :: "'v rebuildable_audit \<Rightarrow> string \<Rightarrow> bool" where
  "rebuildable_valid_pending_for a step \<longleftrightarrow>
     rebuildable_is_pending a
     \<and> ra_step a = step
     \<and> ra_captured_at a \<noteq> []
     \<and> targets_are_unique_and_nonempty a
     \<and> (step \<noteq> ''P1:3'' \<or> ra_targets a = P1_3_REBUILDABLE_TARGETS)"

definition rebuildable_finalized :: "'v rebuildable_audit \<Rightarrow> string \<Rightarrow> 'v rebuildable_audit" where
  "rebuildable_finalized a finalized_at = a\<lparr>ra_outcome := RebuildVerified finalized_at\<rparr>"

section \<open>Manual and mixed audits\<close>

datatype manual_recovery_outcome = ManualPending | ManualVerified string | ManualFailed string

datatype appx_removal_subject = AppxInstalled string | AppxProvisioned string

fun appx_key :: "appx_removal_subject \<Rightarrow> nat \<times> string" where
  "appx_key (AppxInstalled full_name) = (0, full_name)"
| "appx_key (AppxProvisioned package_name) = (1, package_name)"

instantiation appx_removal_subject :: linorder
begin

definition less_eq_appx_removal_subject :: "appx_removal_subject \<Rightarrow> appx_removal_subject \<Rightarrow> bool" where
  "less_eq_appx_removal_subject a b \<longleftrightarrow>
     fst (appx_key a) < fst (appx_key b)
     \<or> fst (appx_key a) = fst (appx_key b) \<and> snd (appx_key a) \<le> snd (appx_key b)"

definition less_appx_removal_subject :: "appx_removal_subject \<Rightarrow> appx_removal_subject \<Rightarrow> bool" where
  "less_appx_removal_subject a b \<longleftrightarrow>
     fst (appx_key a) < fst (appx_key b)
     \<or> fst (appx_key a) = fst (appx_key b) \<and> snd (appx_key a) < snd (appx_key b)"

instance
proof
  fix a b :: appx_removal_subject
  show "a \<le> b \<Longrightarrow> b \<le> a \<Longrightarrow> a = b"
    by (cases a; cases b) (auto simp: less_eq_appx_removal_subject_def)
qed (auto simp: less_eq_appx_removal_subject_def less_appx_removal_subject_def)

end

datatype manual_record_type = ManualRecoveryMutation

datatype mixed_record_type = MixedRecoveryMutation

record 'v manual_recovery_audit =
  ma_record_type :: manual_record_type
  ma_step :: string
  ma_captured_at :: string
  ma_target :: manual_recovery_target
  ma_outcome :: manual_recovery_outcome
  ma_unknown :: "'v fields"

record 'v mixed_recovery_audit =
  mx_record_type :: mixed_record_type
  mx_step :: string
  mx_captured_at :: string
  mx_target :: manual_recovery_target
  mx_subjects :: "appx_removal_subject list"
  mx_outcome :: manual_recovery_outcome
  mx_unknown :: "'v fields"

datatype 'v irreversible_audit =
    IrrManual "'v manual_recovery_audit"
  | IrrMixed "'v mixed_recovery_audit"

definition manual_pending ::
  "string \<Rightarrow> string \<Rightarrow> manual_recovery_target \<Rightarrow> 'v manual_recovery_audit" where
  "manual_pending step captured_at target =
     \<lparr>ma_record_type = ManualRecoveryMutation, ma_step = step, ma_captured_at = captured_at,
      ma_target = target, ma_outcome = ManualPending, ma_unknown = fmempty\<rparr>"

definition mixed_pending ::
  "string \<Rightarrow> string \<Rightarrow> manual_recovery_target \<Rightarrow> 'v mixed_recovery_audit" where
  "mixed_pending step captured_at target =
     \<lparr>mx_record_type = MixedRecoveryMutation, mx_step = step, mx_captured_at = captured_at,
      mx_target = target, mx_subjects = [], mx_outcome = ManualPending, mx_unknown = fmempty\<rparr>"

definition appx_subject_is_invalid :: "appx_removal_subject \<Rightarrow> bool" where
  "appx_subject_is_invalid s =
     (let identity = (case s of AppxInstalled n \<Rightarrow> n | AppxProvisioned n \<Rightarrow> n) in
      identity = [] \<or> length identity > 1024)"

definition mixed_pending_with_appx_subjects ::
  "string \<Rightarrow> string \<Rightarrow> appx_removal_subject list \<Rightarrow> ('v mixed_recovery_audit, string) result" where
  "mixed_pending_with_appx_subjects step captured_at subjects =
     (let audit = (mixed_pending step captured_at P1_13_MANUAL_RECOVERY_TARGET)
            \<lparr>mx_subjects := subjects\<rparr> in
      if mx_step audit \<noteq> ''P1:13'' then Err ''AppX removal audit is bound only to P1:13''
      else if list_ex appx_subject_is_invalid subjects
      then Err ''P1:13 AppX audit subjects are invalid or duplicated''
      else
      (let deduplicated = remdups_adj (sort subjects) in
       if length deduplicated \<noteq> length subjects
       then Err ''P1:13 AppX audit subjects are invalid or duplicated''
       else Ok (audit\<lparr>mx_subjects := deduplicated\<rparr>)))"

text \<open>The loop with its previous element: strictly increasing and every subject valid.\<close>

fun appx_subjects_from :: "appx_removal_subject option \<Rightarrow> appx_removal_subject list \<Rightarrow> bool" where
  "appx_subjects_from previous [] = True"
| "appx_subjects_from previous (s # rest) =
     (if appx_subject_is_invalid s \<or> (case previous of None \<Rightarrow> False | Some p \<Rightarrow> p \<ge> s)
      then False
      else appx_subjects_from (Some s) rest)"

definition appx_subjects_are_valid :: "appx_removal_subject list \<Rightarrow> bool" where
  "appx_subjects_are_valid = appx_subjects_from None"

definition expected_manual_target :: "string \<Rightarrow> manual_recovery_target option" where
  "expected_manual_target step =
     (if step = ''P1:13'' then Some P1_13_MANUAL_RECOVERY_TARGET
      else if step = ''P2:2'' then Some P2_2_MANUAL_RECOVERY_TARGET
      else if step = ''P3:1'' then Some P3_1_MANUAL_RECOVERY_TARGET
      else None)"

definition irreversible_valid_pending_for ::
  "'v irreversible_audit \<Rightarrow> recovery_requirement \<Rightarrow> string \<Rightarrow> bool" where
  "irreversible_valid_pending_for a requirement step =
     (let (kind_matches, captured_at, target, outcome) =
        (case a of
           IrrManual m \<Rightarrow>
             (requirement = ManualRecoveryAuditRequired \<and> ma_step m = step, ma_captured_at m,
              ma_target m, ma_outcome m)
         | IrrMixed m \<Rightarrow>
             (requirement = MixedRecovery \<and> mx_step m = step, mx_captured_at m, mx_target m,
              mx_outcome m)) in
      kind_matches
      \<and> captured_at \<noteq> []
      \<and> outcome = ManualPending
      \<and> expected_manual_target step = Some target
      \<and> (case a of
           IrrMixed m \<Rightarrow> (step = ''P1:13'' \<longrightarrow> appx_subjects_are_valid (mx_subjects m))
         | _ \<Rightarrow> True))"

fun with_outcome :: "'v irreversible_audit \<Rightarrow> manual_recovery_outcome \<Rightarrow> 'v irreversible_audit" where
  "with_outcome (IrrManual m) outcome = IrrManual (m\<lparr>ma_outcome := outcome\<rparr>)"
| "with_outcome (IrrMixed m) outcome = IrrMixed (m\<lparr>mx_outcome := outcome\<rparr>)"

definition irreversible_finalized :: "'v irreversible_audit \<Rightarrow> string \<Rightarrow> 'v irreversible_audit" where
  "irreversible_finalized a finalized_at = with_outcome a (ManualVerified finalized_at)"

definition irreversible_failed :: "'v irreversible_audit \<Rightarrow> string \<Rightarrow> 'v irreversible_audit" where
  "irreversible_failed a failed_at = with_outcome a (ManualFailed failed_at)"

section \<open>The audit document\<close>

datatype 'v audit_entry =
    AuditRebuildable "'v rebuildable_audit"
  | AuditManual "'v manual_recovery_audit"
  | AuditMixed "'v mixed_recovery_audit"
  | AuditUnknown 'v

record 'v audit_file =
  audit_entries :: "'v audit_entry list"
  audit_created :: string
  audit_file_unknown :: "'v fields"

text \<open>Dispatch on the \<open>type\<close> member; the derived parsers of the three records are parameters.\<close>

definition audit_entry_deserialize ::
  "'v json_access \<Rightarrow> ('v \<Rightarrow> ('v rebuildable_audit, string) result)
   \<Rightarrow> ('v \<Rightarrow> ('v manual_recovery_audit, string) result)
   \<Rightarrow> ('v \<Rightarrow> ('v mixed_recovery_audit, string) result) \<Rightarrow> 'v \<Rightarrow> ('v audit_entry, string) result" where
  "audit_entry_deserialize J rebuildable manual mixed value =
     (let ty = Option.bind (Option.bind (as_object J value) (\<lambda>m. fmlookup m ''type'')) (as_str J) in
      if ty = Some ''rebuildable_mutation''
      then and_then (rebuildable value) (\<lambda>a. Ok (AuditRebuildable a))
      else if ty = Some ''manual_recovery_mutation''
      then and_then (manual value) (\<lambda>a. Ok (AuditManual a))
      else if ty = Some ''mixed_recovery_mutation''
      then and_then (mixed value) (\<lambda>a. Ok (AuditMixed a))
      else Ok (AuditUnknown value))"

section \<open>Lemmas\<close>

lemma set_deduplicated [simp]: "set (deduplicated_targets ts) = set ts"
  by (simp add: deduplicated_targets_def)

lemma deduplicated_sorted: "sorted (deduplicated_targets ts)" "distinct (deduplicated_targets ts)"
  by (simp_all add: deduplicated_targets_def)

lemma deduplicated_idem [simp]:
  "deduplicated_targets (deduplicated_targets ts) = deduplicated_targets ts"
  by (simp add: deduplicated_targets_def sorted_sort_id distinct_remdups_id)

lemma deduplicated_eq_Nil [simp]: "deduplicated_targets ts = [] \<longleftrightarrow> ts = []"
  by (metis deduplicated_targets_def remdups_eq_nil_iff set_empty set_sort)

lemma rebuildable_pending_valid:
  assumes "rebuildable_pending step at ts = Ok a" and "at \<noteq> []" and "step \<noteq> ''P1:3''"
  shows "rebuildable_valid_pending_for a step"
  using assms
  by (auto simp: rebuildable_pending_def rebuildable_valid_pending_for_def
      rebuildable_is_pending_def targets_are_unique_and_nonempty_def Let_def split: if_splits)

lemma rebuildable_finalized_not_pending: "\<not> rebuildable_valid_pending_for (rebuildable_finalized a t) s"
  by (simp add: rebuildable_valid_pending_for_def rebuildable_finalized_def rebuildable_is_pending_def)

lemma irreversible_outcome_not_pending:
  "\<not> irreversible_valid_pending_for (irreversible_finalized a t) r s"
  "\<not> irreversible_valid_pending_for (irreversible_failed a t) r s"
  by (cases a; simp add: irreversible_valid_pending_for_def irreversible_finalized_def
      irreversible_failed_def)+

lemma irreversible_valid_requirement:
  "irreversible_valid_pending_for a r s \<Longrightarrow> r = ManualRecoveryAuditRequired \<or> r = MixedRecovery"
  by (cases a) (auto simp: irreversible_valid_pending_for_def)

lemma appx_subjects_from_iff:
  "appx_subjects_from p xs \<longleftrightarrow>
     (\<forall>x\<in>set xs. \<not> appx_subject_is_invalid x) \<and> sorted_wrt (<) xs
     \<and> (case (p, xs) of (Some q, x # _) \<Rightarrow> q < x | _ \<Rightarrow> True)"
proof (induction p xs rule: appx_subjects_from.induct)
  case (1 previous)
  then show ?case by (cases previous) auto
next
  case (2 previous s rest)
  have tl: "sorted_wrt (<) rest \<Longrightarrow>
      (case rest of [] \<Rightarrow> True | x # _ \<Rightarrow> s < x) = (\<forall>x\<in>set rest. s < x)"
    by (cases rest) auto
  show ?case
    using "2.IH" tl by (cases previous) (auto split: list.splits)
qed

lemma appx_subjects_are_valid_iff:
  "appx_subjects_are_valid xs \<longleftrightarrow>
     (\<forall>x\<in>set xs. \<not> appx_subject_is_invalid x) \<and> sorted_wrt (<) xs"
  by (simp add: appx_subjects_are_valid_def appx_subjects_from_iff)

section \<open>Properties\<close>

lemma remdups_adj_strictly_sorted:
  "sorted (xs :: 'a::linorder list) \<Longrightarrow> sorted_wrt (<) (remdups_adj xs)"
  by (induction xs rule: remdups_adj.induct) auto

text \<open>
  The constructor of the AppX audit and the check the engine makes agree: what is constructed
  with a nonempty time is a valid pending mixed audit for P1:13, lists its subjects sorted without
  duplicates and keeps exactly the requested ones; once finalized or failed it is pending no more.
\<close>

theorem appx_audit_is_valid_until_closed:
  assumes "mixed_pending_with_appx_subjects step at subjects = Ok a" and "at \<noteq> []"
  shows "irreversible_valid_pending_for (IrrMixed a) MixedRecovery step
     \<and> set (mx_subjects a) = set subjects \<and> sorted_wrt (<) (mx_subjects a)
     \<and> \<not> irreversible_valid_pending_for (irreversible_finalized (IrrMixed a) t) r s
     \<and> \<not> irreversible_valid_pending_for (irreversible_failed (IrrMixed a) t) r s"
proof -
  have a: "step = ''P1:13''" "\<forall>x\<in>set subjects. \<not> appx_subject_is_invalid x"
      "a = (mixed_pending step at P1_13_MANUAL_RECOVERY_TARGET)
         \<lparr>mx_subjects := remdups_adj (sort subjects)\<rparr>"
    using assms(1)
    by (auto simp: mixed_pending_with_appx_subjects_def Let_def list_ex_iff mixed_pending_def
        split: if_splits)
  have st: "sorted_wrt (<) (remdups_adj (sort subjects))"
    by (rule remdups_adj_strictly_sorted) simp
  then have "appx_subjects_are_valid (mx_subjects a)"
    using a(2,3) by (simp add: appx_subjects_are_valid_iff)
  with a assms(2) have "irreversible_valid_pending_for (IrrMixed a) MixedRecovery step"
    by (simp add: irreversible_valid_pending_for_def mixed_pending_def expected_manual_target_def)
  then show ?thesis
    using a(3) st by (simp add: mixed_pending_def irreversible_outcome_not_pending)
qed

theorem appx_audit_is_valid_until_closed_witness:
  "\<exists>a :: unit mixed_recovery_audit.
     irreversible_valid_pending_for (IrrMixed a) MixedRecovery ''P1:13''
     \<and> set (mx_subjects a) = {AppxInstalled ''b'', AppxInstalled ''a''} \<and> sorted_wrt (<) (mx_subjects a)"
proof -
  have "is_ok (mixed_pending_with_appx_subjects ''P1:13'' ''now'' [AppxInstalled ''b'', AppxInstalled ''a'']
      :: (unit mixed_recovery_audit, string) result)"
    by code_simp
  then obtain a :: "unit mixed_recovery_audit" where
    "mixed_pending_with_appx_subjects ''P1:13'' ''now'' [AppxInstalled ''b'', AppxInstalled ''a''] = Ok a"
    by (auto simp: is_ok_iff)
  from appx_audit_is_valid_until_closed [OF this] show ?thesis by (intro exI [of _ a]) simp
qed

end
