(* ===== verification/Engine.thy ===== *)
theory Engine
  imports State_Audit Backup
begin

text \<open>
  The step engine (\<open>crates/frametime-domain/src/engine.rs\<close>).  A backend is a record of its trait
  functions over a backend state \<open>'b\<close> (a \<open>&mut self\<close> receiver returns the new state); the two
  closures of a run share an environment \<open>'c\<close>.  The functions of the engine are actions on the
  run state that stop at the first error, composed as the code composes them.
\<close>

section \<open>Values of the engine\<close>

datatype inspection =
    InspectSatisfied
  | InspectNeedsApply
  | InspectInapplicable
  | InspectAdvisory string
  | InspectUnsupported

datatype (plugins only: code size) event =
    EventInspect string
  | EventCaptureBackup string
  | EventPersistBackup string
  | EventCaptureAudit string
  | EventPersistAudit string
  | EventCaptureEvidence string
  | EventPersistEvidence string
  | EventVerifyEvidence string
  | EventApply string
  | EventVerify string
  | EventFinalizeAudit string
  | EventFailAudit string
  | EventComplete string
  | EventSkip string
  | EventAdvisory string string
  | EventPlan string

record operation =
  op_step :: step

record run_report =
  events :: "event list"
  completed :: nat
  skipped :: nat
  advisory_count :: nat
  failed :: nat

definition run_report_default :: run_report where
  "run_report_default =
     \<lparr>events = [], completed = 0, skipped = 0, advisory_count = 0, failed = 0\<rparr>"

datatype (plugins only: code size) engine_error =
    ErrInspect string string
  | ErrUnsupported string
  | ErrCancelled string
  | ErrBackup string string
  | ErrPersist string string
  | ErrAuditCapture string string
  | ErrAuditPersist string string
  | ErrEvidenceCapture string string
  | ErrEvidencePersist string string
  | ErrEvidenceVerify string string
  | ErrApply string string
  | ErrVerify string string
  | ErrAuditFinalize string string
  | ErrAuditFailurePersist string string
  | ErrProgress string string

section \<open>The backend trait\<close>

type_synonym ('b, 'a) backend_call = "'b \<Rightarrow> ('a, string) result \<times> 'b"

record ('b, 'v) backend =
  is_dry_run :: "'b \<Rightarrow> bool"
  inspect :: "operation \<Rightarrow> ('b, inspection) backend_call"
  plan :: "operation \<Rightarrow> ('b, string list) backend_call"
  capture_backups :: "operation \<Rightarrow> ('b, 'v backup_entry list) backend_call"
  persist_backups :: "'v backup_entry list \<Rightarrow> ('b, unit) backend_call"
  recovery_requirement_of :: "operation \<Rightarrow> 'b \<Rightarrow> recovery_requirement"
  capture_pending_audit :: "operation \<Rightarrow> ('b, 'v rebuildable_audit) backend_call"
  persist_pending_audit :: "'v rebuildable_audit \<Rightarrow> ('b, unit) backend_call"
  finalize_audit :: "'v rebuildable_audit \<Rightarrow> ('b, unit) backend_call"
  capture_pending_irreversible_audit :: "operation \<Rightarrow> ('b, 'v irreversible_audit) backend_call"
  persist_pending_irreversible_audit :: "'v irreversible_audit \<Rightarrow> ('b, unit) backend_call"
  finalize_irreversible_audit :: "'v irreversible_audit \<Rightarrow> ('b, unit) backend_call"
  fail_irreversible_audit :: "'v irreversible_audit \<Rightarrow> ('b, unit) backend_call"
  evidence_requirement_of :: "operation \<Rightarrow> 'b \<Rightarrow> evidence_requirement"
  capture_evidence :: "operation \<Rightarrow> ('b, 'v observation_receipt) backend_call"
  persist_evidence :: "'v observation_receipt \<Rightarrow> ('b, unit) backend_call"
  verify_evidence :: "operation \<Rightarrow> 'v observation_receipt \<Rightarrow> ('b, unit) backend_call"
  apply_operation :: "operation \<Rightarrow> ('b, unit) backend_call"
  verify_operation :: "operation \<Rightarrow> ('b, unit) backend_call"
  persist_progress :: "'v progress \<Rightarrow> ('b, unit) backend_call"
  timestamp_of :: "'b \<Rightarrow> string"

text \<open>The default bodies of the trait, as an implementation that overrides none of them has.\<close>

definition refuse :: "string \<Rightarrow> ('b, 'a) backend_call" where
  "refuse message b = (Err message, b)"

definition with_trait_defaults :: "('b, 'v) backend \<Rightarrow> ('b, 'v) backend" where
  "with_trait_defaults B = B
     \<lparr>recovery_requirement_of := \<lambda>_ _. LosslessBackup,
      capture_pending_audit :=
        \<lambda>_. refuse ''backend did not implement rebuildable audit capture'',
      persist_pending_audit :=
        \<lambda>_. refuse ''backend did not implement rebuildable audit persistence'',
      finalize_audit :=
        \<lambda>_. refuse ''backend did not implement rebuildable audit finalization'',
      capture_pending_irreversible_audit :=
        \<lambda>_. refuse ''backend did not implement irreversible audit capture'',
      persist_pending_irreversible_audit :=
        \<lambda>_. refuse ''backend did not implement irreversible audit persistence'',
      finalize_irreversible_audit :=
        \<lambda>_. refuse ''backend did not implement irreversible audit finalization'',
      fail_irreversible_audit :=
        \<lambda>_. refuse ''backend did not implement failed irreversible audit persistence'',
      evidence_requirement_of := \<lambda>_ _. EvidenceNone,
      capture_evidence :=
        \<lambda>_. refuse ''backend did not implement prerequisite evidence capture'',
      persist_evidence :=
        \<lambda>_. refuse ''backend did not implement prerequisite evidence persistence'',
      verify_evidence :=
        \<lambda>_ _. refuse ''backend did not implement prerequisite evidence verification''\<rparr>"

section \<open>Actions on the run state\<close>

record 'c control =
  consent :: "step \<Rightarrow> 'c \<Rightarrow> bool \<times> 'c"
  cancelled :: "'c \<Rightarrow> bool \<times> 'c"

record ('b, 'v, 'c) run_state =
  rs_backend :: 'b
  rs_progress :: "'v progress"
  rs_report :: run_report
  rs_control :: 'c

type_synonym ('b, 'v, 'c, 'a) action =
  "('b, 'v, 'c) run_state \<Rightarrow> ('a, engine_error) result \<times> ('b, 'v, 'c) run_state"

definition ret :: "'a \<Rightarrow> ('b, 'v, 'c, 'a) action" where
  "ret x s = (Ok x, s)"

definition fail :: "engine_error \<Rightarrow> ('b, 'v, 'c, 'a) action" where
  "fail e s = (Err e, s)"

definition seq ::
  "('b, 'v, 'c, 'x) action \<Rightarrow> ('x \<Rightarrow> ('b, 'v, 'c, 'a) action) \<Rightarrow> ('b, 'v, 'c, 'a) action" where
  "seq m f s = (case m s of (Ok x, s') \<Rightarrow> f x s' | (Err e, s') \<Rightarrow> (Err e, s'))"

definition get :: "(('b, 'v, 'c) run_state \<Rightarrow> 'a) \<Rightarrow> ('b, 'v, 'c, 'a) action" where
  "get f s = (Ok (f s), s)"

text \<open>A backend call with its error mapped (\<open>.map_err(|message| ..)?\<close>).\<close>

definition call :: "('b, 'a) backend_call \<Rightarrow> (string \<Rightarrow> engine_error) \<Rightarrow> ('b, 'v, 'c, 'a) action" where
  "call m err s = (let (r, b) = m (rs_backend s) in (map_err err r, s\<lparr>rs_backend := b\<rparr>))"

definition push :: "event \<Rightarrow> ('b, 'v, 'c, unit) action" where
  "push e s = (Ok (), s\<lparr>rs_report := (rs_report s)\<lparr>events := events (rs_report s) @ [e]\<rparr>\<rparr>)"

definition count_completed :: "('b, 'v, 'c, unit) action" where
  "count_completed s =
     (Ok (), s\<lparr>rs_report := (rs_report s)\<lparr>completed := completed (rs_report s) + 1\<rparr>\<rparr>)"

definition count_skipped :: "('b, 'v, 'c, unit) action" where
  "count_skipped s =
     (Ok (), s\<lparr>rs_report := (rs_report s)\<lparr>skipped := skipped (rs_report s) + 1\<rparr>\<rparr>)"

definition count_advisory :: "('b, 'v, 'c, unit) action" where
  "count_advisory s =
     (Ok (), s\<lparr>rs_report := (rs_report s)\<lparr>advisory_count := advisory_count (rs_report s) + 1\<rparr>\<rparr>)"

definition count_failed :: "('b, 'v, 'c, unit) action" where
  "count_failed s = (Ok (), s\<lparr>rs_report := (rs_report s)\<lparr>failed := failed (rs_report s) + 1\<rparr>\<rparr>)"

definition ask :: "('c \<Rightarrow> bool \<times> 'c) \<Rightarrow> ('b, 'v, 'c, bool) action" where
  "ask f s = (let (x, c) = f (rs_control s) in (Ok x, s\<lparr>rs_control := c\<rparr>))"

definition set_progress :: "'v progress \<Rightarrow> ('b, 'v, 'c, unit) action" where
  "set_progress p s = (Ok (), s\<lparr>rs_progress := p\<rparr>)"

lemmas action_defs = ret_def fail_def seq_def get_def call_def push_def count_completed_def
  count_skipped_def count_advisory_def count_failed_def ask_def set_progress_def

section \<open>One step\<close>

text \<open>\<open>progress.clone()\<close>, the change, \<open>persist_progress\<close>, then the assignment.\<close>

definition commit_progress ::
  "('b, 'v) backend \<Rightarrow> string \<Rightarrow> ('b \<Rightarrow> 'v progress \<Rightarrow> 'v progress) \<Rightarrow> ('b, 'v, 'c, unit) action" where
  "commit_progress B k change =
     seq (get (\<lambda>s. change (rs_backend s) (rs_progress s))) (\<lambda>progress.
     seq (call (persist_progress B progress) (ErrProgress k)) (\<lambda>_.
     set_progress progress))"

definition record_advisory ::
  "('b, 'v) backend \<Rightarrow> step \<Rightarrow> string \<Rightarrow> string \<Rightarrow> ('b, 'v, 'c, unit) action" where
  "record_advisory B st k reason =
     seq (commit_progress B k (\<lambda>_. acknowledge_step_advisory (step_ident st) reason)) (\<lambda>_.
     seq (push (EventAdvisory k reason)) (\<lambda>_.
     count_advisory))"

definition record_skip ::
  "('b, 'v) backend \<Rightarrow> step \<Rightarrow> string \<Rightarrow> bool \<Rightarrow> ('b, 'v, 'c, unit) action" where
  "record_skip B st k persist =
     seq (push (EventSkip k)) (\<lambda>_.
     seq (if persist then commit_progress B k (\<lambda>_. skip_step (step_ident st)) else ret ()) (\<lambda>_.
     count_skipped))"

definition complete_live_step ::
  "('b, 'v) backend \<Rightarrow> step \<Rightarrow> string \<Rightarrow> ('b, 'v, 'c, unit) action" where
  "complete_live_step B st k =
     seq (commit_progress B k (\<lambda>b. complete_step (step_ident st) (timestamp_of B b))) (\<lambda>_.
     seq (push (EventComplete k)) (\<lambda>_.
     count_completed))"

definition apply_and_verify ::
  "('b, 'v) backend \<Rightarrow> operation \<Rightarrow> string \<Rightarrow> ('b, 'v, 'c, unit) action" where
  "apply_and_verify B operation k =
     seq (call (apply_operation B operation) (ErrApply k)) (\<lambda>_.
     seq (push (EventApply k)) (\<lambda>_.
     seq (call (verify_operation B operation) (ErrVerify k)) (\<lambda>_.
     push (EventVerify k))))"

definition capture_lossless_backups ::
  "('b, 'v) backend \<Rightarrow> operation \<Rightarrow> string \<Rightarrow> ('b, 'v, 'c, unit) action" where
  "capture_lossless_backups B operation k =
     seq (push (EventCaptureBackup k)) (\<lambda>_.
     seq (call (capture_backups B operation) (ErrBackup k)) (\<lambda>backups.
     if backups = [] then fail (ErrBackup k ''mutating operation captured no recovery entries'')
     else
     seq (call (persist_backups B backups) (ErrPersist k)) (\<lambda>_.
     push (EventPersistBackup k))))"

definition run_lossless_operation ::
  "('b, 'v) backend \<Rightarrow> operation \<Rightarrow> string \<Rightarrow> ('b, 'v, 'c, unit) action" where
  "run_lossless_operation B operation k =
     seq (capture_lossless_backups B operation k) (\<lambda>_. apply_and_verify B operation k)"

definition run_evidence_operation ::
  "'v digester \<Rightarrow> ('b, 'v) backend \<Rightarrow> operation \<Rightarrow> string \<Rightarrow> ('b, 'v, 'c, unit) action" where
  "run_evidence_operation D B operation k =
     seq (push (EventCaptureEvidence k)) (\<lambda>_.
     seq (call (capture_evidence B operation) (ErrEvidenceCapture k)) (\<lambda>receipt.
     seq (case validate_for D receipt k of
            Ok _ \<Rightarrow> ret ()
          | Err e \<Rightarrow> fail (ErrEvidenceCapture k (evidence_error_text e))) (\<lambda>_.
     seq (call (persist_evidence B receipt) (ErrEvidencePersist k)) (\<lambda>_.
     seq (push (EventPersistEvidence k)) (\<lambda>_.
     seq (call (verify_evidence B operation receipt) (ErrEvidenceVerify k)) (\<lambda>_.
     seq (push (EventVerifyEvidence k)) (\<lambda>_.
     seq (call (verify_operation B operation) (ErrVerify k)) (\<lambda>_.
     push (EventVerify k)))))))))"

definition run_rebuildable_operation ::
  "('b, 'v) backend \<Rightarrow> operation \<Rightarrow> string \<Rightarrow> ('b, 'v, 'c, unit) action" where
  "run_rebuildable_operation B operation k =
     seq (push (EventCaptureAudit k)) (\<lambda>_.
     seq (call (capture_pending_audit B operation) (ErrAuditCapture k)) (\<lambda>audit.
     if \<not> rebuildable_valid_pending_for audit k
     then fail (ErrAuditCapture k
       ''rebuildable mutation must capture a complete pending audit record bound to the current step'')
     else
     seq (call (persist_pending_audit B audit) (ErrAuditPersist k)) (\<lambda>_.
     seq (push (EventPersistAudit k)) (\<lambda>_.
     seq (apply_and_verify B operation k) (\<lambda>_.
     seq (get (\<lambda>s. rebuildable_finalized audit (timestamp_of B (rs_backend s)))) (\<lambda>finalized.
     seq (call (finalize_audit B finalized) (ErrAuditFinalize k)) (\<lambda>_.
     push (EventFinalizeAudit k))))))))"

text \<open>The branch on the error of \<open>apply_and_verify\<close>: persist the failed audit, then return it.\<close>

definition on_apply_error ::
  "('b, 'v) backend \<Rightarrow> string \<Rightarrow> 'v irreversible_audit \<Rightarrow> engine_error
   \<Rightarrow> ('b, 'v, 'c, unit) action" where
  "on_apply_error B k audit error =
     seq (get (\<lambda>s. irreversible_failed audit (timestamp_of B (rs_backend s)))) (\<lambda>failed_audit.
     seq (call (fail_irreversible_audit B failed_audit) (ErrAuditFailurePersist k)) (\<lambda>_.
     seq (push (EventFailAudit k)) (\<lambda>_.
     fail error)))"

definition catch ::
  "('b, 'v, 'c, unit) action \<Rightarrow> (engine_error \<Rightarrow> ('b, 'v, 'c, unit) action) \<Rightarrow> ('b, 'v, 'c, unit) action" where
  "catch m h s = (case m s of (Ok x, s') \<Rightarrow> (Ok x, s') | (Err e, s') \<Rightarrow> h e s')"

definition run_pending_irreversible_audit ::
  "('b, 'v) backend \<Rightarrow> operation \<Rightarrow> string \<Rightarrow> recovery_requirement \<Rightarrow> ('b, 'v, 'c, unit) action" where
  "run_pending_irreversible_audit B operation k requirement =
     seq (push (EventCaptureAudit k)) (\<lambda>_.
     seq (call (capture_pending_irreversible_audit B operation) (ErrAuditCapture k)) (\<lambda>audit.
     if \<not> irreversible_valid_pending_for audit requirement k
     then fail (ErrAuditCapture k
       ''irreversible mutation must capture a pending fixed-subject audit for the current recovery requirement'')
     else
     seq (call (persist_pending_irreversible_audit B audit) (ErrAuditPersist k)) (\<lambda>_.
     seq (push (EventPersistAudit k)) (\<lambda>_.
     seq (catch (apply_and_verify B operation k) (on_apply_error B k audit)) (\<lambda>_.
     seq (get (\<lambda>s. irreversible_finalized audit (timestamp_of B (rs_backend s)))) (\<lambda>finalized.
     seq (call (finalize_irreversible_audit B finalized) (ErrAuditFinalize k)) (\<lambda>_.
     push (EventFinalizeAudit k))))))))"

definition run_irreversible_operation ::
  "('b, 'v) backend \<Rightarrow> operation \<Rightarrow> string \<Rightarrow> ('b, 'v, 'c, unit) action" where
  "run_irreversible_operation B operation k =
     seq (get (\<lambda>s. recovery_requirement_of B operation (rs_backend s))) (\<lambda>requirement.
     seq (if requirement = MixedRecovery then capture_lossless_backups B operation k else ret ())
       (\<lambda>_.
     run_pending_irreversible_audit B operation k requirement))"

definition run_verification ::
  "'v digester \<Rightarrow> ('b, 'v) backend \<Rightarrow> operation \<Rightarrow> string \<Rightarrow> ('b, 'v, 'c, unit) action" where
  "run_verification D B operation k =
     seq (get (\<lambda>s. evidence_requirement_of B operation (rs_backend s))) (\<lambda>requirement.
     if requirement = DurableReceipt then run_evidence_operation D B operation k
     else
     seq (call (verify_operation B operation) (ErrVerify k)) (\<lambda>_.
     push (EventVerify k)))"

definition run_mutation ::
  "('b, 'v) backend \<Rightarrow> operation \<Rightarrow> string \<Rightarrow> ('b, 'v, 'c, unit) action" where
  "run_mutation B operation k =
     seq (get (\<lambda>s. recovery_requirement_of B operation (rs_backend s))) (\<lambda>requirement.
     case requirement of
       RequireRebuildableAudit \<Rightarrow> run_rebuildable_operation B operation k
     | ManualRecoveryAuditRequired \<Rightarrow> run_irreversible_operation B operation k
     | MixedRecovery \<Rightarrow> run_irreversible_operation B operation k
     | LosslessBackup \<Rightarrow> run_lossless_operation B operation k)"

definition run_live_step ::
  "'v digester \<Rightarrow> ('b, 'v) backend \<Rightarrow> operation \<Rightarrow> string \<Rightarrow> inspection \<Rightarrow> ('b, 'v, 'c, unit) action" where
  "run_live_step D B operation k inspection =
     (let st = op_step operation in
      case inspection of
        InspectUnsupported \<Rightarrow> fail (ErrUnsupported k)
      | InspectInapplicable \<Rightarrow> record_skip B st k True
      | InspectAdvisory reason \<Rightarrow> record_advisory B st k reason
      | _ \<Rightarrow>
          seq (if inspection = InspectSatisfied \<or> check_only st
               then run_verification D B operation k
               else run_mutation B operation k) (\<lambda>_.
          complete_live_step B st k))"

fun push_plan :: "string list \<Rightarrow> ('b, 'v, 'c, unit) action" where
  "push_plan [] = ret ()"
| "push_plan (line # rest) = seq (push (EventPlan line)) (\<lambda>_. push_plan rest)"

definition report_dry_run ::
  "('b, 'v) backend \<Rightarrow> operation \<Rightarrow> string \<Rightarrow> inspection \<Rightarrow> ('b, 'v, 'c, unit) action" where
  "report_dry_run B operation k inspection =
     seq (call (plan B operation) (ErrInspect k)) (\<lambda>plan_lines.
     seq (push_plan plan_lines) (\<lambda>_.
     case inspection of
       InspectInapplicable \<Rightarrow> seq (push (EventSkip k)) (\<lambda>_. count_skipped)
     | InspectUnsupported \<Rightarrow> count_failed
     | InspectAdvisory reason \<Rightarrow> seq (push (EventAdvisory k reason)) (\<lambda>_. count_advisory)
     | _ \<Rightarrow> count_completed))"

definition step_recorded :: "'v progress \<Rightarrow> string \<Rightarrow> bool" where
  "step_recorded p k \<longleftrightarrow>
     k |\<in>| completed_steps p \<or> k |\<in>| skipped_steps p \<or> contains_key (advisories p) k"

definition skip_recorded_or_cancelled ::
  "('b, 'v) backend \<Rightarrow> 'c control \<Rightarrow> string \<Rightarrow> ('b, 'v, 'c, bool) action" where
  "skip_recorded_or_cancelled B K k =
     seq (get (\<lambda>s. step_recorded (rs_progress s) k)) (\<lambda>recorded.
     if recorded then ret True
     else
     seq (get (\<lambda>s. is_dry_run B (rs_backend s))) (\<lambda>dry_run.
     seq (if dry_run then ret False else ask (cancelled K)) (\<lambda>stop.
     if stop then fail (ErrCancelled k) else ret False)))"

definition should_skip_for_policy ::
  "('b, 'v) backend \<Rightarrow> 'c control \<Rightarrow> step \<Rightarrow> profile \<Rightarrow> ('b, 'v, 'c, bool) action" where
  "should_skip_for_policy B K st profile =
     (case decision profile (tier st) (step_risk st) of
        Skip \<Rightarrow> ret True
      | Prompt \<Rightarrow>
          seq (get (\<lambda>s. is_dry_run B (rs_backend s))) (\<lambda>dry_run.
          if dry_run then ret False
          else seq (ask (consent K st)) (\<lambda>agreed. ret (\<not> agreed)))
      | Auto \<Rightarrow> ret False)"

definition run_step ::
  "'v digester \<Rightarrow> ('b, 'v) backend \<Rightarrow> 'c control \<Rightarrow> profile \<Rightarrow> step \<Rightarrow> ('b, 'v, 'c, unit) action" where
  "run_step D B K profile st =
     (let operation = \<lparr>op_step = st\<rparr>; k = progress_key (step_ident st) in
      seq (skip_recorded_or_cancelled B K k) (\<lambda>done.
      if done then ret ()
      else
      seq (should_skip_for_policy B K st profile) (\<lambda>skipped.
      if skipped
      then seq (get (\<lambda>s. is_dry_run B (rs_backend s))) (\<lambda>dry_run. record_skip B st k (\<not> dry_run))
      else
      seq (push (EventInspect k)) (\<lambda>_.
      seq (call (inspect B operation) (ErrInspect k)) (\<lambda>inspection.
      seq (get (\<lambda>s. is_dry_run B (rs_backend s))) (\<lambda>dry_run.
      if dry_run then report_dry_run B operation k inspection
      else run_live_step D B operation k inspection))))))"

section \<open>A run\<close>

fun run_steps ::
  "'v digester \<Rightarrow> ('b, 'v) backend \<Rightarrow> 'c control \<Rightarrow> profile \<Rightarrow> step list \<Rightarrow> ('b, 'v, 'c, unit) action" where
  "run_steps D B K profile [] = ret ()"
| "run_steps D B K profile (st # rest) =
     seq (run_step D B K profile st) (\<lambda>_. run_steps D B K profile rest)"

record ('b, 'v) engine =
  eng_backend :: 'b
  eng_progress :: "'v progress"

definition run_with_control ::
  "'v digester \<Rightarrow> ('b, 'v) backend \<Rightarrow> 'c control \<Rightarrow> step list \<Rightarrow> profile \<Rightarrow> 'c \<Rightarrow> ('b, 'v) engine
   \<Rightarrow> (run_report, engine_error) result \<times> ('b, 'v) engine \<times> 'c" where
  "run_with_control D B K steps profile c e =
     (let (r, s) = run_steps D B K profile steps
            \<lparr>rs_backend = eng_backend e, rs_progress = eng_progress e,
             rs_report = run_report_default, rs_control = c\<rparr> in
      (case r of Ok _ \<Rightarrow> Ok (rs_report s) | Err x \<Rightarrow> Err x,
       \<lparr>eng_backend = rs_backend s, eng_progress = rs_progress s\<rparr>,
       rs_control s))"

definition run_with_consent ::
  "'v digester \<Rightarrow> ('b, 'v) backend \<Rightarrow> (step \<Rightarrow> 'c \<Rightarrow> bool \<times> 'c) \<Rightarrow> step list \<Rightarrow> profile \<Rightarrow> 'c
   \<Rightarrow> ('b, 'v) engine \<Rightarrow> (run_report, engine_error) result \<times> ('b, 'v) engine \<times> 'c" where
  "run_with_consent D B ask_consent =
     run_with_control D B \<lparr>consent = ask_consent, cancelled = \<lambda>c. (False, c)\<rparr>"

definition engine_run ::
  "'v digester \<Rightarrow> ('b, 'v) backend \<Rightarrow> step list \<Rightarrow> profile \<Rightarrow> ('b, 'v) engine
   \<Rightarrow> (run_report, engine_error) result \<times> ('b, 'v) engine" where
  "engine_run D B steps profile e =
     (let (r, e', _) = run_with_consent D B (\<lambda>_ c. (False, c)) steps profile () e in (r, e'))"

end
