(* ===== verification/Pagefile_Live.thy ===== *)
theory Pagefile_Live
  imports Pagefile_Store Engine
begin

text \<open>
  The native pagefile operations under the scoped privilege (\<open>pagefile_native.rs\<close>) and the pagefile steps
  of the live backend (\<open>pagefile.rs\<close>, \<open>backend/capture_helpers.rs\<close>), with the theorems on the native
  transaction: foreign settings survive, a created setting is removed exactly, an updated one is not.
\<close>

section \<open>The scoped privilege\<close>

text \<open>
  \<open>SeCreatePagefilePrivilege\<close> is enabled for an operation and the state before is put back at its end,
  whatever the result; a failure to put it back is ignored.
\<close>

definition enable_pagefile_privilege :: "(cim, string, bool) io" where
  "enable_pagefile_privilege =
     io_bind (wmi_call ''open process token for SeCreatePagefilePrivilege: '' (io_ret ())) (\<lambda>_.
     io_bind (wmi_call ''resolve SeCreatePagefilePrivilege: '' (io_ret ())) (\<lambda>_.
     wmi_call ''enable SeCreatePagefilePrivilege: '' (\<lambda>w.
       if \<not> cim_privilege_held w
       then (Err ''SeCreatePagefilePrivilege is not assigned to the elevated token'', w)
       else if \<not> cim_prior_complete w
       then (Err ''SeCreatePagefilePrivilege did not return a complete prior token state'',
             w\<lparr>cim_privilege_enabled := True\<rparr>)
       else (Ok (cim_privilege_enabled w), w\<lparr>cim_privilege_enabled := True\<rparr>))))"

definition restore_privilege :: "bool \<Rightarrow> cim \<Rightarrow> cim" where
  "restore_privilege previous w =
     snd (wmi_call [] (\<lambda>w. (Ok (), w\<lparr>cim_privilege_enabled := previous\<rparr>)) w)"

definition with_pagefile_privilege :: "(cim, string, 'a) io \<Rightarrow> (cim, string, 'a) io" where
  "with_pagefile_privilege m =
     io_bind enable_pagefile_privilege (\<lambda>previous w.
       case m w of (r, w') \<Rightarrow> (r, restore_privilege previous w'))"

section \<open>The native operations\<close>

definition native_pagefile_inventory :: "(cim, string, pagefile_inventory) io" where
  "native_pagefile_inventory = on_mta (io_bind services (\<lambda>_. wmi_inventory))"

definition native_pagefile_begin :: "pagefile_binding \<Rightarrow> (cim, string, created_pagefile_token option) io" where
  "native_pagefile_begin b =
     on_mta (with_pagefile_privilege (io_bind services (\<lambda>_.
       io_match (begin_pagefile_mutation wmi_pagefile_store b) (\<lambda>r.
       case r of
         Ok created \<Rightarrow> io_ret created
       | Err e \<Rightarrow>
           io_match (compensate_pagefile_mutation wmi_pagefile_store b None) (\<lambda>rollback.
           case rollback of
             Ok _ \<Rightarrow> io_fail (''P1:8 mutation: '' @ e @ ''; target and automatic-management compensation completed'')
           | Err f \<Rightarrow> io_fail (''P1:8 mutation: '' @ e @ ''; compensation also failed: '' @ f))))))"

definition native_pagefile_verify ::
  "pagefile_binding \<Rightarrow> created_pagefile_token option \<Rightarrow> (cim, string, unit) io" where
  "native_pagefile_verify b created =
     on_mta (io_bind services (\<lambda>_. verify_pagefile_mutation wmi_pagefile_store b created))"

definition native_pagefile_compensate ::
  "pagefile_binding \<Rightarrow> created_pagefile_token option \<Rightarrow> (cim, string, unit) io" where
  "native_pagefile_compensate b created =
     on_mta (with_pagefile_privilege (io_bind services (\<lambda>_.
       compensate_pagefile_mutation wmi_pagefile_store b created)))"

definition native_pagefile_restore :: "'v backup_entry \<Rightarrow> (cim, string, unit) io" where
  "native_pagefile_restore entry =
     on_mta (with_pagefile_privilege (io_bind services (\<lambda>_.
       restore_pagefile_transaction wmi_pagefile_store entry)))"

section \<open>The steps of the live backend\<close>

text \<open>
  The parts of \<open>LiveBackend\<close> these steps use; \<open>'d\<close> is the trusted working directory, whose backup file
  is read and written by the two parameters.
\<close>

record ('v, 'd) pagefile_backend =
  pl_cim :: cim
  pl_work_dir :: 'd
  pl_state :: "'v state"
  pl_bindings :: "(string, pagefile_binding) fmap"
  pl_created :: "(string, created_pagefile_token) fmap"
  pl_captured_steps :: "string fset"
  pl_locked :: bool

definition in_cim :: "(cim, 'e, 'a) io \<Rightarrow> (('v, 'd) pagefile_backend, 'e, 'a) io" where
  "in_cim m b = (case m (pl_cim b) of (r, c) \<Rightarrow> (r, b\<lparr>pl_cim := c\<rparr>))"

definition in_work_dir :: "('d, 'e, 'a) io \<Rightarrow> (('v, 'd) pagefile_backend, 'e, 'a) io" where
  "in_work_dir m b = (case m (pl_work_dir b) of (r, d) \<Rightarrow> (r, b\<lparr>pl_work_dir := d\<rparr>))"

definition io_update :: "('w \<Rightarrow> 'w) \<Rightarrow> ('w, 'e, unit) io" where
  "io_update f w = (Ok (), f w)"

definition PAGEFILE_ADVISORY :: string where
  "PAGEFILE_ADVISORY = ''Windows system-managed pagefile is the baseline. Enable it manually or provide an ''
     @ ''explicit pagefile_mb experiment override.''"

definition inspect_pagefile :: "'v state \<Rightarrow> (cim, string, inspection) io" where
  "inspect_pagefile st =
     io_match native_pagefile_inventory (\<lambda>r.
     case r of
       Err e \<Rightarrow> io_ret InspectUnsupported
     | Ok inventory \<Rightarrow>
         if st_pagefile_mb st = 0
         then io_ret (if automatic_managed inventory then InspectSatisfied else InspectAdvisory PAGEFILE_ADVISORY)
         else if physical_ram_mb inventory = 0 then io_ret InspectUnsupported
         else io_bind (io_check (capture_pagefile_binding ''P1:8'' st inventory)) (\<lambda>_. io_ret InspectNeedsApply))"

definition capture_pagefile_backup ::
  "string \<Rightarrow> string \<Rightarrow> (('v, 'd) pagefile_backend, string, 'v backup_entry list) io" where
  "capture_pagefile_backup timestamp k =
     io_match (in_cim native_pagefile_inventory) (\<lambda>r.
     case r of
       Err e \<Rightarrow> io_bind (io_update (pl_locked_update (\<lambda>_. False))) (\<lambda>_. io_fail e)
     | Ok inventory \<Rightarrow> (\<lambda>b.
         if st_pagefile_mb (pl_state b) = 0 \<and> 32 * 1024 \<le> physical_ram_mb inventory
         then (Err (''P1:8 is inapplicable with 32 GiB or more physical RAM and no explicit pagefile override''),
               b\<lparr>pl_locked := False\<rparr>)
         else
           case capture_pagefile_binding k (pl_state b) inventory of
             Err e \<Rightarrow> (Err e, b\<lparr>pl_locked := False\<rparr>)
           | Ok binding \<Rightarrow>
               (Ok [BackupPagefileTransaction (pagefile_backup_entry timestamp binding)],
                b\<lparr>pl_bindings := fmupd k binding (pl_bindings b),
                  pl_captured_steps := finsert k (pl_captured_steps b)\<rparr>)))"

definition apply_pagefile_action ::
  "('d, string, 'v backup_file) io \<Rightarrow> ('v backup_file \<Rightarrow> ('d, string, unit) io) \<Rightarrow> string
     \<Rightarrow> (('v, 'd) pagefile_backend, string, unit) io" where
  "apply_pagefile_action read_json write_json k b =
     (case fmlookup (pl_bindings b) k of
        None \<Rightarrow> (Err ''P1:8 mutation requires a captured CIM pagefile binding'', b)
      | Some binding \<Rightarrow>
          io_bind (in_cim (native_pagefile_begin binding)) (\<lambda>started.
          case started of
            None \<Rightarrow> io_ret ()
          | Some created \<Rightarrow>
              io_match (in_work_dir (persist_created_pagefile_token read_json write_json created)) (\<lambda>r.
              case r of
                Ok _ \<Rightarrow> io_update (\<lambda>b. b\<lparr>pl_created := fmupd k created (pl_created b)\<rparr>)
              | Err e \<Rightarrow>
                  io_match (in_cim (native_pagefile_compensate binding (Some created))) (\<lambda>rollback.
                  io_fail (compound_pagefile_error ''persist exact created pagefile token'' e rollback)))) b)"

definition verify_pagefile_action :: "string \<Rightarrow> (('v, 'd) pagefile_backend, string, unit) io" where
  "verify_pagefile_action k b =
     (case fmlookup (pl_bindings b) k of
        None \<Rightarrow> (Err ''P1:8 verification requires a captured CIM pagefile binding'', b)
      | Some binding \<Rightarrow>
          let created = fmlookup (pl_created b) k in
          io_match (in_cim (native_pagefile_verify binding created)) (\<lambda>r.
          case r of
            Ok _ \<Rightarrow> io_ret ()
          | Err e \<Rightarrow>
              io_match (in_cim (native_pagefile_compensate binding created)) (\<lambda>rollback.
              io_fail (compound_pagefile_error ''verify P1:8 postconditions'' e rollback))) b)"

section \<open>What the native operations keep\<close>

text \<open>The security result, the call clock and the privilege are no part of the repository.\<close>

lemma same_objects_io:
  "io_within same_objects enable_pagefile_privilege" "io_within same_objects co_initialize_security"
  "io_within same_objects services"
proof -
  show "io_within same_objects enable_pagefile_privilege" "io_within same_objects services"
    unfolding enable_pagefile_privilege_def services_def services_at_def
    by (intro io_within_intros; simp add: io_within_def same_objects_def)+
  show "io_within same_objects co_initialize_security"
    by (auto simp: io_within_def co_initialize_security_def same_objects_def wmi_call_def io_ret_def Let_def
        split: option.splits)
qed

lemma same_objects_trans: "same_objects a b \<Longrightarrow> same_objects b c \<Longrightarrow> same_objects a c"
  by (simp add: same_objects_def)

lemma restore_privilege_same: "same_objects w (restore_privilege p w)"
  by (auto simp: restore_privilege_def wmi_call_def same_objects_def Let_def split: option.split)

text \<open>Running an action between actions that keep the repository.\<close>

definition around :: "(cim, 'e, 'a) io \<Rightarrow> (cim, 'e, 'a) io \<Rightarrow> bool" where
  "around m n \<longleftrightarrow> (\<forall>w r w'. n w = (r, w') \<longrightarrow>
     ((\<exists>e. r = Err e) \<and> same_objects w w') \<or> (\<exists>w0 w1. same_objects w w0 \<and> m w0 = (r, w1) \<and> same_objects w1 w'))"

lemma around_bind:
  assumes "io_within same_objects k" and "\<And>x. around m (f x)"
  shows "around m (io_bind k f)"
  unfolding around_def
proof (intro allI impI)
  fix w r w' assume run: "io_bind k f w = (r, w')"
  obtain q w0 where k: "k w = (q, w0)" by fastforce
  note w0 = io_withinD [OF assms(1) k]
  show "((\<exists>e. r = Err e) \<and> same_objects w w') \<or> (\<exists>w0 w1. same_objects w w0 \<and> m w0 = (r, w1) \<and> same_objects w1 w')"
  proof (cases q)
    case (Ok x)
    then have "f x w0 = (r, w')" using run k by (simp add: io_bind_def)
    then show ?thesis using assms(2) [of x] w0 unfolding around_def by (blast intro: same_objects_trans)
  next
    case (Err e)
    then show ?thesis using run k w0 by (auto simp: io_bind_def)
  qed
qed

lemma around_self: "around m m"
  using same_objects_order(1) by (auto simp: around_def reflp_def)

lemma around_privilege:
  assumes "around m k"
  shows "around m (\<lambda>w. case k w of (r, w') \<Rightarrow> (r, restore_privilege p w'))"
  unfolding around_def
proof (intro allI impI)
  fix w r w' assume run: "(case k w of (r, w') \<Rightarrow> (r, restore_privilege p w')) = (r, w')"
  obtain v where k: "k w = (r, v)" and w': "w' = restore_privilege p v" using run by (cases "k w") auto
  have "same_objects v w'" unfolding w' by (rule restore_privilege_same)
  then show "((\<exists>e. r = Err e) \<and> same_objects w w') \<or> (\<exists>w0 w1. same_objects w w0 \<and> m w0 = (r, w1) \<and> same_objects w1 w')"
    using assms k unfolding around_def by (blast intro: same_objects_trans)
qed

lemma around_native: "around m (on_mta (with_pagefile_privilege (io_bind services (\<lambda>_. m))))"
  unfolding on_mta_def with_pagefile_privilege_def
  by (intro around_bind around_privilege around_self same_objects_io io_within_intros)

lemma nativeE:
  assumes "on_mta (with_pagefile_privilege (io_bind services (\<lambda>_. m))) w = (r, w')"
  obtains (stopped) e where "r = Err e" and "same_objects w w'"
    | (ran) w0 w1 where "same_objects w w0" and "m w0 = (r, w1)" and "same_objects w1 w'"
  using assms around_native [of m] unfolding around_def by blast

section \<open>The native transaction\<close>

lemma capture_target:
  assumes "capture_pagefile_binding k st i = Ok b" and "pb_target b = Some t"
  shows "eq_ignore_ascii_case (ps_path t) (pb_target_path b)"
  using capture_binding_Ok(5) [OF assms(1), unfolded assms(2), symmetric] by (auto simp: find_Some_iff)

text \<open>
  C13: Whatever the call clock lets fail, beginning the pagefile mutation (its own compensation included)
  leaves every pagefile setting with another path than the target exactly as it was.
\<close>

theorem pagefile_mutation_keeps_foreign_settings:
  assumes "capture_pagefile_binding k st i = Ok b" and "sound_repository w"
    and "native_pagefile_begin b w = (r, w')"
  shows "sound_repository w' \<and>
    filter (\<lambda>x. \<not> eq_ignore_ascii_case (ps_path x) (pb_target_path b)) (pi_settings (pagefiles_of w')) =
    filter (\<lambda>x. \<not> eq_ignore_ascii_case (ps_path x) (pb_target_path b)) (pi_settings (pagefiles_of w))"
proof -
  note keeps = wmi.begin_keeps_foreign [OF capture_target [OF assms(1)]]
    wmi.compensate_keeps_foreign [OF capture_target [OF assms(1)], of None]
  show ?thesis
    using assms(3) unfolding native_pagefile_begin_def
  proof (cases rule: nativeE)
    case (stopped e)
    then show ?thesis using sound_same assms(2) by simp
  next
    case (ran w0 w1)
    have "io_within (wmi.keeps_foreign (pb_target_path b)) (io_match (begin_pagefile_mutation wmi_pagefile_store b) (\<lambda>r.
       case r of
         Ok created \<Rightarrow> io_ret created
       | Err e \<Rightarrow>
           io_match (compensate_pagefile_mutation wmi_pagefile_store b None) (\<lambda>rollback.
           case rollback of
             Ok _ \<Rightarrow> io_fail (''P1:8 mutation: '' @ e @ ''; target and automatic-management compensation completed'')
           | Err f \<Rightarrow> io_fail (''P1:8 mutation: '' @ e @ ''; compensation also failed: '' @ f))))"
      using keeps by (auto intro!: io_within_intros wmi.keeps_foreign_order split: result.split)
    then have "wmi.keeps_foreign (pb_target_path b) w0 w1" using ran(2) by (rule io_withinD)
    then show ?thesis
      using sound_same ran(1,3) assms(2) by (simp add: wmi.keeps_foreign_def wmi.foreign_def)
  qed
qed


lemma native_begin_Ok:
  assumes "native_pagefile_begin b w = (Ok created, w1)"
  obtains v v1 where "same_objects w v" and "begin_pagefile_mutation wmi_pagefile_store b v = (Ok created, v1)"
    and "same_objects v1 w1"
  using assms unfolding native_pagefile_begin_def
proof (cases rule: nativeE)
  case (ran v v1)
  obtain r u where r: "begin_pagefile_mutation wmi_pagefile_store b v = (r, u)" by fastforce
  show thesis
  proof (cases r)
    case (Ok x)
    then show ?thesis using ran r that [of v v1] by (simp add: io_match_def io_ret_def)
  next
    case (Err e)
    obtain q u' where "compensate_pagefile_mutation wmi_pagefile_store b None u = (q, u')" by fastforce
    then show ?thesis using ran(2) r Err by (cases q) (simp_all add: io_match_def io_fail_def)
  qed
qed simp

text \<open>
  C12: A pagefile setting that the mutation created is removed again: restoring the journalled entry, when
  it succeeds, leaves the inventory that was captured, the automatic management included.
\<close>

theorem created_pagefile_is_removed_again:
  assumes "sound_repository w" and "capture_pagefile_binding k st (pagefiles_of w) = Ok b"
    and "native_pagefile_begin b w = (Ok (Some c), w1)"
    and "entry = journal_created_token c (pagefile_backup_entry timestamp b)"
    and "native_pagefile_restore (BackupPagefileTransaction entry) w1 = (Ok (), w2)"
  shows "sound_repository w2 \<and> pagefiles_of w2 = pagefiles_of w"
proof -
  obtain v v1 where v: "same_objects w v" "begin_pagefile_mutation wmi_pagefile_store b v = (Ok (Some c), v1)"
    "same_objects v1 w1" using assms(3) by (rule native_begin_Ok)
  obtain u u1 where u: "same_objects w1 u" "restore_pagefile_transaction wmi_pagefile_store (BackupPagefileTransaction entry) u = (Ok (), u1)"
    "same_objects u1 w2"
    using assms(5) unfolding native_pagefile_restore_def by (cases rule: nativeE) auto
  note vs = sound_same [OF v(1)] and us = sound_same [OF v(3)] sound_same [OF u(1)] sound_same [OF u(3)]
  have w0: "sound_repository v" "pagefiles_of v = pb_before b"
    using vs assms(1) capture_binding_Ok(1) [OF assms(2)] by simp_all
  have "sound_repository v1" using wmi.begin_create [OF w0(1) v(2)] by simp
  then have "sound_repository u" "pagefiles_of u = pagefiles_of v1" using us by simp_all
  then have "sound_repository u1 \<and> pagefiles_of u1 = pagefiles_of v"
    by (rule wmi.create_restore [OF w0 v(2) _ _ assms(4) u(2)])
  then show ?thesis using us vs by simp
qed

text \<open>
  C11: An existing pagefile setting that the mutation resized is never put back: the store compares the live
  sizes with the captured ones before it writes, so after a mutation that changed them the compensation and
  the restoration always fail, and neither touches the resized setting.
\<close>

theorem resized_pagefile_is_never_put_back:
  assumes "sound_repository w" and "capture_pagefile_binding k st (pagefiles_of w) = Ok b"
    and "native_pagefile_begin b w = (Ok None, w1)" and "pb_target b = Some t"
    and "ps_initial_size t \<noteq> pb_initial_size b \<or> ps_maximum_size t \<noteq> pb_maximum_size b"
    and "entry = pagefile_backup_entry timestamp b"
  shows "resize t (pb_initial_size b) (pb_maximum_size b) t \<in> set (pi_settings (pagefiles_of w1))
    \<and> (case native_pagefile_compensate b None w1 of (r, w2) \<Rightarrow>
         \<not> is_ok r \<and> pi_settings (pagefiles_of w2) = pi_settings (pagefiles_of w1))
    \<and> (case native_pagefile_restore (BackupPagefileTransaction entry) w1 of (r, w2) \<Rightarrow>
         \<not> is_ok r \<and> pagefiles_of w2 = pagefiles_of w1)"
proof -
  obtain v v1 where v: "same_objects w v" "begin_pagefile_mutation wmi_pagefile_store b v = (Ok None, v1)"
    "same_objects v1 w1" using assms(3) by (rule native_begin_Ok)
  note vs = sound_same [OF v(1)] sound_same [OF v(3)]
  have v_ok: "sound_repository v" using vs assms(1) by simp
  obtain w1_ok: "sound_repository v1" and t: "t \<in> set (pi_settings (pagefiles_of v))"
    and s: "pi_settings (pagefiles_of v1) = map (resize t (pb_initial_size b) (pb_maximum_size b)) (pi_settings (pagefiles_of v))"
    using wmi.begin_update [OF v_ok v(2)] assms(4) by (metis option.inject)
  have found: "find (\<lambda>s. eq_ignore_ascii_case (ps_path s) (pb_target_path b)) (pi_settings (pb_before b)) = Some t"
    using capture_binding_Ok(1,5) [OF assms(2)] assms(4) by simp
  have "\<not> is_ok r \<and> pi_settings (pagefiles_of w2) = pi_settings (pagefiles_of w1)"
    if "native_pagefile_compensate b None w1 = (r, w2)" for r w2
    using that unfolding native_pagefile_compensate_def
  proof (cases rule: nativeE)
    case (stopped e)
    then show ?thesis using sound_same by simp
  next
    case (ran u u1)
    note us = sound_same [OF ran(1)] sound_same [OF ran(3)]
    have "sound_repository u" "pagefiles_of u = pagefiles_of v1" using us vs w1_ok by simp_all
    then have "(\<exists>e. r = Err e) \<and> pi_settings (pagefiles_of u1) = pi_settings (pagefiles_of u)"
      by (rule wmi.updated_is_not_compensated [OF v_ok v(2) _ _ assms(4,5) ran(2)])
    then show ?thesis using us by auto
  qed
  moreover have "\<not> is_ok r \<and> pagefiles_of w2 = pagefiles_of w1"
    if "native_pagefile_restore (BackupPagefileTransaction entry) w1 = (r, w2)" for r w2
    using that unfolding native_pagefile_restore_def
  proof (cases rule: nativeE)
    case (stopped e)
    then show ?thesis using sound_same by simp
  next
    case (ran u u1)
    note us = sound_same [OF ran(1)] sound_same [OF ran(3)]
    have "sound_repository u" "pagefiles_of u = pagefiles_of v1" using us vs w1_ok by simp_all
    then have "\<exists>e w2. restore_pagefile_transaction wmi_pagefile_store (BackupPagefileTransaction entry) u = (Err e, w2)
        \<and> pagefiles_of w2 = pagefiles_of u"
      by (rule wmi.updated_is_not_restored [OF v_ok v(2) _ _ assms(4,5) found assms(6)])
    then show ?thesis using us ran(2) by auto
  qed
  moreover have "resize t (pb_initial_size b) (pb_maximum_size b) t \<in> set (pi_settings (pagefiles_of w1))"
    using s t vs by simp
  ultimately show ?thesis by (auto split: prod.split)
qed

section \<open>A concrete repository\<close>

definition sample_object :: "string \<Rightarrow> string \<Rightarrow> (string \<times> cim_value) list \<Rightarrow> cim_object" where
  "sample_object c path ps =
     fmap_of_list ([(''__CLASS'', CimString c), (''__PATH'', CimString path), (''__RELPATH'', CimString path)] @ ps)"

definition sample_pagefile :: "u32 \<Rightarrow> string \<Rightarrow> cim_object" where
  "sample_pagefile mb name =
     sample_object PAGEFILE_CLASS (''P='' @ name)
       [(''Name'', CimString name), (''InitialSize'', CimUint32 mb), (''MaximumSize'', CimUint32 mb)]"

definition sample_cim :: "bool \<Rightarrow> cim_object list \<Rightarrow> nat \<Rightarrow> (unit, string) result option \<Rightarrow> bool \<Rightarrow> cim" where
  "sample_cim automatic pagefiles calls security enabled =
     \<lparr>cim_objects =
        [sample_object COMPUTER_CLASS ''PC'' [(''AutomaticManagedPagefile'', CimBoolean (if automatic then - 1 else 0))],
         sample_object MEMORY_CLASS ''M0'' [(''Capacity'', CimUint64 ''1048576'')],
         sample_object OS_CLASS ''OS'' [(''SystemDrive'', CimString ''C:'')],
         sample_object LOGICAL_DISK_CLASS ''D0'' [(''DeviceID'', CimString ''C:''), (''FreeSpace'', CimUint64 ''8388608'')]]
        @ pagefiles,
      cim_identity = (\<lambda>name. (''P='' @ name, ''P='' @ name)), cim_calls = calls, cim_fault = (\<lambda>_. None),
      cim_security = security, cim_privilege_held = True, cim_privilege_enabled = enabled, cim_prior_complete = True\<rparr>"

definition sample_pagefile_state :: "unit state" where
  "sample_pagefile_state = state_default\<lparr>st_pagefile_mb := 4\<rparr>"

definition c_pagefile :: string where
  "c_pagefile = ''C:'' @ [CHR 0x5C] @ ''pagefile.sys''"

definition d_pagefile :: cim_object where
  "d_pagefile = sample_pagefile 2 ''D:p''"

lemmas sample_defs = sample_object_def sample_pagefile_def c_pagefile_def d_pagefile_def class_defs

lemma sample_instances:
  "instances_of COMPUTER_CLASS (cim_objects (sample_cim a ps n s e)) =
     sample_object COMPUTER_CLASS ''PC'' [(''AutomaticManagedPagefile'', CimBoolean (if a then - 1 else 0))]
     # instances_of COMPUTER_CLASS ps"
  "instances_of MEMORY_CLASS (cim_objects (sample_cim a ps n s e)) =
     sample_object MEMORY_CLASS ''M0'' [(''Capacity'', CimUint64 ''1048576'')] # instances_of MEMORY_CLASS ps"
  "instances_of OS_CLASS (cim_objects (sample_cim a ps n s e)) =
     sample_object OS_CLASS ''OS'' [(''SystemDrive'', CimString ''C:'')] # instances_of OS_CLASS ps"
  "instances_of LOGICAL_DISK_CLASS (cim_objects (sample_cim a ps n s e)) =
     sample_object LOGICAL_DISK_CLASS ''D0'' [(''DeviceID'', CimString ''C:''), (''FreeSpace'', CimUint64 ''8388608'')]
     # instances_of LOGICAL_DISK_CLASS ps"
  "instances_of PAGEFILE_CLASS (cim_objects (sample_cim a ps n s e)) = instances_of PAGEFILE_CLASS ps"
  by (simp_all add: sample_cim_def instances_of_def sample_defs class_of_def fmlookup_of_list)


text \<open>A repository in which no call fails.\<close>

lemma wmi_call_quiet: "cim_fault w = (\<lambda>_. None) \<Longrightarrow> wmi_call action m w = m (w\<lparr>cim_calls := cim_calls w + 1\<rparr>)"
  by (simp add: wmi_call_def Let_def)

lemma next_object_quiet:
  "cim_fault w = (\<lambda>_. None) \<Longrightarrow> next_object x w = (Ok x, w\<lparr>cim_calls := cim_calls w + 1\<rparr>)"
  by (simp add: next_object_def io_map_err_def wmi_call_quiet io_ret_def)

lemma each_next_object_quiet:
  "cim_fault w = (\<lambda>_. None) \<Longrightarrow>
     io_each next_object xs w = (Ok xs, w\<lparr>cim_calls := cim_calls w + length xs\<rparr>)"
  by (induction xs arbitrary: w) (simp_all add: next_object_quiet io_bind_def io_ret_def)

lemma wmi_query_quiet:
  "cim_fault w = (\<lambda>_. None) \<Longrightarrow> wmi_query c w =
     (Ok (instances_of c (cim_objects w)), w\<lparr>cim_calls := cim_calls w + 3 + length (instances_of c (cim_objects w))\<rparr>)"
  by (simp add: wmi_query_def io_bind_def wmi_call_quiet io_ret_def each_next_object_quiet next_object_quiet)

definition sample_inventory :: "bool \<Rightarrow> pagefile_setting list \<Rightarrow> pagefile_inventory" where
  "sample_inventory a ss =
     \<lparr>automatic_managed = a, computer_object_path = ''PC'', computer_relative_path = ''PC'', system_drive = ''C:'',
      physical_ram_mb = 1, free_space_mb = 8, pi_settings = ss\<rparr>"

lemma sample_fault: "cim_fault (sample_cim a ps n s e) = (\<lambda>_. None)"
  and sample_calls: "cim_calls (sample_cim a ps n s e) = n"
  and sample_tick: "(sample_cim a ps n s e)\<lparr>cim_calls := m\<rparr> = sample_cim a ps m s e"
  by (simp_all add: sample_cim_def)

definition pagefile_rows :: "cim_object list \<Rightarrow> bool" where
  "pagefile_rows ps \<longleftrightarrow> list_all (\<lambda>x. class_of x = Some (CimString PAGEFILE_CLASS)) ps"

lemma pagefile_rows_instances:
  "pagefile_rows ps \<Longrightarrow> instances_of c ps = (if c = PAGEFILE_CLASS then ps else [])"
  by (induction ps) (auto simp: pagefile_rows_def instances_of_def)

lemma sample_rows:
  "computer_of_rows [sample_object COMPUTER_CLASS ''PC'' [(''AutomaticManagedPagefile'', CimBoolean (if a then - 1 else 0))]]
     = Ok (a, ''PC'', ''PC'')"
  "ram_of_rows [sample_object MEMORY_CLASS ''M0'' [(''Capacity'', CimUint64 ''1048576'')]] = Ok 1"
  "drive_of_rows [sample_object OS_CLASS ''OS'' [(''SystemDrive'', CimString ''C:'')]] = Ok ''C:''"
  "free_space_of_rows ''C:'' [sample_object LOGICAL_DISK_CLASS ''D0''
     [(''DeviceID'', CimString ''C:''), (''FreeSpace'', CimUint64 ''8388608'')]] = Ok 8"
  by (simp_all add: computer_of_rows_def ram_of_rows_def drive_of_rows_def free_space_of_rows_def require_class_def
      cim_string_def cim_boolean_def cim_uint64_def cim_get_def ok_or_def sample_object_def fmlookup_of_list
      class_defs parse_unsigned_def is_ascii_digit_def byte_def eq_ignore_ascii_case_def)

lemma sample_inventory_call:
  assumes "pagefile_rows ps" and "collect_results setting_of_object ps = Ok ss"
  shows "wmi_inventory (sample_cim a ps n s e) = (Ok (sample_inventory a ss), sample_cim a ps (19 + n + length ps) s e)"
proof -
  note rows = pagefile_rows_instances [OF assms(1)]
  have other: "instances_of COMPUTER_CLASS ps = []" "instances_of MEMORY_CLASS ps = []" "instances_of OS_CLASS ps = []"
    "instances_of LOGICAL_DISK_CLASS ps = []" "instances_of PAGEFILE_CLASS ps = ps"
    by (simp_all add: rows class_defs)
  show ?thesis
    using assms(2)
    by (simp add: wmi_inventory_def io_bind_def wmi_query_quiet sample_fault sample_calls sample_tick sample_instances other
        io_check_def sample_rows io_ret_def sample_inventory_def)
qed


lemma sample_set_automatic:
  assumes "list_all (\<lambda>x. path_of x \<noteq> Some (CimString ''PC'')) ps" and "expected = None \<or> expected = Some a"
  shows "wmi_set_automatic ''PC'' ''PC'' expected v (sample_cim a ps n s e) = (Ok (), sample_cim v ps (n + 2) s e)"
proof -
  let ?pc = "\<lambda>a. sample_object COMPUTER_CLASS ''PC'' [(''AutomaticManagedPagefile'', CimBoolean (if a then - 1 else 0))]"
  have item: "wmi_object ''PC'' (sample_cim a ps n s e) = (Ok (?pc a), sample_cim a ps (n + 1) s e)"
    by (simp add: wmi_object_def wmi_call_quiet sample_fault sample_calls sample_tick ok_or_def)
      (simp add: sample_cim_def path_of_def sample_object_def fmlookup_of_list)
  have put: "put_bool ''AutomaticManagedPagefile'' v (?pc a) = ?pc v"
    by (rule fmap_ext) (auto simp: put_bool_def sample_object_def fmlookup_of_list)
  have exact: "exact_computer ''PC'' ''PC'' expected (sample_cim a ps n s e) = (Ok (?pc a), sample_cim a ps (n + 1) s e)"
    using assms(2)
    by (auto simp: exact_computer_def io_bind_def item Let_def io_check_def is_value_def cim_string_def cim_boolean_def
        cim_get_def ok_or_def sample_object_def fmlookup_of_list class_defs io_ret_def)
  have "map (\<lambda>y. if path_of y = Some (CimString ''PC'') then x else y) ps = ps" for x
    using assms(1) by (intro map_idI) (auto simp: list_all_iff)
  then have "update_instance ''UPDATE_ONLY AutomaticManagedPagefile: '' (?pc v) (sample_cim a ps (n + 1) s e)
      = (Ok (), sample_cim v ps (n + 2) s e)"
    by (simp add: update_instance_def wmi_call_quiet sample_fault sample_calls sample_tick)
      (simp add: sample_cim_def path_of_def sample_object_def fmlookup_of_list)
  then show ?thesis by (simp add: wmi_set_automatic_def io_bind_def exact put)
qed

text \<open>The pagefile of the system drive missing: it is created and removed again.\<close>

definition d_setting :: pagefile_setting where
  "d_setting = \<lparr>ps_path = ''D:p'', ps_initial_size = 2, ps_maximum_size = 2,
     ps_object_path = ''P=D:p'', ps_relative_path = ''P=D:p''\<rparr>"

definition c_setting :: "u32 \<Rightarrow> pagefile_setting" where
  "c_setting mb = \<lparr>ps_path = c_pagefile, ps_initial_size = mb, ps_maximum_size = mb,
     ps_object_path = ''P='' @ c_pagefile, ps_relative_path = ''P='' @ c_pagefile\<rparr>"

lemma sample_pagefile_setting:
  "uint mb < 2 ^ 31 \<Longrightarrow> setting_of_object (sample_pagefile mb name) =
     Ok \<lparr>ps_path = name, ps_initial_size = mb, ps_maximum_size = mb,
        ps_object_path = ''P='' @ name, ps_relative_path = ''P='' @ name\<rparr>"
  by (simp add: setting_of_object_Ok sample_pagefile_def sample_object_def class_of_def path_of_def fmlookup_of_list
      class_defs sint_small)

lemma sample_pagefile_rows: "pagefile_rows (map (\<lambda>(mb, name). sample_pagefile mb name) xs)"
  by (induction xs) (auto simp: pagefile_rows_def sample_pagefile_def sample_object_def class_of_def fmlookup_of_list)

lemma sample_settings: "pagefile_rows [d_pagefile]" "collect_results setting_of_object [d_pagefile] = Ok [d_setting]"
  "pagefile_rows [d_pagefile, sample_pagefile mb c_pagefile]"
  "uint mb < 2 ^ 31 \<Longrightarrow>
     collect_results setting_of_object [d_pagefile, sample_pagefile mb c_pagefile] = Ok [d_setting, c_setting mb]"
  using sample_pagefile_rows [of "[(2, ''D:p'')]"] sample_pagefile_rows [of "[(2, ''D:p''), (mb, c_pagefile)]"]
  by (simp_all add: d_pagefile_def sample_pagefile_setting d_setting_def c_setting_def)

lemma sample_path: "path_of (sample_pagefile mb name) = Some (CimString (''P='' @ name))"
  by (simp add: sample_pagefile_def sample_object_def path_of_def fmlookup_of_list)

lemma sample_paths: "list_all (\<lambda>x. path_of x \<noteq> Some (CimString ''PC'')) [d_pagefile]"
  "list_all (\<lambda>x. path_of x \<noteq> Some (CimString ''PC'')) [d_pagefile, sample_pagefile mb c_pagefile]"
  by (simp_all add: d_pagefile_def sample_path)

lemma sample_object_call:
  "wmi_object (''P='' @ c_pagefile) (sample_cim a [d_pagefile, sample_pagefile mb c_pagefile] n s e) =
     (Ok (sample_pagefile mb c_pagefile), sample_cim a [d_pagefile, sample_pagefile mb c_pagefile] (n + 1) s e)"
  by (simp add: wmi_object_def wmi_call_quiet sample_fault sample_calls sample_tick ok_or_def)
    (simp add: sample_cim_def path_of_def sample_defs fmlookup_of_list)

lemma exact_pagefile_accepts:
  assumes "wmi_object (ps_object_path s) w = (Ok item, w1)" and "setting_of_object item = Ok s"
  shows "exact_pagefile s w = (Ok item, w1)"
proof -
  have "cim_string ''__CLASS'' item = Ok PAGEFILE_CLASS" "cim_string ''__PATH'' item = Ok (ps_object_path s)"
    "cim_string ''__RELPATH'' item = Ok (ps_relative_path s)" "cim_string ''Name'' item = Ok (ps_path s)"
    "cim_uint32 ''InitialSize'' item = Ok (ps_initial_size s)" "cim_uint32 ''MaximumSize'' item = Ok (ps_maximum_size s)"
    using assms(2) by (simp_all add: setting_of_object_Ok cim_string_Ok cim_uint32_Ok class_of_def path_of_def)
  then show ?thesis by (simp add: exact_pagefile_def io_bind_def assms(1) io_check_def is_value_def io_ret_def)
qed

lemma sample_exact:
  assumes "uint mb < 2 ^ 31"
  shows "exact_pagefile (c_setting mb) (sample_cim a [d_pagefile, sample_pagefile mb c_pagefile] n s e) =
     (Ok (sample_pagefile mb c_pagefile), sample_cim a [d_pagefile, sample_pagefile mb c_pagefile] (n + 1) s e)"
  using sample_object_call sample_pagefile_setting [OF assms]
  by (intro exact_pagefile_accepts) (simp_all add: c_setting_def)

lemma sample_update:
  assumes "uint mb < 2 ^ 31" and "uint mb' < 2 ^ 31"
  shows "wmi_update (c_setting mb) mb' mb' (sample_cim a [d_pagefile, sample_pagefile mb c_pagefile] n s e) =
     (Ok (), sample_cim a [d_pagefile, sample_pagefile mb' c_pagefile] (n + 2) s e)"
proof -
  have put: "put_sizes mb' mb' (sample_pagefile mb c_pagefile) = Ok (sample_pagefile mb' c_pagefile)"
    unfolding put_sizes_Ok using assms(2)
    by (auto intro!: fmap_ext simp: sample_pagefile_def sample_object_def fmlookup_of_list)
  have "update_instance ''UPDATE_ONLY pagefile: '' (sample_pagefile mb' c_pagefile)
      (sample_cim a [d_pagefile, sample_pagefile mb c_pagefile] (n + 1) s e)
      = (Ok (), sample_cim a [d_pagefile, sample_pagefile mb' c_pagefile] (n + 2) s e)"
    by (simp add: update_instance_def wmi_call_quiet sample_fault sample_calls sample_tick)
      (simp add: sample_cim_def path_of_def sample_defs fmlookup_of_list)
  then show ?thesis by (simp add: wmi_update_def io_bind_def sample_exact [OF assms(1)] io_check_def put)
qed


lemma sample_names: "\<not> eq_ignore_ascii_case ''D:p'' c_pagefile" "eq_ignore_ascii_case c_pagefile c_pagefile"
  by code_simp+

definition c_token :: created_pagefile_token where
  "c_token = \<lparr>ct_object_path = ''P='' @ c_pagefile, ct_relative_path = ''P='' @ c_pagefile, ct_path = c_pagefile,
     ct_initial_size = 4, ct_maximum_size = 4\<rparr>"

lemma c_token_setting: "setting_of_token c_token = c_setting 4"
  by (simp add: c_token_def c_setting_def setting_of_token_def)

lemma sample_create:
  "wmi_create c_pagefile 4 4 (sample_cim a [d_pagefile] n s e) =
     (Ok c_token, sample_cim a [d_pagefile, sample_pagefile 4 c_pagefile] (n + 24) s e)"
proof -
  define item where "item = fmupd ''MaximumSize'' (CimUint32 4) (fmupd ''InitialSize'' (CimUint32 4)
    (put_string ''Name'' c_pagefile (put_string ''__CLASS'' PAGEFILE_CLASS fmempty)))"
  have item: "put_string ''__PATH'' (''P='' @ c_pagefile) (put_string ''__RELPATH'' (''P='' @ c_pagefile) item)
      = sample_pagefile 4 c_pagefile"
    by (rule fmap_ext) (auto simp: item_def put_string_def sample_pagefile_def sample_object_def fmlookup_of_list)
  have put: "put_sizes 4 4 (put_string ''Name'' c_pagefile (put_string ''__CLASS'' PAGEFILE_CLASS fmempty)) = Ok item"
    by (simp add: put_sizes_Ok item_def)
  have created: "create_instance ''CREATE_ONLY pagefile: '' c_pagefile item (sample_cim a [d_pagefile] m s e)
      = (Ok (), sample_cim a [d_pagefile, sample_pagefile 4 c_pagefile] (m + 1) s e)" for m
  proof -
    have id: "cim_identity (sample_cim a [d_pagefile] k s e) c_pagefile = (''P='' @ c_pagefile, ''P='' @ c_pagefile)" for k
      by (simp add: sample_cim_def)
    have "path_of (sample_pagefile 4 c_pagefile) \<notin> path_of ` set (cim_objects (sample_cim a [d_pagefile] k s e))" for k
      by (simp add: sample_path sample_cim_def) (simp add: path_of_def sample_defs fmlookup_of_list)
    then show ?thesis
      unfolding create_instance_def wmi_call_quiet [OF sample_fault] sample_calls sample_tick id
      by (simp only: Let_def prod.case item if_False) (simp add: sample_cim_def)
  qed
  have the: "the_created c_pagefile [d_setting, c_setting 4] = Ok c_token"
    unfolding the_created_Ok c_token_setting
    by (simp add: d_setting_def c_setting_def sample_names)
  show ?thesis
    by (simp add: wmi_create_def io_bind_def wmi_call_quiet sample_fault sample_calls sample_tick io_ret_def io_check_def put
        created sample_inventory_call [OF sample_settings(3,4)] the) (simp add: sample_inventory_def the add.commute [of n])
qed

lemma sample_delete:
  "wmi_delete c_token (sample_cim a [d_pagefile, sample_pagefile 4 c_pagefile] n s e) =
     (Ok (), sample_cim a [d_pagefile] (n + 2) s e)"
proof -
  have "delete_instance ''delete exact created pagefile: '' (''P='' @ c_pagefile)
      (sample_cim a [d_pagefile, sample_pagefile 4 c_pagefile] (n + 1) s e) = (Ok (), sample_cim a [d_pagefile] (n + 2) s e)"
    by (simp add: delete_instance_def wmi_call_quiet sample_fault sample_calls sample_tick)
      (simp add: sample_cim_def path_of_def sample_defs fmlookup_of_list)
  then show ?thesis
    unfolding wmi_delete_def io_bind_def c_token_setting
    by (subst sample_exact) (simp_all add: c_token_def)
qed

definition c_binding :: "pagefile_setting list \<Rightarrow> pagefile_setting option \<Rightarrow> pagefile_binding" where
  "c_binding ss t =
     \<lparr>pb_step = ''P1:8'', pb_target_path = c_pagefile, pb_initial_size = 4, pb_maximum_size = 4,
      pb_before = sample_inventory True ss, pb_target = t\<rparr>"

lemmas setting_defs = d_setting_def c_setting_def sample_inventory_def

lemma sample_validate:
  "validate_inventory (sample_inventory a [d_setting]) = Ok ()"
  "mb < 8 \<Longrightarrow> validate_inventory (sample_inventory a [d_setting, c_setting mb]) = Ok ()"
  by (simp_all add: validate_inventory_def setting_defs c_pagefile_def validate_pagefile_identity_def unsafe_identity_char_def
      to_ascii_lowercase_def)

lemma sample_capture:
  "capture_pagefile_binding ''P1:8'' sample_pagefile_state (sample_inventory True [d_setting]) =
     Ok (c_binding [d_setting] None)"
  "capture_pagefile_binding ''P1:8'' sample_pagefile_state (sample_inventory True [d_setting, c_setting 1]) =
     Ok (c_binding [d_setting, c_setting 1] (Some (c_setting 1)))"
proof -
  have target: "pagefile_target ''C:'' = Ok c_pagefile"
    by (simp add: pagefile_target_def c_pagefile_def is_ascii_uppercase_def is_ascii_lowercase_def to_ascii_uppercase_def byte_def)
  have mb: "pagefile_size_mb sample_pagefile_state ram = Ok 4" for ram
    by (simp add: pagefile_size_mb_def sample_pagefile_state_def ok_or_def u32_try_from_def)
  show "capture_pagefile_binding ''P1:8'' sample_pagefile_state (sample_inventory True [d_setting]) =
     Ok (c_binding [d_setting] None)"
  "capture_pagefile_binding ''P1:8'' sample_pagefile_state (sample_inventory True [d_setting, c_setting 1]) =
     Ok (c_binding [d_setting, c_setting 1] (Some (c_setting 1)))"
    unfolding capture_pagefile_binding_def sample_validate
    by (simp_all add: sample_validate and_then.simps(1) mb c_binding_def PAGEFILE_MAX_MB_def)
      (simp_all add: setting_defs target mb sample_names)
qed


lemma sample_begin:
  "begin_pagefile_mutation wmi_pagefile_store (c_binding [d_setting] None) (sample_cim True [d_pagefile] n s e) =
     (Ok (Some c_token), sample_cim False [d_pagefile, sample_pagefile 4 c_pagefile] (n + 46) s e)"
  "begin_pagefile_mutation wmi_pagefile_store (c_binding [d_setting, c_setting 1] (Some (c_setting 1)))
     (sample_cim True [d_pagefile, sample_pagefile 1 c_pagefile] n s e) =
     (Ok None, sample_cim False [d_pagefile, sample_pagefile 4 c_pagefile] (n + 25) s e)"
proof -
  have foreign: "check_foreign_preservation (c_binding ss t) (sample_inventory False ss) = Ok ()"
    if "validate_inventory (sample_inventory False ss) = Ok ()" "distinct (map ps_object_path ss)" for ss t
  proof -
    have "find (\<lambda>x. ps_object_path x = ps_object_path y) ss = Some y" if "y \<in> set ss" for y
      using that \<open>distinct _\<close> by (induction ss) auto
    then show ?thesis
      using that(1) by (auto simp: check_foreign_preservation_def guard_simps c_binding_def sample_inventory_def)
  qed
  have d: "distinct (map ps_object_path [d_setting])" "distinct (map ps_object_path [d_setting, c_setting 1])"
    by (simp_all add: setting_defs c_pagefile_def)
  note step = begin_pagefile_mutation_def io_bind_def wmi_ops io_check_def io_ret_def
  note before = c_binding_def sample_inventory_def
  show "begin_pagefile_mutation wmi_pagefile_store (c_binding [d_setting] None) (sample_cim True [d_pagefile] n s e) =
     (Ok (Some c_token), sample_cim False [d_pagefile, sample_pagefile 4 c_pagefile] (n + 46) s e)"
    using foreign [OF sample_validate(1) d(1), of None, unfolded before]
    by (simp add: step before sample_set_automatic [OF sample_paths(1)] sample_inventory_call [OF sample_settings(1,2)]
        sample_create add.commute [of n])
  show "begin_pagefile_mutation wmi_pagefile_store (c_binding [d_setting, c_setting 1] (Some (c_setting 1)))
     (sample_cim True [d_pagefile, sample_pagefile 1 c_pagefile] n s e) =
     (Ok None, sample_cim False [d_pagefile, sample_pagefile 4 c_pagefile] (n + 25) s e)"
    using foreign [OF sample_validate(2) d(2), of "Some (c_setting 1)", unfolded before]
    by (simp add: step before sample_set_automatic [OF sample_paths(2)] sample_inventory_call [OF sample_settings(3,4)]
        sample_update add.commute [of n])
qed

lemma sample_enter:
  "on_mta (with_pagefile_privilege (io_bind services (\<lambda>_. m))) (sample_cim a ps n None False) =
     (case m (sample_cim a ps (n + 8) (Some (Ok ())) True) of (r, w') \<Rightarrow> (r, restore_privilege False w'))"
  "on_mta (with_pagefile_privilege (io_bind services (\<lambda>_. m))) (sample_cim a ps n (Some (Ok ())) False) =
     (case m (sample_cim a ps (n + 7) (Some (Ok ())) True) of (r, w') \<Rightarrow> (r, restore_privilege False w'))"
  by (simp_all add: on_mta_def with_pagefile_privilege_def io_bind_def enable_pagefile_privilege_def services_def services_at_def
      co_initialize_security_def wmi_call_quiet io_ret_def sample_cim_def eval_nat_numeral)

lemma sample_leave: "restore_privilege False (sample_cim a ps n s e) = sample_cim a ps (n + 1) s False"
  by (simp add: restore_privilege_def wmi_call_quiet sample_cim_def)

lemma sample_native_begin:
  "native_pagefile_begin (c_binding [d_setting] None) (sample_cim True [d_pagefile] 0 None False) =
     (Ok (Some c_token), sample_cim False [d_pagefile, sample_pagefile 4 c_pagefile] 55 (Some (Ok ())) False)"
  "native_pagefile_begin (c_binding [d_setting, c_setting 1] (Some (c_setting 1)))
     (sample_cim True [d_pagefile, sample_pagefile 1 c_pagefile] 0 None False) =
     (Ok None, sample_cim False [d_pagefile, sample_pagefile 4 c_pagefile] 34 (Some (Ok ())) False)"
  by (simp_all add: native_pagefile_begin_def sample_enter io_match_def sample_begin io_ret_def sample_leave)

lemma sample_sound:
  assumes "pagefile_rows ps" and "collect_results setting_of_object ps = Ok ss"
    and "distinct (map path_of (cim_objects (sample_cim a ps n s e)))"
  shows "sound_repository (sample_cim a ps n s e) \<and> pagefiles_of (sample_cim a ps n s e) = sample_inventory a ss"
  by (rule sound_after [OF wmi_inventory_Ok [OF sample_inventory_call [OF assms(1,2)]] assms(3)])

lemma sample_distinct:
  "distinct (map path_of (cim_objects (sample_cim a [d_pagefile] n s e)))"
  "distinct (map path_of (cim_objects (sample_cim a [d_pagefile, sample_pagefile mb c_pagefile] n s e)))"
  by (simp_all add: sample_cim_def path_of_def sample_defs fmlookup_of_list)

lemma sample_start:
  "sound_repository (sample_cim a [d_pagefile] n s e) \<and>
     pagefiles_of (sample_cim a [d_pagefile] n s e) = sample_inventory a [d_setting]"
  "uint mb < 2 ^ 31 \<Longrightarrow> sound_repository (sample_cim a [d_pagefile, sample_pagefile mb c_pagefile] n s e) \<and>
     pagefiles_of (sample_cim a [d_pagefile, sample_pagefile mb c_pagefile] n s e) =
       sample_inventory a [d_setting, c_setting mb]"
  by (rule sample_sound sample_settings sample_distinct | assumption)+

lemma pagefile_mutation_keeps_foreign_settings_witness:
  "\<exists>b c w'. native_pagefile_begin b (sample_cim True [d_pagefile] 0 None False) = (Ok c, w')
     \<and> filter (\<lambda>x. \<not> eq_ignore_ascii_case (ps_path x) (pb_target_path b)) (pi_settings (pagefiles_of w')) = [d_setting]"
proof -
  let ?b = "c_binding [d_setting] None"
  let ?w' = "sample_cim False [d_pagefile, sample_pagefile 4 c_pagefile] 55 (Some (Ok ())) False"
  have "filter (\<lambda>x. \<not> eq_ignore_ascii_case (ps_path x) (pb_target_path ?b)) (pi_settings (pagefiles_of ?w')) =
      filter (\<lambda>x. \<not> eq_ignore_ascii_case (ps_path x) (pb_target_path ?b)) [d_setting]"
    using pagefile_mutation_keeps_foreign_settings [OF sample_capture(1) _ sample_native_begin(1)] sample_start(1)
    by (simp add: sample_inventory_def)
  then show ?thesis
    using sample_native_begin(1) by (intro exI conjI) (assumption, simp add: d_setting_def c_binding_def sample_names)
qed

lemma resized_pagefile_is_never_put_back_witness:
  "\<exists>b w1. native_pagefile_begin b (sample_cim True [d_pagefile, sample_pagefile 1 c_pagefile] 0 None False) = (Ok None, w1)
     \<and> (case native_pagefile_compensate b None w1 of (r, w2) \<Rightarrow>
         \<not> is_ok r \<and> pi_settings (pagefiles_of w2) = pi_settings (pagefiles_of w1))"
proof -
  let ?w = "sample_cim True [d_pagefile, sample_pagefile 1 c_pagefile] 0 None False"
  let ?b = "c_binding [d_setting, c_setting 1] (Some (c_setting 1))"
  have start: "sound_repository ?w" "capture_pagefile_binding ''P1:8'' sample_pagefile_state (pagefiles_of ?w) = Ok ?b"
    using sample_start(2) [of 1] sample_capture(2) by simp_all
  have t: "pb_target ?b = Some (c_setting 1)"
    "ps_initial_size (c_setting 1) \<noteq> pb_initial_size ?b \<or> ps_maximum_size (c_setting 1) \<noteq> pb_maximum_size ?b"
    by (simp_all add: c_binding_def c_setting_def)
  show ?thesis
    by (intro exI conjI, rule sample_native_begin(2))
      (rule resized_pagefile_is_never_put_back [OF start sample_native_begin(2) t refl, THEN conjunct2, THEN conjunct1])
qed

definition sample_journal :: "unit pagefile_transaction_backup" where
  "sample_journal = journal_created_token c_token (pagefile_backup_entry ''t'' (c_binding [d_setting] None))"

lemma sample_parse:
  "parse_pagefile_restore_backup (BackupPagefileTransaction sample_journal) =
     Ok ((sample_inventory True [d_setting])\<lparr>free_space_mb := - 1\<rparr>, Some c_token, c_pagefile, False)"
proof -
  have two: "first_two c_pagefile = Some ''C:''" by code_simp
  have backup: "setting_of_backup (pagefile_setting_backup d_setting) = Ok d_setting"
    unfolding setting_of_backup_backup
    by (simp add: validate_pagefile_identity_def d_setting_def unsafe_identity_char_def)
  show ?thesis
    unfolding parse_pagefile_restore_backup_def sample_journal_def journal_created_token_def pagefile_backup_entry_def
    by (simp add: c_binding_def sample_inventory_def nonempty_text_def created_token_of_backup_def two backup ok_or_def
        u32_try_from_def c_token_def is_empty_map_def)
qed

lemma sample_restore:
  "native_pagefile_restore (BackupPagefileTransaction sample_journal)
     (sample_cim False [d_pagefile, sample_pagefile 4 c_pagefile] 55 (Some (Ok ())) False) =
   (Ok (), sample_cim True [d_pagefile] 128 (Some (Ok ())) False)"
proof -
  let ?before = "(sample_inventory True [d_setting])\<lparr>free_space_mb := - 1\<rparr>"
  have valid: "validate_inventory ?before = Ok ()"
    using sample_validate(1) by (simp add: validate_inventory_def sample_inventory_def)
  have created: "restore_created wmi_pagefile_store (sample_inventory False [d_setting, c_setting 4]) (Some c_token) c_pagefile w
      = wmi_delete c_token w" for w
    by (simp add: restore_created_def wmi_ops) (simp add: sample_inventory_def d_setting_def c_setting_def c_token_def sample_names)
  note step = io_bind_def io_check_def io_ret_def wmi_ops
  have settings: "restore_pagefile_settings wmi_pagefile_store ?before (Some c_token) c_pagefile False
      (sample_cim False [d_pagefile, sample_pagefile 4 c_pagefile] 62 s True) = (Ok (), sample_cim False [d_pagefile] 85 s True)" for s
    unfolding restore_pagefile_settings_def valid
    by (simp add: step sample_inventory_call [OF sample_settings(3,4)] sample_validate created [unfolded wmi_ops] sample_delete)
      (simp add: sample_inventory_def)
  have verify: "verify_pagefile_restoration wmi_pagefile_store ?before (Some c_token) c_pagefile False
      (sample_cim False [d_pagefile] 85 s True) = (Ok (), sample_cim True [d_pagefile] 127 s True)" for s
    by (simp add: verify_pagefile_restoration_def step sample_inventory_call [OF sample_settings(1,2)])
      (simp add: step sample_inventory_def sample_set_automatic [OF sample_paths(1)]
        sample_inventory_call [OF sample_settings(1,2)] c_token_def d_setting_def c_pagefile_def)
  show ?thesis
    by (simp add: native_pagefile_restore_def sample_enter restore_pagefile_transaction_def io_bind_def io_check_def
        sample_parse settings verify sample_leave)
qed

lemma created_pagefile_is_removed_again_witness:
  "\<exists>b c w1 w2. native_pagefile_begin b (sample_cim True [d_pagefile] 0 None False) = (Ok (Some c), w1)
     \<and> native_pagefile_restore (BackupPagefileTransaction sample_journal) w1 = (Ok (), w2)
     \<and> pagefiles_of w2 = sample_inventory True [d_setting]"
proof -
  have capture: "capture_pagefile_binding ''P1:8'' sample_pagefile_state (pagefiles_of (sample_cim True [d_pagefile] 0 None False)) =
      Ok (c_binding [d_setting] None)" "sound_repository (sample_cim True [d_pagefile] 0 None False)"
    using sample_start(1) sample_capture(1) by simp_all
  have "pagefiles_of (sample_cim True [d_pagefile] 128 (Some (Ok ())) False) =
      pagefiles_of (sample_cim True [d_pagefile] 0 None False)"
    by (rule created_pagefile_is_removed_again [OF capture(2,1) sample_native_begin(1) sample_journal_def sample_restore,
          THEN conjunct2])
  then show ?thesis
    using sample_start(1) by (intro exI conjI) (rule sample_native_begin(1), rule sample_restore, simp)
qed

end
