(* ===== verification/Device_Bindings.thy ===== *)
theory Device_Bindings
  imports Evidence Files
begin

text \<open>
  Devices of the running system (\<open>crates/frametime-windows/src/system/device_bindings.rs\<close> and
  \<open>device_binding_resolution.rs\<close>): the observations SetupAPI and IP Helper report, and the resolvers that
  keep only present, working devices and refuse conflicting evidence.  The enumerators are parameters, as
  they are traits in the code.  The lemmas say which devices a resolver returns.
\<close>

section \<open>Classes and errors\<close>

datatype (plugins only: code size) pci_device_class = Display | Network | Media

fun pci_class_guid :: "pci_device_class \<Rightarrow> string" where
  "pci_class_guid Display = ''{4d36e968-e325-11ce-bfc1-08002be10318}''"
| "pci_class_guid Network = ''{4d36e972-e325-11ce-bfc1-08002be10318}''"
| "pci_class_guid Media = ''{4d36e96c-e325-11ce-bfc1-08002be10318}''"

definition from_class_guid :: "string \<Rightarrow> pci_device_class option" where
  "from_class_guid value =
     find (\<lambda>c. eq_ignore_ascii_case value (pci_class_guid c)) [Display, Network, Media]"

record 'v pci_device_observation =
  obs_binding :: "'v pci_device_binding"
  obs_present :: bool
  obs_status_ok :: bool

record 'v network_adapter_observation =
  nao_binding :: "'v network_adapter_binding"
  is_up :: bool
  is_physical :: bool
  is_wired :: bool

datatype (plugins only: code size) device_binding_error =
    InvalidPciBinding string
  | InvalidNetworkBinding string
  | AmbiguousPciIdentity string
  | AmbiguousNetworkIdentity string
  | NoEligibleNetworkAdapter
  | MultipleEligibleNetworkAdapters
  | NetworkAdapterDoesNotMatchPciIdentity
  | UnsupportedProcessorTopology
  | RegistryReadbackMismatch string string
  | RegistryAccess string

fun device_binding_error_text :: "device_binding_error \<Rightarrow> string" where
  "device_binding_error_text (InvalidPciBinding e) = ''invalid PCI binding: '' @ e"
| "device_binding_error_text (InvalidNetworkBinding e) = ''invalid network binding: '' @ e"
| "device_binding_error_text (AmbiguousPciIdentity i) = ''ambiguous PCI identity: '' @ i"
| "device_binding_error_text (AmbiguousNetworkIdentity i) = ''ambiguous network identity: '' @ i"
| "device_binding_error_text NoEligibleNetworkAdapter = ''no active physical wired adapter''"
| "device_binding_error_text MultipleEligibleNetworkAdapters = ''multiple active physical wired adapters''"
| "device_binding_error_text NetworkAdapterDoesNotMatchPciIdentity =
     ''network adapter does not match an exact PCI PnP identity''"
| "device_binding_error_text UnsupportedProcessorTopology =
     ''interrupt affinity requires one processor group with 1 through 64 logical processors''"
| "device_binding_error_text (RegistryReadbackMismatch k n) =
     ''registry readback did not match '' @ k @ [CHR 0x5C] @ n"
| "device_binding_error_text (RegistryAccess e) = ''interrupt registry access: '' @ e"

section \<open>What SetupAPI reports\<close>

text \<open>\<open>utf16_text\<close> before the conversion to UTF-8: a nonempty text closed by its only NUL.\<close>

definition utf16_text_units :: "u16 list \<Rightarrow> string \<Rightarrow> (u16 list, device_binding_error) result" where
  "utf16_text_units units label =
     (if units = [] \<or> last units \<noteq> 0 then Err (InvalidPciBinding (label @ '' is not NUL terminated''))
      else if 0 \<in> set (butlast units) then Err (InvalidPciBinding (label @ '' contains an embedded NUL''))
      else if butlast units = [] then Err (InvalidPciBinding (label @ '' is empty''))
      else Ok (butlast units))"

text \<open>\<open>parse_pci_identity\<close> reads the same parts as \<open>binding.rs\<close>, from any instance identity.\<close>

definition parse_pci_identity :: "string \<Rightarrow> (u16 \<times> u16 \<times> u16 \<times> u16 \<times> u8, device_binding_error) result" where
  "parse_pci_identity value =
     (let missing = (\<lambda>what. InvalidPciBinding (''PCI instance has no canonical '' @ what @ '' ID''));
          p = fold pci_part (split_on pci_separator (to_ascii_uppercase value))
                \<lparr>pp_vendor = None, pp_device = None, pp_subsystem = None, pp_revision = None\<rparr> in
      and_then (ok_or (missing ''subsystem'') (pp_subsystem p)) (\<lambda>subsystem.
      and_then (ok_or (missing ''vendor'') (pp_vendor p)) (\<lambda>vendor.
      and_then (ok_or (missing ''device'') (pp_device p)) (\<lambda>device.
      and_then (ok_or (missing ''revision'') (pp_revision p)) (\<lambda>revision.
      Ok (of_nat vendor, of_nat device, of_nat (subsystem mod 65536), of_nat (subsystem div 65536),
          of_nat revision))))))"

section \<open>Resolvers\<close>

definition pci_item ::
  "'v pci_device_observation
     \<Rightarrow> ((string \<times> pci_device_class \<times> 'v pci_device_binding) option, device_binding_error) result" where
  "pci_item o' =
     (if \<not> obs_present o' \<or> \<not> obs_status_ok o' then Ok None
      else
        and_then (map_err (\<lambda>e. InvalidPciBinding (binding_error_text e)) (pci_validate (obs_binding o'))) (\<lambda>_.
        case from_class_guid (class_guid (obs_binding o')) of
          None \<Rightarrow> Ok None
        | Some c \<Rightarrow> Ok (Some (to_ascii_uppercase (instance_id (obs_binding o')), c, obs_binding o'))))"

definition resolve_present_status_ok_pci ::
  "'v pci_device_observation list
     \<Rightarrow> ((pci_device_class \<times> 'v pci_device_binding) list, device_binding_error) result" where
  "resolve_present_status_ok_pci observations =
     and_then (collect_unique pci_item AmbiguousPciIdentity fmempty observations) (\<lambda>devices.
     Ok (btree_values devices))"

definition enumerate_present_status_ok_pci ::
  "('w, device_binding_error, 'v pci_device_observation list) io
     \<Rightarrow> ('w, device_binding_error, (pci_device_class \<times> 'v pci_device_binding) list) io" where
  "enumerate_present_status_ok_pci enumerator =
     io_bind enumerator (\<lambda>observations. io_check (resolve_present_status_ok_pci observations))"

definition nic_item ::
  "'v network_adapter_observation
     \<Rightarrow> ((string \<times> 'v network_adapter_binding) option, device_binding_error) result" where
  "nic_item o' =
     (if \<not> (is_up o' \<and> is_physical o' \<and> is_wired o') then Ok None
      else
        and_then (map_err (\<lambda>e. InvalidNetworkBinding (binding_error_text e)) (nic_validate (nao_binding o'))) (\<lambda>_.
        Ok (Some (to_ascii_uppercase (interface_guid (nao_binding o')), nao_binding o'))))"

definition resolve_active_physical_wired_adapter ::
  "'v network_adapter_observation list \<Rightarrow> ('v network_adapter_binding, device_binding_error) result" where
  "resolve_active_physical_wired_adapter observations =
     and_then (collect_unique nic_item AmbiguousNetworkIdentity fmempty observations) (\<lambda>candidates.
     case btree_values candidates of
       [] \<Rightarrow> Err NoEligibleNetworkAdapter
     | [n] \<Rightarrow> Ok n
     | _ \<Rightarrow> Err MultipleEligibleNetworkAdapters)"

section \<open>What the resolvers return\<close>

lemma pci_item_Some:
  "pci_item o' = Ok (Some (k, c, d)) \<longleftrightarrow>
     obs_present o' \<and> obs_status_ok o' \<and> d = obs_binding o' \<and> pci_validate d = Ok ()
     \<and> from_class_guid (class_guid d) = Some c \<and> k = to_ascii_uppercase (instance_id d)"
  by (auto simp: pci_item_def guard_simps split: option.splits)

lemma from_class_guid_Some: "from_class_guid g = Some c \<Longrightarrow> eq_ignore_ascii_case g (pci_class_guid c)"
  by (auto simp: from_class_guid_def split: if_splits)

lemma resolve_pci_members:
  assumes "resolve_present_status_ok_pci os = Ok ds"
  shows "(c, d) \<in> set ds \<longleftrightarrow>
    (\<exists>o'\<in>set os. obs_present o' \<and> obs_status_ok o' \<and> obs_binding o' = d \<and> from_class_guid (class_guid d) = Some c)"
    (is "_ \<longleftrightarrow> ?R")
proof -
  obtain m where m: "collect_unique pci_item AmbiguousPciIdentity fmempty os = Ok m" "ds = btree_values m"
    using assms by (auto simp: resolve_present_status_ok_pci_def guard_simps)
  have valid: "pci_validate (obs_binding o') = Ok ()" if "o' \<in> set os" "obs_present o'" "obs_status_ok o'" for o'
    using collect_unique_Ok(2) [OF m(1) that(1)] that(2,3)
    by (cases "pci_validate (obs_binding o')") (simp_all add: pci_item_def)
  have "(c, d) \<in> set ds \<longleftrightarrow> (\<exists>k. \<exists>o'\<in>set os. pci_item o' = Ok (Some (k, c, d)))"
    unfolding m(2) set_btree_values using collect_unique_Ok(1) [OF m(1)] by simp
  also have "\<dots> \<longleftrightarrow> ?R" using valid by (auto simp: pci_item_Some)
  finally show ?thesis .
qed

text \<open>Two returned devices never share an instance identity.\<close>

lemma resolve_pci_keyed:
  assumes "resolve_present_status_ok_pci os = Ok ds" and "(c, d) \<in> set ds" and "(c', d') \<in> set ds"
    and "to_ascii_uppercase (instance_id d) = to_ascii_uppercase (instance_id d')"
  shows "c = c' \<and> d = d'"
proof -
  obtain m where m: "collect_unique pci_item AmbiguousPciIdentity fmempty os = Ok m" "ds = btree_values m"
    using assms(1) by (auto simp: resolve_present_status_ok_pci_def guard_simps)
  note at = collect_unique_Ok(1) [OF m(1), simplified]
  obtain k k' where "fmlookup m k = Some (c, d)" "fmlookup m k' = Some (c', d')"
    using assms(2,3) unfolding m(2) set_btree_values by auto
  moreover from this have "k = to_ascii_uppercase (instance_id d)" "k' = to_ascii_uppercase (instance_id d')"
    unfolding at by (auto simp: pci_item_Some)
  ultimately show ?thesis using assms(4) by simp
qed

lemma nic_item_Some:
  "nic_item o' = Ok (Some (k, n)) \<longleftrightarrow>
     is_up o' \<and> is_physical o' \<and> is_wired o' \<and> n = nao_binding o' \<and> nic_validate n = Ok ()
     \<and> k = to_ascii_uppercase (interface_guid n)"
  by (auto simp: nic_item_def guard_simps)

lemma resolve_adapter_candidates:
  assumes "resolve_active_physical_wired_adapter os = Ok n"
  shows "\<exists>m. collect_unique nic_item AmbiguousNetworkIdentity fmempty os = Ok m \<and> btree_values m = [n]"
proof -
  obtain m where m: "collect_unique nic_item AmbiguousNetworkIdentity fmempty os = Ok m"
    and r: "(case btree_values m of [] \<Rightarrow> Err NoEligibleNetworkAdapter | [n] \<Rightarrow> Ok n
      | _ \<Rightarrow> Err MultipleEligibleNetworkAdapters) = Ok n"
    using assms by (auto simp: resolve_active_physical_wired_adapter_def and_then_eq_Ok)
  from r have "btree_values m = [n]" by (cases "btree_values m"; cases "tl (btree_values m)") simp_all
  with m show ?thesis by blast
qed

lemma resolve_adapter_unique:
  assumes "resolve_active_physical_wired_adapter os = Ok n" and "o' \<in> set os"
    and "is_up o'" and "is_physical o'" and "is_wired o'"
  shows "nao_binding o' = n \<and> nic_validate n = Ok ()"
proof -
  obtain m where m: "collect_unique nic_item AmbiguousNetworkIdentity fmempty os = Ok m" "btree_values m = [n]"
    using resolve_adapter_candidates [OF assms(1)] by blast
  have "is_ok (nic_item o')" using collect_unique_Ok(2) [OF m(1) assms(2)] .
  then have "nic_validate (nao_binding o') = Ok ()"
    using assms(3-5) by (cases "nic_validate (nao_binding o')") (simp_all add: nic_item_def)
  then have "nic_item o' = Ok (Some (to_ascii_uppercase (interface_guid (nao_binding o')), nao_binding o'))"
    using assms(3-5) by (simp add: nic_item_Some)
  then have "nao_binding o' \<in> set (btree_values m)"
    unfolding set_btree_values using collect_unique_Ok(1) [OF m(1)] assms(2) by blast
  then show ?thesis using m(2) \<open>nic_validate (nao_binding o') = Ok ()\<close> by simp
qed

lemma resolve_adapter_observed:
  assumes "resolve_active_physical_wired_adapter os = Ok n"
  shows "\<exists>o'\<in>set os. nao_binding o' = n \<and> is_up o' \<and> is_physical o' \<and> is_wired o'"
proof -
  obtain m where m: "collect_unique nic_item AmbiguousNetworkIdentity fmempty os = Ok m" "btree_values m = [n]"
    using resolve_adapter_candidates [OF assms] by blast
  then have "n \<in> {v. \<exists>k. fmlookup m k = Some v}" unfolding set_btree_values [symmetric] by simp
  then show ?thesis using collect_unique_Ok(1) [OF m(1)] by (auto simp: nic_item_Some)
qed

text \<open>Both parsers of instance identities agree on what the domain accepts.\<close>

lemma parse_pci_identity_agrees:
  assumes "parse_pci_instance value = Ok r"
  shows "parse_pci_identity value = Ok r"
proof -
  obtain parts where parts: "split_on pci_separator (to_ascii_uppercase value) = ''PCI'' # parts"
    using assms by (auto simp: parse_pci_instance_def Let_def split: if_splits list.splits)
  have "pci_part ''PCI'' a = a" for a by (simp add: pci_part_def strip_prefix_def)
  with assms parts show ?thesis
    by (auto simp: parse_pci_instance_def parse_pci_identity_def Let_def guard_simps split: if_splits)
qed

end
