(* ===== verification/Interrupt_Policy.thy ===== *)
theory Interrupt_Policy
  imports Device_Bindings Backup
begin

text \<open>
  Interrupt policies of P3:2 and P3:3 (\<open>crates/frametime-windows/src/system/interrupts.rs\<close> and
  \<open>interrupt_registry.rs\<close>): the registry changes for each device, their capture, application,
  verification and restoration, over any store of interrupt values.  The locale states what the store
  promises; in it, restoring what was captured undoes every change, also after an application that failed
  half way.
\<close>

section \<open>Changes\<close>

definition INTERRUPT_PARAMETERS_SUFFIX :: string where
  "INTERRUPT_PARAMETERS_SUFFIX = ''Device Parameters'' @ reg_sep @ ''Interrupt Management'' @ reg_sep
     @ ''MessageSignaledInterruptProperties''"

definition AFFINITY_POLICY_SUFFIX :: string where
  "AFFINITY_POLICY_SUFFIX = ''Device Parameters'' @ reg_sep @ ''Interrupt Management'' @ reg_sep @ ''Affinity Policy''"

definition MSI_SUPPORTED :: string where "MSI_SUPPORTED = ''MSISupported''"
definition MESSAGE_NUMBER_LIMIT :: string where "MESSAGE_NUMBER_LIMIT = ''MessageNumberLimit''"
definition DEVICE_POLICY :: string where "DEVICE_POLICY = ''DevicePolicy''"
definition ASSIGNMENT_SET_OVERRIDE :: string where "ASSIGNMENT_SET_OVERRIDE = ''AssignmentSetOverride''"

datatype (plugins only: code size) interrupt_registry_value = RegDword u32 | RegBinary "u8 list"

record interrupt_registry_change =
  change_key :: string
  change_name :: string
  change_value :: interrupt_registry_value

definition enum_key :: "'v pci_device_binding \<Rightarrow> string \<Rightarrow> string" where
  "enum_key device suffix =
     ''SYSTEM'' @ reg_sep @ ''CurrentControlSet'' @ reg_sep @ ''Enum'' @ reg_sep @ instance_id device
     @ reg_sep @ suffix"

definition interrupt_parameters_key :: "'v pci_device_binding \<Rightarrow> string" where
  "interrupt_parameters_key device = enum_key device INTERRUPT_PARAMETERS_SUFFIX"

definition affinity_policy_key :: "'v pci_device_binding \<Rightarrow> string" where
  "affinity_policy_key device = enum_key device AFFINITY_POLICY_SUFFIX"

record 'v msi_device_batch =
  batch_device :: "'v pci_device_binding"
  batch_class :: pci_device_class
  batch_changes :: "interrupt_registry_change list"

definition msi_batch_build ::
  "pci_device_class \<Rightarrow> 'v pci_device_binding \<Rightarrow> ('v msi_device_batch, device_binding_error) result" where
  "msi_batch_build c device =
     and_then (map_err (\<lambda>e. InvalidPciBinding (binding_error_text e)) (pci_validate device)) (\<lambda>_.
     if \<not> eq_ignore_ascii_case (class_guid device) (pci_class_guid c)
     then Err (InvalidPciBinding ''device class GUID does not match its requested MSI class'')
     else
       let key = interrupt_parameters_key device in
       Ok \<lparr>batch_device = device, batch_class = c,
           batch_changes =
             [\<lparr>change_key = key, change_name = MSI_SUPPORTED, change_value = RegDword 1\<rparr>]
             @ (if c = Display
                then [\<lparr>change_key = key, change_name = MESSAGE_NUMBER_LIMIT, change_value = RegDword 16\<rparr>]
                else [])\<rparr>)"

definition build_msi_device_batches ::
  "(pci_device_class \<times> 'v pci_device_binding) list \<Rightarrow> ('v msi_device_batch list, device_binding_error) result" where
  "build_msi_device_batches devices =
     and_then
       (collect_unique
         (\<lambda>(c, device). and_then (msi_batch_build c device) (\<lambda>batch.
            Ok (Some (to_ascii_uppercase (instance_id device), batch))))
         AmbiguousPciIdentity fmempty devices) (\<lambda>batches.
     Ok (btree_values batches))"

section \<open>Processor topology\<close>

record processor_group =
  group_number :: u16
  active_logical_processors :: u8

definition final_logical_processor :: "processor_group list \<Rightarrow> (u8, device_binding_error) result" where
  "final_logical_processor groups =
     (case groups of
        [g] \<Rightarrow>
          if group_number g \<noteq> 0 \<or> \<not> (1 \<le> active_logical_processors g \<and> active_logical_processors g \<le> 64)
          then Err UnsupportedProcessorTopology
          else Ok (active_logical_processors g - 1)
      | _ \<Rightarrow> Err UnsupportedProcessorTopology)"

text \<open>\<open>u64::to_le_bytes\<close> and \<open>u32::to_le_bytes\<close>.\<close>

definition to_le_bytes :: "nat \<Rightarrow> 'a::len word \<Rightarrow> u8 list" where
  "to_le_bytes n w = map (\<lambda>i. ucast (drop_bit (8 * i) w)) [0..<n]"

definition assignment_set_override :: "processor_group list \<Rightarrow> (u8 list, device_binding_error) result" where
  "assignment_set_override groups =
     and_then (final_logical_processor groups) (\<lambda>processor.
     Ok (to_le_bytes 8 (push_bit (unat processor) (1 :: u64))))"

record 'v nic_affinity_binding =
  naf_adapter :: "'v network_adapter_binding"
  naf_device :: "'v pci_device_binding"
  naf_final_logical_processor :: u8
  naf_assignment_set_override :: "u8 list"
  naf_changes :: "interrupt_registry_change list"

text \<open>\<open>same_pci_pnp_identity\<close> compares the same fields as \<open>PciDeviceBinding::same_pnp_device\<close>.\<close>

definition same_pci_pnp_identity :: "'v pci_device_binding \<Rightarrow> 'v pci_device_binding \<Rightarrow> bool" where
  "same_pci_pnp_identity left right \<longleftrightarrow>
     eq_ignore_ascii_case (instance_id left) (instance_id right)
     \<and> eq_ignore_ascii_case (container_id left) (container_id right)
     \<and> eq_ignore_ascii_case (class_guid left) (class_guid right)
     \<and> vendor_id left = vendor_id right
     \<and> device_id left = device_id right
     \<and> subsystem_vendor_id left = subsystem_vendor_id right
     \<and> subsystem_device_id left = subsystem_device_id right
     \<and> revision_id left = revision_id right"

definition nic_affinity_resolve ::
  "'v network_adapter_binding \<Rightarrow> (pci_device_class \<times> 'v pci_device_binding) list \<Rightarrow> processor_group list
     \<Rightarrow> ('v nic_affinity_binding, device_binding_error) result" where
  "nic_affinity_resolve adapter known groups =
     and_then (map_err (\<lambda>e. InvalidNetworkBinding (binding_error_text e)) (nic_validate adapter)) (\<lambda>_.
     and_then (ok_or NetworkAdapterDoesNotMatchPciIdentity
       (map_option snd (find (\<lambda>(c, device). c = Network \<and> same_pci_pnp_identity device (nic_device adapter)) known)))
       (\<lambda>device.
     and_then (final_logical_processor groups) (\<lambda>final.
     and_then (assignment_set_override groups) (\<lambda>bytes.
     let key = affinity_policy_key device in
     Ok \<lparr>naf_adapter = adapter, naf_device = device, naf_final_logical_processor = final,
         naf_assignment_set_override = bytes,
         naf_changes =
           [\<lparr>change_key = key, change_name = DEVICE_POLICY, change_value = RegDword 4\<rparr>,
            \<lparr>change_key = key, change_name = ASSIGNMENT_SET_OVERRIDE, change_value = RegBinary bytes\<rparr>]\<rparr>))))"

definition discover_nic_affinity_binding ::
  "('w, device_binding_error, 'v pci_device_observation list) io
     \<Rightarrow> ('w, device_binding_error, 'v network_adapter_observation list) io
     \<Rightarrow> ('w, device_binding_error, processor_group list) io
     \<Rightarrow> ('w, device_binding_error, 'v nic_affinity_binding) io" where
  "discover_nic_affinity_binding pci network topology =
     io_bind (enumerate_present_status_ok_pci pci) (\<lambda>devices.
     io_bind network (\<lambda>observations.
     io_bind (io_check (resolve_active_physical_wired_adapter observations)) (\<lambda>adapter.
     io_bind topology (\<lambda>groups.
     io_check (nic_affinity_resolve adapter devices groups)))))"

definition same_nic_affinity_subject :: "'v nic_affinity_binding \<Rightarrow> 'v nic_affinity_binding \<Rightarrow> bool" where
  "same_nic_affinity_subject left right \<longleftrightarrow>
     same_pnp_device (naf_device left) (naf_device right)
     \<and> eq_ignore_ascii_case (adapter_name (naf_adapter left)) (adapter_name (naf_adapter right))
     \<and> eq_ignore_ascii_case (interface_guid (naf_adapter left)) (interface_guid (naf_adapter right))
     \<and> interface_luid (naf_adapter left) = interface_luid (naf_adapter right)
     \<and> interface_index (naf_adapter left) = interface_index (naf_adapter right)
     \<and> physical_address (naf_adapter left) = physical_address (naf_adapter right)
     \<and> naf_final_logical_processor left = naf_final_logical_processor right
     \<and> naf_assignment_set_override left = naf_assignment_set_override right"


section \<open>The store and the operations on it\<close>

record 'w interrupt_store =
  store_read :: "string \<Rightarrow> string \<Rightarrow> ('w, device_binding_error, interrupt_registry_value option) io"
  store_write :: "string \<Rightarrow> string \<Rightarrow> interrupt_registry_value \<Rightarrow> ('w, device_binding_error, unit) io"
  store_delete :: "string \<Rightarrow> string \<Rightarrow> ('w, device_binding_error, unit) io"

fun validate_interrupt_readback ::
  "'w interrupt_store \<Rightarrow> interrupt_registry_change list \<Rightarrow> ('w, device_binding_error, unit) io" where
  "validate_interrupt_readback S [] = io_ret ()"
| "validate_interrupt_readback S (c # cs) =
     io_bind (store_read S (change_key c) (change_name c)) (\<lambda>v.
     if v \<noteq> Some (change_value c) then io_fail (RegistryReadbackMismatch (change_key c) (change_name c))
     else validate_interrupt_readback S cs)"

definition policy_of_name :: "string \<Rightarrow> interrupt_policy_kind option" where
  "policy_of_name name =
     (if name = MSI_SUPPORTED then Some MsiSupported
      else if name = MESSAGE_NUMBER_LIMIT then Some MessageNumberLimit
      else if name = DEVICE_POLICY then Some DevicePolicy
      else if name = ASSIGNMENT_SET_OVERRIDE then Some AssignmentSetOverride
      else None)"

fun change_type_rejected :: "interrupt_policy_kind \<Rightarrow> interrupt_registry_value \<Rightarrow> bool" where
  "change_type_rejected AssignmentSetOverride (RegDword _) = True"
| "change_type_rejected MsiSupported (RegBinary _) = True"
| "change_type_rejected MessageNumberLimit (RegBinary _) = True"
| "change_type_rejected DevicePolicy (RegBinary _) = True"
| "change_type_rejected _ _ = False"

definition policy_for_change ::
  "'v pci_device_binding \<Rightarrow> interrupt_registry_change \<Rightarrow> (interrupt_policy_kind, device_binding_error) result" where
  "policy_for_change device c =
     (case policy_of_name (change_name c) of
        None \<Rightarrow> Err (RegistryAccess ''interrupt value name is not allowlisted'')
      | Some policy \<Rightarrow>
          if change_key c \<noteq> enum_key device (registry_suffix policy) \<or> change_type_rejected policy (change_value c)
          then Err (RegistryAccess ''interrupt registry change is not bound to its device and policy'')
          else Ok policy)"

fun backup_value :: "interrupt_registry_value \<Rightarrow> interrupt_policy_value" where
  "backup_value (RegDword v) = PolicyDword v"
| "backup_value (RegBinary v) = PolicyBinary v"

fun runtime_value :: "interrupt_policy_value \<Rightarrow> interrupt_registry_value" where
  "runtime_value (PolicyDword v) = RegDword v"
| "runtime_value (PolicyBinary v) = RegBinary v"

fun interrupt_policy_error_text :: "interrupt_policy_backup_error \<Rightarrow> string" where
  "interrupt_policy_error_text InterruptUnknownFields = ''interrupt-policy backup contains unrecognized fields''"
| "interrupt_policy_error_text InterruptStepMismatch = ''interrupt-policy backup step and policy do not match''"
| "interrupt_policy_error_text (InterruptInvalidDevice e) =
     ''interrupt-policy backup has invalid device evidence: '' @ e"
| "interrupt_policy_error_text InterruptExistenceMismatch =
     ''interrupt-policy backup existence and value do not agree''"
| "interrupt_policy_error_text InterruptValueTypeMismatch =
     ''interrupt-policy backup value type does not match its policy''"
| "interrupt_policy_error_text InterruptInvalidTimestamp = ''interrupt-policy backup timestamp is invalid''"

definition capture_interrupt_change ::
  "'w interrupt_store \<Rightarrow> string \<Rightarrow> string \<Rightarrow> 'v pci_device_binding
     \<Rightarrow> interrupt_registry_change \<Rightarrow> ('w, device_binding_error, 'v interrupt_policy_backup) io" where
  "capture_interrupt_change S step timestamp device c =
     io_bind (io_check (policy_for_change device c)) (\<lambda>policy.
     if policy_expected_step policy \<noteq> step
     then io_fail (RegistryAccess ''MSI batch was captured for the wrong workflow step'')
     else
       io_bind (store_read S (change_key c) (change_name c)) (\<lambda>v.
       let backup =
         \<lparr>ip_step = step, ip_timestamp = timestamp, ip_device = device, ip_policy = policy,
          ip_existed = (v \<noteq> None), ip_original_value = map_option backup_value v, ip_unknown = fmempty\<rparr> in
       io_bind (io_check (map_err (\<lambda>e. RegistryAccess (interrupt_policy_error_text e)) (interrupt_validate backup))) (\<lambda>_.
       io_ret backup)))"

text \<open>The two nested loops: every change of every batch, in order.\<close>

definition batch_items :: "'v msi_device_batch list \<Rightarrow> ('v pci_device_binding \<times> interrupt_registry_change) list" where
  "batch_items batches = concat (map (\<lambda>b. map (Pair (batch_device b)) (batch_changes b)) batches)"

definition capture_interrupt_backups ::
  "'w interrupt_store \<Rightarrow> string \<Rightarrow> 'v msi_device_batch list \<Rightarrow> string
     \<Rightarrow> ('w, device_binding_error, 'v backup_entry list) io" where
  "capture_interrupt_backups S step batches timestamp =
     io_bind (io_each (\<lambda>(device, c). capture_interrupt_change S step timestamp device c)
       (batch_items batches)) (\<lambda>backups.
     io_ret (map BackupInterruptPolicy backups))"

definition capture_nic_affinity_backups ::
  "'w interrupt_store \<Rightarrow> 'v nic_affinity_binding \<Rightarrow> string
     \<Rightarrow> ('w, device_binding_error, 'v backup_entry list) io" where
  "capture_nic_affinity_backups S binding timestamp =
     capture_interrupt_backups S ''P3:3''
       [\<lparr>batch_device = naf_device binding, batch_class = Network, batch_changes = naf_changes binding\<rparr>] timestamp"

fun apply_interrupt_changes ::
  "'w interrupt_store \<Rightarrow> 'v pci_device_binding \<Rightarrow> interrupt_registry_change list
     \<Rightarrow> ('w, device_binding_error, unit) io" where
  "apply_interrupt_changes S device [] = io_ret ()"
| "apply_interrupt_changes S device (c # cs) =
     io_bind (io_check (policy_for_change device c)) (\<lambda>_.
     io_bind (store_write S (change_key c) (change_name c) (change_value c)) (\<lambda>_.
     apply_interrupt_changes S device cs))"

fun interrupt_changes_satisfied ::
  "'w interrupt_store \<Rightarrow> 'v pci_device_binding \<Rightarrow> interrupt_registry_change list
     \<Rightarrow> ('w, device_binding_error, bool) io" where
  "interrupt_changes_satisfied S device [] = io_ret True"
| "interrupt_changes_satisfied S device (c # cs) =
     io_bind (io_check (policy_for_change device c)) (\<lambda>_.
     io_bind (store_read S (change_key c) (change_name c)) (\<lambda>v.
     io_bind (interrupt_changes_satisfied S device cs) (\<lambda>rest.
     io_ret (v = Some (change_value c) \<and> rest))))"

definition reobserve_device ::
  "'v pci_device_binding \<Rightarrow> (pci_device_class \<times> 'v pci_device_binding) list
     \<Rightarrow> ('v pci_device_binding, device_binding_error) result" where
  "reobserve_device expected observed =
     (case filter (same_pnp_device expected) (map snd observed) of
        [device] \<Rightarrow> Ok device
      | [] \<Rightarrow> Err (InvalidPciBinding (''device '' @ instance_id expected @ '' is no longer present''))
      | _ \<Rightarrow> Err (AmbiguousPciIdentity (instance_id expected)))"

fun reobserve_msi_batches ::
  "'v msi_device_batch list \<Rightarrow> (pci_device_class \<times> 'v pci_device_binding) list
     \<Rightarrow> (unit, device_binding_error) result" where
  "reobserve_msi_batches [] observed = Ok ()"
| "reobserve_msi_batches (b # bs) observed =
     and_then (reobserve_device (batch_device b) observed) (\<lambda>current.
     if \<not> eq_ignore_ascii_case (class_guid current) (pci_class_guid (batch_class b))
     then Err (InvalidPciBinding ''reobserved interrupt device changed class'')
     else reobserve_msi_batches bs observed)"

definition apply_msi_batches ::
  "'w interrupt_store \<Rightarrow> 'v msi_device_batch list \<Rightarrow> (pci_device_class \<times> 'v pci_device_binding) list
     \<Rightarrow> ('w, device_binding_error, unit) io" where
  "apply_msi_batches S batches observed =
     io_bind (io_check (reobserve_msi_batches batches observed)) (\<lambda>_.
     io_bind (io_each (\<lambda>b. apply_interrupt_changes S (batch_device b) (batch_changes b)) batches) (\<lambda>_.
     io_ret ()))"

definition verify_msi_batches ::
  "'w interrupt_store \<Rightarrow> 'v msi_device_batch list \<Rightarrow> (pci_device_class \<times> 'v pci_device_binding) list
     \<Rightarrow> ('w, device_binding_error, unit) io" where
  "verify_msi_batches S batches observed =
     io_bind (io_check (reobserve_msi_batches batches observed)) (\<lambda>_.
     io_bind (io_each (\<lambda>b. validate_interrupt_readback S (batch_changes b)) batches) (\<lambda>_.
     io_ret ()))"

definition restore_interrupt_backup ::
  "'w interrupt_store
     \<Rightarrow> (pci_device_class \<times> 'v pci_device_binding) list \<Rightarrow> 'v interrupt_policy_backup
     \<Rightarrow> ('w, device_binding_error, unit) io" where
  "restore_interrupt_backup S observed backup =
     io_bind (io_check (map_err (\<lambda>e. RegistryAccess (interrupt_policy_error_text e)) (interrupt_validate backup))) (\<lambda>_.
     io_bind (io_check (reobserve_device (ip_device backup) observed)) (\<lambda>_.
     let key = registry_key backup; name = value_name (ip_policy backup) in
     case ip_original_value backup of
       Some value \<Rightarrow>
         io_bind (store_write S key name (runtime_value value)) (\<lambda>_.
         io_bind (store_read S key name) (\<lambda>v.
         if v \<noteq> Some (runtime_value value) then io_fail (RegistryReadbackMismatch key name) else io_ret ()))
     | None \<Rightarrow>
         io_bind (store_delete S key name) (\<lambda>_.
         io_bind (store_read S key name) (\<lambda>v.
         if v \<noteq> None then io_fail (RegistryReadbackMismatch key name) else io_ret ()))))"


section \<open>What a change is\<close>

lemma policy_of_name_Some: "policy_of_name n = Some p \<longleftrightarrow> n = value_name p"
  by (cases p) (auto simp: policy_of_name_def MSI_SUPPORTED_def MESSAGE_NUMBER_LIMIT_def DEVICE_POLICY_def
      ASSIGNMENT_SET_OVERRIDE_def split: if_splits)

lemma value_name_inject: "value_name p = value_name q \<longleftrightarrow> p = q"
  by (metis option.inject policy_of_name_Some)

lemma policy_for_change_Ok:
  "policy_for_change device c = Ok p \<longleftrightarrow>
     change_name c = value_name p \<and> change_key c = enum_key device (registry_suffix p)
     \<and> \<not> change_type_rejected p (change_value c)"
proof (cases "policy_of_name (change_name c)")
  case None
  then have "change_name c \<noteq> value_name p" by (metis option.distinct(1) policy_of_name_Some)
  then show ?thesis using None by (simp add: policy_for_change_def)
next
  case (Some q)
  then have q: "change_name c = value_name q" by (simp only: policy_of_name_Some)
  then have "change_name c = value_name p \<longleftrightarrow> p = q" using value_name_inject by auto
  then show ?thesis using Some by (auto simp: policy_for_change_def)
qed

lemma registry_key_enum_key: "registry_key b = enum_key (ip_device b) (registry_suffix (ip_policy b))"
  by (simp add: registry_key_def enum_key_def)

lemma runtime_backup_value [simp]: "runtime_value (backup_value v) = v"
  by (cases v) simp_all

lemma msi_batch_build_bound:
  assumes "msi_batch_build c device = Ok b" and "x \<in> set (batch_changes b)"
  shows "batch_device b = device" and "\<exists>p. policy_for_change device x = Ok p \<and> policy_expected_step p = ''P3:2''"
proof -
  have suffix: "INTERRUPT_PARAMETERS_SUFFIX = registry_suffix MsiSupported"
    "INTERRUPT_PARAMETERS_SUFFIX = registry_suffix MessageNumberLimit"
    by (simp_all add: INTERRUPT_PARAMETERS_SUFFIX_def)
  have b: "batch_device b = device" "batch_changes b =
      [\<lparr>change_key = interrupt_parameters_key device, change_name = MSI_SUPPORTED, change_value = RegDword 1\<rparr>]
      @ (if c = Display then [\<lparr>change_key = interrupt_parameters_key device, change_name = MESSAGE_NUMBER_LIMIT,
           change_value = RegDword 16\<rparr>] else [])"
    using assms(1) by (auto simp: msi_batch_build_def guard_simps Let_def split: if_splits)
  show "batch_device b = device" by (rule b(1))
  from assms(2) have "x = \<lparr>change_key = interrupt_parameters_key device, change_name = MSI_SUPPORTED,
        change_value = RegDword 1\<rparr> \<or> x = \<lparr>change_key = interrupt_parameters_key device,
        change_name = MESSAGE_NUMBER_LIMIT, change_value = RegDword 16\<rparr>"
    unfolding b(2) by (auto split: if_splits)
  then show "\<exists>p. policy_for_change device x = Ok p \<and> policy_expected_step p = ''P3:2''"
  proof
    assume "x = \<lparr>change_key = interrupt_parameters_key device, change_name = MSI_SUPPORTED, change_value = RegDword 1\<rparr>"
    then have "policy_for_change device x = Ok MsiSupported"
      by (simp add: policy_for_change_Ok interrupt_parameters_key_def suffix(1) MSI_SUPPORTED_def del: registry_suffix.simps)
    then show ?thesis by fastforce
  next
    assume "x = \<lparr>change_key = interrupt_parameters_key device, change_name = MESSAGE_NUMBER_LIMIT,
      change_value = RegDword 16\<rparr>"
    then have "policy_for_change device x = Ok MessageNumberLimit"
      by (simp add: policy_for_change_Ok interrupt_parameters_key_def suffix(2) MESSAGE_NUMBER_LIMIT_def
          del: registry_suffix.simps)
    then show ?thesis by fastforce
  qed
qed

section \<open>The interface of the store\<close>

text \<open>
  \<open>content\<close> is what the store holds, \<open>place\<close> where a key and a value name lead, and \<open>meaning\<close> what a
  held datum reads as; a datum may have none, and then reading it fails.
\<close>

locale interrupt_registry =
  fixes S :: "'w interrupt_store"
    and content :: "'w \<Rightarrow> string \<times> string \<Rightarrow> 'r option"
    and place :: "string \<Rightarrow> string \<Rightarrow> string \<times> string"
    and meaning :: "'r \<Rightarrow> interrupt_registry_value option"
  assumes read_content: "store_read S k n w = (r, w') \<Longrightarrow> content w' = content w"
    and read_Ok: "store_read S k n w = (Ok found, w') \<Longrightarrow>
      (case content w (place k n) of None \<Rightarrow> found = None | Some d \<Rightarrow> found \<noteq> None \<and> found = meaning d)"
    and write_Ok: "store_write S k n v w = (Ok u, w') \<Longrightarrow>
      \<exists>d. meaning d = Some v \<and> content w' = (content w)(place k n \<mapsto> d)"
    and write_Err: "store_write S k n v w = (Err e, w') \<Longrightarrow> content w' = content w"
    and delete_Ok: "store_delete S k n w = (Ok u, w') \<Longrightarrow> content w' = (content w)(place k n := None)"
    and delete_Err: "store_delete S k n w = (Err e, w') \<Longrightarrow> content w' = content w"
    and meaning_inject: "meaning d = Some v \<Longrightarrow> meaning d' = Some v \<Longrightarrow> d = d'"
begin

definition backup_place :: "'v interrupt_policy_backup \<Rightarrow> string \<times> string" where
  "backup_place b = place (registry_key b) (value_name (ip_policy b))"

definition change_place :: "interrupt_registry_change \<Rightarrow> string \<times> string" where
  "change_place c = place (change_key c) (change_name c)"

definition records :: "'w \<Rightarrow> 'v interrupt_policy_backup \<Rightarrow> bool" where
  "records w b \<longleftrightarrow>
     (case content w (backup_place b) of
        None \<Rightarrow> ip_original_value b = None
      | Some d \<Rightarrow> (\<exists>v. ip_original_value b = Some v \<and> meaning d = Some (runtime_value v)))"

lemma capture_change:
  assumes "capture_interrupt_change S step timestamp device c w = (Ok b, w')"
  shows "content w' = content w" and "backup_place b = change_place c" and "records w b"
proof -
  obtain p v where p: "policy_for_change device c = Ok p"
    and read: "store_read S (change_key c) (change_name c) w = (Ok v, w')"
    and b: "b = \<lparr>ip_step = step, ip_timestamp = timestamp, ip_device = device, ip_policy = p,
      ip_existed = (v \<noteq> None), ip_original_value = map_option backup_value v, ip_unknown = fmempty\<rparr>"
    using assms by (auto simp: capture_interrupt_change_def io_Ok Let_def guard_simps split: if_splits)
  then have orig: "ip_original_value b = map_option backup_value v" by simp
  show "content w' = content w" by (rule read_content [OF read])
  show place: "backup_place b = change_place c"
    using p unfolding backup_place_def change_place_def registry_key_enum_key policy_for_change_Ok b by simp
  show "records w b"
    using read_Ok [OF read] orig unfolding records_def place change_place_def
    by (auto split: option.splits)
qed

lemma capture_items:
  assumes "io_each (\<lambda>(device, c). capture_interrupt_change S step timestamp device c) items w = (Ok bs, w')"
  shows "content w' = content w \<and> map backup_place bs = map (change_place \<circ> snd) items \<and> (\<forall>b\<in>set bs. records w b)"
  using assms
proof (induction items arbitrary: w bs)
  case (Cons x items)
  obtain device c where x: "x = (device, c)" by fastforce
  obtain b w1 bs' where b: "capture_interrupt_change S step timestamp device c w = (Ok b, w1)"
    and bs': "io_each (\<lambda>(device, c). capture_interrupt_change S step timestamp device c) items w1 = (Ok bs', w')"
    and bs: "bs = b # bs'"
    using Cons.prems by (auto simp: io_Ok x)
  note head = capture_change [OF b]
  have "records w b'" if "records w1 b'" for b' :: "'b interrupt_policy_backup"
    using that head(1) by (simp add: records_def)
  then show ?case using Cons.IH [OF bs'] head by (auto simp: bs x)
qed (simp add: io_Ok)

lemma restore_backup:
  assumes "restore_interrupt_backup S observed b w = (Ok u, w')" and "records w0 b"
  shows "content w' = (content w)(backup_place b := content w0 (backup_place b))"
proof (cases "ip_original_value b")
  case None
  then obtain w1 where d: "store_delete S (registry_key b) (value_name (ip_policy b)) w = (Ok (), w1)"
    and r: "store_read S (registry_key b) (value_name (ip_policy b)) w1 = (Ok None, w')"
    using assms(1) by (auto simp: restore_interrupt_backup_def io_Ok Let_def split: if_splits)
  have "content w0 (backup_place b) = None"
    using assms(2) None by (auto simp: records_def split: option.splits)
  then show ?thesis using delete_Ok [OF d] read_content [OF r] by (simp add: backup_place_def)
next
  case (Some v)
  then obtain w1 where d: "store_write S (registry_key b) (value_name (ip_policy b)) (runtime_value v) w = (Ok (), w1)"
    and r: "store_read S (registry_key b) (value_name (ip_policy b)) w1 = (Ok (Some (runtime_value v)), w')"
    using assms(1) by (auto simp: restore_interrupt_backup_def io_Ok Let_def split: if_splits)
  obtain d0 where d0: "content w0 (backup_place b) = Some d0" "meaning d0 = Some (runtime_value v)"
    using assms(2) Some by (auto simp: records_def split: option.splits)
  obtain d1 where d1: "meaning d1 = Some (runtime_value v)"
    "content w1 = (content w)(place (registry_key b) (value_name (ip_policy b)) \<mapsto> d1)"
    using write_Ok [OF d] by blast
  have "d1 = d0" using meaning_inject d0(2) d1(1) by blast
  then show ?thesis using d0(1) d1(2) read_content [OF r] by (simp add: backup_place_def)
qed

lemma restore_backups:
  assumes "io_each (restore_interrupt_backup S observed) bs w = (Ok us, w')" and "\<forall>b\<in>set bs. records w0 b"
  shows "content w' p = (if p \<in> backup_place ` set bs then content w0 p else content w p)"
  using assms
proof (induction bs arbitrary: w us)
  case (Cons b bs)
  obtain u w1 us' where r: "restore_interrupt_backup S observed b w = (Ok u, w1)"
    and rest: "io_each (restore_interrupt_backup S observed) bs w1 = (Ok us', w')"
    using Cons.prems(1) by (auto simp: io_Ok)
  have "records w0 b" using Cons.prems(2) by simp
  from restore_backup [OF r this] Cons.IH [OF rest] Cons.prems(2) show ?case by auto
qed (simp add: io_Ok)

text \<open>An application, complete or not, changes only the places of its changes.\<close>

definition keeps_outside :: "(string \<times> string) set \<Rightarrow> 'w \<Rightarrow> 'w \<Rightarrow> bool" where
  "keeps_outside P w w' \<longleftrightarrow> (\<forall>p. p \<notin> P \<longrightarrow> content w' p = content w p)"

lemma keeps_outside_order: "reflp (keeps_outside P)" "transp (keeps_outside P)"
  by (auto simp: keeps_outside_def intro!: reflpI transpI)

lemma write_keeps: "place k n \<in> P \<Longrightarrow> io_within (keeps_outside P) (store_write S k n v)"
  unfolding io_within_def keeps_outside_def
proof (intro allI impI)
  fix w p assume "place k n \<in> P" and "p \<notin> P"
  then show "content (snd (store_write S k n v w)) p = content w p"
    using write_Ok [of k n v w] write_Err [of k n v w] by (cases "store_write S k n v w"; cases "fst (store_write S k n v w)") fastforce+
qed

lemma apply_changes_keeps:
  "change_place ` set cs \<subseteq> P \<Longrightarrow> io_within (keeps_outside P) (apply_interrupt_changes S device cs)"
  by (induction cs) (auto intro!: io_within_intros keeps_outside_order write_keeps simp: change_place_def)

lemma apply_batches_keeps:
  "(change_place \<circ> snd) ` set (batch_items bs) \<subseteq> P \<Longrightarrow> io_within (keeps_outside P) (apply_msi_batches S bs observed)"
  unfolding apply_msi_batches_def
  by (intro io_within_intros io_within_each keeps_outside_order apply_changes_keeps)
     (force simp: batch_items_def)

lemma capture_apply_restore:
  assumes captured: "capture_interrupt_backups S step batches timestamp w0 = (Ok entries, w1)"
    and applied: "apply_msi_batches S batches observed w1 = (r, w2)"
    and order: "BackupInterruptPolicy ` set bs = set entries"
    and restored: "io_each (restore_interrupt_backup S observed') bs w2 = (Ok us, w3)"
  shows "content w3 = content w0"
proof -
  obtain backups where cap: "io_each (\<lambda>(device, c). capture_interrupt_change S step timestamp device c)
      (batch_items batches) w0 = (Ok backups, w1)" and entries: "entries = map BackupInterruptPolicy backups"
    using captured by (auto simp: capture_interrupt_backups_def io_Ok)
  note cap' = capture_items [OF cap]
  have set: "set bs = set backups"
    using order by (auto simp: entries)
  have places: "backup_place ` set bs = (change_place \<circ> snd) ` set (batch_items batches)"
    unfolding set using cap' by (metis set_map)
  have "keeps_outside (backup_place ` set bs) w1 w2"
    using io_withinD [OF apply_batches_keeps applied] unfolding places by blast
  moreover have "content w3 p = (if p \<in> backup_place ` set bs then content w0 p else content w2 p)" for p
    using restore_backups [OF restored] cap' set by blast
  ultimately show ?thesis using cap' by (auto simp: keeps_outside_def)
qed

end

end
