(* ===== verification/Interrupt_Registry.thy ===== *)
theory Interrupt_Registry
  imports Interrupt_Policy
begin

text \<open>
  The store of interrupt values in the Windows registry
  (\<open>crates/frametime-windows/src/system/interrupt_registry_windows.rs\<close>), over a model of the Win32 calls
  it makes, and the native entry points of \<open>interrupt_registry.rs\<close>.  The store keeps the promises of the
  locale \<open>interrupt_registry\<close>, which gives the rollback theorem for the native operations.
\<close>

section \<open>The registry\<close>

text \<open>
  Keys and value names are case-insensitive.  A call other than a lookup of something absent may return
  any other error code, and then it does nothing; \<open>0\<close> is success.
\<close>

record registry_world =
  rw_keys :: "string list"
  rw_values :: "(string \<times> string, nat \<times> u8 list) fmap"
  rw_calls :: nat
  rw_fault :: "nat \<Rightarrow> u32"

definition ERROR_FILE_NOT_FOUND :: u32 where "ERROR_FILE_NOT_FOUND = 2"
definition REG_BINARY :: nat where "REG_BINARY = 3"
definition REG_DWORD :: nat where "REG_DWORD = 4"
definition MAX_INTERRUPT_VALUE_BYTES :: nat where "MAX_INTERRUPT_VALUE_BYTES = 64"

definition registry_place :: "string \<Rightarrow> string \<Rightarrow> string \<times> string" where
  "registry_place k n = (to_ascii_lowercase k, to_ascii_lowercase n)"

definition win32 :: "(registry_world \<Rightarrow> u32 \<times> registry_world) \<Rightarrow> registry_world \<Rightarrow> u32 \<times> registry_world" where
  "win32 call w =
     (let w' = w\<lparr>rw_calls := rw_calls w + 1\<rparr>; code = rw_fault w (rw_calls w) in
      if code \<noteq> 0 \<and> code \<noteq> ERROR_FILE_NOT_FOUND then (code, w') else call w')"

definition reg_open_key :: "string \<Rightarrow> registry_world \<Rightarrow> u32 \<times> registry_world" where
  "reg_open_key k = win32 (\<lambda>w. (if to_ascii_lowercase k \<in> set (rw_keys w) then 0 else ERROR_FILE_NOT_FOUND, w))"

definition reg_query_value :: "string \<Rightarrow> string \<Rightarrow> registry_world \<Rightarrow> u32 \<times> registry_world" where
  "reg_query_value k n =
     win32 (\<lambda>w. (if fmlookup (rw_values w) (registry_place k n) = None then ERROR_FILE_NOT_FOUND else 0, w))"

definition reg_set_value :: "string \<Rightarrow> string \<Rightarrow> nat \<Rightarrow> u8 list \<Rightarrow> registry_world \<Rightarrow> u32 \<times> registry_world" where
  "reg_set_value k n kind bytes =
     win32 (\<lambda>w. (0, w\<lparr>rw_values := fmupd (registry_place k n) (kind, bytes) (rw_values w)\<rparr>))"

definition reg_delete_value :: "string \<Rightarrow> string \<Rightarrow> registry_world \<Rightarrow> u32 \<times> registry_world" where
  "reg_delete_value k n =
     win32 (\<lambda>w. (if fmlookup (rw_values w) (registry_place k n) = None then ERROR_FILE_NOT_FOUND else 0,
                 w\<lparr>rw_values := fmdrop (registry_place k n) (rw_values w)\<rparr>))"

section \<open>The store\<close>

definition registry_error :: "string \<Rightarrow> u32 \<Rightarrow> device_binding_error" where
  "registry_error action code = RegistryAccess (action @ '' failed with '' @ dec (unat code))"

text \<open>\<open>open\<close>: whether there is a handle.\<close>

definition registry_open :: "string \<Rightarrow> (registry_world, device_binding_error, bool) io" where
  "registry_open k w =
     (case reg_open_key k w of (code, w') \<Rightarrow>
        (if code = ERROR_FILE_NOT_FOUND then Ok False
         else if code = 0 then Ok True
         else Err (registry_error ''RegOpenKeyExW'' code), w'))"

fun from_le_bytes :: "u8 list \<Rightarrow> u32" where
  "from_le_bytes [] = 0"
| "from_le_bytes (b # bs) = ucast b + 256 * from_le_bytes bs"

definition registry_decode ::
  "nat \<times> u8 list \<Rightarrow> (interrupt_registry_value option, device_binding_error) result" where
  "registry_decode d =
     (case d of (kind, bytes) \<Rightarrow>
        if kind = REG_DWORD \<and> length bytes = 4 then Ok (Some (RegDword (from_le_bytes bytes)))
        else if kind = REG_BINARY then Ok (Some (RegBinary bytes))
        else Err (RegistryAccess ''interrupt value has an unsupported registry type''))"

definition registry_read ::
  "string \<Rightarrow> string \<Rightarrow> (registry_world, device_binding_error, interrupt_registry_value option) io" where
  "registry_read k n =
     io_bind (registry_open k) (\<lambda>opened.
     if \<not> opened then io_ret None
     else (\<lambda>w.
       case reg_query_value k n w of (first, w1) \<Rightarrow>
       if first = ERROR_FILE_NOT_FOUND then (Ok None, w1)
       else
         let d = (case fmlookup (rw_values w1) (registry_place k n) of Some d \<Rightarrow> d | None \<Rightarrow> (0, [])) in
         if first \<noteq> 0 \<or> length (snd d) > MAX_INTERRUPT_VALUE_BYTES
         then (Err (registry_error ''RegQueryValueExW(size)'' first), w1)
         else
           case reg_query_value k n w1 of (second, w2) \<Rightarrow>
           if second \<noteq> 0 then (Err (registry_error ''RegQueryValueExW(value)'' second), w2)
           else (registry_decode d, w2)))"

definition registry_write ::
  "string \<Rightarrow> string \<Rightarrow> interrupt_registry_value \<Rightarrow> (registry_world, device_binding_error, unit) io" where
  "registry_write k n value =
     io_bind (registry_open k) (\<lambda>opened.
     if \<not> opened then io_fail (RegistryAccess ''interrupt device registry key is absent'')
     else
       let write = (\<lambda>kind bytes w.
         case reg_set_value k n kind bytes w of (code, w') \<Rightarrow>
         (if code = 0 then Ok () else Err (registry_error ''RegSetValueExW'' code), w')) in
       case value of
         RegDword v \<Rightarrow> write REG_DWORD (to_le_bytes 4 v)
       | RegBinary bytes \<Rightarrow>
           if length bytes \<le> MAX_INTERRUPT_VALUE_BYTES then write REG_BINARY bytes
           else io_fail (RegistryAccess ''interrupt binary value exceeds its bound''))"

definition registry_delete :: "string \<Rightarrow> string \<Rightarrow> (registry_world, device_binding_error, unit) io" where
  "registry_delete k n =
     io_bind (registry_open k) (\<lambda>opened.
     if \<not> opened then io_ret ()
     else (\<lambda>w.
       case reg_delete_value k n w of (code, w') \<Rightarrow>
       (if code = 0 \<or> code = ERROR_FILE_NOT_FOUND then Ok () else Err (registry_error ''RegDeleteValueW'' code), w')))"

definition windows_interrupt_registry :: "registry_world interrupt_store" where
  "windows_interrupt_registry =
     \<lparr>store_read = registry_read, store_write = registry_write, store_delete = registry_delete\<rparr>"

section \<open>The store keeps the promises\<close>

definition registry_content :: "registry_world \<Rightarrow> string \<times> string \<Rightarrow> (nat \<times> u8 list) option" where
  "registry_content w p = (if fst p \<in> set (rw_keys w) then fmlookup (rw_values w) p else None)"

definition registry_meaning :: "nat \<times> u8 list \<Rightarrow> interrupt_registry_value option" where
  "registry_meaning d =
     (if length (snd d) > MAX_INTERRUPT_VALUE_BYTES then None
      else case registry_decode d of Ok v \<Rightarrow> v | Err e \<Rightarrow> None)"

lemma bytes_split: "ucast (ucast (w :: u32) :: u8) + 256 * drop_bit 8 w = w"
proof -
  have "ucast (ucast w :: u8) = take_bit 8 w" by (simp add: unsigned_ucast_eq)
  moreover have "256 * drop_bit 8 w = push_bit 8 (drop_bit 8 w)" by (simp add: push_bit_eq_mult)
  ultimately show ?thesis by (metis bits_ident add.commute)
qed

lemma from_to_le_bytes: "from_le_bytes (to_le_bytes 4 w) = w"
proof -
  have "to_le_bytes 4 w = [ucast w, ucast (drop_bit 8 w), ucast (drop_bit 16 w), ucast (drop_bit 24 w)]"
    by (simp add: to_le_bytes_def upt_rec)
  moreover have "drop_bit 8 (drop_bit 24 w) = 0" by (rule bit_word_eqI) (simp add: bit_simps)
  then have "ucast (ucast (drop_bit 24 w) :: u8) = drop_bit 24 w" using bytes_split [of "drop_bit 24 w"] by simp
  ultimately show ?thesis
    using bytes_split [of w] bytes_split [of "drop_bit 8 w"] bytes_split [of "drop_bit 16 w"] by simp
qed


fun le_value :: "u8 list \<Rightarrow> nat" where
  "le_value [] = 0"
| "le_value (b # bs) = unat b + 256 * le_value bs"

lemma byte_bound: "unat (b :: u8) < 256"
proof -
  have "unat b < 2 ^ LENGTH(8)" by (rule unsigned_less)
  then show ?thesis by simp
qed

lemma le_value_bound: "le_value bs < 256 ^ length bs"
proof (induction bs)
  case (Cons b bs)
  then show ?case using byte_bound [of b] by simp
qed simp

lemma byte_split: "(x :: nat) < 256 \<Longrightarrow> y < 256 \<Longrightarrow> x + 256 * a = y + 256 * b \<Longrightarrow> x = y \<and> a = b"
proof -
  assume b: "x < 256" "y < 256" "x + 256 * a = y + 256 * b"
  then have "(x + 256 * a) mod 256 = (y + 256 * b) mod 256" by simp
  then have "x = y" using b(1,2) by simp
  then show ?thesis using b(3) by simp
qed

lemma le_value_inject: "length bs = length cs \<Longrightarrow> le_value bs = le_value cs \<Longrightarrow> bs = cs"
proof (induction bs cs rule: list_induct2)
  case (Cons b bs c cs)
  have "unat b = unat c" and "le_value bs = le_value cs"
    using Cons.prems byte_bound [of b] byte_bound [of c] byte_split [of "unat b" "unat c"] by simp_all
  then show ?case using Cons.IH by (metis unsigned_word_eqI)
qed simp

lemma unat_from_le_bytes: "length bs \<le> 4 \<Longrightarrow> unat (from_le_bytes bs) = le_value bs"
proof (induction bs)
  case (Cons b bs)
  have "le_value (b # bs) < 256 ^ length (b # bs)" by (rule le_value_bound)
  also have "\<dots> \<le> 256 ^ 4" using Cons.prems by (intro power_increasing) simp_all
  finally have bound: "unat b + 256 * le_value bs < 2 ^ 32" by simp
  have "unat (ucast b :: u32) = unat b" using byte_bound [of b] by (simp add: unsigned_ucast_eq take_bit_nat_eq_self)
  moreover have "unat (256 * from_le_bytes bs) = 256 * le_value bs"
    using bound Cons by (subst unat_mult_lem [THEN iffD1]) simp_all
  ultimately show ?case
    using bound by (simp add: unat_add_lem [THEN iffD1])
qed simp

lemma registry_meaning_inject: "registry_meaning d = Some v \<Longrightarrow> registry_meaning d' = Some v \<Longrightarrow> d = d'"
proof -
  assume d: "registry_meaning d = Some v" "registry_meaning d' = Some v"
  have "bs = cs" if "length bs = 4" "length cs = 4" "from_le_bytes bs = from_le_bytes cs" for bs cs
    using that unat_from_le_bytes [of bs] unat_from_le_bytes [of cs] by (intro le_value_inject) simp_all
  with d show "d = d'"
    by (auto simp: registry_meaning_def registry_decode_def REG_DWORD_def REG_BINARY_def split: prod.splits if_splits)
qed

lemma not_found_nonzero: "ERROR_FILE_NOT_FOUND \<noteq> 0"
  by (simp add: ERROR_FILE_NOT_FOUND_def)

lemma registry_content_calls [simp]: "registry_content (w\<lparr>rw_calls := c\<rparr>) = registry_content w"
  by (simp add: registry_content_def fun_eq_iff)

lemma reg_open_key_result:
  assumes "reg_open_key k w = (code, w')"
  shows "w' = w\<lparr>rw_calls := rw_calls w + 1\<rparr>"
    and "code = 0 \<Longrightarrow> to_ascii_lowercase k \<in> set (rw_keys w)"
    and "code = ERROR_FILE_NOT_FOUND \<Longrightarrow> to_ascii_lowercase k \<notin> set (rw_keys w)"
proof -
  define w1 where "w1 = w\<lparr>rw_calls := rw_calls w + 1\<rparr>"
  have "(code, w') = (if rw_fault w (rw_calls w) \<noteq> 0 \<and> rw_fault w (rw_calls w) \<noteq> ERROR_FILE_NOT_FOUND
      then (rw_fault w (rw_calls w), w1)
      else (if to_ascii_lowercase k \<in> set (rw_keys w) then 0 else ERROR_FILE_NOT_FOUND, w1))"
    unfolding assms [symmetric] by (simp add: reg_open_key_def win32_def Let_def w1_def cong: if_cong)
  then show "w' = w\<lparr>rw_calls := rw_calls w + 1\<rparr>"
    and "code = 0 \<Longrightarrow> to_ascii_lowercase k \<in> set (rw_keys w)"
    and "code = ERROR_FILE_NOT_FOUND \<Longrightarrow> to_ascii_lowercase k \<notin> set (rw_keys w)"
    unfolding w1_def [symmetric] using not_found_nonzero by (simp_all split: if_splits)
qed

lemma registry_open_result:
  assumes "registry_open k w = (r, w')"
  shows "w' = w\<lparr>rw_calls := rw_calls w + 1\<rparr>"
    and "r = Ok b \<Longrightarrow> b \<longleftrightarrow> to_ascii_lowercase k \<in> set (rw_keys w)"
proof -
  obtain code w1 where o': "reg_open_key k w = (code, w1)" by fastforce
  note result = reg_open_key_result [OF o']
  show "w' = w\<lparr>rw_calls := rw_calls w + 1\<rparr>" using assms o' result(1) by (simp add: registry_open_def)
  show "r = Ok b \<Longrightarrow> b \<longleftrightarrow> to_ascii_lowercase k \<in> set (rw_keys w)"
    using assms o' result(2,3) by (auto simp: registry_open_def split: if_splits)
qed

lemma reg_query_value_result:
  assumes "reg_query_value k n w = (code, w')"
  shows "w' = w\<lparr>rw_calls := rw_calls w + 1\<rparr>"
    and "code = ERROR_FILE_NOT_FOUND \<Longrightarrow> fmlookup (rw_values w) (registry_place k n) = None"
    and "code = 0 \<Longrightarrow> fmlookup (rw_values w) (registry_place k n) \<noteq> None"
proof -
  define w1 where "w1 = w\<lparr>rw_calls := rw_calls w + 1\<rparr>"
  have "(code, w') = (if rw_fault w (rw_calls w) \<noteq> 0 \<and> rw_fault w (rw_calls w) \<noteq> ERROR_FILE_NOT_FOUND
      then (rw_fault w (rw_calls w), w1)
      else (if fmlookup (rw_values w) (registry_place k n) = None then ERROR_FILE_NOT_FOUND else 0, w1))"
    unfolding assms [symmetric] by (simp add: reg_query_value_def win32_def Let_def w1_def cong: if_cong)
  then show "w' = w\<lparr>rw_calls := rw_calls w + 1\<rparr>"
    and "code = ERROR_FILE_NOT_FOUND \<Longrightarrow> fmlookup (rw_values w) (registry_place k n) = None"
    and "code = 0 \<Longrightarrow> fmlookup (rw_values w) (registry_place k n) \<noteq> None"
    unfolding w1_def [symmetric] using not_found_nonzero by (simp_all split: if_splits)
qed

lemma registry_read_result:
  assumes "registry_read k n w = (r, w')"
  shows "registry_content w' = registry_content w"
    and "r = Ok v \<Longrightarrow> (case registry_content w (registry_place k n) of
      None \<Rightarrow> v = None | Some d \<Rightarrow> v \<noteq> None \<and> v = registry_meaning d)"
proof -
  obtain opened w1 where op: "registry_open k w = (opened, w1)" by fastforce
  note opened = registry_open_result [OF op]
  have lookup: "registry_content w (registry_place k n) =
      (if to_ascii_lowercase k \<in> set (rw_keys w) then fmlookup (rw_values w) (registry_place k n) else None)"
    by (simp add: registry_content_def registry_place_def)
  obtain first w2 where q: "reg_query_value k n w1 = (first, w2)" by fastforce
  obtain second w3 where q2: "reg_query_value k n w2 = (second, w3)" by fastforce
  note first = reg_query_value_result [OF q]
  note second = reg_query_value_result [OF q2]
  have same: "rw_values w1 = rw_values w" "rw_values w2 = rw_values w"
    "registry_content w1 = registry_content w" "registry_content w2 = registry_content w"
    "registry_content w3 = registry_content w"
    unfolding second(1) unfolding first(1) unfolding opened(1) by simp_all
  have run: "registry_read k n w = (case opened of
      Err e \<Rightarrow> (Err e, w1)
    | Ok b \<Rightarrow> if \<not> b then (Ok None, w1)
        else if first = ERROR_FILE_NOT_FOUND then (Ok None, w2)
        else
          let d = (case fmlookup (rw_values w) (registry_place k n) of Some d \<Rightarrow> d | None \<Rightarrow> (0, [])) in
          if first \<noteq> 0 \<or> length (snd d) > MAX_INTERRUPT_VALUE_BYTES
          then (Err (registry_error ''RegQueryValueExW(size)'' first), w2)
          else if second \<noteq> 0 then (Err (registry_error ''RegQueryValueExW(value)'' second), w3)
          else (registry_decode d, w3))"
    by (cases opened) (simp_all add: registry_read_def io_bind_def io_ret_def Let_def op q q2 same)
  show "registry_content w' = registry_content w"
    using assms same unfolding run Let_def by (auto split: result.splits if_splits)
  show "case registry_content w (registry_place k n) of None \<Rightarrow> v = None | Some d \<Rightarrow> v \<noteq> None \<and> v = registry_meaning d"
    if v: "r = Ok v"
  proof (cases opened)
    case (Err e)
    then show ?thesis using assms v unfolding run by simp
  next
    case (Ok b)
    show ?thesis
    proof (cases "b \<and> first \<noteq> ERROR_FILE_NOT_FOUND")
      case False
      then show ?thesis
        using assms v opened(2) [OF Ok] first(2) unfolding run lookup by (auto simp: Ok same split: if_splits)
    next
      case True
      then obtain d where d: "fmlookup (rw_values w) (registry_place k n) = Some d"
        using assms v first(3) unfolding run Let_def by (cases "fmlookup (rw_values w) (registry_place k n)") (auto simp: Ok same split: if_splits)
      have "registry_decode d \<noteq> Ok None" by (auto simp: registry_decode_def split: prod.splits)
      then show ?thesis
        using assms v d opened(2) [OF Ok] True unfolding run lookup
        by (auto simp: Ok same registry_meaning_def Let_def split: if_splits)
    qed
  qed
qed


lemma reg_set_value_result:
  assumes "reg_set_value k n kind bytes w = (code, w')"
  shows "code = 0 \<Longrightarrow> w' = w\<lparr>rw_calls := rw_calls w + 1, rw_values := fmupd (registry_place k n) (kind, bytes) (rw_values w)\<rparr>"
    and "code \<noteq> 0 \<Longrightarrow> w' = w\<lparr>rw_calls := rw_calls w + 1\<rparr>"
proof -
  define w1 where "w1 = w\<lparr>rw_calls := rw_calls w + 1\<rparr>"
  have "(code, w') = (if rw_fault w (rw_calls w) \<noteq> 0 \<and> rw_fault w (rw_calls w) \<noteq> ERROR_FILE_NOT_FOUND
      then (rw_fault w (rw_calls w), w1)
      else (0, w\<lparr>rw_calls := rw_calls w + 1, rw_values := fmupd (registry_place k n) (kind, bytes) (rw_values w)\<rparr>))"
    unfolding assms [symmetric] by (simp add: reg_set_value_def win32_def Let_def w1_def)
  then show "code = 0 \<Longrightarrow> w' = w\<lparr>rw_calls := rw_calls w + 1, rw_values := fmupd (registry_place k n) (kind, bytes) (rw_values w)\<rparr>"
    and "code \<noteq> 0 \<Longrightarrow> w' = w\<lparr>rw_calls := rw_calls w + 1\<rparr>"
    unfolding w1_def [symmetric] by (simp_all split: if_splits)
qed

lemma reg_delete_value_result:
  assumes "reg_delete_value k n w = (code, w')"
  shows "code = 0 \<or> code = ERROR_FILE_NOT_FOUND \<Longrightarrow>
      w' = w\<lparr>rw_calls := rw_calls w + 1, rw_values := fmdrop (registry_place k n) (rw_values w)\<rparr>"
    and "code \<noteq> 0 \<Longrightarrow> code \<noteq> ERROR_FILE_NOT_FOUND \<Longrightarrow> w' = w\<lparr>rw_calls := rw_calls w + 1\<rparr>"
proof -
  define w1 where "w1 = w\<lparr>rw_calls := rw_calls w + 1\<rparr>"
  define w2 where "w2 = w\<lparr>rw_calls := rw_calls w + 1, rw_values := fmdrop (registry_place k n) (rw_values w)\<rparr>"
  have "(code, w') = (if rw_fault w (rw_calls w) \<noteq> 0 \<and> rw_fault w (rw_calls w) \<noteq> ERROR_FILE_NOT_FOUND
      then (rw_fault w (rw_calls w), w1)
      else (if fmlookup (rw_values w) (registry_place k n) = None then ERROR_FILE_NOT_FOUND else 0, w2))"
    unfolding assms [symmetric] by (simp add: reg_delete_value_def win32_def Let_def w1_def w2_def cong: if_cong)
  then show "code = 0 \<or> code = ERROR_FILE_NOT_FOUND \<Longrightarrow>
      w' = w\<lparr>rw_calls := rw_calls w + 1, rw_values := fmdrop (registry_place k n) (rw_values w)\<rparr>"
    and "code \<noteq> 0 \<Longrightarrow> code \<noteq> ERROR_FILE_NOT_FOUND \<Longrightarrow> w' = w\<lparr>rw_calls := rw_calls w + 1\<rparr>"
    unfolding w2_def [symmetric] unfolding w1_def [symmetric] by (auto split: if_splits)
qed

lemma content_upd:
  "to_ascii_lowercase k \<in> set (rw_keys w) \<Longrightarrow>
     registry_content (w\<lparr>rw_calls := c, rw_values := fmupd (registry_place k n) d (rw_values w)\<rparr>)
       = (registry_content w)(registry_place k n \<mapsto> d)"
  by (auto simp: registry_content_def fun_eq_iff registry_place_def)

lemma content_drop:
  "registry_content (w\<lparr>rw_calls := c, rw_values := fmdrop (registry_place k n) (rw_values w)\<rparr>)
     = (registry_content w)(registry_place k n := None)"
  by (auto simp: registry_content_def fun_eq_iff registry_place_def)

lemma content_absent:
  "to_ascii_lowercase k \<notin> set (rw_keys w) \<Longrightarrow> (registry_content w)(registry_place k n := None) = registry_content w"
  by (auto simp: registry_content_def fun_eq_iff registry_place_def)

lemma registry_write_result:
  assumes "registry_write k n v w = (r, w')"
  shows "r = Ok u \<Longrightarrow> \<exists>d. registry_meaning d = Some v \<and> registry_content w' = (registry_content w)(registry_place k n \<mapsto> d)"
    and "r = Err e \<Longrightarrow> registry_content w' = registry_content w"
proof -
  obtain opened w1 where op: "registry_open k w = (opened, w1)" by fastforce
  note opened = registry_open_result [OF op]
  have same: "registry_content w1 = registry_content w" "rw_keys w1 = rw_keys w" unfolding opened(1) by simp_all
  define d where "d = (case v of RegDword x \<Rightarrow> (REG_DWORD, to_le_bytes 4 x) | RegBinary bytes \<Rightarrow> (REG_BINARY, bytes))"
  define fits where "fits = (case v of RegDword x \<Rightarrow> True | RegBinary bytes \<Rightarrow> length bytes \<le> MAX_INTERRUPT_VALUE_BYTES)"
  have meaning: "fits \<Longrightarrow> registry_meaning d = Some v"
    by (cases v) (simp_all add: d_def fits_def registry_meaning_def registry_decode_def REG_DWORD_def REG_BINARY_def
        from_to_le_bytes MAX_INTERRUPT_VALUE_BYTES_def, simp_all add: to_le_bytes_def)
  obtain code w2 where set: "reg_set_value k n (fst d) (snd d) w1 = (code, w2)" by fastforce
  have run: "registry_write k n v w = (case opened of
      Err e \<Rightarrow> (Err e, w1)
    | Ok b \<Rightarrow> if \<not> b then (Err (RegistryAccess ''interrupt device registry key is absent''), w1)
        else if \<not> fits then (Err (RegistryAccess ''interrupt binary value exceeds its bound''), w1)
        else (if code = 0 then Ok () else Err (registry_error ''RegSetValueExW'' code), w2))"
    using set by (cases opened; cases v)
      (simp_all add: registry_write_def io_bind_def io_fail_def op Let_def d_def fits_def)
  have "code = 0 \<Longrightarrow> opened = Ok True \<Longrightarrow> registry_content w2 = (registry_content w)(registry_place k n \<mapsto> d)"
    using reg_set_value_result(1) [OF set] content_upd [where k = k and w = w1 and n = n and d = d and c = "rw_calls w1 + 1"] opened(2) [of True] same by simp
  moreover have "code \<noteq> 0 \<Longrightarrow> registry_content w2 = registry_content w"
    using reg_set_value_result(2) [OF set] same by simp
  ultimately have "(r = Ok u \<longrightarrow> registry_meaning d = Some v \<and> registry_content w' = (registry_content w)(registry_place k n \<mapsto> d))
      \<and> (r = Err e \<longrightarrow> registry_content w' = registry_content w)"
    using assms meaning same unfolding run by (auto split: result.splits if_splits)
  then show "r = Ok u \<Longrightarrow> \<exists>d. registry_meaning d = Some v \<and> registry_content w' = (registry_content w)(registry_place k n \<mapsto> d)"
    and "r = Err e \<Longrightarrow> registry_content w' = registry_content w" by blast+
qed

lemma registry_delete_result:
  assumes "registry_delete k n w = (r, w')"
  shows "r = Ok u \<Longrightarrow> registry_content w' = (registry_content w)(registry_place k n := None)"
    and "r = Err e \<Longrightarrow> registry_content w' = registry_content w"
proof -
  obtain opened w1 where op: "registry_open k w = (opened, w1)" by fastforce
  note opened = registry_open_result [OF op]
  have same: "registry_content w1 = registry_content w" unfolding opened(1) by simp
  obtain code w2 where del: "reg_delete_value k n w1 = (code, w2)" by fastforce
  have run: "registry_delete k n w = (case opened of
      Err e \<Rightarrow> (Err e, w1)
    | Ok b \<Rightarrow> if \<not> b then (Ok (), w1)
        else (if code = 0 \<or> code = ERROR_FILE_NOT_FOUND then Ok () else Err (registry_error ''RegDeleteValueW'' code), w2))"
    using del by (cases opened) (simp_all add: registry_delete_def io_bind_def io_ret_def op)
  have "code = 0 \<or> code = ERROR_FILE_NOT_FOUND \<Longrightarrow> registry_content w2 = (registry_content w)(registry_place k n := None)"
    using reg_delete_value_result(1) [OF del] content_drop [where k = k and w = w1 and n = n and c = "rw_calls w1 + 1"] same by simp
  moreover have "code \<noteq> 0 \<Longrightarrow> code \<noteq> ERROR_FILE_NOT_FOUND \<Longrightarrow> registry_content w2 = registry_content w"
    using reg_delete_value_result(2) [OF del] same by simp
  moreover have "opened = Ok False \<Longrightarrow> registry_content w = (registry_content w)(registry_place k n := None)"
    using opened(2) [of False] content_absent [where k = k and w = w and n = n] by simp
  ultimately show "r = Ok u \<Longrightarrow> registry_content w' = (registry_content w)(registry_place k n := None)"
    and "r = Err e \<Longrightarrow> registry_content w' = registry_content w"
    using assms same unfolding run by (auto split: result.splits if_splits)
qed

interpretation win: interrupt_registry windows_interrupt_registry registry_content registry_place registry_meaning
proof
  fix k n w r w' assume "store_read windows_interrupt_registry k n w = (r, w')"
  then show "registry_content w' = registry_content w"
    by (intro registry_read_result) (simp add: windows_interrupt_registry_def)
next
  fix k n w found w' assume "store_read windows_interrupt_registry k n w = (Ok found, w')"
  then show "case registry_content w (registry_place k n) of
      None \<Rightarrow> found = None | Some d \<Rightarrow> found \<noteq> None \<and> found = registry_meaning d"
    by (intro registry_read_result) (simp_all add: windows_interrupt_registry_def)
next
  fix k n v w u w' assume "store_write windows_interrupt_registry k n v w = (Ok u, w')"
  then show "\<exists>d. registry_meaning d = Some v \<and> registry_content w' = (registry_content w)(registry_place k n \<mapsto> d)"
    using registry_write_result(1) by (simp add: windows_interrupt_registry_def)
next
  fix k n v w e w' assume "store_write windows_interrupt_registry k n v w = (Err e, w')"
  then show "registry_content w' = registry_content w"
    using registry_write_result(2) by (simp add: windows_interrupt_registry_def)
next
  fix k n w u w' assume "store_delete windows_interrupt_registry k n w = (Ok u, w')"
  then show "registry_content w' = (registry_content w)(registry_place k n := None)"
    using registry_delete_result(1) by (simp add: windows_interrupt_registry_def)
next
  fix k n w e w' assume "store_delete windows_interrupt_registry k n w = (Err e, w')"
  then show "registry_content w' = registry_content w"
    using registry_delete_result(2) by (simp add: windows_interrupt_registry_def)
qed (rule registry_meaning_inject)


section \<open>The native entry points\<close>

type_synonym 'v pci_enumerator = "(registry_world, device_binding_error, 'v pci_device_observation list) io"

definition discover_native_msi_batches ::
  "'v pci_enumerator \<Rightarrow> (registry_world, string, 'v msi_device_batch list) io" where
  "discover_native_msi_batches setup_api =
     io_bind (io_map_err device_binding_error_text (enumerate_present_status_ok_pci setup_api)) (\<lambda>devices.
     if devices = [] then io_fail ''P1:21 found no present, status-OK display/network/media PCI devices''
     else io_check (map_err device_binding_error_text (build_msi_device_batches devices)))"

fun native_interrupt_batches_satisfied ::
  "'v msi_device_batch list \<Rightarrow> (registry_world, string, bool) io" where
  "native_interrupt_batches_satisfied [] = io_ret True"
| "native_interrupt_batches_satisfied (b # bs) =
     io_bind (io_map_err device_binding_error_text
       (interrupt_changes_satisfied windows_interrupt_registry (batch_device b) (batch_changes b))) (\<lambda>one.
     io_bind (native_interrupt_batches_satisfied bs) (\<lambda>rest. io_ret (one \<and> rest)))"

definition capture_native_msi_backups ::
  "'v msi_device_batch list \<Rightarrow> string \<Rightarrow> (registry_world, string, 'v backup_entry list) io" where
  "capture_native_msi_backups batches timestamp =
     io_map_err device_binding_error_text
       (capture_interrupt_backups windows_interrupt_registry ''P3:2'' batches timestamp)"

definition capture_native_nic_backups ::
  "'v nic_affinity_binding \<Rightarrow> string \<Rightarrow> (registry_world, string, 'v backup_entry list) io" where
  "capture_native_nic_backups binding timestamp =
     io_map_err device_binding_error_text (capture_nic_affinity_backups windows_interrupt_registry binding timestamp)"

definition apply_native_msi_batches ::
  "'v pci_enumerator \<Rightarrow> 'v msi_device_batch list \<Rightarrow> (registry_world, string, unit) io" where
  "apply_native_msi_batches setup_api batches =
     io_bind (io_map_err device_binding_error_text (enumerate_present_status_ok_pci setup_api)) (\<lambda>observed.
     io_map_err device_binding_error_text (apply_msi_batches windows_interrupt_registry batches observed))"

definition verify_native_msi_batches ::
  "'v pci_enumerator \<Rightarrow> 'v msi_device_batch list \<Rightarrow> (registry_world, string, unit) io" where
  "verify_native_msi_batches setup_api batches =
     io_bind (io_map_err device_binding_error_text (enumerate_present_status_ok_pci setup_api)) (\<lambda>observed.
     io_map_err device_binding_error_text (verify_msi_batches windows_interrupt_registry batches observed))"

definition apply_native_nic_affinity ::
  "(registry_world, string, 'v nic_affinity_binding) io \<Rightarrow> 'v nic_affinity_binding
     \<Rightarrow> (registry_world, string, unit) io" where
  "apply_native_nic_affinity discover binding =
     io_bind discover (\<lambda>current.
     if \<not> same_nic_affinity_subject binding current
     then io_fail ''P3:3 NIC or processor-topology evidence changed before apply''
     else io_map_err device_binding_error_text
       (apply_interrupt_changes windows_interrupt_registry (naf_device binding) (naf_changes binding)))"

definition verify_native_nic_affinity ::
  "(registry_world, string, 'v nic_affinity_binding) io \<Rightarrow> 'v nic_affinity_binding
     \<Rightarrow> (registry_world, string, unit) io" where
  "verify_native_nic_affinity discover binding =
     io_bind discover (\<lambda>current.
     if \<not> same_nic_affinity_subject binding current
     then io_fail ''P3:3 NIC or processor-topology evidence changed before verification''
     else io_map_err device_binding_error_text
       (validate_interrupt_readback windows_interrupt_registry (naf_changes binding)))"

definition restore_native_interrupt_policy ::
  "'v pci_enumerator \<Rightarrow> 'v backup_entry \<Rightarrow> (registry_world, string, unit) io" where
  "restore_native_interrupt_policy setup_api entry =
     (case entry of
        BackupInterruptPolicy backup \<Rightarrow>
          io_bind (io_map_err device_binding_error_text (enumerate_present_status_ok_pci setup_api)) (\<lambda>observed.
          io_map_err device_binding_error_text
            (restore_interrupt_backup windows_interrupt_registry observed backup))
      | _ \<Rightarrow> io_fail ''interrupt restore received a different backup type'')"

section \<open>Properties\<close>

text \<open>
  C9: restoring the captured interrupt values gives the registry back exactly as it was before the
  capture, whether the application in between completed or failed half way, and in whatever order the
  entries are restored.
\<close>

theorem interrupt_rollback_restores_registry:
  assumes "capture_interrupt_backups windows_interrupt_registry step batches timestamp w0 = (Ok entries, w1)"
    and "apply_msi_batches windows_interrupt_registry batches observed w1 = (outcome, w2)"
    and "BackupInterruptPolicy ` set backups = set entries"
    and "io_each (restore_interrupt_backup windows_interrupt_registry observed') backups w2 = (Ok us, w3)"
  shows "registry_content w3 = registry_content w0"
  using assms by (rule win.capture_apply_restore)

text \<open>
  C33: the affinity mask written for the network adapter names exactly one processor, the last logical
  processor of the only group.
\<close>

theorem assignment_names_last_processor:
  assumes "assignment_set_override groups = Ok bytes" and "i < 64"
  shows "length bytes = 8 \<and>
    (bit (bytes ! (i div 8)) (i mod 8) \<longleftrightarrow>
       (\<exists>g. groups = [g] \<and> i + 1 = unat (active_logical_processors g)))"
proof -
  obtain p where p: "final_logical_processor groups = Ok p" and bytes: "bytes = to_le_bytes 8 (push_bit (unat p) (1 :: u64))"
    using assms(1) by (auto simp: assignment_set_override_def guard_simps)
  obtain g where g: "groups = [g]" "1 \<le> active_logical_processors g" "p = active_logical_processors g - 1"
    using p by (auto simp: final_logical_processor_def split: list.splits if_splits)
  have "unat p = unat (active_logical_processors g) - 1" and pos: "0 < unat (active_logical_processors g)"
    using g(2,3) by (simp_all add: unat_sub word_le_nat_alt)
  moreover have "bit (bytes ! (i div 8)) (i mod 8) \<longleftrightarrow> i = unat p"
    using assms(2) by (auto simp: bytes to_le_bytes_def bit_simps)
  ultimately show ?thesis using g(1) by (auto simp: bytes to_le_bytes_def)
qed


text \<open>A registry with the key of the sample GPU and a disabled MSI value, in three states.\<close>

definition sample_change :: interrupt_registry_change where
  "sample_change = \<lparr>change_key = interrupt_parameters_key sample_gpu, change_name = MSI_SUPPORTED, change_value = RegDword 1\<rparr>"

definition sample_batch :: "unit msi_device_batch" where
  "sample_batch = \<lparr>batch_device = sample_gpu, batch_class = Display, batch_changes = [sample_change]\<rparr>"

definition sample_registry :: "nat \<Rightarrow> u8 \<Rightarrow> registry_world" where
  "sample_registry calls v =
     \<lparr>rw_keys = [to_ascii_lowercase (interrupt_parameters_key sample_gpu)],
      rw_values = fmap_of_list [(registry_place (interrupt_parameters_key sample_gpu) MSI_SUPPORTED, REG_DWORD, [v, 0, 0, 0])],
      rw_calls = calls, rw_fault = (\<lambda>n. 0)\<rparr>"

definition sample_backup :: "unit interrupt_policy_backup" where
  "sample_backup =
     \<lparr>ip_step = ''P3:2'', ip_timestamp = ''now'', ip_device = sample_gpu, ip_policy = MsiSupported,
      ip_existed = True, ip_original_value = Some (PolicyDword 0), ip_unknown = fmempty\<rparr>"

lemma sample_registry_read:
  "registry_read (interrupt_parameters_key sample_gpu) MSI_SUPPORTED (sample_registry c v)
     = (Ok (Some (RegDword (ucast v))), sample_registry (c + 3) v)"
  by (simp add: registry_read_def registry_open_def io_bind_def reg_open_key_def reg_query_value_def win32_def Let_def
      sample_registry_def registry_decode_def MAX_INTERRUPT_VALUE_BYTES_def not_found_nonzero [symmetric])

lemma sample_registry_write:
  "registry_write (interrupt_parameters_key sample_gpu) MSI_SUPPORTED (RegDword (ucast (u :: u8))) (sample_registry c v)
     = (Ok (), sample_registry (c + 2) u)"
proof -
  have "to_le_bytes 4 (ucast u :: u32) = [u, 0, 0, 0]"
    by (auto simp: to_le_bytes_def upt_rec intro!: bit_word_eqI) (auto simp: bit_simps dest: bit_imp_le_length)
  then show ?thesis
    by (simp add: registry_write_def registry_open_def io_bind_def reg_open_key_def reg_set_value_def win32_def Let_def
      sample_registry_def not_found_nonzero [symmetric])
qed

lemma sample_policy: "policy_for_change sample_gpu sample_change = Ok MsiSupported"
  by (simp add: policy_for_change_Ok sample_change_def MSI_SUPPORTED_def interrupt_parameters_key_def
      INTERRUPT_PARAMETERS_SUFFIX_def)

lemma sample_backup_valid: "interrupt_validate sample_backup = Ok ()"
proof -
  have "bounded_timestamp ''now''" by code_simp
  then show ?thesis using sample_gpu_valid by (simp add: interrupt_validate_def sample_backup_def)
qed

lemma sample_key: "registry_key sample_backup = interrupt_parameters_key sample_gpu"
  and sample_name: "value_name (ip_policy sample_backup) = MSI_SUPPORTED"
  by (simp_all add: registry_key_enum_key sample_backup_def interrupt_parameters_key_def
      INTERRUPT_PARAMETERS_SUFFIX_def MSI_SUPPORTED_def)

lemma sample_interrupt_capture:
  "capture_interrupt_backups windows_interrupt_registry ''P3:2'' [sample_batch] ''now'' (sample_registry 0 0)
     = (Ok [BackupInterruptPolicy sample_backup], sample_registry 3 0)"
  using sample_registry_read [of 0 0] sample_backup_valid
  by (simp add: capture_interrupt_backups_def batch_items_def sample_batch_def capture_interrupt_change_def io_bind_def
      io_check_def io_ret_def sample_policy windows_interrupt_registry_def sample_backup_def Let_def)
     (simp add: sample_change_def io_bind_def io_check_def io_ret_def)

lemma sample_reobserve: "reobserve_device sample_gpu [(Display, sample_gpu)] = Ok sample_gpu"
  by (simp add: reobserve_device_def same_pnp_device_def eq_ignore_ascii_case_def)

lemma sample_apply:
  "apply_msi_batches windows_interrupt_registry [sample_batch] [(Display, sample_gpu)] (sample_registry 3 0)
     = (Ok (), sample_registry 5 1)"
proof -
  have "eq_ignore_ascii_case (class_guid sample_gpu) (pci_class_guid Display)" by (simp add: sample_gpu_def eq_ignore_ascii_case_def)
  then show ?thesis
    using sample_registry_write [of 1 3 0]
    by (simp add: apply_msi_batches_def sample_batch_def io_bind_def io_check_def io_ret_def sample_policy sample_reobserve
        windows_interrupt_registry_def) (simp add: sample_change_def io_bind_def io_ret_def)
qed

lemma sample_interrupt_restore:
  "io_each (restore_interrupt_backup windows_interrupt_registry [(Display, sample_gpu)]) [sample_backup] (sample_registry 5 1)
     = (Ok [()], sample_registry 10 0)"
  using sample_registry_write [of 0 5 1] sample_registry_read [of 7 0] sample_backup_valid sample_reobserve
  by (simp add: restore_interrupt_backup_def io_bind_def io_check_def io_ret_def sample_key sample_name Let_def
      windows_interrupt_registry_def) (simp add: sample_backup_def io_bind_def io_check_def io_ret_def)

lemma interrupt_rollback_witness:
  "registry_content (sample_registry 10 0) = registry_content (sample_registry 0 0)
     \<and> registry_content (sample_registry 3 0) \<noteq> registry_content (sample_registry 5 1)"
proof
  show "registry_content (sample_registry 10 0) = registry_content (sample_registry 0 0)"
    by (rule interrupt_rollback_restores_registry [OF sample_interrupt_capture sample_apply _ sample_interrupt_restore]) simp
  have "registry_content (sample_registry 3 0) p \<noteq> registry_content (sample_registry 5 1) p"
    if "p = registry_place (interrupt_parameters_key sample_gpu) MSI_SUPPORTED" for p
    by (simp add: registry_content_def sample_registry_def that registry_place_def)
  then show "registry_content (sample_registry 3 0) \<noteq> registry_content (sample_registry 5 1)" by metis
qed

lemma assignment_witness:
  "bit ([0, 128, 0, 0, 0, 0, 0, 0 :: u8] ! 1) 7"
proof -
  have a: "assignment_set_override [\<lparr>group_number = 0, active_logical_processors = 16\<rparr>] = Ok [0, 128, 0, 0, 0, 0, 0, 0]"
    by code_simp
  show ?thesis using assignment_names_last_processor [OF a, of 15] by simp
qed

end
