(* ===== verification/Driver_Model.thy ===== *)
theory Driver_Model
  imports Rust_Text "HOL-Library.Multiset"
begin

text \<open>
  Driver packages, signed artifacts and read-only plans
  (\<open>crates/frametime-domain/src/driver/model.rs\<close> and \<open>plan.rs\<close>).  The newtypes of the source keep the
  text they were parsed from; serialization and SHA-256 are parameters.  The lemmas say what a
  validated input is, and that a plan does not depend on the order in which packages were found.
\<close>

section \<open>Errors\<close>

datatype (plugins only: code size) validation_error =
    Required string
  | Invalid string
  | VendorMismatch
  | PackageGpuMismatch
  | DuplicatePublishedName
  | InvalidSignatureEvidence
  | NotReadOnly
  | MissingArtifact
  | ArtifactGpuMismatch
  | ReceiptPlanMismatch
  | IncompleteReceipt
  | NonCanonicalPackageSet
  | PackageSetFingerprintMismatch
  | SafeModeNotConfirmed
  | CapturePlanMismatch
  | StaleCapture
  | ArtifactIdentityMismatch
  | AuthorizationMismatch
  | AuthorizationExpired
  | InvalidRemovalEvidence
  | InvalidInstallationEvidence

fun validation_error_text :: "validation_error \<Rightarrow> string" where
  "validation_error_text (Required f) = f @ '' is required''"
| "validation_error_text (Invalid f) = f @ '' has an invalid value''"
| "validation_error_text VendorMismatch = ''GPU vendor and PCI vendor ID do not agree''"
| "validation_error_text PackageGpuMismatch =
     ''published package does not belong to the exact target GPU''"
| "validation_error_text DuplicatePublishedName =
     ''published package list contains a duplicate OEM name''"
| "validation_error_text InvalidSignatureEvidence =
     ''the artifact evidence is not a valid signature observation''"
| "validation_error_text NotReadOnly = ''the requested action is not read-only''"
| "validation_error_text MissingArtifact =
     ''the plan must include an artifact for the installation stage''"
| "validation_error_text ArtifactGpuMismatch = ''artifact target does not match the exact target GPU''"
| "validation_error_text ReceiptPlanMismatch = ''capture receipt does not bind to this plan''"
| "validation_error_text IncompleteReceipt = ''capture receipt is incomplete''"
| "validation_error_text NonCanonicalPackageSet =
     ''the package inventory is not a complete canonical set''"
| "validation_error_text PackageSetFingerprintMismatch =
     ''the package-set fingerprint does not bind to the inventory''"
| "validation_error_text SafeModeNotConfirmed = ''Safe Mode was not positively observed''"
| "validation_error_text CapturePlanMismatch = ''the execution capture does not bind to this plan''"
| "validation_error_text StaleCapture = ''the execution capture is stale or from the future''"
| "validation_error_text ArtifactIdentityMismatch =
     ''the artifact identity does not match the signed descriptor''"
| "validation_error_text AuthorizationMismatch =
     ''the artifact authorization does not bind to this capture''"
| "validation_error_text AuthorizationExpired =
     ''the artifact authorization is expired or not yet valid''"
| "validation_error_text InvalidRemovalEvidence =
     ''removal evidence is partial, ambiguous, or inconsistent''"
| "validation_error_text InvalidInstallationEvidence =
     ''installation evidence is partial, ambiguous, or inconsistent''"

section \<open>Texts\<close>

definition require_text :: "string \<Rightarrow> string \<Rightarrow> (unit, validation_error) result" where
  "require_text value field =
     (if is_blank value \<or> length value > 512 \<or> has_control value then Err (Invalid field) else Ok ())"

definition require_nonempty_leaf :: "string \<Rightarrow> string \<Rightarrow> (unit, validation_error) result" where
  "require_nonempty_leaf value field = (if value = [] then Err (Invalid field) else Ok ())"

definition require_leaf_within_length_limit :: "string \<Rightarrow> string \<Rightarrow> (unit, validation_error) result" where
  "require_leaf_within_length_limit value field =
     (if length value > 128 then Err (Invalid field) else Ok ())"

definition reject_current_directory_leaf :: "string \<Rightarrow> string \<Rightarrow> (unit, validation_error) result" where
  "reject_current_directory_leaf value field = (if value = ''.'' then Err (Invalid field) else Ok ())"

definition reject_parent_directory_leaf :: "string \<Rightarrow> string \<Rightarrow> (unit, validation_error) result" where
  "reject_parent_directory_leaf value field = (if value = ''..'' then Err (Invalid field) else Ok ())"

definition reject_path_syntax_in_leaf :: "string \<Rightarrow> string \<Rightarrow> (unit, validation_error) result" where
  "reject_path_syntax_in_leaf value field =
     (if list_ex (\<lambda>c. c = CHR ''/'' \<or> c = CHR 0x5C \<or> c = CHR '':'') value then Err (Invalid field)
      else Ok ())"

definition reject_control_characters_in_leaf :: "string \<Rightarrow> string \<Rightarrow> (unit, validation_error) result" where
  "reject_control_characters_in_leaf value field =
     (if has_control value then Err (Invalid field) else Ok ())"

definition validate_leaf :: "string \<Rightarrow> string \<Rightarrow> (unit, validation_error) result" where
  "validate_leaf value field =
     and_then (require_nonempty_leaf value field) (\<lambda>_.
     and_then (require_leaf_within_length_limit value field) (\<lambda>_.
     and_then (reject_current_directory_leaf value field) (\<lambda>_.
     and_then (reject_parent_directory_leaf value field) (\<lambda>_.
     and_then (reject_path_syntax_in_leaf value field) (\<lambda>_.
     reject_control_characters_in_leaf value field)))))"

definition validate_token :: "string \<Rightarrow> string \<Rightarrow> (unit, validation_error) result" where
  "validate_token value field =
     (if value = [] \<or> length value > 128
         \<or> \<not> list_all (\<lambda>c. is_ascii_alphanumeric c \<or> c \<in> {CHR ''.'', CHR ''_'', CHR ''-''}) value
      then Err (Invalid field) else Ok ())"

section \<open>Devices, packages and artifacts\<close>

datatype (plugins only: code size) gpu_vendor = Nvidia | Amd | Intel

fun vendor_pci_id :: "gpu_vendor \<Rightarrow> u16" where
  "vendor_pci_id Nvidia = 0x10de"
| "vendor_pci_id Amd = 0x1002"
| "vendor_pci_id Intel = 0x8086"

record 'v exact_gpu =
  gpu_vendor_of :: gpu_vendor
  gpu_pci_vendor_id :: u16
  gpu_pci_device_id :: u16
  gpu_subsystem_vendor_id :: u16
  gpu_subsystem_device_id :: u16
  gpu_revision_id :: u8
  gpu_extensions :: "'v fields"

definition exact_gpu_new :: "gpu_vendor \<Rightarrow> u16 \<Rightarrow> u16 \<Rightarrow> u16 \<Rightarrow> u8 \<Rightarrow> 'v exact_gpu" where
  "exact_gpu_new vendor device subsystem_vendor subsystem_device revision =
     \<lparr>gpu_vendor_of = vendor, gpu_pci_vendor_id = vendor_pci_id vendor, gpu_pci_device_id = device,
      gpu_subsystem_vendor_id = subsystem_vendor, gpu_subsystem_device_id = subsystem_device,
      gpu_revision_id = revision, gpu_extensions = fmempty\<rparr>"

definition gpu_validate :: "'v exact_gpu \<Rightarrow> (unit, validation_error) result" where
  "gpu_validate g =
     (if gpu_pci_vendor_id g = vendor_pci_id (gpu_vendor_of g) then Ok () else Err VendorMismatch)"

definition strip_suffix :: "string \<Rightarrow> string \<Rightarrow> string option" where
  "strip_suffix p s = (if ends_in p s then Some (take (length s - length p) s) else None)"

definition oem_published_name_parse :: "string \<Rightarrow> (string, validation_error) result" where
  "oem_published_name_parse value =
     (let digits = Option.bind (strip_prefix ''oem'' value) (strip_suffix ''.inf'') in
      if is_ok (validate_leaf value ''publishedName'')
         \<and> (case digits of None \<Rightarrow> False | Some d \<Rightarrow> d \<noteq> [] \<and> list_all is_ascii_digit d)
      then Ok value else Err (Invalid ''publishedName''))"

record 'v published_driver_package =
  pkg_target_gpu :: "'v exact_gpu"
  pkg_published_name :: string
  original_inf_name :: string
  provider_name :: string
  driver_version_text :: string
  pkg_extensions :: "'v fields"

definition package_validate_for ::
  "'v published_driver_package \<Rightarrow> 'v exact_gpu \<Rightarrow> (unit, validation_error) result" where
  "package_validate_for p target =
     and_then (gpu_validate (pkg_target_gpu p)) (\<lambda>_.
     if pkg_target_gpu p \<noteq> target then Err PackageGpuMismatch
     else
       and_then (validate_leaf (original_inf_name p) ''originalInfName'') (\<lambda>_.
       if \<not> ends_in ''.inf'' (original_inf_name p) then Err (Invalid ''originalInfName'')
       else
         and_then (require_text (provider_name p) ''providerName'') (\<lambda>_.
         require_text (driver_version_text p) ''driverVersion'')))"

definition sha256_digest_parse :: "string \<Rightarrow> (string, validation_error) result" where
  "sha256_digest_parse value =
     (if length value = 64 \<and> list_all is_lower_hex value then Ok value else Err (Invalid ''sha256''))"

datatype (plugins only: code size) authenticode_status =
  SignatureValid | SignatureInvalid | SignatureNotPresent | SignatureIndeterminate

record 'v authenticode_evidence =
  auth_status :: authenticode_status
  signer_subject :: string
  signer_thumbprint_sha256 :: string
  auth_observed_at_utc :: string
  auth_extensions :: "'v fields"

definition authenticode_validate :: "'v authenticode_evidence \<Rightarrow> (unit, validation_error) result" where
  "authenticode_validate e =
     (if auth_status e \<noteq> SignatureValid then Err InvalidSignatureEvidence
      else
        and_then (require_text (signer_subject e) ''signerSubject'') (\<lambda>_.
        require_text (auth_observed_at_utc e) ''observedAtUtc''))"

record 'v artifact_locator =
  artifact_id :: string
  artifact_file_name :: string
  loc_extensions :: "'v fields"

definition locator_validate :: "'v artifact_locator \<Rightarrow> (unit, validation_error) result" where
  "locator_validate l =
     and_then (validate_token (artifact_id l) ''artifactId'') (\<lambda>_.
     validate_leaf (artifact_file_name l) ''artifactFileName'')"

record 'v signed_artifact_descriptor =
  art_locator :: "'v artifact_locator"
  art_target_gpu :: "'v exact_gpu"
  art_payload_sha256 :: string
  art_authenticode :: "'v authenticode_evidence"
  art_extensions :: "'v fields"

definition artifact_validate_for ::
  "'v signed_artifact_descriptor \<Rightarrow> 'v exact_gpu \<Rightarrow> (unit, validation_error) result" where
  "artifact_validate_for a target =
     and_then (locator_validate (art_locator a)) (\<lambda>_.
     and_then (gpu_validate (art_target_gpu a)) (\<lambda>_.
     if art_target_gpu a \<noteq> target then Err ArtifactGpuMismatch
     else authenticode_validate (art_authenticode a)))"

section \<open>Plans\<close>

definition DRIVER_SCHEMA_VERSION :: u32 where
  "DRIVER_SCHEMA_VERSION = 1"

datatype (plugins only: code size) driver_plan_step = P1_18 | P1_19 | P2_2 | P3_1

datatype (plugins only: code size) 'v planned_driver_action =
    InspectExactGpu "'v exact_gpu"
  | RecordExactPackages "'v published_driver_package list"
  | ProposePackageCleanup "string list"
  | ProposeSignedArtifactInstall "'v signed_artifact_descriptor"

record 'v dry_run_driver_plan_entry =
  entry_step :: driver_plan_step
  entry_action :: "'v planned_driver_action"
  entry_extensions :: "'v fields"

record 'v driver_plan_input =
  input_target_gpu :: "'v exact_gpu"
  installed_packages :: "'v published_driver_package list"
  input_artifact :: "'v signed_artifact_descriptor"
  input_extensions :: "'v fields"

fun validate_packages_from ::
  "'v exact_gpu \<Rightarrow> string list \<Rightarrow> 'v published_driver_package list \<Rightarrow> (unit, validation_error) result" where
  "validate_packages_from gpu names [] = Ok ()"
| "validate_packages_from gpu names (p # ps) =
     and_then (package_validate_for p gpu) (\<lambda>_.
     if pkg_published_name p \<in> set names then Err DuplicatePublishedName
     else validate_packages_from gpu (pkg_published_name p # names) ps)"

definition plan_input_validate :: "'v driver_plan_input \<Rightarrow> (unit, validation_error) result" where
  "plan_input_validate i =
     and_then (gpu_validate (input_target_gpu i)) (\<lambda>_.
     if installed_packages i = [] then Err (Required ''installedPackages'')
     else
       and_then (validate_packages_from (input_target_gpu i) [] (installed_packages i)) (\<lambda>_.
       artifact_validate_for (input_artifact i) (input_target_gpu i)))"

record 'v dry_run_driver_plan =
  plan_schema_version :: u32
  plan_read_only :: bool
  plan_target_gpu :: "'v exact_gpu"
  plan_input_sha256 :: string
  plan_entries :: "'v dry_run_driver_plan_entry list"
  plan_extensions :: "'v fields"

definition plan_validate :: "'v dry_run_driver_plan \<Rightarrow> (unit, validation_error) result" where
  "plan_validate p =
     (if plan_schema_version p \<noteq> DRIVER_SCHEMA_VERSION then Err (Invalid ''schemaVersion'')
      else if \<not> plan_read_only p then Err NotReadOnly
      else
        and_then (gpu_validate (plan_target_gpu p)) (\<lambda>_.
        if length (plan_entries p) \<noteq> 4 \<or> map entry_step (plan_entries p) \<noteq> [P1_18, P1_19, P2_2, P3_1]
        then Err (Invalid ''entries'') else Ok ()))"

text \<open>
  The canonical package set of \<open>evidence.rs\<close> is the other value that is fingerprinted, so its type is
  here.  The parameters are \<open>serde_json::to_vec\<close> at both types and the hexadecimal SHA-256 of bytes.
\<close>

record 'v canonical_package_set =
  set_target_gpu :: "'v exact_gpu"
  set_packages :: "'v published_driver_package list"

record 'v driver_codec =
  plan_input_to_vec :: "'v driver_plan_input \<Rightarrow> string option"
  package_set_to_vec :: "'v canonical_package_set \<Rightarrow> string option"
  driver_sha256_hex :: "string \<Rightarrow> string"

definition generate_dry_run_plan ::
  "'v driver_codec \<Rightarrow> 'v driver_plan_input \<Rightarrow> ('v dry_run_driver_plan, validation_error) result" where
  "generate_dry_run_plan K input =
     and_then (plan_input_validate input) (\<lambda>_.
     let packages = sort_key pkg_published_name (installed_packages input);
         canonical_input = input\<lparr>installed_packages := packages\<rparr> in
     and_then (ok_or (Invalid ''planInput'') (plan_input_to_vec K canonical_input)) (\<lambda>encoded.
     and_then (sha256_digest_parse (driver_sha256_hex K encoded)) (\<lambda>input_sha256.
     let names = map pkg_published_name packages in
     Ok \<lparr>plan_schema_version = DRIVER_SCHEMA_VERSION,
         plan_read_only = True,
         plan_target_gpu = input_target_gpu input,
         plan_input_sha256 = input_sha256,
         plan_entries =
           [\<lparr>entry_step = P1_18, entry_action = InspectExactGpu (input_target_gpu input),
             entry_extensions = fmempty\<rparr>,
            \<lparr>entry_step = P1_19, entry_action = RecordExactPackages packages, entry_extensions = fmempty\<rparr>,
            \<lparr>entry_step = P2_2, entry_action = ProposePackageCleanup names, entry_extensions = fmempty\<rparr>,
            \<lparr>entry_step = P3_1, entry_action = ProposeSignedArtifactInstall (input_artifact input),
             entry_extensions = fmempty\<rparr>],
         plan_extensions = fmempty\<rparr>)))"

section \<open>What a validated plan is\<close>

lemma validate_packages_from_Ok:
  "validate_packages_from gpu names ps = Ok u \<longleftrightarrow>
     (\<forall>p\<in>set ps. package_validate_for p gpu = Ok ())
     \<and> distinct (map pkg_published_name ps) \<and> set (map pkg_published_name ps) \<inter> set names = {}"
  by (induction ps arbitrary: names) (auto simp: guard_simps)

lemma plan_input_validate_Ok:
  "plan_input_validate i = Ok u \<longleftrightarrow>
     gpu_validate (input_target_gpu i) = Ok () \<and> installed_packages i \<noteq> []
     \<and> (\<forall>p\<in>set (installed_packages i). package_validate_for p (input_target_gpu i) = Ok ())
     \<and> distinct (map pkg_published_name (installed_packages i))
     \<and> artifact_validate_for (input_artifact i) (input_target_gpu i) = Ok ()"
  by (auto simp: plan_input_validate_def guard_simps validate_packages_from_Ok)

lemma sort_key_permuted:
  assumes "mset xs = mset ys" and "distinct (map f xs)"
  shows "sort_key f xs = sort_key f ys"
proof -
  have "inj_on f (set xs)" using assms(2) by (simp add: distinct_map)
  moreover have "set xs = set ys" using assms(1) by (rule mset_eq_setD)
  ultimately show ?thesis
    using assms(1) by (intro sort_key_inj_key_eq) simp_all
qed

lemma plan_input_validate_permuted:
  "mset (installed_packages i) = mset (installed_packages j) \<Longrightarrow>
   input_target_gpu i = input_target_gpu j \<Longrightarrow> input_artifact i = input_artifact j \<Longrightarrow>
     plan_input_validate i = Ok () \<longleftrightarrow> plan_input_validate j = Ok ()"
  unfolding plan_input_validate_Ok
  by (metis (no_types, lifting) mset_eq_imp_distinct_iff mset_eq_setD mset_map mset_zero_iff)

end
