(* ===== verification/Utc_Time.thy ===== *)
theory Utc_Time
  imports Driver_Model "HOL-Library.Signed_Division"
begin

text \<open>
  UTC timestamps.  The program parses them in two places, \<open>timestamp\<close> of
  \<open>crates/frametime-domain/src/driver/evidence.rs\<close> and \<open>parse_utc_seconds\<close> of
  \<open>crates/frametime-windows/src/driver/capability/artifact.rs\<close>, and writes them in the latter.  The
  reference is a calendar that adds up the lengths of years and months; the lemmas show that both parsers
  compute it on exactly the texts of a date, and that what is written reads back.
\<close>

section \<open>Digits\<close>

definition slice :: "string \<Rightarrow> nat \<Rightarrow> nat \<Rightarrow> string" where
  "slice s a b = take (b - a) (drop a s)"

text \<open>\<open>try_fold\<close> over the bytes of a field.\<close>

fun fold_digits :: "'e \<Rightarrow> int \<Rightarrow> string \<Rightarrow> (int, 'e) result" where
  "fold_digits e v [] = Ok v"
| "fold_digits e v (c # s) =
     (if is_ascii_digit c then fold_digits e (v * 10 + (int (byte c) - 48)) s else Err e)"

definition number :: "'e \<Rightarrow> string \<Rightarrow> nat \<Rightarrow> nat \<Rightarrow> (int, 'e) result" where
  "number e s a b = fold_digits e 0 (slice s a b)"

definition utc_shape :: "string \<Rightarrow> bool" where
  "utc_shape s \<longleftrightarrow>
     \<not> (length s \<noteq> 20 \<or> s ! 4 \<noteq> CHR ''-'' \<or> s ! 7 \<noteq> CHR ''-'' \<or> s ! 10 \<noteq> CHR ''T''
        \<or> s ! 13 \<noteq> CHR '':'' \<or> s ! 16 \<noteq> CHR '':'' \<or> s ! 19 \<noteq> CHR ''Z'')"

text \<open>\<open>month_days\<close>, the days before each month of a year that is not a leap year.\<close>

definition MONTH_DAYS :: "int list" where
  "MONTH_DAYS = [0, 31, 59, 90, 120, 151, 181, 212, 243, 273, 304, 334]"

section \<open>The parser of the evidence\<close>

definition timestamp_days_in_month :: "int \<Rightarrow> int \<Rightarrow> string \<Rightarrow> (int, validation_error) result" where
  "timestamp_days_in_month year month field =
     (if month \<in> {1, 3, 5, 7, 8, 10, 12} then Ok 31
      else if month \<in> {4, 6, 9, 11} then Ok 30
      else if month = 2 \<and> year smod 4 = 0 \<and> (year smod 100 \<noteq> 0 \<or> year smod 400 = 0) then Ok 29
      else if month = 2 then Ok 28
      else Err (Invalid field))"

definition timestamp :: "string \<Rightarrow> string \<Rightarrow> (int, validation_error) result" where
  "timestamp value field =
     (if \<not> utc_shape value then Err (Invalid field)
      else
        let number = number (Invalid field) value in
        and_then (number 0 4) (\<lambda>year.
        and_then (number 5 7) (\<lambda>month.
        and_then (number 8 10) (\<lambda>day.
        and_then (number 11 13) (\<lambda>hour.
        and_then (number 14 16) (\<lambda>minute.
        and_then (number 17 19) (\<lambda>second.
        and_then (timestamp_days_in_month year month field) (\<lambda>days_in_month.
        if year = 0 \<or> day = 0 \<or> day > days_in_month \<or> hour > 23 \<or> minute > 59 \<or> second > 59
        then Err (Invalid field)
        else
          let completed_years = year - 1;
              days_before_year = completed_years * 365 + completed_years sdiv 4 - completed_years sdiv 100
                + completed_years sdiv 400;
              days = days_before_year + MONTH_DAYS ! nat (month - 1) + day - 1;
              days = (if month > 2 \<and> year smod 4 = 0 \<and> (year smod 100 \<noteq> 0 \<or> year smod 400 = 0)
                      then days + 1 else days) in
          Ok (days * 86400 + hour * 3600 + minute * 60 + second)))))))))"

section \<open>The parser and the printer of the native adapter\<close>

text \<open>\<open>AdapterFailure\<close>: the operation and the reason.\<close>

datatype adapter_failure = AdapterFailure (failed_operation: string) (failure_reason: string)

definition is_leap_year :: "int \<Rightarrow> bool" where
  "is_leap_year year \<longleftrightarrow> year > 0 \<and> year smod 4 = 0 \<and> (year smod 100 \<noteq> 0 \<or> year smod 400 = 0)"

definition days_in_month :: "int \<Rightarrow> int \<Rightarrow> int option" where
  "days_in_month year month =
     (if month \<in> {1, 3, 5, 7, 8, 10, 12} then Some 31
      else if month \<in> {4, 6, 9, 11} then Some 30
      else if month = 2 \<and> is_leap_year year then Some 29
      else if month = 2 then Some 28
      else None)"

definition days_in_year :: "int \<Rightarrow> int" where
  "days_in_year year = (if is_leap_year year then 366 else 365)"

definition authorize_failure :: "string \<Rightarrow> adapter_failure" where
  "authorize_failure reason = AdapterFailure ''authorize NVIDIA artifact'' reason"

definition parse_utc_seconds :: "string \<Rightarrow> (int, adapter_failure) result" where
  "parse_utc_seconds value =
     (if \<not> utc_shape value then Err (authorize_failure ''timestamp must be UTC RFC3339'')
      else
        let number = number (authorize_failure ''timestamp contains non-digits'') value in
        and_then (number 0 4) (\<lambda>year.
        and_then (number 5 7) (\<lambda>month.
        and_then (number 8 10) (\<lambda>day.
        and_then (number 11 13) (\<lambda>hour.
        and_then (number 14 16) (\<lambda>minute.
        and_then (number 17 19) (\<lambda>second.
        and_then (ok_or (authorize_failure ''timestamp has an invalid calendar date'')
          (days_in_month year month)) (\<lambda>days_in_month.
        if day = 0 \<or> day > days_in_month \<or> hour > 23 \<or> minute > 59 \<or> second > 59
        then Err (authorize_failure ''timestamp has an invalid time'')
        else
          let completed_years = year - 1;
              days = completed_years * 365 + completed_years sdiv 4 - completed_years sdiv 100
                + completed_years sdiv 400 + MONTH_DAYS ! nat (month - 1) + day - 1;
              days = (if month > 2 \<and> is_leap_year year then days + 1 else days) in
          Ok (days * 86400 + hour * 3600 + minute * 60 + second)))))))))"

text \<open>\<open>{:0w}\<close> of a number that is not negative.\<close>

definition zero_pad :: "nat \<Rightarrow> int \<Rightarrow> string" where
  "zero_pad w v = replicate (w - length (dec (nat v))) CHR ''0'' @ dec (nat v)"

definition rfc3339 :: "int \<Rightarrow> int \<Rightarrow> int \<Rightarrow> int \<Rightarrow> int \<Rightarrow> int \<Rightarrow> string" where
  "rfc3339 year month day hour minute second =
     zero_pad 4 year @ ''-'' @ zero_pad 2 month @ ''-'' @ zero_pad 2 day @ ''T''
     @ zero_pad 2 hour @ '':'' @ zero_pad 2 minute @ '':'' @ zero_pad 2 second @ ''Z''"

text \<open>The two loops; the second one panics on a month outside the year.\<close>

function year_loop :: "int \<Rightarrow> int \<Rightarrow> int \<times> int" where
  "year_loop year remaining_days =
     (if remaining_days \<ge> days_in_year year
      then year_loop (year + 1) (remaining_days - days_in_year year)
      else (year, remaining_days))"
  by pat_completeness auto
termination
  by (relation "measure (\<lambda>(_, r). nat r)") (auto simp: days_in_year_def split: if_splits)

declare year_loop.simps [simp del]

function month_loop :: "int \<Rightarrow> int \<Rightarrow> int \<Rightarrow> (int \<times> int) option" where
  "month_loop year month remaining_days =
     (case days_in_month year month of
        None \<Rightarrow> None
      | Some l \<Rightarrow>
          if remaining_days \<ge> l then month_loop year (month + 1) (remaining_days - l)
          else Some (month, remaining_days))"
  by pat_completeness auto
termination
  by (relation "measure (\<lambda>(_, _, r). nat r)") (auto simp: days_in_month_def split: if_splits)

declare month_loop.simps [simp del]

text \<open>\<open>None\<close> is the panic.\<close>

definition format_utc_seconds :: "int \<Rightarrow> (string, adapter_failure) result option" where
  "format_utc_seconds seconds =
     (if seconds < 0 then Some (Err (authorize_failure ''timestamp predates supported UTC''))
      else
        let days = seconds sdiv 86400; time = seconds smod 86400;
            (year, remaining_days) = year_loop 1 days in
        if year > 9999 then Some (Err (authorize_failure ''authorization expiry exceeds UTC format''))
        else
          map_option (\<lambda>(month, remaining_days).
              Ok (rfc3339 year month (remaining_days + 1) (time sdiv 3600) (time smod 3600 sdiv 60)
                    (time smod 60)))
            (month_loop year 1 remaining_days))"

section \<open>The calendar\<close>

text \<open>The days since the first of January of the year 1, by adding up years and months.\<close>

definition year_days :: "int \<Rightarrow> int" where
  "year_days y = (\<Sum>k = 1..<y. days_in_year k)"

definition month_days_before :: "int \<Rightarrow> int \<Rightarrow> int" where
  "month_days_before y m = (\<Sum>k = 1..<m. the (days_in_month y k))"

definition valid_date :: "int \<Rightarrow> int \<Rightarrow> int \<Rightarrow> bool" where
  "valid_date y m d \<longleftrightarrow>
     1 \<le> y \<and> y \<le> 9999 \<and> 1 \<le> d \<and> (case days_in_month y m of None \<Rightarrow> False | Some l \<Rightarrow> d \<le> l)"

definition valid_time :: "int \<Rightarrow> int \<Rightarrow> int \<Rightarrow> bool" where
  "valid_time h mi s \<longleftrightarrow> 0 \<le> h \<and> h \<le> 23 \<and> 0 \<le> mi \<and> mi \<le> 59 \<and> 0 \<le> s \<and> s \<le> 59"

definition calendar_seconds :: "int \<Rightarrow> int \<Rightarrow> int \<Rightarrow> int \<Rightarrow> int \<Rightarrow> int \<Rightarrow> int" where
  "calendar_seconds y m d h mi s =
     ((year_days y + month_days_before y m + (d - 1)) * 24 + h) * 3600 + mi * 60 + s"

lemma days_in_month_Some: "days_in_month y m = Some l \<Longrightarrow> 1 \<le> m \<and> m \<le> 12 \<and> 28 \<le> l \<and> l \<le> 31"
  by (auto simp: days_in_month_def split: if_splits)

lemma month_cases:
  fixes m :: int
  assumes "1 \<le> m" and "m \<le> 12"
  obtains "m = 1" | "m = 2" | "m = 3" | "m = 4" | "m = 5" | "m = 6" | "m = 7" | "m = 8" | "m = 9" | "m = 10"
    | "m = 11" | "m = 12"
proof -
  have "m = 1 \<or> m = 2 \<or> m = 3 \<or> m = 4 \<or> m = 5 \<or> m = 6 \<or> m = 7 \<or> m = 8 \<or> m = 9 \<or> m = 10 \<or> m = 11 \<or> m = 12"
    using assms by arith
  then show thesis using that by blast
qed

lemma days_in_month_None: "days_in_month y m = None \<longleftrightarrow> \<not> (1 \<le> m \<and> m \<le> 12)"
proof (cases "1 \<le> m \<and> m \<le> 12")
  case True
  then show ?thesis by (auto elim: month_cases simp: days_in_month_def)
next
  case False
  then show ?thesis by (auto simp: days_in_month_def)
qed

lemma rust_div_mod:
  fixes a :: int
  assumes "0 \<le> a" and "0 < b"
  shows "a sdiv b = a div b" and "a smod b = a mod b"
  using assms by (cases "a = 0"; simp add: signed_divide_int_def signed_modulo_int_def)+

lemma is_leap_year_mod: "1 \<le> y \<Longrightarrow> is_leap_year y \<longleftrightarrow> y mod 4 = 0 \<and> (y mod 100 \<noteq> 0 \<or> y mod 400 = 0)"
  by (simp add: is_leap_year_def rust_div_mod)

lemma year_days_step: "1 \<le> y \<Longrightarrow> year_days (y + 1) = year_days y + days_in_year y"
proof -
  assume "1 \<le> y"
  then have "{1..<y + 1} = insert y {1..<y}" by auto
  then show ?thesis by (simp add: year_days_def)
qed

lemma div_step:
  fixes y :: int
  assumes "0 < k"
  shows "y div k = (y - 1) div k + (if y mod k = 0 then 1 else 0)"
proof -
  have "y div k * k + y mod k = y" by simp
  have "0 \<le> y mod k" and "y mod k < k" using assms by simp_all
  show ?thesis
  proof (cases "y mod k = 0")
    case True
    then have "y - 1 = (y div k - 1) * k + (k - 1)"
      using \<open>y div k * k + y mod k = y\<close> by (simp add: left_diff_distrib)
    then have "(y - 1) div k = (y div k - 1) + (k - 1) div k"
      using assms by (metis add.commute div_mult_self1 less_irrefl)
    then show ?thesis using True assms by simp
  next
    case False
    have "y - 1 = y div k * k + (y mod k - 1)" using \<open>y div k * k + y mod k = y\<close> by linarith
    then have "(y - 1) div k = y div k + (y mod k - 1) div k"
      using assms by (metis add.commute div_mult_self1 less_irrefl)
    moreover have "(y mod k - 1) div k = 0"
      using False \<open>0 \<le> y mod k\<close> \<open>y mod k < k\<close> by (intro div_pos_pos_trivial) auto
    ultimately show ?thesis using False by simp
  qed
qed

text \<open>The closed formula of the source counts the leap years.\<close>

lemma leap_rule:
  fixes A B C :: bool
  assumes "C \<longrightarrow> B" and "B \<longrightarrow> A"
  shows "(if A \<and> (\<not> B \<or> C) then 366 else 365) =
    (365::int) + (if A then 1 else 0) - (if B then 1 else 0) + (if C then 1 else 0)"
  using assms by (cases A; cases B; cases C) simp_all

lemma days_in_year_formula:
  assumes "1 \<le> y"
  shows "days_in_year y = 365 + (if y mod 4 = 0 then 1 else 0) - (if y mod 100 = 0 then 1 else 0)
    + (if y mod 400 = 0 then 1 else 0)"
proof -
  have "y mod 100 = y mod 400 mod 100" by (rule mod_mod_cancel [symmetric]) simp
  then have "y mod 400 = 0 \<longrightarrow> y mod 100 = 0" by (metis mod_0)
  moreover have "y mod 4 = y mod 100 mod 4" by (rule mod_mod_cancel [symmetric]) simp
  then have "y mod 100 = 0 \<longrightarrow> y mod 4 = 0" by (metis mod_0)
  ultimately show ?thesis
    unfolding days_in_year_def is_leap_year_mod [OF assms] by (rule leap_rule)
qed

lemma year_days_formula:
  "1 \<le> y \<Longrightarrow> year_days y = (y - 1) * 365 + (y - 1) div 4 - (y - 1) div 100 + (y - 1) div 400"
proof (induction y rule: int_ge_induct)
  case base
  then show ?case by (simp add: year_days_def)
next
  case (step y)
  then show ?case
    by (simp add: year_days_step days_in_year_formula div_step [of 4 y] div_step [of 100 y] div_step [of 400 y])
qed

lemma month_days_step:
  assumes "1 \<le> k"
  shows "month_days_before y (k + 1) = month_days_before y k + the (days_in_month y k)"
proof -
  have "{1..<k + 1} = insert k {1..<k}" using assms by auto
  then show ?thesis by (simp add: month_days_before_def)
qed

lemma month_days_1: "month_days_before y 1 = 0"
  by (simp add: month_days_before_def)

lemmas month_days_table =
  month_days_1 month_days_step [of 1, simplified] month_days_step [of 2, simplified]
  month_days_step [of 3, simplified] month_days_step [of 4, simplified] month_days_step [of 5, simplified]
  month_days_step [of 6, simplified] month_days_step [of 7, simplified] month_days_step [of 8, simplified]
  month_days_step [of 9, simplified] month_days_step [of 10, simplified] month_days_step [of 11, simplified]

lemma month_days_formula:
  assumes "1 \<le> m" and "m \<le> 12"
  shows "month_days_before y m = MONTH_DAYS ! nat (m - 1) + (if m > 2 \<and> is_leap_year y then 1 else 0)"
  using assms by (elim month_cases) (simp_all add: month_days_table MONTH_DAYS_def days_in_month_def)

section \<open>Fields of digits\<close>

fun fixed_digits :: "nat \<Rightarrow> nat \<Rightarrow> string" where
  "fixed_digits 0 n = []"
| "fixed_digits (Suc w) n = fixed_digits w (n div 10) @ [digit (n mod 10)]"

lemma length_fixed_digits [simp]: "length (fixed_digits w n) = w"
  by (induction w arbitrary: n) simp_all

lemma fixed_digits_0: "fixed_digits w 0 = replicate w CHR ''0''"
proof (induction w)
  case (Suc w)
  have "of_char CHR ''0'' = (48 :: nat)" by simp
  then have "digit 0 = CHR ''0''" unfolding digit_def by (metis add_0_right char_of_char)
  with Suc show ?case by (simp add: replicate_append_same)
qed simp

lemma length_dec: "n < 10 ^ w \<Longrightarrow> 0 < w \<Longrightarrow> length (dec n) \<le> w"
proof (induction n arbitrary: w rule: dec.induct)
  case (1 n)
  show ?case
  proof (cases "n < 10")
    case True
    with "1.prems" show ?thesis by (simp add: dec.simps [of n])
  next
    case False
    obtain w' where w': "w = Suc w'" using "1.prems"(2) by (cases w) auto
    have "0 < w'" using False "1.prems"(1) w' by (cases w') auto
    moreover have "n div 10 < 10 ^ w'" using "1.prems"(1) w' by (simp add: less_mult_imp_div_less mult.commute)
    ultimately have "length (dec (n div 10)) \<le> w'" using "1.IH" False by simp
    then show ?thesis using False w' by (simp add: dec.simps [of n])
  qed
qed

lemma padded_dec: "n < 10 ^ w \<Longrightarrow> 0 < w \<Longrightarrow> replicate (w - length (dec n)) CHR ''0'' @ dec n = fixed_digits w n"
proof (induction n arbitrary: w rule: dec.induct)
  case (1 n)
  obtain w' where w': "w = Suc w'" using "1.prems"(2) by (cases w) auto
  show ?case
  proof (cases "n < 10")
    case True
    then show ?thesis by (simp add: dec.simps [of n] w' fixed_digits_0)
  next
    case False
    have "0 < w'" using False "1.prems"(1) w' by (cases w') auto
    moreover have "n div 10 < 10 ^ w'" using "1.prems"(1) w' by (simp add: less_mult_imp_div_less mult.commute)
    ultimately have "replicate (w' - length (dec (n div 10))) CHR ''0'' @ dec (n div 10) = fixed_digits w' (n div 10)"
      using "1.IH" False by simp
    then show ?thesis using False w' by (simp add: dec.simps [of n])
  qed
qed

lemma zero_pad_fixed: "0 \<le> v \<Longrightarrow> v < 10 ^ w \<Longrightarrow> 0 < w \<Longrightarrow> zero_pad w v = fixed_digits w (nat v)"
  unfolding zero_pad_def by (rule padded_dec) (simp_all add: nat_less_iff)

lemma fold_digits_append:
  "fold_digits e v (s @ s') = and_then (fold_digits e v s) (\<lambda>v. fold_digits e v s')"
  by (induction e v s rule: fold_digits.induct) simp_all

lemma digit_byte: "is_ascii_digit c \<Longrightarrow> digit (byte c - 48) = c"
  by (simp add: digit_def byte_def is_ascii_digit_def)

lemma fold_digits_fixed: "n < 10 ^ w \<Longrightarrow> fold_digits e 0 (fixed_digits w n) = Ok (int n)"
proof (induction w arbitrary: n)
  case (Suc w)
  have "n div 10 < 10 ^ w" using Suc.prems by (simp add: less_mult_imp_div_less mult.commute)
  then have "fold_digits e 0 (fixed_digits w (n div 10)) = Ok (int (n div 10))" by (rule Suc.IH)
  then show ?case by (simp add: fold_digits_append) (metis div_mod_decomp of_nat_add of_nat_mult of_nat_numeral)
qed simp

lemma fold_digits_Ok:
  "fold_digits e 0 s = Ok v \<Longrightarrow> \<exists>n. v = int n \<and> n < 10 ^ length s \<and> s = fixed_digits (length s) n"
proof (induction s arbitrary: v rule: rev_induct)
  case (snoc c s)
  obtain u where u: "fold_digits e 0 s = Ok u" and c: "is_ascii_digit c"
    and v: "v = u * 10 + (int (byte c) - 48)"
    using snoc.prems by (auto simp: fold_digits_append guard_simps split: if_splits)
  obtain n where n: "u = int n" "n < 10 ^ length s" "s = fixed_digits (length s) n"
    using snoc.IH [OF u] by blast
  define d where "d = byte c - 48"
  have d: "byte c = 48 + d" "d < 10" using c by (auto simp: d_def is_ascii_digit_def)
  have "v = int (n * 10 + d)" using v n(1) d by simp
  moreover have "n * 10 + d < 10 ^ length (s @ [c])" using n(2) d by simp
  moreover have "s @ [c] = fixed_digits (length (s @ [c])) (n * 10 + d)"
    using n(3) d(2) digit_byte [OF c, folded d_def] by simp
  ultimately show ?case by blast
qed simp

text \<open>A field of \<open>w\<close> digits and the number it shows.\<close>

lemma field_iff:
  assumes "length s = w" and "0 < w"
  shows "fold_digits e 0 s = Ok v \<longleftrightarrow> 0 \<le> v \<and> v < 10 ^ w \<and> s = zero_pad w v"
proof
  assume "fold_digits e 0 s = Ok v"
  then obtain n where n: "v = int n" "n < 10 ^ w" "s = fixed_digits w n"
    using fold_digits_Ok [of e s v] assms(1) by auto
  then have "int n < int (10 ^ w)" by (simp only: of_nat_less_iff)
  then have "v < 10 ^ w" using n(1) by simp
  then show "0 \<le> v \<and> v < 10 ^ w \<and> s = zero_pad w v" using n assms(2) by (simp add: zero_pad_fixed)
next
  assume v: "0 \<le> v \<and> v < 10 ^ w \<and> s = zero_pad w v"
  then obtain n where n: "v = int n" by (auto elim: nonneg_int_cases)
  with v have "int n < int (10 ^ w)" by simp
  then have "n < 10 ^ w" by (simp only: of_nat_less_iff)
  moreover have "s = fixed_digits w n" using v n assms(2) by (simp add: zero_pad_fixed)
  ultimately show "fold_digits e 0 s = Ok v" using n by (simp add: fold_digits_fixed)
qed

lemma length_zero_pad: "0 \<le> v \<Longrightarrow> v < 10 ^ w \<Longrightarrow> 0 < w \<Longrightarrow> length (zero_pad w v) = w"
  by (simp add: zero_pad_fixed)

section \<open>The fields of a timestamp\<close>

lemma twenty_chars:
  assumes "length s = 20"
  shows "s = slice s 0 4 @ s ! 4 # slice s 5 7 @ s ! 7 # slice s 8 10 @ s ! 10 # slice s 11 13 @ s ! 13
    # slice s 14 16 @ s ! 16 # slice s 17 19 @ [s ! 19]"
  using assms by (auto simp: slice_def length_Suc_conv eval_nat_numeral)

lemma utc_shape_iff:
  "utc_shape s \<longleftrightarrow> length s = 20 \<and> s = slice s 0 4 @ ''-'' @ slice s 5 7 @ ''-'' @ slice s 8 10 @ ''T''
     @ slice s 11 13 @ '':'' @ slice s 14 16 @ '':'' @ slice s 17 19 @ ''Z''"
proof (cases "length s = 20")
  case True
  show ?thesis using True by (auto simp: utc_shape_def slice_def length_Suc_conv eval_nat_numeral)
next
  case False
  then show ?thesis by (simp add: utc_shape_def)
qed

definition fields :: "string \<Rightarrow> int \<Rightarrow> int \<Rightarrow> int \<Rightarrow> int \<Rightarrow> int \<Rightarrow> int \<Rightarrow> bool" where
  "fields v y m d h mi s \<longleftrightarrow>
     0 \<le> y \<and> y < 10000 \<and> 0 \<le> m \<and> m < 100 \<and> 0 \<le> d \<and> d < 100
     \<and> 0 \<le> h \<and> h < 100 \<and> 0 \<le> mi \<and> mi < 100 \<and> 0 \<le> s \<and> s < 100 \<and> v = rfc3339 y m d h mi s"

lemma slices_rfc3339:
  assumes "fields v y m d h mi s"
  shows "slice v 0 4 = zero_pad 4 y" and "slice v 5 7 = zero_pad 2 m" and "slice v 8 10 = zero_pad 2 d"
    and "slice v 11 13 = zero_pad 2 h" and "slice v 14 16 = zero_pad 2 mi" and "slice v 17 19 = zero_pad 2 s"
    and "length v = 20"
  using assms by (simp_all add: fields_def slice_def rfc3339_def length_zero_pad)

lemma utc_fields:
  "(utc_shape v \<and> number e v 0 4 = Ok y \<and> number e v 5 7 = Ok m \<and> number e v 8 10 = Ok d
     \<and> number e v 11 13 = Ok h \<and> number e v 14 16 = Ok mi \<and> number e v 17 19 = Ok s)
   \<longleftrightarrow> fields v y m d h mi s"
proof
  assume f: "fields v y m d h mi s"
  note slices = slices_rfc3339 [OF f]
  have "utc_shape v"
    unfolding utc_shape_iff slices using f by (simp add: fields_def rfc3339_def slices)
  moreover have "fold_digits e 0 (zero_pad w x) = Ok x" if "0 \<le> x" "x < 10 ^ w" "0 < w" for w x
    using field_iff [of "zero_pad w x" w e x] that length_zero_pad by simp
  ultimately show "utc_shape v \<and> number e v 0 4 = Ok y \<and> number e v 5 7 = Ok m \<and> number e v 8 10 = Ok d
     \<and> number e v 11 13 = Ok h \<and> number e v 14 16 = Ok mi \<and> number e v 17 19 = Ok s"
    unfolding number_def slices using f by (simp add: fields_def)
next
  assume n: "utc_shape v \<and> number e v 0 4 = Ok y \<and> number e v 5 7 = Ok m \<and> number e v 8 10 = Ok d
     \<and> number e v 11 13 = Ok h \<and> number e v 14 16 = Ok mi \<and> number e v 17 19 = Ok s"
  then have v: "length v = 20" "v = slice v 0 4 @ ''-'' @ slice v 5 7 @ ''-'' @ slice v 8 10 @ ''T''
     @ slice v 11 13 @ '':'' @ slice v 14 16 @ '':'' @ slice v 17 19 @ ''Z''"
    unfolding utc_shape_iff by blast+
  have l: "length (slice v 0 4) = 4" "length (slice v 5 7) = 2" "length (slice v 8 10) = 2"
    "length (slice v 11 13) = 2" "length (slice v 14 16) = 2" "length (slice v 17 19) = 2"
    using v(1) by (simp_all add: slice_def)
  have "0 \<le> y \<and> y < 10 ^ 4 \<and> slice v 0 4 = zero_pad 4 y" using n unfolding number_def field_iff [OF l(1) zero_less_numeral] by simp
  moreover have "0 \<le> m \<and> m < 10 ^ 2 \<and> slice v 5 7 = zero_pad 2 m" using n unfolding number_def field_iff [OF l(2) zero_less_numeral] by simp
  moreover have "0 \<le> d \<and> d < 10 ^ 2 \<and> slice v 8 10 = zero_pad 2 d" using n unfolding number_def field_iff [OF l(3) zero_less_numeral] by simp
  moreover have "0 \<le> h \<and> h < 10 ^ 2 \<and> slice v 11 13 = zero_pad 2 h" using n unfolding number_def field_iff [OF l(4) zero_less_numeral] by simp
  moreover have "0 \<le> mi \<and> mi < 10 ^ 2 \<and> slice v 14 16 = zero_pad 2 mi" using n unfolding number_def field_iff [OF l(5) zero_less_numeral] by simp
  moreover have "0 \<le> s \<and> s < 10 ^ 2 \<and> slice v 17 19 = zero_pad 2 s" using n unfolding number_def field_iff [OF l(6) zero_less_numeral] by simp
  ultimately show "fields v y m d h mi s"
    unfolding fields_def rfc3339_def using v(2) by simp
qed

lemma fields_numbers:
  assumes "fields v y m d h mi s"
  shows "utc_shape v" and "number e v 0 4 = Ok y" and "number e v 5 7 = Ok m" and "number e v 8 10 = Ok d"
    and "number e v 11 13 = Ok h" and "number e v 14 16 = Ok mi" and "number e v 17 19 = Ok s"
  using utc_fields [THEN iffD2, OF assms, of e] by simp_all

section \<open>The parsers compute the calendar\<close>

lemma timestamp_days: "1 \<le> y \<Longrightarrow> timestamp_days_in_month y m f = ok_or (Invalid f) (days_in_month y m)"
  by (auto simp: timestamp_days_in_month_def days_in_month_def is_leap_year_def ok_or_def)

lemma calendar_days:
  assumes "1 \<le> y" and "days_in_month y m = Some l"
  shows "year_days y + month_days_before y m =
    (y - 1) * 365 + (y - 1) sdiv 4 - (y - 1) sdiv 100 + (y - 1) sdiv 400 + MONTH_DAYS ! nat (m - 1)
      + (if m > 2 \<and> is_leap_year y then 1 else 0)"
  using assms days_in_month_Some [OF assms(2)]
  by (simp add: year_days_formula month_days_formula rust_div_mod)

lemma parse_utc_seconds_fields:
  assumes "1 \<le> y" and "fields v y m d h mi s"
  shows "parse_utc_seconds v = Ok t \<longleftrightarrow>
    valid_date y m d \<and> valid_time h mi s \<and> t = calendar_seconds y m d h mi s"
proof (cases "days_in_month y m")
  case None
  then show ?thesis
    by (simp add: parse_utc_seconds_def Let_def ok_or_def valid_date_def fields_numbers [OF assms(2)])
next
  case (Some l)
  have r: "0 \<le> d" "0 \<le> h" "0 \<le> mi" "0 \<le> s" "y \<le> 9999" using assms(2) by (auto simp: fields_def)
  have "calendar_seconds y m d h mi s =
      ((y - 1) * 365 + (y - 1) sdiv 4 - (y - 1) sdiv 100 + (y - 1) sdiv 400 + MONTH_DAYS ! nat (m - 1) + d - 1
        + (if m > 2 \<and> is_leap_year y then 1 else 0)) * 86400 + h * 3600 + mi * 60 + s"
    using calendar_days [OF assms(1) Some] by (simp add: calendar_seconds_def)
  with Some assms(1) r show ?thesis
    by (auto simp: parse_utc_seconds_def Let_def ok_or_def valid_date_def valid_time_def
        fields_numbers [OF assms(2)])
qed

lemma timestamp_parse:
  assumes "fields v y m d h mi s"
  shows "timestamp v f = Ok t \<longleftrightarrow> 1 \<le> y \<and> parse_utc_seconds v = Ok t"
proof (cases "1 \<le> y")
  case True
  then have "is_leap_year y \<longleftrightarrow> y smod 4 = 0 \<and> (y smod 100 \<noteq> 0 \<or> y smod 400 = 0)"
    by (simp add: is_leap_year_def)
  with True show ?thesis
    by (cases "days_in_month y m")
       (auto simp: fields_numbers [OF assms] timestamp_def parse_utc_seconds_def Let_def timestamp_days ok_or_def algebra_simps)
next
  case False
  then have "y = 0" using assms by (simp add: fields_def)
  then show ?thesis
    by (simp add: timestamp_def Let_def guard_simps fields_numbers [OF assms])
qed

lemma fields_of_numbers:
  assumes "utc_shape v" and "number e v 0 4 = Ok y" and "number e v 5 7 = Ok m" and "number e v 8 10 = Ok d"
    and "number e v 11 13 = Ok h" and "number e v 14 16 = Ok mi" and "number e v 17 19 = Ok s"
  shows "\<exists>y m d h mi s. fields v y m d h mi s"
  using assms utc_fields [of v e y m d h mi s] by blast

lemma numbers_of_chain:
  assumes "and_then (number e v 0 4) (\<lambda>y. and_then (number e v 5 7) (\<lambda>m. and_then (number e v 8 10) (\<lambda>d.
    and_then (number e v 11 13) (\<lambda>h. and_then (number e v 14 16) (\<lambda>mi. and_then (number e v 17 19) (\<lambda>s.
    f y m d h mi s)))))) = Ok t" and "utc_shape v"
  shows "\<exists>y m d h mi s. fields v y m d h mi s"
proof -
  from assms(1) obtain y m d h mi s where "number e v 0 4 = Ok y" "number e v 5 7 = Ok m"
    "number e v 8 10 = Ok d" "number e v 11 13 = Ok h" "number e v 14 16 = Ok mi" "number e v 17 19 = Ok s"
    unfolding and_then_eq_Ok by blast
  then show ?thesis by (rule fields_of_numbers [OF assms(2)])
qed

lemma parse_utc_seconds_shape:
  assumes "parse_utc_seconds v = Ok t"
  shows "\<exists>y m d h mi s. fields v y m d h mi s"
proof -
  have s: "utc_shape v" using assms by (cases "utc_shape v") (simp_all add: parse_utc_seconds_def)
  then have s2: "\<not> \<not> utc_shape v" by simp
  show ?thesis
    by (rule numbers_of_chain [OF assms [unfolded parse_utc_seconds_def Let_def if_not_P [OF s2]] s])
qed

lemma timestamp_shape:
  assumes "timestamp v f = Ok t"
  shows "\<exists>y m d h mi s. fields v y m d h mi s"
proof -
  have s: "utc_shape v" using assms by (cases "utc_shape v") (simp_all add: timestamp_def)
  then have s2: "\<not> \<not> utc_shape v" by simp
  show ?thesis
    by (rule numbers_of_chain [OF assms [unfolded timestamp_def Let_def if_not_P [OF s2]] s])
qed

lemma valid_fields: "valid_date y m d \<Longrightarrow> valid_time h mi s \<Longrightarrow> fields (rfc3339 y m d h mi s) y m d h mi s"
  using days_in_month_Some [of y m] by (force simp: valid_date_def valid_time_def fields_def split: option.splits)

lemma timestamp_Ok:
  "timestamp v f = Ok t \<longleftrightarrow>
     (\<exists>y m d h mi s. valid_date y m d \<and> valid_time h mi s \<and> v = rfc3339 y m d h mi s
        \<and> t = calendar_seconds y m d h mi s)"
proof
  assume t: "timestamp v f = Ok t"
  then obtain y m d h mi s where f: "fields v y m d h mi s" using timestamp_shape by blast
  then have "1 \<le> y" and "parse_utc_seconds v = Ok t" using timestamp_parse [OF f] t by auto
  then show "\<exists>y m d h mi s. valid_date y m d \<and> valid_time h mi s \<and> v = rfc3339 y m d h mi s
        \<and> t = calendar_seconds y m d h mi s"
    using parse_utc_seconds_fields [OF _ f] f unfolding fields_def by blast
next
  assume "\<exists>y m d h mi s. valid_date y m d \<and> valid_time h mi s \<and> v = rfc3339 y m d h mi s
        \<and> t = calendar_seconds y m d h mi s"
  then obtain y m d h mi s where c: "valid_date y m d" "valid_time h mi s" "v = rfc3339 y m d h mi s"
    "t = calendar_seconds y m d h mi s" by blast
  then have f: "fields v y m d h mi s" and "1 \<le> y" using valid_fields by (simp_all add: valid_date_def)
  then show "timestamp v f = Ok t"
    using timestamp_parse [OF f] parse_utc_seconds_fields [OF _ f] c by simp
qed

text \<open>The native parser also accepts the year zero; on every other text the two agree.\<close>

lemma parse_utc_seconds_timestamp:
  assumes "parse_utc_seconds v = Ok t"
  shows "timestamp v f = Ok t \<longleftrightarrow> take 4 v \<noteq> ''0000''"
proof -
  obtain y m d h mi s where f: "fields v y m d h mi s" using parse_utc_seconds_shape assms by blast
  have "take 4 v = zero_pad 4 y" using slices_rfc3339(1) [OF f] by (simp add: slice_def)
  moreover have "zero_pad 4 y = ''0000'' \<longleftrightarrow> y = 0"
  proof -
    have z: "zero_pad 4 0 = ''0000''" by (simp add: zero_pad_fixed fixed_digits_0 eval_nat_numeral)
    have "fold_digits () 0 (zero_pad 4 y) = Ok y"
      using field_iff [of "zero_pad 4 y" 4 "()" y] f length_zero_pad by (simp add: fields_def)
    moreover have "fold_digits () 0 (zero_pad 4 0) = Ok 0"
      using field_iff [of "zero_pad 4 0" 4 "()" 0] length_zero_pad by simp
    ultimately show ?thesis using z by (metis result.inject(1))
  qed
  moreover have "0 \<le> y" using f by (simp add: fields_def)
  ultimately show ?thesis using timestamp_parse [OF f] assms by (auto simp: order_le_less)
qed

section \<open>What is written reads back\<close>

lemma days_in_year_pos: "0 < days_in_year y" by (simp add: days_in_year_def)

lemma year_loop_result:
  assumes "1 \<le> y" and "0 \<le> r" and "year_loop y r = (y', r')"
  shows "1 \<le> y' \<and> 0 \<le> r' \<and> r' < days_in_year y' \<and> year_days y' + r' = year_days y + r"
  using assms
proof (induction y r rule: year_loop.induct)
  case (1 y r)
  show ?case
  proof (cases "days_in_year y \<le> r")
    case True
    then have "1 \<le> y' \<and> 0 \<le> r' \<and> r' < days_in_year y' \<and>
        year_days y' + r' = year_days (y + 1) + (r - days_in_year y)"
      using "1.IH" "1.prems" by (simp add: year_loop.simps [of y r])
    then show ?thesis using year_days_step "1.prems"(1) by simp
  next
    case False
    then show ?thesis using "1.prems" by (simp add: year_loop.simps [of y r])
  qed
qed

lemma month_days_13: "month_days_before y 13 = days_in_year y"
  using month_days_step [of 12 y]
  by (simp add: month_days_table days_in_month_def days_in_year_def)

lemma month_loop_result:
  assumes "1 \<le> m" and "m \<le> 13" and "0 \<le> r" and "month_days_before y m + r < days_in_year y"
  shows "\<exists>m' r' l. month_loop y m r = Some (m', r') \<and> days_in_month y m' = Some l \<and> 0 \<le> r' \<and> r' < l
    \<and> month_days_before y m' + r' = month_days_before y m + r"
  using assms
proof (induction y m r rule: month_loop.induct)
  case (1 y m r)
  have "m \<noteq> 13" using "1.prems" month_days_13 [of y] by auto
  then obtain l where l: "days_in_month y m = Some l"
    using "1.prems" days_in_month_None [of y m] by (cases "days_in_month y m") auto
  show ?case
  proof (cases "l \<le> r")
    case True
    then have sum: "month_days_before y (m + 1) + (r - l) = month_days_before y m + r"
      using month_days_step "1.prems"(1) l by simp
    have "month_loop y m r = month_loop y (m + 1) (r - l)" using l True by (simp add: month_loop.simps [of y m r])
    then show ?thesis using "1.IH" [OF l True] True "1.prems" \<open>m \<noteq> 13\<close> unfolding sum by simp
  next
    case False
    then show ?thesis using l "1.prems" by (simp add: month_loop.simps [of y m r])
  qed
qed

lemma year_days_mono: "1 \<le> y \<Longrightarrow> y \<le> y' \<Longrightarrow> year_days y \<le> year_days y'"
  unfolding year_days_def by (rule sum_mono2) (auto simp: days_in_year_def)

lemma clock_split:
  fixes t :: int
  shows "t = t div 3600 * 3600 + t mod 3600 div 60 * 60 + t mod 60"
proof -
  have "t mod 60 = t mod 3600 mod 60" by (rule mod_mod_cancel [symmetric]) simp
  moreover have "t mod 3600 = t mod 3600 div 60 * 60 + t mod 3600 mod 60" by simp
  moreover have "t = t div 3600 * 3600 + t mod 3600" by simp
  ultimately show ?thesis by linarith
qed

text \<open>The seconds of the years that have four digits.\<close>

definition UTC_BOUND :: int where
  "UTC_BOUND = 3652059 * 86400"

lemma year_days_1: "year_days 1 = 0"
  by (simp add: year_days_def)

lemma year_days_10000: "year_days 10000 = 3652059"
  by (simp add: year_days_formula)

lemma format_utc_seconds_result:
  "\<exists>r. format_utc_seconds seconds = Some r \<and>
     (case r of Ok v \<Rightarrow> 0 \<le> seconds \<and> seconds < UTC_BOUND \<and> timestamp v f = Ok seconds
      | Err e \<Rightarrow> seconds < 0 \<or> UTC_BOUND \<le> seconds)"
proof (cases "seconds < 0")
  case True
  then show ?thesis by (simp add: format_utc_seconds_def)
next
  case False
  define days where "days = seconds div 86400"
  define time where "time = seconds mod 86400"
  have dt: "seconds = days * 86400 + time" "0 \<le> time" "time < 86400" "0 \<le> days"
    using False unfolding days_def time_def by (auto simp: pos_imp_zdiv_nonneg_iff)
  obtain y r where yr: "year_loop 1 days = (y, r)" by fastforce
  have y: "1 \<le> y" "0 \<le> r" "r < days_in_year y" "year_days y + r = days"
    using year_loop_result [OF order_refl dt(4) yr] year_days_1 by auto
  have unf: "format_utc_seconds seconds =
      (if y > 9999 then Some (Err (authorize_failure ''authorization expiry exceeds UTC format''))
       else map_option (\<lambda>(month, remaining_days).
              Ok (rfc3339 y month (remaining_days + 1) (time div 3600) (time mod 3600 div 60) (time mod 60)))
            (month_loop y 1 r))"
    using False yr dt(2)
    by (simp add: format_utc_seconds_def Let_def rust_div_mod flip: days_def time_def)
  show ?thesis
  proof (cases "y > 9999")
    case True
    then have "3652059 \<le> days" using year_days_mono [of 10000 y] y year_days_10000 by simp
    then have "UTC_BOUND \<le> seconds" using dt by (simp add: UTC_BOUND_def)
    then show ?thesis using True unfolding unf by simp
  next
    case nine: False
    obtain m r' l where m: "month_loop y 1 r = Some (m, r')" "days_in_month y m = Some l" "0 \<le> r'" "r' < l"
      "month_days_before y m + r' = r"
      using month_loop_result [of 1 r y] y by (auto simp: month_days_1)
    have "valid_date y m (r' + 1)" using m y nine by (simp add: valid_date_def)
    moreover have "valid_time (time div 3600) (time mod 3600 div 60) (time mod 60)"
      using dt zdiv_mono1 [of time 86399 3600] zdiv_mono1 [of "time mod 3600" 3599 60]
      by (simp add: valid_time_def pos_imp_zdiv_nonneg_iff)
    moreover have c: "calendar_seconds y m (r' + 1) h mi s = days * 86400 + (h * 3600 + mi * 60 + s)" for h mi s
      unfolding calendar_seconds_def y(4) [symmetric] m(5) [symmetric] by (simp add: algebra_simps)
    have "calendar_seconds y m (r' + 1) (time div 3600) (time mod 3600 div 60) (time mod 60) = seconds"
      unfolding c using dt(1) clock_split [of time] by (simp only: add.assoc)
    ultimately have "timestamp (rfc3339 y m (r' + 1) (time div 3600) (time mod 3600 div 60) (time mod 60)) f = Ok seconds"
      unfolding timestamp_Ok by blast
    moreover have "days < 3652059"
      using year_days_mono [of "y + 1" 10000] year_days_step [of y] y nine year_days_10000 by simp
    then have "seconds < UTC_BOUND" using dt by (simp add: UTC_BOUND_def)
    ultimately show ?thesis using False nine m(1) unfolding unf by simp
  qed
qed

end
