(* ===== verification/Driver_Evidence.thy ===== *)
theory Driver_Evidence
  imports Utc_Time
begin

text \<open>
  Evidence of an execution (\<open>crates/frametime-domain/src/driver/evidence.rs\<close>): the capture taken before
  the removal, the authorization of the artifact, the evidence of the removal and of the installation.
  Sets of OEM names are sets of texts.  The lemmas say what each accepted piece of evidence is.
\<close>

section \<open>Package sets\<close>

definition evidence_text :: "string \<Rightarrow> string \<Rightarrow> (unit, validation_error) result" where
  "evidence_text value field =
     (if is_blank value \<or> length value > 512 \<or> has_control value then Err (Invalid field) else Ok ())"

fun validate_set_from ::
  "'v exact_gpu \<Rightarrow> string list \<Rightarrow> string option \<Rightarrow> 'v published_driver_package list
     \<Rightarrow> (unit, validation_error) result" where
  "validate_set_from gpu names previous [] = Ok ()"
| "validate_set_from gpu names previous (p # ps) =
     and_then (package_validate_for p gpu) (\<lambda>_.
     if pkg_published_name p \<in> set names
        \<or> (case previous of None \<Rightarrow> False | Some prior \<Rightarrow> prior \<ge> pkg_published_name p)
     then Err NonCanonicalPackageSet
     else validate_set_from gpu (pkg_published_name p # names) (Some (pkg_published_name p)) ps)"

definition package_set_validate :: "'v canonical_package_set \<Rightarrow> (unit, validation_error) result" where
  "package_set_validate s =
     and_then (gpu_validate (set_target_gpu s)) (\<lambda>_.
     validate_set_from (set_target_gpu s) [] None (set_packages s))"

definition package_set_from_unsorted ::
  "'v exact_gpu \<Rightarrow> 'v published_driver_package list \<Rightarrow> ('v canonical_package_set, validation_error) result" where
  "package_set_from_unsorted gpu packages =
     (let s = \<lparr>set_target_gpu = gpu, set_packages = sort_key pkg_published_name packages\<rparr> in
      and_then (package_set_validate s) (\<lambda>_. Ok s))"

definition package_set_fingerprint ::
  "'v driver_codec \<Rightarrow> 'v canonical_package_set \<Rightarrow> (string, validation_error) result" where
  "package_set_fingerprint K s =
     and_then (package_set_validate s) (\<lambda>_.
     and_then (ok_or (Invalid ''packageSet'') (package_set_to_vec K s)) (\<lambda>encoded.
     sha256_digest_parse (driver_sha256_hex K encoded)))"

definition package_set_names :: "'v canonical_package_set \<Rightarrow> string set" where
  "package_set_names s = pkg_published_name ` set (set_packages s)"

section \<open>The capture before a removal\<close>

datatype (plugins only: code size) safe_mode_state = SafeModeConfirmed | SafeModeNotDetected | SafeModeIndeterminate

record 'v safe_mode_observation =
  sm_target_gpu :: "'v exact_gpu"
  sm_state :: safe_mode_state
  sm_observed_at_utc :: string
  boot_session_id :: string

definition safe_mode_validate :: "'v safe_mode_observation \<Rightarrow> (unit, validation_error) result" where
  "safe_mode_validate o' =
     and_then (gpu_validate (sm_target_gpu o')) (\<lambda>_.
     and_then (timestamp (sm_observed_at_utc o') ''safeModeObservedAtUtc'') (\<lambda>_.
     evidence_text (boot_session_id o') ''bootSessionId''))"

text \<open>The policy is a maximal age; \<open>i64::try_from(max).unwrap_or(i64::MAX)\<close> is the bound.\<close>

definition age_bound :: "u64 \<Rightarrow> int" where
  "age_bound maximum = (if uint maximum \<le> 2 ^ 63 - 1 then uint maximum else 2 ^ 63 - 1)"

definition validate_age_at :: "u64 \<Rightarrow> string \<Rightarrow> string \<Rightarrow> (unit, validation_error) result" where
  "validate_age_at maximum captured_at_utc now_utc =
     (if maximum = 0 then Err (Invalid ''maximumAgeSeconds'')
      else
        and_then (timestamp captured_at_utc ''capturedAtUtc'') (\<lambda>captured.
        and_then (timestamp now_utc ''nowUtc'') (\<lambda>now.
        let age = now - captured in
        if age < 0 \<or> age > age_bound maximum then Err StaleCapture else Ok ())))"

definition planned_names :: "'v dry_run_driver_plan \<Rightarrow> (string set, validation_error) result" where
  "planned_names plan =
     (case plan_entries plan of
        _ # e # _ \<Rightarrow>
          (case entry_action e of
             RecordExactPackages packages \<Rightarrow> Ok (pkg_published_name ` set packages)
           | _ \<Rightarrow> Err CapturePlanMismatch)
      | _ \<Rightarrow> Err CapturePlanMismatch)"

record 'v driver_execution_capture =
  cap_schema_version :: u32
  cap_plan_sha256 :: string
  cap_target_gpu :: "'v exact_gpu"
  cap_safe_mode :: "'v safe_mode_observation"
  cap_installed_packages :: "'v canonical_package_set"
  cap_package_set_sha256 :: string
  cap_captured_at_utc :: string

definition driver_capture_validate_at ::
  "'v driver_codec \<Rightarrow> 'v driver_execution_capture \<Rightarrow> 'v dry_run_driver_plan \<Rightarrow> u64 \<Rightarrow> string
     \<Rightarrow> (unit, validation_error) result" where
  "driver_capture_validate_at K c plan freshness now_utc =
     and_then (plan_validate plan) (\<lambda>_.
     if cap_schema_version c \<noteq> DRIVER_SCHEMA_VERSION \<or> cap_plan_sha256 c \<noteq> plan_input_sha256 plan
        \<or> cap_target_gpu c \<noteq> plan_target_gpu plan
     then Err CapturePlanMismatch
     else
       and_then (package_set_validate (cap_installed_packages c)) (\<lambda>_.
       if set_target_gpu (cap_installed_packages c) \<noteq> cap_target_gpu c then Err CapturePlanMismatch
       else
         and_then (package_set_fingerprint K (cap_installed_packages c)) (\<lambda>fingerprint.
         if cap_package_set_sha256 c \<noteq> fingerprint then Err CapturePlanMismatch
         else
           and_then (planned_names plan) (\<lambda>names.
           if package_set_names (cap_installed_packages c) \<noteq> names then Err CapturePlanMismatch
           else
             and_then (safe_mode_validate (cap_safe_mode c)) (\<lambda>_.
             if sm_target_gpu (cap_safe_mode c) \<noteq> cap_target_gpu c \<or> sm_state (cap_safe_mode c) \<noteq> SafeModeConfirmed
             then Err SafeModeNotConfirmed
             else
               and_then (timestamp (sm_observed_at_utc (cap_safe_mode c)) ''safeModeObservedAtUtc'') (\<lambda>observed.
               and_then (timestamp (cap_captured_at_utc c) ''capturedAtUtc'') (\<lambda>captured.
               if observed > captured then Err CapturePlanMismatch
               else if captured - observed > age_bound freshness then Err StaleCapture
               else validate_age_at freshness (cap_captured_at_utc c) now_utc)))))))"

section \<open>Artifacts\<close>

record artifact_identity =
  id_artifact_id :: string
  id_artifact_file_name :: string
  id_payload_sha256 :: string
  id_signer_thumbprint_sha256 :: string

definition artifact_identity_from_descriptor ::
  "'v signed_artifact_descriptor \<Rightarrow> (artifact_identity, validation_error) result" where
  "artifact_identity_from_descriptor d =
     and_then (locator_validate (art_locator d)) (\<lambda>_.
     and_then (authenticode_validate (art_authenticode d)) (\<lambda>_.
     Ok \<lparr>id_artifact_id = artifact_id (art_locator d),
         id_artifact_file_name = artifact_file_name (art_locator d),
         id_payload_sha256 = art_payload_sha256 d,
         id_signer_thumbprint_sha256 = signer_thumbprint_sha256 (art_authenticode d)\<rparr>))"

definition artifact_identity_validate_matches ::
  "artifact_identity \<Rightarrow> 'v signed_artifact_descriptor \<Rightarrow> (unit, validation_error) result" where
  "artifact_identity_validate_matches i d =
     and_then (artifact_identity_from_descriptor d) (\<lambda>j.
     if i = j then Ok () else Err ArtifactIdentityMismatch)"

record 'v artifact_authorization =
  authz_schema_version :: u32
  authorization_id :: string
  authz_plan_sha256 :: string
  authz_target_gpu :: "'v exact_gpu"
  authz_package_set_sha256 :: string
  authz_artifact :: artifact_identity
  authorized_at_utc :: string
  expires_at_utc :: string

definition authorization_validate_at ::
  "'v artifact_authorization \<Rightarrow> 'v driver_execution_capture \<Rightarrow> 'v signed_artifact_descriptor \<Rightarrow> string
     \<Rightarrow> (unit, validation_error) result" where
  "authorization_validate_at a c artifact now_utc =
     (if authz_schema_version a \<noteq> DRIVER_SCHEMA_VERSION \<or> authz_plan_sha256 a \<noteq> cap_plan_sha256 c
         \<or> authz_target_gpu a \<noteq> cap_target_gpu c \<or> authz_package_set_sha256 a \<noteq> cap_package_set_sha256 c
      then Err AuthorizationMismatch
      else
        and_then (evidence_text (authorization_id a) ''authorizationId'') (\<lambda>_.
        and_then (gpu_validate (authz_target_gpu a)) (\<lambda>_.
        and_then (artifact_identity_validate_matches (authz_artifact a) artifact) (\<lambda>_.
        and_then (timestamp (authorized_at_utc a) ''authorizedAtUtc'') (\<lambda>authorized.
        and_then (timestamp (expires_at_utc a) ''expiresAtUtc'') (\<lambda>expires.
        and_then (timestamp now_utc ''nowUtc'') (\<lambda>now.
        if authorized > now \<or> expires < now \<or> authorized \<ge> expires then Err AuthorizationExpired
        else Ok ())))))))"

section \<open>Removal\<close>

datatype (plugins only: code size) removal_disposition = PackageRemoved | PackageAlreadyAbsent | PackageRemovalFailed string

record removal_outcome =
  out_published_name :: string
  out_disposition :: removal_disposition
  out_observed_at_utc :: string

record 'v removal_evidence =
  rem_capture :: "'v driver_execution_capture"
  rem_outcomes :: "removal_outcome list"
  post_removal_packages :: "'v canonical_package_set"
  rem_observed_at_utc :: string

definition outcome_validate :: "string \<Rightarrow> removal_outcome \<Rightarrow> (unit, validation_error) result" where
  "outcome_validate captured_at_utc r =
     (if out_disposition r \<noteq> PackageRemoved then Err InvalidRemovalEvidence
      else
        and_then (timestamp (out_observed_at_utc r) ''removalObservedAtUtc'') (\<lambda>observed.
        and_then (timestamp captured_at_utc ''capturedAtUtc'') (\<lambda>captured.
        if observed < captured then Err InvalidRemovalEvidence else Ok ())))"

definition removal_evidence_validate_at ::
  "'v driver_codec \<Rightarrow> 'v removal_evidence \<Rightarrow> 'v dry_run_driver_plan \<Rightarrow> u64 \<Rightarrow> string
     \<Rightarrow> (unit, validation_error) result" where
  "removal_evidence_validate_at K r plan freshness now_utc =
     (let c = rem_capture r in
      and_then (driver_capture_validate_at K c plan freshness now_utc) (\<lambda>_.
      and_then (package_set_validate (post_removal_packages r)) (\<lambda>_.
      if set_target_gpu (post_removal_packages r) \<noteq> cap_target_gpu c then Err InvalidRemovalEvidence
      else
        and_then (timestamp (rem_observed_at_utc r) ''postRemovalObservedAtUtc'') (\<lambda>observed.
        and_then (timestamp (cap_captured_at_utc c) ''capturedAtUtc'') (\<lambda>captured.
        if observed < captured then Err InvalidRemovalEvidence
        else
          let expected = package_set_names (cap_installed_packages c);
              outcome_names = out_published_name ` set (rem_outcomes r) in
          if length (rem_outcomes r) \<noteq> card expected \<or> outcome_names \<noteq> expected then Err InvalidRemovalEvidence
          else
            and_then (try_each (outcome_validate (cap_captured_at_utc c)) (rem_outcomes r)) (\<lambda>_.
            if expected \<inter> package_set_names (post_removal_packages r) \<noteq> {} then Err InvalidRemovalEvidence
            else Ok ()))))))"

section \<open>Installation\<close>

record installed_artifact_observation =
  inst_artifact :: artifact_identity
  inst_observed_at_utc :: string

record 'v installation_evidence =
  ins_authorization :: "'v artifact_authorization"
  fresh_authenticode :: "'v authenticode_evidence"
  installed_artifact :: installed_artifact_observation
  post_install_packages :: "'v canonical_package_set"
  ins_observed_at_utc :: string

text \<open>One operand of the disjunction: both timestamps are parsed, then compared.\<close>

definition reject_if_before ::
  "string \<Rightarrow> string \<Rightarrow> string \<Rightarrow> string \<Rightarrow> (unit, validation_error) result" where
  "reject_if_before a field_a b field_b =
     and_then (timestamp a field_a) (\<lambda>x.
     and_then (timestamp b field_b) (\<lambda>y.
     if x < y then Err InvalidInstallationEvidence else Ok ()))"

definition reject_if_after ::
  "string \<Rightarrow> string \<Rightarrow> string \<Rightarrow> string \<Rightarrow> (unit, validation_error) result" where
  "reject_if_after a field_a b field_b =
     and_then (timestamp a field_a) (\<lambda>x.
     and_then (timestamp b field_b) (\<lambda>y.
     if x > y then Err InvalidInstallationEvidence else Ok ()))"

definition installation_validate_for_capture_at ::
  "'v installation_evidence \<Rightarrow> 'v driver_execution_capture \<Rightarrow> 'v signed_artifact_descriptor \<Rightarrow> string
     \<Rightarrow> (unit, validation_error) result" where
  "installation_validate_for_capture_at i c artifact now_utc =
     and_then (authorization_validate_at (ins_authorization i) c artifact now_utc) (\<lambda>_.
     and_then (authenticode_validate (fresh_authenticode i)) (\<lambda>_.
     and_then (package_set_validate (post_install_packages i)) (\<lambda>_.
     let fresh = auth_observed_at_utc (fresh_authenticode i);
         authorized = authorized_at_utc (ins_authorization i);
         installed = inst_observed_at_utc (installed_artifact i) in
     if set_target_gpu (post_install_packages i) \<noteq> cap_target_gpu c
        \<or> set_packages (post_install_packages i) = []
        \<or> inst_artifact (installed_artifact i) \<noteq> authz_artifact (ins_authorization i)
        \<or> signer_subject (fresh_authenticode i) \<noteq> signer_subject (art_authenticode artifact)
        \<or> signer_thumbprint_sha256 (fresh_authenticode i) \<noteq> signer_thumbprint_sha256 (art_authenticode artifact)
     then Err InvalidInstallationEvidence
     else
       and_then (reject_if_before fresh ''freshAuthenticodeObservedAtUtc'' authorized ''authorizedAtUtc'') (\<lambda>_.
       and_then (reject_if_after fresh ''freshAuthenticodeObservedAtUtc'' installed ''installObservedAtUtc'') (\<lambda>_.
       and_then (reject_if_before installed ''installObservedAtUtc'' authorized ''authorizedAtUtc'') (\<lambda>_.
       and_then (reject_if_before (ins_observed_at_utc i) ''postInstallObservedAtUtc''
          authorized ''authorizedAtUtc'') (\<lambda>_.
       and_then (reject_if_after installed ''installObservedAtUtc''
          (ins_observed_at_utc i) ''postInstallObservedAtUtc'') (\<lambda>_.
       reject_if_before (ins_observed_at_utc i) ''postInstallObservedAtUtc''
         (cap_captured_at_utc c) ''capturedAtUtc'')))))))) "

definition installation_validate_for_plan_at ::
  "'v driver_codec \<Rightarrow> 'v installation_evidence \<Rightarrow> 'v dry_run_driver_plan \<Rightarrow> 'v driver_execution_capture
     \<Rightarrow> 'v signed_artifact_descriptor \<Rightarrow> u64 \<Rightarrow> string \<Rightarrow> (unit, validation_error) result" where
  "installation_validate_for_plan_at K i plan c artifact freshness now_utc =
     and_then (driver_capture_validate_at K c plan freshness now_utc) (\<lambda>_.
     installation_validate_for_capture_at i c artifact now_utc)"

section \<open>Canonical sets\<close>

lemma validate_set_from_Ok:
  "validate_set_from gpu names previous ps = Ok () \<longleftrightarrow>
     (\<forall>p\<in>set ps. package_validate_for p gpu = Ok ())
     \<and> sorted_wrt (<) (map pkg_published_name ps)
     \<and> set (map pkg_published_name ps) \<inter> set names = {}
     \<and> (\<forall>prior. previous = Some prior \<longrightarrow> (\<forall>p\<in>set ps. prior < pkg_published_name p))"
proof (induction ps arbitrary: names previous)
  case (Cons p ps)
  show ?case
    by (cases previous) (auto simp: Cons.IH guard_simps not_le intro: less_trans)
qed simp

text \<open>A package set is accepted when its names are strictly increasing and every package belongs to the GPU.\<close>

lemma package_set_validate_Ok:
  "package_set_validate s = Ok u \<longleftrightarrow>
     gpu_validate (set_target_gpu s) = Ok ()
     \<and> (\<forall>p\<in>set (set_packages s). package_validate_for p (set_target_gpu s) = Ok ())
     \<and> sorted_wrt (<) (map pkg_published_name (set_packages s))"
  by (auto simp: package_set_validate_def guard_simps validate_set_from_Ok)

lemma sorted_key_strict: "sorted (map f xs) \<Longrightarrow> distinct (map f xs) \<longleftrightarrow> sorted_wrt (<) (map f xs)"
  by (simp add: strict_sorted_iff)

lemma package_set_from_unsorted_Ok:
  "package_set_from_unsorted gpu ps = Ok s \<longleftrightarrow>
     s = \<lparr>set_target_gpu = gpu, set_packages = sort_key pkg_published_name ps\<rparr>
     \<and> gpu_validate gpu = Ok () \<and> (\<forall>p\<in>set ps. package_validate_for p gpu = Ok ())
     \<and> distinct (map pkg_published_name ps)"
proof -
  have "sorted_wrt (<) (map pkg_published_name (sort_key pkg_published_name ps)) \<longleftrightarrow>
      distinct (map pkg_published_name (sort_key pkg_published_name ps))"
    by (simp add: sorted_key_strict [symmetric] del: distinct_map)
  also have "\<dots> \<longleftrightarrow> distinct (map pkg_published_name ps)"
    by (metis mset_map mset_eq_imp_distinct_iff mset_sort)
  finally show ?thesis
    by (auto simp: package_set_from_unsorted_def Let_def guard_simps package_set_validate_Ok)
qed

lemma package_set_distinct: "package_set_validate s = Ok u \<Longrightarrow> distinct (map pkg_published_name (set_packages s))"
  unfolding package_set_validate_Ok by (simp only: strict_sorted_iff)

lemma card_package_set_names: "package_set_validate s = Ok u \<Longrightarrow> card (package_set_names s) = length (set_packages s)"
  using package_set_distinct [of s u] distinct_card by (fastforce simp: package_set_names_def)

section \<open>What accepted evidence is\<close>

lemma timestamp_field: "timestamp v f = Ok t \<longleftrightarrow> timestamp v g = Ok t"
  unfolding timestamp_Ok ..

definition utc :: "string \<Rightarrow> int \<Rightarrow> bool" where
  "utc v t \<longleftrightarrow> timestamp v ''utc'' = Ok t"

lemma timestamp_utc: "timestamp v f = Ok t \<longleftrightarrow> utc v t"
  unfolding utc_def by (rule timestamp_field)

lemma utc_unique: "utc v t \<Longrightarrow> utc v t' \<Longrightarrow> t = t'"
  by (simp add: utc_def)

lemma validate_age_at_Ok:
  "validate_age_at maximum v w = Ok u \<longleftrightarrow>
     maximum \<noteq> 0 \<and> (\<exists>c n. utc v c \<and> utc w n \<and> c \<le> n \<and> n - c \<le> age_bound maximum)"
  by (auto simp: validate_age_at_def guard_simps timestamp_utc Let_def not_less)

lemma safe_mode_validate_Ok:
  "safe_mode_validate o' = Ok u \<longleftrightarrow>
     gpu_validate (sm_target_gpu o') = Ok () \<and> (\<exists>t. utc (sm_observed_at_utc o') t)
     \<and> evidence_text (boot_session_id o') ''bootSessionId'' = Ok ()"
  by (auto simp: safe_mode_validate_def guard_simps timestamp_utc)

lemma driver_capture_Ok:
  "driver_capture_validate_at K c plan freshness now = Ok u \<longleftrightarrow>
     plan_validate plan = Ok ()
     \<and> cap_schema_version c = DRIVER_SCHEMA_VERSION \<and> cap_plan_sha256 c = plan_input_sha256 plan
     \<and> cap_target_gpu c = plan_target_gpu plan
     \<and> package_set_validate (cap_installed_packages c) = Ok ()
     \<and> set_target_gpu (cap_installed_packages c) = cap_target_gpu c
     \<and> package_set_fingerprint K (cap_installed_packages c) = Ok (cap_package_set_sha256 c)
     \<and> planned_names plan = Ok (package_set_names (cap_installed_packages c))
     \<and> safe_mode_validate (cap_safe_mode c) = Ok ()
     \<and> sm_target_gpu (cap_safe_mode c) = cap_target_gpu c \<and> sm_state (cap_safe_mode c) = SafeModeConfirmed
     \<and> (\<exists>seen captured. utc (sm_observed_at_utc (cap_safe_mode c)) seen \<and> utc (cap_captured_at_utc c) captured
          \<and> seen \<le> captured \<and> captured - seen \<le> age_bound freshness)
     \<and> validate_age_at freshness (cap_captured_at_utc c) now = Ok ()"
  unfolding driver_capture_validate_at_def
  by (auto simp: guard_simps timestamp_utc not_less)

lemma artifact_identity_matches_Ok:
  "artifact_identity_validate_matches i d = Ok u \<longleftrightarrow> artifact_identity_from_descriptor d = Ok i"
  by (auto simp: artifact_identity_validate_matches_def guard_simps)

lemma authorization_Ok:
  "authorization_validate_at a c artifact now = Ok u \<longleftrightarrow>
     authz_schema_version a = DRIVER_SCHEMA_VERSION \<and> authz_plan_sha256 a = cap_plan_sha256 c
     \<and> authz_target_gpu a = cap_target_gpu c \<and> authz_package_set_sha256 a = cap_package_set_sha256 c
     \<and> evidence_text (authorization_id a) ''authorizationId'' = Ok ()
     \<and> gpu_validate (authz_target_gpu a) = Ok ()
     \<and> artifact_identity_from_descriptor artifact = Ok (authz_artifact a)
     \<and> (\<exists>authorized expires n. utc (authorized_at_utc a) authorized \<and> utc (expires_at_utc a) expires
          \<and> utc now n \<and> authorized \<le> n \<and> n \<le> expires \<and> authorized < expires)"
  unfolding authorization_validate_at_def
  by (auto simp: guard_simps timestamp_utc artifact_identity_matches_Ok not_less not_le)

lemma outcome_validate_Ok:
  "outcome_validate captured r = Ok u \<longleftrightarrow>
     out_disposition r = PackageRemoved
     \<and> (\<exists>seen c. utc (out_observed_at_utc r) seen \<and> utc captured c \<and> c \<le> seen)"
  by (auto simp: outcome_validate_def guard_simps timestamp_utc not_less)

lemma removal_evidence_Ok:
  "removal_evidence_validate_at K r plan freshness now = Ok u \<longleftrightarrow>
     driver_capture_validate_at K (rem_capture r) plan freshness now = Ok ()
     \<and> package_set_validate (post_removal_packages r) = Ok ()
     \<and> set_target_gpu (post_removal_packages r) = cap_target_gpu (rem_capture r)
     \<and> (\<exists>seen captured. utc (rem_observed_at_utc r) seen \<and> utc (cap_captured_at_utc (rem_capture r)) captured
          \<and> captured \<le> seen)
     \<and> length (rem_outcomes r) = card (package_set_names (cap_installed_packages (rem_capture r)))
     \<and> out_published_name ` set (rem_outcomes r) = package_set_names (cap_installed_packages (rem_capture r))
     \<and> (\<forall>x\<in>set (rem_outcomes r). outcome_validate (cap_captured_at_utc (rem_capture r)) x = Ok ())
     \<and> package_set_names (cap_installed_packages (rem_capture r)) \<inter> package_set_names (post_removal_packages r) = {}"
  unfolding removal_evidence_validate_at_def Let_def
  by (auto simp: guard_simps timestamp_utc not_less)

end
