(* ===== verification/Driver_Adapters.thy ===== *)
theory Driver_Adapters
  imports Driver_Evidence Files
begin

text \<open>
  The injected adapters and the two orchestrators over them
  (\<open>crates/frametime-domain/src/driver/adapters.rs\<close>).  A trait object is a record of actions over a
  world \<open>'w\<close>, so what an adapter does to the machine is visible in the world.  The lemmas say that a
  capture that is returned is valid, that a removal reports every captured package removed and gone, and
  that a removal touches the machine only through the captured names and only after the checks.
\<close>

section \<open>Adapters\<close>

record ('w, 'v) inspection_adapter =
  ia_inspect_exact_gpu :: "('w, adapter_failure, 'v exact_gpu) io"
  ia_inspect_published_packages ::
    "'v exact_gpu \<Rightarrow> ('w, adapter_failure, 'v published_driver_package list) io"

record ('w, 'v) acquisition_adapter =
  acquire_descriptor ::
    "'v artifact_locator \<Rightarrow> 'v exact_gpu \<Rightarrow> ('w, adapter_failure, 'v signed_artifact_descriptor) io"

record 'w execution_clock =
  current_utc :: "('w, adapter_failure, string) io"

record ('w, 'v) safe_mode_adapter =
  observe_safe_mode :: "'v exact_gpu \<Rightarrow> ('w, adapter_failure, 'v safe_mode_observation) io"

record ('w, 'v) package_execution =
  remove_published_package :: "'v exact_gpu \<Rightarrow> string \<Rightarrow> ('w, adapter_failure, removal_outcome) io"
  pe_inspect_published_packages ::
    "'v exact_gpu \<Rightarrow> ('w, adapter_failure, 'v published_driver_package list) io"

section \<open>Receipts\<close>

record 'v capture_receipt =
  cr_schema_version :: u32
  cr_plan_sha256 :: string
  cr_target_gpu :: "'v exact_gpu"
  cr_complete :: bool
  cr_captured_at_utc :: string
  cr_extensions :: "'v fields"

record 'v apply_receipt =
  ar_schema_version :: u32
  ar_plan_sha256 :: string
  ar_applied_at_utc :: string
  ar_verified :: bool
  ar_extensions :: "'v fields"

definition validate_capture_binding ::
  "'v dry_run_driver_plan \<Rightarrow> 'v capture_receipt \<Rightarrow> (unit, validation_error) result" where
  "validate_capture_binding plan capture =
     and_then (plan_validate plan) (\<lambda>_.
     if cr_schema_version capture \<noteq> DRIVER_SCHEMA_VERSION \<or> \<not> cr_complete capture then Err IncompleteReceipt
     else
       and_then (gpu_validate (cr_target_gpu capture)) (\<lambda>_.
       if cr_plan_sha256 capture \<noteq> plan_input_sha256 plan \<or> cr_target_gpu capture \<noteq> plan_target_gpu plan
       then Err ReceiptPlanMismatch
       else if is_blank (cr_captured_at_utc capture) \<or> has_control (cr_captured_at_utc capture)
       then Err (Invalid ''capturedAtUtc'')
       else Ok ()))"

section \<open>Orchestration\<close>

definition inspect_input ::
  "('w, 'v) inspection_adapter \<Rightarrow> ('w, 'v) acquisition_adapter \<Rightarrow> 'v artifact_locator
     \<Rightarrow> ('w, adapter_failure, 'v driver_plan_input) io" where
  "inspect_input inspection acquisition locator =
     io_bind (ia_inspect_exact_gpu inspection) (\<lambda>target_gpu.
     io_bind (ia_inspect_published_packages inspection target_gpu) (\<lambda>packages.
     io_bind (acquire_descriptor acquisition locator target_gpu) (\<lambda>artifact.
     io_ret \<lparr>input_target_gpu = target_gpu, installed_packages = packages, input_artifact = artifact,
             input_extensions = fmempty\<rparr>)))"

definition failing :: "string \<Rightarrow> ('a, validation_error) result \<Rightarrow> ('w, adapter_failure, 'a) io" where
  "failing operation r = io_check (map_err (\<lambda>e. AdapterFailure operation (validation_error_text e)) r)"

definition capture_driver_execution ::
  "'v driver_codec \<Rightarrow> 'v dry_run_driver_plan \<Rightarrow> ('w, 'v) safe_mode_adapter \<Rightarrow> ('w, 'v) package_execution
     \<Rightarrow> 'w execution_clock \<Rightarrow> u64 \<Rightarrow> ('w, adapter_failure, 'v driver_execution_capture) io" where
  "capture_driver_execution K plan safe_mode packages clock freshness =
     io_bind (failing ''capture driver execution'' (plan_validate plan)) (\<lambda>_.
     io_bind (observe_safe_mode safe_mode (plan_target_gpu plan)) (\<lambda>observed.
     io_bind (pe_inspect_published_packages packages (plan_target_gpu plan)) (\<lambda>found.
     io_bind (failing ''capture driver execution'' (package_set_from_unsorted (plan_target_gpu plan) found))
       (\<lambda>installed.
     io_bind (current_utc clock) (\<lambda>captured_at_utc.
     io_bind (failing ''capture driver execution'' (package_set_fingerprint K installed)) (\<lambda>fingerprint.
     let capture =
       \<lparr>cap_schema_version = DRIVER_SCHEMA_VERSION, cap_plan_sha256 = plan_input_sha256 plan,
        cap_target_gpu = plan_target_gpu plan, cap_safe_mode = observed, cap_installed_packages = installed,
        cap_package_set_sha256 = fingerprint, cap_captured_at_utc = captured_at_utc\<rparr> in
     io_bind (failing ''capture driver execution''
         (driver_capture_validate_at K capture plan freshness captured_at_utc)) (\<lambda>_.
     io_ret capture)))))))"

definition remove_captured_packages ::
  "'v driver_codec \<Rightarrow> 'v dry_run_driver_plan \<Rightarrow> 'v driver_execution_capture \<Rightarrow> ('w, 'v) package_execution
     \<Rightarrow> 'w execution_clock \<Rightarrow> u64 \<Rightarrow> ('w, adapter_failure, 'v removal_evidence) io" where
  "remove_captured_packages K plan capture packages clock freshness =
     io_bind (current_utc clock) (\<lambda>now.
     io_bind (failing ''remove driver packages'' (driver_capture_validate_at K capture plan freshness now)) (\<lambda>_.
     io_bind (io_each (\<lambda>p. remove_published_package packages (cap_target_gpu capture) (pkg_published_name p))
         (set_packages (cap_installed_packages capture))) (\<lambda>outcomes.
     io_bind (pe_inspect_published_packages packages (cap_target_gpu capture)) (\<lambda>found.
     io_bind (failing ''read back driver removal'' (package_set_from_unsorted (cap_target_gpu capture) found))
       (\<lambda>post.
     io_bind (current_utc clock) (\<lambda>observed_at_utc.
     let evidence =
       \<lparr>rem_capture = capture, rem_outcomes = outcomes, post_removal_packages = post,
        rem_observed_at_utc = observed_at_utc\<rparr> in
     io_bind (current_utc clock) (\<lambda>now.
     io_bind (failing ''verify driver removal'' (removal_evidence_validate_at K evidence plan freshness now)) (\<lambda>_.
     io_ret evidence))))))))"

section \<open>What they return\<close>

lemma failing_Ok [io_Ok]: "failing op r w = (Ok y, w') \<longleftrightarrow> r = Ok y \<and> w' = w"
  by (auto simp: failing_def io_check_def guard_simps)

lemma capture_driver_execution_Ok:
  assumes "capture_driver_execution K plan safe_mode packages clock freshness w = (Ok c, w')"
  shows "driver_capture_validate_at K c plan freshness (cap_captured_at_utc c) = Ok ()"
  using assms by (auto simp: capture_driver_execution_def io_Ok Let_def)

lemma remove_captured_packages_Ok:
  assumes "remove_captured_packages K plan c packages clock freshness w = (Ok r, w')"
  shows "rem_capture r = c" and "\<exists>now. removal_evidence_validate_at K r plan freshness now = Ok ()"
  using assms by (auto simp: remove_captured_packages_def io_Ok Let_def)

lemma io_within_failing [io_within_intros]: "reflp R \<Longrightarrow> io_within R (failing op r)"
  by (simp add: failing_def io_within_intros)

text \<open>What the removal does to the world is done by the clock, the inventory and the captured names.\<close>

lemma remove_captured_packages_within:
  assumes "reflp R" and "transp R" and "io_within R (current_utc clock)"
    and "\<And>gpu. io_within R (pe_inspect_published_packages packages gpu)"
    and "\<And>name. name \<in> package_set_names (cap_installed_packages c) \<Longrightarrow>
           io_within R (remove_published_package packages (cap_target_gpu c) name)"
  shows "io_within R (remove_captured_packages K plan c packages clock freshness)"
  unfolding remove_captured_packages_def Let_def
  using assms
  by (intro io_within_intros io_within_each) (auto simp: package_set_names_def)

text \<open>Nothing is removed when the checks before it fail.\<close>

lemma remove_captured_packages_rejected:
  assumes "current_utc clock w = (Ok now, w1)"
    and "driver_capture_validate_at K c plan freshness now = Err e"
  shows "remove_captured_packages K plan c packages clock freshness w =
    (Err (AdapterFailure ''remove driver packages'' (validation_error_text e)), w1)"
  using assms by (simp add: remove_captured_packages_def io_bind_def failing_def io_check_def)

end
