(* ===== verification/Driver_Native.thy ===== *)
theory Driver_Native
  imports Driver_Adapters Device_Bindings
begin

text \<open>
  The native driver adapters of \<open>crates/frametime-windows/src/driver\<close>: the inspection of the display
  devices, the observation of Safe Mode, the removal of packages by PnPUtil, and the policy on NVIDIA
  artifacts, over a record of what Windows answers.
\<close>

section \<open>What Windows answers\<close>

text \<open>
  The calls below the adapters: the SetupAPI enumeration, \<open>GetSystemMetrics(SM_CLEANBOOT)\<close>, the tick count,
  the local clock and the UTC clock as calendar fields, \<open>GetSystemDirectoryW\<close>, the exit code of a child
  process, \<open>WinVerifyTrust\<close> and the handle of a retained artifact.  \<open>'h\<close> is such a handle.
\<close>

record clock_fields =
  cf_year :: nat
  cf_month :: nat
  cf_day :: nat
  cf_hour :: nat
  cf_minute :: nat
  cf_second :: nat

record ('w, 'v, 'h) driver_platform =
  setup_api :: "('w, device_binding_error, 'v pci_device_observation list) io"
  clean_boot :: "'w \<Rightarrow> u32 \<times> 'w"
  tick_count :: "'w \<Rightarrow> u64 \<times> 'w"
  local_clock :: "'w \<Rightarrow> clock_fields \<times> 'w"
  system_clock :: "'w \<Rightarrow> clock_fields \<times> 'w"
  system_directory :: "('w, adapter_failure, path) io"
  run_tool :: "path \<Rightarrow> string list \<Rightarrow> ('w, adapter_failure, int option) io"
  retained_revalidate :: "'h \<Rightarrow> string \<Rightarrow> u64 \<Rightarrow> ('w, adapter_failure, unit) io"
  verify_nvidia_signature :: "'h option \<Rightarrow> ('w, adapter_failure, string \<times> string) io"
  launch_retained :: "'h option \<Rightarrow> string list \<Rightarrow> ('w, adapter_failure, int option) io"

text \<open>\<open>crate::timestamp\<close> (\<open>trust/public.rs\<close>) formats the local time, \<open>trusted_current_utc\<close> the UTC time.\<close>

definition local_timestamp :: "clock_fields \<Rightarrow> string" where
  "local_timestamp c =
     zero_pad 4 (int (cf_year c)) @ ''-'' @ zero_pad 2 (int (cf_month c)) @ ''-'' @ zero_pad 2 (int (cf_day c)) @ '' ''
     @ zero_pad 2 (int (cf_hour c)) @ '':'' @ zero_pad 2 (int (cf_minute c)) @ '':'' @ zero_pad 2 (int (cf_second c))"

definition utc_timestamp :: "clock_fields \<Rightarrow> string" where
  "utc_timestamp c =
     rfc3339 (int (cf_year c)) (int (cf_month c)) (int (cf_day c)) (int (cf_hour c)) (int (cf_minute c))
       (int (cf_second c))"

text \<open>A call that cannot fail.\<close>

definition io_call :: "('w \<Rightarrow> 'a \<times> 'w) \<Rightarrow> ('w, 'e, 'a) io" where
  "io_call f w = (case f w of (x, w') \<Rightarrow> (Ok x, w'))"

definition crate_timestamp :: "('w, 'v, 'h) driver_platform \<Rightarrow> ('w, 'e, string) io" where
  "crate_timestamp P = io_bind (io_call (local_clock P)) (\<lambda>c. io_ret (local_timestamp c))"

definition trusted_current_utc :: "('w, 'v, 'h) driver_platform \<Rightarrow> ('w, 'e, string) io" where
  "trusted_current_utc P = io_bind (io_call (system_clock P)) (\<lambda>c. io_ret (utc_timestamp c))"

section \<open>Inspection\<close>

definition exact_gpu_of :: "'v pci_device_binding \<Rightarrow> ('v exact_gpu, adapter_failure) result" where
  "exact_gpu_of b =
     and_then
       (if vendor_id b = 0x10de then Ok Nvidia
        else if vendor_id b = 0x1002 then Ok Amd
        else if vendor_id b = 0x8086 then Ok Intel
        else Err (AdapterFailure ''inspect GPU'' ''display PnP identity has an unsupported PCI vendor'')) (\<lambda>vendor.
     Ok (exact_gpu_new vendor (device_id b) (subsystem_vendor_id b) (subsystem_device_id b) (revision_id b)))"

definition driver_package_of :: "'v exact_gpu \<Rightarrow> 'v pci_device_binding \<Rightarrow> string \<Rightarrow> 'v published_driver_package" where
  "driver_package_of target b name =
     \<lparr>pkg_target_gpu = target, pkg_published_name = name, original_inf_name = name,
      provider_name = driver_provider b, driver_version_text = driver_version b, pkg_extensions = fmempty\<rparr>"

text \<open>One round of the loop of \<open>packages_for\<close>: nothing, or the key and the package to insert.\<close>

definition package_item ::
  "'v exact_gpu \<Rightarrow> pci_device_class \<times> 'v pci_device_binding
     \<Rightarrow> ((string \<times> 'v published_driver_package) option, adapter_failure) result" where
  "package_item target item =
     (case item of (c, b) \<Rightarrow>
        if c \<noteq> Display then Ok None
        else
          and_then (exact_gpu_of b) (\<lambda>gpu.
          if gpu \<noteq> target then Ok None
          else
            and_then (map_err (\<lambda>_. AdapterFailure ''inspect packages'' ''display PnP binding has no canonical oem<N>.inf'')
              (oem_published_name_parse (to_ascii_lowercase (published_inf b)))) (\<lambda>name.
            let package = driver_package_of target b name in
            and_then (map_err (\<lambda>e. AdapterFailure ''inspect packages'' (validation_error_text e))
              (package_validate_for package target)) (\<lambda>_.
            Ok (Some (name, package))))))"

definition packages_for ::
  "(pci_device_class \<times> 'v pci_device_binding) list \<Rightarrow> 'v exact_gpu
     \<Rightarrow> ('v published_driver_package list, adapter_failure) result" where
  "packages_for bindings target =
     and_then (collect_unique (package_item target)
       (\<lambda>_. AdapterFailure ''inspect packages'' ''conflicting PnP records bind one OEM INF'') fmempty bindings) (\<lambda>m.
     Ok (btree_values m))"

definition driver_bindings ::
  "('w, 'v, 'h) driver_platform \<Rightarrow> ('w, adapter_failure, (pci_device_class \<times> 'v pci_device_binding) list) io" where
  "driver_bindings P =
     io_map_err (\<lambda>e. AdapterFailure ''inspect PnP devices'' (device_binding_error_text e))
       (enumerate_present_status_ok_pci (setup_api P))"

text \<open>The distinct identities of the display devices, in the order they are first seen.\<close>

fun display_identities ::
  "'v exact_gpu list \<Rightarrow> (pci_device_class \<times> 'v pci_device_binding) list \<Rightarrow> ('v exact_gpu list, adapter_failure) result" where
  "display_identities seen [] = Ok seen"
| "display_identities seen ((c, b) # bs) =
     (if c \<noteq> Display then display_identities seen bs
      else
        and_then (exact_gpu_of b) (\<lambda>gpu.
        display_identities (if gpu \<in> set seen then seen else seen @ [gpu]) bs))"

definition one_gpu :: "'v exact_gpu list \<Rightarrow> ('v exact_gpu, adapter_failure) result" where
  "one_gpu candidates =
     (case candidates of
        [gpu] \<Rightarrow> Ok gpu
      | [] \<Rightarrow> Err (AdapterFailure ''inspect GPU'' ''no active status-OK PCI display GPU was found'')
      | _ \<Rightarrow> Err (AdapterFailure ''inspect GPU'' ''multiple display GPUs require an explicit PnP selection''))"

definition inspect_exact_gpu :: "('w, 'v, 'h) driver_platform \<Rightarrow> ('w, adapter_failure, 'v exact_gpu) io" where
  "inspect_exact_gpu P =
     io_bind (driver_bindings P) (\<lambda>bindings.
     io_bind (io_check (display_identities [] bindings)) (\<lambda>candidates.
     io_check (one_gpu candidates)))"

definition inspect_published_packages ::
  "('w, 'v, 'h) driver_platform \<Rightarrow> 'v exact_gpu \<Rightarrow> ('w, adapter_failure, 'v published_driver_package list) io" where
  "inspect_published_packages P target =
     io_bind (driver_bindings P) (\<lambda>bindings. io_check (packages_for bindings target))"

definition windows_driver_inspection :: "('w, 'v, 'h) driver_platform \<Rightarrow> ('w, 'v) inspection_adapter" where
  "windows_driver_inspection P =
     \<lparr>ia_inspect_exact_gpu = inspect_exact_gpu P, ia_inspect_published_packages = inspect_published_packages P\<rparr>"

text \<open>\<open>from_bindings\<close> of \<open>cleanup_observation.rs\<close>.\<close>

definition cleanup_from_bindings ::
  "(pci_device_class \<times> 'v pci_device_binding) list
     \<Rightarrow> ('v pci_device_binding \<times> 'v pci_device_binding list, adapter_failure) result" where
  "cleanup_from_bindings bindings =
     and_then (display_identities [] bindings) (\<lambda>identities.
     and_then (one_gpu identities) (\<lambda>target.
     let installed = sort_key (\<lambda>b. to_ascii_uppercase (instance_id b))
           (map snd (filter (\<lambda>(c, b). c = Display \<and> exact_gpu_of b = Ok target) bindings)) in
     case installed of
       [b] \<Rightarrow> Ok (b, installed)
     | _ \<Rightarrow> Err (AdapterFailure ''inspect GPU'' ''P1:18 requires one canonical display PnP binding'')))"

definition inspect_driver_cleanup_preparation ::
  "('w, 'v, 'h) driver_platform
     \<Rightarrow> ('w, adapter_failure, 'v pci_device_binding \<times> 'v pci_device_binding list) io" where
  "inspect_driver_cleanup_preparation P =
     io_bind (driver_bindings P) (\<lambda>bindings.
     io_bind (io_check (cleanup_from_bindings bindings)) (\<lambda>(target, installed).
     io_bind (io_check (exact_gpu_of target)) (\<lambda>gpu.
     io_bind (io_check (packages_for bindings gpu)) (\<lambda>_.
     io_ret (target, installed)))))"

section \<open>Safe Mode and PnPUtil\<close>

definition windows_safe_mode_inspection :: "('w, 'v, 'h) driver_platform \<Rightarrow> ('w, 'v) safe_mode_adapter" where
  "windows_safe_mode_inspection P =
     \<lparr>observe_safe_mode = (\<lambda>target.
        io_bind (io_call (clean_boot P)) (\<lambda>boot.
        io_bind (crate_timestamp P) (\<lambda>now.
        io_bind (io_call (tick_count P)) (\<lambda>ticks.
        io_ret \<lparr>sm_target_gpu = target,
                sm_state = (if boot = 0 then SafeModeNotDetected else SafeModeConfirmed),
                sm_observed_at_utc = now, boot_session_id = ''boot-ticks-'' @ dec (unat ticks)\<rparr>))))\<rparr>"

definition pnputil_path :: "path \<Rightarrow> (path, adapter_failure) result" where
  "pnputil_path system32 =
     (if \<not> is_absolute system32
         \<or> (case last system32 of Normal n \<Rightarrow> \<not> eq_ignore_ascii_case n ''System32'' | _ \<Rightarrow> True)
      then Err (AdapterFailure ''resolve PnPUtil'' ''trusted System32 path is not absolute'')
      else Ok (join_names system32 [''pnputil.exe'']))"

definition pnputil_argv :: "string \<Rightarrow> string list" where
  "pnputil_argv name = [''/delete-driver'', name, ''/uninstall'', ''/force'']"

definition pnputil_remove ::
  "('w, 'v, 'h) driver_platform \<Rightarrow> 'v exact_gpu \<Rightarrow> string \<Rightarrow> ('w, adapter_failure, removal_outcome) io" where
  "pnputil_remove P target name =
     io_bind (system_directory P) (\<lambda>system32.
     io_bind (io_check (pnputil_path system32)) (\<lambda>executable.
     io_bind (run_tool P executable (pnputil_argv name)) (\<lambda>exit_code.
     io_bind (crate_timestamp P) (\<lambda>now.
     io_ret \<lparr>out_published_name = name,
             out_disposition =
               (if exit_code = Some 0 then PackageRemoved
                else PackageRemovalFailed ''PnPUtil returned a nonzero or unavailable exit status''),
             out_observed_at_utc = now\<rparr>))))"

definition pnputil_driver_removal :: "('w, 'v, 'h) driver_platform \<Rightarrow> ('w, 'v) package_execution" where
  "pnputil_driver_removal P =
     \<lparr>remove_published_package = pnputil_remove P, pe_inspect_published_packages = inspect_published_packages P\<rparr>"

definition native_driver_clock :: "('w, 'v, 'h) driver_platform \<Rightarrow> 'w execution_clock" where
  "native_driver_clock P = \<lparr>current_utc = trusted_current_utc P\<rparr>"


section \<open>The policy on NVIDIA artifacts\<close>

definition NVIDIA_SUBJECT :: string where
  "NVIDIA_SUBJECT = ''CN=NVIDIA Corporation''"

definition MAX_NVIDIA_ARTIFACT_BYTES :: nat where
  "MAX_NVIDIA_ARTIFACT_BYTES = 2 * 1024 * 1024 * 1024"

definition DRIVER_ARTIFACTS_LEAF :: string where
  "DRIVER_ARTIFACTS_LEAF = ''driver-artifacts''"

definition NVIDIA_SIGNER_SHA256 :: "string list" where
  "NVIDIA_SIGNER_SHA256 = [''28af76241322f210da473d9569eff6f27124c4ca9f43933da547e8d068b0a95d'']"

definition MAX_NVIDIA_AUTHORIZATION_SECONDS :: int where
  "MAX_NVIDIA_AUTHORIZATION_SECONDS = 24 * 60 * 60"

datatype (plugins only: code size) nvidia_artifact_location =
    Official string
  | LocalLeaf string

text \<open>
  \<open>Path::components().count() == 1\<close>, for a text without a verbatim prefix: empty parts and all but a
  leading \<open>.\<close> are no components, a root is one, and so is a drive before more text.
\<close>

definition single_component :: "string \<Rightarrow> bool" where
  "single_component s \<longleftrightarrow>
     (let sep = (\<lambda>c. c = CHR ''/'' \<or> c = CHR 0x5C);
          names = filter (\<lambda>n. n \<noteq> []) (split_on sep s) in
      (if s \<noteq> [] \<and> sep (hd s) then filter (\<lambda>n. n \<noteq> ''.'') names = []
       else if 2 < length s \<and> s ! 1 = CHR '':'' \<and> (is_ascii_lowercase (hd s) \<or> is_ascii_uppercase (hd s)) then False
       else (case names of [] \<Rightarrow> False | n # ns \<Rightarrow> list_all (\<lambda>n. n = ''.'') ns)))"

text \<open>The only host is \<open>international.download.nvidia.com\<close>, so its test never fails.\<close>

definition location_validate ::
  "nvidia_artifact_location \<Rightarrow> 'v artifact_locator \<Rightarrow> (unit, adapter_failure) result" where
  "location_validate l locator =
     (let rejected = Err (AdapterFailure ''acquire NVIDIA artifact''
            ''artifact location violates the NVIDIA source policy'') in
      case l of
        Official path \<Rightarrow>
          if starts_with ''/'' path \<and> \<not> list_ex (\<lambda>c. c = CHR 0x5C \<or> c = CHR ''?'' \<or> c = CHR ''#'') path
             \<and> ends_in (artifact_file_name locator) path
          then Ok () else rejected
      | LocalLeaf leaf \<Rightarrow>
          if leaf = artifact_file_name locator \<and> single_component leaf then Ok () else rejected)"

record 'h verified_artifact =
  va_protected_leaf :: string
  va_length :: u64
  va_payload_sha256 :: string
  va_retained :: "'h option"

definition artifact_revalidate ::
  "('w, 'v, 'h) driver_platform \<Rightarrow> 'h verified_artifact \<Rightarrow> ('w, adapter_failure, unit) io" where
  "artifact_revalidate P a =
     (case va_retained a of
        Some h \<Rightarrow> retained_revalidate P h (va_payload_sha256 a) (va_length a)
      | None \<Rightarrow> io_fail (AdapterFailure ''revalidate artifact'' ''test-only artifact has no Windows file capability''))"

definition artifact_validate_descriptor ::
  "('w, 'v, 'h) driver_platform \<Rightarrow> 'h verified_artifact \<Rightarrow> 'v signed_artifact_descriptor
     \<Rightarrow> ('w, adapter_failure, unit) io" where
  "artifact_validate_descriptor P a d =
     (if va_protected_leaf a \<noteq> DRIVER_ARTIFACTS_LEAF @ ''/'' @ artifact_file_name (art_locator d)
         \<or> va_payload_sha256 a \<noteq> art_payload_sha256 d
      then io_fail (AdapterFailure ''install NVIDIA artifact'' ''artifact capability does not match descriptor'')
      else artifact_revalidate P a)"

text \<open>The check against \<open>i64\<close> overflow cannot fire below the year 10000; \<open>None\<close> is a panic.\<close>

definition authorization_expiry_after :: "string \<Rightarrow> (string, adapter_failure) result option" where
  "authorization_expiry_after authorized_at =
     (case parse_utc_seconds authorized_at of
        Err e \<Rightarrow> Some (Err e)
      | Ok authorized \<Rightarrow>
          if authorized + MAX_NVIDIA_AUTHORIZATION_SECONDS < 2 ^ 63
          then format_utc_seconds (authorized + MAX_NVIDIA_AUTHORIZATION_SECONDS)
          else Some (Err (AdapterFailure ''authorize NVIDIA artifact'' ''authorization expiry overflow'')))"

definition validate_bounded_nvidia_authorization ::
  "'v artifact_authorization \<Rightarrow> 'v signed_artifact_descriptor \<Rightarrow> string \<Rightarrow> (unit, adapter_failure) result" where
  "validate_bounded_nvidia_authorization a artifact now_utc =
     (if authz_schema_version a \<noteq> DRIVER_SCHEMA_VERSION
      then Err (authorize_failure ''authorization schema is unsupported'')
      else
        and_then (map_err (\<lambda>e. authorize_failure (validation_error_text e))
          (artifact_identity_validate_matches (authz_artifact a) artifact)) (\<lambda>_.
        and_then (parse_utc_seconds (authorized_at_utc a)) (\<lambda>authorized.
        and_then (parse_utc_seconds (expires_at_utc a)) (\<lambda>expires.
        and_then (parse_utc_seconds now_utc) (\<lambda>now.
        if authorized > now \<or> expires < now \<or> expires \<le> authorized
           \<or> expires - authorized > MAX_NVIDIA_AUTHORIZATION_SECONDS
        then Err (authorize_failure ''authorization is expired, not yet valid, or exceeds the 24-hour limit'')
        else Ok ())))))"

definition accepts_compiled_nvidia_policy :: "string \<Rightarrow> string \<Rightarrow> bool" where
  "accepts_compiled_nvidia_policy subject thumbprint \<longleftrightarrow>
     subject = NVIDIA_SUBJECT \<and> to_ascii_lowercase thumbprint \<in> set NVIDIA_SIGNER_SHA256"

definition verify_nvidia_signature_against_policy ::
  "('w, 'v, 'h) driver_platform \<Rightarrow> 'h verified_artifact \<Rightarrow> 'v signed_artifact_descriptor \<Rightarrow> string
     \<Rightarrow> ('w, adapter_failure, 'v authenticode_evidence) io" where
  "verify_nvidia_signature_against_policy P capability artifact observed_at_utc =
     io_bind (verify_nvidia_signature P (va_retained capability)) (\<lambda>(subject, thumbprint).
     if \<not> accepts_compiled_nvidia_policy subject thumbprint
     then io_fail (AdapterFailure ''install NVIDIA artifact'' ''fresh WinVerifyTrust signer violates exact NVIDIA policy'')
     else
       io_bind (io_check (map_err (\<lambda>e. AdapterFailure ''verify NVIDIA artifact'' (validation_error_text e))
         (sha256_digest_parse (to_ascii_lowercase thumbprint)))) (\<lambda>digest.
       if subject \<noteq> signer_subject (art_authenticode artifact)
          \<or> digest \<noteq> signer_thumbprint_sha256 (art_authenticode artifact)
       then io_fail (AdapterFailure ''install NVIDIA artifact''
         ''fresh WinVerifyTrust signer does not match acquisition evidence'')
       else io_ret \<lparr>auth_status = SignatureValid, signer_subject = subject, signer_thumbprint_sha256 = digest,
                    auth_observed_at_utc = observed_at_utc, auth_extensions = fmempty\<rparr>))"

section \<open>Acquisition and installation\<close>

definition acquire_verified ::
  "('w, 'v, 'h) driver_platform
     \<Rightarrow> (nvidia_artifact_location \<Rightarrow> string \<Rightarrow> nat \<Rightarrow> ('w, adapter_failure, 'h verified_artifact) io)
     \<Rightarrow> nvidia_artifact_location \<Rightarrow> 'v artifact_locator \<Rightarrow> 'v exact_gpu
     \<Rightarrow> ('w, adapter_failure, 'h verified_artifact \<times> 'v signed_artifact_descriptor) io" where
  "acquire_verified P acquire location locator target =
     io_bind (failing ''acquire NVIDIA artifact'' (locator_validate locator)) (\<lambda>_.
     if gpu_vendor_of target \<noteq> Nvidia
     then io_fail (AdapterFailure ''acquire driver''
       ''AMD and Intel installation are unsupported without a signed artifact policy'')
     else
       io_bind (io_check (location_validate location locator)) (\<lambda>_.
       let protected_leaf = DRIVER_ARTIFACTS_LEAF @ ''/'' @ artifact_file_name locator in
       io_bind (acquire location protected_leaf MAX_NVIDIA_ARTIFACT_BYTES) (\<lambda>artifact.
       if va_protected_leaf artifact \<noteq> protected_leaf \<or> va_length artifact = 0
          \<or> unat (va_length artifact) > MAX_NVIDIA_ARTIFACT_BYTES
       then io_fail (AdapterFailure ''acquire NVIDIA artifact'' ''artifact length is outside the bounded policy'')
       else
         io_bind (verify_nvidia_signature P (va_retained artifact)) (\<lambda>(subject, thumbprint).
         if \<not> accepts_compiled_nvidia_policy subject thumbprint
         then io_fail (AdapterFailure ''acquire NVIDIA artifact'' ''WinVerifyTrust signer violates exact NVIDIA policy'')
         else
           io_bind (failing ''verify NVIDIA artifact'' (sha256_digest_parse (to_ascii_lowercase thumbprint))) (\<lambda>signer.
           io_bind (trusted_current_utc P) (\<lambda>now.
           let descriptor =
             \<lparr>art_locator = locator, art_target_gpu = target, art_payload_sha256 = va_payload_sha256 artifact,
              art_authenticode =
                \<lparr>auth_status = SignatureValid, signer_subject = subject, signer_thumbprint_sha256 = signer,
                 auth_observed_at_utc = now, auth_extensions = fmempty\<rparr>,
              art_extensions = fmempty\<rparr> in
           io_bind (artifact_revalidate P artifact) (\<lambda>_. io_ret (artifact, descriptor))))))))"

definition install_descriptor ::
  "('w, 'v, 'h) driver_platform \<Rightarrow> 'h verified_artifact \<Rightarrow> 'v signed_artifact_descriptor
     \<Rightarrow> 'v artifact_authorization \<Rightarrow> string
     \<Rightarrow> ('w, adapter_failure, installed_artifact_observation \<times> 'v authenticode_evidence) io" where
  "install_descriptor P capability artifact authorization now_utc =
     io_bind (failing ''install NVIDIA artifact'' (artifact_validate_for artifact (art_target_gpu artifact))) (\<lambda>_.
     if gpu_vendor_of (art_target_gpu artifact) \<noteq> Nvidia
        \<or> signer_subject (art_authenticode artifact) \<noteq> NVIDIA_SUBJECT
     then io_fail (AdapterFailure ''install driver''
       ''AMD and Intel installation are unsupported without a signed artifact policy'')
     else
       io_bind (io_check (validate_bounded_nvidia_authorization authorization artifact now_utc)) (\<lambda>_.
       io_bind (artifact_validate_descriptor P capability artifact) (\<lambda>_.
       io_bind (verify_nvidia_signature_against_policy P capability artifact now_utc) (\<lambda>fresh.
       io_bind (launch_retained P (va_retained capability) [''-s'', ''-noreboot'']) (\<lambda>exit_code.
       if exit_code \<noteq> Some 0
       then io_fail (AdapterFailure ''install NVIDIA artifact''
         ''NVIDIA installer returned a nonzero or unavailable exit status'')
       else
         io_bind (failing ''install NVIDIA artifact'' (artifact_identity_from_descriptor artifact)) (\<lambda>identity.
         io_ret (\<lparr>inst_artifact = identity, inst_observed_at_utc = now_utc\<rparr>, fresh)))))))"

definition install_and_reinspect ::
  "('w, 'v, 'h) driver_platform \<Rightarrow> 'h verified_artifact \<Rightarrow> 'v signed_artifact_descriptor
     \<Rightarrow> 'v artifact_authorization \<Rightarrow> string
     \<Rightarrow> ('w, adapter_failure,
          installed_artifact_observation \<times> 'v published_driver_package list \<times> 'v authenticode_evidence) io" where
  "install_and_reinspect P capability artifact authorization now_utc =
     io_bind (install_descriptor P capability artifact authorization now_utc) (\<lambda>(installed, fresh).
     io_bind (inspect_published_packages P (art_target_gpu artifact)) (\<lambda>packages.
     if packages = []
     then io_fail (AdapterFailure ''install NVIDIA artifact''
       ''post-install SetupAPI inventory contains no target-GPU package'')
     else io_ret (installed, packages, fresh)))"

end
