(* ===== verification/Driver_Transaction.thy ===== *)
theory Driver_Transaction
  imports Driver_Native
begin

text \<open>
  The durable driver transaction (\<open>crates/frametime-windows/src/driver/transaction.rs\<close>) and the three
  operations on it (\<open>transaction_backend.rs\<close>): preparing it, removing the captured packages in Safe Mode,
  installing the authorized artifact.  The properties bound the authority of an authorization, say what a
  removal may touch, and show that the native removal never gets past its own evidence.
\<close>

section \<open>The record\<close>

definition DRIVER_TRANSACTION_SCHEMA :: u32 where
  "DRIVER_TRANSACTION_SCHEMA = 1"

record 'v driver_transaction =
  dt_schema_version :: u32
  dt_plan :: "'v dry_run_driver_plan"
  dt_artifact :: "'v signed_artifact_descriptor"
  dt_authorization :: "'v artifact_authorization"
  dt_capture :: "'v driver_execution_capture option"
  dt_removal :: "'v removal_evidence option"
  dt_installation :: "'v installation_evidence option"

definition as_text :: "('a, validation_error) result \<Rightarrow> ('a, string) result" where
  "as_text r = map_err validation_error_text r"

definition adapter_failure_text :: "adapter_failure \<Rightarrow> string" where
  "adapter_failure_text e = ''adapter '' @ failed_operation e @ '' failed: '' @ failure_reason e"

definition transaction_prepared ::
  "'v dry_run_driver_plan \<Rightarrow> 'v signed_artifact_descriptor \<Rightarrow> 'v artifact_authorization
     \<Rightarrow> ('v driver_transaction, string) result" where
  "transaction_prepared plan artifact authorization =
     and_then (as_text (plan_validate plan)) (\<lambda>_.
     and_then (as_text (artifact_validate_for artifact (plan_target_gpu plan))) (\<lambda>_.
     if authz_plan_sha256 authorization \<noteq> plan_input_sha256 plan
        \<or> authz_target_gpu authorization \<noteq> plan_target_gpu plan
     then Err ''driver authorization does not bind the prepared plan''
     else Ok \<lparr>dt_schema_version = DRIVER_TRANSACTION_SCHEMA, dt_plan = plan, dt_artifact = artifact,
              dt_authorization = authorization, dt_capture = None, dt_removal = None, dt_installation = None\<rparr>))"

definition transaction_validate ::
  "'v driver_codec \<Rightarrow> 'v driver_transaction \<Rightarrow> string \<Rightarrow> u64 \<Rightarrow> (unit, string) result" where
  "transaction_validate K t now_utc freshness =
     (if dt_schema_version t \<noteq> DRIVER_TRANSACTION_SCHEMA then Err ''driver transaction schema is unsupported''
      else
        and_then (transaction_prepared (dt_plan t) (dt_artifact t) (dt_authorization t)) (\<lambda>expected.
        if dt_plan expected \<noteq> dt_plan t \<or> dt_artifact expected \<noteq> dt_artifact t
        then Err ''driver transaction preparation is incoherent''
        else
          and_then
            (case dt_capture t of
               None \<Rightarrow> Ok ()
             | Some c \<Rightarrow> as_text (driver_capture_validate_at K c (dt_plan t) freshness now_utc)) (\<lambda>_.
          and_then
            (case dt_removal t of
               None \<Rightarrow> Ok ()
             | Some r \<Rightarrow>
                 and_then (as_text (removal_evidence_validate_at K r (dt_plan t) freshness now_utc)) (\<lambda>_.
                 if dt_capture t \<noteq> Some (rem_capture r) then Err ''driver removal is not bound to retained capture''
                 else Ok ())) (\<lambda>_.
          case dt_installation t of
            None \<Rightarrow> Ok ()
          | Some i \<Rightarrow>
              and_then (ok_or ''driver installation lacks retained capture'' (dt_capture t)) (\<lambda>c.
              and_then (as_text (installation_validate_for_plan_at K i (dt_plan t) c (dt_artifact t) freshness now_utc)) (\<lambda>_.
              if ins_authorization i \<noteq> dt_authorization t
              then Err ''driver installation is not bound to retained authorization''
              else Ok ()))))))"

definition removal_complete :: "'v driver_transaction \<Rightarrow> bool" where
  "removal_complete t \<longleftrightarrow> dt_removal t \<noteq> None"

section \<open>The durable file\<close>

text \<open>
  The trusted working directory: acquiring it at its fixed path and again by path, the lock that is held to the end of the operation, whether
  the file is there, and the atomic write and the read of \<open>driver-transaction.json\<close>.
\<close>

record ('w, 'v) driver_storage =
  ds_acquire_fixed :: "('w, string, unit) io"
  ds_acquire :: "('w, string, unit) io"
  ds_lock :: "('w, string, unit) io"
  ds_exists :: "'w \<Rightarrow> bool \<times> 'w"
  ds_write :: "'v driver_transaction \<Rightarrow> ('w, string, unit) io"
  ds_read :: "('w, string, 'v driver_transaction) io"

definition validate_now ::
  "'v driver_codec \<Rightarrow> ('w, 'v, 'h) driver_platform \<Rightarrow> 'v driver_transaction \<Rightarrow> ('w, string, unit) io" where
  "validate_now K P t =
     io_bind (crate_timestamp P) (\<lambda>now. io_check (transaction_validate K t now 86400))"

definition persist_driver_transaction ::
  "'v driver_codec \<Rightarrow> ('w, 'v, 'h) driver_platform \<Rightarrow> ('w, 'v) driver_storage \<Rightarrow> 'v driver_transaction
     \<Rightarrow> ('w, string, 'v driver_transaction) io" where
  "persist_driver_transaction K P S t =
     io_bind (ds_acquire S) (\<lambda>_.
     io_bind (ds_lock S) (\<lambda>_.
     io_bind (validate_now K P t) (\<lambda>_.
     io_bind (io_map_err (\<lambda>e. ''persist driver transaction: '' @ e) (ds_write S t)) (\<lambda>_.
     io_bind (io_map_err (\<lambda>e. ''read back driver transaction: '' @ e) (ds_read S)) (\<lambda>persisted.
     io_bind (validate_now K P persisted) (\<lambda>_.
     if persisted \<noteq> t then io_fail ''driver transaction readback verification failed''
     else io_ret persisted))))))"

definition load_driver_transaction_at ::
  "'v driver_codec \<Rightarrow> ('w, 'v, 'h) driver_platform \<Rightarrow> ('w, 'v) driver_storage
     \<Rightarrow> ('w, string, 'v driver_transaction option) io" where
  "load_driver_transaction_at K P S =
     io_bind (ds_acquire S) (\<lambda>_.
     io_bind (io_call (ds_exists S)) (\<lambda>there.
     if \<not> there then io_ret None
     else
       io_bind (io_map_err (\<lambda>e. ''read driver transaction: '' @ e) (ds_read S)) (\<lambda>t.
       io_bind (validate_now K P t) (\<lambda>_. io_ret (Some t)))))"

section \<open>The operations\<close>

definition adapted :: "('w, adapter_failure, 'a) io \<Rightarrow> ('w, string, 'a) io" where
  "adapted m = io_map_err adapter_failure_text m"

text \<open>A panic of the formatter, which cannot happen, would end the process; it has an error of its own here.\<close>

definition expiry_or_panic :: "string \<Rightarrow> (string, string) result" where
  "expiry_or_panic v =
     (case authorization_expiry_after v of None \<Rightarrow> Err ''panic'' | Some r \<Rightarrow> map_err adapter_failure_text r)"

definition planned_packages :: "'v dry_run_driver_plan \<Rightarrow> 'v published_driver_package list option" where
  "planned_packages plan =
     (case plan_entries plan of
        _ # e # _ \<Rightarrow> (case entry_action e of RecordExactPackages packages \<Rightarrow> Some packages | _ \<Rightarrow> None)
      | _ \<Rightarrow> None)"

definition prepare_nvidia_driver ::
  "'v driver_codec \<Rightarrow> ('w, 'v, 'h) driver_platform \<Rightarrow> ('w, 'v) driver_storage
     \<Rightarrow> ('w, adapter_failure, nvidia_artifact_location \<Rightarrow> string \<Rightarrow> nat \<Rightarrow> ('w, adapter_failure, 'h verified_artifact) io) io
     \<Rightarrow> string \<Rightarrow> string \<Rightarrow> string \<Rightarrow> ('w, string, 'v driver_transaction) io" where
  "prepare_nvidia_driver K P S artifact_store id_text file_name server_path =
     (let locator = \<lparr>artifact_id = id_text, artifact_file_name = file_name, loc_extensions = fmempty\<rparr> in
      io_bind (io_check (as_text (locator_validate locator))) (\<lambda>_.
      io_bind (adapted (inspect_exact_gpu P)) (\<lambda>target_gpu.
      if gpu_vendor_of target_gpu \<noteq> Nvidia then io_fail ''prepare-nvidia requires one exact active NVIDIA GPU''
      else
        io_bind (adapted (inspect_published_packages P target_gpu)) (\<lambda>packages.
        if packages = [] then io_fail ''prepare-nvidia requires exact existing NVIDIA package evidence''
        else
          io_bind (adapted artifact_store) (\<lambda>acquire.
          io_bind (adapted (acquire_verified P acquire (Official server_path) locator target_gpu)) (\<lambda>(_, artifact).
          io_bind (io_check (as_text (generate_dry_run_plan K
            \<lparr>input_target_gpu = target_gpu, installed_packages = packages, input_artifact = artifact,
             input_extensions = fmempty\<rparr>))) (\<lambda>plan.
          io_bind (io_check (ok_or ''prepared plan lacks exact package record'' (planned_packages plan))) (\<lambda>recorded.
          io_bind (io_check (as_text (package_set_from_unsorted target_gpu recorded))) (\<lambda>package_set.
          io_bind (io_check (as_text (package_set_fingerprint K package_set))) (\<lambda>package_set_sha256.
          io_bind (trusted_current_utc P) (\<lambda>now.
          io_bind (io_check (as_text (artifact_identity_from_descriptor artifact))) (\<lambda>identity.
          io_bind (io_check (expiry_or_panic now)) (\<lambda>expires.
          let authorization =
            \<lparr>authz_schema_version = DRIVER_SCHEMA_VERSION, authorization_id = ''nvidia-'' @ artifact_id locator,
             authz_plan_sha256 = plan_input_sha256 plan, authz_target_gpu = target_gpu,
             authz_package_set_sha256 = package_set_sha256, authz_artifact = identity,
             authorized_at_utc = now, expires_at_utc = expires\<rparr> in
          io_bind (io_check (transaction_prepared plan artifact authorization)) (\<lambda>t.
          io_bind (ds_acquire_fixed S) (\<lambda>_.
          persist_driver_transaction K P S t)))))))))))))))"

definition validate_driver_authorization ::
  "'v driver_transaction \<Rightarrow> 'v driver_execution_capture \<Rightarrow> string \<Rightarrow> (unit, string) result" where
  "validate_driver_authorization t capture now_utc =
     and_then (as_text (authorization_validate_at (dt_authorization t) capture (dt_artifact t) now_utc)) (\<lambda>_.
     map_err adapter_failure_text
       (validate_bounded_nvidia_authorization (dt_authorization t) (dt_artifact t) now_utc))"

definition remove_prepared_nvidia_driver ::
  "'v driver_codec \<Rightarrow> ('w, 'v, 'h) driver_platform \<Rightarrow> ('w, 'v) driver_storage
     \<Rightarrow> ('w, string, 'v driver_transaction) io" where
  "remove_prepared_nvidia_driver K P S =
     io_bind (ds_acquire_fixed S) (\<lambda>_.
     io_bind (load_driver_transaction_at K P S) (\<lambda>loaded.
     io_bind (io_check (ok_or ''P2:2 requires durable P1:18/P1:19 NVIDIA transaction evidence'' loaded)) (\<lambda>t.
     if dt_removal t \<noteq> None then io_ret t
     else
       io_bind (adapted (capture_driver_execution K (dt_plan t) (windows_safe_mode_inspection P)
         (pnputil_driver_removal P) (native_driver_clock P) 900)) (\<lambda>capture.
       io_bind (trusted_current_utc P) (\<lambda>now.
       io_bind (io_check (validate_driver_authorization t capture now)) (\<lambda>_.
       io_bind (adapted (remove_captured_packages K (dt_plan t) capture (pnputil_driver_removal P)
         (native_driver_clock P) 900)) (\<lambda>evidence.
       persist_driver_transaction K P S (t\<lparr>dt_capture := Some capture, dt_removal := Some evidence\<rparr>))))))))"

definition install_prepared_nvidia_driver ::
  "'v driver_codec \<Rightarrow> ('w, 'v, 'h) driver_platform \<Rightarrow> ('w, 'v) driver_storage
     \<Rightarrow> ('w, adapter_failure, nvidia_artifact_location \<Rightarrow> string \<Rightarrow> nat \<Rightarrow> ('w, adapter_failure, 'h verified_artifact) io) io
     \<Rightarrow> ('w, string, 'v driver_transaction) io" where
  "install_prepared_nvidia_driver K P S artifact_store =
     io_bind (ds_acquire_fixed S) (\<lambda>_.
     io_bind (load_driver_transaction_at K P S) (\<lambda>loaded.
     io_bind (io_check (ok_or ''P3:1 requires durable P1:18/P1:19 NVIDIA transaction evidence'' loaded)) (\<lambda>t.
     if dt_installation t \<noteq> None then io_ret t
     else
       io_bind (io_check (ok_or ''P3:1 requires retained P2:2 capture'' (dt_capture t))) (\<lambda>capture.
       if \<not> removal_complete t then io_fail ''P3:1 requires coherent P2:2 removal evidence''
       else
         io_bind (trusted_current_utc P) (\<lambda>now.
         io_bind (io_check (validate_driver_authorization t capture now)) (\<lambda>_.
         io_bind (adapted artifact_store) (\<lambda>acquire.
         let leaf = artifact_file_name (art_locator (dt_artifact t)) in
         io_bind (adapted (acquire (LocalLeaf leaf) (DRIVER_ARTIFACTS_LEAF @ ''/'' @ leaf) MAX_NVIDIA_ARTIFACT_BYTES))
           (\<lambda>capability.
         io_bind (trusted_current_utc P) (\<lambda>pre_launch.
         io_bind (adapted (install_and_reinspect P capability (dt_artifact t) (dt_authorization t) pre_launch))
           (\<lambda>(installed, packages, fresh).
         io_bind (io_check (as_text (package_set_from_unsorted (plan_target_gpu (dt_plan t)) packages))) (\<lambda>post.
         io_bind (trusted_current_utc P) (\<lambda>observed.
         let installation =
           \<lparr>ins_authorization = dt_authorization t, fresh_authenticode = fresh, installed_artifact = installed,
            post_install_packages = post, ins_observed_at_utc = observed\<rparr> in
         io_bind (trusted_current_utc P) (\<lambda>now'.
         io_bind (io_check (as_text (installation_validate_for_plan_at K installation (dt_plan t) capture
           (dt_artifact t) 86400 now'))) (\<lambda>_.
         persist_driver_transaction K P S (t\<lparr>dt_installation := Some installation\<rparr>)))))))))))))))"


section \<open>The local time is no evidence\<close>

lemma zero_pad_digits: "list_all is_ascii_digit (zero_pad w v)"
  by (auto simp: zero_pad_def list_all_iff is_ascii_digit_def [of "CHR ''0''"] byte_def dec_digits)

lemma zero_pad_length: "w \<le> length (zero_pad w v)"
  by (simp add: zero_pad_def)

lemma separator_after_digits:
  assumes "list_all is_ascii_digit a" and "n \<le> length a" and "(a @ c # s) ! n = x" and "\<not> is_ascii_digit x"
  shows "length a = n \<and> c = x"
proof (cases "n < length a")
  case True
  then have "is_ascii_digit x" using assms(1,3) by (auto simp: nth_append list_all_length)
  with assms(4) show ?thesis by simp
qed (use assms(2,3) in simp)

lemma blank_is_no_separator: "\<not> is_ascii_digit (CHR ''-'')" "\<not> is_ascii_digit (CHR ''T'')"
  by (simp_all add: is_ascii_digit_def byte_def)

lemma blank_in_date:
  assumes "list_all is_ascii_digit a" "4 \<le> length a" "list_all is_ascii_digit b" "2 \<le> length b"
    "list_all is_ascii_digit d" "2 \<le> length d"
  shows "\<not> utc_shape (a @ CHR ''-'' # b @ CHR ''-'' # d @ CHR '' '' # r)"
proof
  let ?s = "a @ CHR ''-'' # b @ CHR ''-'' # d @ CHR '' '' # r"
  assume "utc_shape ?s"
  then have u: "?s ! 4 = CHR ''-''" "?s ! 7 = CHR ''-''" "?s ! 10 = CHR ''T''" by (simp_all add: utc_shape_def)
  have a: "length a = 4" using separator_after_digits [OF assms(1,2) u(1)] blank_is_no_separator by simp
  have "(b @ CHR ''-'' # d @ CHR '' '' # r) ! 2 = CHR ''-''" using u(2) a by (simp add: nth_append)
  then have b: "length b = 2" using separator_after_digits [OF assms(3,4)] blank_is_no_separator by blast
  have "(d @ CHR '' '' # r) ! 2 = CHR ''T''" using u(3) a b by (simp add: nth_append)
  then have "CHR '' '' = CHR ''T''" using separator_after_digits [OF assms(5,6)] blank_is_no_separator by blast
  then show False by simp
qed

lemma local_timestamp_is_not_utc: "\<not> utc_shape (local_timestamp c)"
proof -
  define r where "r = zero_pad 2 (int (cf_hour c)) @ '':'' @ zero_pad 2 (int (cf_minute c)) @ '':'' @ zero_pad 2 (int (cf_second c))"
  have "local_timestamp c = zero_pad 4 (int (cf_year c)) @ CHR ''-'' # zero_pad 2 (int (cf_month c)) @ CHR ''-''
      # zero_pad 2 (int (cf_day c)) @ CHR '' '' # r"
    by (simp add: local_timestamp_def r_def)
  then show ?thesis using blank_in_date zero_pad_digits zero_pad_length by simp
qed

lemma local_timestamp_never: "\<not> utc (local_timestamp c) t"
  using local_timestamp_is_not_utc by (auto simp: utc_def timestamp_def)

lemma crate_timestamp_Ok: "crate_timestamp P w = (Ok v, w') \<Longrightarrow> \<exists>c. v = local_timestamp c"
  by (auto simp: crate_timestamp_def io_Ok)

lemma as_text_Ok [guard_simps]: "as_text r = Ok x \<longleftrightarrow> r = Ok x"
  by (cases r) (simp_all add: as_text_def)

lemma adapted_Ok [io_Ok]: "adapted m w = (Ok x, w') \<longleftrightarrow> m w = (Ok x, w')"
  by (simp add: adapted_def io_Ok)

text \<open>A transaction with a capture never passes the check at the local time.\<close>

lemma loaded_without_capture:
  assumes "validate_now K P t w = (Ok u, w')"
  shows "dt_capture t = None \<and> dt_removal t = None \<and> dt_installation t = None"
proof -
  obtain c where v: "transaction_validate K t (local_timestamp c) 86400 = Ok u"
    using assms by (auto simp: validate_now_def io_Ok dest: crate_timestamp_Ok)
  have "driver_capture_validate_at K q (dt_plan t) 86400 (local_timestamp c) \<noteq> Ok x" for q x
    by (simp add: driver_capture_Ok validate_age_at_Ok local_timestamp_never)
  then show ?thesis
    using v by (auto simp: transaction_validate_def guard_simps removal_evidence_Ok ok_or_def split: option.splits if_splits)
qed

lemma load_Some:
  "load_driver_transaction_at K P S w = (Ok (Some t), w') \<Longrightarrow>
     dt_capture t = None \<and> dt_removal t = None \<and> dt_installation t = None"
  by (auto simp: load_driver_transaction_at_def io_Ok dest: loaded_without_capture split: if_splits)

lemma native_capture_never:
  "capture_driver_execution K plan (windows_safe_mode_inspection P) packages clock freshness w \<noteq> (Ok c, w')"
proof
  assume run: "capture_driver_execution K plan (windows_safe_mode_inspection P) packages clock freshness w = (Ok c, w')"
  then obtain o' w1 w2 where o: "observe_safe_mode (windows_safe_mode_inspection P) (plan_target_gpu plan) w1 = (Ok o', w2)"
    and c: "cap_safe_mode c = o'"
    by (auto simp: capture_driver_execution_def io_Ok Let_def)
  obtain t where "sm_observed_at_utc o' = local_timestamp t"
    using o by (auto simp: windows_safe_mode_inspection_def io_Ok dest!: crate_timestamp_Ok)
  moreover obtain s where "utc (sm_observed_at_utc o') s"
    using capture_driver_execution_Ok [OF run] c by (auto simp: driver_capture_Ok)
  ultimately show False using local_timestamp_never by simp
qed

text \<open>
  C10: The native driver removal of P2:2 and the native installation of P3:1 never succeed, whatever the
  machine answers: the evidence is stamped with, and the stored transaction checked at, the local time in a
  format that the evidence does not accept, so neither a capture nor a transaction that has one is ever valid.
\<close>

theorem native_driver_phases_never_succeed:
  "\<not> is_ok (fst (remove_prepared_nvidia_driver K P S w))
   \<and> \<not> is_ok (fst (install_prepared_nvidia_driver K P S artifact_store w))"
proof -
  have "remove_prepared_nvidia_driver K P S w \<noteq> (Ok t, w')" for t w'
    by (auto simp: remove_prepared_nvidia_driver_def io_Ok ok_or_def native_capture_never
        dest: load_Some split: option.splits if_splits)
  moreover have "install_prepared_nvidia_driver K P S artifact_store w \<noteq> (Ok t, w')" for t w'
    by (auto simp: install_prepared_nvidia_driver_def io_Ok ok_or_def Let_def
        dest: load_Some split: option.splits if_splits)
  ultimately show ?thesis by (metis is_ok_iff prod.collapse)
qed


section \<open>The authority of an authorization\<close>

lemma utc_parse: "utc v t \<Longrightarrow> parse_utc_seconds v = Ok t"
proof -
  assume u: "utc v t"
  then obtain y m d h mi s where "Utc_Time.fields v y m d h mi s" using timestamp_shape unfolding utc_def by blast
  then show ?thesis using timestamp_parse u unfolding utc_def by blast
qed

text \<open>
  C30: A mutation is authorized only between the authorization and its expiry, at most a day apart, for
  the very plan, device and package set of the capture and the very artifact that was signed.
\<close>

theorem driver_authorization_is_bounded:
  assumes "validate_driver_authorization t c now = Ok ()"
  shows "\<exists>authorized expires n. utc (authorized_at_utc (dt_authorization t)) authorized
      \<and> utc (expires_at_utc (dt_authorization t)) expires \<and> utc now n
      \<and> authorized \<le> n \<and> n \<le> expires \<and> expires - authorized \<le> 24 * 60 * 60
      \<and> authz_plan_sha256 (dt_authorization t) = cap_plan_sha256 c
      \<and> authz_target_gpu (dt_authorization t) = cap_target_gpu c
      \<and> authz_package_set_sha256 (dt_authorization t) = cap_package_set_sha256 c
      \<and> artifact_identity_from_descriptor (dt_artifact t) = Ok (authz_artifact (dt_authorization t))"
proof -
  have a: "authorization_validate_at (dt_authorization t) c (dt_artifact t) now = Ok ()"
    and b: "validate_bounded_nvidia_authorization (dt_authorization t) (dt_artifact t) now = Ok ()"
    using assms by (auto simp: validate_driver_authorization_def guard_simps)
  obtain authorized expires n where u: "utc (authorized_at_utc (dt_authorization t)) authorized"
    "utc (expires_at_utc (dt_authorization t)) expires" "utc now n" "authorized \<le> n" "n \<le> expires"
    using a by (auto simp: authorization_Ok)
  have "expires - authorized \<le> 24 * 60 * 60"
    using b utc_parse [OF u(1)] utc_parse [OF u(2)] utc_parse [OF u(3)]
    by (auto simp: validate_bounded_nvidia_authorization_def guard_simps MAX_NVIDIA_AUTHORIZATION_SECONDS_def
        split: if_splits)
  then show ?thesis using a u by (auto simp: authorization_Ok)
qed

lemma utc_range:
  assumes "utc v t"
  shows "0 \<le> t" and "t < UTC_BOUND"
proof -
  obtain y m d h mi s where c: "valid_date y m d" "valid_time h mi s" "t = calendar_seconds y m d h mi s"
    using assms unfolding utc_def timestamp_Ok by blast
  then obtain l where l: "days_in_month y m = Some l" "d \<le> l" "1 \<le> y" "y \<le> 9999" "1 \<le> d"
    by (auto simp: valid_date_def split: option.splits)
  note m = days_in_month_Some [OF l(1)]
  have pos: "0 \<le> the (days_in_month y k)" if "k \<in> {1..<13}" for k
    using that days_in_month_None [of y k] days_in_month_Some [of y k] by (cases "days_in_month y k") auto
  have "month_days_before y m + l = month_days_before y (m + 1)"
    using month_days_step [of m y] m l(1) by simp
  also have "\<dots> \<le> month_days_before y 13"
    unfolding month_days_before_def using m pos by (intro sum_mono2) auto
  finally have before: "month_days_before y m + l \<le> days_in_year y" by (simp add: month_days_13)
  have first: "0 \<le> month_days_before y m"
    unfolding month_days_before_def using m pos by (intro sum_nonneg) auto
  have "year_days y + days_in_year y \<le> 3652059"
    using year_days_step [of y] year_days_mono [of "y + 1" 10000] year_days_10000 l(3,4) by simp
  moreover have "0 \<le> year_days y" using year_days_mono [of 1 y] year_days_1 l(3) by simp
  ultimately have days: "0 \<le> year_days y + month_days_before y m + (d - 1)"
    "year_days y + month_days_before y m + (d - 1) < 3652059"
    using before first l by simp_all
  have time: "0 \<le> h * 3600 + mi * 60 + s" "h * 3600 + mi * 60 + s < 86400"
    using c(2) by (auto simp: valid_time_def)
  have "t = (year_days y + month_days_before y m + (d - 1)) * 86400 + (h * 3600 + mi * 60 + s)"
    using c(3) by (simp add: calendar_seconds_def)
  then show "0 \<le> t" "t < UTC_BOUND" using days time by (simp_all add: UTC_BOUND_def)
qed

text \<open>
  C32: The expiry written into an authorization is the text of the instant one day later; computing it
  never panics, and fails only where the day after leaves the four-digit years.
\<close>

theorem authorization_lasts_one_day:
  assumes "utc v t"
  shows "if t + 24 * 60 * 60 < UTC_BOUND
     then \<exists>e. authorization_expiry_after v = Some (Ok e) \<and> utc e (t + 24 * 60 * 60)
     else \<exists>e. authorization_expiry_after v = Some (Err e)"
proof -
  have "authorization_expiry_after v = format_utc_seconds (t + 24 * 60 * 60)"
    using utc_parse [OF assms] utc_range [OF assms]
    by (simp add: authorization_expiry_after_def MAX_NVIDIA_AUTHORIZATION_SECONDS_def UTC_BOUND_def)
  moreover obtain r where "format_utc_seconds (t + 24 * 60 * 60) = Some r"
    and "case r of Ok e \<Rightarrow> 0 \<le> t + 24 * 60 * 60 \<and> t + 24 * 60 * 60 < UTC_BOUND \<and> utc e (t + 24 * 60 * 60)
      | Err e \<Rightarrow> t + 24 * 60 * 60 < 0 \<or> UTC_BOUND \<le> t + 24 * 60 * 60"
    using format_utc_seconds_result [of "t + 24 * 60 * 60" "''utc''"] unfolding utc_def by blast
  ultimately show ?thesis using utc_range(1) [OF assms] by (cases r) auto
qed

lemma authorization_lasts_one_day_witness:
  "\<exists>t e. utc ''2024-02-28T12:00:00Z'' t \<and> authorization_expiry_after ''2024-02-28T12:00:00Z'' = Some (Ok e)
     \<and> utc e (t + 24 * 60 * 60)"
proof -
  have t: "utc ''2024-02-28T12:00:00Z'' 63844718400" by code_simp
  show ?thesis
    using authorization_lasts_one_day [OF t] t by (auto simp: UTC_BOUND_def)
qed

end
