(* ===== verification/Call_Log.thy ===== *)
theory Call_Log
  imports Driver_Native
begin

text \<open>
  A log beside a world: any record of calls can be wrapped so that a run also leaves the list of what was
  asked and answered.  The relation \<open>adds A\<close> says that a run only appended entries of \<open>A\<close>.
\<close>

definition beside :: "('w, 'e, 'a) io \<Rightarrow> ('w \<times> 'l list, 'e, 'a) io" where
  "beside m w = (case m (fst w) of (r, v) \<Rightarrow> (r, (v, snd w)))"

definition beside_call :: "('w \<Rightarrow> 'a \<times> 'w) \<Rightarrow> 'w \<times> 'l list \<Rightarrow> 'a \<times> ('w \<times> 'l list)" where
  "beside_call f w = (case f (fst w) of (x, v) \<Rightarrow> (x, (v, snd w)))"

text \<open>A call that is logged before it is made, whatever becomes of it.\<close>

definition asking :: "'l \<Rightarrow> ('w, 'e, 'a) io \<Rightarrow> ('w \<times> 'l list, 'e, 'a) io" where
  "asking x m w = beside m (fst w, snd w @ [x])"

text \<open>A call whose answer is logged when there is one.\<close>

definition answering :: "('a \<Rightarrow> 'l) \<Rightarrow> ('w, 'e, 'a) io \<Rightarrow> ('w \<times> 'l list, 'e, 'a) io" where
  "answering f m w =
     (case m (fst w) of
        (Ok x, v) \<Rightarrow> (Ok x, (v, snd w @ [f x]))
      | (Err e, v) \<Rightarrow> (Err e, (v, snd w)))"

definition adds :: "'l set \<Rightarrow> 'w \<times> 'l list \<Rightarrow> 'w \<times> 'l list \<Rightarrow> bool" where
  "adds A w w' \<longleftrightarrow> (\<exists>more. snd w' = snd w @ more \<and> set more \<subseteq> A)"

lemma adds_order [io_within_intros]: "reflp (adds A)" "transp (adds A)"
proof -
  show "reflp (adds A)" by (rule reflpI) (simp add: adds_def)
  show "transp (adds A)" by (rule transpI) (force simp: adds_def)
qed

lemma beside_adds [io_within_intros]: "io_within (adds A) (beside m)"
  by (auto simp: io_within_def beside_def adds_def split: prod.split)

lemma beside_call_adds [io_within_intros]: "io_within (adds A) (io_call (beside_call f))"
  by (auto simp: io_within_def io_call_def beside_call_def adds_def split: prod.split)

lemma asking_adds: "x \<in> A \<Longrightarrow> io_within (adds A) (asking x m)"
  by (auto simp: io_within_def asking_def beside_def adds_def split: prod.split)

lemma answering_adds: "(\<And>x. f x \<in> A) \<Longrightarrow> io_within (adds A) (answering f m)"
  by (auto simp: io_within_def answering_def adds_def split: prod.split result.split)

lemma answering_Ok: "answering f m w = (Ok x, w') \<Longrightarrow> f x \<in> set (snd w')"
  by (auto simp: answering_def split: prod.splits result.splits)

lemma adds_mem: "adds A w w' \<Longrightarrow> x \<in> set (snd w) \<Longrightarrow> x \<in> set (snd w')"
  by (auto simp: adds_def)

lemma adds_back: "adds A w w' \<Longrightarrow> x \<in> set (snd w') \<Longrightarrow> x \<notin> A \<Longrightarrow> x \<in> set (snd w)"
  by (auto simp: adds_def)

end
