(* ===== verification/Driver_Safety.thy ===== *)
theory Driver_Safety
  imports Driver_Transaction Call_Log
begin

text \<open>
  The properties of the driver plan and of the removal: the plan does not depend on the order in which
  Windows lists the packages, a removal runs the removal tool on captured names only, and a removal that
  is reported left none of the captured packages behind.
\<close>

section \<open>The plan\<close>

text \<open>
  C31: The dry-run plan, its digest included, does not depend on the order in which the installed packages
  were listed.
\<close>

theorem driver_plan_ignores_package_order:
  assumes "mset ps = mset (installed_packages i)"
    and "generate_dry_run_plan K i = Ok plan"
  shows "generate_dry_run_plan K (i\<lparr>installed_packages := ps\<rparr>) = Ok plan"
proof -
  let ?j = "i\<lparr>installed_packages := ps\<rparr>"
  have valid: "plan_input_validate i = Ok ()" using assms(2) by (auto simp: generate_dry_run_plan_def guard_simps)
  then have "plan_input_validate ?j = Ok ()"
    using plan_input_validate_permuted [of ?j i] assms(1) by simp
  moreover have "sort_key pkg_published_name ps = sort_key pkg_published_name (installed_packages i)"
    using sort_key_permuted [of "installed_packages i" ps pkg_published_name] assms(1) valid
    by (simp add: plan_input_validate_Ok)
  ultimately show ?thesis using assms(2) valid by (simp add: generate_dry_run_plan_def Let_def)
qed

section \<open>What a removal runs\<close>

text \<open>
  Any platform with a log of what its system directory answered and of every child process it was asked to
  start: the tools and the retained installer.
\<close>

datatype (plugins only: code size) child_event =
    SystemDirectoryIs path
  | ToolStarted path "string list"
  | InstallerStarted "string list"

definition logged :: "('w, 'v, 'h) driver_platform \<Rightarrow> ('w \<times> child_event list, 'v, 'h) driver_platform" where
  "logged P =
     \<lparr>setup_api = beside (setup_api P), clean_boot = beside_call (clean_boot P),
      tick_count = beside_call (tick_count P), local_clock = beside_call (local_clock P),
      system_clock = beside_call (system_clock P),
      system_directory = answering SystemDirectoryIs (system_directory P),
      run_tool = (\<lambda>exe argv. asking (ToolStarted exe argv) (run_tool P exe argv)),
      retained_revalidate = (\<lambda>h d n. beside (retained_revalidate P h d n)),
      verify_nvidia_signature = (\<lambda>h. beside (verify_nvidia_signature P h)),
      launch_retained = (\<lambda>h argv. asking (InstallerStarted argv) (launch_retained P h argv))\<rparr>"

lemmas logged_simps = logged_def driver_platform.simps

text \<open>
  A log in which every child process is a run of \<open>pnputil.exe\<close> in the directory that the platform gave
  immediately before as the system directory, and deletes one of the packages \<open>N\<close>.
\<close>

fun deletes_only :: "string set \<Rightarrow> child_event list \<Rightarrow> bool" where
  "deletes_only N [] \<longleftrightarrow> True"
| "deletes_only N (SystemDirectoryIs system32 # ToolStarted exe argv # rest) \<longleftrightarrow>
     pnputil_path system32 = Ok exe \<and> (\<exists>name\<in>N. argv = pnputil_argv name) \<and> deletes_only N rest"
| "deletes_only N (SystemDirectoryIs system32 # rest) \<longleftrightarrow> deletes_only N rest"
| "deletes_only N (ToolStarted exe argv # rest) \<longleftrightarrow> False"
| "deletes_only N (InstallerStarted argv # rest) \<longleftrightarrow> False"

lemma deletes_only_directory: "deletes_only N ys \<Longrightarrow> deletes_only N (SystemDirectoryIs system32 # ys)"
proof (cases ys)
  case (Cons e es)
  then show "deletes_only N ys \<Longrightarrow> ?thesis" by (cases e) auto
qed simp

lemma deletes_only_append: "deletes_only N xs \<Longrightarrow> deletes_only N ys \<Longrightarrow> deletes_only N (xs @ ys)"
  by (induction N xs rule: deletes_only.induct) (auto intro: deletes_only_directory)

definition only_deletes :: "string set \<Rightarrow> 'w \<times> child_event list \<Rightarrow> 'w \<times> child_event list \<Rightarrow> bool" where
  "only_deletes N w w' \<longleftrightarrow> (\<exists>more. snd w' = snd w @ more \<and> deletes_only N more)"

lemma only_deletes_order: "reflp (only_deletes N)" "transp (only_deletes N)"
proof -
  show "reflp (only_deletes N)" by (rule reflpI) (simp add: only_deletes_def)
  show "transp (only_deletes N)" by (rule transpI) (force simp: only_deletes_def deletes_only_append)
qed

lemma unlogged_only_deletes: "io_within (adds {}) m \<Longrightarrow> io_within (only_deletes N) m"
  by (fastforce simp: io_within_def adds_def only_deletes_def)

lemma pnputil_only_deletes:
  assumes "name \<in> N"
  shows "io_within (only_deletes N) (pnputil_remove (logged P) gpu name)"
  using assms
  by (auto simp: io_within_def only_deletes_def pnputil_remove_def crate_timestamp_def logged_def answering_def asking_def
      beside_def beside_call_def io_bind_def io_check_def io_call_def io_ret_def io_fail_def
      split: prod.splits result.splits if_splits)

text \<open>
  C29: During a removal the native platform starts no child process, neither a tool nor the retained installer,
  except \<open>pnputil.exe\<close> in the directory it had just answered as its system directory, and each time only to
  delete one of the packages of the capture.
\<close>

theorem removal_runs_pnputil_on_captured_names:
  "\<exists>more. snd (snd (remove_captured_packages K plan c (pnputil_driver_removal (logged P))
       (native_driver_clock (logged P)) freshness (w, earlier))) = earlier @ more
     \<and> deletes_only (package_set_names (cap_installed_packages c)) more"
proof -
  let ?R = "only_deletes (package_set_names (cap_installed_packages c))"
  have clock: "io_within ?R (current_utc (native_driver_clock (logged P)))"
    unfolding native_driver_clock_def execution_clock.simps trusted_current_utc_def logged_simps
    by (rule unlogged_only_deletes) (intro io_within_intros)
  have inspect: "io_within ?R (pe_inspect_published_packages (pnputil_driver_removal (logged P)) gpu)" for gpu
    unfolding pnputil_driver_removal_def package_execution.simps inspect_published_packages_def driver_bindings_def
      enumerate_present_status_ok_pci_def logged_simps
    by (rule unlogged_only_deletes) (intro io_within_intros)
  have remove: "io_within ?R (remove_published_package (pnputil_driver_removal (logged P)) gpu name)"
    if "name \<in> package_set_names (cap_installed_packages c)" for gpu name
    unfolding pnputil_driver_removal_def package_execution.simps by (rule pnputil_only_deletes [OF that])
  have "io_within ?R (remove_captured_packages K plan c (pnputil_driver_removal (logged P))
       (native_driver_clock (logged P)) freshness)"
    by (rule remove_captured_packages_within [OF only_deletes_order clock inspect remove])
  then show ?thesis by (auto simp: io_within_def only_deletes_def)
qed

section \<open>What an evidence of removal means\<close>

text \<open>
  C28: A removal that is reported, by any adapters, was complete: every captured package has exactly one
  outcome and that is its removal, the captured packages are those of the plan, and none of them is among
  the packages found afterwards.
\<close>

theorem reported_removal_is_complete:
  assumes "remove_captured_packages K plan c packages clock freshness w = (Ok r, w')"
  shows "rem_capture r = c
     \<and> out_published_name ` set (rem_outcomes r) = package_set_names (cap_installed_packages c)
     \<and> distinct (map out_published_name (rem_outcomes r))
     \<and> list_all (\<lambda>x. out_disposition x = PackageRemoved) (rem_outcomes r)
     \<and> planned_names plan = Ok (package_set_names (cap_installed_packages c))
     \<and> package_set_names (cap_installed_packages c) \<inter> package_set_names (post_removal_packages r) = {}"
proof -
  obtain now where v: "removal_evidence_validate_at K r plan freshness now = Ok ()" and c: "rem_capture r = c"
    using remove_captured_packages_Ok [OF assms] by blast
  then have names: "out_published_name ` set (rem_outcomes r) = package_set_names (cap_installed_packages c)"
    "length (rem_outcomes r) = card (package_set_names (cap_installed_packages c))"
    by (auto simp: removal_evidence_Ok)
  have "card (set (map out_published_name (rem_outcomes r))) = length (map out_published_name (rem_outcomes r))"
    using names by simp
  then have "distinct (map out_published_name (rem_outcomes r))" by (rule card_distinct)
  then show ?thesis
    using v c names by (auto simp: removal_evidence_Ok driver_capture_Ok outcome_validate_Ok list_all_iff)
qed


section \<open>A concrete removal\<close>

definition sample_exact_gpu :: "unit exact_gpu" where
  "sample_exact_gpu = exact_gpu_new Nvidia 0x2684 0x1043 0x88bd 0xa1"

definition sample_package :: "string \<Rightarrow> unit published_driver_package" where
  "sample_package name = \<lparr>pkg_target_gpu = sample_exact_gpu, pkg_published_name = name, original_inf_name = name,
     provider_name = ''NVIDIA'', driver_version_text = ''32.0'', pkg_extensions = fmempty\<rparr>"

definition sample_artifact :: "unit signed_artifact_descriptor" where
  "sample_artifact = \<lparr>art_locator = \<lparr>artifact_id = ''a1'', artifact_file_name = ''setup.exe'', loc_extensions = fmempty\<rparr>,
     art_target_gpu = sample_exact_gpu, art_payload_sha256 = replicate 64 CHR ''0'',
     art_authenticode = \<lparr>auth_status = SignatureValid, signer_subject = NVIDIA_SUBJECT,
       signer_thumbprint_sha256 = replicate 64 CHR ''0'', auth_observed_at_utc = ''2024-02-28T12:00:00Z'',
       auth_extensions = fmempty\<rparr>, art_extensions = fmempty\<rparr>"

definition sample_codec :: "unit driver_codec" where
  "sample_codec = \<lparr>plan_input_to_vec = (\<lambda>_. Some []), package_set_to_vec = (\<lambda>_. Some []),
     driver_sha256_hex = (\<lambda>_. replicate 64 CHR ''0'')\<rparr>"

definition sample_input :: "unit driver_plan_input" where
  "sample_input = \<lparr>input_target_gpu = sample_exact_gpu,
     installed_packages = [sample_package ''oem2.inf'', sample_package ''oem1.inf''],
     input_artifact = sample_artifact, input_extensions = fmempty\<rparr>"

definition sample_plan :: "unit dry_run_driver_plan" where
  "sample_plan = (case generate_dry_run_plan sample_codec sample_input of Ok p \<Rightarrow> p)"

lemma sample_package_valid:
  "package_validate_for (sample_package ''oem1.inf'') sample_exact_gpu = Ok ()"
  "package_validate_for (sample_package ''oem2.inf'') sample_exact_gpu = Ok ()"
proof -
  have t: "(validate_leaf ''oem1.inf'' f = Ok ())
      \<and> (validate_leaf ''oem2.inf'' f = Ok ())
      \<and> (ends_in ''.inf'' ''oem1.inf'')
      \<and> (ends_in ''.inf'' ''oem2.inf'')
      \<and> (Driver_Model.require_text ''NVIDIA'' f = Ok ())
      \<and> (Driver_Model.require_text ''32.0'' f = Ok ())" for f
    by code_simp
  show "package_validate_for (sample_package ''oem1.inf'') sample_exact_gpu = Ok ()"
    "package_validate_for (sample_package ''oem2.inf'') sample_exact_gpu = Ok ()"
    by (simp_all add: package_validate_for_def sample_package_def t gpu_validate_def sample_exact_gpu_def exact_gpu_new_def)
qed

lemma sample_artifact_texts:
  "validate_token ''a1'' f = Ok ()" "validate_leaf ''setup.exe'' f = Ok ()"
  "Driver_Model.require_text NVIDIA_SUBJECT f = Ok ()" "Driver_Model.require_text ''2024-02-28T12:00:00Z'' f = Ok ()"
proof -
  have "validate_token ''a1'' f = Ok () \<and> validate_leaf ''setup.exe'' f = Ok ()
      \<and> Driver_Model.require_text NVIDIA_SUBJECT f = Ok () \<and> Driver_Model.require_text ''2024-02-28T12:00:00Z'' f = Ok ()"
    by code_simp
  then show "validate_token ''a1'' f = Ok ()" "validate_leaf ''setup.exe'' f = Ok ()"
      "Driver_Model.require_text NVIDIA_SUBJECT f = Ok ()" "Driver_Model.require_text ''2024-02-28T12:00:00Z'' f = Ok ()"
    by simp_all
qed

lemma sample_artifact_valid: "artifact_validate_for sample_artifact sample_exact_gpu = Ok ()"
proof -
  note t = sample_artifact_texts
  show ?thesis
    by (simp add: artifact_validate_for_def sample_artifact_def locator_validate_def t authenticode_validate_def)
      (simp add: gpu_validate_def sample_exact_gpu_def exact_gpu_new_def)
qed

lemma sample_leaf_order: "''oem1.inf'' < ''oem2.inf''"
  by (simp add: less_list_code less_char_def)

lemma sample_sorted:
  "sort_key pkg_published_name [sample_package ''oem2.inf'', sample_package ''oem1.inf''] =
     [sample_package ''oem1.inf'', sample_package ''oem2.inf'']"
  using sample_leaf_order by (simp add: sample_package_def)

lemma sample_plan_generated: "generate_dry_run_plan sample_codec sample_input = Ok sample_plan"
proof -
  have valid: "plan_input_validate sample_input = Ok ()"
    using sample_package_valid sample_artifact_valid
    by (simp add: plan_input_validate_Ok sample_input_def) (simp add: sample_package_def gpu_validate_def sample_exact_gpu_def exact_gpu_new_def)
  have digest: "sha256_digest_parse (replicate 64 CHR ''0'') = Ok (replicate 64 CHR ''0'')" by code_simp
  have "is_ok (generate_dry_run_plan sample_codec sample_input)"
    by (simp add: generate_dry_run_plan_def valid sample_codec_def ok_or_def digest Let_def)
  then show ?thesis by (auto simp: is_ok_iff sample_plan_def)
qed

lemma driver_plan_ignores_package_order_witness:
  "generate_dry_run_plan sample_codec (sample_input\<lparr>installed_packages :=
     [sample_package ''oem1.inf'', sample_package ''oem2.inf'']\<rparr>) = Ok sample_plan"
  by (rule driver_plan_ignores_package_order [OF _ sample_plan_generated]) (simp add: sample_input_def)


definition sample_digest :: string where
  "sample_digest = replicate 64 CHR ''0''"

definition sample_time :: string where
  "sample_time = ''2024-02-28T12:00:00Z''"

lemma sample_time_utc: "utc sample_time 63844718400" by code_simp

lemma sample_plan_is:
  "sample_plan = \<lparr>plan_schema_version = DRIVER_SCHEMA_VERSION, plan_read_only = True,
     plan_target_gpu = sample_exact_gpu, plan_input_sha256 = sample_digest,
     plan_entries =
       [\<lparr>entry_step = P1_18, entry_action = InspectExactGpu sample_exact_gpu, entry_extensions = fmempty\<rparr>,
        \<lparr>entry_step = P1_19, entry_action = RecordExactPackages [sample_package ''oem1.inf'', sample_package ''oem2.inf''],
         entry_extensions = fmempty\<rparr>,
        \<lparr>entry_step = P2_2, entry_action = ProposePackageCleanup [''oem1.inf'', ''oem2.inf''], entry_extensions = fmempty\<rparr>,
        \<lparr>entry_step = P3_1, entry_action = ProposeSignedArtifactInstall sample_artifact, entry_extensions = fmempty\<rparr>],
     plan_extensions = fmempty\<rparr>"
proof -
  have digest: "sha256_digest_parse (replicate 64 CHR ''0'') = Ok (replicate 64 CHR ''0'')" by code_simp
  have names: "map pkg_published_name [sample_package ''oem1.inf'', sample_package ''oem2.inf''] = [''oem1.inf'', ''oem2.inf'']"
    by (simp add: sample_package_def)
  have sorted: "sort_key pkg_published_name (installed_packages sample_input) =
      [sample_package ''oem1.inf'', sample_package ''oem2.inf'']"
    using sample_sorted by (simp add: sample_input_def)
  have "generate_dry_run_plan sample_codec sample_input = Ok sample_plan" by (rule sample_plan_generated)
  then show ?thesis
    by (simp only: generate_dry_run_plan_def sorted names Let_def)
      (auto simp: guard_simps sample_codec_def ok_or_def digest sample_input_def sample_digest_def)
qed

definition sample_set :: "string list \<Rightarrow> unit canonical_package_set" where
  "sample_set names = \<lparr>set_target_gpu = sample_exact_gpu, set_packages = map sample_package names\<rparr>"

definition sample_driver_capture :: "unit driver_execution_capture" where
  "sample_driver_capture = \<lparr>cap_schema_version = DRIVER_SCHEMA_VERSION, cap_plan_sha256 = sample_digest,
     cap_target_gpu = sample_exact_gpu,
     cap_safe_mode = \<lparr>sm_target_gpu = sample_exact_gpu, sm_state = SafeModeConfirmed,
       sm_observed_at_utc = sample_time, boot_session_id = ''b''\<rparr>,
     cap_installed_packages = sample_set [''oem1.inf'', ''oem2.inf''],
     cap_package_set_sha256 = sample_digest, cap_captured_at_utc = sample_time\<rparr>"

lemma sample_exact_gpu_valid: "gpu_validate sample_exact_gpu = Ok ()"
  by (simp add: gpu_validate_def sample_exact_gpu_def exact_gpu_new_def)

lemma sample_set_valid:
  "package_set_validate (sample_set [''oem1.inf'', ''oem2.inf'']) = Ok ()" "package_set_validate (sample_set []) = Ok ()"
  "package_set_names (sample_set [''oem1.inf'', ''oem2.inf'']) = {''oem1.inf'', ''oem2.inf''}"
  "package_set_names (sample_set []) = {}"
  using sample_package_valid sample_exact_gpu_valid sample_leaf_order
  by (simp_all add: package_set_validate_Ok sample_set_def package_set_names_def) (simp_all add: sample_package_def)

lemma sample_capture_valid:
  "driver_capture_validate_at sample_codec sample_driver_capture sample_plan 900 sample_time = Ok ()"
proof -
  have digest: "sha256_digest_parse sample_digest = Ok sample_digest" by code_simp
  have plan: "plan_validate sample_plan = Ok ()" "plan_target_gpu sample_plan = sample_exact_gpu"
    "plan_input_sha256 sample_plan = sample_digest" "planned_names sample_plan = Ok {''oem1.inf'', ''oem2.inf''}"
    using sample_exact_gpu_valid by (simp_all add: sample_plan_is plan_validate_def planned_names_def)
      (simp add: sample_package_def)
  have "package_set_fingerprint sample_codec (sample_set [''oem1.inf'', ''oem2.inf'']) = Ok sample_digest"
    using sample_set_valid(1) digest
    by (simp add: package_set_fingerprint_def sample_codec_def ok_or_def sample_digest_def)
  moreover have "safe_mode_validate (cap_safe_mode sample_driver_capture) = Ok ()"
  proof -
    have "evidence_text ''b'' ''bootSessionId'' = Ok ()" by code_simp
    then show ?thesis
      using sample_time_utc sample_exact_gpu_valid by (auto simp: safe_mode_validate_Ok sample_driver_capture_def)
  qed
  moreover have "validate_age_at 900 sample_time sample_time = Ok ()" "(0::int) \<le> age_bound 900"
    by (simp_all add: validate_age_at_Ok age_bound_def) (intro exI conjI, (rule sample_time_utc)+, simp_all)
  moreover have "cap_schema_version sample_driver_capture = DRIVER_SCHEMA_VERSION"
    "cap_plan_sha256 sample_driver_capture = sample_digest" "cap_target_gpu sample_driver_capture = sample_exact_gpu"
    "cap_installed_packages sample_driver_capture = sample_set [''oem1.inf'', ''oem2.inf'']"
    "cap_package_set_sha256 sample_driver_capture = sample_digest" "cap_captured_at_utc sample_driver_capture = sample_time"
    "sm_target_gpu (cap_safe_mode sample_driver_capture) = sample_exact_gpu"
    "sm_state (cap_safe_mode sample_driver_capture) = SafeModeConfirmed"
    "sm_observed_at_utc (cap_safe_mode sample_driver_capture) = sample_time"
    "set_target_gpu (sample_set names) = sample_exact_gpu" for names
    by (simp_all add: sample_driver_capture_def sample_set_def)
  ultimately show ?thesis
    using plan sample_set_valid(1,3)
    by (simp add: driver_capture_Ok) (intro exI conjI, (rule sample_time_utc)+, simp_all)
qed

text \<open>Adapters over a machine that is the list of the installed names.\<close>

definition sample_execution :: "(string list, unit) package_execution" where
  "sample_execution = \<lparr>remove_published_package = (\<lambda>gpu name installed.
       (Ok \<lparr>out_published_name = name, out_disposition = PackageRemoved, out_observed_at_utc = sample_time\<rparr>,
        filter (\<lambda>n. n \<noteq> name) installed)),
     pe_inspect_published_packages = (\<lambda>gpu installed. (Ok (map sample_package installed), installed))\<rparr>"

definition sample_clock :: "string list execution_clock" where
  "sample_clock = \<lparr>current_utc = (\<lambda>w. (Ok sample_time, w))\<rparr>"

definition sample_evidence :: "unit removal_evidence" where
  "sample_evidence = \<lparr>rem_capture = sample_driver_capture,
     rem_outcomes = map (\<lambda>n. \<lparr>out_published_name = n, out_disposition = PackageRemoved, out_observed_at_utc = sample_time\<rparr>)
       [''oem1.inf'', ''oem2.inf''],
     post_removal_packages = sample_set [], rem_observed_at_utc = sample_time\<rparr>"

lemma sample_package_name: "pkg_published_name (sample_package n) = n"
  by (simp add: sample_package_def)

lemma sample_removal:
  "remove_captured_packages sample_codec sample_plan sample_driver_capture sample_execution sample_clock 900
     [''oem1.inf'', ''oem2.inf''] = (Ok sample_evidence, [])"
proof -
  have "package_set_from_unsorted sample_exact_gpu [] = Ok (sample_set [])"
    using sample_exact_gpu_valid by (simp add: package_set_from_unsorted_Ok sample_set_def)
  moreover have "removal_evidence_validate_at sample_codec sample_evidence sample_plan 900 sample_time = Ok ()"
  proof -
    have "cap_installed_packages sample_driver_capture = sample_set [''oem1.inf'', ''oem2.inf'']"
      "cap_target_gpu sample_driver_capture = sample_exact_gpu" "cap_captured_at_utc sample_driver_capture = sample_time"
      "set_target_gpu (sample_set []) = sample_exact_gpu"
      by (simp_all add: sample_driver_capture_def sample_set_def)
    then show ?thesis
      using sample_capture_valid sample_set_valid sample_time_utc
      by (auto simp: removal_evidence_Ok sample_evidence_def outcome_validate_Ok)
  qed
  ultimately show ?thesis
    using sample_capture_valid
    by (simp add: sample_package_name remove_captured_packages_def io_bind_def failing_def io_check_def io_ret_def Let_def
        sample_execution_def sample_clock_def sample_evidence_def
        sample_driver_capture_def [THEN arg_cong [where f = cap_target_gpu]]
        sample_driver_capture_def [THEN arg_cong [where f = cap_installed_packages]] sample_set_def)
qed

lemma reported_removal_is_complete_witness:
  "distinct (map out_published_name (rem_outcomes sample_evidence))
   \<and> package_set_names (cap_installed_packages (rem_capture sample_evidence)) = {''oem1.inf'', ''oem2.inf''}
   \<and> {''oem1.inf'', ''oem2.inf''} \<inter> package_set_names (post_removal_packages sample_evidence) = {}"
  using reported_removal_is_complete [OF sample_removal] sample_set_valid(3)
  by (simp add: sample_evidence_def sample_driver_capture_def)

section \<open>A concrete authorization\<close>

definition sample_transaction :: "unit driver_transaction" where
  "sample_transaction = \<lparr>dt_schema_version = DRIVER_TRANSACTION_SCHEMA, dt_plan = sample_plan,
     dt_artifact = sample_artifact,
     dt_authorization = \<lparr>authz_schema_version = DRIVER_SCHEMA_VERSION, authorization_id = ''n'',
       authz_plan_sha256 = sample_digest, authz_target_gpu = sample_exact_gpu,
       authz_package_set_sha256 = sample_digest,
       authz_artifact = \<lparr>id_artifact_id = ''a1'', id_artifact_file_name = ''setup.exe'', id_payload_sha256 = sample_digest,
         id_signer_thumbprint_sha256 = sample_digest\<rparr>,
       authorized_at_utc = sample_time, expires_at_utc = ''2024-02-29T12:00:00Z''\<rparr>,
     dt_capture = None, dt_removal = None, dt_installation = None\<rparr>"

lemma sample_artifact_identity:
  "artifact_identity_from_descriptor sample_artifact = Ok (authz_artifact (dt_authorization sample_transaction))"
proof -
  note t = sample_artifact_texts
  show ?thesis
    by (simp add: artifact_identity_from_descriptor_def sample_artifact_def locator_validate_def t
        authenticode_validate_def sample_transaction_def sample_digest_def)
qed

lemma sample_authorized: "validate_driver_authorization sample_transaction sample_driver_capture sample_time = Ok ()"
proof -
  let ?a = "dt_authorization sample_transaction"
  have expiry: "utc ''2024-02-29T12:00:00Z'' 63844804800" by code_simp
  have ident: "evidence_text ''n'' ''authorizationId'' = Ok ()" by code_simp
  have "authorization_validate_at ?a sample_driver_capture sample_artifact sample_time = Ok ()"
    unfolding authorization_Ok
  proof (intro conjI exI)
    show "utc (authorized_at_utc ?a) 63844718400" "utc (expires_at_utc ?a) 63844804800" "utc sample_time 63844718400"
      using sample_time_utc expiry by (simp_all add: sample_transaction_def)
    show "artifact_identity_from_descriptor sample_artifact = Ok (authz_artifact ?a)" by (rule sample_artifact_identity)
  qed (use ident sample_exact_gpu_valid in \<open>simp_all add: sample_transaction_def sample_driver_capture_def\<close>)
  moreover have "validate_bounded_nvidia_authorization ?a sample_artifact sample_time = Ok ()"
    using sample_artifact_identity utc_parse [OF sample_time_utc] utc_parse [OF expiry]
    by (simp add: validate_bounded_nvidia_authorization_def artifact_identity_validate_matches_def
        MAX_NVIDIA_AUTHORIZATION_SECONDS_def) (simp add: sample_transaction_def MAX_NVIDIA_AUTHORIZATION_SECONDS_def)
  ultimately show ?thesis
    by (simp add: validate_driver_authorization_def as_text_def) (simp add: sample_transaction_def as_text_def)
qed

lemma driver_authorization_is_bounded_witness:
  "authz_plan_sha256 (dt_authorization sample_transaction) = cap_plan_sha256 sample_driver_capture
   \<and> (\<exists>authorized expires. utc (authorized_at_utc (dt_authorization sample_transaction)) authorized
      \<and> utc (expires_at_utc (dt_authorization sample_transaction)) expires \<and> expires - authorized \<le> 24 * 60 * 60)"
  using driver_authorization_is_bounded [OF sample_authorized] by auto

end
