(* ===== verification/Samples.thy ===== *)
theory Samples
  imports Session
begin

text \<open>
  Concrete values on which the hypotheses of the later properties are shown to hold: an authorized
  reboot transaction at a chosen stage, a state that carries it, and progress with a chosen set of
  completed steps.
\<close>

lemma default_unresolved [simp]:
  "\<not> is_completed progress_default i" "\<not> is_skipped progress_default i"
  "\<not> has_advisory progress_default i"
  by (simp_all add: is_completed_def is_skipped_def has_advisory_def progress_default_def
      contains_key_def)

definition demo_state :: "reboot_stage \<Rightarrow> unit state" where
  "demo_state stage = state_default
     \<lparr>phase1_safe_mode_ready := True, active_reboot_transaction := Some (demo_transaction stage)\<rparr>"

text \<open>Progress in which the steps of a list are completed.\<close>

definition completed_progress :: "step list \<Rightarrow> unit progress" where
  "completed_progress steps = fold (\<lambda>st. complete_step (step_ident st) []) steps progress_default"

lemma completed_fold:
  "is_completed (fold (\<lambda>st. complete_step (step_ident st) ts) steps p) i
     \<longleftrightarrow> is_completed p i \<or> i \<in> step_ident ` set steps"
  "is_skipped (fold (\<lambda>st. complete_step (step_ident st) ts) steps p) i
     \<longleftrightarrow> is_skipped p i \<and> i \<notin> step_ident ` set steps"
  by (induction steps arbitrary: p) (auto simp: progress_simps)

lemma completed_progress_simps [simp]:
  "is_completed (completed_progress steps) i \<longleftrightarrow> i \<in> step_ident ` set steps"
  "\<not> is_skipped (completed_progress steps) i"
  by (simp_all add: completed_progress_def completed_fold)

end
