(* ===== verification/Benchmark.thy ===== *)
theory Benchmark
  imports Samples
begin

text \<open>
  The two benchmark commits (\<open>crates/frametime-domain/src/benchmark.rs\<close>): the baseline capture
  of P1:17 and the final capture of P3:13.  A commit is a coherent in-memory target for three
  files (history, state, progress) which the platform then writes in that order.  The lemmas
  show that what a commit prepares is accepted by the validator that reads the files back, and
  that a baseline retry from any crash prefix of the three writes reaches the same target.
\<close>

section \<open>History\<close>

definition MAX_BENCHMARK_HISTORY :: nat where
  "MAX_BENCHMARK_HISTORY = 200"

definition phase_three_engine_steps :: "step list" where
  "phase_three_engine_steps =
     filter (\<lambda>st. id_phase (step_ident st) = PhaseThree
        \<and> step_role st = RoleEngine
        \<and> step_ident st \<noteq> PHASE_THREE_DRIVER_INSTALL) STEPS"

definition validate_complete_capture :: "benchmark_capture \<Rightarrow> (unit, string) result" where
  "validate_complete_capture c =
     (if \<not> is_finite (average_fps c)
         \<or> f64_le (average_fps c) f64_zero
         \<or> \<not> is_finite (capture_p1_fps c)
         \<or> f64_le (capture_p1_fps c) f64_zero
         \<or> f64_lt (average_fps c) (capture_p1_fps c)
         \<or> capture_runs c = 0
      then Err ''baseline benchmark requires complete VProf Avg, P1, and runs''
      else Ok ())"

definition invalid_record :: "'v benchmark_record \<Rightarrow> bool" where
  "invalid_record r \<longleftrightarrow>
     \<not> is_finite (rec_avg_fps r)
     \<or> f64_lt (rec_avg_fps r) f64_zero
     \<or> \<not> is_finite (rec_p1_fps r)
     \<or> f64_lt (rec_p1_fps r) f64_zero
     \<or> rec_runs r = 0
     \<or> rec_label r = []
     \<or> \<not> valid_capture_timestamp (rec_timestamp r)"

definition validate_history :: "'v benchmark_record list \<Rightarrow> (unit, string) result" where
  "validate_history history =
     (if length history > MAX_BENCHMARK_HISTORY
      then Err ''benchmark history exceeds its retention limit''
      else if list_ex invalid_record history
      then Err ''benchmark history contains an invalid record''
      else Ok ())"

definition record_matches_capture :: "'v benchmark_record \<Rightarrow> benchmark_capture \<Rightarrow> bool" where
  "record_matches_capture r c \<longleftrightarrow>
     f64_eq (rec_avg_fps r) (average_fps c)
     \<and> f64_eq (rec_p1_fps r) (capture_p1_fps c)
     \<and> rec_runs r = capture_runs c
     \<and> rec_receipt_id r = None
     \<and> rec_transaction_id r = None"

text \<open>\<open>append_benchmark_record\<close>: the newest 200 records are retained.\<close>

definition append_benchmark_record ::
  "'v benchmark_record list \<Rightarrow> 'v benchmark_record \<Rightarrow> 'v benchmark_record list" where
  "append_benchmark_record history r =
     (let h = history @ [r] in
      if length h > MAX_BENCHMARK_HISTORY then drop (length h - MAX_BENCHMARK_HISTORY) h else h)"

definition decode_benchmark_history ::
  "'v json_access \<Rightarrow> ('v \<Rightarrow> 'v benchmark_record option) \<Rightarrow> 'v \<Rightarrow> 'v benchmark_record list" where
  "decode_benchmark_history J from_value value =
     (case as_array J value of
        Some records \<Rightarrow> List.map_filter from_value records
      | None \<Rightarrow>
          (case as_object J value of
             Some _ \<Rightarrow> (case from_value value of None \<Rightarrow> [] | Some r \<Rightarrow> [r])
           | None \<Rightarrow> []))"

section \<open>The baseline commit\<close>

record 'v baseline_commit =
  bc_state :: "'v state"
  bc_progress :: "'v progress"
  bc_history :: "'v benchmark_record list"
  bc_captured_utc :: string
  idempotent :: bool

definition persisted_baseline_record :: "'v state \<Rightarrow> f64 \<Rightarrow> 'v benchmark_record \<Rightarrow> bool" where
  "persisted_baseline_record s baseline_p1 r \<longleftrightarrow>
     rec_label r = BASELINE_BENCHMARK_LABEL
     \<and> f64_eq (rec_avg_fps r) (st_baseline_avg s)
     \<and> f64_eq (rec_p1_fps r) baseline_p1
     \<and> 0 < rec_runs r
     \<and> rec_receipt_id r = None
     \<and> rec_transaction_id r = None"

definition validate_persisted_baseline_benchmark ::
  "'v state \<Rightarrow> 'v progress \<Rightarrow> 'v benchmark_record list \<Rightarrow> ('v benchmark_record, string) result" where
  "validate_persisted_baseline_benchmark s p history =
     and_then (state_validate s) (\<lambda>_.
     and_then (validate_history history) (\<lambda>_.
     let baseline_p1 = unwrap_or f64_zero (st_baseline_p1 s) in
     if \<not> is_finite (st_baseline_avg s)
        \<or> f64_le (st_baseline_avg s) f64_zero
        \<or> \<not> is_finite baseline_p1
        \<or> f64_le baseline_p1 f64_zero
        \<or> f64_lt (st_baseline_avg s) baseline_p1
     then Err ''baseline state is incomplete or invalid''
     else if \<not> is_completed p PHASE_ONE_BASELINE_BENCHMARK
         \<or> is_skipped p PHASE_ONE_BASELINE_BENCHMARK
     then Err ''baseline benchmark progress is incomplete or skipped''
     else
     let matching = filter (persisted_baseline_record s baseline_p1) history in
     if length matching \<noteq> 1
        \<or> fmlookup (timestamps p) ''1-17'' \<noteq> Some (rec_timestamp (hd matching))
     then Err ''baseline state, history, and progress are not coherent''
     else Ok (hd matching)))"

text \<open>The target of a capture: what is written when the capture is accepted.\<close>

definition baseline_target ::
  "'v state \<Rightarrow> 'v progress \<Rightarrow> 'v benchmark_record list \<Rightarrow> string \<Rightarrow> benchmark_capture
   \<Rightarrow> 'v benchmark_record option \<Rightarrow> ('v baseline_commit, string) result" where
  "baseline_target s p history captured_utc capture existing =
     (let record_timestamp = (case existing of None \<Rightarrow> captured_utc | Some r \<Rightarrow> rec_timestamp r);
          next_state = s\<lparr>st_baseline_avg := average_fps capture,
                         st_baseline_p1 := Some (capture_p1_fps capture)\<rparr> in
      and_then (state_validate next_state) (\<lambda>_.
      Ok \<lparr>bc_state = next_state,
          bc_progress = complete_step PHASE_ONE_BASELINE_BENCHMARK record_timestamp p,
          bc_history =
            (case existing of
               None \<Rightarrow> append_benchmark_record history
                 \<lparr>rec_timestamp = record_timestamp, rec_avg_fps = average_fps capture,
                  rec_p1_fps = capture_p1_fps capture, rec_label = BASELINE_BENCHMARK_LABEL,
                  rec_runs = capture_runs capture, rec_receipt_id = None,
                  rec_transaction_id = None, rec_unknown = fmempty\<rparr>
             | Some _ \<Rightarrow> history),
          bc_captured_utc = record_timestamp,
          idempotent = False\<rparr>))"

definition prepare_baseline_benchmark_commit ::
  "'v state \<Rightarrow> 'v progress \<Rightarrow> 'v benchmark_record list \<Rightarrow> string \<Rightarrow> benchmark_capture
   \<Rightarrow> ('v baseline_commit, string) result" where
  "prepare_baseline_benchmark_commit s p history captured_utc capture =
     and_then (state_validate s) (\<lambda>_.
     and_then (validate_history history) (\<lambda>_.
     and_then (validate_complete_capture capture) (\<lambda>_.
     if \<not> valid_capture_timestamp captured_utc then Err ''baseline benchmark timestamp is invalid''
     else if is_skipped p PHASE_ONE_BASELINE_BENCHMARK
     then Err ''baseline benchmark was skipped and cannot be captured''
     else
     let matching = filter (\<lambda>r. rec_label r = BASELINE_BENCHMARK_LABEL) history in
     if length matching > 1 then Err ''baseline benchmark history is duplicated''
     else
     let existing = (case matching of [] \<Rightarrow> None | r # _ \<Rightarrow> Some r) in
     if (case existing of None \<Rightarrow> False | Some r \<Rightarrow> \<not> record_matches_capture r capture)
     then Err ''baseline benchmark conflicts with existing history''
     else if f64_lt f64_zero (st_baseline_avg s) \<or> st_baseline_p1 s \<noteq> None
     then
       and_then (ok_or ''baseline state has no matching benchmark history'' existing) (\<lambda>r.
       if \<not> f64_eq (st_baseline_avg s) (average_fps capture)
          \<or> \<not> opt_f64_eq (st_baseline_p1 s) (Some (capture_p1_fps capture))
       then Err ''baseline state conflicts with requested capture''
       else if is_completed p PHASE_ONE_BASELINE_BENCHMARK
       then
         and_then (validate_persisted_baseline_benchmark s p history) (\<lambda>_.
         Ok \<lparr>bc_state = s, bc_progress = p, bc_history = history,
             bc_captured_utc = rec_timestamp r, idempotent = True\<rparr>)
       else baseline_target s p history captured_utc capture existing)
     else if is_completed p PHASE_ONE_BASELINE_BENCHMARK
     then Err ''baseline benchmark progress precedes its state''
     else baseline_target s p history captured_utc capture existing)))"

section \<open>The final commit\<close>

record 'v final_commit =
  fc_state :: "'v state"
  fc_progress :: "'v progress"
  fc_history :: "'v benchmark_record list"
  fc_receipt :: "'v final_benchmark_receipt"

definition unresolved_phase_three :: "'v progress \<Rightarrow> bool" where
  "unresolved_phase_three p \<longleftrightarrow>
     list_ex (\<lambda>st. \<not> is_completed p (step_ident st) \<and> \<not> is_skipped p (step_ident st))
       phase_three_engine_steps"

text \<open>The \<open>Display\<close> text of a configuration error.\<close>

fun config_error_text :: "config_error \<Rightarrow> string" where
  "config_error_text FpsMeasuredCap =
     ''fps_cap.measured_cap must be zero (uncapped) or between 30 and 1000''"
| "config_error_text FpsVrr =
     ''VRR requires fps_cap.refresh_hz between 30 and 1000 and ceiling_margin_hz below refresh_hz''"
| "config_error_text (CachePath path) = ''cache path '' @ path @ '' is not the compiled value''"
| "config_error_text (ShaderCachePath path) =
     ''CS2 shader-cache path '' @ path @ '' is not in the compiled cache-root allowlist''"

definition final_state ::
  "'v state \<Rightarrow> 'v final_benchmark_receipt \<Rightarrow> 'v state" where
  "final_state s receipt =
     s\<lparr>st_fps_cap := fb_fps_cap receipt, st_avg_fps := fb_avg_fps receipt,
       st_p1_fps := Some (fb_p1_fps receipt), st_cap_date := Some (fb_captured_utc receipt),
       final_benchmark := Some receipt\<rparr>"

definition prepare_final_benchmark_commit ::
  "'v state \<Rightarrow> 'v progress \<Rightarrow> 'v benchmark_record list \<Rightarrow> config \<Rightarrow> transaction_id \<Rightarrow> string
   \<Rightarrow> benchmark_capture \<Rightarrow> ('v final_commit, string) result" where
  "prepare_final_benchmark_commit s p history cfg receipt_id captured_utc capture =
     and_then (map_err config_error_text (config_validate cfg)) (\<lambda>_.
     and_then (state_validate s) (\<lambda>_.
     if final_benchmark s \<noteq> None then Err ''final benchmark receipt already exists''
     else if \<not> is_completed p PHASE_THREE_DRIVER_INSTALL
     then Err ''final benchmark requires completed P3:1''
     else if unresolved_phase_three p
         \<or> is_completed p PHASE_THREE_FINAL_BENCHMARK
         \<or> is_skipped p PHASE_THREE_FINAL_BENCHMARK
     then Err ''final benchmark requires resolved P3:2-P3:12 and unresolved P3:13''
     else
     and_then (ok_or ''final benchmark requires an active reboot transaction''
         (active_reboot_transaction s)) (\<lambda>t.
     if \<not> is_authorized_at t PhaseThreeArmed
     then Err ''final benchmark requires an authorized Phase 3 transaction''
     else
     and_then (ok_or ''authorized reboot transaction is missing its id'' (tx_id t))
       (\<lambda>transaction_id.
     if list_ex (\<lambda>r. rec_receipt_id r = Some receipt_id
          \<or> rec_transaction_id r = Some transaction_id) history
     then Err ''final benchmark receipt or reboot transaction was already recorded''
     else
     and_then
       (ok_or ''final benchmark P1 FPS does not sustain the selected measured or VRR cap''
         (measured_fps_cap (cap_config_strategy (config_fps_cap cfg)) capture)) (\<lambda>fps_cap.
     and_then (receipt_new receipt_id transaction_id captured_utc capture fps_cap) (\<lambda>receipt.
     and_then (transition_to t PhaseThreeComplete) (\<lambda>t'.
     let next_state = (final_state s receipt)
           \<lparr>active_reboot_transaction := Some (t'\<lparr>tx_updated_utc := Some captured_utc\<rparr>)\<rparr> in
     and_then (state_validate next_state) (\<lambda>_.
     let next_progress = complete_step PHASE_THREE_FINAL_BENCHMARK captured_utc p;
         next_history = append_benchmark_record history
           \<lparr>rec_timestamp = captured_utc, rec_avg_fps = fb_avg_fps receipt,
            rec_p1_fps = fb_p1_fps receipt, rec_label = fb_label receipt,
            rec_runs = fb_runs receipt, rec_receipt_id = Some (fb_receipt_id receipt),
            rec_transaction_id = Some (fb_transaction_id receipt), rec_unknown = fmempty\<rparr> in
     if next_history = [] then Err ''final benchmark history did not retain its receipt''
     else if \<not> matches_history_record receipt (last next_history)
     then Err ''final benchmark history does not match its receipt''
     else Ok \<lparr>fc_state = next_state, fc_progress = next_progress, fc_history = next_history,
              fc_receipt = receipt\<rparr>))))))))"

definition names_receipt :: "'v final_benchmark_receipt \<Rightarrow> 'v benchmark_record \<Rightarrow> bool" where
  "names_receipt receipt r \<longleftrightarrow>
     rec_receipt_id r = Some (fb_receipt_id receipt)
     \<or> rec_transaction_id r = Some (fb_transaction_id receipt)"

definition validate_persisted_final_benchmark ::
  "'v state \<Rightarrow> 'v progress \<Rightarrow> 'v benchmark_record list
   \<Rightarrow> ('v final_benchmark_receipt, string) result" where
  "validate_persisted_final_benchmark s p history =
     and_then (state_validate s) (\<lambda>_.
     and_then (ok_or ''persisted state has no final benchmark receipt'' (final_benchmark s)) (\<lambda>receipt.
     and_then (ok_or ''persisted state has no reboot transaction'' (active_reboot_transaction s)) (\<lambda>t.
     if \<not> is_authorized_at t PhaseThreeComplete
     then Err ''persisted final benchmark transaction is not Phase 3 complete''
     else
     and_then (receipt_validate_for_transaction receipt t) (\<lambda>_.
     if \<not> is_completed p PHASE_THREE_DRIVER_INSTALL
        \<or> \<not> is_completed p PHASE_THREE_FINAL_BENCHMARK
        \<or> is_skipped p PHASE_THREE_FINAL_BENCHMARK
        \<or> fmlookup (timestamps p) ''3-13'' \<noteq> Some (fb_captured_utc receipt)
     then Err ''persisted final benchmark progress is incomplete or skipped''
     else if unresolved_phase_three p
     then Err ''persisted final benchmark has unresolved earlier Phase 3 work''
     else if st_fps_cap s \<noteq> fb_fps_cap receipt
        \<or> \<not> f64_eq (st_avg_fps s) (fb_avg_fps receipt)
        \<or> \<not> opt_f64_eq (st_p1_fps s) (Some (fb_p1_fps receipt))
        \<or> st_cap_date s \<noteq> Some (fb_captured_utc receipt)
     then Err ''persisted FPS state does not match the final benchmark receipt''
     else
     let matching = filter (names_receipt receipt) history in
     if length matching \<noteq> 1 \<or> \<not> matches_history_record receipt (hd matching)
     then Err ''persisted benchmark history is missing, duplicated, or inconsistent''
     else Ok receipt))))"

section \<open>Lemmas on the history\<close>

lemma length_append_benchmark_record:
  "length (append_benchmark_record h r) \<le> MAX_BENCHMARK_HISTORY"
  by (simp add: append_benchmark_record_def Let_def MAX_BENCHMARK_HISTORY_def)

lemma append_benchmark_record_split:
  "\<exists>n. append_benchmark_record h r = drop n h @ [r]"
proof (cases "length (h @ [r]) > MAX_BENCHMARK_HISTORY")
  case True
  have "Suc (length h) - MAX_BENCHMARK_HISTORY \<le> length h"
    by (simp add: MAX_BENCHMARK_HISTORY_def)
  then show ?thesis using True
    by (intro exI [of _ "Suc (length h) - MAX_BENCHMARK_HISTORY"])
      (simp add: append_benchmark_record_def Let_def)
next
  case False
  then show ?thesis
    by (intro exI [of _ 0]) (simp add: append_benchmark_record_def Let_def)
qed

lemma set_append_benchmark_record: "set (append_benchmark_record h r) \<subseteq> insert r (set h)"
  using append_benchmark_record_split [of h r] by (auto dest: in_set_dropD)

lemma append_benchmark_record_last [simp]:
  "append_benchmark_record h r \<noteq> []" "last (append_benchmark_record h r) = r"
  using append_benchmark_record_split [of h r] by auto

lemma filter_append_benchmark_record:
  assumes "\<forall>x\<in>set h. \<not> P x" and "P r"
  shows "filter P (append_benchmark_record h r) = [r]"
proof -
  obtain n where n: "append_benchmark_record h r = drop n h @ [r]"
    using append_benchmark_record_split by blast
  have "filter P (drop n h) = []"
    using assms(1) by (auto simp: filter_empty_conv dest: in_set_dropD)
  then show ?thesis using assms(2) by (simp add: n)
qed

lemma validate_history_Ok [guard_simps]:
  "validate_history h = Ok u \<longleftrightarrow>
     length h \<le> MAX_BENCHMARK_HISTORY \<and> (\<forall>r\<in>set h. \<not> invalid_record r)"
  by (auto simp: validate_history_def list_ex_iff)

lemma validate_append_record:
  assumes "validate_history h = Ok ()" and "\<not> invalid_record r"
  shows "validate_history (append_benchmark_record h r) = Ok ()"
  using assms set_append_benchmark_record [of h r] length_append_benchmark_record [of h r]
  by (auto simp: validate_history_Ok)

lemma validate_complete_capture_Ok [guard_simps]:
  "validate_complete_capture c = Ok u \<longleftrightarrow>
     is_finite (average_fps c) \<and> \<not> f64_le (average_fps c) f64_zero
     \<and> is_finite (capture_p1_fps c) \<and> \<not> f64_le (capture_p1_fps c) f64_zero
     \<and> \<not> f64_lt (average_fps c) (capture_p1_fps c) \<and> capture_runs c \<noteq> 0"
  by (simp add: validate_complete_capture_def)

lemma complete_capture_finite:
  "validate_complete_capture c = Ok u \<Longrightarrow> is_finite (average_fps c) \<and> is_finite (capture_p1_fps c)"
  by (simp add: validate_complete_capture_Ok)

lemma decode_array:
  "as_array J v = Some rs \<Longrightarrow> decode_benchmark_history J f v = List.map_filter f rs"
  by (simp add: decode_benchmark_history_def)

lemma finite_not_NaN [simp]: "is_finite x \<Longrightarrow> x \<noteq> NaN"
  by (cases x) simp_all

lemma finite_le_lt:
  "is_finite x \<Longrightarrow> is_finite y \<Longrightarrow> f64_le x y \<longleftrightarrow> \<not> f64_lt y x"
  by (cases x; cases y) (auto simp: f64_lt_def)

lemma finite_positive_iff: "is_finite x \<Longrightarrow> f64_lt f64_zero x \<longleftrightarrow> \<not> f64_le x f64_zero"
  by (cases x) (auto simp: f64_lt_def)

lemma finite_positive_not_negative:
  "is_finite x \<Longrightarrow> \<not> f64_le x f64_zero \<Longrightarrow> \<not> f64_lt x f64_zero"
  by (cases x) (auto simp: f64_lt_def)

section \<open>Lemmas on the baseline commit\<close>

definition baseline_record :: "string \<Rightarrow> benchmark_capture \<Rightarrow> 'v benchmark_record" where
  "baseline_record ts c =
     \<lparr>rec_timestamp = ts, rec_avg_fps = average_fps c, rec_p1_fps = capture_p1_fps c,
      rec_label = BASELINE_BENCHMARK_LABEL, rec_runs = capture_runs c, rec_receipt_id = None,
      rec_transaction_id = None, rec_unknown = fmempty\<rparr>"

lemma baseline_record_matches:
  "validate_complete_capture c = Ok () \<Longrightarrow> record_matches_capture (baseline_record ts c) c"
  by (simp add: record_matches_capture_def baseline_record_def guard_simps)

lemma baseline_record_valid:
  "validate_complete_capture c = Ok () \<Longrightarrow> valid_capture_timestamp ts \<Longrightarrow>
     \<not> invalid_record (baseline_record ts c)"
  by (simp add: invalid_record_def baseline_record_def guard_simps finite_positive_not_negative
      BASELINE_BENCHMARK_LABEL_def)

lemma persisted_baseline_matches:
  assumes "record_matches_capture r c" and "rec_label r = BASELINE_BENCHMARK_LABEL"
    and "capture_runs c \<noteq> 0" and "st_baseline_avg s = average_fps c"
  shows "persisted_baseline_record s (capture_p1_fps c) r"
  using assms by (simp add: persisted_baseline_record_def record_matches_capture_def word_gt_0)

text \<open>
  What a target contains: exactly one baseline record, which matches the capture, and a state
  and progress that say the same.
\<close>

definition baseline_done ::
  "'v state \<Rightarrow> 'v progress \<Rightarrow> 'v benchmark_record list \<Rightarrow> benchmark_capture
   \<Rightarrow> 'v benchmark_record \<Rightarrow> bool" where
  "baseline_done s p h c r \<longleftrightarrow>
     state_validate s = Ok () \<and> validate_history h = Ok () \<and> validate_complete_capture c = Ok ()
     \<and> st_baseline_avg s = average_fps c \<and> st_baseline_p1 s = Some (capture_p1_fps c)
     \<and> is_completed p PHASE_ONE_BASELINE_BENCHMARK \<and> \<not> is_skipped p PHASE_ONE_BASELINE_BENCHMARK
     \<and> fmlookup (timestamps p) ''1-17'' = Some (rec_timestamp r)
     \<and> filter (\<lambda>r. rec_label r = BASELINE_BENCHMARK_LABEL) h = [r]
     \<and> record_matches_capture r c"

lemma filter_persisted_baseline:
  assumes "filter (\<lambda>r. rec_label r = BASELINE_BENCHMARK_LABEL) h = [r]"
    and "persisted_baseline_record s p1 r"
  shows "filter (persisted_baseline_record s p1) h = [r]"
proof -
  have "filter (persisted_baseline_record s p1) h
      = filter (persisted_baseline_record s p1)
          (filter (\<lambda>r. rec_label r = BASELINE_BENCHMARK_LABEL) h)"
    by (auto simp: persisted_baseline_record_def intro!: filter_cong)
  then show ?thesis using assms by simp
qed

lemma baseline_done_persisted:
  assumes "baseline_done s p h c r"
  shows "validate_persisted_baseline_benchmark s p h = Ok r"
proof -
  note d = assms [unfolded baseline_done_def]
  have "persisted_baseline_record s (capture_p1_fps c) r"
    using d by (intro persisted_baseline_matches)
      (auto simp: validate_complete_capture_Ok filter_eq_Cons_iff)
  then have m: "filter (persisted_baseline_record s (capture_p1_fps c)) h = [r]"
    using d by (blast intro: filter_persisted_baseline)
  show ?thesis
    using d m by (simp add: validate_persisted_baseline_benchmark_def unwrap_or_def
        validate_complete_capture_Ok)
qed

lemma timestamp_key_baseline:
  "timestamp_key (phase_number (id_phase PHASE_ONE_BASELINE_BENCHMARK))
     (id_number PHASE_ONE_BASELINE_BENCHMARK) = ''1-17''"
  by code_simp

lemma timestamp_key_final:
  "timestamp_key (phase_number (id_phase PHASE_THREE_FINAL_BENCHMARK))
     (id_number PHASE_THREE_FINAL_BENCHMARK) = ''3-13''"
  by code_simp

lemma completed_baseline_timestamp [simp]:
  "fmlookup (timestamps (complete_step PHASE_ONE_BASELINE_BENCHMARK ts p)) ''1-17'' = Some ts"
  by (metis timestamp_key_baseline timestamps_complete)

lemma completed_final_timestamp [simp]:
  "fmlookup (timestamps (complete_step PHASE_THREE_FINAL_BENCHMARK ts p)) ''3-13'' = Some ts"
  by (metis timestamp_key_final timestamps_complete)

text \<open>The record list of an accepted commit, by whether history already held the baseline.\<close>

lemma baseline_target_done:
  assumes t: "baseline_target s p h ts c existing = Ok b"
    and h: "validate_history h = Ok ()" and c: "validate_complete_capture c = Ok ()"
    and ts: "valid_capture_timestamp ts"
    and e: "filter (\<lambda>r. rec_label r = BASELINE_BENCHMARK_LABEL) h
              = (case existing of None \<Rightarrow> [] | Some r \<Rightarrow> [r])"
    and m: "\<And>r. existing = Some r \<Longrightarrow> record_matches_capture r c"
  shows "\<exists>r. baseline_done (bc_state b) (bc_progress b) (bc_history b) c r
     \<and> bc_captured_utc b = rec_timestamp r"
proof (cases existing)
  case None
  let ?r = "baseline_record ts c"
  have "filter (\<lambda>r. rec_label r = BASELINE_BENCHMARK_LABEL) (append_benchmark_record h ?r) = [?r]"
    using e None
    by (intro filter_append_benchmark_record) (auto simp: filter_empty_conv baseline_record_def)
  moreover have "validate_history (append_benchmark_record h ?r) = Ok ()"
    by (intro validate_append_record h baseline_record_valid c ts)
  ultimately show ?thesis
    using t None c baseline_record_matches [OF c, where ts = ts]
    by (intro exI [of _ ?r])
      (auto simp: baseline_target_def Let_def and_then_eq_Ok baseline_done_def progress_simps
        baseline_record_def)
next
  case (Some r)
  then show ?thesis using t h c e m [OF Some]
    by (intro exI [of _ r])
      (auto simp: baseline_target_def Let_def and_then_eq_Ok baseline_done_def progress_simps)
qed

lemma baseline_existing:
  assumes "\<not> 1 < length xs"
  shows "xs = (case (case xs of [] \<Rightarrow> None | r # _ \<Rightarrow> Some r) of None \<Rightarrow> [] | Some r \<Rightarrow> [r])"
  using assms by (cases xs) auto

lemma prepare_baseline_Ok:
  assumes p: "prepare_baseline_benchmark_commit s p h ts c = Ok b"
  shows "state_validate s = Ok ()" and "validate_history h = Ok ()"
    and "validate_complete_capture c = Ok ()" and "valid_capture_timestamp ts"
    and "\<not> is_skipped p PHASE_ONE_BASELINE_BENCHMARK"
    and "\<not> 1 < length (filter (\<lambda>r. rec_label r = BASELINE_BENCHMARK_LABEL) h)"
  using p
  by (auto simp: prepare_baseline_benchmark_commit_def and_then_eq_Ok Let_def split: if_splits)

text \<open>The two ways a commit is accepted: it repairs or captures, or everything is there already.\<close>

lemma prepare_baseline_branch:
  assumes p: "prepare_baseline_benchmark_commit s p h ts c = Ok b"
  defines "m \<equiv> filter (\<lambda>r. rec_label r = BASELINE_BENCHMARK_LABEL) h"
  defines "existing \<equiv> (case m of [] \<Rightarrow> None | r # _ \<Rightarrow> Some r)"
  shows "(\<forall>r. existing = Some r \<longrightarrow> record_matches_capture r c)
     \<and> ((baseline_target s p h ts c existing = Ok b \<and> \<not> is_completed p PHASE_ONE_BASELINE_BENCHMARK
          \<and> (existing = None \<longrightarrow> st_baseline_p1 s = None))
        \<or> (\<exists>r. m = [r] \<and> b = \<lparr>bc_state = s, bc_progress = p, bc_history = h,
                bc_captured_utc = rec_timestamp r, idempotent = True\<rparr>
             \<and> st_baseline_avg s = average_fps c \<and> st_baseline_p1 s = Some (capture_p1_fps c)
             \<and> is_completed p PHASE_ONE_BASELINE_BENCHMARK
             \<and> (\<exists>x. validate_persisted_baseline_benchmark s p h = Ok x)))"
  using p baseline_existing [of m] unfolding m_def existing_def
  by (auto simp: prepare_baseline_benchmark_commit_def and_then_eq_Ok Let_def ok_or_eq_Ok
      f64_eq_iff split: if_splits list.splits)

lemma persisted_baseline_Ok:
  assumes "validate_persisted_baseline_benchmark s p h = Ok x"
    and "filter (\<lambda>r. rec_label r = BASELINE_BENCHMARK_LABEL) h = [r]"
  shows "x = r" and "fmlookup (timestamps p) ''1-17'' = Some (rec_timestamp r)"
proof -
  let ?P = "persisted_baseline_record s (unwrap_or f64_zero (st_baseline_p1 s))"
  have len: "length (filter ?P h) = 1"
    and x: "x = hd (filter ?P h)"
    and t: "fmlookup (timestamps p) ''1-17'' = Some (rec_timestamp (hd (filter ?P h)))"
    using assms(1)
    by (auto simp: validate_persisted_baseline_benchmark_def and_then_eq_Ok Let_def
        split: if_splits)
  then obtain y where y: "filter ?P h = [y]" by (auto simp: length_Suc_conv)
  then have "y \<in> set (filter (\<lambda>r. rec_label r = BASELINE_BENCHMARK_LABEL) h)"
    by (auto simp: filter_eq_Cons_iff persisted_baseline_record_def)
  then have "y = r" using assms(2) by simp
  then show "x = r" and "fmlookup (timestamps p) ''1-17'' = Some (rec_timestamp r)"
    using x t y by simp_all
qed

lemma prepare_baseline_done:
  assumes p: "prepare_baseline_benchmark_commit s p h ts c = Ok b"
  shows "\<exists>r. baseline_done (bc_state b) (bc_progress b) (bc_history b) c r
     \<and> bc_captured_utc b = rec_timestamp r"
proof -
  let ?m = "filter (\<lambda>r. rec_label r = BASELINE_BENCHMARK_LABEL) h"
  let ?e = "case ?m of [] \<Rightarrow> None | r # _ \<Rightarrow> Some r"
  note pre = prepare_baseline_Ok [OF p]
  note br = prepare_baseline_branch [OF p]
  have m: "?m = (case ?e of None \<Rightarrow> [] | Some r \<Rightarrow> [r])"
    by (rule baseline_existing [OF pre(6)])
  from br show ?thesis
  proof (elim conjE disjE exE)
    assume t: "baseline_target s p h ts c ?e = Ok b"
      and e: "\<forall>r. ?e = Some r \<longrightarrow> record_matches_capture r c"
    show ?thesis
      by (rule baseline_target_done [OF t pre(2,3,4) m]) (use e in blast)
  next
    fix r x
    assume r: "?m = [r]" and b: "b = \<lparr>bc_state = s, bc_progress = p, bc_history = h,
        bc_captured_utc = rec_timestamp r, idempotent = True\<rparr>"
      and s: "st_baseline_avg s = average_fps c" "st_baseline_p1 s = Some (capture_p1_fps c)"
      and d: "is_completed p PHASE_ONE_BASELINE_BENCHMARK"
      and x: "validate_persisted_baseline_benchmark s p h = Ok x"
      and e: "\<forall>r. ?e = Some r \<longrightarrow> record_matches_capture r c"
    show ?thesis
      using pre s d e r persisted_baseline_Ok(2) [OF x r]
      by (intro exI [of _ r]) (simp add: b baseline_done_def)
  qed
qed

text \<open>Preparing again from what a crash left behind.\<close>

lemma prepare_baseline_repairs:
  assumes "state_validate s = Ok ()" and "validate_history h = Ok ()"
    and "validate_complete_capture c = Ok ()" and "valid_capture_timestamp ts"
    and "\<not> is_skipped p PHASE_ONE_BASELINE_BENCHMARK"
    and "\<not> is_completed p PHASE_ONE_BASELINE_BENCHMARK"
    and "filter (\<lambda>r. rec_label r = BASELINE_BENCHMARK_LABEL) h = [r]"
    and "record_matches_capture r c"
    and "f64_lt f64_zero (st_baseline_avg s) \<or> st_baseline_p1 s \<noteq> None \<Longrightarrow>
           st_baseline_avg s = average_fps c \<and> st_baseline_p1 s = Some (capture_p1_fps c)"
  shows "prepare_baseline_benchmark_commit s p h ts c = baseline_target s p h ts c (Some r)"
  using assms complete_capture_finite [of c]
  by (auto simp: prepare_baseline_benchmark_commit_def Let_def ok_or_def f64_eq_iff)

lemma prepare_baseline_idempotent:
  assumes d: "baseline_done s p h c r" and ts: "valid_capture_timestamp ts"
  shows "prepare_baseline_benchmark_commit s p h ts c =
     Ok \<lparr>bc_state = s, bc_progress = p, bc_history = h, bc_captured_utc = rec_timestamp r,
         idempotent = True\<rparr>"
  using d [unfolded baseline_done_def] baseline_done_persisted [OF d] ts
    complete_capture_finite [of c]
  by (auto simp: prepare_baseline_benchmark_commit_def Let_def ok_or_def f64_eq_iff)

lemma prepare_baseline_resumes:
  assumes p: "prepare_baseline_benchmark_commit s p h ts c = Ok b" and i: "\<not> idempotent b"
    and ts': "valid_capture_timestamp ts'"
  shows "prepare_baseline_benchmark_commit s p (bc_history b) ts' c = Ok b"
    and "prepare_baseline_benchmark_commit (bc_state b) p (bc_history b) ts' c = Ok b"
proof -
  let ?m = "filter (\<lambda>r. rec_label r = BASELINE_BENCHMARK_LABEL) h"
  let ?e = "case ?m of [] \<Rightarrow> None | r # _ \<Rightarrow> Some r"
  note pre = prepare_baseline_Ok [OF p]
  have t: "baseline_target s p h ts c ?e = Ok b"
    and nc: "\<not> is_completed p PHASE_ONE_BASELINE_BENCHMARK"
    using prepare_baseline_branch [OF p] i by auto
  obtain r where d: "baseline_done (bc_state b) (bc_progress b) (bc_history b) c r"
    and rt: "bc_captured_utc b = rec_timestamp r"
    using prepare_baseline_done [OF p] by blast
  note D = d [unfolded baseline_done_def]
  have base: "f64_lt f64_zero (st_baseline_avg s) \<or> st_baseline_p1 s \<noteq> None \<Longrightarrow>
      st_baseline_avg s = average_fps c \<and> st_baseline_p1 s = Some (capture_p1_fps c)"
    using p i by (auto simp: prepare_baseline_benchmark_commit_def and_then_eq_Ok Let_def
        f64_eq_iff split: if_splits)
  have b: "bc_state b = s\<lparr>st_baseline_avg := average_fps c,
        st_baseline_p1 := Some (capture_p1_fps c)\<rparr>"
      "bc_progress b = complete_step PHASE_ONE_BASELINE_BENCHMARK (rec_timestamp r) p"
    using t rt by (auto simp: baseline_target_def Let_def and_then_eq_Ok)
  have whole: "b = \<lparr>bc_state = bc_state b, bc_progress = bc_progress b, bc_history = bc_history b,
      bc_captured_utc = rec_timestamp r, idempotent = False\<rparr>"
    using i rt by (cases b) simp
  have again: "baseline_target s p (bc_history b) ts' c (Some r) = Ok b"
      "baseline_target (bc_state b) p (bc_history b) ts' c (Some r) = Ok b"
    using D b whole by (simp_all add: baseline_target_def Let_def)
  show "prepare_baseline_benchmark_commit s p (bc_history b) ts' c = Ok b"
    unfolding again(1) [symmetric]
    by (rule prepare_baseline_repairs) (use pre D nc ts' base in \<open>simp_all\<close>)
  show "prepare_baseline_benchmark_commit (bc_state b) p (bc_history b) ts' c = Ok b"
    unfolding again(2) [symmetric]
    by (rule prepare_baseline_repairs) (use pre D nc ts' in \<open>simp_all\<close>)
qed

section \<open>Lemmas on the final commit\<close>

lemma phase_three_engine_steps_in:
  assumes "st \<in> set phase_three_engine_steps"
  shows "st \<in> set STEPS" and "step_ident st \<noteq> PHASE_THREE_FINAL_BENCHMARK"
proof -
  have "list_all (\<lambda>st. step_ident st \<noteq> PHASE_THREE_FINAL_BENCHMARK) phase_three_engine_steps"
    by code_simp
  then show "step_ident st \<noteq> PHASE_THREE_FINAL_BENCHMARK" using assms by (simp add: list_all_iff)
  show "st \<in> set STEPS" using assms by (simp add: phase_three_engine_steps_def)
qed

lemma unresolved_phase_three_complete:
  "unresolved_phase_three (complete_step PHASE_THREE_FINAL_BENCHMARK ts p) \<longleftrightarrow> unresolved_phase_three p"
  using phase_three_engine_steps_in(2)
  by (auto simp: unresolved_phase_three_def list_ex_iff progress_simps)

lemma receipt_new_Ok [guard_simps]:
  "receipt_new i t ts c cap = Ok r \<longleftrightarrow>
     receipt_validate r = Ok ()
     \<and> r = \<lparr>fb_schema_version = FINAL_BENCHMARK_SCHEMA_VERSION, fb_receipt_id = i,
         fb_transaction_id = t, fb_captured_utc = ts, fb_avg_fps = average_fps c,
         fb_p1_fps = capture_p1_fps c, fb_runs = capture_runs c, fb_fps_cap = cap,
         fb_label = FINAL_BENCHMARK_LABEL, fb_unknown = fmempty\<rparr>"
  by (auto simp: receipt_new_def Let_def and_then_eq_Ok)

lemma receipt_finite:
  "receipt_validate r = Ok u \<Longrightarrow> is_finite (fb_avg_fps r) \<and> is_finite (fb_p1_fps r)"
  by (simp add: receipt_validate_Ok)

definition final_record :: "'v final_benchmark_receipt \<Rightarrow> 'v benchmark_record" where
  "final_record r =
     \<lparr>rec_timestamp = fb_captured_utc r, rec_avg_fps = fb_avg_fps r, rec_p1_fps = fb_p1_fps r,
      rec_label = fb_label r, rec_runs = fb_runs r, rec_receipt_id = Some (fb_receipt_id r),
      rec_transaction_id = Some (fb_transaction_id r), rec_unknown = fmempty\<rparr>"

lemma final_record_matches:
  "receipt_validate r = Ok () \<Longrightarrow> matches_history_record r (final_record r)"
  using receipt_finite [of r] by (auto simp: matches_history_record_def final_record_def)

text \<open>What an accepted final commit consists of.\<close>

lemma prepare_final_Ok:
  assumes "prepare_final_benchmark_commit s p h cfg rid ts c = Ok f"
  shows "\<exists>t receipt.
     active_reboot_transaction s = Some t \<and> is_authorized_at t PhaseThreeArmed
     \<and> tx_id t = Some (fb_transaction_id receipt) \<and> receipt_validate receipt = Ok ()
     \<and> fb_captured_utc receipt = ts \<and> fb_receipt_id receipt = rid
     \<and> measured_fps_cap (cap_config_strategy (config_fps_cap cfg)) c = Some (fb_fps_cap receipt)
     \<and> (\<forall>r\<in>set h. \<not> names_receipt receipt r)
     \<and> is_completed p PHASE_THREE_DRIVER_INSTALL \<and> \<not> unresolved_phase_three p
     \<and> \<not> is_completed p PHASE_THREE_FINAL_BENCHMARK
     \<and> final_benchmark s = None
     \<and> state_validate (fc_state f) = Ok ()
     \<and> fc_state f = (final_state s receipt)\<lparr>active_reboot_transaction :=
          Some (t\<lparr>tx_stage := PhaseThreeComplete, tx_updated_utc := Some ts\<rparr>)\<rparr>
     \<and> fc_progress f = complete_step PHASE_THREE_FINAL_BENCHMARK ts p
     \<and> fc_history f = append_benchmark_record h (final_record receipt)
     \<and> fc_receipt f = receipt"
  using assms
  by (auto simp: prepare_final_benchmark_commit_def Let_def and_then_eq_Ok map_err_eq_Ok
      ok_or_eq_Ok receipt_new_Ok transition_to_Ok names_receipt_def list_ex_iff final_record_def
      split: if_splits)

lemma prepared_final_persisted:
  assumes "prepare_final_benchmark_commit s p h cfg rid ts c = Ok f"
  shows "validate_persisted_final_benchmark (fc_state f) (fc_progress f) (fc_history f)
     = Ok (fc_receipt f)"
proof -
  obtain t r where f: "active_reboot_transaction s = Some t" "is_authorized_at t PhaseThreeArmed"
      "tx_id t = Some (fb_transaction_id r)" "receipt_validate r = Ok ()"
      "fb_captured_utc r = ts" "\<forall>x\<in>set h. \<not> names_receipt r x"
      "is_completed p PHASE_THREE_DRIVER_INSTALL" "\<not> unresolved_phase_three p"
      "state_validate (fc_state f) = Ok ()"
    and st: "fc_state f = (final_state s r)\<lparr>active_reboot_transaction :=
          Some (t\<lparr>tx_stage := PhaseThreeComplete, tx_updated_utc := Some ts\<rparr>)\<rparr>"
    and pr: "fc_progress f = complete_step PHASE_THREE_FINAL_BENCHMARK ts p"
    and hi: "fc_history f = append_benchmark_record h (final_record r)"
    and re: "fc_receipt f = r"
    using prepare_final_Ok [OF assms] by blast
  have m: "filter (names_receipt r) (fc_history f) = [final_record r]"
    unfolding hi by (rule filter_append_benchmark_record [OF f(6)])
      (simp add: names_receipt_def final_record_def)
  have auth: "is_authorized_at (t\<lparr>tx_stage := PhaseThreeComplete, tx_updated_utc := Some ts\<rparr>)
      PhaseThreeComplete"
    using f(2) by (simp add: is_authorized_at_def)
  have tx: "receipt_validate_for_transaction r
      (t\<lparr>tx_stage := PhaseThreeComplete, tx_updated_utc := Some ts\<rparr>) = Ok ()"
    using f by (simp add: receipt_for_transaction_Ok)
  show ?thesis
    using f(5,7,8,9) m auth tx final_record_matches [OF f(4)] receipt_finite [OF f(4)]
    by (simp add: validate_persisted_final_benchmark_def re pr st final_state_def ok_or_def
        progress_simps unresolved_phase_three_complete)
qed

section \<open>Sample commits\<close>

definition demo_capture :: benchmark_capture where
  "demo_capture = \<lparr>average_fps = Finite 300, capture_p1_fps = Finite 200, capture_runs = 5\<rparr>"

definition demo_time :: string where
  "demo_time = ''2026-01-01 00:00:00''"

definition demo_config :: config where
  "demo_config =
     \<lparr>config_fps_cap = \<lparr>cap_strategy = ModeRaw, measured_cap = 144, refresh_hz = 0,
        ceiling_margin_hz = 0\<rparr>,
      config_paths = \<lparr>shader_cache = [hd CS2_SHADER_CACHE_TEMPLATES],
        nvidia_dx_cache = NVIDIA_DX_CACHE_TEMPLATE, nvidia_gl_cache = NVIDIA_GL_CACHE_TEMPLATE,
        directx_shader_cache = DIRECTX_SHADER_CACHE_TEMPLATE\<rparr>,
      autostart_remove = []\<rparr>"

lemma demo_time_valid: "valid_capture_timestamp demo_time"
  by code_simp

lemma demo_capture_complete: "validate_complete_capture demo_capture = Ok ()"
  by (simp add: validate_complete_capture_def demo_capture_def)

lemma demo_config_valid: "config_validate demo_config = Ok ()"
  by (simp add: config_validate_def demo_config_def CS2_SHADER_CACHE_TEMPLATES_def Let_def)

lemma demo_baseline:
  "prepare_baseline_benchmark_commit state_default (progress_default :: unit progress) [] demo_time
     demo_capture =
   Ok \<lparr>bc_state = state_default\<lparr>st_baseline_avg := Finite 300, st_baseline_p1 := Some (Finite 200)\<rparr>,
       bc_progress = complete_step PHASE_ONE_BASELINE_BENCHMARK demo_time progress_default,
       bc_history = [baseline_record demo_time demo_capture], bc_captured_utc = demo_time,
       idempotent = False\<rparr>"
proof -
  have s: "state_validate (state_default :: unit state) = Ok ()"
      "state_validate (state_default\<lparr>st_baseline_avg := Finite 300,
         st_baseline_p1 := Some (Finite 200)\<rparr> :: unit state) = Ok ()"
    by (simp_all add: state_validate_Ok_iff state_default_def baseline_coherent_def
        contains_key_def)
  have d: "st_baseline_avg state_default = f64_zero" "st_baseline_p1 state_default = None"
    by (simp_all add: state_default_def)
  show ?thesis
    using s demo_capture_complete demo_time_valid
    by (simp add: prepare_baseline_benchmark_commit_def baseline_target_def Let_def d
        validate_history_def append_benchmark_record_def MAX_BENCHMARK_HISTORY_def
        baseline_record_def demo_capture_def)
qed

definition demo_receipt_id :: transaction_id where
  "demo_receipt_id = TransactionId ''fedcba9876543210fedcba9876543210''"

definition demo_phase_three :: "unit progress" where
  "demo_phase_three = completed_progress
     (filter (\<lambda>st. step_ident st \<noteq> PHASE_THREE_FINAL_BENCHMARK) STEPS)"

definition demo_receipt :: "unit final_benchmark_receipt" where
  "demo_receipt =
     \<lparr>fb_schema_version = FINAL_BENCHMARK_SCHEMA_VERSION, fb_receipt_id = demo_receipt_id,
      fb_transaction_id = TransactionId ''0123456789abcdef0123456789abcdef'',
      fb_captured_utc = demo_time, fb_avg_fps = Finite 300, fb_p1_fps = Finite 200, fb_runs = 5,
      fb_fps_cap = 144, fb_label = FINAL_BENCHMARK_LABEL, fb_unknown = fmempty\<rparr>"

lemma demo_receipt_valid: "receipt_validate demo_receipt = Ok ()"
  using demo_time_valid by (simp add: receipt_validate_Ok demo_receipt_def demo_receipt_id_def)

lemma demo_receipt_new:
  "receipt_new demo_receipt_id (TransactionId ''0123456789abcdef0123456789abcdef'') demo_time
     demo_capture 144 = Ok demo_receipt"
  using demo_receipt_valid by (simp add: receipt_new_Ok demo_receipt_def demo_capture_def)

lemma demo_states_valid:
  "state_validate (demo_state PhaseThreeArmed) = Ok ()"
  "state_validate ((final_state (demo_state PhaseThreeArmed) demo_receipt)
     \<lparr>active_reboot_transaction := Some ((demo_transaction PhaseThreeArmed)
        \<lparr>tx_stage := PhaseThreeComplete, tx_updated_utc := Some demo_time\<rparr>)\<rparr>) = Ok ()"
  using demo_transaction_authorized [of PhaseThreeArmed] demo_receipt_valid
  by (simp_all add: state_validate_Ok_iff demo_state_def state_default_def baseline_coherent_def
      contains_key_def final_state_def is_authorized_at_def receipt_for_transaction_Ok)
    (simp add: demo_transaction_def demo_receipt_def MAX_PAGEFILE_MB_def)?

lemma demo_final_ok:
  "is_ok (prepare_final_benchmark_commit (demo_state PhaseThreeArmed) demo_phase_three [] demo_config
     demo_receipt_id demo_time demo_capture)"
proof -
  have three: "PHASE_THREE_DRIVER_INSTALL \<in> step_ident ` set STEPS"
      "PHASE_THREE_DRIVER_INSTALL \<noteq> PHASE_THREE_FINAL_BENCHMARK"
    by code_simp+
  have p: "is_completed demo_phase_three PHASE_THREE_DRIVER_INSTALL"
      "\<not> is_completed demo_phase_three PHASE_THREE_FINAL_BENCHMARK"
      "\<not> is_skipped demo_phase_three PHASE_THREE_FINAL_BENCHMARK"
    using three by (auto simp: demo_phase_three_def)
  have u: "\<not> unresolved_phase_three demo_phase_three"
    using phase_three_engine_steps_in
    by (auto simp: unresolved_phase_three_def list_ex_iff demo_phase_three_def)
  have cap: "measured_fps_cap (cap_config_strategy (config_fps_cap demo_config)) demo_capture = Some 144"
    by (simp add: cap_config_strategy_def demo_config_def demo_capture_def sustainable_cap_def
        f64_of_u32_def)
  have t: "active_reboot_transaction (demo_state PhaseThreeArmed)
        = Some (demo_transaction PhaseThreeArmed)" "final_benchmark (demo_state PhaseThreeArmed) = None"
      "tx_id (demo_transaction PhaseThreeArmed)
        = Some (TransactionId ''0123456789abcdef0123456789abcdef'')"
      "transition_to (demo_transaction PhaseThreeArmed) PhaseThreeComplete
        = Ok ((demo_transaction PhaseThreeArmed)\<lparr>tx_stage := PhaseThreeComplete\<rparr>)"
    by (simp_all add: demo_state_def state_default_def demo_transaction_def transition_to_Ok)
  have "fb_captured_utc demo_receipt = demo_time" by (simp add: demo_receipt_def)
  with final_record_matches [OF demo_receipt_valid] show ?thesis
    using p u
    by (simp add: prepare_final_benchmark_commit_def demo_config_valid demo_states_valid t
        demo_transaction_authorized cap demo_receipt_new Let_def ok_or_def final_record_def)
qed

section \<open>Properties\<close>

text \<open>
  What a baseline commit prepares is what the validator of the persisted files accepts: the
  state, the progress and the history it returns agree on one record, which is the requested
  capture under the time the commit reports, and the history stays within its limit of 200.
\<close>

theorem prepared_baseline_is_accepted:
  assumes "prepare_baseline_benchmark_commit s p h ts c = Ok b"
  shows "\<exists>r. validate_persisted_baseline_benchmark (bc_state b) (bc_progress b) (bc_history b) = Ok r
     \<and> record_matches_capture r c \<and> rec_timestamp r = bc_captured_utc b
     \<and> length (bc_history b) \<le> MAX_BENCHMARK_HISTORY"
proof -
  obtain r where "baseline_done (bc_state b) (bc_progress b) (bc_history b) c r"
      "bc_captured_utc b = rec_timestamp r"
    using prepare_baseline_done [OF assms] by blast
  then show ?thesis
    using baseline_done_persisted by (fastforce simp: baseline_done_def validate_history_Ok)
qed

theorem prepared_baseline_is_accepted_witness:
  "\<exists>r. validate_persisted_baseline_benchmark
        (state_default\<lparr>st_baseline_avg := Finite 300, st_baseline_p1 := Some (Finite 200)\<rparr>)
        (complete_step PHASE_ONE_BASELINE_BENCHMARK demo_time (progress_default :: unit progress))
        [baseline_record demo_time demo_capture] = Ok r
     \<and> record_matches_capture r demo_capture \<and> rec_timestamp r = demo_time
     \<and> length [baseline_record demo_time demo_capture :: unit benchmark_record] \<le> MAX_BENCHMARK_HISTORY"
  using prepared_baseline_is_accepted [OF demo_baseline] by simp

text \<open>
  C26: A baseline capture survives a crash between its three writes: after the history alone, or
  the history and the state, were written, the same capture prepared again at any later time
  yields the very same target, and after all three it is reported as already done.
\<close>

theorem baseline_retry_reaches_same_target:
  assumes "prepare_baseline_benchmark_commit s p h ts c = Ok b" and "\<not> idempotent b"
    and "valid_capture_timestamp ts'"
  shows "prepare_baseline_benchmark_commit s p (bc_history b) ts' c = Ok b
     \<and> prepare_baseline_benchmark_commit (bc_state b) p (bc_history b) ts' c = Ok b
     \<and> prepare_baseline_benchmark_commit (bc_state b) (bc_progress b) (bc_history b) ts' c
         = Ok (b\<lparr>idempotent := True\<rparr>)"
proof -
  obtain r where d: "baseline_done (bc_state b) (bc_progress b) (bc_history b) c r"
      "bc_captured_utc b = rec_timestamp r"
    using prepare_baseline_done [OF assms(1)] by blast
  have "b\<lparr>idempotent := True\<rparr> = \<lparr>bc_state = bc_state b, bc_progress = bc_progress b,
      bc_history = bc_history b, bc_captured_utc = rec_timestamp r, idempotent = True\<rparr>"
    using d(2) by (cases b) simp
  then show ?thesis
    using prepare_baseline_resumes [OF assms] prepare_baseline_idempotent [OF d(1) assms(3)] by simp
qed

theorem baseline_retry_reaches_same_target_witness:
  "is_ok (prepare_baseline_benchmark_commit state_default (progress_default :: unit progress)
     [baseline_record demo_time demo_capture] ''2026-01-02 00:00:00'' demo_capture)"
proof -
  have "valid_capture_timestamp ''2026-01-02 00:00:00''" by code_simp
  then show ?thesis
    using baseline_retry_reaches_same_target [OF demo_baseline, of "''2026-01-02 00:00:00''"] by simp
qed

text \<open>
  C25: What the final commit prepares is what the validator of the persisted files accepts, with
  the receipt of the commit; the receipt is bound to the authorized phase three transaction, its
  identifiers occur nowhere in the earlier history, and its cap is one the captured 1\% low
  sustains.
\<close>

theorem prepared_final_is_accepted:
  assumes "prepare_final_benchmark_commit s p h cfg receipt_id ts c = Ok f"
  shows "validate_persisted_final_benchmark (fc_state f) (fc_progress f) (fc_history f)
       = Ok (fc_receipt f)
     \<and> measured_fps_cap (cap_config_strategy (config_fps_cap cfg)) c
       = Some (fb_fps_cap (fc_receipt f))
     \<and> (\<exists>t. active_reboot_transaction s = Some t \<and> is_authorized_at t PhaseThreeArmed
          \<and> tx_id t = Some (fb_transaction_id (fc_receipt f)))
     \<and> filter (names_receipt (fc_receipt f)) h = []"
  using prepared_final_persisted [OF assms] prepare_final_Ok [OF assms]
  by (auto simp: filter_empty_conv)

theorem prepared_final_is_accepted_witness:
  "\<exists>f. validate_persisted_final_benchmark (fc_state f) (fc_progress f) (fc_history f)
       = Ok (fc_receipt (f :: unit final_commit))"
proof -
  obtain f where "prepare_final_benchmark_commit (demo_state PhaseThreeArmed) demo_phase_three []
      demo_config demo_receipt_id demo_time demo_capture = Ok f"
    using demo_final_ok by (auto simp: is_ok_iff)
  from prepared_final_is_accepted [OF this] show ?thesis by blast
qed

end
