(* ===== verification/Orchestration.thy ===== *)
theory Orchestration
  imports Samples
begin

text \<open>
  The guards of the reboot-spanning workflow
  (\<open>crates/frametime-domain/src/orchestration.rs\<close>) and the assessment of legacy state
  (\<open>migration.rs\<close>).  Facts about the platform are arguments.  The lemmas characterise every
  authorization exactly, show that evidence that could not be inspected never authorizes
  anything, which transitions exclude each other, and what a confirmed legacy state may go on with.
\<close>

section \<open>Facts and requests\<close>

datatype boot_environment = BootNormal | BootSafeMode

datatype evidence = EvidenceVerified | EvidenceAbsent | EvidenceUnavailable

datatype runtime_binding = VerifiedSelectedExecutable | RuntimeUnavailable

record handoff_evidence =
  phase_two_run_once :: evidence
  phase_three_run :: evidence
  safe_boot :: evidence
  phase_three_same_user :: evidence

definition handoff_evidence_default :: handoff_evidence where
  "handoff_evidence_default =
     \<lparr>phase_two_run_once = EvidenceUnavailable, phase_three_run = EvidenceUnavailable,
      safe_boot = EvidenceUnavailable, phase_three_same_user = EvidenceUnavailable\<rparr>"

record phase_facts =
  facts_boot :: boot_environment
  facts_runtime :: runtime_binding
  facts_handoff :: handoff_evidence
  phase_one_safe_mode_ready :: bool
  final_benchmark_persisted :: evidence

datatype phase_request =
    RequestOptimize
  | RequestArmSafeMode
  | RequestPhaseTwo
  | RequestPhaseThree
  | RequestFinalBenchmark
  | RequestClearPhaseThreeHandoff

datatype transition =
    RunPhaseOne
  | ArmSafeMode bool
  | RunPhaseTwoStepOne
  | RunRemainingPhaseTwo
  | RunPhaseThree
  | PersistFinalBenchmark
  | ClearPhaseThreeHandoff

datatype (plugins only: code size) guard_error =
    WrongBoot phase_request boot_environment boot_environment
  | PhaseOneCannotResumeLaterPhase
  | MissingResolvedPhaseOneStep u8
  | SelectedRuntimeNotVerified
  | SafeModeReadinessNotPersisted
  | SafeModeHandoffInspectionUnavailable
  | SafeModeHandoffNotArmed
  | SafeBootInspectionUnavailable
  | SafeBootNotConfigured
  | SafeBootStillConfigured
  | MissingPhaseOneHandoffCompletion
  | PhaseTwoSafeBootClearNotCompleted
  | PhaseTwoSafeBootClearWasSkipped
  | MissingCompletedPhaseTwoStep u8
  | PhaseThreeHandoffInspectionUnavailable
  | PhaseThreeHandoffNotArmed
  | SameUserHandoffInspectionUnavailable
  | SameUserHandoffNotVerified
  | PhaseThreeHandoffMustRemain
  | LegacyRebootStateInspectionUnavailable
  | LegacyRebootTransactionArmed
  | ActiveRebootTransactionPresent
  | RebootTransactionMissing
  | RebootTransactionStageInvalid
  | FinalBenchmarkPersistenceUnavailable
  | FinalBenchmarkNotPersisted

section \<open>Requirements\<close>

definition require_final_benchmark_transaction :: "'v state \<Rightarrow> (unit, guard_error) result" where
  "require_final_benchmark_transaction s =
     (case active_reboot_transaction s of
        None \<Rightarrow> Err RebootTransactionMissing
      | Some t \<Rightarrow>
          if is_authorized_at t PhaseThreeArmed \<or> is_authorized_at t PhaseThreeComplete then Ok ()
          else Err RebootTransactionStageInvalid)"

definition require_transaction_stage ::
  "'v state \<Rightarrow> reboot_stage \<Rightarrow> (unit, guard_error) result" where
  "require_transaction_stage s expected =
     (case active_reboot_transaction s of
        None \<Rightarrow> Err RebootTransactionMissing
      | Some t \<Rightarrow>
          if is_authorized_at t expected then Ok () else Err RebootTransactionStageInvalid)"

fun require_absent :: "evidence \<Rightarrow> (unit, guard_error) result" where
  "require_absent EvidenceAbsent = Ok ()"
| "require_absent EvidenceVerified = Err LegacyRebootTransactionArmed"
| "require_absent EvidenceUnavailable = Err LegacyRebootStateInspectionUnavailable"

definition require_clean_reboot_state :: "handoff_evidence \<Rightarrow> (unit, guard_error) result" where
  "require_clean_reboot_state h =
     try_each require_absent [phase_two_run_once h, phase_three_run h, safe_boot h]"

definition require_boot ::
  "phase_request \<Rightarrow> boot_environment \<Rightarrow> boot_environment \<Rightarrow> (unit, guard_error) result" where
  "require_boot request expected actual =
     (if actual = expected then Ok () else Err (WrongBoot request expected actual))"

definition require_runtime :: "runtime_binding \<Rightarrow> (unit, guard_error) result" where
  "require_runtime runtime =
     (if runtime = VerifiedSelectedExecutable then Ok () else Err SelectedRuntimeNotVerified)"

definition phase_one_advisory_is_authorized :: "step_id \<Rightarrow> bool" where
  "phase_one_advisory_is_authorized i \<longleftrightarrow>
     i = PHASE_ONE_XMP_EXPO_CHECK \<or> i = PHASE_ONE_RESIZABLE_BAR_CHECK"

definition phase_one_resolved :: "'v progress \<Rightarrow> step_id \<Rightarrow> bool" where
  "phase_one_resolved p i \<longleftrightarrow>
     is_completed p i \<or> is_skipped p i
     \<or> (phase_one_advisory_is_authorized i \<and> has_advisory p i)"

definition require_resolved_phase_one :: "'v progress \<Rightarrow> (unit, guard_error) result" where
  "require_resolved_phase_one p =
     try_each
       (\<lambda>st. if \<not> phase_one_resolved p (step_ident st)
             then Err (MissingResolvedPhaseOneStep (id_number (step_ident st))) else Ok ())
       (filter (\<lambda>st. id_phase (step_ident st) = PhaseOne \<and> step_role st = RoleEngine) STEPS)"

definition require_phase_one_handoff_ready :: "'v progress \<Rightarrow> (unit, guard_error) result" where
  "require_phase_one_handoff_ready p = require_resolved_phase_one p"

definition require_completed :: "'v progress \<Rightarrow> step_id \<Rightarrow> (unit, unit) result" where
  "require_completed p i = (if is_completed p i then Ok () else Err ())"

fun require_phase_two_handoff :: "evidence \<Rightarrow> (unit, guard_error) result" where
  "require_phase_two_handoff EvidenceVerified = Ok ()"
| "require_phase_two_handoff EvidenceAbsent = Err SafeModeHandoffNotArmed"
| "require_phase_two_handoff EvidenceUnavailable = Err SafeModeHandoffInspectionUnavailable"

fun require_safe_boot_present :: "evidence \<Rightarrow> (unit, guard_error) result" where
  "require_safe_boot_present EvidenceVerified = Ok ()"
| "require_safe_boot_present EvidenceAbsent = Err SafeBootNotConfigured"
| "require_safe_boot_present EvidenceUnavailable = Err SafeBootInspectionUnavailable"

fun require_safe_boot_absent :: "evidence \<Rightarrow> (unit, guard_error) result" where
  "require_safe_boot_absent EvidenceAbsent = Ok ()"
| "require_safe_boot_absent EvidenceVerified = Err SafeBootStillConfigured"
| "require_safe_boot_absent EvidenceUnavailable = Err SafeBootInspectionUnavailable"

fun require_phase_three_handoff :: "evidence \<Rightarrow> (unit, guard_error) result" where
  "require_phase_three_handoff EvidenceVerified = Ok ()"
| "require_phase_three_handoff EvidenceAbsent = Err PhaseThreeHandoffNotArmed"
| "require_phase_three_handoff EvidenceUnavailable = Err PhaseThreeHandoffInspectionUnavailable"

fun require_same_user :: "evidence \<Rightarrow> (unit, guard_error) result" where
  "require_same_user EvidenceVerified = Ok ()"
| "require_same_user EvidenceAbsent = Err SameUserHandoffNotVerified"
| "require_same_user EvidenceUnavailable = Err SameUserHandoffInspectionUnavailable"

definition has_phase :: "'v progress \<Rightarrow> phase \<Rightarrow> bool" where
  "has_phase p ph \<longleftrightarrow>
     list_ex (\<lambda>st. is_completed p (step_ident st) \<or> is_skipped p (step_ident st))
       (filter (\<lambda>st. id_phase (step_ident st) = ph) STEPS)"

definition has_phase_two_later_step :: "'v progress \<Rightarrow> bool" where
  "has_phase_two_later_step p \<longleftrightarrow>
     list_ex (\<lambda>st. id_phase (step_ident st) = PhaseTwo
       \<and> step_ident st \<noteq> PHASE_TWO_SAFE_BOOT_CLEAR
       \<and> (is_completed p (step_ident st) \<or> is_skipped p (step_ident st))) STEPS"

text \<open>The loop over the catalog rows of phase two.\<close>

definition require_phase_two_completed :: "'v progress \<Rightarrow> (unit, guard_error) result" where
  "require_phase_two_completed p =
     try_each
       (\<lambda>st. map_err (\<lambda>_. MissingCompletedPhaseTwoStep (id_number (step_ident st)))
          (require_completed p (step_ident st)))
       (filter (\<lambda>st. id_phase (step_ident st) = PhaseTwo) STEPS)"

section \<open>Authorization\<close>

fun authorize ::
  "phase_request \<Rightarrow> 'v state \<Rightarrow> 'v progress \<Rightarrow> phase_facts \<Rightarrow> (transition, guard_error) result" where
  "authorize RequestOptimize s p f =
     and_then (require_boot RequestOptimize BootNormal (facts_boot f)) (\<lambda>_.
     and_then (require_clean_reboot_state (facts_handoff f)) (\<lambda>_.
     if has_phase p PhaseTwo \<or> has_phase p PhaseThree then Err PhaseOneCannotResumeLaterPhase
     else Ok RunPhaseOne))"
| "authorize RequestArmSafeMode s p f =
     and_then (require_boot RequestArmSafeMode BootNormal (facts_boot f)) (\<lambda>_.
     and_then (require_resolved_phase_one p) (\<lambda>_.
     and_then (require_runtime (facts_runtime f)) (\<lambda>_.
     if active_reboot_transaction s \<noteq> None then Err ActiveRebootTransactionPresent
     else Ok (ArmSafeMode True))))"
| "authorize RequestPhaseTwo s p f =
     and_then (require_boot RequestPhaseTwo BootSafeMode (facts_boot f)) (\<lambda>_.
     and_then (require_runtime (facts_runtime f)) (\<lambda>_.
     if \<not> phase1_safe_mode_ready s \<or> \<not> phase_one_safe_mode_ready f
     then Err SafeModeReadinessNotPersisted
     else
     and_then (require_phase_two_handoff (phase_two_run_once (facts_handoff f))) (\<lambda>_.
     and_then (map_err (\<lambda>_. MissingPhaseOneHandoffCompletion)
       (require_completed p PHASE_ONE_SAFE_MODE_HANDOFF)) (\<lambda>_.
     if is_skipped p PHASE_TWO_SAFE_BOOT_CLEAR then Err PhaseTwoSafeBootClearWasSkipped
     else if is_completed p PHASE_TWO_SAFE_BOOT_CLEAR
     then
       and_then (require_transaction_stage s PhaseTwoSafeMode) (\<lambda>_.
       and_then (require_safe_boot_absent (safe_boot (facts_handoff f))) (\<lambda>_.
       Ok RunRemainingPhaseTwo))
     else if has_phase_two_later_step p then Err PhaseTwoSafeBootClearNotCompleted
     else
       and_then (require_transaction_stage s PhaseOneSafeModeArmed) (\<lambda>_.
       and_then (require_safe_boot_present (safe_boot (facts_handoff f))) (\<lambda>_.
       Ok RunPhaseTwoStepOne))))))"
| "authorize RequestPhaseThree s p f =
     and_then (require_boot RequestPhaseThree BootNormal (facts_boot f)) (\<lambda>_.
     and_then (require_runtime (facts_runtime f)) (\<lambda>_.
     and_then (require_transaction_stage s PhaseThreeArmed) (\<lambda>_.
     and_then (require_phase_three_handoff (phase_three_run (facts_handoff f))) (\<lambda>_.
     and_then (require_same_user (phase_three_same_user (facts_handoff f))) (\<lambda>_.
     and_then (require_phase_two_completed p) (\<lambda>_.
     Ok RunPhaseThree))))))"
| "authorize RequestFinalBenchmark s p f =
     and_then (require_boot RequestFinalBenchmark BootNormal (facts_boot f)) (\<lambda>_.
     and_then (require_runtime (facts_runtime f)) (\<lambda>_.
     and_then (require_final_benchmark_transaction s) (\<lambda>_.
     and_then (require_phase_three_handoff (phase_three_run (facts_handoff f))) (\<lambda>_.
     and_then (require_same_user (phase_three_same_user (facts_handoff f))) (\<lambda>_.
     and_then (require_phase_two_completed p) (\<lambda>_.
     Ok PersistFinalBenchmark))))))"
| "authorize RequestClearPhaseThreeHandoff s p f =
     and_then (require_transaction_stage s PhaseThreeComplete) (\<lambda>_.
     and_then (require_phase_three_handoff (phase_three_run (facts_handoff f))) (\<lambda>_.
     and_then (require_same_user (phase_three_same_user (facts_handoff f))) (\<lambda>_.
     and_then (map_err (\<lambda>_. PhaseThreeHandoffMustRemain)
       (require_completed p PHASE_THREE_DRIVER_INSTALL)) (\<lambda>_.
     and_then (map_err (\<lambda>_. PhaseThreeHandoffMustRemain)
       (require_completed p PHASE_THREE_FINAL_BENCHMARK)) (\<lambda>_.
     case final_benchmark_persisted f of
       EvidenceVerified \<Rightarrow> Ok ClearPhaseThreeHandoff
     | EvidenceAbsent \<Rightarrow> Err FinalBenchmarkNotPersisted
     | EvidenceUnavailable \<Rightarrow> Err FinalBenchmarkPersistenceUnavailable)))))"

section \<open>Recovery plans\<close>

datatype failure_point =
    FailBeforeMutation
  | FailSafeModeHandoffArmed
  | FailPhaseTwoSafeBootClear
  | FailPhaseTwoDriverWork
  | FailPhaseThreeDriverWork
  | FailFinalBenchmarkPersistence

datatype compensation =
    NoneClaimed
  | RestoreSafeBootFromCapturedBackup
  | RestoreCapturedPhaseBackups
  | RetainPhaseTwoHandoffForRecovery
  | RetainPhaseThreeHandoffUntilCompletion

record recovery_plan =
  retain_handoff :: bool
  compensations :: "compensation list"

fun compensations_for :: "phase_request \<Rightarrow> failure_point \<Rightarrow> compensation list" where
  "compensations_for _ FailBeforeMutation = [NoneClaimed]"
| "compensations_for RequestArmSafeMode FailSafeModeHandoffArmed =
     [RestoreSafeBootFromCapturedBackup, RetainPhaseTwoHandoffForRecovery]"
| "compensations_for RequestPhaseTwo FailPhaseTwoSafeBootClear =
     [RestoreSafeBootFromCapturedBackup, RetainPhaseTwoHandoffForRecovery]"
| "compensations_for RequestPhaseTwo FailPhaseTwoDriverWork =
     [RestoreCapturedPhaseBackups, RetainPhaseTwoHandoffForRecovery]"
| "compensations_for RequestPhaseThree FailPhaseThreeDriverWork =
     [RestoreCapturedPhaseBackups, RetainPhaseThreeHandoffUntilCompletion]"
| "compensations_for RequestPhaseThree FailFinalBenchmarkPersistence =
     [RestoreCapturedPhaseBackups, RetainPhaseThreeHandoffUntilCompletion]"
| "compensations_for RequestFinalBenchmark FailFinalBenchmarkPersistence =
     [RestoreCapturedPhaseBackups, RetainPhaseThreeHandoffUntilCompletion]"
| "compensations_for _ _ = [NoneClaimed]"

definition recovery_for :: "phase_request \<Rightarrow> failure_point \<Rightarrow> recovery_plan" where
  "recovery_for request failure =
     (let cs = compensations_for request failure in
      \<lparr>retain_handoff = list_ex (\<lambda>c. c = RetainPhaseTwoHandoffForRecovery
         \<or> c = RetainPhaseThreeHandoffUntilCompletion) cs,
       compensations = cs\<rparr>)"

section \<open>Migration of legacy state\<close>

datatype legacy_handoff =
    LegacyNone | LegacyPhaseTwoArmed | LegacyPhaseThreeArmed | LegacySafeBootArmed
  | LegacyIncompleteRuntime

record migration_inventory =
  phase_two_run_once_armed :: bool
  phase_three_run_armed :: bool
  safe_boot_armed :: bool
  incomplete_runtime :: bool

definition migration_inventory_default :: migration_inventory where
  "migration_inventory_default =
     \<lparr>phase_two_run_once_armed = False, phase_three_run_armed = False, safe_boot_armed = False,
      incomplete_runtime = False\<rparr>"

datatype migration_decision =
    NotNeeded
  | ConfirmIdle
  | ConfirmPartialPhaseOne nat nat
  | Refuse legacy_handoff

definition assess_inventory ::
  "'v state option \<Rightarrow> 'v progress option \<Rightarrow> migration_inventory \<Rightarrow> migration_decision" where
  "assess_inventory so po iv =
     (if phase_two_run_once_armed iv then Refuse LegacyPhaseTwoArmed
      else if phase_three_run_armed iv then Refuse LegacyPhaseThreeArmed
      else if safe_boot_armed iv then Refuse LegacySafeBootArmed
      else if incomplete_runtime iv then Refuse LegacyIncompleteRuntime
      else if so = None \<and> po = None then NotNeeded
      else if (case po of None \<Rightarrow> False
               | Some p \<Rightarrow> has_resolved_in_phase p PhaseTwo \<or> has_resolved_in_phase p PhaseThree)
          \<or> (case so of None \<Rightarrow> False
             | Some s \<Rightarrow>
                 phase1_safe_mode_ready s
                 \<or> active_reboot_transaction s \<noteq> None
                 \<or> contains_key (st_unknown s) ''activeRebootTransaction'')
      then Refuse LegacyIncompleteRuntime
      else (case po of
              None \<Rightarrow> ConfirmIdle
            | Some p \<Rightarrow>
                (let done = length (filter (\<lambda>st. id_phase (step_ident st) = PhaseOne
                       \<and> is_completed p (step_ident st)) STEPS);
                     passed = length (filter (\<lambda>st. id_phase (step_ident st) = PhaseOne
                       \<and> is_skipped p (step_ident st)) STEPS) in
                 if done + passed = 0 then ConfirmIdle else ConfirmPartialPhaseOne done passed)))"

fun inventory_of :: "legacy_handoff \<Rightarrow> migration_inventory" where
  "inventory_of LegacyNone = migration_inventory_default"
| "inventory_of LegacyPhaseTwoArmed = migration_inventory_default\<lparr>phase_two_run_once_armed := True\<rparr>"
| "inventory_of LegacyPhaseThreeArmed = migration_inventory_default\<lparr>phase_three_run_armed := True\<rparr>"
| "inventory_of LegacySafeBootArmed = migration_inventory_default\<lparr>safe_boot_armed := True\<rparr>"
| "inventory_of LegacyIncompleteRuntime = migration_inventory_default\<lparr>incomplete_runtime := True\<rparr>"

definition assess ::
  "'v state option \<Rightarrow> 'v progress option \<Rightarrow> legacy_handoff \<Rightarrow> migration_decision" where
  "assess so po h = assess_inventory so po (inventory_of h)"

section \<open>Lemmas\<close>

lemma require_evidence_Ok [guard_simps]:
  "require_absent e = Ok u \<longleftrightarrow> e = EvidenceAbsent"
  "require_phase_two_handoff e = Ok u \<longleftrightarrow> e = EvidenceVerified"
  "require_safe_boot_present e = Ok u \<longleftrightarrow> e = EvidenceVerified"
  "require_safe_boot_absent e = Ok u \<longleftrightarrow> e = EvidenceAbsent"
  "require_phase_three_handoff e = Ok u \<longleftrightarrow> e = EvidenceVerified"
  "require_same_user e = Ok u \<longleftrightarrow> e = EvidenceVerified"
  by (cases e; simp)+

lemma require_fact_Ok [guard_simps]:
  "require_boot q x a = Ok u \<longleftrightarrow> a = x"
  "require_runtime r = Ok u \<longleftrightarrow> r = VerifiedSelectedExecutable"
  "require_completed p i = Ok u \<longleftrightarrow> is_completed p i"
  by (simp_all add: require_boot_def require_runtime_def require_completed_def)

lemma require_clean_Ok [guard_simps]:
  "require_clean_reboot_state h = Ok u \<longleftrightarrow>
     phase_two_run_once h = EvidenceAbsent \<and> phase_three_run h = EvidenceAbsent
     \<and> safe_boot h = EvidenceAbsent"
  unfolding require_clean_reboot_state_def try_each_eq_Ok by (auto simp: require_evidence_Ok)

lemma require_stage_Ok [guard_simps]:
  "require_transaction_stage s g = Ok u \<longleftrightarrow>
     (\<exists>t. active_reboot_transaction s = Some t \<and> is_authorized_at t g)"
  "require_final_benchmark_transaction s = Ok u \<longleftrightarrow>
     (\<exists>t. active_reboot_transaction s = Some t
        \<and> (is_authorized_at t PhaseThreeArmed \<or> is_authorized_at t PhaseThreeComplete))"
  by (auto simp: require_transaction_stage_def require_final_benchmark_transaction_def
      split: option.splits)

lemma require_resolved_phase_one_Ok [guard_simps]:
  "require_resolved_phase_one p = Ok u \<longleftrightarrow>
     (\<forall>st\<in>set STEPS. id_phase (step_ident st) = PhaseOne \<and> step_role st = RoleEngine \<longrightarrow>
        phase_one_resolved p (step_ident st))"
  unfolding require_resolved_phase_one_def try_each_eq_Ok by auto

lemma require_phase_two_completed_Ok [guard_simps]:
  "require_phase_two_completed p = Ok u \<longleftrightarrow>
     (\<forall>st\<in>set STEPS. id_phase (step_ident st) = PhaseTwo \<longrightarrow> is_completed p (step_ident st))"
  unfolding require_phase_two_completed_def try_each_eq_Ok by (auto simp: guard_simps)

lemma authorize_optimize_iff:
  "authorize RequestOptimize s p f = Ok t \<longleftrightarrow>
     t = RunPhaseOne
     \<and> facts_boot f = BootNormal
     \<and> phase_two_run_once (facts_handoff f) = EvidenceAbsent
     \<and> phase_three_run (facts_handoff f) = EvidenceAbsent
     \<and> safe_boot (facts_handoff f) = EvidenceAbsent
     \<and> \<not> has_phase p PhaseTwo \<and> \<not> has_phase p PhaseThree"
  by (auto simp: guard_simps)

lemma authorize_arm_iff:
  "authorize RequestArmSafeMode s p f = Ok t \<longleftrightarrow>
     t = ArmSafeMode True
     \<and> facts_boot f = BootNormal
     \<and> require_resolved_phase_one p = Ok ()
     \<and> facts_runtime f = VerifiedSelectedExecutable
     \<and> active_reboot_transaction s = None"
  by (auto simp: and_then_eq_Ok require_fact_Ok)

lemma authorize_phase_two_iff:
  "authorize RequestPhaseTwo s p f = Ok t \<longleftrightarrow>
     facts_boot f = BootSafeMode
     \<and> facts_runtime f = VerifiedSelectedExecutable
     \<and> phase1_safe_mode_ready s \<and> phase_one_safe_mode_ready f
     \<and> phase_two_run_once (facts_handoff f) = EvidenceVerified
     \<and> is_completed p PHASE_ONE_SAFE_MODE_HANDOFF
     \<and> \<not> is_skipped p PHASE_TWO_SAFE_BOOT_CLEAR
     \<and> (\<exists>x. active_reboot_transaction s = Some x
          \<and> (if is_completed p PHASE_TWO_SAFE_BOOT_CLEAR
             then t = RunRemainingPhaseTwo \<and> is_authorized_at x PhaseTwoSafeMode
                  \<and> safe_boot (facts_handoff f) = EvidenceAbsent
             else t = RunPhaseTwoStepOne \<and> is_authorized_at x PhaseOneSafeModeArmed
                  \<and> \<not> has_phase_two_later_step p
                  \<and> safe_boot (facts_handoff f) = EvidenceVerified))"
  by (auto simp: and_then_eq_Ok map_err_eq_Ok require_fact_Ok require_evidence_Ok
      require_stage_Ok)

lemma authorize_phase_three_iff:
  "authorize RequestPhaseThree s p f = Ok t \<longleftrightarrow>
     t = RunPhaseThree
     \<and> facts_boot f = BootNormal
     \<and> facts_runtime f = VerifiedSelectedExecutable
     \<and> (\<exists>x. active_reboot_transaction s = Some x \<and> is_authorized_at x PhaseThreeArmed)
     \<and> phase_three_run (facts_handoff f) = EvidenceVerified
     \<and> phase_three_same_user (facts_handoff f) = EvidenceVerified
     \<and> require_phase_two_completed p = Ok ()"
  by (auto simp: and_then_eq_Ok require_fact_Ok require_evidence_Ok require_stage_Ok)

lemma authorize_final_benchmark_iff:
  "authorize RequestFinalBenchmark s p f = Ok t \<longleftrightarrow>
     t = PersistFinalBenchmark
     \<and> facts_boot f = BootNormal
     \<and> facts_runtime f = VerifiedSelectedExecutable
     \<and> (\<exists>x. active_reboot_transaction s = Some x
          \<and> (is_authorized_at x PhaseThreeArmed \<or> is_authorized_at x PhaseThreeComplete))
     \<and> phase_three_run (facts_handoff f) = EvidenceVerified
     \<and> phase_three_same_user (facts_handoff f) = EvidenceVerified
     \<and> require_phase_two_completed p = Ok ()"
  by (auto simp: and_then_eq_Ok require_fact_Ok require_evidence_Ok require_stage_Ok)

lemma authorize_clear_iff:
  "authorize RequestClearPhaseThreeHandoff s p f = Ok t \<longleftrightarrow>
     t = ClearPhaseThreeHandoff
     \<and> (\<exists>x. active_reboot_transaction s = Some x \<and> is_authorized_at x PhaseThreeComplete)
     \<and> phase_three_run (facts_handoff f) = EvidenceVerified
     \<and> phase_three_same_user (facts_handoff f) = EvidenceVerified
     \<and> is_completed p PHASE_THREE_DRIVER_INSTALL
     \<and> is_completed p PHASE_THREE_FINAL_BENCHMARK
     \<and> final_benchmark_persisted f = EvidenceVerified"
  by (auto simp: and_then_eq_Ok map_err_eq_Ok require_fact_Ok require_evidence_Ok require_stage_Ok
      split: evidence.splits)

lemmas authorize_iffs = authorize_optimize_iff authorize_arm_iff authorize_phase_two_iff
  authorize_phase_three_iff authorize_final_benchmark_iff authorize_clear_iff

declare authorize.simps [simp del]

lemma recovery_retains_iff:
  "retain_handoff (recovery_for q x) \<longleftrightarrow>
     compensations (recovery_for q x) \<noteq> [NoneClaimed]"
  by (cases q; cases x) (simp_all add: recovery_for_def)

lemma has_phase_iff:
  "has_phase p ph \<longleftrightarrow>
     (\<exists>st\<in>set STEPS. id_phase (step_ident st) = ph
        \<and> (is_completed p (step_ident st) \<or> is_skipped p (step_ident st)))"
  by (auto simp: has_phase_def list_ex_iff)

lemma has_phase_resolved: "has_phase p ph \<longleftrightarrow> has_resolved_in_phase p ph"
  by (auto simp: has_phase_iff has_resolved_in_phase_def resolved_count_in_phase_def
      filter_empty_conv)

section \<open>Properties\<close>

text \<open>The facts of the platform with everything verified that phase three asks for.\<close>

definition handoff_verified :: handoff_evidence where
  "handoff_verified =
     \<lparr>phase_two_run_once = EvidenceVerified, phase_three_run = EvidenceVerified,
      safe_boot = EvidenceVerified, phase_three_same_user = EvidenceVerified\<rparr>"

definition demo_facts :: "boot_environment \<Rightarrow> phase_facts" where
  "demo_facts boot =
     \<lparr>facts_boot = boot, facts_runtime = VerifiedSelectedExecutable,
      facts_handoff = handoff_verified, phase_one_safe_mode_ready = True,
      final_benchmark_persisted = EvidenceUnavailable\<rparr>"

lemma demo_phase_two_step_one:
  "authorize RequestPhaseTwo (demo_state PhaseOneSafeModeArmed)
     (complete_step PHASE_ONE_SAFE_MODE_HANDOFF [] progress_default) (demo_facts BootSafeMode)
   = Ok RunPhaseTwoStepOne"
proof -
  have later: "\<not> has_phase_two_later_step
      (complete_step PHASE_ONE_SAFE_MODE_HANDOFF [] (progress_default :: unit progress))"
    by (auto simp: has_phase_two_later_step_def list_ex_iff progress_simps
        PHASE_ONE_SAFE_MODE_HANDOFF_def step_id_new_def)
  show ?thesis
    unfolding authorize_phase_two_iff
    using later demo_transaction_authorized
    by (simp add: demo_facts_def demo_state_def handoff_verified_def progress_simps
        named_step_defs step_id_new_def)
qed

text \<open>The pairs of transitions that one state and progress may both be authorized for.\<close>

fun compatible :: "transition \<Rightarrow> transition \<Rightarrow> bool" where
  "compatible RunPhaseOne t \<longleftrightarrow> t = ArmSafeMode True \<or> t = RunPhaseTwoStepOne"
| "compatible RunPhaseThree t \<longleftrightarrow> t = PersistFinalBenchmark"
| "compatible PersistFinalBenchmark t \<longleftrightarrow> t = ClearPhaseThreeHandoff"
| "compatible _ _ \<longleftrightarrow> False"

lemma phase_two_clear_row: "\<exists>st\<in>set STEPS. step_ident st = PHASE_TWO_SAFE_BOOT_CLEAR \<and> id_phase (step_ident st) = PhaseTwo"
proof -
  have "list_ex (\<lambda>st. step_ident st = PHASE_TWO_SAFE_BOOT_CLEAR \<and> id_phase (step_ident st) = PhaseTwo) STEPS"
    by code_simp
  then show ?thesis by (simp add: list_ex_iff)
qed

lemma safe_boot_cleared_has_phase_two: "is_completed p PHASE_TWO_SAFE_BOOT_CLEAR \<Longrightarrow> has_phase p PhaseTwo"
  using phase_two_clear_row by (auto simp: has_phase_iff)

lemma phase_two_completed_has_phase_two: "require_phase_two_completed p = Ok u \<Longrightarrow> has_phase p PhaseTwo"
  using phase_two_clear_row by (auto simp: has_phase_iff require_phase_two_completed_Ok)

lemma phase_three_completed_has_phase_three: "is_completed p PHASE_THREE_DRIVER_INSTALL \<Longrightarrow> has_phase p PhaseThree"
proof -
  have "list_ex (\<lambda>st. step_ident st = PHASE_THREE_DRIVER_INSTALL \<and> id_phase (step_ident st) = PhaseThree) STEPS"
    by code_simp
  then show "is_completed p PHASE_THREE_DRIVER_INSTALL \<Longrightarrow> has_phase p PhaseThree"
    by (auto simp: has_phase_iff list_ex_iff)
qed

lemmas resolved_phases = safe_boot_cleared_has_phase_two phase_two_completed_has_phase_two
  phase_three_completed_has_phase_three

text \<open>
  C2: What is persisted decides how the workflow goes on.  For one state and progress, whatever is found out
  about the platform on either occasion, two different transitions are only ever authorized in four
  combinations: phase one beside arming Safe Mode or beside the first step of phase two, and the final
  benchmark beside phase three or beside clearing the phase three handoff.  On one platform, phase one
  and the first step of phase two exclude each other as well, since they ask for different boots.
\<close>

theorem authorized_transitions_exclude_each_other:
  assumes "authorize q s p f = Ok t" and "authorize q' s p f' = Ok t'"
  shows "(t = t' \<or> compatible t t' \<or> compatible t' t)
     \<and> (facts_boot f = facts_boot f' \<longrightarrow> {t, t'} \<noteq> {RunPhaseOne, RunPhaseTwoStepOne})"
proof
  show "t = t' \<or> compatible t t' \<or> compatible t' t"
    using assms
    by (cases q; cases q') (auto simp: authorize_iffs dest: is_authorized_at_unique resolved_phases split: if_splits)
  show "facts_boot f = facts_boot f' \<longrightarrow> {t, t'} \<noteq> {RunPhaseOne, RunPhaseTwoStepOne}"
    using assms
    by (cases q; cases q') (auto simp: authorize_iffs doubleton_eq_iff split: if_splits)
qed

theorem authorized_transitions_exclude_each_other_witness:
  "authorize RequestPhaseTwo (demo_state PhaseOneSafeModeArmed)
         (complete_step PHASE_ONE_SAFE_MODE_HANDOFF [] progress_default) (demo_facts BootSafeMode)
       = Ok RunPhaseTwoStepOne
     \<and> \<not> (\<exists>q f. authorize q (demo_state PhaseOneSafeModeArmed)
         (complete_step PHASE_ONE_SAFE_MODE_HANDOFF [] progress_default) f = Ok (ArmSafeMode True))"
  using demo_phase_two_step_one authorized_transitions_exclude_each_other [OF demo_phase_two_step_one] by fastforce

text \<open>
  C38: Evidence that could not be inspected never contributes to an authorization: when a request
  is authorized although one of the inspected facts is unavailable, it is authorized in the same
  way whatever that fact turns out to be.
\<close>

theorem unavailable_evidence_never_authorizes:
  assumes "authorize q s p f = Ok t"
  shows "(phase_two_run_once (facts_handoff f) = EvidenceUnavailable \<longrightarrow>
        authorize q s p (f\<lparr>facts_handoff := (facts_handoff f)\<lparr>phase_two_run_once := x\<rparr>\<rparr>) = Ok t)
     \<and> (phase_three_run (facts_handoff f) = EvidenceUnavailable \<longrightarrow>
        authorize q s p (f\<lparr>facts_handoff := (facts_handoff f)\<lparr>phase_three_run := x\<rparr>\<rparr>) = Ok t)
     \<and> (safe_boot (facts_handoff f) = EvidenceUnavailable \<longrightarrow>
        authorize q s p (f\<lparr>facts_handoff := (facts_handoff f)\<lparr>safe_boot := x\<rparr>\<rparr>) = Ok t)
     \<and> (phase_three_same_user (facts_handoff f) = EvidenceUnavailable \<longrightarrow>
        authorize q s p (f\<lparr>facts_handoff := (facts_handoff f)\<lparr>phase_three_same_user := x\<rparr>\<rparr>) = Ok t)
     \<and> (final_benchmark_persisted f = EvidenceUnavailable \<longrightarrow>
        authorize q s p (f\<lparr>final_benchmark_persisted := x\<rparr>) = Ok t)"
proof (intro conjI impI)
  show "authorize q s p (f\<lparr>facts_handoff := (facts_handoff f)\<lparr>phase_two_run_once := x\<rparr>\<rparr>) = Ok t"
    if "phase_two_run_once (facts_handoff f) = EvidenceUnavailable"
    using assms that by (cases q) (auto simp: authorize_iffs split: if_splits)
  show "authorize q s p (f\<lparr>facts_handoff := (facts_handoff f)\<lparr>phase_three_run := x\<rparr>\<rparr>) = Ok t"
    if "phase_three_run (facts_handoff f) = EvidenceUnavailable"
    using assms that by (cases q) (auto simp: authorize_iffs split: if_splits)
  show "authorize q s p (f\<lparr>facts_handoff := (facts_handoff f)\<lparr>safe_boot := x\<rparr>\<rparr>) = Ok t"
    if "safe_boot (facts_handoff f) = EvidenceUnavailable"
    using assms that by (cases q) (auto simp: authorize_iffs split: if_splits)
  show "authorize q s p (f\<lparr>facts_handoff := (facts_handoff f)\<lparr>phase_three_same_user := x\<rparr>\<rparr>) = Ok t"
    if "phase_three_same_user (facts_handoff f) = EvidenceUnavailable"
    using assms that by (cases q) (auto simp: authorize_iffs split: if_splits)
  show "authorize q s p (f\<lparr>final_benchmark_persisted := x\<rparr>) = Ok t"
    if "final_benchmark_persisted f = EvidenceUnavailable"
    using assms that by (cases q) (auto simp: authorize_iffs split: if_splits)
qed

theorem unavailable_evidence_never_authorizes_witness:
  "authorize RequestPhaseTwo (demo_state PhaseOneSafeModeArmed)
     (complete_step PHASE_ONE_SAFE_MODE_HANDOFF [] progress_default)
     ((demo_facts BootSafeMode)\<lparr>final_benchmark_persisted := EvidenceAbsent\<rparr>) = Ok RunPhaseTwoStepOne"
  using unavailable_evidence_never_authorizes [OF demo_phase_two_step_one, of EvidenceAbsent]
  by (simp add: demo_facts_def)

lemma has_phase_default: "\<not> has_phase progress_default ph"
  by (simp add: has_phase_iff progress_simps)

lemma assess_inventory_confirms_iff:
  "(\<forall>h. assess_inventory so po iv \<noteq> Refuse h) \<longleftrightarrow>
     \<not> phase_two_run_once_armed iv \<and> \<not> phase_three_run_armed iv
     \<and> \<not> safe_boot_armed iv \<and> \<not> incomplete_runtime iv
     \<and> (case po of None \<Rightarrow> True
        | Some p \<Rightarrow> \<not> has_phase p PhaseTwo \<and> \<not> has_phase p PhaseThree)
     \<and> (case so of None \<Rightarrow> True
        | Some s \<Rightarrow> \<not> phase1_safe_mode_ready s \<and> active_reboot_transaction s = None
            \<and> \<not> contains_key (st_unknown s) ''activeRebootTransaction'')"
  by (auto simp: assess_inventory_def has_phase_resolved Let_def split: option.splits)

lemma confirmed_legacy_state:
  assumes "\<And>h. assess_inventory so po iv \<noteq> Refuse h"
  shows "active_reboot_transaction (case so of None \<Rightarrow> state_default | Some s \<Rightarrow> s) = None"
    and "\<not> has_phase (case po of None \<Rightarrow> progress_default | Some p \<Rightarrow> p) PhaseTwo"
    and "\<not> has_phase (case po of None \<Rightarrow> progress_default | Some p \<Rightarrow> p) PhaseThree"
  using assess_inventory_confirms_iff [THEN iffD1, OF allI, OF assms] has_phase_default
  by (auto simp: state_default_def split: option.splits)

text \<open>
  C39: A legacy installation that the assessment does not refuse can begin with phase one, and with nothing
  later.  For its documents, absent ones read as their defaults, phase one is authorized on every platform
  without a handoff that booted normally; and on any platform, no request leads past phase one and arming
  Safe Mode.
\<close>

theorem confirmed_legacy_state_begins_anew:
  assumes "\<And>h. assess_inventory so po iv \<noteq> Refuse h"
    and "s = (case so of None \<Rightarrow> state_default | Some s \<Rightarrow> s)"
    and "p = (case po of None \<Rightarrow> progress_default | Some p \<Rightarrow> p)"
  shows "(facts_boot f = BootNormal \<and> require_clean_reboot_state (facts_handoff f) = Ok () \<longrightarrow>
        authorize RequestOptimize s p f = Ok RunPhaseOne)
     \<and> (authorize q s p f = Ok t \<longrightarrow> t = RunPhaseOne \<or> t = ArmSafeMode True)"
proof -
  note confirmed_legacy_state [OF assms(1), folded assms(2,3)]
  then show ?thesis by (cases q) (auto simp: authorize_iffs require_clean_Ok)
qed

lemma demo_phase_one_confirmed:
  "assess_inventory None (Some (complete_step PHASE_ONE_SAFE_MODE_HANDOFF [] (progress_default :: unit progress)))
     migration_inventory_default \<noteq> Refuse h"
proof -
  have "\<not> has_phase (complete_step PHASE_ONE_SAFE_MODE_HANDOFF [] (progress_default :: unit progress)) ph"
    if "ph \<noteq> PhaseOne" for ph
    using that by (auto simp: has_phase_iff progress_simps PHASE_ONE_SAFE_MODE_HANDOFF_def step_id_new_def)
  then show ?thesis
    by (intro assess_inventory_confirms_iff [THEN iffD2, THEN spec]) (simp add: migration_inventory_default_def)
qed

theorem confirmed_legacy_state_begins_anew_witness:
  "authorize RequestOptimize (state_default :: unit state)
     (complete_step PHASE_ONE_SAFE_MODE_HANDOFF [] progress_default)
     ((demo_facts BootNormal)\<lparr>facts_handoff := \<lparr>phase_two_run_once = EvidenceAbsent,
       phase_three_run = EvidenceAbsent, safe_boot = EvidenceAbsent, phase_three_same_user = EvidenceUnavailable\<rparr>\<rparr>)
   = Ok RunPhaseOne"
  using confirmed_legacy_state_begins_anew [OF demo_phase_one_confirmed refl refl]
  by (simp add: demo_facts_def require_clean_Ok)

end
