(* ===== verification/Actions.thy ===== *)
theory Actions
  imports State_Audit Evidence
begin

text \<open>
  The Windows action catalog (\<open>crates/frametime-windows/src/operations/action_catalog.rs\<close>,
  \<open>action_descriptor.rs\<close>, \<open>action_registry_builders.rs\<close>): the native action of every intent,
  the allowlisted command vectors and the execution contract attached to a catalog row.  The
  lemmas relate the contract to the domain catalog: which rows are advisory, which need a durable
  receipt and which need an audit instead of a backup.
\<close>

section \<open>Allowlisted commands\<close>

datatype command_name = Bcdedit | Powercfg | Pnputil | Fsutil | Defrag | Netsh

definition COMMAND_ALLOWLIST :: "command_name list" where
  "COMMAND_ALLOWLIST = [Bcdedit, Powercfg, Pnputil, Fsutil, Defrag, Netsh]"

fun program :: "command_name \<Rightarrow> string" where
  "program Bcdedit = ''bcdedit.exe''"
| "program Powercfg = ''powercfg.exe''"
| "program Pnputil = ''pnputil.exe''"
| "program Fsutil = ''fsutil.exe''"
| "program Defrag = ''defrag.exe''"
| "program Netsh = ''netsh.exe''"

definition from_program :: "string \<Rightarrow> (command_name, string) result" where
  "from_program p =
     (if p = ''bcdedit.exe'' then Ok Bcdedit
      else if p = ''powercfg.exe'' then Ok Powercfg
      else if p = ''pnputil.exe'' then Ok Pnputil
      else if p = ''fsutil.exe'' then Ok Fsutil
      else if p = ''defrag.exe'' then Ok Defrag
      else if p = ''netsh.exe'' then Ok Netsh
      else Err ''system tool is not allowlisted'')"

record command_vector =
  cv_command :: command_name
  cv_arguments :: "string list"

definition unsafe_argument :: "string \<Rightarrow> bool" where
  "unsafe_argument value \<longleftrightarrow>
     value = []
     \<or> list_ex (\<lambda>c. byte c = 0 \<or> c = CHR ''|'' \<or> c = CHR '';'' \<or> byte c = 10 \<or> byte c = 13) value"

definition command_vector_new :: "command_name \<Rightarrow> string list \<Rightarrow> (command_vector, string) result" where
  "command_vector_new command arguments =
     (if command \<notin> set COMMAND_ALLOWLIST then Err ''command is not allowlisted''
      else if list_ex unsafe_argument arguments then Err ''unsafe external-tool argument''
      else Ok \<lparr>cv_command = command, cv_arguments = arguments\<rparr>)"

section \<open>Actions\<close>

datatype hive = LocalMachine | CurrentUser

datatype reg_value = RegDword u32 | RegString string | RegBinary "u8 list"

record registry_change =
  rc_hive :: hive
  rc_key :: string
  rc_name :: string
  rc_value :: reg_value

datatype cs2_registry_action = HighPerformanceGpu

datatype (plugins only: code size) action =
    ActObserveConfigState
  | ActObserveGpuInventory
  | ActObserveChipsetDriver
  | ActObserveMemoryTopology
  | ActBaselineBenchmark
  | ActFinalBenchmark
  | ActFpsCapInfo
  | ActGpuDriverCleanPreparation
  | ActNvidiaDriverDownloadPreparation
  | ActNvidiaDriverRemoval
  | ActNvidiaDriverInstall
  | ActNvidiaProfilePreparation
  | ActNvidiaProfileApply
  | ActSafeModeHandoff
  | ActPhaseThreeHandoff
  | ActMsiPreparation
  | ActNicAffinityPreparation
  | ActNetworkStack
  | ActCs2LaunchVideoGuide
  | ActAmdRadeonGuide
  | ActVramUsageGuide
  | ActFinalChecklistGuide
  | ActRegistryBatch "registry_change list"
  | ActMsiInterrupts
  | ActNicInterruptAffinity
  | ActPagefile
  | ActCs2Registry cs2_registry_action
  | ActCs2Config
  | ActTool command_vector
  | ActAdvisory string

section \<open>Advisory texts\<close>

definition XMP_EXPO_ADVISORY :: string where
  "XMP_EXPO_ADVISORY =
     ''XMP/EXPO observation requires authoritative SMBIOS memory-profile data''"

definition SHADER_CACHE_HEALTH_ADVISORY :: string where
  "SHADER_CACHE_HEALTH_ADVISORY =
     ''P1:3 preserves shader caches. Clear only a diagnosed corrupt cache as a repair action, then compare cold and warmed runs separately.''"

definition FULLSCREEN_OPTIMIZATIONS_ADVISORY :: string where
  "FULLSCREEN_OPTIMIZATIONS_ADVISORY =
     ''P1:4 preserves Windows Fullscreen Optimizations. Use a per-executable opt-out only after a reproducible presentation regression and retain the prior value for recovery.''"

definition POWER_POLICY_ADVISORY :: string where
  "POWER_POLICY_ADVISORY =
     ''P1:6 preserves the active OEM or Windows power policy. Use the OEM gaming mode or Best performance only when plugged in and measurements show throttling.''"

definition HAGS_ADVISORY :: string where
  "HAGS_ADVISORY =
     ''P1:7 preserves the current supported HAGS state. Compare HAGS only as an explicit, reversible A/B experiment after a driver or Windows change.''"

definition RESIZABLE_BAR_ADVISORY :: string where
  "RESIZABLE_BAR_ADVISORY =
     ''Resizable BAR observation requires PCIe capability inspection''"

definition WINDOWS_TIMER_DEFAULTS_ADVISORY :: string where
  "WINDOWS_TIMER_DEFAULTS_ADVISORY =
     ''P1:10 preserves the Windows boot timer defaults. BCDEdit timer switches, including disabledynamictick, are debugging controls and are not gaming tweaks.''"

definition MPO_HEALTH_ADVISORY :: string where
  "MPO_HEALTH_ADVISORY =
     ''P1:11 preserves Multiplane Overlay. Disable MPO only as a reversible workaround for a reproduced compositor, flicker, or presentation fault.''"

definition BACKGROUND_APPS_ADVISORY :: string where
  "BACKGROUND_APPS_ADVISORY =
     ''P1:13 preserves installed applications. Use a temporary clean boot to identify a measured offender before removing software.''"

definition AUTOSTART_INVENTORY_ADVISORY :: string where
  "AUTOSTART_INVENTORY_ADVISORY =
     ''P1:14 inventories startup applications without removing user-selected entries. Disable only a measured offender with explicit consent.''"

definition WINDOWS_UPDATE_ADVISORY :: string where
  "WINDOWS_UPDATE_ADVISORY =
     ''P1:15 preserves Windows Update servicing. Schedule updates outside play rather than disabling update services.''"

definition FAST_STARTUP_ADVISORY :: string where
  "FAST_STARTUP_ADVISORY =
     ''P1:23 preserves Fast Startup. Change it only to diagnose a reproduced shutdown, driver, or dual-boot problem.''"

definition TCP_DEFAULTS_ADVISORY :: string where
  "TCP_DEFAULTS_ADVISORY =
     ''P1:25 preserves interface TCP defaults. TcpNoDelay and TcpAckFrequency do not tune CS2 UDP gameplay.''"

definition FULLSCREEN_PRESENTATION_ADVISORY :: string where
  "FULLSCREEN_PRESENTATION_ADVISORY =
     ''P1:26 preserves the Windows fullscreen-presentation defaults. Test a per-game exception only after measuring a regression with the current compositor and driver.''"

definition MULTIMEDIA_DEFAULTS_ADVISORY :: string where
  "MULTIMEDIA_DEFAULTS_ADVISORY =
     ''P1:27 preserves the documented Windows scheduler, MMCSS, maintenance, memory-manager, and NTFS defaults. Diagnose a specific fault before a reversible, measured exception.''"

definition TIMER_REQUEST_ADVISORY :: string where
  "TIMER_REQUEST_ADVISORY =
     ''P1:28 preserves Windows timer-request defaults. Do not install a global timer registry policy as a gaming preset.''"

definition POINTER_PREFERENCE_ADVISORY :: string where
  "POINTER_PREFERENCE_ADVISORY =
     ''P1:29 preserves the user's Windows pointer preference. Acceleration off is a consistency preference, not a frametime optimization.''"

definition GAME_DVR_ADVISORY :: string where
  "GAME_DVR_ADVISORY =
     ''P1:31 preserves capture features. Disable Game DVR only for a measured conflict or controlled benchmark session.''"

definition OVERLAY_ADVISORY :: string where
  "OVERLAY_ADVISORY =
     ''P1:32 preserves overlay preferences. Disable only a measured conflicting overlay, and keep capture tooling mutually exclusive.''"

definition AUDIO_STACK_ADVISORY :: string where
  "AUDIO_STACK_ADVISORY =
     ''P1:33 preserves the current audio stack. Device, EQ, spatialization, and buffer choices require device-specific tests.''"

definition VISUAL_EFFECTS_ADVISORY :: string where
  "VISUAL_EFFECTS_ADVISORY =
     ''P1:36 preserves visual-effects and Auto HDR preferences. Select them for display consistency or measured cost, not as a universal latency preset.''"

definition WINDOWS_SERVICES_ADVISORY :: string where
  "WINDOWS_SERVICES_ADVISORY =
     ''P1:37 preserves Windows service defaults. Use a temporary clean boot or targeted diagnosis for a measured background offender rather than a service-disable preset.''"

definition VBS_HVCI_ADVISORY :: string where
  "VBS_HVCI_ADVISORY =
     ''P3:7 preserves VBS, HVCI, and Memory Integrity. Disabling kernel protections is not an optimization baseline.''"

definition DNS_ADVISORY :: string where
  "DNS_ADVISORY =
     ''P3:9 preserves the configured resolver. DNS affects name resolution, not an established CS2 match flow.''"

definition PROCESS_PRIORITY_ADVISORY :: string where
  "PROCESS_PRIORITY_ADVISORY =
     ''P3:10 preserves Normal process priority. Do not force IFEO priority or affinity as a general CS2 preset; test an explicit, reversible exception with system-wide measurements.''"

section \<open>The action of an intent\<close>

definition game_bar_key :: string where
  "game_bar_key =
     ''SOFTWARE'' @ [char_of (92 :: nat)] @ ''Microsoft'' @ [char_of (92 :: nat)] @ ''GameBar''"

fun native_action_for :: "action_intent \<Rightarrow> (action, string) result" where
  "native_action_for IntentConfiguration = Ok ActObserveConfigState"
| "native_action_for IntentXmpExpoCheck = Ok (ActAdvisory XMP_EXPO_ADVISORY)"
| "native_action_for IntentShaderCacheHealth = Ok (ActAdvisory SHADER_CACHE_HEALTH_ADVISORY)"
| "native_action_for IntentFullscreenOptimizationsCheck = Ok (ActAdvisory FULLSCREEN_OPTIMIZATIONS_ADVISORY)"
| "native_action_for IntentNvidiaDriverInventory = Ok ActObserveGpuInventory"
| "native_action_for IntentPowerPolicyGuidance = Ok (ActAdvisory POWER_POLICY_ADVISORY)"
| "native_action_for IntentHagsCheck = Ok (ActAdvisory HAGS_ADVISORY)"
| "native_action_for IntentPagefile = Ok ActPagefile"
| "native_action_for IntentResizableBarCheck = Ok (ActAdvisory RESIZABLE_BAR_ADVISORY)"
| "native_action_for IntentWindowsTimerDefaults = Ok (ActAdvisory WINDOWS_TIMER_DEFAULTS_ADVISORY)"
| "native_action_for IntentMpoHealthCheck = Ok (ActAdvisory MPO_HEALTH_ADVISORY)"
| "native_action_for IntentGameMode = 
     Ok (ActRegistryBatch
       [\<lparr>rc_hive = CurrentUser, rc_key = game_bar_key, rc_name = ''AllowAutoGameMode'',
         rc_value = RegDword 1\<rparr>,
        \<lparr>rc_hive = CurrentUser, rc_key = game_bar_key, rc_name = ''AutoGameModeEnabled'',
         rc_value = RegDword 1\<rparr>])"
| "native_action_for IntentBackgroundAppGuidance = Ok (ActAdvisory BACKGROUND_APPS_ADVISORY)"
| "native_action_for IntentAutostartInventory = Ok (ActAdvisory AUTOSTART_INVENTORY_ADVISORY)"
| "native_action_for IntentWindowsUpdateStatus = Ok (ActAdvisory WINDOWS_UPDATE_ADVISORY)"
| "native_action_for IntentRssBaseline = Ok ActNetworkStack"
| "native_action_for IntentBaselineBenchmark = Ok ActBaselineBenchmark"
| "native_action_for IntentGpuDriverCleanPreparation = Ok ActGpuDriverCleanPreparation"
| "native_action_for IntentNvidiaDriverDownloadPreparation = Ok ActNvidiaDriverDownloadPreparation"
| "native_action_for IntentNvidiaProfilePreparation = Ok ActNvidiaProfilePreparation"
| "native_action_for IntentMsiPreparation = Ok ActMsiPreparation"
| "native_action_for IntentNicAffinityPreparation = Ok ActNicAffinityPreparation"
| "native_action_for IntentFastStartupGuidance = Ok (ActAdvisory FAST_STARTUP_ADVISORY)"
| "native_action_for IntentMemoryTopology = Ok ActObserveMemoryTopology"
| "native_action_for IntentTcpDefaultsGuidance = Ok (ActAdvisory TCP_DEFAULTS_ADVISORY)"
| "native_action_for IntentFullscreenPresentationGuidance = Ok (ActAdvisory FULLSCREEN_PRESENTATION_ADVISORY)"
| "native_action_for IntentMultimediaDefaultsGuidance = Ok (ActAdvisory MULTIMEDIA_DEFAULTS_ADVISORY)"
| "native_action_for IntentTimerRequestGuidance = Ok (ActAdvisory TIMER_REQUEST_ADVISORY)"
| "native_action_for IntentPointerPreferenceGuidance = Ok (ActAdvisory POINTER_PREFERENCE_ADVISORY)"
| "native_action_for IntentCs2HighPerformanceGpu = Ok (ActCs2Registry HighPerformanceGpu)"
| "native_action_for IntentGameDvrGuidance = Ok (ActAdvisory GAME_DVR_ADVISORY)"
| "native_action_for IntentOverlayGuidance = Ok (ActAdvisory OVERLAY_ADVISORY)"
| "native_action_for IntentAudioStackGuidance = Ok (ActAdvisory AUDIO_STACK_ADVISORY)"
| "native_action_for IntentCs2Configuration = Ok ActCs2Config"
| "native_action_for IntentChipsetDriverInventory = Ok ActObserveChipsetDriver"
| "native_action_for IntentVisualEffectsGuidance = Ok (ActAdvisory VISUAL_EFFECTS_ADVISORY)"
| "native_action_for IntentWindowsServicesGuidance = Ok (ActAdvisory WINDOWS_SERVICES_ADVISORY)"
| "native_action_for IntentSafeModeHandoff = Ok ActSafeModeHandoff"
| "native_action_for IntentClearSafeBoot = 
     and_then (command_vector_new Bcdedit [''/deletevalue'', ''{current}'', ''safeboot''])
       (\<lambda>v. Ok (ActTool v))"
| "native_action_for IntentNvidiaDriverRemoval = Ok ActNvidiaDriverRemoval"
| "native_action_for IntentPhaseThreeHandoff = Ok ActPhaseThreeHandoff"
| "native_action_for IntentNvidiaDriverInstall = Ok ActNvidiaDriverInstall"
| "native_action_for IntentMsiInterrupts = Ok ActMsiInterrupts"
| "native_action_for IntentNicInterruptAffinity = Ok ActNicInterruptAffinity"
| "native_action_for IntentNvidiaProfileApply = Ok ActNvidiaProfileApply"
| "native_action_for IntentFpsCapInfo = Ok ActFpsCapInfo"
| "native_action_for IntentCs2LaunchVideoGuidance = Ok ActCs2LaunchVideoGuide"
| "native_action_for IntentVbsHvciGuidance = Ok (ActAdvisory VBS_HVCI_ADVISORY)"
| "native_action_for IntentAmdRadeonGuidance = Ok ActAmdRadeonGuide"
| "native_action_for IntentDnsGuidance = Ok (ActAdvisory DNS_ADVISORY)"
| "native_action_for IntentProcessPriorityGuidance = Ok (ActAdvisory PROCESS_PRIORITY_ADVISORY)"
| "native_action_for IntentVramUsageGuidance = Ok ActVramUsageGuide"
| "native_action_for IntentFinalChecklistGuidance = Ok ActFinalChecklistGuide"
| "native_action_for IntentFinalBenchmark = Ok ActFinalBenchmark"

section \<open>Descriptors\<close>

datatype capability = Supported | AdvisoryOnly string

datatype required_input = ValidatedConfig | GpuBranchInput

record action_descriptor =
  ad_id :: step_id
  ad_intent :: action_intent
  ad_operation :: operation_kind_t
  ad_gpu_applicability :: gpu_applicability_t
  ad_orchestration_role :: orchestration_role_t
  ad_action :: action
  ad_capability :: capability
  ad_required_inputs :: "required_input list"
  ad_recovery_requirement :: recovery_requirement
  ad_evidence_requirement :: evidence_requirement

fun action_capability :: "action \<Rightarrow> capability" where
  "action_capability (ActAdvisory reason) = AdvisoryOnly reason"
| "action_capability _ = Supported"

fun action_required_inputs :: "action \<Rightarrow> required_input list" where
  "action_required_inputs ActObserveConfigState = [ValidatedConfig]"
| "action_required_inputs ActPagefile = [GpuBranchInput]"
| "action_required_inputs (ActCs2Registry _) = [GpuBranchInput]"
| "action_required_inputs ActCs2Config = [GpuBranchInput]"
| "action_required_inputs ActNvidiaProfilePreparation = [GpuBranchInput]"
| "action_required_inputs ActNvidiaProfileApply = [GpuBranchInput]"
| "action_required_inputs _ = []"

fun action_recovery_requirement :: "action \<Rightarrow> recovery_requirement" where
  "action_recovery_requirement ActNvidiaDriverRemoval = ManualRecoveryAuditRequired"
| "action_recovery_requirement ActNvidiaDriverInstall = ManualRecoveryAuditRequired"
| "action_recovery_requirement _ = LosslessBackup"

fun action_evidence_requirement :: "action \<Rightarrow> evidence_requirement" where
  "action_evidence_requirement ActGpuDriverCleanPreparation = DurableReceipt"
| "action_evidence_requirement ActNvidiaProfilePreparation = DurableReceipt"
| "action_evidence_requirement ActMsiPreparation = DurableReceipt"
| "action_evidence_requirement ActNicAffinityPreparation = DurableReceipt"
| "action_evidence_requirement _ = EvidenceNone"

definition action_descriptor_new :: "step \<Rightarrow> action \<Rightarrow> action_descriptor" where
  "action_descriptor_new st a =
     \<lparr>ad_id = step_ident st, ad_intent = intent st, ad_operation = step_operation st,
      ad_gpu_applicability = step_gpu st, ad_orchestration_role = step_role st, ad_action = a,
      ad_capability = action_capability a, ad_required_inputs = action_required_inputs a,
      ad_recovery_requirement = action_recovery_requirement a,
      ad_evidence_requirement = action_evidence_requirement a\<rparr>"

definition descriptor_for :: "step \<Rightarrow> (action_descriptor, string) result" where
  "descriptor_for st =
     and_then (native_action_for (intent st)) (\<lambda>a. Ok (action_descriptor_new st a))"

definition action_for :: "step \<Rightarrow> (action, string) result" where
  "action_for st = and_then (descriptor_for st) (\<lambda>d. Ok (ad_action d))"

fun required_inputs_label :: "required_input list \<Rightarrow> string" where
  "required_inputs_label [] = ''no additional native inputs''"
| "required_inputs_label [ValidatedConfig] = ''a validated frametime.toml configuration''"
| "required_inputs_label [GpuBranchInput] = ''a validated GPU branch''"
| "required_inputs_label _ = ''validated native inputs''"

section \<open>The contract of the catalog rows\<close>

text \<open>What a property of the catalog looks at, row by row.\<close>

definition descriptor_holds :: "(action_descriptor \<Rightarrow> bool) \<Rightarrow> step \<Rightarrow> bool" where
  "descriptor_holds p st = (case descriptor_for st of Ok d \<Rightarrow> p d | Err _ \<Rightarrow> False)"

lemma descriptors_checked:
  "list_all (\<lambda>st. descriptor_holds (\<lambda>d.
      (ad_capability d = Supported \<or> check_only st)
      \<and> ((ad_evidence_requirement d = DurableReceipt)
      = (progress_key (step_ident st) \<in> {''P1:18'', ''P1:20'', ''P1:21'', ''P1:22''}))
      \<and> ad_recovery_requirement d =
        (if progress_key (step_ident st) \<in> {''P2:2'', ''P3:1''} then ManualRecoveryAuditRequired
         else LosslessBackup)) st) STEPS"
  by code_simp

lemma descriptor_holds_mono:
  "list_all (\<lambda>st. descriptor_holds (p st) st) steps \<Longrightarrow> (\<And>st d. p st d \<Longrightarrow> q st d)
     \<Longrightarrow> list_all (\<lambda>st. descriptor_holds (q st) st) steps"
  by (auto simp: list_all_iff descriptor_holds_def split: result.splits)

lemma descriptors_total: "list_all (descriptor_holds (\<lambda>_. True)) STEPS"
  using descriptor_holds_mono [OF descriptors_checked, of "\<lambda>_ _. True"] by simp

lemma command_vector_new_Ok:
  "command_vector_new c as = Ok v \<longleftrightarrow>
     (\<forall>a\<in>set as. \<not> unsafe_argument a) \<and> v = \<lparr>cv_command = c, cv_arguments = as\<rparr>"
  by (cases c) (auto simp: command_vector_new_def COMMAND_ALLOWLIST_def list_ex_iff)

lemma from_program_program [simp]: "from_program (program c) = Ok c"
  by (cases c) (simp_all add: from_program_def)

lemma from_program_Ok: "from_program p = Ok c \<longleftrightarrow> p = program c"
proof
  assume "from_program p = Ok c"
  then show "p = program c" by (auto simp: from_program_def split: if_splits)
qed simp

lemma descriptor_for_Ok:
  "descriptor_for st = Ok d \<longleftrightarrow>
     (\<exists>a. native_action_for (intent st) = Ok a \<and> d = action_descriptor_new st a)"
  by (auto simp: descriptor_for_def guard_simps)

section \<open>Properties\<close>

text \<open>
  Only the six programs of the allow-list can be named, and a command vector is built exactly
  when none of its arguments is unsafe, with its arguments unchanged.
\<close>

theorem command_vectors_are_closed:
  "(from_program name = Ok command \<longleftrightarrow> name = program command)
     \<and> (command_vector_new command arguments = Ok v \<longleftrightarrow>
          list_ex unsafe_argument arguments = False
          \<and> v = \<lparr>cv_command = command, cv_arguments = arguments\<rparr>)"
  by (auto simp: from_program_Ok command_vector_new_Ok list_ex_iff)

end
