(* ===== verification/Reboot_Handoff.thy ===== *)
theory Reboot_Handoff
  imports Call_Log Driver_Transaction Benchmark Orchestration Actions
begin

text \<open>
  The native reboot handoff (\<open>crates/frametime-windows/src/reboot/handoff.rs\<close>) and its inspection
  (\<open>reboot/hardware.rs\<close>): the writes to the registry, to the boot configuration and to the two documents
  by which a phase hands over to the next, over a record of what Windows and the disk answer.
\<close>

section \<open>The host\<close>

text \<open>
  The trusted directory and its lock, the documents (\<open>there\<close> is \<open>Path::exists\<close>), the typed registry calls,
  \<open>execute_allowlisted\<close>, the random bytes, the local time, and \<open>ShellExecuteExW\<close>.
\<close>

record ('w, 'v) handoff_host =
  hh_user_sid :: "('w, string, string) io"
  hh_acquire_fixed :: "('w, string, unit) io"
  hh_acquire :: "('w, string, unit) io"
  hh_lock :: "('w, string, unit) io"
  hh_state_there :: "'w \<Rightarrow> bool \<times> 'w"
  hh_read_state :: "('w, string, 'v state) io"
  hh_write_state :: "'v state \<Rightarrow> ('w, string, unit) io"
  hh_progress_there :: "'w \<Rightarrow> bool \<times> 'w"
  hh_read_progress :: "('w, string, 'v progress) io"
  hh_write_progress :: "'v progress \<Rightarrow> ('w, string, unit) io"
  hh_history_there :: "'w \<Rightarrow> bool \<times> 'w"
  hh_read_history :: "('w, string, 'v benchmark_record list) io"
  hh_registry_read :: "registry_change \<Rightarrow> ('w, string, reg_value option) io"
  hh_registry_read_exact :: "registry_change \<Rightarrow> ('w, string, reg_value option) io"
  hh_registry_write :: "registry_change \<Rightarrow> ('w, string, unit) io"
  hh_registry_delete :: "hive \<Rightarrow> string \<Rightarrow> string \<Rightarrow> ('w, string, unit) io"
  hh_execute :: "command_name \<Rightarrow> string list \<Rightarrow> ('w, string, string) io"
  hh_gen_random :: "('w, string, u8 list) io"
  hh_timestamp :: "'w \<Rightarrow> string \<times> 'w"
  hh_shell_execute :: "string option \<Rightarrow> string \<Rightarrow> string \<Rightarrow> ('w, string, unit) io"
  hh_runtime_integrity :: "('w, string, unit) io"
  hh_clean_boot :: "'w \<Rightarrow> u32 \<times> 'w"

text \<open>The executable of the selected runtime is \<open>None\<close> when its path is not Unicode.\<close>

record 'v selected_runtime =
  sr_record :: "'v runtime_record"
  sr_executable :: "string option"

definition WINDOWS_WORK_DIR :: string where
  "WINDOWS_WORK_DIR = ''C:'' @ backslash @ ''FRAMETIME_CFG''"

definition RUNONCE_KEY :: string where
  "RUNONCE_KEY = ''SOFTWARE'' @ backslash @ ''Microsoft'' @ backslash @ ''Windows'' @ backslash @ ''CurrentVersion''
     @ backslash @ ''RunOnce''"

definition RUN_KEY :: string where
  "RUN_KEY = ''SOFTWARE'' @ backslash @ ''Microsoft'' @ backslash @ ''Windows'' @ backslash @ ''CurrentVersion''
     @ backslash @ ''Run''"

definition PHASE2_HANDOFF :: string where
  "PHASE2_HANDOFF = ''*!FRAMETIME_Phase2''"

definition PHASE3_HANDOFF :: string where
  "PHASE3_HANDOFF = ''FRAMETIME_CFG_FRAMETIME_Phase3''"

section \<open>Safe Boot\<close>

datatype (plugins only: code size) safeboot_evidence = SafebootConfigured string | SafebootAbsent | SafebootUnavailable

text \<open>\<open>find_map\<close> over the lines: the first line that starts with \<open>safeboot\<close>.\<close>

fun first_safeboot :: "string list \<Rightarrow> string option" where
  "first_safeboot [] = None"
| "first_safeboot (l # ls) =
     (case strip_prefix ''safeboot'' (trim l) of
        Some value \<Rightarrow> Some (trim value)
      | None \<Rightarrow> first_safeboot ls)"

definition safeboot_evidence_from_bcd :: "string \<Rightarrow> safeboot_evidence" where
  "safeboot_evidence_from_bcd t =
     (case first_safeboot (lines t) of
        Some value \<Rightarrow>
          if value \<in> {''minimal'', ''network'', ''dsrepair''} then SafebootConfigured value else SafebootUnavailable
      | None \<Rightarrow> SafebootAbsent)"

definition run_tool_vector :: "('w, 'v) handoff_host \<Rightarrow> command_name \<Rightarrow> string list \<Rightarrow> ('w, string, string) io" where
  "run_tool_vector H command arguments =
     io_bind (io_check (command_vector_new command arguments)) (\<lambda>c. hh_execute H (cv_command c) (cv_arguments c))"

definition safeboot_evidence_of :: "('w, 'v) handoff_host \<Rightarrow> ('w, string, safeboot_evidence) io" where
  "safeboot_evidence_of H =
     io_match (run_tool_vector H Bcdedit [''/enum'', ''{current}'']) (\<lambda>r.
     case r of
       Err _ \<Rightarrow> io_ret SafebootUnavailable
     | Ok t \<Rightarrow> io_ret (safeboot_evidence_from_bcd t))"

definition set_safeboot_minimal :: "('w, 'v) handoff_host \<Rightarrow> ('w, string, unit) io" where
  "set_safeboot_minimal H =
     io_bind (io_map_err (\<lambda>e. ''P1:38 set safeboot: '' @ e)
       (run_tool_vector H Bcdedit [''/set'', ''{current}'', ''safeboot'', ''minimal''])) (\<lambda>_.
     io_bind (safeboot_evidence_of H) (\<lambda>evidence.
     if evidence = SafebootConfigured ''minimal'' then io_ret ()
     else io_fail ''P1:38 safeboot readback differs; retry recovery''))"

definition clear_safeboot :: "('w, 'v) handoff_host \<Rightarrow> ('w, string, unit) io" where
  "clear_safeboot H =
     io_bind (io_map_err (\<lambda>e. ''P2:1 clear safeboot: '' @ e)
       (run_tool_vector H Bcdedit [''/deletevalue'', ''{current}'', ''safeboot''])) (\<lambda>_.
     io_bind (safeboot_evidence_of H) (\<lambda>evidence.
     if evidence = SafebootAbsent then io_ret ()
     else io_fail ''P2:1 safeboot still configured or unreadable; retry recovery''))"

section \<open>The handoff values\<close>

definition handoff_command :: "string option \<Rightarrow> string \<Rightarrow> (string, string) result" where
  "handoff_command executable arguments =
     and_then (ok_or ''selected runtime path is not Unicode'' executable) (\<lambda>path.
     if list_ex (\<lambda>c. byte c = 0 \<or> c = CHR 0x22 \<or> byte c = 13 \<or> byte c = 10) path
        \<or> list_ex (\<lambda>c. byte c = 0 \<or> byte c = 13 \<or> byte c = 10) arguments
     then Err ''selected runtime command is unsafe''
     else Ok (CHR 0x22 # path @ CHR 0x22 # '' '' @ arguments))"

definition handoff_change :: "hive \<Rightarrow> string \<Rightarrow> string \<Rightarrow> string \<Rightarrow> registry_change" where
  "handoff_change h k name value = \<lparr>rc_hive = h, rc_key = k, rc_name = name, rc_value = RegString value\<rparr>"

definition read_handoff_value ::
  "('w, 'v) handoff_host \<Rightarrow> hive \<Rightarrow> string \<Rightarrow> string \<Rightarrow> ('w, string, string option) io" where
  "read_handoff_value H h k name =
     io_bind (hh_registry_read_exact H (handoff_change h k name '''')) (\<lambda>value.
     case value of
       Some (RegString v) \<Rightarrow> io_ret (Some v)
     | None \<Rightarrow> io_ret None
     | _ \<Rightarrow> io_fail ''handoff registry value is not a string'')"

definition require_exact_handoff ::
  "('w, 'v) handoff_host \<Rightarrow> hive \<Rightarrow> string \<Rightarrow> string \<Rightarrow> string \<Rightarrow> string \<Rightarrow> ('w, string, unit) io" where
  "require_exact_handoff H h k name expected prefix =
     io_bind (read_handoff_value H h k name) (\<lambda>value.
     if value = Some expected then io_ret ()
     else io_fail (prefix @ '' handoff readback is absent or differs; retry recovery''))"

definition ensure_handoff_value ::
  "('w, 'v) handoff_host \<Rightarrow> hive \<Rightarrow> string \<Rightarrow> string \<Rightarrow> string \<Rightarrow> string \<Rightarrow> ('w, string, unit) io" where
  "ensure_handoff_value H h k name expected prefix =
     io_bind (read_handoff_value H h k name) (\<lambda>value.
     case value of
       Some v \<Rightarrow>
         if v = expected then io_ret ()
         else io_fail (prefix @ '' existing handoff value differs; retain it for recovery'')
     | None \<Rightarrow>
         io_bind (io_map_err (\<lambda>e. prefix @ '' register handoff: '' @ e)
           (hh_registry_write H (handoff_change h k name expected))) (\<lambda>_.
         require_exact_handoff H h k name expected prefix))"

section \<open>The documents\<close>

definition read_state_for_handoff :: "('w, 'v) handoff_host \<Rightarrow> ('w, string, 'v state) io" where
  "read_state_for_handoff H =
     io_bind (io_call (hh_state_there H)) (\<lambda>there.
     if \<not> there then io_ret state_default
     else
       io_bind (io_map_err (\<lambda>e. ''read reboot transaction state: '' @ e) (hh_read_state H)) (\<lambda>s.
       io_bind (io_check (state_validate s)) (\<lambda>_.
       if eq_ignore_ascii_case (st_work_dir s) WINDOWS_WORK_DIR then io_ret s
       else io_fail (''state workDir must be C:'' @ backslash @ ''FRAMETIME_CFG''))))"

definition read_progress_for_handoff :: "('w, 'v) handoff_host \<Rightarrow> ('w, string, 'v progress) io" where
  "read_progress_for_handoff H =
     io_bind (io_call (hh_progress_there H)) (\<lambda>there.
     if \<not> there then io_ret progress_default
     else io_map_err (\<lambda>e. ''read reboot handoff progress: '' @ e) (hh_read_progress H))"

definition read_handoff_session :: "('w, 'v) handoff_host \<Rightarrow> ('w, string, 'v state \<times> 'v progress) io" where
  "read_handoff_session H =
     io_bind (hh_acquire H) (\<lambda>_.
     io_bind (read_state_for_handoff H) (\<lambda>s.
     io_bind (read_progress_for_handoff H) (\<lambda>p.
     io_ret (s, p))))"

definition persist_state_readback ::
  "('w, 'v) handoff_host \<Rightarrow> 'v state \<Rightarrow> string \<Rightarrow> ('w, string, unit) io" where
  "persist_state_readback H s prefix =
     io_bind (hh_acquire H) (\<lambda>_.
     io_bind (io_map_err (\<lambda>e. prefix @ '' persist state: '' @ e) (hh_write_state H s)) (\<lambda>_.
     io_bind (io_map_err (\<lambda>e. prefix @ '' read back state: '' @ e) (read_state_for_handoff H)) (\<lambda>persisted.
     if persisted = s then io_ret () else io_fail (prefix @ '' state readback differs; retry recovery''))))"

definition persist_progress_readback ::
  "('w, 'v) handoff_host \<Rightarrow> 'v progress \<Rightarrow> string \<Rightarrow> ('w, string, unit) io" where
  "persist_progress_readback H p prefix =
     io_bind (hh_acquire H) (\<lambda>_.
     io_bind (io_map_err (\<lambda>e. prefix @ '' persist progress: '' @ e) (hh_write_progress H p)) (\<lambda>_.
     io_bind (io_map_err (\<lambda>e. prefix @ '' read back progress: '' @ e) (read_progress_for_handoff H)) (\<lambda>persisted.
     if persisted = p then io_ret () else io_fail (prefix @ '' progress readback differs; retry recovery''))))"

section \<open>The transaction\<close>

definition hex_digit :: "nat \<Rightarrow> char" where
  "hex_digit d = char_of (if d < 10 then 48 + d else 87 + d)"

definition lower_hex :: "u8 list \<Rightarrow> string" where
  "lower_hex bytes = concat (map (\<lambda>b. [hex_digit (unat b div 16), hex_digit (unat b mod 16)]) bytes)"

definition random_transaction_id :: "('w, 'v) handoff_host \<Rightarrow> ('w, string, transaction_id) io" where
  "random_transaction_id H =
     io_bind (hh_gen_random H) (\<lambda>bytes. io_check (transaction_id_parse (lower_hex bytes)))"

definition new_transaction ::
  "('w, 'v) handoff_host \<Rightarrow> 'v runtime_record \<Rightarrow> string \<Rightarrow> ('w, string, 'v reboot_transaction) io" where
  "new_transaction H runtime sid =
     io_bind (random_transaction_id H) (\<lambda>i.
     io_bind (io_call (hh_timestamp H)) (\<lambda>created.
     io_bind (io_call (hh_timestamp H)) (\<lambda>updated.
     let t = \<lparr>tx_schema_version = 1, tx_id = Some i, tx_user_sid = Some sid, tx_stage = PhaseOneSafeModeArmed,
              tx_runtime = Some runtime, tx_driver_package = None, tx_created_utc = Some created,
              tx_updated_utc = Some updated, tx_unknown = fmempty\<rparr> in
     if is_authorized_at t PhaseOneSafeModeArmed then io_ret t
     else io_fail ''P1:38 generated invalid reboot transaction'')))"

definition require_runtime_and_stage ::
  "'v reboot_transaction \<Rightarrow> 'v runtime_record \<Rightarrow> reboot_stage \<Rightarrow> string \<Rightarrow> (unit, string) result" where
  "require_runtime_and_stage t runtime stage prefix =
     (if \<not> is_authorized_at t stage \<or> tx_runtime t \<noteq> Some runtime
      then Err (prefix @ '' transaction runtime or stage differs; retain handoff for recovery'')
      else Ok ())"

section \<open>The checkpoints\<close>

definition arm_safe_mode_handoff ::
  "('w, 'v) handoff_host \<Rightarrow> 'v selected_runtime \<Rightarrow> ('w, string, unit) io" where
  "arm_safe_mode_handoff H rt =
     io_bind (io_map_err (\<lambda>e. ''P1:38 TokenUser: '' @ e) (hh_user_sid H)) (\<lambda>sid.
     io_bind (io_check (handoff_command (sr_executable rt) ''phase2 --yes'')) (\<lambda>phase2.
     io_bind (hh_acquire_fixed H) (\<lambda>_.
     io_bind (hh_lock H) (\<lambda>_.
     io_bind (read_handoff_session H) (\<lambda>(s, p).
     io_bind
       (case active_reboot_transaction s of
          Some existing \<Rightarrow>
            if is_authorized_at existing PhaseOneSafeModeArmed \<and> tx_runtime existing = Some (sr_record rt)
               \<and> tx_user_sid existing = Some sid
            then io_ret existing
            else io_fail ''P1:38 active reboot transaction differs; retain it for recovery''
        | None \<Rightarrow> new_transaction H (sr_record rt) sid) (\<lambda>t.
     io_bind (ensure_handoff_value H LocalMachine RUNONCE_KEY PHASE2_HANDOFF phase2 ''P1:38'') (\<lambda>_.
     io_bind (set_safeboot_minimal H) (\<lambda>_.
     io_bind (persist_state_readback H
       (s\<lparr>phase1_safe_mode_ready := True, active_reboot_transaction := Some t\<rparr>) ''P1:38'') (\<lambda>_.
     io_bind (io_call (hh_timestamp H)) (\<lambda>now.
     persist_progress_readback H (complete_step PHASE_ONE_SAFE_MODE_HANDOFF now p) ''P1:38''))))))))))"

definition complete_phase_two_safe_boot_clear ::
  "('w, 'v) handoff_host \<Rightarrow> 'v selected_runtime \<Rightarrow> ('w, string, unit) io" where
  "complete_phase_two_safe_boot_clear H rt =
     io_bind (hh_acquire_fixed H) (\<lambda>_.
     io_bind (hh_lock H) (\<lambda>_.
     io_bind (read_handoff_session H) (\<lambda>(s, p).
     io_bind (io_check (ok_or ''P2:1 reboot transaction is missing'' (active_reboot_transaction s))) (\<lambda>t.
     io_bind (io_check (require_runtime_and_stage t (sr_record rt) PhaseOneSafeModeArmed ''P2:1'')) (\<lambda>_.
     io_bind (io_check (handoff_command (sr_executable rt) ''phase2 --yes'')) (\<lambda>phase2.
     io_bind (require_exact_handoff H LocalMachine RUNONCE_KEY PHASE2_HANDOFF phase2 ''P2:1'') (\<lambda>_.
     io_bind (clear_safeboot H) (\<lambda>_.
     io_bind (io_check (map_err (\<lambda>e. ''P2:1 stage: '' @ e) (transition_to t PhaseTwoSafeMode))) (\<lambda>t'.
     io_bind (persist_state_readback H (s\<lparr>active_reboot_transaction := Some t'\<rparr>) ''P2:1'') (\<lambda>_.
     io_bind (io_call (hh_timestamp H)) (\<lambda>now.
     persist_progress_readback H (complete_step PHASE_TWO_SAFE_BOOT_CLEAR now p) ''P2:1'')))))))))))"

text \<open>The driver transaction is read by \<open>load_driver_transaction_at\<close>, which is an argument here.\<close>

definition arm_phase_three_handoff ::
  "('w, 'v) handoff_host \<Rightarrow> ('w, string, 'v driver_transaction option) io \<Rightarrow> 'v selected_runtime
     \<Rightarrow> ('w, string, unit) io" where
  "arm_phase_three_handoff H load_driver rt =
     io_bind (io_map_err (\<lambda>e. ''P2:3 TokenUser: '' @ e) (hh_user_sid H)) (\<lambda>sid.
     io_bind (io_check (handoff_command (sr_executable rt) ''phase3-handoff'')) (\<lambda>phase3.
     io_bind (hh_acquire_fixed H) (\<lambda>_.
     io_bind (hh_lock H) (\<lambda>_.
     io_bind load_driver (\<lambda>loaded.
     io_bind (io_check (ok_or ''P2:3 requires durable P1:18/P1:19 NVIDIA transaction evidence'' loaded)) (\<lambda>driver.
     if \<not> removal_complete driver
     then io_fail ''P2:3 requires coherent P2:2 removal evidence; retain the Phase 2 handoff''
     else
       io_bind (read_handoff_session H) (\<lambda>(s, p).
       if Session.key 2 2 |\<notin>| completed_steps p
       then io_fail ''P2:3 requires completed P2:2; retain the Phase 2 handoff''
       else
         io_bind (io_check (ok_or ''P2:3 reboot transaction is missing'' (active_reboot_transaction s))) (\<lambda>t.
         io_bind (io_check (require_runtime_and_stage t (sr_record rt) PhaseTwoSafeMode ''P2:3'')) (\<lambda>_.
         if tx_user_sid t \<noteq> Some sid
         then io_fail ''P2:3 TokenUser differs from the initiating handoff user''
         else
           io_bind (ensure_handoff_value H CurrentUser RUN_KEY PHASE3_HANDOFF phase3 ''P2:3'') (\<lambda>_.
           io_bind (io_check (map_err (\<lambda>e. ''P2:3 stage: '' @ e) (transition_to t PhaseThreeArmed))) (\<lambda>t'.
           io_bind (persist_state_readback H (s\<lparr>active_reboot_transaction := Some t'\<rparr>) ''P2:3'') (\<lambda>_.
           io_bind (io_call (hh_timestamp H)) (\<lambda>now.
           persist_progress_readback H (complete_step PHASE_TWO_PHASE_THREE_HANDOFF now p) ''P2:3'')))))))))))))"

definition shell_execute_phase_three ::
  "('w, 'v) handoff_host \<Rightarrow> string option \<Rightarrow> ('w, string, unit) io" where
  "shell_execute_phase_three H executable =
     io_map_err (\<lambda>e. ''phase3-handoff ShellExecuteExW(runas): '' @ e)
       (hh_shell_execute H executable ''runas'' ''phase3 --yes'')"

definition relaunch_phase_three_handoff ::
  "('w, 'v) handoff_host \<Rightarrow> 'v selected_runtime \<Rightarrow> ('w, string, unit) io" where
  "relaunch_phase_three_handoff H rt =
     io_bind (hh_acquire_fixed H) (\<lambda>_.
     io_bind (hh_lock H) (\<lambda>_.
     io_bind (read_handoff_session H) (\<lambda>(s, p).
     io_bind (io_check (ok_or ''phase3-handoff reboot transaction is missing'' (active_reboot_transaction s))) (\<lambda>t.
     io_bind (io_check (require_runtime_and_stage t (sr_record rt) PhaseThreeArmed ''phase3-handoff'')) (\<lambda>_.
     io_bind (io_map_err (\<lambda>e. ''phase3-handoff TokenUser: '' @ e) (hh_user_sid H)) (\<lambda>sid.
     if tx_user_sid t \<noteq> Some sid
     then io_fail ''phase3-handoff TokenUser differs from the initiating handoff user''
     else if Session.key 2 3 |\<notin>| completed_steps p
     then io_fail ''phase3-handoff requires completed P2:3''
     else
       io_bind (io_check (handoff_command (sr_executable rt) ''phase3-handoff'')) (\<lambda>phase3.
       io_bind (require_exact_handoff H CurrentUser RUN_KEY PHASE3_HANDOFF phase3 ''phase3-handoff'') (\<lambda>_.
       shell_execute_phase_three H (sr_executable rt)))))))))"

definition read_history_for_final :: "('w, 'v) handoff_host \<Rightarrow> ('w, string, 'v benchmark_record list) io" where
  "read_history_for_final H =
     io_bind (io_call (hh_history_there H)) (\<lambda>there.
     if \<not> there then io_ret []
     else io_map_err (\<lambda>e. ''read final benchmark history: '' @ e) (hh_read_history H))"

definition final_benchmark_status_locked ::
  "('w, 'v) handoff_host \<Rightarrow> 'v state \<Rightarrow> 'v progress \<Rightarrow> ('w, string, unit) io" where
  "final_benchmark_status_locked H s p =
     io_bind (hh_acquire H) (\<lambda>_.
     io_bind (read_history_for_final H) (\<lambda>history.
     io_check (map_err (\<lambda>e. ''P3 completion final benchmark: '' @ e)
       (and_then (validate_persisted_final_benchmark s p history) (\<lambda>_. Ok ())))))"

text \<open>Any failure of the inspection, and not only an incoherent receipt, ends in the same refusal.\<close>

definition clear_phase_three_handoff ::
  "('w, 'v) handoff_host \<Rightarrow> 'v selected_runtime \<Rightarrow> ('w, string, unit) io" where
  "clear_phase_three_handoff H rt =
     (let refused = io_fail ''P3 completion requires a coherent persisted final benchmark; handoff retained'' in
     io_bind (hh_acquire_fixed H) (\<lambda>_.
     io_bind (hh_lock H) (\<lambda>_.
     io_bind (read_handoff_session H) (\<lambda>(s, p).
     if Session.key 3 13 |\<notin>| completed_steps p then refused
     else
       io_match (final_benchmark_status_locked H s p) (\<lambda>r.
       if \<not> is_ok r then refused
       else
         io_bind (io_check (ok_or ''P3 completion reboot transaction is missing'' (active_reboot_transaction s))) (\<lambda>t.
         io_bind (io_check (require_runtime_and_stage t (sr_record rt) PhaseThreeComplete ''P3 completion'')) (\<lambda>_.
         io_bind (io_map_err (\<lambda>e. ''P3 completion TokenUser: '' @ e) (hh_user_sid H)) (\<lambda>sid.
         if tx_user_sid t \<noteq> Some sid
         then io_fail ''P3 completion TokenUser differs from the initiating handoff user''
         else
           io_bind (io_check (handoff_command (sr_executable rt) ''phase3-handoff'')) (\<lambda>phase3.
           io_bind (require_exact_handoff H CurrentUser RUN_KEY PHASE3_HANDOFF phase3 ''P3 completion'') (\<lambda>_.
           io_bind (io_map_err (\<lambda>e. ''P3 completion clear Run handoff: '' @ e)
             (hh_registry_delete H CurrentUser RUN_KEY PHASE3_HANDOFF)) (\<lambda>_.
           io_bind (read_handoff_value H CurrentUser RUN_KEY PHASE3_HANDOFF) (\<lambda>value.
           if value = None then io_ret ()
           else io_fail ''P3 completion Run handoff delete readback failed; retry recovery''))))))))))))"

section \<open>Inspection\<close>

datatype (plugins only: code size) native_evidence = NativeVerified | NativeAbsent | NativeUnavailable

datatype (plugins only: code size) boot_mode = ModeNormal | ModeSafeMode

datatype (plugins only: code size) boot_mode_evidence = BootModeNormal | BootModeSafeMode | BootModeUnavailable

record reboot_handoff_state =
  rh_boot_mode :: boot_mode_evidence
  rh_safeboot :: safeboot_evidence
  rh_phase2_runonce_armed :: native_evidence
  rh_phase3_run_armed :: native_evidence
  rh_phase3_handoff_same_user :: native_evidence
  rh_selected_runtime_binding :: native_evidence
  rh_token_user_sid :: "string option"

definition current_boot_mode :: "('w, 'v) handoff_host \<Rightarrow> ('w, string, boot_mode) io" where
  "current_boot_mode H =
     io_bind (io_call (hh_clean_boot H)) (\<lambda>metric.
     io_ret (if metric = 0 then ModeNormal else ModeSafeMode))"

definition run_value_evidence ::
  "('w, 'v) handoff_host \<Rightarrow> hive \<Rightarrow> string \<Rightarrow> string \<Rightarrow> ('w, string, native_evidence) io" where
  "run_value_evidence H h k name =
     io_match (hh_registry_read H (handoff_change h k name '''')) (\<lambda>r.
     case r of
       Ok (Some (RegString value)) \<Rightarrow> io_ret (if value \<noteq> [] then NativeVerified else NativeUnavailable)
     | Ok None \<Rightarrow> io_ret NativeAbsent
     | _ \<Rightarrow> io_ret NativeUnavailable)"

definition valid_canonical_sid :: "string \<Rightarrow> bool" where
  "valid_canonical_sid value =
     (case split_on (\<lambda>c. c = CHR ''-'') value of
        s # one # authority # subauthorities \<Rightarrow>
          s = ''S'' \<and> one = ''1''
          \<and> canonical_decimal authority \<and> parse_unsigned (2 ^ 64) authority \<noteq> None
          \<and> subauthorities \<noteq> [] \<and> length subauthorities \<le> 15
          \<and> list_all (\<lambda>part. canonical_decimal part
               \<and> (case parse_unsigned (2 ^ 64) part of None \<Rightarrow> False | Some n \<Rightarrow> n < 2 ^ 32)) subauthorities
      | _ \<Rightarrow> False)"

fun same_user_handoff_evidence ::
  "native_evidence \<Rightarrow> string option \<Rightarrow> string option \<Rightarrow> native_evidence" where
  "same_user_handoff_evidence NativeAbsent _ _ = NativeAbsent"
| "same_user_handoff_evidence NativeUnavailable _ _ = NativeUnavailable"
| "same_user_handoff_evidence NativeVerified (Some current) (Some initiator) =
     (if valid_canonical_sid current \<and> valid_canonical_sid initiator
      then (if current = initiator then NativeVerified else NativeAbsent)
      else NativeUnavailable)"
| "same_user_handoff_evidence NativeVerified _ _ = NativeUnavailable"

definition ok_option :: "('w, 'e, 'a) io \<Rightarrow> ('w, 'f, 'a option) io" where
  "ok_option m = io_match m (\<lambda>r. case r of Ok x \<Rightarrow> io_ret (Some x) | Err _ \<Rightarrow> io_ret None)"

definition read_reboot_initiator_sid :: "('w, 'v) handoff_host \<Rightarrow> ('w, string, string option) io" where
  "read_reboot_initiator_sid H =
     io_bind (ok_option (hh_read_state H)) (\<lambda>s.
     io_ret (Option.bind (Option.bind s active_reboot_transaction) tx_user_sid))"

definition inspect_reboot_handoff_state_at :: "('w, 'v) handoff_host \<Rightarrow> ('w, string, reboot_handoff_state) io" where
  "inspect_reboot_handoff_state_at H =
     io_bind (hh_acquire H) (\<lambda>_.
     io_bind (ok_option (hh_runtime_integrity H)) (\<lambda>integrity.
     io_bind (ok_option (current_boot_mode H)) (\<lambda>mode.
     io_bind (safeboot_evidence_of H) (\<lambda>safeboot.
     io_bind (run_value_evidence H LocalMachine RUNONCE_KEY PHASE2_HANDOFF) (\<lambda>phase2.
     io_bind (run_value_evidence H CurrentUser RUN_KEY PHASE3_HANDOFF) (\<lambda>phase3.
     io_bind (ok_option (hh_user_sid H)) (\<lambda>sid.
     io_bind (read_reboot_initiator_sid H) (\<lambda>initiator.
     io_ret
       \<lparr>rh_boot_mode =
          (case mode of Some ModeNormal \<Rightarrow> BootModeNormal | Some ModeSafeMode \<Rightarrow> BootModeSafeMode
           | None \<Rightarrow> BootModeUnavailable),
        rh_safeboot = safeboot, rh_phase2_runonce_armed = phase2, rh_phase3_run_armed = phase3,
        rh_phase3_handoff_same_user = same_user_handoff_evidence phase3 sid initiator,
        rh_selected_runtime_binding = (if integrity = None then NativeUnavailable else NativeVerified),
        rh_token_user_sid = sid\<rparr>))))))))"

definition inspect_reboot_handoff_state :: "('w, 'v) handoff_host \<Rightarrow> ('w, string, reboot_handoff_state) io" where
  "inspect_reboot_handoff_state H =
     io_bind (hh_acquire_fixed H) (\<lambda>_. inspect_reboot_handoff_state_at H)"

end
