(* ===== verification/Reboot_Safety.thy ===== *)
theory Reboot_Safety
  imports Reboot_Handoff
begin

text \<open>
  What the native reboot handoff guarantees, for any host: the order in which a checkpoint touches the
  machine, read off a trace of what was asked and answered; what an interrupted checkpoint leaves behind;
  and that the phase three handoff waits for evidence that the native driver removal cannot produce.
\<close>

section \<open>Tracing a host\<close>

datatype (plugins only: code size) 'v handoff_event =
    ReadValue registry_change "reg_value option"
  | AskedWriteValue registry_change
  | AskedDeleteValue hive string string
  | ToolOutput command_name "string list" string
  | ReadState "'v state"
  | ReadProgress "'v progress"
  | ReadHistory "'v benchmark_record list"
  | AskedWriteState "'v state"
  | AskedWriteProgress "'v progress"

definition traced :: "('w, 'v) handoff_host \<Rightarrow> ('w \<times> 'v handoff_event list, 'v) handoff_host" where
  "traced H =
     \<lparr>hh_user_sid = beside (hh_user_sid H), hh_acquire_fixed = beside (hh_acquire_fixed H),
      hh_acquire = beside (hh_acquire H), hh_lock = beside (hh_lock H),
      hh_state_there = beside_call (hh_state_there H), hh_read_state = answering ReadState (hh_read_state H),
      hh_write_state = (\<lambda>s. asking (AskedWriteState s) (hh_write_state H s)),
      hh_progress_there = beside_call (hh_progress_there H),
      hh_read_progress = answering ReadProgress (hh_read_progress H),
      hh_write_progress = (\<lambda>p. asking (AskedWriteProgress p) (hh_write_progress H p)),
      hh_history_there = beside_call (hh_history_there H),
      hh_read_history = answering ReadHistory (hh_read_history H),
      hh_registry_read = (\<lambda>c. beside (hh_registry_read H c)),
      hh_registry_read_exact = (\<lambda>c. answering (ReadValue c) (hh_registry_read_exact H c)),
      hh_registry_write = (\<lambda>c. asking (AskedWriteValue c) (hh_registry_write H c)),
      hh_registry_delete = (\<lambda>h k n. asking (AskedDeleteValue h k n) (hh_registry_delete H h k n)),
      hh_execute = (\<lambda>c args. answering (ToolOutput c args) (hh_execute H c args)),
      hh_gen_random = beside (hh_gen_random H), hh_timestamp = beside_call (hh_timestamp H),
      hh_shell_execute = (\<lambda>x verb params. beside (hh_shell_execute H x verb params)),
      hh_runtime_integrity = beside (hh_runtime_integrity H), hh_clean_boot = beside_call (hh_clean_boot H)\<rparr>"

lemma traced_simps [simp]:
  "hh_user_sid (traced H) = beside (hh_user_sid H)" "hh_acquire_fixed (traced H) = beside (hh_acquire_fixed H)"
  "hh_acquire (traced H) = beside (hh_acquire H)" "hh_lock (traced H) = beside (hh_lock H)"
  "hh_state_there (traced H) = beside_call (hh_state_there H)"
  "hh_read_state (traced H) = answering ReadState (hh_read_state H)"
  "hh_write_state (traced H) s = asking (AskedWriteState s) (hh_write_state H s)"
  "hh_progress_there (traced H) = beside_call (hh_progress_there H)"
  "hh_read_progress (traced H) = answering ReadProgress (hh_read_progress H)"
  "hh_write_progress (traced H) p = asking (AskedWriteProgress p) (hh_write_progress H p)"
  "hh_history_there (traced H) = beside_call (hh_history_there H)"
  "hh_read_history (traced H) = answering ReadHistory (hh_read_history H)"
  "hh_registry_read_exact (traced H) c = answering (ReadValue c) (hh_registry_read_exact H c)"
  "hh_registry_write (traced H) c = asking (AskedWriteValue c) (hh_registry_write H c)"
  "hh_registry_delete (traced H) h k n = asking (AskedDeleteValue h k n) (hh_registry_delete H h k n)"
  "hh_execute (traced H) m args = answering (ToolOutput m args) (hh_execute H m args)"
  "hh_gen_random (traced H) = beside (hh_gen_random H)" "hh_timestamp (traced H) = beside_call (hh_timestamp H)"
  by (simp_all add: traced_def)

section \<open>Everything but the two documents\<close>

definition elsewhere :: "'v handoff_event set" where
  "elsewhere = - (range AskedWriteState \<union> range AskedWriteProgress)"

lemma elsewhere_simps [simp]:
  "ReadValue c v \<in> elsewhere" "AskedWriteValue c \<in> elsewhere" "AskedDeleteValue h k n \<in> elsewhere"
  "ToolOutput m args t \<in> elsewhere" "ReadState s \<in> elsewhere" "ReadProgress p \<in> elsewhere"
  "ReadHistory r \<in> elsewhere" "AskedWriteState s \<notin> elsewhere" "AskedWriteProgress p \<notin> elsewhere"
  by (auto simp: elsewhere_def)

lemma traced_elsewhere [io_within_intros]:
  "io_within (adds elsewhere) (hh_read_state (traced H))"
  "io_within (adds elsewhere) (hh_read_progress (traced H))"
  "io_within (adds elsewhere) (hh_read_history (traced H))"
  "io_within (adds elsewhere) (hh_registry_read_exact (traced H) c)"
  "io_within (adds elsewhere) (hh_registry_write (traced H) c)"
  "io_within (adds elsewhere) (hh_registry_delete (traced H) h k n)"
  "io_within (adds elsewhere) (hh_execute (traced H) m args)"
  by (simp_all add: asking_adds answering_adds)

lemma run_tool_elsewhere [io_within_intros]: "io_within (adds elsewhere) (run_tool_vector (traced H) m args)"
  unfolding run_tool_vector_def by (intro io_within_intros)

lemma safeboot_elsewhere [io_within_intros]: "io_within (adds elsewhere) (safeboot_evidence_of (traced H))"
  unfolding safeboot_evidence_of_def
  by (intro io_within_intros) (auto split: result.split intro!: io_within_intros)

lemma set_safeboot_elsewhere [io_within_intros]: "io_within (adds elsewhere) (set_safeboot_minimal (traced H))"
  unfolding set_safeboot_minimal_def by (auto intro!: io_within_intros)

lemma clear_safeboot_elsewhere [io_within_intros]: "io_within (adds elsewhere) (clear_safeboot (traced H))"
  unfolding clear_safeboot_def by (auto intro!: io_within_intros)

lemma read_value_elsewhere [io_within_intros]: "io_within (adds elsewhere) (read_handoff_value (traced H) h k n)"
  unfolding read_handoff_value_def
  by (rule io_within_bind [OF adds_order(2) traced_elsewhere(4)])
    (auto split: option.split reg_value.split intro!: io_within_intros)

lemma require_handoff_elsewhere [io_within_intros]:
  "io_within (adds elsewhere) (require_exact_handoff (traced H) h k n expected prefix)"
  unfolding require_exact_handoff_def by (auto intro!: io_within_intros)

lemma ensure_handoff_elsewhere [io_within_intros]:
  "io_within (adds elsewhere) (ensure_handoff_value (traced H) h k n expected prefix)"
  unfolding ensure_handoff_value_def
  by (rule io_within_bind [OF adds_order(2) read_value_elsewhere])
    (split option.split, intro conjI impI allI, auto simp del: traced_simps intro!: io_within_intros)

lemma read_state_elsewhere [io_within_intros]: "io_within (adds elsewhere) (read_state_for_handoff (traced H))"
  unfolding read_state_for_handoff_def traced_simps(5)
  by (rule io_within_bind [OF adds_order(2) beside_call_adds]) (auto simp del: traced_simps intro!: io_within_intros)

lemma read_progress_elsewhere [io_within_intros]: "io_within (adds elsewhere) (read_progress_for_handoff (traced H))"
  unfolding read_progress_for_handoff_def traced_simps(8)
  by (rule io_within_bind [OF adds_order(2) beside_call_adds]) (auto simp del: traced_simps intro!: io_within_intros)

lemma session_elsewhere [io_within_intros]: "io_within (adds elsewhere) (read_handoff_session (traced H))"
  unfolding read_handoff_session_def traced_simps(3) by (intro io_within_intros)

lemma new_transaction_elsewhere [io_within_intros]: "io_within (adds elsewhere) (new_transaction (traced H) rt sid)"
  unfolding new_transaction_def random_transaction_id_def Let_def traced_simps(17,18)
  by (intro io_within_intros) (auto intro!: io_within_intros)


section \<open>The two documents\<close>

lemma beside_log: "beside m w = (r, w') \<Longrightarrow> snd w' = snd w"
  by (auto simp: beside_def split: prod.splits)

lemma beside_call_log: "io_call (beside_call f) w = (r, w') \<Longrightarrow> snd w' = snd w"
  by (auto simp: io_call_def beside_call_def split: prod.splits)

lemma asking_log: "asking x m w = (r, w') \<Longrightarrow> snd w' = snd w @ [x]"
  by (auto simp: asking_def dest: beside_log)

lemma map_err_run: "io_map_err g m w = (r, w') \<Longrightarrow> \<exists>r1. m w = (r1, w') \<and> r = map_err g r1"
  by (auto simp: io_map_err_def split: prod.splits)

lemma answering_log: "answering f m w = (Ok x, w') \<Longrightarrow> snd w' = snd w @ [f x]"
  by (auto simp: answering_def split: prod.splits result.splits)

lemma read_state_answer:
  assumes "read_state_for_handoff (traced H) w = (Ok s, w')"
  shows "\<exists>more. snd w' = snd w @ more \<and> set more \<subseteq> elsewhere \<and> (s = state_default \<or> ReadState s \<in> set more)"
proof -
  from assms show ?thesis
    unfolding read_state_for_handoff_def traced_simps(5,6)
  proof (cases rule: io_bind_cases)
    case (went_on there w1)
    note log1 = beside_call_log [OF went_on(1)]
    show ?thesis
    proof (cases there)
      case True
      then obtain w2 where "answering ReadState (hh_read_state H) w1 = (Ok s, w2)" "w' = w2"
        using went_on(2) by (auto simp: io_Ok split: if_splits)
      then show ?thesis using answering_log [of ReadState "hh_read_state H" w1 s w2] log1 by auto
    next
      case False
      then show ?thesis using went_on(2) log1 by (auto simp: io_Ok)
    qed
  qed simp
qed

text \<open>Writing a document and reading it back: nothing, or the request and then reads only.\<close>

lemma persist_state_trace:
  assumes "persist_state_readback (traced H) s prefix w = (r, w')"
  shows "(snd w' = snd w \<and> \<not> is_ok r)
     \<or> (\<exists>mid. snd w' = snd w @ AskedWriteState s # mid \<and> set mid \<subseteq> elsewhere
          \<and> (is_ok r \<longrightarrow> s = state_default \<or> ReadState s \<in> set mid))"
proof -
  from assms show ?thesis
    unfolding persist_state_readback_def traced_simps(3,7)
  proof (cases rule: io_bind_cases)
    case (stopped e)
    then show ?thesis using beside_log by fastforce
  next
    case (went_on u w1)
    note log1 = beside_log [OF went_on(1)]
    from went_on(2) show ?thesis
    proof (cases rule: io_bind_cases)
      case (stopped e)
      obtain r1 where "asking (AskedWriteState s) (hh_write_state H s) w1 = (r1, w')"
        using map_err_run [OF stopped(1)] by blast
      then show ?thesis using asking_log log1 stopped(2) by fastforce
    next
      case (went_on u' w2)
      have log2: "snd w2 = snd w @ [AskedWriteState s]"
        using went_on(1) log1 asking_log by (fastforce simp: io_Ok)
      from went_on(2) show ?thesis
      proof (cases rule: io_bind_cases)
        case (stopped e)
        obtain r1 where "read_state_for_handoff (traced H) w2 = (r1, w')"
          using map_err_run [OF stopped(1)] by blast
        then show ?thesis
          using io_withinD [OF read_state_elsewhere] log2 stopped(2) by (fastforce simp: adds_def)
      next
        case (went_on persisted w3)
        obtain more where m: "snd w3 = snd w2 @ more" "set more \<subseteq> elsewhere"
          "persisted = state_default \<or> ReadState persisted \<in> set more"
          using read_state_answer went_on(1) unfolding io_map_err_Ok by blast
        show ?thesis
          using went_on(2) m log2 by (auto simp: io_ret_def io_fail_def split: if_splits)
      qed
    qed
  qed
qed

lemma persist_progress_trace:
  assumes "persist_progress_readback (traced H) p prefix w = (r, w')"
  shows "(snd w' = snd w \<and> \<not> is_ok r)
     \<or> (\<exists>mid. snd w' = snd w @ AskedWriteProgress p # mid \<and> set mid \<subseteq> elsewhere)"
proof -
  from assms show ?thesis
    unfolding persist_progress_readback_def traced_simps(3,10)
  proof (cases rule: io_bind_cases)
    case (stopped e)
    then show ?thesis using beside_log by fastforce
  next
    case (went_on u w1)
    note log1 = beside_log [OF went_on(1)]
    from went_on(2) show ?thesis
    proof (cases rule: io_bind_cases)
      case (stopped e)
      obtain r1 where "asking (AskedWriteProgress p) (hh_write_progress H p) w1 = (r1, w')"
        using map_err_run [OF stopped(1)] by blast
      then show ?thesis using asking_log log1 stopped(2) by fastforce
    next
      case (went_on u' w2)
      have log2: "snd w2 = snd w @ [AskedWriteProgress p]"
        using went_on(1) log1 asking_log by (fastforce simp: io_Ok)
      have "io_within (adds elsewhere)
          (io_bind (io_map_err (\<lambda>e. prefix @ '' read back progress: '' @ e) (read_progress_for_handoff (traced H)))
            (\<lambda>persisted. if persisted = p then io_ret () else io_fail (prefix @ '' progress readback differs; retry recovery'')))"
        by (auto intro!: io_within_intros)
      from io_withinD [OF this went_on(2)] show ?thesis using log2 by (auto simp: adds_def)
    qed
  qed
qed

definition checkpoint_documents ::
  "('w, 'v) handoff_host \<Rightarrow> step_id \<Rightarrow> string \<Rightarrow> 'v state \<times> 'v progress \<Rightarrow> ('w, string, unit) io" where
  "checkpoint_documents H i prefix = (\<lambda>(s, p).
     io_bind (persist_state_readback H s prefix) (\<lambda>_.
     io_bind (io_call (hh_timestamp H)) (\<lambda>now.
     persist_progress_readback H (complete_step i now p) prefix)))"

text \<open>
  A checkpoint is a prefix that leaves the documents alone and then, with the state and the progress that
  it computed, the two writes in this order.
\<close>

lemma checkpoint_trace:
  assumes prefix: "io_within (adds elsewhere) m"
    and run: "io_bind m (checkpoint_documents (traced H) i x) (w, []) = (r, (w', log))"
  obtains (untouched) "set log \<subseteq> elsewhere"
  | (reached) s p w1 before mid where "m (w, []) = (Ok (s, p), (w1, before))" "set before \<subseteq> elsewhere"
      "log = before @ AskedWriteState s # mid" 
      "set mid \<subseteq> elsewhere \<or> (\<exists>now mid1 mid2. mid = mid1 @ AskedWriteProgress (complete_step i now p) # mid2
         \<and> set mid1 \<subseteq> elsewhere \<and> set mid2 \<subseteq> elsewhere \<and> (s = state_default \<or> ReadState s \<in> set mid1))"
proof -
  from run show ?thesis
  proof (cases rule: io_bind_cases)
    case (stopped e)
    then show ?thesis using untouched io_withinD [OF prefix] by (fastforce simp: adds_def)
  next
    case (went_on sp w1)
    obtain s p where sp: "sp = (s, p)" by fastforce
    obtain v before where w1: "w1 = (v, before)" by fastforce
    have before: "set before \<subseteq> elsewhere"
      using io_withinD [OF prefix went_on(1)] w1 by (auto simp: adds_def)
    note m = went_on(1) [unfolded sp w1]
    from went_on(2) [unfolded sp w1 checkpoint_documents_def prod.case] show ?thesis
    proof (cases rule: io_bind_cases)
      case (stopped e)
      show ?thesis
        using persist_state_trace [OF stopped(1)] before untouched reached [OF m before] by auto
    next
      case (went_on u w2)
      obtain mid1 where log2: "snd w2 = before @ AskedWriteState s # mid1" "set mid1 \<subseteq> elsewhere"
        "s = state_default \<or> ReadState s \<in> set mid1"
        using persist_state_trace [OF went_on(1)] by auto
      from went_on(2) show ?thesis
      proof (cases rule: io_bind_cases)
        case (stopped e)
        then show ?thesis by (auto simp: io_call_def split: prod.splits)
      next
        case (went_on now w3)
        have log3: "snd w3 = before @ AskedWriteState s # mid1"
          using beside_call_log [of "hh_timestamp H" w2] went_on(1) log2(1) by simp
        from persist_progress_trace [OF went_on(2)] show ?thesis
        proof (elim disjE exE conjE)
          assume "snd (w', log) = snd w3"
          then show ?thesis using log3 log2(2) reached [OF m before, of mid1] by simp
        next
          fix mid2 assume l: "snd (w', log) = snd w3 @ AskedWriteProgress (complete_step i now p) # mid2"
            and mid2: "set mid2 \<subseteq> elsewhere"
          have "\<exists>now' l1 l2. mid1 @ AskedWriteProgress (complete_step i now p) # mid2 =
              l1 @ AskedWriteProgress (complete_step i now' p) # l2
              \<and> set l1 \<subseteq> elsewhere \<and> set l2 \<subseteq> elsewhere \<and> (s = state_default \<or> ReadState s \<in> set l1)"
            using mid2 log2(2,3) by blast
          then show ?thesis
            using l log3 reached [OF m before, of "mid1 @ AskedWriteProgress (complete_step i now p) # mid2"] by simp
        qed
      qed
    qed
  qed
qed


section \<open>What was checked before the documents\<close>

lemma io_bind_assoc: "io_bind (io_bind m f) g = io_bind m (\<lambda>x. io_bind (f x) g)"
  by (rule ext) (simp add: io_bind_def split: prod.split result.split)

lemma io_bind_ret: "io_bind (io_ret x) f = f x"
  by (rule ext) (simp add: io_bind_def io_ret_def)

lemma io_bind_fail: "io_bind (io_fail e) f = io_fail e"
  by (rule ext) (simp add: io_bind_def io_fail_def)

lemmas io_bind_normal = io_bind_assoc io_bind_ret io_bind_fail if_distrib [of "\<lambda>m. io_bind m f" for f]

lemma read_value_Ok:
  assumes "read_handoff_value (traced H) h k n w = (Ok (Some v), w')"
  shows "ReadValue (handoff_change h k n '''') (Some (RegString v)) \<in> set (snd w')"
proof -
  obtain x w1 where x: "answering (ReadValue (handoff_change h k n '''')) (hh_registry_read_exact H (handoff_change h k n '''')) w
      = (Ok x, w1)"
    and rest: "(case x of Some (RegString v) \<Rightarrow> io_ret (Some v) | None \<Rightarrow> io_ret None
      | _ \<Rightarrow> io_fail ''handoff registry value is not a string'') w1 = (Ok (Some v), w')"
    using assms by (auto simp: read_handoff_value_def io_Ok)
  have "x = Some (RegString v) \<and> w' = w1" using rest by (auto simp: io_Ok split: option.splits reg_value.splits)
  then show ?thesis using answering_Ok [OF x] by simp
qed

lemma require_exact_Ok:
  "require_exact_handoff (traced H) h k n expected prefix w = (Ok u, w') \<Longrightarrow>
     ReadValue (handoff_change h k n '''') (Some (RegString expected)) \<in> set (snd w')"
  by (auto simp: require_exact_handoff_def io_Ok dest: read_value_Ok split: if_splits)

lemma ensure_handoff_Ok:
  "ensure_handoff_value (traced H) h k n expected prefix w = (Ok u, w') \<Longrightarrow>
     ReadValue (handoff_change h k n '''') (Some (RegString expected)) \<in> set (snd w')"
  by (auto simp: ensure_handoff_value_def io_Ok dest: read_value_Ok require_exact_Ok split: if_splits option.splits)

lemma safeboot_evidence_answer:
  assumes "safeboot_evidence_of (traced H) w = (Ok evidence, w')" and "evidence \<noteq> SafebootUnavailable"
  shows "\<exists>t. ToolOutput Bcdedit [''/enum'', ''{current}''] t \<in> set (snd w') \<and> safeboot_evidence_from_bcd t = evidence"
proof -
  obtain r w1 where r: "run_tool_vector (traced H) Bcdedit [''/enum'', ''{current}''] w = (r, w1)"
    and rest: "(case r of Err _ \<Rightarrow> io_ret SafebootUnavailable | Ok t \<Rightarrow> io_ret (safeboot_evidence_from_bcd t)) w1 = (Ok evidence :: (_, string) result, w')"
    using assms(1) by (auto simp: safeboot_evidence_of_def io_match_eq)
  obtain t where t: "r = Ok t" "w' = w1" "evidence = safeboot_evidence_from_bcd t"
    using rest assms(2) by (cases r) (auto simp: io_Ok)
  have "cv_command c = Bcdedit \<and> cv_arguments c = [''/enum'', ''{current}'']"
    if "command_vector_new Bcdedit [''/enum'', ''{current}''] = Ok c" for c
    using that by (auto simp: command_vector_new_def split: if_splits)
  then have "ToolOutput Bcdedit [''/enum'', ''{current}''] t \<in> set (snd w1)"
    using r t by (auto simp: run_tool_vector_def io_Ok dest!: answering_Ok)
  then show ?thesis using t by blast
qed

lemma set_safeboot_Ok:
  "set_safeboot_minimal (traced H) w = (Ok u, w') \<Longrightarrow>
     \<exists>t. ToolOutput Bcdedit [''/enum'', ''{current}''] t \<in> set (snd w')
       \<and> safeboot_evidence_from_bcd t = SafebootConfigured ''minimal''"
  by (auto simp: set_safeboot_minimal_def io_Ok dest!: safeboot_evidence_answer split: if_splits)

lemma clear_safeboot_Ok:
  "clear_safeboot (traced H) w = (Ok u, w') \<Longrightarrow>
     \<exists>t. ToolOutput Bcdedit [''/enum'', ''{current}''] t \<in> set (snd w')
       \<and> safeboot_evidence_from_bcd t = SafebootAbsent"
  by (auto simp: clear_safeboot_def io_Ok dest!: safeboot_evidence_answer split: if_splits)

section \<open>The three checkpoints as a prefix and two documents\<close>

definition arm_prefix :: "('w, 'v) handoff_host \<Rightarrow> 'v selected_runtime \<Rightarrow> ('w, string, 'v state \<times> 'v progress) io" where
  "arm_prefix H rt =
     io_bind (io_map_err (\<lambda>e. ''P1:38 TokenUser: '' @ e) (hh_user_sid H)) (\<lambda>sid.
     io_bind (io_check (handoff_command (sr_executable rt) ''phase2 --yes'')) (\<lambda>phase2.
     io_bind (hh_acquire_fixed H) (\<lambda>_.
     io_bind (hh_lock H) (\<lambda>_.
     io_bind (read_handoff_session H) (\<lambda>(s, p).
     io_bind
       (case active_reboot_transaction s of
          Some existing \<Rightarrow>
            if is_authorized_at existing PhaseOneSafeModeArmed \<and> tx_runtime existing = Some (sr_record rt)
               \<and> tx_user_sid existing = Some sid
            then io_ret existing
            else io_fail ''P1:38 active reboot transaction differs; retain it for recovery''
        | None \<Rightarrow> new_transaction H (sr_record rt) sid) (\<lambda>t.
     io_bind (ensure_handoff_value H LocalMachine RUNONCE_KEY PHASE2_HANDOFF phase2 ''P1:38'') (\<lambda>_.
     io_bind (set_safeboot_minimal H) (\<lambda>_.
     io_ret (s\<lparr>phase1_safe_mode_ready := True, active_reboot_transaction := Some t\<rparr>, p)))))))))"

definition clear_prefix :: "('w, 'v) handoff_host \<Rightarrow> 'v selected_runtime \<Rightarrow> ('w, string, 'v state \<times> 'v progress) io" where
  "clear_prefix H rt =
     io_bind (hh_acquire_fixed H) (\<lambda>_.
     io_bind (hh_lock H) (\<lambda>_.
     io_bind (read_handoff_session H) (\<lambda>(s, p).
     io_bind (io_check (ok_or ''P2:1 reboot transaction is missing'' (active_reboot_transaction s))) (\<lambda>t.
     io_bind (io_check (require_runtime_and_stage t (sr_record rt) PhaseOneSafeModeArmed ''P2:1'')) (\<lambda>_.
     io_bind (io_check (handoff_command (sr_executable rt) ''phase2 --yes'')) (\<lambda>phase2.
     io_bind (require_exact_handoff H LocalMachine RUNONCE_KEY PHASE2_HANDOFF phase2 ''P2:1'') (\<lambda>_.
     io_bind (clear_safeboot H) (\<lambda>_.
     io_bind (io_check (map_err (\<lambda>e. ''P2:1 stage: '' @ e) (transition_to t PhaseTwoSafeMode))) (\<lambda>t'.
     io_ret (s\<lparr>active_reboot_transaction := Some t'\<rparr>, p))))))))))"

definition arm_three_prefix ::
  "('w, 'v) handoff_host \<Rightarrow> ('w, string, 'v driver_transaction option) io \<Rightarrow> 'v selected_runtime
     \<Rightarrow> ('w, string, 'v state \<times> 'v progress) io" where
  "arm_three_prefix H load_driver rt =
     io_bind (io_map_err (\<lambda>e. ''P2:3 TokenUser: '' @ e) (hh_user_sid H)) (\<lambda>sid.
     io_bind (io_check (handoff_command (sr_executable rt) ''phase3-handoff'')) (\<lambda>phase3.
     io_bind (hh_acquire_fixed H) (\<lambda>_.
     io_bind (hh_lock H) (\<lambda>_.
     io_bind load_driver (\<lambda>loaded.
     io_bind (io_check (ok_or ''P2:3 requires durable P1:18/P1:19 NVIDIA transaction evidence'' loaded)) (\<lambda>driver.
     if \<not> removal_complete driver
     then io_fail ''P2:3 requires coherent P2:2 removal evidence; retain the Phase 2 handoff''
     else
       io_bind (read_handoff_session H) (\<lambda>(s, p).
       if Session.key 2 2 |\<notin>| completed_steps p
       then io_fail ''P2:3 requires completed P2:2; retain the Phase 2 handoff''
       else
         io_bind (io_check (ok_or ''P2:3 reboot transaction is missing'' (active_reboot_transaction s))) (\<lambda>t.
         io_bind (io_check (require_runtime_and_stage t (sr_record rt) PhaseTwoSafeMode ''P2:3'')) (\<lambda>_.
         if tx_user_sid t \<noteq> Some sid
         then io_fail ''P2:3 TokenUser differs from the initiating handoff user''
         else
           io_bind (ensure_handoff_value H CurrentUser RUN_KEY PHASE3_HANDOFF phase3 ''P2:3'') (\<lambda>_.
           io_bind (io_check (map_err (\<lambda>e. ''P2:3 stage: '' @ e) (transition_to t PhaseThreeArmed))) (\<lambda>t'.
           io_ret (s\<lparr>active_reboot_transaction := Some t'\<rparr>, p))))))))))))"

lemma checkpoint_splits:
  "arm_safe_mode_handoff H rt =
     io_bind (arm_prefix H rt) (checkpoint_documents H PHASE_ONE_SAFE_MODE_HANDOFF ''P1:38'')"
  "complete_phase_two_safe_boot_clear H rt =
     io_bind (clear_prefix H rt) (checkpoint_documents H PHASE_TWO_SAFE_BOOT_CLEAR ''P2:1'')"
  "arm_phase_three_handoff H load_driver rt =
     io_bind (arm_three_prefix H load_driver rt) (checkpoint_documents H PHASE_TWO_PHASE_THREE_HANDOFF ''P2:3'')"
  by (simp_all add: arm_safe_mode_handoff_def arm_prefix_def complete_phase_two_safe_boot_clear_def clear_prefix_def
      arm_phase_three_handoff_def arm_three_prefix_def checkpoint_documents_def split_def io_bind_normal cong: if_cong)


lemma prefixes_elsewhere:
  "io_within (adds elsewhere) (arm_prefix (traced H) rt)"
  "io_within (adds elsewhere) (clear_prefix (traced H) rt)"
  "io_within (adds elsewhere) (arm_three_prefix (traced H) (beside load_driver) rt)"
proof -
  note start = adds_order(2) beside_adds
  show "io_within (adds elsewhere) (arm_prefix (traced H) rt)"
    unfolding arm_prefix_def traced_simps(1-4)
    by (intro io_within_bind [OF adds_order(2)] io_within_intros)
      (auto split: option.split simp del: traced_simps intro!: io_within_intros)
  show "io_within (adds elsewhere) (clear_prefix (traced H) rt)"
    unfolding clear_prefix_def traced_simps(1-4)
    by (intro io_within_bind [OF adds_order(2)] io_within_intros)
      (auto simp del: traced_simps intro!: io_within_intros)
  show "io_within (adds elsewhere) (arm_three_prefix (traced H) (beside load_driver) rt)"
    unfolding arm_three_prefix_def traced_simps(1-4)
    by (intro io_within_bind [OF adds_order(2)] io_within_intros)
      (auto simp del: traced_simps intro!: io_within_intros)
qed

lemma require_runtime_and_stage_Ok [guard_simps]:
  "require_runtime_and_stage t rt stage prefix = Ok u \<longleftrightarrow> is_authorized_at t stage \<and> tx_runtime t = Some rt"
  by (auto simp: require_runtime_and_stage_def)

lemma arm_prefix_Ok:
  assumes "arm_prefix (traced H) rt w = (Ok (s, p), w')"
  shows "\<exists>phase2 t tool. handoff_command (sr_executable rt) ''phase2 --yes'' = Ok phase2
     \<and> ReadValue (handoff_change LocalMachine RUNONCE_KEY PHASE2_HANDOFF '''') (Some (RegString phase2)) \<in> set (snd w')
     \<and> ToolOutput Bcdedit [''/enum'', ''{current}''] tool \<in> set (snd w')
     \<and> safeboot_evidence_from_bcd tool = SafebootConfigured ''minimal''
     \<and> active_reboot_transaction s = Some t \<and> is_authorized_at t PhaseOneSafeModeArmed"
proof -
  obtain sid s0 t phase2 w1 w2 w3 where
    command: "handoff_command (sr_executable rt) ''phase2 --yes'' = Ok phase2"
    and t: "(case active_reboot_transaction s0 of
          Some existing \<Rightarrow>
            if is_authorized_at existing PhaseOneSafeModeArmed \<and> tx_runtime existing = Some (sr_record rt)
               \<and> tx_user_sid existing = Some sid
            then io_ret existing
            else io_fail ''P1:38 active reboot transaction differs; retain it for recovery''
        | None \<Rightarrow> new_transaction (traced H) (sr_record rt) sid) w1 = (Ok t, w2)"
    and ensured: "ensure_handoff_value (traced H) LocalMachine RUNONCE_KEY PHASE2_HANDOFF phase2 ''P1:38'' w2 = (Ok (), w3)"
    and safeboot: "set_safeboot_minimal (traced H) w3 = (Ok (), w')"
    and s: "s = s0\<lparr>phase1_safe_mode_ready := True, active_reboot_transaction := Some t\<rparr>"
    using assms unfolding arm_prefix_def by (auto simp: io_Ok split: prod.splits)
  have "is_authorized_at t PhaseOneSafeModeArmed"
    using t by (auto simp: io_Ok new_transaction_def Let_def split: option.splits if_splits)
  then show ?thesis
    using command s ensure_handoff_Ok [OF ensured] adds_mem [OF io_withinD [OF set_safeboot_elsewhere safeboot]]
      set_safeboot_Ok [OF safeboot] by auto
qed

lemma clear_prefix_Ok:
  assumes "clear_prefix (traced H) rt w = (Ok (s, p), w')"
  shows "\<exists>t tool. ToolOutput Bcdedit [''/enum'', ''{current}''] tool \<in> set (snd w')
     \<and> safeboot_evidence_from_bcd tool = SafebootAbsent
     \<and> active_reboot_transaction s = Some t \<and> is_authorized_at t PhaseTwoSafeMode"
  using assms
  by (auto simp: clear_prefix_def io_Ok guard_simps ok_or_eq_Ok transition_to_Ok is_authorized_at_transition
      dest!: clear_safeboot_Ok split: prod.splits)

lemma arm_three_prefix_Ok:
  assumes "arm_three_prefix (traced H) load_driver rt w = (Ok (s, p), w')"
  shows "\<exists>phase3 t. handoff_command (sr_executable rt) ''phase3-handoff'' = Ok phase3
     \<and> ReadValue (handoff_change CurrentUser RUN_KEY PHASE3_HANDOFF '''') (Some (RegString phase3)) \<in> set (snd w')
     \<and> is_completed p PHASE_TWO_DRIVER_CLEANUP
     \<and> active_reboot_transaction s = Some t \<and> is_authorized_at t PhaseThreeArmed"
proof -
  have "Session.key 2 2 = progress_key PHASE_TWO_DRIVER_CLEANUP"
    by (simp add: Session.key_def PHASE_TWO_DRIVER_CLEANUP_def progress_key_def step_id_new_def)
  then show ?thesis
    using assms
    by (auto simp: arm_three_prefix_def io_Ok guard_simps ok_or_eq_Ok transition_to_Ok is_authorized_at_transition
        is_completed_def dest!: ensure_handoff_Ok split: prod.splits if_splits)
qed


section \<open>The order of the writes\<close>

text \<open>
  C14: Arming Safe Mode touches the two documents only after the RunOnce value with the exact command and
  the minimal Safe Boot were both read back, writes the state first, and marks the step completed only after
  that very state was read back; whatever fails on the way.
\<close>

theorem safe_mode_is_armed_in_order:
  "case arm_safe_mode_handoff (traced H) rt (w, []) of (r, (w', log)) \<Rightarrow>
     set log \<subseteq> elsewhere
     \<or> (\<exists>s before mid phase2 tool. log = before @ AskedWriteState s # mid \<and> set before \<subseteq> elsewhere
          \<and> handoff_command (sr_executable rt) ''phase2 --yes'' = Ok phase2
          \<and> ReadValue (handoff_change LocalMachine RUNONCE_KEY PHASE2_HANDOFF '''') (Some (RegString phase2)) \<in> set before
          \<and> ToolOutput Bcdedit [''/enum'', ''{current}''] tool \<in> set before
          \<and> safeboot_evidence_from_bcd tool = SafebootConfigured ''minimal''
          \<and> (set mid \<subseteq> elsewhere
             \<or> (\<exists>p now mid1 mid2. mid = mid1 @ AskedWriteProgress (complete_step PHASE_ONE_SAFE_MODE_HANDOFF now p) # mid2
                  \<and> ReadState s \<in> set mid1 \<and> set mid1 \<subseteq> elsewhere \<and> set mid2 \<subseteq> elsewhere)))"
proof -
  obtain r w' log where run: "arm_safe_mode_handoff (traced H) rt (w, []) = (r, (w', log))"
    by (metis prod.exhaust)
  show ?thesis
  proof (rule checkpoint_trace [OF prefixes_elsewhere(1) run [unfolded checkpoint_splits(1)]])
    assume "set log \<subseteq> elsewhere"
    then show ?thesis by (simp add: run)
  next
    fix s p w1 before mid
    assume reached: "arm_prefix (traced H) rt (w, []) = (Ok (s, p), (w1, before))" "set before \<subseteq> elsewhere"
      "log = before @ AskedWriteState s # mid"
      "set mid \<subseteq> elsewhere \<or> (\<exists>now mid1 mid2. mid = mid1 @ AskedWriteProgress (complete_step PHASE_ONE_SAFE_MODE_HANDOFF now p) # mid2
         \<and> set mid1 \<subseteq> elsewhere \<and> set mid2 \<subseteq> elsewhere \<and> (s = state_default \<or> ReadState s \<in> set mid1))"
    obtain phase2 t tool where facts: "handoff_command (sr_executable rt) ''phase2 --yes'' = Ok phase2"
      "ReadValue (handoff_change LocalMachine RUNONCE_KEY PHASE2_HANDOFF '''') (Some (RegString phase2)) \<in> set before"
      "ToolOutput Bcdedit [''/enum'', ''{current}''] tool \<in> set before"
      "safeboot_evidence_from_bcd tool = SafebootConfigured ''minimal''" "active_reboot_transaction s = Some t"
      using arm_prefix_Ok [OF reached(1)] by auto
    have "s \<noteq> state_default" using facts(5) by (auto simp: state_default_def)
    with reached(4) have tail: "set mid \<subseteq> elsewhere
        \<or> (\<exists>p now mid1 mid2. mid = mid1 @ AskedWriteProgress (complete_step PHASE_ONE_SAFE_MODE_HANDOFF now p) # mid2
            \<and> ReadState s \<in> set mid1 \<and> set mid1 \<subseteq> elsewhere \<and> set mid2 \<subseteq> elsewhere)"
    proof (elim disjE exE conjE)
      fix now mid1 mid2
      assume "mid = mid1 @ AskedWriteProgress (complete_step PHASE_ONE_SAFE_MODE_HANDOFF now p) # mid2"
        "set mid1 \<subseteq> elsewhere" "set mid2 \<subseteq> elsewhere" "ReadState s \<in> set mid1"
      then show ?thesis by blast
    qed simp_all
    show ?thesis
      unfolding run prod.case by (rule disjI2, (rule exI)+, (rule conjI, rule reached(3) reached(2) facts(1-4))+, rule tail)
  qed
qed

section \<open>Interrupted checkpoints\<close>

text \<open>The state that a checkpoint asked to write is the one its prefix computed.\<close>

lemma checkpoint_state:
  assumes "io_within (adds elsewhere) m" and "io_bind m (checkpoint_documents (traced H) i x) (w, []) = (r, (w', log))"
    and asked: "AskedWriteState s \<in> set log"
  shows "\<exists>p v. m (w, []) = (Ok (s, p), v)"
proof (rule checkpoint_trace [OF assms(1,2)])
  assume "set log \<subseteq> elsewhere"
  then show ?thesis using asked elsewhere_simps(8) by blast
next
  fix s' p w1 before mid
  assume run: "m (w, []) = (Ok (s', p), (w1, before))" and before: "set before \<subseteq> elsewhere"
    and log: "log = before @ AskedWriteState s' # mid"
    and mid: "set mid \<subseteq> elsewhere \<or> (\<exists>now mid1 mid2. mid = mid1 @ AskedWriteProgress (complete_step i now p) # mid2
         \<and> set mid1 \<subseteq> elsewhere \<and> set mid2 \<subseteq> elsewhere \<and> (s' = state_default \<or> ReadState s' \<in> set mid1))"
  have "AskedWriteState s \<notin> set before" using before elsewhere_simps(8) by blast
  moreover have "AskedWriteState s \<notin> set mid"
    using mid
  proof (rule disjE)
    assume "set mid \<subseteq> elsewhere"
    then show ?thesis using elsewhere_simps(8) by blast
  next
    assume "\<exists>now mid1 mid2. mid = mid1 @ AskedWriteProgress (complete_step i now p) # mid2
         \<and> set mid1 \<subseteq> elsewhere \<and> set mid2 \<subseteq> elsewhere \<and> (s' = state_default \<or> ReadState s' \<in> set mid1)"
    then show ?thesis
    proof (elim exE conjE)
    fix now mid1 mid2
    assume "mid = mid1 @ AskedWriteProgress (complete_step i now p) # mid2" "set mid1 \<subseteq> elsewhere" "set mid2 \<subseteq> elsewhere"
    moreover from this have "AskedWriteState s \<notin> set mid1" "AskedWriteState s \<notin> set mid2"
      using elsewhere_simps(8) by blast+
    ultimately show ?thesis by simp
    qed
  qed
  ultimately have "s = s'" using asked log by simp
  then show ?thesis using run by blast
qed

text \<open>The three stages, each with the step that its checkpoint completes.\<close>

lemma stranded_documents:
  assumes "active_reboot_transaction s = Some t" and "is_authorized_at t stage" and "\<not> is_completed p i"
    and "(stage, i) \<in> {(PhaseOneSafeModeArmed, PHASE_ONE_SAFE_MODE_HANDOFF), (PhaseTwoSafeMode, PHASE_TWO_SAFE_BOOT_CLEAR),
      (PhaseThreeArmed, PHASE_TWO_PHASE_THREE_HANDOFF)}"
    and "authorize request s p f = Ok transition"
  shows "request = RequestOptimize"
proof -
  have other: "is_authorized_at t g \<longleftrightarrow> g = stage" for g
    using assms(2) by (auto simp: is_authorized_at_def)
  have phase_two: "require_phase_two_completed p \<noteq> Ok ()" if "i = PHASE_TWO_PHASE_THREE_HANDOFF"
  proof -
    have "\<exists>st\<in>set STEPS. id_phase (step_ident st) = PhaseTwo \<and> step_ident st = PHASE_TWO_PHASE_THREE_HANDOFF"
      by code_simp
    then show ?thesis using assms(3) that by (auto simp: require_phase_two_completed_Ok)
  qed
  note authorized = assms(5) and pairs = assms(4)
  show ?thesis
  proof (cases request)
    case RequestArmSafeMode
    then show ?thesis using authorized assms(1) by (simp add: authorize_arm_iff)
  next
    case RequestPhaseTwo
    then obtain "is_completed p PHASE_ONE_SAFE_MODE_HANDOFF" and "if is_completed p PHASE_TWO_SAFE_BOOT_CLEAR
        then is_authorized_at t PhaseTwoSafeMode else is_authorized_at t PhaseOneSafeModeArmed"
      using authorized assms(1) by (auto simp: authorize_phase_two_iff split: if_splits)
    then show ?thesis using pairs assms(3) other by (auto split: if_splits)
  next
    case RequestPhaseThree
    then have "is_authorized_at t PhaseThreeArmed" "require_phase_two_completed p = Ok ()"
      using authorized assms(1) by (auto simp: authorize_phase_three_iff simp del: require_phase_two_completed_Ok)
    then show ?thesis using pairs phase_two other by auto
  next
    case RequestFinalBenchmark
    then have "is_authorized_at t PhaseThreeArmed \<or> is_authorized_at t PhaseThreeComplete" "require_phase_two_completed p = Ok ()"
      using authorized assms(1) by (auto simp: authorize_final_benchmark_iff simp del: require_phase_two_completed_Ok)
    then show ?thesis using pairs phase_two other by auto
  next
    case RequestClearPhaseThreeHandoff
    then have "is_authorized_at t PhaseThreeComplete" using authorized assms(1) by (auto simp: authorize_clear_iff)
    then show ?thesis using pairs other by auto
  qed simp
qed

text \<open>
  C15: A checkpoint that is interrupted after its state was written and before its progress was leaves
  documents on which the workflow is stuck: no request but that of phase one is ever authorized for them,
  and the migration that phase one asks for first refuses.
\<close>

theorem interrupted_checkpoint_strands_workflow:
  assumes "(m, i) \<in> {(arm_safe_mode_handoff (traced H) rt, PHASE_ONE_SAFE_MODE_HANDOFF),
      (complete_phase_two_safe_boot_clear (traced H) rt, PHASE_TWO_SAFE_BOOT_CLEAR),
      (arm_phase_three_handoff (traced H) (beside load_driver) rt, PHASE_TWO_PHASE_THREE_HANDOFF)}"
    and "m (w, []) = (r, (w', log))"
    and "AskedWriteState s \<in> set log" and "\<not> is_completed p i"
  shows "(\<forall>request f. is_ok (authorize request s p f) \<longrightarrow> request = RequestOptimize)
     \<and> (\<exists>h. assess_inventory (Some s) (Some p) inventory = Refuse h)"
proof -
  have "\<exists>t stage. active_reboot_transaction s = Some t \<and> is_authorized_at t stage
      \<and> (stage, i) \<in> {(PhaseOneSafeModeArmed, PHASE_ONE_SAFE_MODE_HANDOFF), (PhaseTwoSafeMode, PHASE_TWO_SAFE_BOOT_CLEAR),
        (PhaseThreeArmed, PHASE_TWO_PHASE_THREE_HANDOFF)}"
    using assms(1)
  proof (elim insertE emptyE Pair_inject)
    assume m: "m = arm_safe_mode_handoff (traced H) rt" and i: "i = PHASE_ONE_SAFE_MODE_HANDOFF"
    obtain p' v where "arm_prefix (traced H) rt (w, []) = (Ok (s, p'), v)"
      using checkpoint_state [OF prefixes_elsewhere(1) assms(2) [unfolded m checkpoint_splits(1)] assms(3)] by blast
    then show ?thesis using arm_prefix_Ok i by blast
  next
    assume m: "m = complete_phase_two_safe_boot_clear (traced H) rt" and i: "i = PHASE_TWO_SAFE_BOOT_CLEAR"
    obtain p' v where "clear_prefix (traced H) rt (w, []) = (Ok (s, p'), v)"
      using checkpoint_state [OF prefixes_elsewhere(2) assms(2) [unfolded m checkpoint_splits(2)] assms(3)] by blast
    then show ?thesis using clear_prefix_Ok i by blast
  next
    assume m: "m = arm_phase_three_handoff (traced H) (beside load_driver) rt" and i: "i = PHASE_TWO_PHASE_THREE_HANDOFF"
    obtain p' v where "arm_three_prefix (traced H) (beside load_driver) rt (w, []) = (Ok (s, p'), v)"
      using checkpoint_state [OF prefixes_elsewhere(3) assms(2) [unfolded m checkpoint_splits(3)] assms(3)] by blast
    then show ?thesis using arm_three_prefix_Ok i by blast
  qed
  then obtain t stage where t: "active_reboot_transaction s = Some t" "is_authorized_at t stage"
    "(stage, i) \<in> {(PhaseOneSafeModeArmed, PHASE_ONE_SAFE_MODE_HANDOFF), (PhaseTwoSafeMode, PHASE_TWO_SAFE_BOOT_CLEAR),
        (PhaseThreeArmed, PHASE_TWO_PHASE_THREE_HANDOFF)}" by blast
  have "\<exists>h. assess_inventory (Some s) (Some p) inventory = Refuse h"
    using t(1) by (simp add: assess_inventory_def)
  then show ?thesis using stranded_documents [OF t(1,2) assms(4) t(3)] by (auto simp: is_ok_iff)
qed


section \<open>A concrete interruption\<close>

text \<open>A machine whose world is the state document and on which the progress cannot be written.\<close>

definition sample_command :: string where
  "sample_command = CHR 0x22 # ''r'' @ CHR 0x22 # '' phase2 --yes''"

definition full_disk :: "(unit state, unit) handoff_host" where
  "full_disk =
     \<lparr>hh_user_sid = io_ret demo_sid, hh_acquire_fixed = io_ret (), hh_acquire = io_ret (), hh_lock = io_ret (),
      hh_state_there = (\<lambda>s. (True, s)), hh_read_state = (\<lambda>s. (Ok s, s)), hh_write_state = (\<lambda>s' s. (Ok (), s')),
      hh_progress_there = (\<lambda>s. (False, s)), hh_read_progress = io_fail ''absent'',
      hh_write_progress = (\<lambda>_. io_fail ''disk full''), hh_history_there = (\<lambda>s. (False, s)),
      hh_read_history = io_ret [], hh_registry_read = (\<lambda>_. io_ret None),
      hh_registry_read_exact = (\<lambda>_. io_ret (Some (RegString sample_command))), hh_registry_write = (\<lambda>_. io_ret ()),
      hh_registry_delete = (\<lambda>_ _ _. io_ret ()), hh_execute = (\<lambda>_ _. io_ret ''''), hh_gen_random = io_ret [],
      hh_timestamp = (\<lambda>s. ('''', s)), hh_shell_execute = (\<lambda>_ _ _. io_ret ()), hh_runtime_integrity = io_ret (),
      hh_clean_boot = (\<lambda>s. (1, s))\<rparr>"

lemma full_disk_simps:
  "hh_acquire_fixed full_disk = io_ret ()" "hh_acquire full_disk = io_ret ()" "hh_lock full_disk = io_ret ()"
  "hh_state_there full_disk = (\<lambda>s. (True, s))" "hh_read_state full_disk = (\<lambda>s. (Ok s, s))"
  "hh_write_state full_disk = (\<lambda>s' s. (Ok (), s'))" "hh_progress_there full_disk = (\<lambda>s. (False, s))"
  "hh_write_progress full_disk = (\<lambda>_. io_fail ''disk full'')"
  "hh_registry_read_exact full_disk = (\<lambda>_. io_ret (Some (RegString sample_command)))"
  "hh_execute full_disk = (\<lambda>_ _. io_ret '''')" "hh_timestamp full_disk = (\<lambda>s. ('''', s))"
  by (simp_all add: full_disk_def)

definition sample_runtime :: "unit selected_runtime" where
  "sample_runtime = \<lparr>sr_record = demo_runtime, sr_executable = Some ''r''\<rparr>"

definition armed_state :: "reboot_stage \<Rightarrow> unit state" where
  "armed_state stage = state_default\<lparr>active_reboot_transaction := Some (demo_transaction stage)\<rparr>"

lemma armed_state_valid: "state_validate (armed_state stage) = Ok ()" "st_work_dir (armed_state stage) = default_work_dir"
proof -
  show "st_work_dir (armed_state stage) = default_work_dir" by (simp add: armed_state_def state_default_def)
  have "baseline_coherent (state_default :: unit state)" by (simp add: baseline_coherent_def state_default_def)
  then show "state_validate (armed_state stage) = Ok ()"
    by (simp add: state_validate_def armed_state_def state_default_def baseline_coherent_def)
qed

lemma sample_read_state:
  "read_state_for_handoff (traced full_disk) (armed_state stage, log) =
     (Ok (armed_state stage), (armed_state stage, log @ [ReadState (armed_state stage)]))"
proof -
  have "eq_ignore_ascii_case default_work_dir WINDOWS_WORK_DIR"
    by (simp add: default_work_dir_def WINDOWS_WORK_DIR_def eq_ignore_ascii_case_def)
  then show ?thesis
    by (simp add: read_state_for_handoff_def full_disk_simps io_bind_def io_call_def beside_call_def answering_def
        io_map_err_def map_err.simps io_check_def io_ret_def armed_state_valid)
qed

lemma sample_interruption:
  "complete_phase_two_safe_boot_clear (traced full_disk) sample_runtime (armed_state PhaseOneSafeModeArmed, []) =
   (Err ''P2:1 persist progress: disk full'', (armed_state PhaseTwoSafeMode,
     [ReadState (armed_state PhaseOneSafeModeArmed),
      ReadValue (handoff_change LocalMachine RUNONCE_KEY PHASE2_HANDOFF '''') (Some (RegString sample_command)),
      ToolOutput Bcdedit [''/deletevalue'', ''{current}'', ''safeboot''] '''',
      ToolOutput Bcdedit [''/enum'', ''{current}''] '''',
      AskedWriteState (armed_state PhaseTwoSafeMode), ReadState (armed_state PhaseTwoSafeMode),
      AskedWriteProgress (complete_step PHASE_TWO_SAFE_BOOT_CLEAR '''' progress_default)]))"
proof -
  have command: "handoff_command (sr_executable sample_runtime) ''phase2 --yes'' = Ok sample_command" by code_simp
  have vectors: "command_vector_new Bcdedit [''/deletevalue'', ''{current}'', ''safeboot''] =
      Ok \<lparr>cv_command = Bcdedit, cv_arguments = [''/deletevalue'', ''{current}'', ''safeboot'']\<rparr>"
    "command_vector_new Bcdedit [''/enum'', ''{current}''] =
      Ok \<lparr>cv_command = Bcdedit, cv_arguments = [''/enum'', ''{current}'']\<rparr>" by code_simp+
  have absent: "safeboot_evidence_from_bcd '''' = SafebootAbsent" by code_simp
  have stage: "transition_to (demo_transaction PhaseOneSafeModeArmed) PhaseTwoSafeMode = Ok (demo_transaction PhaseTwoSafeMode)"
    by (simp add: transition_to_def demo_transaction_def)
  have state: "active_reboot_transaction (armed_state PhaseOneSafeModeArmed) = Some (demo_transaction PhaseOneSafeModeArmed)"
    "(armed_state PhaseOneSafeModeArmed)\<lparr>active_reboot_transaction := Some (demo_transaction PhaseTwoSafeMode)\<rparr> =
      armed_state PhaseTwoSafeMode"
    by (simp_all add: armed_state_def)
  have runtime: "require_runtime_and_stage (demo_transaction PhaseOneSafeModeArmed) (sr_record sample_runtime)
      PhaseOneSafeModeArmed ''P2:1'' = Ok ()"
    by (simp add: require_runtime_and_stage_def sample_runtime_def demo_transaction_authorized) (simp add: demo_transaction_def)
  note run = io_bind_def io_check_def io_ret_def io_fail_def io_call_def io_map_err_def io_match_def
    beside_def beside_call_def answering_def asking_def
  have progress: "read_progress_for_handoff (traced full_disk) w = (Ok progress_default, w)" for w
    by (simp add: read_progress_for_handoff_def full_disk_simps run)
  show ?thesis
    by (simp add: complete_phase_two_safe_boot_clear_def read_handoff_session_def run sample_read_state progress
        state runtime command require_exact_handoff_def read_handoff_value_def clear_safeboot_def safeboot_evidence_of_def
        run_tool_vector_def vectors absent stage persist_state_readback_def persist_progress_readback_def ok_or_def full_disk_simps)
qed

lemma interrupted_checkpoint_strands_workflow_witness:
  "{request. \<exists>f. is_ok (authorize request (armed_state PhaseTwoSafeMode) (progress_default :: unit progress) f)}
     \<subseteq> {RequestOptimize}"
proof -
  have "\<not> is_completed (progress_default :: unit progress) PHASE_TWO_SAFE_BOOT_CLEAR"
    by (simp add: is_completed_def progress_default_def)
  then show ?thesis
    using interrupted_checkpoint_strands_workflow [where m = "complete_phase_two_safe_boot_clear (traced full_disk) sample_runtime"
        and load_driver = "io_ret None" and H = full_disk and rt = sample_runtime and i = PHASE_TWO_SAFE_BOOT_CLEAR
        and s = "armed_state PhaseTwoSafeMode" and p = progress_default, OF _ sample_interruption] by auto
qed


section \<open>The phase three handoff\<close>

text \<open>
  C16: With the native driver transaction P2:3 never succeeds: the removal evidence it waits for cannot be
  loaded, so the phase three handoff is never armed.
\<close>

theorem phase_three_is_never_armed:
  "\<not> is_ok (fst (arm_phase_three_handoff H (load_driver_transaction_at K P S) rt w))"
proof -
  have "arm_phase_three_handoff H (load_driver_transaction_at K P S) rt w \<noteq> (Ok u, w')" for u w'
    by (auto simp: arm_phase_three_handoff_def io_Ok ok_or_eq_Ok removal_complete_def dest: load_Some split: if_splits)
  then show ?thesis by (metis is_ok_iff prod.collapse)
qed

lemma read_progress_answer:
  assumes "read_progress_for_handoff (traced H) w = (Ok p, w')"
  shows "p = progress_default \<or> ReadProgress p \<in> set (snd w')"
  using assms unfolding read_progress_for_handoff_def traced_simps(8,9)
proof (cases rule: io_bind_cases)
  case (went_on there w1)
  show ?thesis
  proof (cases there)
    case True
    then show ?thesis using went_on(2) by (auto simp: io_Ok dest: answering_Ok)
  next
    case False
    then show ?thesis using went_on(2) by (simp add: io_Ok)
  qed
qed simp

lemma read_history_answer:
  assumes "read_history_for_final (traced H) w = (Ok history, w')"
  shows "history = [] \<or> ReadHistory history \<in> set (snd w')"
  using assms unfolding read_history_for_final_def traced_simps(11,12)
proof (cases rule: io_bind_cases)
  case (went_on there w1)
  show ?thesis
  proof (cases there)
    case True
    then show ?thesis using went_on(2) by (auto simp: io_Ok dest: answering_Ok)
  next
    case False
    then show ?thesis using went_on(2) by (simp add: io_Ok)
  qed
qed simp

lemma session_answer:
  assumes "read_handoff_session (traced H) w = (Ok (s, p), w')"
  shows "(s = state_default \<or> ReadState s \<in> set (snd w')) \<and> (p = progress_default \<or> ReadProgress p \<in> set (snd w'))"
proof -
  obtain w1 w2 where s: "read_state_for_handoff (traced H) w1 = (Ok s, w2)"
    and p: "read_progress_for_handoff (traced H) w2 = (Ok p, w')"
    using assms by (auto simp: read_handoff_session_def io_Ok)
  have "s = state_default \<or> ReadState s \<in> set (snd w2)" using read_state_answer [OF s] by auto
  then show ?thesis
    using adds_mem [OF io_withinD [OF read_progress_elsewhere p]] read_progress_answer [OF p] by blast
qed

text \<open>Everything of the last checkpoint before the deletion.\<close>

definition delete_prefix :: "('w, 'v) handoff_host \<Rightarrow> 'v selected_runtime \<Rightarrow> ('w, string, unit) io" where
  "delete_prefix H rt =
     (let refused = io_fail ''P3 completion requires a coherent persisted final benchmark; handoff retained'' in
     io_bind (hh_acquire_fixed H) (\<lambda>_.
     io_bind (hh_lock H) (\<lambda>_.
     io_bind (read_handoff_session H) (\<lambda>(s, p).
     if Session.key 3 13 |\<notin>| completed_steps p then refused
     else
       io_match (final_benchmark_status_locked H s p) (\<lambda>r.
       if \<not> is_ok r then refused
       else
         io_bind (io_check (ok_or ''P3 completion reboot transaction is missing'' (active_reboot_transaction s))) (\<lambda>t.
         io_bind (io_check (require_runtime_and_stage t (sr_record rt) PhaseThreeComplete ''P3 completion'')) (\<lambda>_.
         io_bind (io_map_err (\<lambda>e. ''P3 completion TokenUser: '' @ e) (hh_user_sid H)) (\<lambda>sid.
         if tx_user_sid t \<noteq> Some sid
         then io_fail ''P3 completion TokenUser differs from the initiating handoff user''
         else
           io_bind (io_check (handoff_command (sr_executable rt) ''phase3-handoff'')) (\<lambda>phase3.
           require_exact_handoff H CurrentUser RUN_KEY PHASE3_HANDOFF phase3 ''P3 completion'')))))))))"

lemma io_bind_match: "io_bind (io_match m f) g = io_match m (\<lambda>r. io_bind (f r) g)"
  by (rule ext) (simp add: io_bind_def io_match_def split: prod.split)

lemma clear_split:
  "clear_phase_three_handoff H rt =
     io_bind (delete_prefix H rt) (\<lambda>_.
     io_bind (io_map_err (\<lambda>e. ''P3 completion clear Run handoff: '' @ e)
       (hh_registry_delete H CurrentUser RUN_KEY PHASE3_HANDOFF)) (\<lambda>_.
     io_bind (read_handoff_value H CurrentUser RUN_KEY PHASE3_HANDOFF) (\<lambda>value.
     if value = None then io_ret ()
     else io_fail ''P3 completion Run handoff delete readback failed; retry recovery'')))"
  by (simp add: clear_phase_three_handoff_def delete_prefix_def Let_def split_def io_bind_normal io_bind_match cong: if_cong)

text \<open>Reads are the only events of the prefix.\<close>

definition asks_nothing :: "'v handoff_event set" where
  "asks_nothing = - (range AskedWriteValue \<union> {AskedDeleteValue h k n |h k n. True} \<union> range AskedWriteState \<union> range AskedWriteProgress)"

lemma traced_asks_nothing [io_within_intros]:
  "io_within (adds asks_nothing) (hh_read_state (traced H))"
  "io_within (adds asks_nothing) (hh_read_progress (traced H))"
  "io_within (adds asks_nothing) (hh_read_history (traced H))"
  "io_within (adds asks_nothing) (hh_registry_read_exact (traced H) c)"
  by (simp_all add: answering_adds asks_nothing_def image_iff)

lemma session_asks_nothing [io_within_intros]: "io_within (adds asks_nothing) (read_handoff_session (traced H))"
  unfolding read_handoff_session_def read_state_for_handoff_def read_progress_for_handoff_def traced_simps(3,5,8)
  by (intro io_within_bind [OF adds_order(2)] io_within_intros) (auto simp del: traced_simps intro!: io_within_intros)

lemma status_asks_nothing [io_within_intros]:
  "io_within (adds asks_nothing) (final_benchmark_status_locked (traced H) s p)"
  unfolding final_benchmark_status_locked_def read_history_for_final_def traced_simps(3,11)
  by (intro io_within_bind [OF adds_order(2)] io_within_intros) (auto simp del: traced_simps intro!: io_within_intros)

lemma read_value_asks_nothing [io_within_intros]: "io_within (adds asks_nothing) (read_handoff_value (traced H) h k n)"
  unfolding read_handoff_value_def
  by (rule io_within_bind [OF adds_order(2) traced_asks_nothing(4)])
    (auto split: option.split reg_value.split intro!: io_within_intros)

lemma delete_prefix_asks_nothing: "io_within (adds asks_nothing) (delete_prefix (traced H) rt)"
  unfolding delete_prefix_def Let_def traced_simps(1,2,4) require_exact_handoff_def
  by (intro io_within_bind [OF adds_order(2)] io_within_intros)
    (auto simp del: traced_simps intro!: io_within_intros io_within_match [OF adds_order(2)])

lemma delete_prefix_Ok:
  assumes "delete_prefix (traced H) rt w = (Ok u, w')"
  shows "\<exists>s p history receipt t. validate_persisted_final_benchmark s p history = Ok receipt
     \<and> active_reboot_transaction s = Some t \<and> is_authorized_at t PhaseThreeComplete \<and> tx_runtime t = Some (sr_record rt)
     \<and> ReadState s \<in> set (snd w') \<and> ReadProgress p \<in> set (snd w')
     \<and> (history = [] \<or> ReadHistory history \<in> set (snd w'))"
proof -
  obtain s p t phase3 w1 w2 w3 w4 w5 w6 where session: "read_handoff_session (traced H) w1 = (Ok (s, p), w2)"
    and completed: "Session.key 3 13 |\<in>| completed_steps p"
    and status: "final_benchmark_status_locked (traced H) s p w2 = (Ok (), w3)"
    and t: "active_reboot_transaction s = Some t" "is_authorized_at t PhaseThreeComplete" "tx_runtime t = Some (sr_record rt)"
    and sid: "beside (hh_user_sid H) w3 = (w4, w5)" "w6 = w5"
    and exact: "require_exact_handoff (traced H) CurrentUser RUN_KEY PHASE3_HANDOFF phase3 ''P3 completion'' w6 = (Ok u, w')"
    using assms
    by (auto simp: delete_prefix_def Let_def io_Ok io_match_eq guard_simps ok_or_eq_Ok is_ok_iff split: prod.splits if_splits)
  obtain history receipt w7 where history: "read_history_for_final (traced H) w7 = (Ok history, w3)"
    and valid: "validate_persisted_final_benchmark s p history = Ok receipt"
    using status by (auto simp: final_benchmark_status_locked_def io_Ok guard_simps)
  have kept: "x \<in> set (snd w')" if "x \<in> set (snd w3)" for x
  proof -
    have "x \<in> set (snd w6)" using that beside_log [OF sid(1)] sid(2) by simp
    then show ?thesis using adds_mem [OF io_withinD [OF require_handoff_elsewhere exact]] by blast
  qed
  have later: "x \<in> set (snd w3)" if "x \<in> set (snd w2)" for x
    using adds_mem [OF io_withinD [OF status_asks_nothing status]] that by blast
  have "s \<noteq> state_default" using t(1) by (auto simp: state_default_def)
  moreover have "p \<noteq> progress_default" using completed by (auto simp: progress_default_def)
  ultimately have "ReadState s \<in> set (snd w')" "ReadProgress p \<in> set (snd w')"
    using session_answer [OF session] kept later by blast+
  then show ?thesis using valid t read_history_answer [OF history] kept by blast
qed

text \<open>
  C17: The Run value of phase three is deleted only after the persisted final benchmark was validated on the
  very documents that were read, and for a transaction that is complete and belongs to the running
  executable; nothing else is ever written or deleted.
\<close>

theorem phase_three_is_cleared_after_final_benchmark:
  "case clear_phase_three_handoff (traced H) rt (w, []) of (r, (w', log)) \<Rightarrow>
     set log \<subseteq> asks_nothing
     \<or> (\<exists>s p history receipt t before after. log = before @ AskedDeleteValue CurrentUser RUN_KEY PHASE3_HANDOFF # after
          \<and> set before \<subseteq> asks_nothing \<and> set after \<subseteq> asks_nothing
          \<and> ReadState s \<in> set before \<and> ReadProgress p \<in> set before
          \<and> (history = [] \<or> ReadHistory history \<in> set before)
          \<and> validate_persisted_final_benchmark s p history = Ok receipt
          \<and> active_reboot_transaction s = Some t \<and> is_authorized_at t PhaseThreeComplete
          \<and> tx_runtime t = Some (sr_record rt))"
proof -
  obtain r w' log where run: "clear_phase_three_handoff (traced H) rt (w, []) = (r, (w', log))"
    by (metis prod.exhaust)
  from run [unfolded clear_split] show ?thesis
  proof (cases rule: io_bind_cases)
    case (stopped e)
    have "set log \<subseteq> asks_nothing" using io_withinD [OF delete_prefix_asks_nothing stopped(1)] by (auto simp: adds_def)
    then show ?thesis by (simp add: run)
  next
    case (went_on u w1)
    obtain s p history receipt t where facts: "ReadState s \<in> set (snd w1)" "ReadProgress p \<in> set (snd w1)"
      "history = [] \<or> ReadHistory history \<in> set (snd w1)" "validate_persisted_final_benchmark s p history = Ok receipt"
      "active_reboot_transaction s = Some t" "is_authorized_at t PhaseThreeComplete" "tx_runtime t = Some (sr_record rt)"
      using delete_prefix_Ok [OF went_on(1)] by blast
    have before: "set (snd w1) \<subseteq> asks_nothing"
      using io_withinD [OF delete_prefix_asks_nothing went_on(1)] by (auto simp: adds_def)
    have "\<exists>after. log = snd w1 @ AskedDeleteValue CurrentUser RUN_KEY PHASE3_HANDOFF # after \<and> set after \<subseteq> asks_nothing"
      using went_on(2)
    proof (cases rule: io_bind_cases)
      case (stopped e)
      obtain r1 where "asking (AskedDeleteValue CurrentUser RUN_KEY PHASE3_HANDOFF)
          (hh_registry_delete H CurrentUser RUN_KEY PHASE3_HANDOFF) w1 = (r1, (w', log))"
        using map_err_run [OF stopped(1)] by auto
      then show ?thesis using asking_log by fastforce
    next
      case (went_on u' w2)
      have log2: "snd w2 = snd w1 @ [AskedDeleteValue CurrentUser RUN_KEY PHASE3_HANDOFF]"
        using went_on(1) asking_log by (fastforce simp: io_Ok)
      have "io_within (adds asks_nothing) (io_bind (read_handoff_value (traced H) CurrentUser RUN_KEY PHASE3_HANDOFF)
          (\<lambda>value. if value = None then io_ret ()
            else io_fail ''P3 completion Run handoff delete readback failed; retry recovery''))"
        by (auto intro!: io_within_intros)
      from io_withinD [OF this went_on(2)] show ?thesis using log2 by (auto simp: adds_def)
    qed
    then obtain after where after: "log = snd w1 @ AskedDeleteValue CurrentUser RUN_KEY PHASE3_HANDOFF # after"
      "set after \<subseteq> asks_nothing" by blast
    show ?thesis
      unfolding run prod.case
      by (rule disjI2, (rule exI)+, (rule conjI, rule after(1) before after(2) facts(1-6))+, rule facts(7))
  qed
qed

section \<open>User SIDs\<close>

lemma parse_digits_narrow:
  "parse_digits b a s = Some v \<Longrightarrow> v < c \<Longrightarrow> c \<le> b \<Longrightarrow> parse_digits c a s = Some v"
proof (induction s arbitrary: a)
  case (Cons x s)
  have grows: "parse_digits b a' s = Some v \<Longrightarrow> a' \<le> v" for a'
    by (induction s arbitrary: a') (fastforce simp: Let_def split: if_splits)+
  show ?case using Cons grows by (fastforce simp: Let_def split: if_splits)
qed simp

lemma parse_digits_widen: "parse_digits c a s = Some v \<Longrightarrow> c \<le> b \<Longrightarrow> parse_digits b a s = Some v"
  by (induction s arbitrary: a) (auto simp: Let_def split: if_splits)

lemma parse_unsigned_narrow:
  assumes "0 < c" and "c \<le> b"
  shows "(case parse_unsigned b s of None \<Rightarrow> False | Some n \<Rightarrow> n < c) \<longleftrightarrow> parse_unsigned c s \<noteq> None"
proof (cases "parse_unsigned c s")
  case None
  have "parse_unsigned c s = Some n" if "parse_unsigned b s = Some n" "n < c" for n
    using that parse_digits_narrow [of b 0 _ n c] assms(2)
    by (auto simp: parse_unsigned_def simp del: parse_digits.simps split: list.splits if_splits)
  then show ?thesis using None by (auto split: option.split)
next
  case (Some v)
  then have "parse_unsigned b s = Some v"
    using parse_digits_widen [of c 0 _ v b] assms(2)
    by (auto simp: parse_unsigned_def simp del: parse_digits.simps split: list.splits if_splits)
  then show ?thesis using Some parse_unsigned_bound [OF Some assms(1)] by simp
qed

text \<open>
  The inspection of a handoff and the transaction mean the same texts by a user SID: the two validators
  agree on every text.
\<close>

theorem sid_validators_agree: "valid_canonical_sid = valid_user_sid"
proof
  fix s
  have "valid_canonical_sid s \<longleftrightarrow> valid_user_sid s"
    using parse_unsigned_narrow [of "2 ^ 32" "2 ^ 64"]
    by (auto simp: valid_canonical_sid_def valid_user_sid_def Suc_le_eq split: list.splits)
  then show "valid_canonical_sid s = valid_user_sid s" by simp
qed

end
