(* ===== verification/Work_Directory.thy ===== *)
theory Work_Directory
  imports Reboot_Handoff Backup Evidence State_Audit
begin

text \<open>
  The documents of the trusted work directory: \<open>read_json_trusted\<close>, \<open>write_json_atomic_trusted\<close>
  (\<open>crates/frametime-windows/src/trust/public.rs\<close>) and the lock (\<open>system/platform.rs\<close>) as a record of
  calls, the laws a document keeps as locales, and a directory whose calls may fail at any moment on which
  the locales are interpreted.
\<close>

section \<open>The calls\<close>

record ('w, 'a) json_file =
  jf_there :: "'w \<Rightarrow> bool \<times> 'w"
  jf_read :: "('w, string, 'a) io"
  jf_write :: "'a \<Rightarrow> ('w, string, unit) io"

record ('w, 'v) work_directory =
  wd_acquire_fixed :: "('w, string, unit) io"
  wd_acquire :: "('w, string, unit) io"
  wd_lock :: "('w, string, unit) io"
  wd_unlock :: "'w \<Rightarrow> 'w"
  wd_state :: "('w, 'v state) json_file"
  wd_progress :: "('w, 'v progress) json_file"
  wd_history :: "('w, 'v benchmark_record list) json_file"
  wd_backup :: "('w, 'v backup_file) json_file"
  wd_audit :: "('w, 'v audit_file) json_file"
  wd_evidence :: "('w, 'v evidence_file) json_file"
  wd_timestamp :: "'w \<Rightarrow> string \<times> 'w"
  wd_random :: "('w, string, u8 list) io"
  wd_elevation :: "('w, string, unit) io"

text \<open>A \<open>WorkLock\<close> is released when the function that holds it returns, whatever it returns.\<close>

definition with_lock :: "('w, 'v) work_directory \<Rightarrow> ('w, string, 'a) io \<Rightarrow> ('w, string, 'a) io" where
  "with_lock D m = io_bind (wd_lock D) (\<lambda>_ w. case m w of (r, w') \<Rightarrow> (r, wd_unlock D w'))"

definition read_or :: "'a \<Rightarrow> string \<Rightarrow> ('w, 'a) json_file \<Rightarrow> ('w, string, 'a) io" where
  "read_or absent prefix F =
     io_bind (io_call (jf_there F)) (\<lambda>there.
     if \<not> there then io_ret absent else io_map_err (\<lambda>e. prefix @ e) (jf_read F))"

definition read_checked_or ::
  "'a \<Rightarrow> ('a \<Rightarrow> (unit, string) result) \<Rightarrow> string \<Rightarrow> ('w, 'a) json_file \<Rightarrow> ('w, string, 'a) io" where
  "read_checked_or absent check prefix F =
     io_bind (io_call (jf_there F)) (\<lambda>there.
     if \<not> there then io_ret absent
     else
       io_bind (io_map_err (\<lambda>e. prefix @ e) (jf_read F)) (\<lambda>x.
       io_bind (io_check (check x)) (\<lambda>_. io_ret x)))"

text \<open>
  Writing, reading back, checking and comparing.  Documents hold no \<open>NaN\<close>, which JSON cannot represent, so
  the derived equality of two of them is equality.
\<close>

definition write_and_compare ::
  "('w, 'a) json_file \<Rightarrow> ('a \<Rightarrow> (unit, string) result) \<Rightarrow> string \<Rightarrow> string \<Rightarrow> string \<Rightarrow> 'a
     \<Rightarrow> ('w, string, unit) io" where
  "write_and_compare F check writing reading mismatch x =
     io_bind (io_map_err (\<lambda>e. writing @ e) (jf_write F x)) (\<lambda>_.
     io_bind (io_map_err (\<lambda>e. reading @ e) (jf_read F)) (\<lambda>y.
     io_bind (io_check (check y)) (\<lambda>_.
     if y = x then io_ret () else io_fail mismatch)))"

definition any_content :: "'a \<Rightarrow> (unit, string) result" where
  "any_content _ = Ok ()"

section \<open>The laws of a document\<close>

text \<open>
  Every world shows some data, of which the document is a part.  A write is atomic: it leaves the old data or
  the new, and the new when it reports success.
\<close>

locale document =
  fixes F :: "('w, 'a) json_file" and shown :: "'w \<Rightarrow> 'd"
    and content :: "'d \<Rightarrow> 'a option" and put :: "'a \<Rightarrow> 'd \<Rightarrow> 'd"
  assumes there_law: "jf_there F w = (b, w') \<Longrightarrow> b \<longleftrightarrow> content (shown w) \<noteq> None"
    and there_shown: "jf_there F w = (b, w') \<Longrightarrow> shown w' = shown w"
    and read_shown: "jf_read F w = (r, w') \<Longrightarrow> shown w' = shown w"
    and read_law: "jf_read F w = (Ok x, w') \<Longrightarrow> content (shown w) = Some x"
    and write_shown: "jf_write F x w = (q, w') \<Longrightarrow> shown w' = shown w \<or> shown w' = put x (shown w)"
    and write_law: "jf_write F x w = (Ok u, w') \<Longrightarrow> shown w' = put x (shown w)"
    and put_content [simp]: "content (put x d) = Some x"
    and put_same: "content d = Some x \<Longrightarrow> put x d = d"
begin

lemma read_or_shown: "read_or absent prefix F w = (r, w') \<Longrightarrow> shown w' = shown w"
proof -
  assume r: "read_or absent prefix F w = (r, w')"
  obtain b v where t: "jf_there F w = (b, v)" by (cases "jf_there F w")
  show ?thesis
    using r read_shown [of v] there_shown [OF t]
    by (auto simp: read_or_def io_bind_def io_call_def t io_ret_def io_map_err_def
        split: if_splits prod.splits result.splits)
qed

lemma read_or_Ok:
  "read_or absent prefix F w = (Ok x, w') \<Longrightarrow>
     x = (case content (shown w) of None \<Rightarrow> absent | Some y \<Rightarrow> y)"
proof -
  assume r: "read_or absent prefix F w = (Ok x, w')"
  obtain b v where t: "jf_there F w = (b, v)" by (cases "jf_there F w")
  show ?thesis
    using r there_law [OF t] there_shown [OF t] read_law [of v]
    by (auto simp: read_or_def io_bind_def io_call_def t io_ret_def io_map_err_def map_err_eq_Ok
        split: if_splits prod.splits result.splits)
qed

lemma read_checked_or_shown: "read_checked_or absent check prefix F w = (r, w') \<Longrightarrow> shown w' = shown w"
proof -
  assume r: "read_checked_or absent check prefix F w = (r, w')"
  obtain b v where t: "jf_there F w = (b, v)" by (cases "jf_there F w")
  show ?thesis
    using r read_shown [of v] there_shown [OF t]
    by (auto simp: read_checked_or_def io_bind_def io_call_def t io_ret_def io_map_err_def io_check_def
        split: if_splits prod.splits result.splits)
qed

lemma read_checked_or_Ok:
  assumes "read_checked_or absent check prefix F w = (Ok x, w')"
  shows "x = (case content (shown w) of None \<Rightarrow> absent | Some y \<Rightarrow> y)"
    and "content (shown w) = None \<or> check x = Ok ()"
proof -
  obtain b v where t: "jf_there F w = (b, v)" by (cases "jf_there F w")
  have "content (shown w) = None \<and> x = absent \<or> content (shown w) = Some x \<and> check x = Ok ()"
    using assms there_law [OF t] there_shown [OF t] read_law [of v]
    by (auto simp: read_checked_or_def io_bind_def io_call_def t io_ret_def io_map_err_def io_check_def map_err_eq_Ok
        split: if_splits prod.splits result.splits)
  then show "x = (case content (shown w) of None \<Rightarrow> absent | Some y \<Rightarrow> y)"
      "content (shown w) = None \<or> check x = Ok ()" by auto
qed

lemma write_and_compare_shown:
  "write_and_compare F check a b c x w = (r, w') \<Longrightarrow> shown w' = shown w \<or> shown w' = put x (shown w)"
proof -
  assume r: "write_and_compare F check a b c x w = (r, w')"
  obtain q v where w: "jf_write F x w = (q, v)" by (cases "jf_write F x w")
  have "shown w' = shown v"
    using r w read_shown [of v]
    by (auto simp: write_and_compare_def io_bind_def io_map_err_def io_check_def io_ret_def io_fail_def
        split: if_splits prod.splits result.splits)
  then show ?thesis using write_shown [OF w] by simp
qed

lemma write_and_compare_Ok:
  "write_and_compare F check a b c x w = (Ok u, w') \<Longrightarrow> shown w' = put x (shown w)"
proof -
  assume r: "write_and_compare F check a b c x w = (Ok u, w')"
  then obtain q v where w: "jf_write F x w = (Ok q, v)"
    by (auto simp: write_and_compare_def io_Ok)
  have "shown w' = shown v"
    using r w read_shown [of v]
    by (auto simp: write_and_compare_def io_bind_def io_map_err_def io_check_def io_ret_def io_fail_def
        split: if_splits prod.splits result.splits)
  then show ?thesis using write_law [OF w] by simp
qed

end

text \<open>While nothing fails, every call does what it is asked to do.\<close>

locale sound_document = document +
  fixes calm :: "'w \<Rightarrow> bool"
  assumes calm_there: "calm w \<Longrightarrow> jf_there F w = (b, w') \<Longrightarrow> calm w'"
    and calm_read: "calm w \<Longrightarrow> content (shown w) = Some x \<Longrightarrow> \<exists>w'. jf_read F w = (Ok x, w') \<and> calm w'"
    and calm_write: "calm w \<Longrightarrow> \<exists>w'. jf_write F x w = (Ok (), w') \<and> calm w'"
begin

lemma read_or_calm:
  assumes "calm w"
  shows "\<exists>w'. read_or absent prefix F w
       = (Ok (case content (shown w) of None \<Rightarrow> absent | Some y \<Rightarrow> y), w') \<and> calm w' \<and> shown w' = shown w"
proof -
  obtain b v where t: "jf_there F w = (b, v)" by (cases "jf_there F w")
  note T = there_law [OF t] there_shown [OF t] calm_there [OF assms t]
  show ?thesis
  proof (cases "content (shown w)")
    case None
    then show ?thesis using T by (simp add: read_or_def io_bind_def io_call_def t io_ret_def)
  next
    case (Some y)
    obtain v' where v': "jf_read F v = (Ok y, v')" "calm v'" using calm_read [of v y] Some T by auto
    have "shown v' = shown w" using read_shown [OF v'(1)] T(2) by simp
    then show ?thesis using T v' Some by (simp add: read_or_def io_bind_def io_call_def t io_map_err_def)
  qed
qed

lemma read_checked_or_calm:
  assumes "calm w" and "\<And>y. content (shown w) = Some y \<Longrightarrow> check y = Ok ()"
  shows "\<exists>w'. read_checked_or absent check prefix F w
       = (Ok (case content (shown w) of None \<Rightarrow> absent | Some y \<Rightarrow> y), w') \<and> calm w' \<and> shown w' = shown w"
proof -
  obtain b v where t: "jf_there F w = (b, v)" by (cases "jf_there F w")
  note T = there_law [OF t] there_shown [OF t] calm_there [OF assms(1) t]
  show ?thesis
  proof (cases "content (shown w)")
    case None
    then show ?thesis using T by (simp add: read_checked_or_def io_bind_def io_call_def t io_ret_def)
  next
    case (Some y)
    obtain v' where v': "jf_read F v = (Ok y, v')" "calm v'" using calm_read [of v y] Some T by auto
    have "shown v' = shown w" using read_shown [OF v'(1)] T(2) by simp
    then show ?thesis using T v' Some assms(2)
      by (simp add: read_checked_or_def io_bind_def io_call_def t io_map_err_def io_check_def io_ret_def)
  qed
qed

lemma write_and_compare_calm:
  assumes "calm w" and "check x = Ok ()"
  shows "\<exists>w'. write_and_compare F check a b c x w = (Ok (), w') \<and> calm w' \<and> shown w' = put x (shown w)"
proof -
  obtain v where v: "jf_write F x w = (Ok (), v)" "calm v" using calm_write [OF assms(1)] by blast
  then have s: "shown v = put x (shown w)" using write_law by blast
  then obtain v' where v': "jf_read F v = (Ok x, v')" "calm v'" using calm_read [OF v(2), of x] by auto
  have "write_and_compare F check a b c x w = (Ok (), v')"
    using v v' assms(2) by (simp add: write_and_compare_def io_bind_def io_map_err_def io_check_def io_ret_def)
  then show ?thesis using v'(2) read_shown [OF v'(1)] s by auto
qed

end

section \<open>A directory with faults\<close>

record 'v documents =
  doc_state :: "'v state option"
  doc_progress :: "'v progress option"
  doc_history :: "'v benchmark_record list option"
  doc_backup :: "'v backup_file option"
  doc_audit :: "'v audit_file option"
  doc_evidence :: "'v evidence_file option"

text \<open>A call is refused before it acts, or its answer is lost: it acted and reports a failure.\<close>

datatype (plugins only: code size) disk_fault = Refused string | AnswerLost string

record 'v work_disk =
  dk_documents :: "'v documents"
  dk_locked :: bool
  dk_calls :: nat
  dk_fault :: "nat \<Rightarrow> disk_fault option"
  dk_clock :: "nat \<Rightarrow> string"
  dk_entropy :: "nat \<Rightarrow> u8 list"

definition disk_call :: "('v work_disk \<Rightarrow> ('a, string) result \<times> 'v work_disk) \<Rightarrow> ('v work_disk, string, 'a) io" where
  "disk_call act w =
     (let w' = w\<lparr>dk_calls := dk_calls w + 1\<rparr> in
      case dk_fault w (dk_calls w) of
        Some (Refused e) \<Rightarrow> (Err e, w')
      | Some (AnswerLost e) \<Rightarrow> (Err e, snd (act w'))
      | None \<Rightarrow> act w')"

definition disk_file ::
  "('v documents \<Rightarrow> 'a option) \<Rightarrow> ('a \<Rightarrow> 'v documents \<Rightarrow> 'v documents) \<Rightarrow> ('v work_disk, 'a) json_file" where
  "disk_file content put =
     \<lparr>jf_there = (\<lambda>w. (content (dk_documents w) \<noteq> None, w)),
      jf_read = disk_call (\<lambda>w.
        (case content (dk_documents w) of
           None \<Rightarrow> Err ''open trusted suite JSON handle: not found'' | Some x \<Rightarrow> Ok x, w)),
      jf_write = (\<lambda>x. disk_call (\<lambda>w. (Ok (), w\<lparr>dk_documents := put x (dk_documents w)\<rparr>)))\<rparr>"

text \<open>\<open>CREATE_NEW\<close> without sharing: there is one lock at a time.\<close>

definition disk_directory :: "('v work_disk, 'v) work_directory" where
  "disk_directory =
     \<lparr>wd_acquire_fixed = disk_call (\<lambda>w. (Ok (), w)),
      wd_acquire = disk_call (\<lambda>w. (Ok (), w)),
      wd_lock = disk_call (\<lambda>w.
        if dk_locked w then (Err ''live transaction lock unavailable: the file exists'', w)
        else (Ok (), w\<lparr>dk_locked := True\<rparr>)),
      wd_unlock = (\<lambda>w. w\<lparr>dk_locked := False\<rparr>),
      wd_state = disk_file doc_state (\<lambda>x. doc_state_update (\<lambda>_. Some x)),
      wd_progress = disk_file doc_progress (\<lambda>x. doc_progress_update (\<lambda>_. Some x)),
      wd_history = disk_file doc_history (\<lambda>x. doc_history_update (\<lambda>_. Some x)),
      wd_backup = disk_file doc_backup (\<lambda>x. doc_backup_update (\<lambda>_. Some x)),
      wd_audit = disk_file doc_audit (\<lambda>x. doc_audit_update (\<lambda>_. Some x)),
      wd_evidence = disk_file doc_evidence (\<lambda>x. doc_evidence_update (\<lambda>_. Some x)),
      wd_timestamp = (\<lambda>w. (dk_clock w (dk_calls w), w\<lparr>dk_calls := dk_calls w + 1\<rparr>)),
      wd_random = disk_call (\<lambda>w. (Ok (dk_entropy w (dk_calls w)), w)),
      wd_elevation = disk_call (\<lambda>w. (Ok (), w))\<rparr>"

definition disk_calm :: "'v work_disk \<Rightarrow> bool" where
  "disk_calm w \<longleftrightarrow> dk_fault w = (\<lambda>_. None)"

lemma disk_file_simps [simp]:
  "jf_there (disk_file content put) w = (content (dk_documents w) \<noteq> None, w)"
  "jf_read (disk_file content put) = disk_call (\<lambda>w.
     (case content (dk_documents w) of
        None \<Rightarrow> Err ''open trusted suite JSON handle: not found'' | Some x \<Rightarrow> Ok x, w))"
  "jf_write (disk_file content put) x = disk_call (\<lambda>w. (Ok (), w\<lparr>dk_documents := put x (dk_documents w)\<rparr>))"
  by (simp_all add: disk_file_def)

lemma disk_file_sound:
  fixes content :: "'v documents \<Rightarrow> 'a option"
  assumes "\<And>x d. content (put x d) = Some x" and "\<And>x d. content d = Some x \<Longrightarrow> put x d = d"
  shows "sound_document (disk_file content put) dk_documents content put disk_calm"
proof
  fix w w' :: "'v work_disk" and x :: 'a and r :: "('a, string) result" and q :: "(unit, string) result" and u b
  let ?F = "disk_file content put"
  show "jf_there ?F w = (b, w') \<Longrightarrow> b = (content (dk_documents w) \<noteq> None)" by auto
  show "jf_there ?F w = (b, w') \<Longrightarrow> dk_documents w' = dk_documents w" by auto
  show "jf_read ?F w = (r, w') \<Longrightarrow> dk_documents w' = dk_documents w"
    by (auto simp: disk_call_def Let_def split: option.splits disk_fault.splits)
  show "jf_read ?F w = (Ok x, w') \<Longrightarrow> content (dk_documents w) = Some x"
    by (auto simp: disk_call_def Let_def split: option.splits disk_fault.splits)
  show "jf_write ?F x w = (q, w')
     \<Longrightarrow> dk_documents w' = dk_documents w \<or> dk_documents w' = put x (dk_documents w)"
    by (auto simp: disk_call_def Let_def split: option.splits disk_fault.splits)
  show "jf_write ?F x w = (Ok u, w') \<Longrightarrow> dk_documents w' = put x (dk_documents w)"
    by (auto simp: disk_call_def Let_def split: option.splits disk_fault.splits)
  show "content (put x d) = Some x" for d by (rule assms(1))
  show "content d = Some x \<Longrightarrow> put x d = d" for d by (rule assms(2))
  show "disk_calm w \<Longrightarrow> jf_there ?F w = (b, w') \<Longrightarrow> disk_calm w'" by auto
  show "disk_calm w \<Longrightarrow> content (dk_documents w) = Some x \<Longrightarrow> \<exists>w'. jf_read ?F w = (Ok x, w') \<and> disk_calm w'"
    by (simp add: disk_call_def Let_def disk_calm_def)
  show "disk_calm w \<Longrightarrow> \<exists>w'. jf_write ?F x w = (Ok (), w') \<and> disk_calm w'"
    by (simp add: disk_call_def Let_def disk_calm_def)
qed

interpretation state_doc: sound_document "wd_state disk_directory" dk_documents doc_state
    "\<lambda>x. doc_state_update (\<lambda>_. Some x)" disk_calm
  unfolding disk_directory_def work_directory.select_convs by (rule disk_file_sound) simp_all

interpretation progress_doc: sound_document "wd_progress disk_directory" dk_documents doc_progress
    "\<lambda>x. doc_progress_update (\<lambda>_. Some x)" disk_calm
  unfolding disk_directory_def work_directory.select_convs by (rule disk_file_sound) simp_all

interpretation history_doc: sound_document "wd_history disk_directory" dk_documents doc_history
    "\<lambda>x. doc_history_update (\<lambda>_. Some x)" disk_calm
  unfolding disk_directory_def work_directory.select_convs by (rule disk_file_sound) simp_all

interpretation backup_doc: sound_document "wd_backup disk_directory" dk_documents doc_backup
    "\<lambda>x. doc_backup_update (\<lambda>_. Some x)" disk_calm
  unfolding disk_directory_def work_directory.select_convs by (rule disk_file_sound) simp_all

interpretation audit_doc: sound_document "wd_audit disk_directory" dk_documents doc_audit
    "\<lambda>x. doc_audit_update (\<lambda>_. Some x)" disk_calm
  unfolding disk_directory_def work_directory.select_convs by (rule disk_file_sound) simp_all

interpretation evidence_doc: sound_document "wd_evidence disk_directory" dk_documents doc_evidence
    "\<lambda>x. doc_evidence_update (\<lambda>_. Some x)" disk_calm
  unfolding disk_directory_def work_directory.select_convs by (rule disk_file_sound) simp_all

end
