(* ===== verification/Persistence.thy ===== *)
theory Persistence
  imports Work_Directory Benchmark Policy
begin

text \<open>
  What is persisted besides the engine's own documents (\<open>crates/frametime-windows/src/storage/persistence.rs\<close>,
  \<open>persistence_final_support.rs\<close>): the profile, an advisory capture, the baseline and the final benchmark,
  each under the lock of the work directory, written in an order that a retry can resume from.
\<close>

section \<open>Reading\<close>

definition work_dir_checked :: "'v state \<Rightarrow> (unit, string) result" where
  "work_dir_checked s =
     and_then (state_validate s) (\<lambda>_.
     if eq_ignore_ascii_case (st_work_dir s) WINDOWS_WORK_DIR then Ok ()
     else Err (''state workDir must be C:'' @ backslash @ ''FRAMETIME_CFG''))"

definition read_state_as :: "string \<Rightarrow> ('w, 'v) work_directory \<Rightarrow> ('w, string, 'v state) io" where
  "read_state_as prefix D = read_checked_or state_default work_dir_checked prefix (wd_state D)"

definition load_progress :: "('w, 'v) work_directory \<Rightarrow> ('w, string, 'v progress) io" where
  "load_progress D =
     io_bind (wd_acquire_fixed D) (\<lambda>_.
     io_bind (wd_acquire D) (\<lambda>_. read_or progress_default ''read progress: '' (wd_progress D)))"

definition load_state :: "('w, 'v) work_directory \<Rightarrow> ('w, string, 'v state) io" where
  "load_state D =
     io_bind (wd_acquire_fixed D) (\<lambda>_.
     io_bind (wd_acquire D) (\<lambda>_. read_state_as ''read state: '' D))"

definition empty_backup :: "string \<Rightarrow> 'v backup_file" where
  "empty_backup created = \<lparr>backup_entries = [], backup_created = created, backup_unknown = fmempty\<rparr>"

definition load_backup :: "('w, 'v) work_directory \<Rightarrow> ('w, string, 'v backup_file) io" where
  "load_backup D =
     io_bind (wd_acquire_fixed D) (\<lambda>_.
     io_bind (wd_acquire D) (\<lambda>_. read_or (empty_backup '''') ''read backup: '' (wd_backup D)))"

definition read_state_for_baseline :: "('w, 'v) work_directory \<Rightarrow> ('w, string, 'v state) io" where
  "read_state_for_baseline D = read_state_as ''read baseline state: '' D"

definition read_progress_for_baseline :: "('w, 'v) work_directory \<Rightarrow> ('w, string, 'v progress) io" where
  "read_progress_for_baseline D = read_or progress_default ''read baseline progress: '' (wd_progress D)"

definition read_history_for_baseline ::
  "('w, 'v) work_directory \<Rightarrow> ('w, string, 'v benchmark_record list) io" where
  "read_history_for_baseline D = read_or [] ''read baseline benchmark history: '' (wd_history D)"

definition read_state_for_final :: "('w, 'v) work_directory \<Rightarrow> ('w, string, 'v state) io" where
  "read_state_for_final D = read_state_as ''read final benchmark state: '' D"

definition read_progress_for_final :: "('w, 'v) work_directory \<Rightarrow> ('w, string, 'v progress) io" where
  "read_progress_for_final D = read_or progress_default ''read final benchmark progress: '' (wd_progress D)"

definition final_history_of :: "('w, 'v) work_directory \<Rightarrow> ('w, string, 'v benchmark_record list) io" where
  "final_history_of D = read_or [] ''read final benchmark history: '' (wd_history D)"

section \<open>The profile and the advisory capture\<close>

fun profile_mode :: "bool \<Rightarrow> profile \<Rightarrow> string" where
  "profile_mode True _ = ''DRY-RUN''"
| "profile_mode False ProfileSafe = ''AUTO''"
| "profile_mode False ProfileRecommended = ''AUTO''"
| "profile_mode False ProfileCompetitive = ''CONTROL''"
| "profile_mode False ProfileCustom = ''INFORMED''"
| "profile_mode False ProfileYolo = ''YOLO''"

definition configure_profile ::
  "('w, 'v) work_directory \<Rightarrow> profile \<Rightarrow> bool \<Rightarrow> ('w, string, 'v state) io" where
  "configure_profile D profile dry_run =
     io_bind (wd_acquire_fixed D) (\<lambda>_.
     with_lock D (
       io_bind (read_or state_default ''read state: '' (wd_state D)) (\<lambda>s.
       io_bind (io_check (state_validate s)) (\<lambda>_.
       let s' = s\<lparr>st_profile := profile, st_mode := profile_mode dry_run profile, st_work_dir := WINDOWS_WORK_DIR\<rparr> in
       io_bind (write_and_compare (wd_state D) state_validate ''persist profile state: ''
         ''read back profile state: '' ''profile-state readback verification failed'' s') (\<lambda>_.
       io_ret s')))))"

definition invalid_fps_capture :: "u32 \<Rightarrow> benchmark_capture \<Rightarrow> bool" where
  "invalid_fps_capture cap c \<longleftrightarrow>
     cap = 0 \<or> \<not> is_finite (average_fps c) \<or> f64_le (average_fps c) f64_zero
     \<or> \<not> is_finite (capture_p1_fps c) \<or> f64_lt (capture_p1_fps c) f64_zero"

definition advisory_record :: "string \<Rightarrow> benchmark_capture \<Rightarrow> string \<Rightarrow> 'v benchmark_record" where
  "advisory_record captured_at c label =
     \<lparr>rec_timestamp = captured_at, rec_avg_fps = average_fps c, rec_p1_fps = capture_p1_fps c,
      rec_label = label, rec_runs = capture_runs c, rec_receipt_id = None, rec_transaction_id = None,
      rec_unknown = fmempty\<rparr>"

definition persist_fps_capture ::
  "('w, 'v) work_directory \<Rightarrow> u32 \<Rightarrow> benchmark_capture \<Rightarrow> string \<Rightarrow> ('w, string, 'v state) io" where
  "persist_fps_capture D cap c label =
     io_bind (wd_acquire_fixed D) (\<lambda>_.
     if invalid_fps_capture cap c then io_fail ''invalid FPS capture''
     else
       with_lock D (
         io_bind (read_or state_default ''read state: '' (wd_state D)) (\<lambda>s.
         io_bind (io_check (state_validate s)) (\<lambda>_.
         if final_benchmark s \<noteq> None
         then io_fail ''advisory FPS persistence cannot replace a completed Phase 3 benchmark receipt''
         else
           io_bind (io_call (wd_timestamp D)) (\<lambda>captured_at.
           let s' = s\<lparr>st_fps_cap := cap, st_avg_fps := average_fps c,
                st_p1_fps := (if f64_lt f64_zero (capture_p1_fps c) then Some (capture_p1_fps c) else None),
                st_cap_date := Some captured_at, st_work_dir := WINDOWS_WORK_DIR\<rparr> in
           io_bind (write_and_compare (wd_state D) state_validate ''persist FPS state: ''
             ''verify FPS state: '' ''FPS state readback verification failed'' s') (\<lambda>_.
           if \<not> f64_lt f64_zero (capture_p1_fps c) then io_ret s'
           else
             io_bind (read_or [] ''read benchmark history: '' (wd_history D)) (\<lambda>history.
             io_bind (write_and_compare (wd_history D) any_content ''persist benchmark history: ''
               ''verify benchmark history: '' ''benchmark history readback verification failed''
               (append_benchmark_record history (advisory_record captured_at c label))) (\<lambda>_.
             io_ret s'))))))))"

section \<open>The baseline\<close>

text \<open>A document of a commit is written only when it differs from what was read.\<close>

definition commit_document ::
  "('w, 'a) json_file \<Rightarrow> ('a \<Rightarrow> (unit, string) result) \<Rightarrow> string \<Rightarrow> string \<Rightarrow> 'a \<Rightarrow> 'a \<Rightarrow> ('w, string, unit) io" where
  "commit_document F check kind part old new =
     (if new = old then io_ret ()
      else write_and_compare F check (''persist '' @ kind @ '' benchmark '' @ part @ '': '')
        (''verify '' @ kind @ '' benchmark '' @ part @ '': '')
        (kind @ '' benchmark '' @ part @ '' readback verification failed'') new)"

definition persist_baseline_benchmark ::
  "('w, 'v) work_directory \<Rightarrow> benchmark_capture \<Rightarrow> ('w, string, 'v state) io" where
  "persist_baseline_benchmark D c =
     io_bind (wd_acquire_fixed D) (\<lambda>_.
     with_lock D (
       io_bind (read_state_for_baseline D) (\<lambda>s.
       io_bind (read_progress_for_baseline D) (\<lambda>p.
       io_bind (read_history_for_baseline D) (\<lambda>h.
       io_bind (io_call (wd_timestamp D)) (\<lambda>now.
       io_bind (io_check (prepare_baseline_benchmark_commit s p h now c)) (\<lambda>b.
       if idempotent b then io_ret (bc_state b)
       else
         io_bind (commit_document (wd_history D) any_content ''baseline'' ''history'' h (bc_history b)) (\<lambda>_.
         io_bind (commit_document (wd_state D) state_validate ''baseline'' ''state'' s (bc_state b)) (\<lambda>_.
         io_bind (commit_document (wd_progress D) any_content ''baseline'' ''progress'' p (bc_progress b)) (\<lambda>_.
         io_bind (io_check (validate_persisted_baseline_benchmark (bc_state b) (bc_progress b) (bc_history b))) (\<lambda>_.
         io_ret (bc_state b))))))))))))"

definition baseline_benchmark_is_persisted :: "('w, 'v) work_directory \<Rightarrow> ('w, string, bool) io" where
  "baseline_benchmark_is_persisted D =
     io_match
       (io_bind (read_state_for_baseline D) (\<lambda>s.
        io_bind (read_progress_for_baseline D) (\<lambda>p.
        io_bind (read_history_for_baseline D) (\<lambda>h.
        io_check (validate_persisted_baseline_benchmark s p h))))) (\<lambda>r. io_ret (is_ok r))"

section \<open>The final benchmark\<close>

datatype (plugins only: code size) 'v final_reconciliation =
    ReconComplete "'v final_benchmark_receipt"
  | ReconPending "'v final_commit"

definition final_evidence :: "'v benchmark_record \<Rightarrow> bool" where
  "final_evidence r \<longleftrightarrow>
     rec_label r = FINAL_BENCHMARK_LABEL \<or> rec_receipt_id r \<noteq> None \<or> rec_transaction_id r \<noteq> None"

definition final_history_prefix ::
  "'v benchmark_record list \<Rightarrow> ((nat \<times> 'v benchmark_record) option, string) result" where
  "final_history_prefix history =
     (case filter (\<lambda>(_, r). final_evidence r) (enumerate 0 history) of
        [] \<Rightarrow> Ok None
      | [record] \<Rightarrow> Ok (Some record)
      | _ \<Rightarrow> Err ''final benchmark history contains conflicting receipt prefixes'')"

definition receipt_matches_capture :: "'v final_benchmark_receipt \<Rightarrow> benchmark_capture \<Rightarrow> bool" where
  "receipt_matches_capture r c \<longleftrightarrow>
     f64_eq (fb_avg_fps r) (average_fps c) \<and> f64_eq (fb_p1_fps r) (capture_p1_fps c) \<and> fb_runs r = capture_runs c"

definition validate_partial_final_state ::
  "'v state \<Rightarrow> 'v final_benchmark_receipt \<Rightarrow> benchmark_capture \<Rightarrow> (unit, string) result" where
  "validate_partial_final_state s r c =
     and_then (state_validate s) (\<lambda>_.
     if map_option tx_stage (active_reboot_transaction s) \<noteq> Some PhaseThreeComplete
     then Err ''final benchmark partial state is not Phase 3 complete''
     else if \<not> receipt_matches_capture r c \<or> st_fps_cap s \<noteq> fb_fps_cap r
        \<or> \<not> f64_eq (st_avg_fps s) (fb_avg_fps r) \<or> \<not> opt_f64_eq (st_p1_fps s) (Some (fb_p1_fps r))
        \<or> st_cap_date s \<noteq> Some (fb_captured_utc r)
     then Err ''final benchmark partial state conflicts with the requested capture''
     else Ok ())"

definition validate_partial_final_record ::
  "'v benchmark_record \<Rightarrow> 'v state \<Rightarrow> benchmark_capture \<Rightarrow> (unit, string) result" where
  "validate_partial_final_record r s c =
     and_then (state_validate s) (\<lambda>_.
     and_then (ok_or ''final benchmark history has no active reboot transaction''
       (Option.bind (active_reboot_transaction s) tx_id)) (\<lambda>transaction_id.
     if rec_label r \<noteq> FINAL_BENCHMARK_LABEL \<or> rec_receipt_id r = None
        \<or> rec_transaction_id r \<noteq> Some transaction_id
        \<or> \<not> f64_eq (rec_avg_fps r) (average_fps c) \<or> \<not> f64_eq (rec_p1_fps r) (capture_p1_fps c)
        \<or> rec_runs r \<noteq> capture_runs c
     then Err ''final benchmark partial history conflicts with the requested capture''
     else Ok ()))"

definition receipt_id_from_record :: "'v benchmark_record \<Rightarrow> (transaction_id, string) result" where
  "receipt_id_from_record r = ok_or ''final benchmark partial history has no receipt id'' (rec_receipt_id r)"

definition remove_at :: "nat \<Rightarrow> 'a list \<Rightarrow> 'a list" where
  "remove_at i xs = take i xs @ drop (Suc i) xs"

text \<open>The state a retry starts from: that of before the commit.\<close>

definition source_final_state :: "'v state \<Rightarrow> benchmark_capture \<Rightarrow> ('v state, string) result" where
  "source_final_state s c =
     (case final_benchmark s of
        None \<Rightarrow> and_then (state_validate s) (\<lambda>_. Ok s)
      | Some receipt \<Rightarrow>
          and_then (validate_partial_final_state s receipt c) (\<lambda>_.
          and_then (ok_or ''final benchmark partial state lost its reboot transaction''
            (active_reboot_transaction s)) (\<lambda>t.
          Ok (s\<lparr>final_benchmark := None,
                active_reboot_transaction := Some (t\<lparr>tx_stage := PhaseThreeArmed\<rparr>)\<rparr>))))"

text \<open>The identifier and the time of the record, and the history without it.\<close>

definition source_final_record ::
  "'v state \<Rightarrow> 'v benchmark_record list \<Rightarrow> (nat \<times> 'v benchmark_record) option \<Rightarrow> benchmark_capture
     \<Rightarrow> ('w, string, transaction_id) io \<Rightarrow> string
     \<Rightarrow> ('w, string, transaction_id \<times> string \<times> 'v benchmark_record list) io" where
  "source_final_record s history partial c fresh captured_utc =
     (case partial of
        Some (i, r) \<Rightarrow>
          io_check (and_then (validate_partial_final_record r s c) (\<lambda>_.
            if (case final_benchmark s of None \<Rightarrow> False | Some receipt \<Rightarrow> \<not> matches_history_record receipt r)
            then Err ''final benchmark history and state prefixes disagree''
            else and_then (receipt_id_from_record r) (\<lambda>receipt_id.
              Ok (receipt_id, rec_timestamp r, remove_at i history))))
      | None \<Rightarrow>
          (case final_benchmark s of
             Some receipt \<Rightarrow> io_ret (fb_receipt_id receipt, fb_captured_utc receipt, history)
           | None \<Rightarrow> io_bind fresh (\<lambda>receipt_id. io_ret (receipt_id, captured_utc, history))))"

definition reconcile_final_benchmark ::
  "'v state \<Rightarrow> 'v progress \<Rightarrow> 'v benchmark_record list \<Rightarrow> config \<Rightarrow> ('w, string, transaction_id) io \<Rightarrow> string
     \<Rightarrow> benchmark_capture \<Rightarrow> ('w, string, 'v final_reconciliation) io" where
  "reconcile_final_benchmark s p history cfg fresh captured_utc c =
     (if Session.key 3 13 |\<in>| completed_steps p
      then
        io_bind (io_check (validate_persisted_final_benchmark s p history)) (\<lambda>receipt.
        if \<not> receipt_matches_capture receipt c
        then io_fail ''completed final benchmark conflicts with the requested capture''
        else io_ret (ReconComplete receipt))
      else if Session.key 3 13 |\<in>| skipped_steps p
      then io_fail ''final benchmark progress was skipped and cannot be retried''
      else
        io_bind (io_check (final_history_prefix history)) (\<lambda>partial.
        io_bind (io_check (source_final_state s c)) (\<lambda>source.
        io_bind (source_final_record s history partial c fresh captured_utc) (\<lambda>(receipt_id, ts, source_history).
        io_bind (io_check (prepare_final_benchmark_commit source p source_history cfg receipt_id ts c)) (\<lambda>commit.
        if (case final_benchmark s of None \<Rightarrow> False | Some receipt \<Rightarrow> fc_receipt commit \<noteq> receipt)
        then io_fail ''final benchmark partial state does not reproduce its receipt''
        else if (case partial of None \<Rightarrow> False | Some (_, r) \<Rightarrow> \<not> matches_history_record (fc_receipt commit) r)
        then io_fail ''final benchmark partial history does not reproduce its receipt''
        else io_ret (ReconPending commit))))))"

definition random_final_receipt_id :: "('w, 'v) work_directory \<Rightarrow> ('w, string, transaction_id) io" where
  "random_final_receipt_id D =
     io_bind (wd_random D) (\<lambda>bytes. io_check (transaction_id_parse (lower_hex bytes)))"

text \<open>At most \<open>n\<close> candidates; the code tries eight.\<close>

fun fresh_receipt_id_within ::
  "nat \<Rightarrow> ('w, 'v) work_directory \<Rightarrow> 'v state \<Rightarrow> 'v benchmark_record list \<Rightarrow> ('w, string, transaction_id) io" where
  "fresh_receipt_id_within 0 D s history = io_fail ''could not generate a unique final benchmark receipt id''"
| "fresh_receipt_id_within (Suc n) D s history =
     io_bind (random_final_receipt_id D) (\<lambda>candidate.
     if Option.bind (active_reboot_transaction s) tx_id \<noteq> Some candidate
        \<and> list_all (\<lambda>r. rec_receipt_id r \<noteq> Some candidate) history
     then io_ret candidate
     else fresh_receipt_id_within n D s history)"

definition fresh_final_receipt_id ::
  "('w, 'v) work_directory \<Rightarrow> 'v state \<Rightarrow> 'v benchmark_record list \<Rightarrow> ('w, string, transaction_id) io" where
  "fresh_final_receipt_id D s history = fresh_receipt_id_within 8 D s history"

definition reread_final_benchmark ::
  "('w, 'v) work_directory \<Rightarrow> ('w, string, 'v final_benchmark_receipt) io" where
  "reread_final_benchmark D =
     io_bind (io_map_err (\<lambda>e. ''final benchmark state reread: '' @ e) (jf_read (wd_state D))) (\<lambda>s.
     io_bind (io_map_err (\<lambda>e. ''final benchmark progress reread: '' @ e) (jf_read (wd_progress D))) (\<lambda>p.
     io_bind (io_map_err (\<lambda>e. ''final benchmark history reread: '' @ e) (jf_read (wd_history D))) (\<lambda>h.
     io_check (validate_persisted_final_benchmark s p h))))"

definition write_final_commit ::
  "('w, 'v) work_directory \<Rightarrow> 'v state \<Rightarrow> 'v progress \<Rightarrow> 'v benchmark_record list \<Rightarrow> 'v final_commit
     \<Rightarrow> ('w, string, 'v final_benchmark_receipt) io" where
  "write_final_commit D s p h commit =
     io_bind (commit_document (wd_history D) any_content ''final'' ''history'' h (fc_history commit)) (\<lambda>_.
     io_bind (commit_document (wd_state D) state_validate ''final'' ''state'' s (fc_state commit)) (\<lambda>_.
     io_bind (commit_document (wd_progress D) any_content ''final'' ''progress'' p (fc_progress commit)) (\<lambda>_.
     reread_final_benchmark D)))"

definition persist_final_benchmark ::
  "('w, 'v) work_directory \<Rightarrow> config \<Rightarrow> benchmark_capture \<Rightarrow> ('w, string, 'v final_benchmark_receipt) io" where
  "persist_final_benchmark D cfg c =
     io_bind (wd_acquire_fixed D) (\<lambda>_.
     with_lock D (
       io_bind (read_state_for_final D) (\<lambda>s.
       io_bind (read_progress_for_final D) (\<lambda>p.
       io_bind (final_history_of D) (\<lambda>h.
       io_bind (io_call (wd_timestamp D)) (\<lambda>now.
       io_bind (reconcile_final_benchmark s p h cfg (fresh_final_receipt_id D s h) now c) (\<lambda>reconciliation.
       case reconciliation of
         ReconComplete receipt \<Rightarrow> io_ret receipt
       | ReconPending commit \<Rightarrow> write_final_commit D s p h commit)))))))"

section \<open>Its inspection\<close>

datatype (plugins only: code size) 'v final_benchmark_status =
    FinalAbsent
  | FinalCoherent "'v final_benchmark_receipt"
  | FinalIncoherent string

definition has_receipt_evidence :: "'v state \<Rightarrow> 'v progress \<Rightarrow> 'v benchmark_record list \<Rightarrow> bool" where
  "has_receipt_evidence s p history \<longleftrightarrow>
     final_benchmark s \<noteq> None
     \<or> map_option tx_stage (active_reboot_transaction s) = Some PhaseThreeComplete
     \<or> Session.key 3 13 |\<in>| completed_steps p
     \<or> Session.key 3 13 |\<in>| skipped_steps p
     \<or> fmlookup (timestamps p) ''3-13'' \<noteq> None
     \<or> list_ex final_evidence history"

definition final_benchmark_status_from_records ::
  "'v state \<Rightarrow> 'v progress \<Rightarrow> 'v benchmark_record list \<Rightarrow> 'v final_benchmark_status" where
  "final_benchmark_status_from_records s p history =
     (if \<not> has_receipt_evidence s p history then FinalAbsent
      else
        (case validate_persisted_final_benchmark s p history of
           Ok receipt \<Rightarrow> FinalCoherent receipt
         | Err e \<Rightarrow> FinalIncoherent e))"

text \<open>A document that cannot be read makes the receipt incoherent.\<close>

definition or_incoherent ::
  "('w, string, 'a) io \<Rightarrow> ('a \<Rightarrow> ('w, string, 'v final_benchmark_status) io)
     \<Rightarrow> ('w, string, 'v final_benchmark_status) io" where
  "or_incoherent m f = io_match m (\<lambda>r. case r of Ok x \<Rightarrow> f x | Err e \<Rightarrow> io_ret (FinalIncoherent e))"

definition final_benchmark_status :: "('w, 'v) work_directory \<Rightarrow> ('w, string, 'v final_benchmark_status) io" where
  "final_benchmark_status D =
     io_bind (wd_acquire_fixed D) (\<lambda>_.
     io_bind (wd_acquire D) (\<lambda>_.
     with_lock D (
       or_incoherent (read_state_for_final D) (\<lambda>s.
       or_incoherent (read_progress_for_final D) (\<lambda>p.
       or_incoherent (final_history_of D) (\<lambda>h.
       io_ret (final_benchmark_status_from_records s p h)))))))"

end
