(* ===== verification/Persistence_Safety.thy ===== *)
theory Persistence_Safety
  imports Persistence
begin

text \<open>
  What the order of the writes is good for: a final benchmark that was interrupted anywhere is finished by
  repeating it; and what an advisory capture must not be called.
\<close>

section \<open>Preparing again from a prefix\<close>

lemma transition_armed_complete:
  "is_authorized_at t PhaseThreeArmed
     \<Longrightarrow> transition_to t PhaseThreeComplete = Ok (t\<lparr>tx_stage := PhaseThreeComplete\<rparr>)"
  by (auto simp: transition_to_Ok is_authorized_at_def)

definition final_record_at :: "string \<Rightarrow> 'v final_benchmark_receipt \<Rightarrow> 'v benchmark_record" where
  "final_record_at ts r = (final_record r)\<lparr>rec_timestamp := ts\<rparr>"

definition final_commit_of ::
  "'v state \<Rightarrow> 'v progress \<Rightarrow> 'v benchmark_record list \<Rightarrow> string \<Rightarrow> 'v reboot_transaction
     \<Rightarrow> 'v final_benchmark_receipt \<Rightarrow> 'v final_commit" where
  "final_commit_of s p h ts t r =
     \<lparr>fc_state = (final_state s r)\<lparr>active_reboot_transaction :=
        Some (t\<lparr>tx_stage := PhaseThreeComplete, tx_updated_utc := Some ts\<rparr>)\<rparr>,
      fc_progress = complete_step PHASE_THREE_FINAL_BENCHMARK ts p,
      fc_history = append_benchmark_record h (final_record_at ts r), fc_receipt = r\<rparr>"

lemma receipt_new_facts:
  assumes "receipt_new i tid ts c cap = Ok r"
  shows "receipt_validate r = Ok ()" and "fb_captured_utc r = ts" and "fb_receipt_id r = i"
    and "fb_transaction_id r = tid" and "fb_avg_fps r = average_fps c" and "fb_p1_fps r = capture_p1_fps c"
    and "fb_runs r = capture_runs c" and "fb_fps_cap r = cap" and "fb_label r = FINAL_BENCHMARK_LABEL"
  using assms unfolding receipt_new_Ok by auto

lemma receipt_new_record:
  assumes "receipt_new i tid ts c cap = Ok r"
  shows "final_record_at ts r = final_record r" and "matches_history_record r (final_record_at ts r)"
proof -
  show "final_record_at ts r = final_record r"
    using receipt_new_facts(2) [OF assms] by (simp add: final_record_at_def final_record_def)
  then show "matches_history_record r (final_record_at ts r)"
    using final_record_matches [OF receipt_new_facts(1) [OF assms]] by simp
qed

lemma prepare_final_iff:
  "prepare_final_benchmark_commit s p h cfg i ts c = Ok f \<longleftrightarrow>
     config_validate cfg = Ok () \<and> state_validate s = Ok () \<and> final_benchmark s = None
     \<and> is_completed p PHASE_THREE_DRIVER_INSTALL \<and> \<not> unresolved_phase_three p
     \<and> \<not> is_completed p PHASE_THREE_FINAL_BENCHMARK \<and> \<not> is_skipped p PHASE_THREE_FINAL_BENCHMARK
     \<and> (\<exists>t tid cap r. active_reboot_transaction s = Some t \<and> is_authorized_at t PhaseThreeArmed
          \<and> tx_id t = Some tid \<and> (\<forall>x\<in>set h. rec_receipt_id x \<noteq> Some i \<and> rec_transaction_id x \<noteq> Some tid)
          \<and> measured_fps_cap (cap_config_strategy (config_fps_cap cfg)) c = Some cap
          \<and> receipt_new i tid ts c cap = Ok r
          \<and> f = final_commit_of s p h ts t r \<and> state_validate (fc_state f) = Ok ())"
proof -
  have fields: "final_record_at ts r =
      \<lparr>rec_timestamp = ts, rec_avg_fps = fb_avg_fps r, rec_p1_fps = fb_p1_fps r, rec_label = fb_label r,
       rec_runs = fb_runs r, rec_receipt_id = Some (fb_receipt_id r),
       rec_transaction_id = Some (fb_transaction_id r), rec_unknown = fmempty\<rparr>" for r :: "'a final_benchmark_receipt"
    by (simp add: final_record_at_def final_record_def)
  note unfold = prepare_final_benchmark_commit_def Let_def final_commit_of_def fields [symmetric]
  show ?thesis (is "?prepare = Ok f \<longleftrightarrow> ?accepted")
  proof
    show "?prepare = Ok f \<Longrightarrow> ?accepted"
      by (auto simp: unfold and_then_eq_Ok map_err_eq_Ok ok_or_eq_Ok transition_armed_complete list_ex_iff
          split: if_splits)
    assume ?accepted
    then obtain t tid cap r where a: "active_reboot_transaction s = Some t" "is_authorized_at t PhaseThreeArmed"
        "tx_id t = Some tid" "\<forall>x\<in>set h. rec_receipt_id x \<noteq> Some i \<and> rec_transaction_id x \<noteq> Some tid"
        "measured_fps_cap (cap_config_strategy (config_fps_cap cfg)) c = Some cap"
        "receipt_new i tid ts c cap = Ok r" "f = final_commit_of s p h ts t r" "state_validate (fc_state f) = Ok ()"
      and b: "config_validate cfg = Ok ()" "state_validate s = Ok ()" "final_benchmark s = None"
        "is_completed p PHASE_THREE_DRIVER_INSTALL" "\<not> unresolved_phase_three p"
        "\<not> is_completed p PHASE_THREE_FINAL_BENCHMARK" "\<not> is_skipped p PHASE_THREE_FINAL_BENCHMARK"
      by blast
    have "list_ex (\<lambda>x. rec_receipt_id x = Some i \<or> rec_transaction_id x = Some tid) h = False"
      using a(4) by (auto simp: list_ex_iff)
    then show "?prepare = Ok f"
      using a(1,3,5,6,8) b receipt_new_record(2) [OF a(6)]
      by (simp add: unfold a(2) a(7) transition_armed_complete [OF a(2)] ok_or_def)
  qed
qed

section \<open>The history\<close>

lemma drop_record:
  obtains n where "append_benchmark_record h r = drop n h @ [r]"
    and "append_benchmark_record (drop n h) r = append_benchmark_record h r"
proof -
  obtain n where n: "append_benchmark_record h r = drop n h @ [r]" using append_benchmark_record_split by blast
  have "length (drop n h @ [r]) \<le> MAX_BENCHMARK_HISTORY"
    using length_append_benchmark_record [of h r] by (simp add: n)
  then have "append_benchmark_record (drop n h) r = drop n h @ [r]"
    by (simp add: append_benchmark_record_def Let_def)
  then show thesis using that n by simp
qed

lemma filter_enumerate_none:
  "\<forall>x\<in>set xs. \<not> P x \<Longrightarrow> filter (\<lambda>(_, x). P x) (enumerate k xs) = []"
  by (auto simp: filter_empty_conv in_set_enumerate_eq)

lemma final_history_prefix_none: "list_ex final_evidence h = False \<Longrightarrow> final_history_prefix h = Ok None"
  by (simp add: final_history_prefix_def filter_enumerate_none list_ex_iff)

lemma final_history_prefix_last:
  assumes "\<forall>x\<in>set h. \<not> final_evidence x" and "final_evidence r"
  shows "final_history_prefix (h @ [r]) = Ok (Some (length h, r))"
  using assms filter_enumerate_none [OF assms(1), of 0]
  by (simp add: final_history_prefix_def enumerate_append_eq)

lemma remove_at_last [simp]: "remove_at (length h) (h @ [r]) = h"
  by (simp add: remove_at_def)

section \<open>Reconciling from a prefix\<close>

lemma final_key: "Session.key 3 13 = progress_key PHASE_THREE_FINAL_BENCHMARK"
  by (simp add: Session.key_def PHASE_THREE_FINAL_BENCHMARK_def progress_key_def step_id_new_def)

lemma final_key_member:
  "Session.key 3 13 |\<in>| completed_steps p \<longleftrightarrow> is_completed p PHASE_THREE_FINAL_BENCHMARK"
  "Session.key 3 13 |\<in>| skipped_steps p \<longleftrightarrow> is_skipped p PHASE_THREE_FINAL_BENCHMARK"
  by (simp_all add: final_key is_completed_def is_skipped_def)

text \<open>What an accepted commit says of its parts, for a history without a final record.\<close>

lemma final_commit_parts:
  assumes "prepare_final_benchmark_commit s p h cfg i ts c = Ok f" and "\<forall>x\<in>set h. \<not> final_evidence x"
  obtains t tid cap r k where
    "active_reboot_transaction s = Some t" "is_authorized_at t PhaseThreeArmed" "tx_id t = Some tid"
    "receipt_new i tid ts c cap = Ok r" "f = final_commit_of s p h ts t r" "state_validate (fc_state f) = Ok ()"
    "measured_fps_cap (cap_config_strategy (config_fps_cap cfg)) c = Some cap"
    "fc_history f = k @ [final_record_at ts r]" "\<forall>x\<in>set k. \<not> final_evidence x"
    "append_benchmark_record k (final_record_at ts r) = fc_history f"
    "final_history_prefix (fc_history f) = Ok (Some (length k, final_record_at ts r))"
proof -
  obtain t tid cap r where a: "active_reboot_transaction s = Some t" "is_authorized_at t PhaseThreeArmed"
      "tx_id t = Some tid" "receipt_new i tid ts c cap = Ok r" "f = final_commit_of s p h ts t r"
      "state_validate (fc_state f) = Ok ()"
      "measured_fps_cap (cap_config_strategy (config_fps_cap cfg)) c = Some cap"
    using assms(1) unfolding prepare_final_iff by blast
  obtain n where n: "fc_history f = drop n h @ [final_record_at ts r]"
      "append_benchmark_record (drop n h) (final_record_at ts r) = fc_history f"
    using drop_record [of h "final_record_at ts r"] a(5) by (auto simp: final_commit_of_def)
  have k: "\<forall>x\<in>set (drop n h). \<not> final_evidence x" using assms(2) by (auto dest: in_set_dropD)
  have "final_evidence (final_record_at ts r)"
    by (simp add: final_evidence_def final_record_at_def final_record_def)
  then have "final_history_prefix (fc_history f) = Ok (Some (length (drop n h), final_record_at ts r))"
    using final_history_prefix_last [OF k] n(1) by simp
  then show thesis using that a n k by blast
qed

lemma record_matches_final_capture:
  assumes "receipt_new i tid ts c cap = Ok r"
  shows "receipt_matches_capture r c"
    and "f64_eq (rec_avg_fps (final_record_at ts r)) (average_fps c)"
    and "f64_eq (rec_p1_fps (final_record_at ts r)) (capture_p1_fps c)"
    and "rec_runs (final_record_at ts r) = capture_runs c"
    and "rec_label (final_record_at ts r) = FINAL_BENCHMARK_LABEL"
    and "rec_receipt_id (final_record_at ts r) = Some i" and "rec_transaction_id (final_record_at ts r) = Some tid"
    and "rec_timestamp (final_record_at ts r) = ts"
proof -
  note r = receipt_new_facts [OF assms]
  have "is_finite (average_fps c)" "is_finite (capture_p1_fps c)"
    using receipt_finite [OF r(1)] by (simp_all add: r)
  then show "receipt_matches_capture r c" "f64_eq (rec_avg_fps (final_record_at ts r)) (average_fps c)"
      "f64_eq (rec_p1_fps (final_record_at ts r)) (capture_p1_fps c)"
    by (simp_all add: receipt_matches_capture_def final_record_at_def final_record_def r)
qed (simp_all add: final_record_at_def final_record_def receipt_new_facts [OF assms])

lemma partial_record_valid:
  assumes "receipt_new i tid ts c cap = Ok r" and "state_validate s = Ok ()"
    and "Option.bind (active_reboot_transaction s) tx_id = Some tid"
  shows "validate_partial_final_record (final_record_at ts r) s c = Ok ()"
  using assms(2,3) record_matches_final_capture [OF assms(1)]
  by (simp add: validate_partial_final_record_def ok_or_def)

text \<open>Preparing again from a source that differs only in what the commit overwrites.\<close>

lemma prepare_final_again:
  assumes "prepare_final_benchmark_commit s p h cfg i ts c = Ok f"
    and "active_reboot_transaction s = Some t" and "f = final_commit_of s p h ts t r"
    and "\<forall>x\<in>set k. \<not> final_evidence x"
    and "append_benchmark_record k (final_record_at ts r) = fc_history f"
    and "state_validate s' = Ok ()" and "final_benchmark s' = None"
    and "active_reboot_transaction s' = Some t'" and "is_authorized_at t' PhaseThreeArmed" and "tx_id t' = tx_id t"
    and "final_commit_of s' p k ts t' r = f"
  shows "prepare_final_benchmark_commit s' p k cfg i ts c = Ok f"
proof -
  obtain tid cap r' where a: "tx_id t = Some tid" "receipt_new i tid ts c cap = Ok r'"
      "f = final_commit_of s p h ts t r'" "measured_fps_cap (cap_config_strategy (config_fps_cap cfg)) c = Some cap"
      "state_validate (fc_state f) = Ok ()"
    using assms(1,2) unfolding prepare_final_iff by auto
  have r: "r' = r" using a(3) assms(3) by (simp add: final_commit_of_def)
  have "\<forall>x\<in>set k. rec_receipt_id x \<noteq> Some i \<and> rec_transaction_id x \<noteq> Some tid"
    using assms(4) by (auto simp: final_evidence_def)
  then show ?thesis
    using assms(1,6-11) a r unfolding prepare_final_iff by auto
qed


lemma reconcile_pending:
  assumes "\<not> is_completed p PHASE_THREE_FINAL_BENCHMARK" and "\<not> is_skipped p PHASE_THREE_FINAL_BENCHMARK"
    and "final_history_prefix h = Ok partial" and "source_final_state s c = Ok source"
    and "source_final_record s h partial c fresh now w = (Ok (i, ts, k), w')"
    and "prepare_final_benchmark_commit source p k cfg i ts c = Ok f"
    and "\<And>receipt. final_benchmark s = Some receipt \<Longrightarrow> fc_receipt f = receipt"
    and "\<And>j r. partial = Some (j, r) \<Longrightarrow> matches_history_record (fc_receipt f) r"
  shows "reconcile_final_benchmark s p h cfg fresh now c w = (Ok (ReconPending f), w')"
  using assms
  by (auto simp: reconcile_final_benchmark_def final_key_member io_bind_def io_check_def io_ret_def
      split: option.splits)

lemma final_state_fields [simp]:
  "final_benchmark (final_state s r) = Some r" "st_fps_cap (final_state s r) = fb_fps_cap r"
  "st_avg_fps (final_state s r) = fb_avg_fps r" "st_p1_fps (final_state s r) = Some (fb_p1_fps r)"
  "st_cap_date (final_state s r) = Some (fb_captured_utc r)"
  "active_reboot_transaction (final_state s r) = active_reboot_transaction s"
  by (simp_all add: final_state_def)

lemma source_of_committed_state:
  assumes r: "receipt_new i tid ts c cap = Ok r" and t: "active_reboot_transaction s = Some t"
      "is_authorized_at t PhaseThreeArmed"
    and f: "f = final_commit_of s p h ts t r" "state_validate (fc_state f) = Ok ()"
  defines "source \<equiv> (fc_state f)\<lparr>final_benchmark := None, active_reboot_transaction :=
      Some (t\<lparr>tx_stage := PhaseThreeArmed, tx_updated_utc := Some ts\<rparr>)\<rparr>"
  shows "source_final_state (fc_state f) c = Ok source" and "state_validate source = Ok ()"
    and "final_commit_of source p k ts (t\<lparr>tx_stage := PhaseThreeArmed, tx_updated_utc := Some ts\<rparr>) r
      = (final_commit_of s p k ts t r)"
proof -
  note R = receipt_new_facts [OF r] record_matches_final_capture [OF r]
  have fin: "is_finite (fb_avg_fps r)" "is_finite (fb_p1_fps r)" using receipt_finite [OF R(1)] by simp_all
  have "validate_partial_final_state (fc_state f) r c = Ok ()"
    using f(2) R fin by (simp add: validate_partial_final_state_def f(1) final_commit_of_def)
  then show "source_final_state (fc_state f) c = Ok source"
    by (simp add: source_final_state_def source_def f(1) final_commit_of_def ok_or_def)
  show "state_validate source = Ok ()"
    using f(2) by (simp add: state_validate_Ok_iff source_def f(1) final_commit_of_def baseline_coherent_def
        split: option.splits)
  show "final_commit_of source p k ts (t\<lparr>tx_stage := PhaseThreeArmed, tx_updated_utc := Some ts\<rparr>) r
      = final_commit_of s p k ts t r"
    by (simp add: final_commit_of_def source_def f(1) final_state_def)
qed

lemma reconcile_resumes:
  assumes p: "prepare_final_benchmark_commit s p h cfg i ts c = Ok f" and e: "\<forall>x\<in>set h. \<not> final_evidence x"
  shows "reconcile_final_benchmark s p (fc_history f) cfg fresh now c w = (Ok (ReconPending f), w)"
    and "reconcile_final_benchmark (fc_state f) p (fc_history f) cfg fresh now c w = (Ok (ReconPending f), w)"
    and "reconcile_final_benchmark (fc_state f) (fc_progress f) (fc_history f) cfg fresh now c w
      = (Ok (ReconComplete (fc_receipt f)), w)"
proof -
  obtain t tid cap r k where a: "active_reboot_transaction s = Some t" "is_authorized_at t PhaseThreeArmed"
      "tx_id t = Some tid" "receipt_new i tid ts c cap = Ok r" "f = final_commit_of s p h ts t r"
      "state_validate (fc_state f) = Ok ()"
      "measured_fps_cap (cap_config_strategy (config_fps_cap cfg)) c = Some cap"
      "fc_history f = k @ [final_record_at ts r]" "\<forall>x\<in>set k. \<not> final_evidence x"
      "append_benchmark_record k (final_record_at ts r) = fc_history f"
      "final_history_prefix (fc_history f) = Ok (Some (length k, final_record_at ts r))"
    using final_commit_parts [OF p e] by blast
  have open_p: "\<not> is_completed p PHASE_THREE_FINAL_BENCHMARK" "\<not> is_skipped p PHASE_THREE_FINAL_BENCHMARK"
      "final_benchmark s = None" "state_validate s = Ok ()"
    using p unfolding prepare_final_iff by simp_all
  have receipt: "fc_receipt f = r" by (simp add: a(5) final_commit_of_def)
  have same_k: "final_commit_of s p k ts t r = f"
    using a(10) by (simp add: a(5) final_commit_of_def)
  have match: "matches_history_record r (final_record_at ts r)" by (rule receipt_new_record(2) [OF a(4)])
  have id: "receipt_id_from_record (final_record_at ts r) = Ok i" "rec_timestamp (final_record_at ts r) = ts"
    using record_matches_final_capture [OF a(4)] by (simp_all add: receipt_id_from_record_def ok_or_def)
  show "reconcile_final_benchmark s p (fc_history f) cfg fresh now c w = (Ok (ReconPending f), w)"
  proof (rule reconcile_pending [OF open_p(1,2) a(11), where source = s and k = k and i = i and ts = ts])
    show "source_final_state s c = Ok s" using open_p by (simp add: source_final_state_def)
    have "validate_partial_final_record (final_record_at ts r) s c = Ok ()"
      by (rule partial_record_valid [OF a(4) open_p(4)]) (simp add: a)
    then show "source_final_record s (fc_history f) (Some (length k, final_record_at ts r)) c fresh now w
        = (Ok (i, ts, k), w)"
      using open_p(3) id by (simp add: source_final_record_def io_check_def a(8))
    show "prepare_final_benchmark_commit s p k cfg i ts c = Ok f"
      by (rule prepare_final_again [OF p a(1,5,9,10) open_p(4,3) a(1,2) refl same_k])
  qed (use open_p receipt match in simp_all)
  define t' where "t' = t\<lparr>tx_stage := PhaseThreeArmed, tx_updated_utc := Some ts\<rparr>"
  define source where "source = (fc_state f)\<lparr>final_benchmark := None, active_reboot_transaction := Some t'\<rparr>"
  note src = source_of_committed_state [OF a(4,1,2,5,6), folded t'_def, folded source_def]
  have t': "is_authorized_at t' PhaseThreeArmed" "tx_id t' = tx_id t"
    using a(2) by (simp_all add: t'_def is_authorized_at_def)
  have fin: "final_benchmark (fc_state f) = Some r" "Option.bind (active_reboot_transaction (fc_state f)) tx_id = Some tid"
    using a(3) by (simp_all add: a(5) final_commit_of_def)
  show "reconcile_final_benchmark (fc_state f) p (fc_history f) cfg fresh now c w = (Ok (ReconPending f), w)"
  proof (rule reconcile_pending [OF open_p(1,2) a(11) src(1), where k = k and i = i and ts = ts])
    have "validate_partial_final_record (final_record_at ts r) (fc_state f) c = Ok ()"
      by (rule partial_record_valid [OF a(4,6) fin(2)])
    then show "source_final_record (fc_state f) (fc_history f) (Some (length k, final_record_at ts r)) c fresh now w
        = (Ok (i, ts, k), w)"
      using match id by (simp add: source_final_record_def io_check_def a(8) fin)
    show "prepare_final_benchmark_commit source p k cfg i ts c = Ok f"
    proof (rule prepare_final_again [OF p a(1,5,9,10) src(2) _ _ t'])
      show "final_commit_of source p k ts t' r = f" using src(3) same_k by simp
    qed (simp_all add: source_def)
  qed (use fin receipt match in simp_all)
  have "receipt_matches_capture r c" by (rule record_matches_final_capture(1) [OF a(4)])
  then show "reconcile_final_benchmark (fc_state f) (fc_progress f) (fc_history f) cfg fresh now c w
      = (Ok (ReconComplete (fc_receipt f)), w)"
    using prepared_final_persisted [OF p]
    by (simp add: reconcile_final_benchmark_def final_key_member io_bind_def io_check_def io_ret_def receipt)
      (simp add: a(5) final_commit_of_def progress_simps)
qed


section \<open>The work directory\<close>

definition same_documents :: "'v work_disk \<Rightarrow> 'v work_disk \<Rightarrow> bool" where
  "same_documents w w' \<longleftrightarrow> dk_documents w' = dk_documents w"

lemma same_documents_order [io_within_intros]: "reflp same_documents" "transp same_documents"
  by (auto simp: same_documents_def reflp_def transp_def)

lemma disk_call_same [io_within_intros]:
  "(\<And>w. dk_documents (snd (act w)) = dk_documents w) \<Longrightarrow> io_within same_documents (disk_call act)"
  by (auto simp: io_within_def same_documents_def disk_call_def Let_def split: option.splits disk_fault.splits)

lemma disk_calls_same [io_within_intros]:
  "io_within same_documents (wd_acquire_fixed disk_directory)" "io_within same_documents (wd_acquire disk_directory)"
  "io_within same_documents (wd_lock disk_directory)" "io_within same_documents (wd_random disk_directory)"
  "io_within same_documents (io_call (wd_timestamp disk_directory))"
  by (auto simp: disk_directory_def io_within_def io_call_def same_documents_def disk_call_def Let_def
      split: option.splits disk_fault.splits)

lemma read_document_same [io_within_intros]:
  "io_within same_documents (read_or absent prefix (wd_state disk_directory))"
  "io_within same_documents (read_or absent' prefix (wd_progress disk_directory))"
  "io_within same_documents (read_or absent'' prefix (wd_history disk_directory))"
  "io_within same_documents (read_state_as prefix disk_directory)"
  unfolding io_within_def same_documents_def read_state_as_def
  by (simp_all add: state_doc.read_or_shown [OF prod.collapse [symmetric]]
      state_doc.read_checked_or_shown [OF prod.collapse [symmetric]]
      progress_doc.read_or_shown [OF prod.collapse [symmetric]] history_doc.read_or_shown [OF prod.collapse [symmetric]])

lemma unlock_documents [simp]: "dk_documents (wd_unlock disk_directory w) = dk_documents w"
  by (simp add: disk_directory_def)

lemma with_lock_documents:
  assumes "with_lock disk_directory m w = (r, w')"
  shows "(\<not> is_ok r \<and> dk_documents w' = dk_documents w)
       \<or> (\<exists>v v'. dk_documents v = dk_documents w \<and> m v = (r, v') \<and> dk_documents w' = dk_documents v')"
proof -
  obtain q v where q: "wd_lock disk_directory w = (q, v)" by (cases "wd_lock disk_directory w")
  have "dk_documents v = dk_documents w"
    using io_withinD [OF disk_calls_same(3) q] by (simp add: same_documents_def)
  then show ?thesis
    using assms by (cases q) (auto simp: with_lock_def io_bind_def q is_ok_iff split: prod.splits)
qed

text \<open>The documents after each of the three writes.\<close>

definition with_history :: "'v final_commit \<Rightarrow> 'v documents \<Rightarrow> 'v documents" where
  "with_history f d = d\<lparr>doc_history := Some (fc_history f)\<rparr>"

definition with_state :: "'v final_commit \<Rightarrow> 'v documents \<Rightarrow> 'v documents" where
  "with_state f d = (with_history f d)\<lparr>doc_state := Some (fc_state f)\<rparr>"

definition with_progress :: "'v final_commit \<Rightarrow> 'v documents \<Rightarrow> 'v documents" where
  "with_progress f d = (with_state f d)\<lparr>doc_progress := Some (fc_progress f)\<rparr>"

lemmas commit_documents = with_history_def with_state_def with_progress_def


section \<open>An interrupted run\<close>

text \<open>What the documents show when a document that is absent stands for its default.\<close>

definition shown_state :: "'v documents \<Rightarrow> 'v state" where
  "shown_state d = (case doc_state d of None \<Rightarrow> state_default | Some s \<Rightarrow> s)"

definition shown_progress :: "'v documents \<Rightarrow> 'v progress" where
  "shown_progress d = (case doc_progress d of None \<Rightarrow> progress_default | Some p \<Rightarrow> p)"

definition shown_history :: "'v documents \<Rightarrow> 'v benchmark_record list" where
  "shown_history d = (case doc_history d of None \<Rightarrow> [] | Some h \<Rightarrow> h)"

lemmas shown_defs = shown_state_def shown_progress_def shown_history_def

context document
begin

lemma commit_document_run:
  assumes "commit_document F check kind part old new w = (r, w')" and "new \<noteq> old"
  shows "shown w' = shown w \<or> shown w' = put new (shown w)" and "r = Ok u \<Longrightarrow> shown w' = put new (shown w)"
  using assms write_and_compare_shown write_and_compare_Ok by (auto simp: commit_document_def)

end

lemma reread_same: "io_within same_documents (reread_final_benchmark disk_directory)"
proof -
  have "io_within same_documents (jf_read (wd_state disk_directory))"
      "io_within same_documents (jf_read (wd_progress disk_directory))"
      "io_within same_documents (jf_read (wd_history disk_directory))"
    unfolding io_within_def same_documents_def
    by (simp_all add: state_doc.read_shown [OF prod.collapse [symmetric]]
        progress_doc.read_shown [OF prod.collapse [symmetric]] history_doc.read_shown [OF prod.collapse [symmetric]])
  then show ?thesis unfolding reread_final_benchmark_def by (intro io_within_intros)
qed

lemma write_final_commit_run:
  assumes run: "write_final_commit disk_directory s p h f w = (r, w')"
    and ne: "fc_history f \<noteq> h" "fc_state f \<noteq> s" "fc_progress f \<noteq> p"
  shows "dk_documents w' = dk_documents w \<or> dk_documents w' = with_history f (dk_documents w)
     \<or> dk_documents w' = with_state f (dk_documents w) \<or> dk_documents w' = with_progress f (dk_documents w)"
    and "r = Ok x \<Longrightarrow> dk_documents w' = with_progress f (dk_documents w)
     \<and> validate_persisted_final_benchmark (fc_state f) (fc_progress f) (fc_history f) = Ok x"
proof -
  have "(dk_documents w' = dk_documents w \<or> dk_documents w' = with_history f (dk_documents w)
     \<or> dk_documents w' = with_state f (dk_documents w) \<or> dk_documents w' = with_progress f (dk_documents w))
     \<and> (\<forall>x. r = Ok x \<longrightarrow> dk_documents w' = with_progress f (dk_documents w)
       \<and> validate_persisted_final_benchmark (fc_state f) (fc_progress f) (fc_history f) = Ok x)"
    using run unfolding write_final_commit_def
  proof (cases rule: io_bind_cases)
    case (stopped e)
    then show ?thesis using history_doc.commit_document_run(1) [OF stopped(1) ne(1)] by (auto simp: with_history_def)
  next
    case (went_on _ w1)
    note d1 = history_doc.commit_document_run(2) [OF went_on(1) ne(1) refl]
    show ?thesis using went_on(2)
    proof (cases rule: io_bind_cases)
      case (stopped e)
      then show ?thesis using state_doc.commit_document_run(1) [OF stopped(1) ne(2)] d1
        by (auto simp: commit_documents)
    next
      case (went_on _ w2)
      note d2 = state_doc.commit_document_run(2) [OF went_on(1) ne(2) refl]
      show ?thesis using went_on(2)
      proof (cases rule: io_bind_cases)
        case (stopped e)
        then show ?thesis using progress_doc.commit_document_run(1) [OF stopped(1) ne(3)] d1 d2
          by (auto simp: commit_documents)
      next
        case (went_on _ w3)
        have d3: "dk_documents w3 = with_progress f (dk_documents w)"
          using progress_doc.commit_document_run(2) [OF went_on(1) ne(3) refl] d1 d2 by (simp add: commit_documents)
        have same: "dk_documents w' = dk_documents w3"
          using io_withinD [OF reread_same went_on(2)] by (simp add: same_documents_def)
        have "validate_persisted_final_benchmark (fc_state f) (fc_progress f) (fc_history f) = Ok x" if r: "r = Ok x" for x
        proof -
          obtain s' v1 p' v2 h' v3 where g: "jf_read (wd_state disk_directory) w3 = (Ok s', v1)"
              "jf_read (wd_progress disk_directory) v1 = (Ok p', v2)"
              "jf_read (wd_history disk_directory) v2 = (Ok h', v3)"
              "validate_persisted_final_benchmark s' p' h' = Ok x"
            using went_on(2) r by (auto simp: reread_final_benchmark_def io_Ok)
          have "dk_documents v1 = dk_documents w3" "dk_documents v2 = dk_documents v1"
            using state_doc.read_shown [OF g(1)] progress_doc.read_shown [OF g(2)] by simp_all
          then show ?thesis
            using state_doc.read_law [OF g(1)] progress_doc.read_law [OF g(2)] history_doc.read_law [OF g(3)] g(4) d3
            by (simp add: commit_documents)
        qed
        then show ?thesis using same d3 by simp
      qed
    qed
  qed
  then show "dk_documents w' = dk_documents w \<or> dk_documents w' = with_history f (dk_documents w)
     \<or> dk_documents w' = with_state f (dk_documents w) \<or> dk_documents w' = with_progress f (dk_documents w)"
    and "r = Ok x \<Longrightarrow> dk_documents w' = with_progress f (dk_documents w)
     \<and> validate_persisted_final_benchmark (fc_state f) (fc_progress f) (fc_history f) = Ok x" by blast+
qed


lemma read_commit_documents:
  shows "read_state_for_final disk_directory w = (Ok s, w') \<Longrightarrow>
      s = shown_state (dk_documents w) \<and> (doc_state (dk_documents w) = None \<or> work_dir_checked s = Ok ())"
    and "read_progress_for_final disk_directory w = (Ok p, w') \<Longrightarrow> p = shown_progress (dk_documents w)"
    and "final_history_of disk_directory w = (Ok h, w') \<Longrightarrow> h = shown_history (dk_documents w)"
  unfolding read_state_for_final_def read_state_as_def read_progress_for_final_def final_history_of_def shown_defs
  by (blast dest: state_doc.read_checked_or_Ok, blast dest: progress_doc.read_or_Ok, blast dest: history_doc.read_or_Ok)

lemma read_commit_same [io_within_intros]:
  "io_within same_documents (read_state_for_final disk_directory)"
  "io_within same_documents (read_progress_for_final disk_directory)"
  "io_within same_documents (final_history_of disk_directory)"
  unfolding read_state_for_final_def read_progress_for_final_def final_history_of_def
  by (intro io_within_intros)+

lemma fresh_id_same [io_within_intros]: "io_within same_documents (fresh_final_receipt_id disk_directory s h)"
proof -
  have one: "io_within same_documents (random_final_receipt_id disk_directory)"
    unfolding random_final_receipt_id_def by (intro io_within_intros)
  have "io_within same_documents (fresh_receipt_id_within n disk_directory s h)" for n
    by (induction n) (auto intro!: io_within_intros one)
  then show ?thesis by (simp add: fresh_final_receipt_id_def)
qed

text \<open>Without earlier evidence of a final benchmark a commit is prepared from what was read.\<close>

lemma reconcile_fresh:
  assumes run: "reconcile_final_benchmark s p h cfg fresh now c w = (Ok v, w')"
    and none: "\<not> has_receipt_evidence s p h"
  shows "\<exists>i f. v = ReconPending f \<and> prepare_final_benchmark_commit s p h cfg i now c = Ok f"
proof -
  have "\<forall>x\<in>set h. \<not> final_evidence x" "final_benchmark s = None"
      "Session.key 3 13 |\<notin>| completed_steps p" "Session.key 3 13 |\<notin>| skipped_steps p"
    using none by (auto simp: has_receipt_evidence_def list_ex_iff)
  moreover from this have "final_history_prefix h = Ok None"
    by (intro final_history_prefix_none) (simp add: list_ex_iff)
  ultimately show ?thesis
    using run by (auto simp: reconcile_final_benchmark_def source_final_record_def source_final_state_def io_Ok
        and_then_eq_Ok)
qed

lemma reconcile_same:
  assumes "io_within same_documents fresh"
  shows "io_within same_documents (reconcile_final_benchmark s p h cfg fresh now c)"
proof -
  have kept: "io_within same_documents (source_final_record s h partial c fresh now)" for partial
    unfolding source_final_record_def using assms
    by (cases partial; cases "final_benchmark s") (auto intro!: io_within_intros)
  show ?thesis
    unfolding reconcile_final_benchmark_def
    by (auto intro!: io_within_intros kept split: prod.split)
qed

lemma commit_differs:
  assumes "prepare_final_benchmark_commit s p h cfg i ts c = Ok f" and "\<forall>x\<in>set h. \<not> final_evidence x"
  shows "fc_history f \<noteq> h" and "fc_state f \<noteq> s" and "fc_progress f \<noteq> p"
proof -
  have ok: "final_benchmark s = None" "\<not> is_completed p PHASE_THREE_FINAL_BENCHMARK"
    using assms(1) unfolding prepare_final_iff by simp_all
  show "fc_history f \<noteq> h"
  proof (rule final_commit_parts [OF assms])
    fix t tid cap r k
    assume "fc_history f = k @ [final_record_at ts r]"
    moreover have "final_evidence (final_record_at ts r)"
      by (simp add: final_evidence_def final_record_at_def final_record_def)
    ultimately show ?thesis using assms(2) by auto
  qed
  obtain t r where f: "f = final_commit_of s p h ts t r" using assms(1) unfolding prepare_final_iff by blast
  show "fc_state f \<noteq> s"
  proof
    assume "fc_state f = s"
    then have "final_benchmark (fc_state f) = final_benchmark s" by simp
    then show False using ok(1) by (simp add: f final_commit_of_def)
  qed
  show "fc_progress f \<noteq> p"
  proof
    assume "fc_progress f = p"
    then have "is_completed (fc_progress f) PHASE_THREE_FINAL_BENCHMARK
        = is_completed p PHASE_THREE_FINAL_BENCHMARK" by simp
    then show False using ok(2) by (simp add: f final_commit_of_def progress_simps)
  qed
qed

definition final_prefixes :: "'v final_commit \<Rightarrow> 'v documents \<Rightarrow> 'v documents set" where
  "final_prefixes f d = {with_history f d, with_state f d, with_progress f d}"

lemma same_bind_cases:
  assumes "io_bind m f w = (r, w')" and "io_within same_documents m"
  obtains (stopped) "\<not> is_ok r" "dk_documents w' = dk_documents w"
  | (went_on) x w1 where "m w = (Ok x, w1)" "dk_documents w1 = dk_documents w" "f x w1 = (r, w')"
  using assms(1)
proof (cases rule: io_bind_cases)
  case (stopped e)
  then show ?thesis using that(1) io_withinD [OF assms(2) stopped(1)] by (simp add: same_documents_def)
next
  case (went_on x w1)
  then show ?thesis using that(2) io_withinD [OF assms(2) went_on(1)] by (simp add: same_documents_def)
qed

text \<open>What a run that returns with \<open>r\<close> and shows \<open>d'\<close> did to the documents \<open>d\<close>.\<close>

definition final_outcome ::
  "config \<Rightarrow> benchmark_capture \<Rightarrow> 'v documents \<Rightarrow> ('v final_benchmark_receipt, string) result \<Rightarrow> 'v documents \<Rightarrow> bool" where
  "final_outcome cfg c d r d' \<longleftrightarrow>
     (d' = d \<and> \<not> is_ok r)
     \<or> (\<exists>i ts f. prepare_final_benchmark_commit (shown_state d) (shown_progress d) (shown_history d) cfg i ts c = Ok f
          \<and> (doc_state d = None \<or> work_dir_checked (shown_state d) = Ok ())
          \<and> d' \<in> insert d (final_prefixes f d)
          \<and> (\<forall>x. r = Ok x \<longrightarrow> d' = with_progress f d \<and> x = fc_receipt f))"

lemma commit_run:
  assumes run: "io_bind (reconcile_final_benchmark s p h cfg (fresh_final_receipt_id disk_directory s h) now c) (\<lambda>v.
       case v of ReconComplete receipt \<Rightarrow> io_ret receipt
       | ReconPending commit \<Rightarrow> write_final_commit disk_directory s p h commit) w = (r, w')"
    and docs: "s = shown_state d" "p = shown_progress d" "h = shown_history d" "dk_documents w = d"
      "doc_state d = None \<or> work_dir_checked s = Ok ()"
    and none: "\<not> has_receipt_evidence s p h"
  shows "final_outcome cfg c d r (dk_documents w')"
  using run reconcile_same [OF fresh_id_same]
proof (cases rule: same_bind_cases)
  case stopped
  then show ?thesis using docs by (simp add: final_outcome_def)
next
  case (went_on x v)
  obtain i f where f: "x = ReconPending f" "prepare_final_benchmark_commit s p h cfg i now c = Ok f"
    using reconcile_fresh [OF went_on(1) none] by blast
  have no: "\<forall>y\<in>set h. \<not> final_evidence y"
    using none by (auto simp: has_receipt_evidence_def list_ex_iff)
  note written = write_final_commit_run [OF went_on(3) [unfolded f(1) final_reconciliation.case]
      commit_differs [OF f(2) no], unfolded went_on(2) docs(4)]
  have "\<forall>y. r = Ok y \<longrightarrow> dk_documents w' = with_progress f d \<and> y = fc_receipt f"
    using written(2) prepared_final_persisted [OF f(2)] by auto
  moreover have "dk_documents w' \<in> insert d (final_prefixes f d)"
    using written(1) by (auto simp: final_prefixes_def)
  ultimately show ?thesis
    using f(2) docs unfolding final_outcome_def by blast
qed

lemma locked_run:
  assumes run: "io_bind (read_state_for_final disk_directory) (\<lambda>s.
       io_bind (read_progress_for_final disk_directory) (\<lambda>p.
       io_bind (final_history_of disk_directory) (\<lambda>h.
       io_bind (io_call (wd_timestamp disk_directory)) (\<lambda>now.
       io_bind (reconcile_final_benchmark s p h cfg (fresh_final_receipt_id disk_directory s h) now c) (\<lambda>v.
       case v of ReconComplete receipt \<Rightarrow> io_ret receipt
       | ReconPending commit \<Rightarrow> write_final_commit disk_directory s p h commit))))) w = (r, w')"
    and none: "\<not> has_receipt_evidence (shown_state d) (shown_progress d) (shown_history d)"
    and d: "d = dk_documents w"
  shows "final_outcome cfg c d r (dk_documents w')"
  using run read_commit_same(1)
proof (cases rule: same_bind_cases)
  case (went_on s w1)
  note s = read_commit_documents(1) [OF went_on(1)] and d1 = went_on(2)
  show ?thesis using went_on(3) read_commit_same(2)
  proof (cases rule: same_bind_cases)
    case (went_on p w2)
    note p = read_commit_documents(2) [OF went_on(1)] and d2 = went_on(2)
    show ?thesis using went_on(3) read_commit_same(3)
    proof (cases rule: same_bind_cases)
      case (went_on h w3)
      note h = read_commit_documents(3) [OF went_on(1)] and d3 = went_on(2)
      show ?thesis using went_on(3) disk_calls_same(5)
      proof (cases rule: same_bind_cases)
        case (went_on now w4)
        show ?thesis
          by (rule commit_run [OF went_on(3)]) (use s p h d1 d2 d3 went_on(2) none d in auto)
      qed (use d d1 d2 d3 in \<open>simp add: final_outcome_def\<close>)
    qed (use d d1 d2 in \<open>simp add: final_outcome_def\<close>)
  qed (use d d1 in \<open>simp add: final_outcome_def\<close>)
qed (use d in \<open>simp add: final_outcome_def\<close>)

lemma persist_final_run:
  assumes run: "persist_final_benchmark disk_directory cfg c w = (r, w')"
    and none: "\<not> has_receipt_evidence (shown_state d) (shown_progress d) (shown_history d)"
    and d: "d = dk_documents w"
  shows "final_outcome cfg c d r (dk_documents w')"
  using run disk_calls_same(1) unfolding persist_final_benchmark_def
proof (cases rule: same_bind_cases)
  case (went_on _ w1)
  from with_lock_documents [OF went_on(3)] show ?thesis
  proof (elim disjE conjE exE)
    fix v v'
    assume v: "dk_documents v = dk_documents w1" "dk_documents w' = dk_documents v'"
      and body: "io_bind (read_state_for_final disk_directory) (\<lambda>s.
       io_bind (read_progress_for_final disk_directory) (\<lambda>p.
       io_bind (final_history_of disk_directory) (\<lambda>h.
       io_bind (io_call (wd_timestamp disk_directory)) (\<lambda>now.
       io_bind (reconcile_final_benchmark s p h cfg (fresh_final_receipt_id disk_directory s h) now c) (\<lambda>v.
       case v of ReconComplete receipt \<Rightarrow> io_ret receipt
       | ReconPending commit \<Rightarrow> write_final_commit disk_directory s p h commit))))) v = (r, v')"
    have "d = dk_documents v" using v(1) went_on(2) d by simp
    from locked_run [OF body none this] show ?thesis by (simp add: v(2))
  qed (use went_on(2) d in \<open>simp add: final_outcome_def\<close>)
qed (use d in \<open>simp add: final_outcome_def\<close>)

section \<open>The retry\<close>

context sound_document
begin

lemma commit_document_gives:
  assumes "check new = Ok ()" and "new = old \<Longrightarrow> content d = Some old"
  shows "gives (\<lambda>w. calm w \<and> shown w = d) (commit_document F check kind part old new) (Ok ())
     (\<lambda>w. calm w \<and> shown w = put new d)"
proof (cases "new = old")
  case True
  then show ?thesis using assms(2) put_same by (auto simp: gives_def commit_document_def io_ret_def)
next
  case False
  then show ?thesis
    using write_and_compare_calm [of _ check new, OF _ assms(1)] by (auto simp: gives_def commit_document_def)
qed

end

definition settled :: "'v documents \<Rightarrow> 'v work_disk \<Rightarrow> bool" where
  "settled d w \<longleftrightarrow> disk_calm w \<and> dk_documents w = d"

definition settled_open :: "'v documents \<Rightarrow> 'v work_disk \<Rightarrow> bool" where
  "settled_open d w \<longleftrightarrow> settled d w \<and> \<not> dk_locked w"

lemma acquire_settled: "gives (settled_open d) (wd_acquire_fixed disk_directory) (Ok ()) (settled_open d)"
  by (simp add: gives_def disk_directory_def disk_call_def settled_open_def settled_def disk_calm_def Let_def)

lemma with_lock_settled:
  assumes "gives (settled d) m r (settled d')"
  shows "gives (settled_open d) (with_lock disk_directory m) r (settled_open d')"
proof (rule givesI)
  fix w :: "'a work_disk"
  assume w: "settled_open d w"
  define v where "v = w\<lparr>dk_calls := dk_calls w + 1, dk_locked := True\<rparr>"
  have lock: "wd_lock disk_directory w = (Ok (), v)"
    using w by (simp add: disk_directory_def disk_call_def settled_open_def settled_def disk_calm_def Let_def v_def)
  have "settled d v" using w by (simp add: settled_open_def settled_def disk_calm_def v_def)
  from givesD [OF assms this] obtain v' where v': "m v = (r, v')" "settled d' v'" by blast
  then have "with_lock disk_directory m w = (r, wd_unlock disk_directory v')"
    by (simp add: with_lock_def io_bind_def lock)
  moreover have "settled_open d' (wd_unlock disk_directory v')"
    using v'(2) by (simp add: disk_directory_def settled_open_def settled_def disk_calm_def)
  ultimately show "\<exists>w'. with_lock disk_directory m w = (r, w') \<and> settled_open d' w'" by blast
qed

lemma read_settled:
  "doc_state d = None \<or> work_dir_checked (shown_state d) = Ok () \<Longrightarrow>
     gives (settled d) (read_state_for_final disk_directory) (Ok (shown_state d)) (settled d)"
  "gives (settled d) (read_progress_for_final disk_directory) (Ok (shown_progress d)) (settled d)"
  "gives (settled d) (final_history_of disk_directory) (Ok (shown_history d)) (settled d)"
proof -
  show "gives (settled d) (read_state_for_final disk_directory) (Ok (shown_state d)) (settled d)"
    if "doc_state d = None \<or> work_dir_checked (shown_state d) = Ok ()"
  proof (rule givesI)
    fix w :: "'a work_disk"
    assume w: "settled d w"
    have "\<And>y. doc_state (dk_documents w) = Some y \<Longrightarrow> work_dir_checked y = Ok ()"
      using that w by (auto simp: settled_def shown_state_def)
    from state_doc.read_checked_or_calm [OF _ this, where absent = state_default and prefix = "''read final benchmark state: ''"]
    show "\<exists>w'. read_state_for_final disk_directory w = (Ok (shown_state d), w') \<and> settled d w'"
      using w by (auto simp: settled_def read_state_for_final_def read_state_as_def shown_state_def)
  qed
  show "gives (settled d) (read_progress_for_final disk_directory) (Ok (shown_progress d)) (settled d)"
    using progress_doc.read_or_calm [where absent = progress_default and prefix = "''read final benchmark progress: ''"]
    by (auto simp: gives_def settled_def read_progress_for_final_def shown_progress_def)
  show "gives (settled d) (final_history_of disk_directory) (Ok (shown_history d)) (settled d)"
    using history_doc.read_or_calm [where absent = "[]" and prefix = "''read final benchmark history: ''"]
    by (auto simp: gives_def settled_def final_history_of_def shown_history_def)
qed

lemma timestamp_settled:
  assumes "\<And>now. gives (settled d) (f now) r (settled d')"
  shows "gives (settled d) (io_bind (io_call (wd_timestamp disk_directory)) f) r (settled d')"
proof (rule givesI)
  fix w :: "'a work_disk"
  assume "settled d w"
  then have "settled d (w\<lparr>dk_calls := dk_calls w + 1\<rparr>)" by (simp add: settled_def disk_calm_def)
  from givesD [OF assms [of "dk_clock w (dk_calls w)"] this]
  show "\<exists>w'. io_bind (io_call (wd_timestamp disk_directory)) f w = (r, w') \<and> settled d' w'"
    by (simp add: io_bind_def io_call_def disk_directory_def)
qed

lemma commit_settled:
  assumes "state_validate (fc_state f) = Ok ()"
    and "h = fc_history f \<Longrightarrow> doc_history d = Some h" and "s = fc_state f \<Longrightarrow> doc_state d = Some s"
    and "p = fc_progress f \<Longrightarrow> doc_progress d = Some p"
    and ok: "validate_persisted_final_benchmark (fc_state f) (fc_progress f) (fc_history f) = Ok x"
  shows "gives (settled d) (write_final_commit disk_directory s p h f) (Ok x) (settled (with_progress f d))"
  unfolding write_final_commit_def
proof (intro gives_bind)
  show "gives (settled d)
      (commit_document (wd_history disk_directory) any_content ''final'' ''history'' h (fc_history f)) (Ok ())
      (settled (with_history f d))"
    unfolding settled_def [abs_def] with_history_def
    by (rule history_doc.commit_document_gives) (use assms(2) in \<open>simp_all add: any_content_def\<close>)
  show "gives (settled (with_history f d))
      (commit_document (wd_state disk_directory) state_validate ''final'' ''state'' s (fc_state f)) (Ok ())
      (settled (with_state f d))"
    unfolding settled_def [abs_def] with_state_def
    by (rule state_doc.commit_document_gives) (use assms(1,3) in \<open>simp_all add: with_history_def\<close>)
  show "gives (settled (with_state f d))
      (commit_document (wd_progress disk_directory) any_content ''final'' ''progress'' p (fc_progress f)) (Ok ())
      (settled (with_progress f d))"
    unfolding settled_def [abs_def] with_progress_def
    by (rule progress_doc.commit_document_gives) (use assms(4) in \<open>simp_all add: any_content_def commit_documents\<close>)
  have "gives (settled (with_progress f d)) (jf_read (wd_state disk_directory)) (Ok (fc_state f))
      (settled (with_progress f d))"
      "gives (settled (with_progress f d)) (jf_read (wd_progress disk_directory)) (Ok (fc_progress f))
      (settled (with_progress f d))"
      "gives (settled (with_progress f d)) (jf_read (wd_history disk_directory)) (Ok (fc_history f))
      (settled (with_progress f d))"
    by (auto simp: gives_def settled_def disk_calm_def disk_directory_def disk_call_def Let_def commit_documents)
  then show "gives (settled (with_progress f d)) (reread_final_benchmark disk_directory) (Ok x)
      (settled (with_progress f d))"
    unfolding reread_final_benchmark_def by (intro gives_bind gives_map_err_Ok) (auto simp: gives_check ok [symmetric])
qed

end
