(* ===== verification/Persistence_Retry.thy ===== *)
theory Persistence_Retry
  imports Persistence_Safety
begin

text \<open>
  A final benchmark that was interrupted anywhere is finished by repeating it; and an advisory capture that
  carries the label of the final one blocks it.
\<close>

section \<open>Repeating a final benchmark\<close>

lemma settled_run:
  fixes d :: "'v documents"
  assumes "doc_state d = None \<or> work_dir_checked (shown_state d) = Ok ()"
    and "\<And>fresh now (w :: 'v work_disk). reconcile_final_benchmark (shown_state d) (shown_progress d) (shown_history d) cfg fresh now c w
      = (Ok v, w)"
    and "gives (settled d) (case v of ReconComplete receipt \<Rightarrow> io_ret receipt
       | ReconPending f \<Rightarrow> write_final_commit disk_directory (shown_state d) (shown_progress d) (shown_history d) f)
       r (settled d')"
  shows "gives (settled_open d) (persist_final_benchmark disk_directory cfg c) r (settled_open d')"
proof -
  have same: "gives (settled d) (reconcile_final_benchmark (shown_state d) (shown_progress d) (shown_history d) cfg fresh now c)
      (Ok v) (settled d)" for fresh now
    using assms(2) by (simp add: gives_def)
  show ?thesis
    unfolding persist_final_benchmark_def
    by (intro gives_bind [OF acquire_settled] with_lock_settled gives_bind [OF read_settled(1) [OF assms(1)]]
        gives_bind [OF read_settled(2)] gives_bind [OF read_settled(3)] timestamp_settled)
      (rule gives_bind, rule same, rule assms(3))
qed

lemma with_progress_again:
  "d' \<in> final_prefixes f d \<Longrightarrow> with_progress f d' = with_progress f d"
  by (auto simp: final_prefixes_def commit_documents)

lemma shown_prefixes:
  "shown_history (with_history f d) = fc_history f" "shown_state (with_history f d) = shown_state d"
  "shown_progress (with_history f d) = shown_progress d" "doc_state (with_history f d) = doc_state d"
  "shown_history (with_state f d) = fc_history f" "shown_state (with_state f d) = fc_state f"
  "shown_progress (with_state f d) = shown_progress d"
  "shown_history (with_progress f d) = fc_history f" "shown_state (with_progress f d) = fc_state f"
  "shown_progress (with_progress f d) = fc_progress f"
  "doc_history (with_history f d) = Some (fc_history f)" "doc_history (with_state f d) = Some (fc_history f)"
  "doc_state (with_state f d) = Some (fc_state f)"
  by (simp_all add: shown_defs commit_documents)

lemma retry_finishes:
  assumes f: "prepare_final_benchmark_commit (shown_state d) (shown_progress d) (shown_history d) cfg i ts c = Ok f"
    and e: "\<forall>x\<in>set (shown_history d). \<not> final_evidence x"
    and wd: "doc_state d = None \<or> work_dir_checked (shown_state d) = Ok ()"
    and d': "d' \<in> final_prefixes f d"
  shows "gives (settled_open d') (persist_final_benchmark disk_directory cfg c) (Ok (fc_receipt f))
     (settled_open (with_progress f d))"
proof -
  note again = reconcile_resumes [OF f e] and differs = commit_differs [OF f e]
    and persisted = prepared_final_persisted [OF f] and target = with_progress_again [OF d']
  obtain t r where st: "active_reboot_transaction (shown_state d) = Some t" "f = final_commit_of (shown_state d) (shown_progress d) (shown_history d) ts t r"
      "state_validate (fc_state f) = Ok ()"
    using f unfolding prepare_final_iff by blast
  have "doc_state d \<noteq> None" using st(1) by (cases "doc_state d") (simp_all add: shown_state_def state_default_def)
  then have dir: "work_dir_checked (fc_state f) = Ok ()"
    using wd st(2,3) by (simp add: work_dir_checked_def final_commit_of_def final_state_def and_then_eq_Ok split: if_splits)
  from d' consider "d' = with_history f d" | "d' = with_state f d" | "d' = with_progress f d"
    by (auto simp: final_prefixes_def)
  then show ?thesis
  proof cases
    case 1
    show ?thesis
    proof (rule settled_run)
      show "doc_state d' = None \<or> work_dir_checked (shown_state d') = Ok ()" using wd by (simp add: 1 shown_prefixes)
      show "reconcile_final_benchmark (shown_state d') (shown_progress d') (shown_history d') cfg fresh now c w
          = (Ok (ReconPending f), w)" for fresh now and w :: "'a work_disk"
        using again(1) by (simp add: 1 shown_prefixes)
      show "gives (settled d') (case ReconPending f of ReconComplete receipt \<Rightarrow> io_ret receipt
         | ReconPending f \<Rightarrow> write_final_commit disk_directory (shown_state d') (shown_progress d') (shown_history d') f)
         (Ok (fc_receipt f)) (settled (with_progress f d))"
        unfolding final_reconciliation.case target [symmetric]
        by (rule commit_settled [OF st(3) _ _ _ persisted])
          (use differs in \<open>auto simp: 1 shown_prefixes\<close>)
    qed
  next
    case 2
    show ?thesis
    proof (rule settled_run)
      show "doc_state d' = None \<or> work_dir_checked (shown_state d') = Ok ()" using dir by (simp add: 2 shown_prefixes)
      show "reconcile_final_benchmark (shown_state d') (shown_progress d') (shown_history d') cfg fresh now c w
          = (Ok (ReconPending f), w)" for fresh now and w :: "'a work_disk"
        using again(2) by (simp add: 2 shown_prefixes)
      show "gives (settled d') (case ReconPending f of ReconComplete receipt \<Rightarrow> io_ret receipt
         | ReconPending f \<Rightarrow> write_final_commit disk_directory (shown_state d') (shown_progress d') (shown_history d') f)
         (Ok (fc_receipt f)) (settled (with_progress f d))"
        unfolding final_reconciliation.case target [symmetric]
        by (rule commit_settled [OF st(3) _ _ _ persisted])
          (use differs in \<open>auto simp: 2 shown_prefixes\<close>)
    qed
  next
    case 3
    show ?thesis
    proof (rule settled_run)
      show "doc_state d' = None \<or> work_dir_checked (shown_state d') = Ok ()" using dir by (simp add: 3 shown_prefixes)
      show "reconcile_final_benchmark (shown_state d') (shown_progress d') (shown_history d') cfg fresh now c w
          = (Ok (ReconComplete (fc_receipt f)), w)" for fresh now and w :: "'a work_disk"
        using again(3) by (simp add: 3 shown_prefixes)
      show "gives (settled d') (case ReconComplete (fc_receipt f) of ReconComplete receipt \<Rightarrow> io_ret receipt
         | ReconPending f \<Rightarrow> write_final_commit disk_directory (shown_state d') (shown_progress d') (shown_history d') f)
         (Ok (fc_receipt f)) (settled (with_progress f d))"
        by (simp add: gives_ret 3)
    qed
  qed
qed

text \<open>An attempt whose first write is made and reported as failed.\<close>

definition demo_documents :: "unit documents" where
  "demo_documents =
     \<lparr>doc_state = Some (demo_state PhaseThreeArmed), doc_progress = Some demo_phase_three, doc_history = None,
      doc_backup = None, doc_audit = None, doc_evidence = None\<rparr>"

definition demo_disk :: "nat option \<Rightarrow> unit work_disk" where
  "demo_disk lost =
     \<lparr>dk_documents = demo_documents, dk_locked = False, dk_calls = 0,
      dk_fault = (\<lambda>n. if Some n = lost then Some (AnswerLost ''power failure'') else None),
      dk_clock = (\<lambda>_. demo_time),
      dk_entropy = (\<lambda>_. [0xfe, 0xdc, 0xba, 0x98, 0x76, 0x54, 0x32, 0x10, 0xfe, 0xdc, 0xba, 0x98, 0x76, 0x54, 0x32, 0x10])\<rparr>"

lemma demo_shown:
  "shown_state demo_documents = demo_state PhaseThreeArmed" "shown_progress demo_documents = demo_phase_three"
  "shown_history demo_documents = []"
  by (simp_all add: shown_defs demo_documents_def)

lemma other_timestamps:
  assumes "list_all (\<lambda>st. timestamp_key (phase_number (id_phase (step_ident st))) (id_number (step_ident st)) \<noteq> k) steps"
  shows "fmlookup (timestamps (fold (\<lambda>st. complete_step (step_ident (st :: step)) ts) steps (p :: 'v progress))) k = fmlookup (timestamps p) k"
  using assms by (induction steps arbitrary: p) (simp_all add: complete_step_def complete_def Let_def)

lemma final_timestamp_key:
  "list_all (\<lambda>st. step_ident st = PHASE_THREE_FINAL_BENCHMARK
     \<or> timestamp_key (phase_number (id_phase (step_ident st))) (id_number (step_ident st)) \<noteq> ''3-13'') STEPS"
  by code_simp

lemma demo_no_evidence:
  "\<not> has_receipt_evidence (demo_state PhaseThreeArmed) demo_phase_three []"
proof -
  have "fmlookup (timestamps demo_phase_three) ''3-13'' = fmlookup (timestamps (progress_default :: unit progress)) ''3-13''"
    unfolding demo_phase_three_def completed_progress_def
    using final_timestamp_key by (intro other_timestamps) (auto simp: list_all_iff)
  then show ?thesis
    by (simp add: has_receipt_evidence_def final_key_member demo_phase_three_def demo_state_def state_default_def
        demo_transaction_def image_iff eq_commute progress_default_def)
qed

lemma demo_receipt_id_drawn:
  "transaction_id_parse (lower_hex [0xfe, 0xdc, 0xba, 0x98, 0x76, 0x54, 0x32, 0x10, 0xfe, 0xdc, 0xba, 0x98, 0x76, 0x54, 0x32, 0x10])
     = Ok demo_receipt_id"
  by (simp add: transaction_id_parse_def lower_hex_def hex_digit_def demo_receipt_id_def is_lower_hex_def
      is_ascii_digit_def char_of_def bit_Suc_0_iff byte_def)

lemma demo_work_dir: "work_dir_checked (demo_state PhaseThreeArmed) = Ok ()"
  by (simp add: work_dir_checked_def demo_states_valid)
    (simp add: demo_state_def state_default_def default_work_dir_def WINDOWS_WORK_DIR_def eq_ignore_ascii_case_def)

lemma demo_interrupted:
  "\<exists>f w. persist_final_benchmark disk_directory demo_config demo_capture (demo_disk (Some 6)) =
     (Err ''persist final benchmark history: power failure'', w)
     \<and> dk_documents w = with_history f demo_documents"
proof -
  obtain f where f: "prepare_final_benchmark_commit (demo_state PhaseThreeArmed) demo_phase_three []
      demo_config demo_receipt_id demo_time demo_capture = Ok f"
    using demo_final_ok by (auto simp: is_ok_iff)
  define v where "v n = (demo_disk (Some 6))\<lparr>dk_calls := n, dk_locked := True\<rparr>" for n
  have [simp]: "doc_state demo_documents = Some (demo_state PhaseThreeArmed)"
      "doc_progress demo_documents = Some demo_phase_three" "doc_history demo_documents = None"
    by (simp_all add: demo_documents_def)
  have [simp]: "dk_documents (v n) = demo_documents" "dk_calls (v n) = n" "v n\<lparr>dk_calls := k\<rparr> = v k"
      "dk_fault (v n) k = (if k = 6 then Some (AnswerLost ''power failure'') else None)" for n k
    by (simp_all add: v_def demo_disk_def)
  have start: "wd_acquire_fixed disk_directory (demo_disk (Some 6)) = (Ok (), (demo_disk (Some 6))\<lparr>dk_calls := Suc 0\<rparr>)"
      "wd_lock disk_directory ((demo_disk (Some 6))\<lparr>dk_calls := Suc 0\<rparr>) = (Ok (), v 2)"
    by (simp_all add: disk_directory_def disk_call_def demo_disk_def Let_def v_def numeral_2_eq_2)
  have reads: "read_state_for_final disk_directory (v 2) = (Ok (demo_state PhaseThreeArmed), v 3)"
      "read_progress_for_final disk_directory (v 3) = (Ok demo_phase_three, v 4)"
      "final_history_of disk_directory (v 4) = (Ok [], v 4)"
      "io_call (wd_timestamp disk_directory) (v 4) = (Ok demo_time, v 5)"
    by (simp_all add: read_state_for_final_def read_state_as_def read_progress_for_final_def final_history_of_def
        read_checked_or_def read_or_def io_bind_def io_call_def io_map_err_def io_check_def io_ret_def
        disk_directory_def disk_call_def Let_def demo_work_dir) (simp add: v_def demo_disk_def)
  have fresh: "fresh_final_receipt_id disk_directory (demo_state PhaseThreeArmed) [] (v 5) = (Ok demo_receipt_id, v 6)"
  proof -
    have "random_final_receipt_id disk_directory (v 5) = (Ok demo_receipt_id, v 6)"
      using demo_receipt_id_drawn
      by (simp add: random_final_receipt_id_def io_bind_def io_check_def disk_directory_def disk_call_def Let_def)
        (simp add: v_def demo_disk_def)
    then show ?thesis
      by (simp add: fresh_final_receipt_id_def eval_nat_numeral io_bind_def io_ret_def)
        (simp add: demo_state_def demo_transaction_def demo_receipt_id_def)
  qed
  have recon: "reconcile_final_benchmark (demo_state PhaseThreeArmed) demo_phase_three [] demo_config
      (fresh_final_receipt_id disk_directory (demo_state PhaseThreeArmed) []) demo_time demo_capture (v 5)
      = (Ok (ReconPending f), v 6)"
  proof (rule reconcile_pending [OF _ _ _ _ _ f])
    show "final_history_prefix ([] :: unit benchmark_record list) = Ok None"
      by (rule final_history_prefix_none) simp
    show "source_final_state (demo_state PhaseThreeArmed) demo_capture = Ok (demo_state PhaseThreeArmed)"
      using f unfolding prepare_final_iff by (simp add: source_final_state_def)
    show "source_final_record (demo_state PhaseThreeArmed) [] None demo_capture
        (fresh_final_receipt_id disk_directory (demo_state PhaseThreeArmed) []) demo_time (v 5)
        = (Ok (demo_receipt_id, demo_time, []), v 6)"
      using f fresh unfolding prepare_final_iff by (simp add: source_final_record_def io_bind_def io_ret_def)
  qed (use f in \<open>simp_all add: prepare_final_iff\<close>)
  have wrote: "write_final_commit disk_directory (demo_state PhaseThreeArmed) demo_phase_three [] f (v 6)
      = (Err ''persist final benchmark history: power failure'', v 7\<lparr>dk_documents := with_history f demo_documents\<rparr>)"
    using commit_differs(1) [OF f]
    by (simp add: write_final_commit_def io_bind_def commit_document_def write_and_compare_def io_map_err_def
        disk_directory_def disk_call_def Let_def with_history_def)
  show ?thesis
    by (rule exI [of _ f], rule exI [of _ "wd_unlock disk_directory (v 7\<lparr>dk_documents := with_history f demo_documents\<rparr>)"])
      (simp add: persist_final_benchmark_def with_lock_def io_bind_def start reads recon wrote)
qed

section \<open>An advisory capture with the final label\<close>

lemma persisted_fps_documents:
  assumes "persist_fps_capture disk_directory cap c label w = (Ok s, w')" and "f64_lt f64_zero (capture_p1_fps c)"
  obtains h t where "shown_history (dk_documents w') = append_benchmark_record h (advisory_record t c label)"
    and "final_benchmark (shown_state (dk_documents w')) = None"
proof -
  let ?body = "io_bind (read_or state_default ''read state: '' (wd_state disk_directory)) (\<lambda>s.
         io_bind (io_check (state_validate s)) (\<lambda>_.
         if final_benchmark s \<noteq> None
         then io_fail ''advisory FPS persistence cannot replace a completed Phase 3 benchmark receipt''
         else
           io_bind (io_call (wd_timestamp disk_directory)) (\<lambda>captured_at.
           let s' = s\<lparr>st_fps_cap := cap, st_avg_fps := average_fps c,
                st_p1_fps := (if f64_lt f64_zero (capture_p1_fps c) then Some (capture_p1_fps c) else None),
                st_cap_date := Some captured_at, st_work_dir := WINDOWS_WORK_DIR\<rparr> in
           io_bind (write_and_compare (wd_state disk_directory) state_validate ''persist FPS state: ''
             ''verify FPS state: '' ''FPS state readback verification failed'' s') (\<lambda>_.
           if \<not> f64_lt f64_zero (capture_p1_fps c) then io_ret s'
           else
             io_bind (read_or [] ''read benchmark history: '' (wd_history disk_directory)) (\<lambda>history.
             io_bind (write_and_compare (wd_history disk_directory) any_content ''persist benchmark history: ''
               ''verify benchmark history: '' ''benchmark history readback verification failed''
               (append_benchmark_record history (advisory_record captured_at c label))) (\<lambda>_.
             io_ret s'))))))"
  have "\<exists>w1. with_lock disk_directory ?body w1 = (Ok s, w')"
    using assms(1) by (auto simp: persist_fps_capture_def io_Ok split: if_splits)
  then obtain v v' where v: "dk_documents w' = dk_documents v'" "?body v = (Ok s, v')"
    using with_lock_documents [of ?body _ "Ok s"] by fastforce
  from v(2) obtain s0 w1 t w2 w3 h w4 where
      s0: "final_benchmark s0 = None"
    and st: "write_and_compare (wd_state disk_directory) state_validate ''persist FPS state: ''
             ''verify FPS state: '' ''FPS state readback verification failed''
             (s0\<lparr>st_fps_cap := cap, st_avg_fps := average_fps c, st_p1_fps := Some (capture_p1_fps c),
                st_cap_date := Some t, st_work_dir := WINDOWS_WORK_DIR\<rparr>) w2 = (Ok (), w3)"
    and h: "read_or [] ''read benchmark history: '' (wd_history disk_directory) w3 = (Ok h, w4)"
    and hist: "write_and_compare (wd_history disk_directory) any_content ''persist benchmark history: ''
               ''verify benchmark history: '' ''benchmark history readback verification failed''
               (append_benchmark_record h (advisory_record t c label)) w4 = (Ok (), v')"
    using assms(2) by (auto simp: io_Ok Let_def split: if_splits)
  have "dk_documents v' = (dk_documents w4)\<lparr>doc_history :=
      Some (append_benchmark_record h (advisory_record t c label))\<rparr>"
    using history_doc.write_and_compare_Ok [OF hist] by simp
  moreover have "dk_documents w4 = dk_documents w3" using history_doc.read_or_shown [OF h] .
  moreover have "dk_documents w3 = (dk_documents w2)\<lparr>doc_state :=
      Some (s0\<lparr>st_fps_cap := cap, st_avg_fps := average_fps c, st_p1_fps := Some (capture_p1_fps c),
                st_cap_date := Some t, st_work_dir := WINDOWS_WORK_DIR\<rparr>)\<rparr>"
    using state_doc.write_and_compare_Ok [OF st] by simp
  ultimately show thesis
    using that [of h t] s0 v(1) by (simp add: shown_defs)
qed

text \<open>A record with the final label and no receipt, in a state without one, cannot be reconciled.\<close>

lemma stray_record_blocks:
  assumes "final_benchmark s = None" and "r \<in> set h" and "rec_label r = FINAL_BENCHMARK_LABEL"
    and "rec_receipt_id r = None"
  shows "\<not> is_ok (fst (reconcile_final_benchmark s p h cfg fresh now c w))"
proof
  assume "is_ok (fst (reconcile_final_benchmark s p h cfg fresh now c w))"
  then obtain v w' where run: "reconcile_final_benchmark s p h cfg fresh now c w = (Ok v, w')"
    by (metis is_ok_iff prod.collapse)
  have persisted: "\<not> is_ok (validate_persisted_final_benchmark s p h)"
    using assms(1) by (auto simp: is_ok_iff validate_persisted_final_benchmark_def and_then_eq_Ok ok_or_eq_Ok)
  have ev: "final_evidence r" using assms(3) by (simp add: final_evidence_def)
  define F where "F = filter (\<lambda>(_, r). final_evidence r) (enumerate 0 h)"
  have in_F: "\<exists>n. (n, r) \<in> set F"
  proof -
    obtain n where "n < length h" "h ! n = r" using assms(2) by (auto simp: in_set_conv_nth)
    then show ?thesis using ev by (auto simp: F_def in_set_enumerate_eq)
  qed
  obtain partial x w1 w2 where part: "final_history_prefix h = Ok partial"
      "source_final_record s h partial c fresh now w1 = (Ok x, w2)"
    using run persisted by (auto simp: reconcile_final_benchmark_def io_Ok is_ok_iff split: if_splits prod.splits)
  have "\<exists>i. partial = Some (i, r)"
    using part(1) in_F unfolding final_history_prefix_def F_def [symmetric]
    by (cases F rule: list.exhaust; cases "tl F") auto
  then show False
    using part(2) assms(4)
    by (auto simp: source_final_record_def validate_partial_final_record_def io_check_def and_then_eq_Ok
        split: prod.splits)
qed

text \<open>C18: a final benchmark that was interrupted anywhere, after its history, after its state or after its
  progress was written, whatever call failed and whether or not the failed call had acted, is finished by
  repeating it with the same capture when nothing fails: the retry returns the receipt of the first
  attempt, and the documents are those an undisturbed first attempt would have left.  An attempt that
  returned a receipt returned that one.\<close>

theorem interrupted_final_benchmark_is_finished_by_retry:
  assumes "persist_final_benchmark disk_directory cfg c w = (r, w1)"
    and "\<not> has_receipt_evidence (shown_state (dk_documents w)) (shown_progress (dk_documents w))
       (shown_history (dk_documents w))"
    and "dk_documents w1 \<noteq> dk_documents w"
    and "disk_calm w2" and "\<not> dk_locked w2" and "dk_documents w2 = dk_documents w1"
  shows "\<exists>i ts f w3. prepare_final_benchmark_commit (shown_state (dk_documents w)) (shown_progress (dk_documents w))
         (shown_history (dk_documents w)) cfg i ts c = Ok f
       \<and> persist_final_benchmark disk_directory cfg c w2 = (Ok (fc_receipt f), w3)
       \<and> dk_documents w3 = with_progress f (dk_documents w) \<and> r \<in> insert (Ok (fc_receipt f)) (range Err)"
proof -
  obtain i ts f where f: "prepare_final_benchmark_commit (shown_state (dk_documents w))
        (shown_progress (dk_documents w)) (shown_history (dk_documents w)) cfg i ts c = Ok f"
      "doc_state (dk_documents w) = None \<or> work_dir_checked (shown_state (dk_documents w)) = Ok ()"
      "dk_documents w1 \<in> final_prefixes f (dk_documents w)" "\<And>x. r = Ok x \<Longrightarrow> x = fc_receipt f"
    using persist_final_run [OF assms(1,2) refl] assms(3) unfolding final_outcome_def by blast
  have "\<forall>x\<in>set (shown_history (dk_documents w)). \<not> final_evidence x"
    using assms(2) by (auto simp: has_receipt_evidence_def list_ex_iff)
  from retry_finishes [OF f(1) this f(2,3)] obtain w3
    where "persist_final_benchmark disk_directory cfg c w2 = (Ok (fc_receipt f), w3)"
      "dk_documents w3 = with_progress f (dk_documents w)"
    using assms(4-6) by (fastforce simp: gives_def settled_open_def settled_def)
  moreover have "r \<in> insert (Ok (fc_receipt f)) (range Err)" using f(4) by (cases r) auto
  ultimately show ?thesis using f(1) by blast
qed

theorem interrupted_final_benchmark_is_finished_by_retry_witness:
  "\<exists>w f w3. persist_final_benchmark disk_directory demo_config demo_capture (demo_disk (Some 6)) =
       (Err ''persist final benchmark history: power failure'', w)
     \<and> persist_final_benchmark disk_directory demo_config demo_capture
         ((demo_disk None)\<lparr>dk_documents := dk_documents w\<rparr>) = (Ok (fc_receipt (f :: unit final_commit)), w3)
     \<and> dk_documents w3 = with_progress f demo_documents"
proof -
  obtain f w where run: "persist_final_benchmark disk_directory demo_config demo_capture (demo_disk (Some 6)) =
     (Err ''persist final benchmark history: power failure'', w)" "dk_documents w = with_history f demo_documents"
    using demo_interrupted by blast
  have start: "dk_documents (demo_disk lost) = demo_documents" for lost by (simp add: demo_disk_def)
  have "doc_history (with_history f demo_documents) \<noteq> doc_history demo_documents"
    by (simp add: with_history_def demo_documents_def)
  then have moved: "dk_documents w \<noteq> dk_documents (demo_disk (Some 6))" using run(2) start by metis
  let ?again = "(demo_disk None)\<lparr>dk_documents := dk_documents w\<rparr>"
  have calm: "disk_calm ?again" "\<not> dk_locked ?again" "dk_documents ?again = dk_documents w"
    by (simp_all add: demo_disk_def disk_calm_def)
  have none: "\<not> has_receipt_evidence (shown_state (dk_documents (demo_disk (Some 6))))
      (shown_progress (dk_documents (demo_disk (Some 6)))) (shown_history (dk_documents (demo_disk (Some 6))))"
    using demo_no_evidence by (simp add: start demo_shown)
  show ?thesis
    using interrupted_final_benchmark_is_finished_by_retry [OF run(1) none moved calm] run(1)
    unfolding start by blast
qed

lemma persist_final_reconciles:
  fixes w :: "'v work_disk"
  assumes "persist_final_benchmark disk_directory cfg c w = (Ok x, w')"
  shows "\<exists>fresh now v. is_ok (fst (reconcile_final_benchmark (shown_state (dk_documents w))
     (shown_progress (dk_documents w)) (shown_history (dk_documents w)) cfg fresh now c (v :: 'v work_disk)))"
proof -
  let ?body = "io_bind (read_state_for_final disk_directory) (\<lambda>s.
       io_bind (read_progress_for_final disk_directory) (\<lambda>p.
       io_bind (final_history_of disk_directory) (\<lambda>h.
       io_bind (io_call (wd_timestamp disk_directory)) (\<lambda>now.
       io_bind (reconcile_final_benchmark s p h cfg (fresh_final_receipt_id disk_directory s h) now c) (\<lambda>v.
       case v of ReconComplete receipt \<Rightarrow> io_ret receipt
       | ReconPending commit \<Rightarrow> write_final_commit disk_directory s p h commit)))))"
  obtain w0 where w0: "wd_acquire_fixed disk_directory w = (Ok (), w0)" "with_lock disk_directory ?body w0 = (Ok x, w')"
    using assms by (auto simp: persist_final_benchmark_def io_Ok)
  obtain v v' where v: "dk_documents v = dk_documents w0" "?body v = (Ok x, v')"
    using with_lock_documents [OF w0(2)] by auto
  obtain s w1 p w2 h w3 now w4 y w5 where
      s: "read_state_for_final disk_directory v = (Ok s, w1)" and p: "read_progress_for_final disk_directory w1 = (Ok p, w2)"
    and h: "final_history_of disk_directory w2 = (Ok h, w3)"
    and y: "reconcile_final_benchmark s p h cfg (fresh_final_receipt_id disk_directory s h) now c w4 = (Ok y, w5)"
    using v(2) by (simp add: io_Ok) blast
  have "dk_documents v = dk_documents w" "dk_documents w1 = dk_documents v" "dk_documents w2 = dk_documents w1"
    using v(1) io_withinD [OF disk_calls_same(1) w0(1)] io_withinD [OF read_commit_same(1) s]
      io_withinD [OF read_commit_same(2) p] by (simp_all add: same_documents_def)
  then have "s = shown_state (dk_documents w)" "p = shown_progress (dk_documents w)" "h = shown_history (dk_documents w)"
    using read_commit_documents(1) [OF s] read_commit_documents(2) [OF p] read_commit_documents(3) [OF h] by simp_all
  then show ?thesis using y by (metis fst_conv is_ok.simps(1))
qed

text \<open>C19: An advisory capture may carry any label.  One that was persisted with the label of the final
  benchmark leaves a record that no final benchmark can be reconciled with: on those documents the final
  benchmark fails for every configuration and every capture, whatever the calls of the directory do.\<close>

theorem advisory_label_blocks_final_benchmark:
  assumes "persist_fps_capture disk_directory cap c FINAL_BENCHMARK_LABEL w = (Ok s, w1)"
    and "f64_lt f64_zero (capture_p1_fps c)" and "dk_documents w2 = dk_documents w1"
  shows "\<not> is_ok (fst (persist_final_benchmark disk_directory cfg c' w2))"
proof
  assume "is_ok (fst (persist_final_benchmark disk_directory cfg c' w2))"
  then obtain x w3 where run: "persist_final_benchmark disk_directory cfg c' w2 = (Ok x, w3)"
    by (metis is_ok_iff prod.collapse)
  obtain h t where d: "shown_history (dk_documents w1) = append_benchmark_record h (advisory_record t c FINAL_BENCHMARK_LABEL)"
      "final_benchmark (shown_state (dk_documents w1)) = None"
    using persisted_fps_documents [OF assms(1,2)] by blast
  have "advisory_record t c FINAL_BENCHMARK_LABEL \<in> set (shown_history (dk_documents w2))"
    using append_benchmark_record_last unfolding assms(3) d(1) by (metis last_in_set)
  from stray_record_blocks [OF _ this] persist_final_reconciles [OF run] show False
    using d(2) by (force simp: assms(3) advisory_record_def)
qed

lemma demo_fps_persisted:
  "\<exists>s w. persist_fps_capture disk_directory 144 demo_capture label (demo_disk None) = (Ok s, w)"
proof -
  define w1 where "w1 = (demo_disk None)\<lparr>dk_calls := 2, dk_locked := True\<rparr>"
  have w1: "disk_calm w1" "dk_documents w1 = demo_documents" by (simp_all add: w1_def demo_disk_def disk_calm_def)
  have start: "wd_acquire_fixed disk_directory (demo_disk None) = (Ok (), (demo_disk None)\<lparr>dk_calls := Suc 0\<rparr>)"
      "wd_lock disk_directory ((demo_disk None)\<lparr>dk_calls := Suc 0\<rparr>) = (Ok (), w1)"
    by (simp_all add: disk_directory_def disk_call_def demo_disk_def Let_def w1_def numeral_2_eq_2)
  have shown: "doc_state demo_documents = Some (demo_state PhaseThreeArmed)" by (simp add: demo_documents_def)
  obtain w2 where w2: "read_or state_default ''read state: '' (wd_state disk_directory) w1
      = (Ok (demo_state PhaseThreeArmed), w2)" "disk_calm w2"
    using state_doc.read_or_calm [OF w1(1), of state_default "''read state: ''"] by (auto simp: w1(2) shown)
  obtain t w3 where w3: "io_call (wd_timestamp disk_directory) w2 = (Ok t :: (string, string) result, w3)" "disk_calm w3"
    using w2(2) by (simp add: io_call_def disk_directory_def disk_calm_def)
  define s where "s = (demo_state PhaseThreeArmed)\<lparr>st_fps_cap := 144, st_avg_fps := Finite 300,
      st_p1_fps := Some (Finite 200), st_cap_date := Some t, st_work_dir := WINDOWS_WORK_DIR\<rparr>"
  have valid: "state_validate (demo_state PhaseThreeArmed) = Ok ()" "final_benchmark (demo_state PhaseThreeArmed) = None"
    by (rule demo_states_valid) (simp add: demo_state_def state_default_def)
  then have "state_validate s = Ok ()"
    by (auto simp: state_validate_Ok_iff s_def baseline_coherent_def split: option.splits)
  then obtain w4 where w4: "write_and_compare (wd_state disk_directory) state_validate ''persist FPS state: ''
      ''verify FPS state: '' ''FPS state readback verification failed'' s w3 = (Ok (), w4)" "disk_calm w4"
    using state_doc.write_and_compare_calm [OF w3(2)] by blast
  obtain h w5 where w5: "read_or [] ''read benchmark history: '' (wd_history disk_directory) w4 = (Ok h, w5)" "disk_calm w5"
    using history_doc.read_or_calm [OF w4(2)] by blast
  obtain w6 where w6: "write_and_compare (wd_history disk_directory) any_content ''persist benchmark history: ''
      ''verify benchmark history: '' ''benchmark history readback verification failed''
      (append_benchmark_record h (advisory_record t demo_capture label)) w5 = (Ok (), w6)"
    using history_doc.write_and_compare_calm [where check = any_content, OF w5(2) any_content_def] by blast
  have c: "average_fps demo_capture = Finite 300" "capture_p1_fps demo_capture = Finite 200"
      "\<not> invalid_fps_capture 144 demo_capture"
    by (simp_all add: demo_capture_def invalid_fps_capture_def f64_lt_def)
  have "f64_lt f64_zero (Finite 200)" by (simp add: f64_lt_def)
  then show ?thesis
    by (simp add: persist_fps_capture_def with_lock_def io_bind_def io_check_def io_ret_def start w2 w3 valid c Let_def
        s_def [symmetric] w4 w5 w6)
qed

theorem advisory_label_blocks_final_benchmark_witness:
  "\<exists>s w1. persist_fps_capture disk_directory 144 demo_capture FINAL_BENCHMARK_LABEL (demo_disk None) = (Ok s, w1)
     \<and> \<not> is_ok (fst (persist_final_benchmark disk_directory demo_config demo_capture w1))"
proof -
  obtain s w1 where run: "persist_fps_capture disk_directory 144 demo_capture FINAL_BENCHMARK_LABEL (demo_disk None) = (Ok s, w1)"
    using demo_fps_persisted by blast
  have "f64_lt f64_zero (capture_p1_fps demo_capture)" by (simp add: demo_capture_def f64_lt_def)
  from advisory_label_blocks_final_benchmark [OF run this refl] run show ?thesis by blast
qed

end
