(* ===== verification/Recovery_Store.thy ===== *)
theory Recovery_Store
  imports Persistence Engine
begin

text \<open>
  The recovery documents of the work directory (\<open>crates/frametime-windows/src/storage/irreversible_audit.rs\<close>,
  \<open>storage/evidence_store.rs\<close>, \<open>backend/public.rs\<close>): the audits of irreversible mutations, the receipts of
  observations, and the restoration of the backup file.  What restores an entry on the machine is an
  argument; the live backend's retained lock is a flag beside the world.
\<close>

section \<open>Audits of irreversible mutations\<close>

definition load_audit_file :: "('w, 'v) work_directory \<Rightarrow> ('w, string, 'v audit_file) io" where
  "load_audit_file D =
     io_bind (io_call (jf_there (wd_audit D))) (\<lambda>there.
     if there then io_map_err (\<lambda>e. ''read audit: '' @ e) (jf_read (wd_audit D))
     else
       io_bind (io_call (wd_timestamp D)) (\<lambda>now.
       io_ret \<lparr>audit_entries = [], audit_created = now, audit_file_unknown = fmempty\<rparr>))"

definition persist_audit_file :: "('w, 'v) work_directory \<Rightarrow> 'v audit_file \<Rightarrow> ('w, string, unit) io" where
  "persist_audit_file D file =
     write_and_compare (wd_audit D) any_content ''persist audit: '' ''read back audit: ''
       ''audit readback verification failed'' file"

definition irreversible_target :: "string \<Rightarrow> (manual_recovery_target, string) result" where
  "irreversible_target step =
     (if step = ''P1:13'' then Ok AppxRemovals
      else if step = ''P2:2'' then Ok ExactDriverPackageRemoval
      else if step = ''P3:1'' then Ok DriverInstallation
      else Err (step @ '' has no fixed irreversible recovery target''))"

fun pending_audit_identity :: "'v irreversible_audit \<Rightarrow> string \<times> recovery_requirement" where
  "pending_audit_identity (IrrManual a) = (ma_step a, ManualRecoveryAuditRequired)"
| "pending_audit_identity (IrrMixed a) = (mx_step a, MixedRecovery)"

fun audit_update_identity :: "'v irreversible_audit \<Rightarrow> string \<times> string \<times> manual_recovery_outcome" where
  "audit_update_identity (IrrManual a) = (ma_step a, ma_captured_at a, ma_outcome a)"
| "audit_update_identity (IrrMixed a) = (mx_step a, mx_captured_at a, mx_outcome a)"

fun audit_entry :: "'v irreversible_audit \<Rightarrow> 'v audit_entry" where
  "audit_entry (IrrManual a) = AuditManual a"
| "audit_entry (IrrMixed a) = AuditMixed a"

fun entry_irreversible_audit :: "'v audit_entry \<Rightarrow> 'v irreversible_audit option" where
  "entry_irreversible_audit (AuditManual a) = Some (IrrManual a)"
| "entry_irreversible_audit (AuditMixed a) = Some (IrrMixed a)"
| "entry_irreversible_audit (AuditRebuildable _) = None"
| "entry_irreversible_audit (AuditUnknown _) = None"

fun pending_entry_identity :: "'v audit_entry \<Rightarrow> (string \<times> string) option" where
  "pending_entry_identity (AuditManual a) =
     (if ma_outcome a = ManualPending then Some (ma_step a, ma_captured_at a) else None)"
| "pending_entry_identity (AuditMixed a) =
     (if mx_outcome a = ManualPending then Some (mx_step a, mx_captured_at a) else None)"
| "pending_entry_identity (AuditRebuildable _) = None"
| "pending_entry_identity (AuditUnknown _) = None"

definition pending_for :: "string \<Rightarrow> 'v irreversible_audit \<Rightarrow> bool" where
  "pending_for step a =
     (case audit_update_identity a of (candidate, _, outcome) \<Rightarrow> candidate = step \<and> outcome = ManualPending)"

definition pending_irreversible_audit ::
  "'v audit_file \<Rightarrow> string \<Rightarrow> ('v irreversible_audit option, string) result" where
  "pending_irreversible_audit file step =
     (if \<not> is_empty_map (audit_file_unknown file) then Err ''audit document has unrecognized root fields''
      else
        case filter (pending_for step) (List.map_filter entry_irreversible_audit (audit_entries file)) of
          [] \<Rightarrow> Ok None
        | [audit] \<Rightarrow> Ok (Some audit)
        | audits \<Rightarrow> Err (step @ '' audit contains '' @ dec (length audits) @ '' pending records; retry is ambiguous''))"

text \<open>The world beside \<open>transaction_lock.is_some()\<close>.  Dropping the lock releases it.\<close>

type_synonym 'w held = "'w \<times> bool"

definition unheld :: "('w, 'e, 'a) io \<Rightarrow> ('w held, 'e, 'a) io" where
  "unheld m w = (case m (fst w) of (r, v) \<Rightarrow> (r, (v, snd w)))"

definition lock_is_held :: "'w held \<Rightarrow> bool \<times> 'w held" where
  "lock_is_held w = (snd w, w)"

definition retain_lock :: "('w, 'v) work_directory \<Rightarrow> ('w held, string, unit) io" where
  "retain_lock D w =
     (case wd_lock D (fst w) of (Ok u, v) \<Rightarrow> (Ok (), (v, True)) | (Err e, v) \<Rightarrow> (Err e, (v, snd w)))"

definition drop_lock :: "('w, 'v) work_directory \<Rightarrow> ('w held, 'e, unit) io" where
  "drop_lock D w = (Ok (), (if snd w then wd_unlock D (fst w) else fst w, False))"

definition capture_irreversible_audit ::
  "('w, 'v) work_directory \<Rightarrow> recovery_requirement \<Rightarrow> string \<Rightarrow> ('w held, string, 'v irreversible_audit) io" where
  "capture_irreversible_audit D requirement step =
     io_bind (io_check (irreversible_target step)) (\<lambda>target.
     io_bind (io_call lock_is_held) (\<lambda>held.
     io_bind
       (if requirement = ManualRecoveryAuditRequired then
          if held then io_fail (step @ '' manual audit capture found an unrelated active transaction'')
          else retain_lock D
        else if requirement \<noteq> MixedRecovery
        then io_fail (step @ '' does not declare irreversible recovery'')
        else if \<not> held
        then io_fail (step @ '' mixed audit capture requires the retained backup transaction lock'')
        else io_ret ()) (\<lambda>_.
     io_match
       (io_bind (unheld (load_audit_file D)) (\<lambda>file. io_check (pending_irreversible_audit file step))) (\<lambda>existing.
     case existing of
       Err e \<Rightarrow>
         io_bind (if requirement = ManualRecoveryAuditRequired then drop_lock D else io_ret ()) (\<lambda>_. io_fail e)
     | Ok (Some audit) \<Rightarrow> io_ret audit
     | Ok None \<Rightarrow>
         io_bind (unheld (io_call (wd_timestamp D))) (\<lambda>now.
         if requirement = ManualRecoveryAuditRequired then io_ret (IrrManual (manual_pending step now target))
         else if requirement = MixedRecovery then io_ret (IrrMixed (mixed_pending step now target))
         else io_fail ''irreversible audit recovery requirement changed during capture'')))))"

definition persist_irreversible_audit ::
  "('w, 'v) work_directory \<Rightarrow> 'v irreversible_audit \<Rightarrow> ('w held, string, unit) io" where
  "persist_irreversible_audit D audit =
     io_bind (io_call lock_is_held) (\<lambda>held.
     if \<not> held then io_fail ''irreversible audit persistence requires the retained work lock''
     else
       (case pending_audit_identity audit of (step, requirement) \<Rightarrow>
          if \<not> irreversible_valid_pending_for audit requirement step
          then io_fail (step @ '' irreversible audit is not exact and pending'')
          else
            io_bind (unheld (load_audit_file D)) (\<lambda>file.
            io_bind (io_check (pending_irreversible_audit file step)) (\<lambda>existing.
            case existing of
              Some known \<Rightarrow>
                if known \<noteq> audit then io_fail (step @ '' pending irreversible audit changed during retry'')
                else unheld (persist_audit_file D file)
            | None \<Rightarrow>
                unheld (persist_audit_file D
                  (file\<lparr>audit_entries := audit_entries file @ [audit_entry audit]\<rparr>))))))"

definition replace_irreversible_audit ::
  "('w, 'v) work_directory \<Rightarrow> 'v irreversible_audit \<Rightarrow> bool \<Rightarrow> ('w held, string, unit) io" where
  "replace_irreversible_audit D audit as_failed =
     io_bind (io_call lock_is_held) (\<lambda>held.
     if \<not> held then io_fail ''irreversible audit update requires the retained work lock''
     else
       (case audit_update_identity audit of (step, captured_at, outcome) \<Rightarrow>
          if \<not> ((case outcome of ManualFailed _ \<Rightarrow> True | _ \<Rightarrow> False) = as_failed \<and> outcome \<noteq> ManualPending)
             \<or> captured_at = []
          then io_fail (step @ '' irreversible audit outcome is invalid'')
          else
            io_bind (unheld (load_audit_file D)) (\<lambda>file.
            let updates = (\<lambda>e. pending_entry_identity e = Some (step, captured_at));
                matches = length (filter updates (audit_entries file)) in
            if matches \<noteq> 1
            then io_fail (step @ '' expected one pending irreversible audit, found '' @ dec matches)
            else
              unheld (persist_audit_file D
                (file\<lparr>audit_entries := map (\<lambda>e. if updates e then audit_entry audit else e) (audit_entries file)\<rparr>)))))"

section \<open>Receipts of observations\<close>

definition load_evidence_file :: "('w, 'v) work_directory \<Rightarrow> ('w, string, 'v evidence_file) io" where
  "load_evidence_file D =
     io_bind (io_call (jf_there (wd_evidence D))) (\<lambda>there.
     if there then io_map_err (\<lambda>e. ''read prerequisite evidence: '' @ e) (jf_read (wd_evidence D))
     else
       io_bind (io_call (wd_timestamp D)) (\<lambda>now.
       io_ret \<lparr>ev_entries = [], ev_created = now, ev_unknown = fmempty\<rparr>))"

definition persist_observation_receipt ::
  "'v digester \<Rightarrow> ('w, 'v) work_directory \<Rightarrow> 'v observation_receipt \<Rightarrow> ('w, string, unit) io" where
  "persist_observation_receipt G D receipt =
     io_bind (io_check (map_err (\<lambda>e. ''validate prerequisite evidence: '' @ evidence_error_text e)
       (validate_for G receipt (obs_step receipt)))) (\<lambda>_.
     io_bind (load_evidence_file D) (\<lambda>file.
     if \<not> is_empty_map (ev_unknown file) then io_fail ''evidence document has unrecognized root fields''
     else
       let file' = replace_observation receipt file in
       io_bind (io_map_err (\<lambda>e. ''persist prerequisite evidence: '' @ e) (jf_write (wd_evidence D) file')) (\<lambda>_.
       io_bind (io_map_err (\<lambda>e. ''read back prerequisite evidence: '' @ e) (jf_read (wd_evidence D))) (\<lambda>verified.
       if verified \<noteq> file' then io_fail ''prerequisite evidence readback did not match the captured receipt''
       else
         io_bind (io_check (map_err (\<lambda>e. ''validate persisted prerequisite evidence: '' @ evidence_error_text e)
           (observation_for G verified (obs_step receipt)))) (\<lambda>found.
         if found \<noteq> Some receipt
         then io_fail ''prerequisite evidence readback did not match the captured receipt''
         else io_ret ())))))"

definition load_observation_receipt ::
  "'v digester \<Rightarrow> ('w, 'v) work_directory \<Rightarrow> string \<Rightarrow> ('w, string, 'v observation_receipt option) io" where
  "load_observation_receipt G D step =
     io_bind (load_evidence_file D) (\<lambda>file.
     if \<not> is_empty_map (ev_unknown file) then io_fail ''evidence document has unrecognized root fields''
     else
       io_check (map_err (\<lambda>e. ''validate prerequisite evidence: '' @ evidence_error_text e)
         (observation_for G file step)))"

definition verify_persisted_observation ::
  "'v digester \<Rightarrow> ('w, 'v) work_directory \<Rightarrow> operation \<Rightarrow> 'v observation_receipt \<Rightarrow> ('w, string, unit) io" where
  "verify_persisted_observation G D operation receipt =
     (let k = progress_key (step_ident (op_step operation)) in
      io_bind (io_check (map_err (\<lambda>e. ''validate '' @ k @ '' prerequisite evidence: '' @ evidence_error_text e)
        (validate_for G receipt k))) (\<lambda>_.
      io_bind (load_observation_receipt G D k) (\<lambda>stored.
      if stored \<noteq> Some receipt
      then io_fail (k @ '' persisted prerequisite evidence does not match the captured receipt'')
      else io_ret ())))"

section \<open>The backup file\<close>

text \<open>The loop over the entries in restore order; the two lists are what is retained, newest first, and why.\<close>

fun restore_entries ::
  "('v backup_entry \<Rightarrow> ('w, string, unit) io) \<Rightarrow> ('v backup_entry \<Rightarrow> bool) \<Rightarrow> 'v backup_entry list
     \<Rightarrow> ('w, string, 'v backup_entry list \<times> string list) io" where
  "restore_entries restore selected [] = io_ret ([], [])"
| "restore_entries restore selected (entry # rest) =
     (if \<not> selected entry
      then io_bind (restore_entries restore selected rest) (\<lambda>(retained, failures). io_ret (entry # retained, failures))
      else
        io_match (restore entry) (\<lambda>r.
        io_bind (restore_entries restore selected rest) (\<lambda>(retained, failures).
        case r of
          Ok _ \<Rightarrow> io_ret (retained, failures)
        | Err e \<Rightarrow> io_ret (entry # retained, e # failures))))"

definition restore_under_lock ::
  "('w, 'v) work_directory \<Rightarrow> ('v backup_entry \<Rightarrow> ('w, string, unit) io) \<Rightarrow> ('v backup_entry \<Rightarrow> bool)
     \<Rightarrow> ('w, string, unit) io" where
  "restore_under_lock D restore selected =
     io_bind (io_map_err (\<lambda>e. ''read backup: '' @ e) (jf_read (wd_backup D))) (\<lambda>backup.
     io_bind (restore_entries restore selected (restore_order backup)) (\<lambda>(retained, failures).
     io_bind (io_map_err (\<lambda>e. ''persist restored backup: '' @ e)
       (jf_write (wd_backup D) (backup\<lparr>backup_entries := rev retained\<rparr>))) (\<lambda>_.
     if failures = [] then io_ret ()
     else io_fail (dec (length failures) @ '' recovery entries retained: '' @ intercalate ''; '' failures))))"

definition restore_matching ::
  "('w, 'v) work_directory \<Rightarrow> ('v backup_entry \<Rightarrow> ('w, string, unit) io) \<Rightarrow> ('v backup_entry \<Rightarrow> bool)
     \<Rightarrow> ('w, string, unit) io" where
  "restore_matching D restore selected =
     io_bind (wd_acquire_fixed D) (\<lambda>_.
     io_bind (wd_elevation D) (\<lambda>_.
     with_lock D (restore_under_lock D restore selected)))"

definition restore_all :: "('w, 'v) work_directory \<Rightarrow> ('v backup_entry \<Rightarrow> ('w, string, unit) io) \<Rightarrow> ('w, string, unit) io" where
  "restore_all D restore = restore_matching D restore (\<lambda>_. True)"

definition restore_selected ::
  "('w, 'v) work_directory \<Rightarrow> ('v backup_entry \<Rightarrow> ('w, string, unit) io) \<Rightarrow> string \<Rightarrow> ('w, string, unit) io" where
  "restore_selected D restore step_title =
     (if step_title = [] \<or> length step_title > 128 then io_fail ''restore step title is invalid''
      else restore_matching D restore (\<lambda>entry. backup_step entry = Some step_title))"

definition clear_backup :: "('w, 'v) work_directory \<Rightarrow> ('w, string, unit) io" where
  "clear_backup D =
     io_bind (wd_acquire_fixed D) (\<lambda>_.
     io_bind (wd_elevation D) (\<lambda>_.
     with_lock D (
       io_bind (io_map_err (\<lambda>e. ''read backup before clear: '' @ e) (jf_read (wd_backup D))) (\<lambda>backup.
       io_map_err (\<lambda>e. ''clear backup: '' @ e)
         (jf_write (wd_backup D)
           \<lparr>backup_entries = [], backup_created = backup_created backup, backup_unknown = backup_unknown backup\<rparr>)))))"

definition reset_progress :: "('w, 'v) work_directory \<Rightarrow> ('w, string, unit) io" where
  "reset_progress D =
     io_bind (wd_acquire_fixed D) (\<lambda>_.
     with_lock D (io_map_err (\<lambda>e. ''reset progress: '' @ e) (jf_write (wd_progress D) progress_default)))"

end
