(* ===== verification/Recovery_Safety.thy ===== *)
theory Recovery_Safety
  imports Recovery_Store Persistence_Safety "HOL-Library.Sublist"
begin

text \<open>
  A restoration keeps every record it could not replay; an irreversible mutation that was interrupted is
  resumed under the audit it left; a receipt that was persisted is the one that is found.
\<close>

section \<open>Restoring\<close>












section \<open>Resuming under an audit\<close>

lemma audit_entry_kind: "entry_irreversible_audit (audit_entry a) = Some a"
  by (cases a) simp_all

lemma valid_is_pending_for:
  "irreversible_valid_pending_for a requirement step \<Longrightarrow> pending_for step a"
  by (cases a) (simp_all add: irreversible_valid_pending_for_def pending_for_def)

lemma pending_after_append:
  assumes "pending_irreversible_audit file step = Ok None" and "pending_for step a"
  shows "pending_irreversible_audit (file\<lparr>audit_entries := audit_entries file @ [audit_entry a]\<rparr>) step = Ok (Some a)"
  using assms
  by (simp add: pending_irreversible_audit_def List.map_filter_def audit_entry_kind split: if_splits list.splits)

lemma load_audit_Ok:
  assumes "load_audit_file disk_directory w = (Ok file, w')" and "doc_audit (dk_documents w) = Some known"
  shows "file = known"
proof -
  obtain present v where t: "jf_there (wd_audit disk_directory) w = (present, v)" by fastforce
  have there: "present" "dk_documents v = dk_documents w"
    using audit_doc.there_law [OF t] audit_doc.there_shown [OF t] assms(2) by auto
  obtain q v' where q: "jf_read (wd_audit disk_directory) v = (q, v')" by fastforce
  then have "q = Ok file"
    using assms(1) t there(1) by (cases q) (auto simp: load_audit_file_def io_bind_def io_call_def io_map_err_def)
  then show ?thesis using audit_doc.read_law q there(2) assms(2) by fastforce
qed

text \<open>What a persisted audit leaves behind.\<close>

lemma persisted_audit_shown:
  assumes "persist_irreversible_audit disk_directory audit w = (Ok u, w1)"
    and "fst (pending_audit_identity audit) = step"
  shows "\<exists>file. doc_audit (dk_documents (fst w1)) = Some file \<and> pending_irreversible_audit file step = Ok (Some audit)"
proof -
  obtain requirement where id: "pending_audit_identity audit = (step, requirement)"
    using assms(2) by (cases "pending_audit_identity audit") simp
  have v: "irreversible_valid_pending_for audit requirement step"
    using assms(1) id by (auto simp: persist_irreversible_audit_def io_bind_def io_call_def io_fail_def lock_is_held_def
        split: if_splits)
  obtain q x where load: "unheld (load_audit_file disk_directory) w = (q, x)"
    by (cases "unheld (load_audit_file disk_directory) w")
  obtain held where held: "q = Ok held"
    using assms(1) id v load
    by (cases q) (auto simp: persist_irreversible_audit_def io_bind_def io_call_def io_fail_def lock_is_held_def
        split: if_splits)
  obtain existing where existing: "pending_irreversible_audit held step = Ok existing"
    using assms(1) id v load held
    by (cases "pending_irreversible_audit held step")
      (auto simp: persist_irreversible_audit_def io_bind_def io_call_def io_fail_def lock_is_held_def io_check_def
        split: if_splits)
  define left where "left = (case existing of Some _ \<Rightarrow> held
      | None \<Rightarrow> held\<lparr>audit_entries := audit_entries held @ [audit_entry audit]\<rparr>)"
  have run: "unheld (persist_audit_file disk_directory left) x = (Ok u, w1)" and known: "existing = None \<or> existing = Some audit"
    using assms(1) id v load held existing
    by (auto simp: persist_irreversible_audit_def io_bind_def io_call_def io_fail_def lock_is_held_def io_check_def left_def
        split: if_splits option.splits)
  have "pending_irreversible_audit left step = Ok (Some audit)"
    using known existing pending_after_append [OF _ valid_is_pending_for [OF v], of held] by (auto simp: left_def)
  moreover obtain z where "persist_audit_file disk_directory left (fst x) = (Ok u, z)" "fst w1 = z"
    using run by (auto simp: unheld_def split: prod.splits)
  then have "doc_audit (dk_documents (fst w1)) = Some left"
    using audit_doc.write_and_compare_Ok by (fastforce simp: persist_audit_file_def)
  ultimately show ?thesis by blast
qed

text \<open>What a capture returns when the audit file holds a pending record.\<close>

lemma retain_lock_shown: "retain_lock disk_directory w = (r, w') \<Longrightarrow> dk_documents (fst w') = dk_documents (fst w)"
  using io_withinD [OF disk_calls_same(3)]
  by (fastforce simp: retain_lock_def same_documents_def split: prod.splits result.splits)

lemma captured_audit_is_known:
  assumes "capture_irreversible_audit disk_directory requirement step w = (Ok a, w')"
    and "doc_audit (dk_documents (fst w)) = Some file" and "pending_irreversible_audit file step = Ok (Some audit)"
  shows "a = audit"
proof -
  obtain existing x y where
    load: "io_bind (unheld (load_audit_file disk_directory)) (\<lambda>file. io_check (pending_irreversible_audit file step)) x = (existing, y)"
    and shown: "dk_documents (fst x) = dk_documents (fst w)"
    and result: "existing = Ok None \<or> existing = Ok (Some a)"
  proof -
    obtain target where t: "irreversible_target step = Ok target"
      using assms(1) by (cases "irreversible_target step") (simp_all add: capture_irreversible_audit_def io_bind_def io_check_def)
    have never_ok: "io_bind m (\<lambda>_. io_fail e) y \<noteq> (Ok a, w')" for e y and m :: "('a work_disk held, string, unit) io"
      by (auto simp: io_bind_def io_fail_def split: prod.splits result.splits)
    define x where "x = (if requirement = ManualRecoveryAuditRequired then snd (retain_lock disk_directory w) else w)"
    have x: "dk_documents (fst x) = dk_documents (fst w)"
      using retain_lock_shown [of w, OF prod.collapse [symmetric]] by (simp add: x_def)
    have "io_match (io_bind (unheld (load_audit_file disk_directory))
          (\<lambda>file. io_check (pending_irreversible_audit file step))) (\<lambda>existing.
        case existing of
          Err e \<Rightarrow>
            io_bind (if requirement = ManualRecoveryAuditRequired then drop_lock disk_directory else io_ret ()) (\<lambda>_. io_fail e)
        | Ok (Some audit) \<Rightarrow> io_ret audit
        | Ok None \<Rightarrow>
            io_bind (unheld (io_call (wd_timestamp disk_directory))) (\<lambda>now.
            if requirement = ManualRecoveryAuditRequired then io_ret (IrrManual (manual_pending step now target))
            else if requirement = MixedRecovery then io_ret (IrrMixed (mixed_pending step now target))
            else io_fail ''irreversible audit recovery requirement changed during capture'')) x = (Ok a, w')"
      using assms(1) t
      by (auto simp: capture_irreversible_audit_def io_bind_def [of _ _ w] io_check_def [of _ w] io_call_def [of _ w]
          lock_is_held_def io_fail_def [of _ w] io_ret_def [of _ w] x_def split: if_splits prod.splits result.splits)
    then show thesis
      using that x never_ok by (fastforce simp: io_match_def io_ret_def split: prod.splits result.splits option.splits)
  qed
  obtain q z where q: "load_audit_file disk_directory (fst x) = (q, z)" by fastforce
  then obtain file' where f: "q = Ok file'" "pending_irreversible_audit file' step = existing"
    using load result by (cases q) (auto simp: io_bind_def unheld_def io_check_def)
  have "file' = file" using load_audit_Ok [OF q [unfolded f(1)]] shown assms(2) by simp
  then show ?thesis using f(2) result assms(3) by auto
qed

text \<open>C24: An irreversible mutation is resumed under the audit it left: once a pending audit was persisted, any
  capture for the same step on the same documents that returns gives that audit and no other, so that no second
  pending record comes to exist.\<close>

theorem pending_audit_is_resumed:
  assumes "persist_irreversible_audit disk_directory audit w = (Ok u, w1)"
    and "fst (pending_audit_identity audit) = step"
    and "dk_documents (fst w2) = dk_documents (fst w1)"
    and "capture_irreversible_audit disk_directory requirement step w2 = (Ok audit', w3)"
  shows "audit' = audit"
  using captured_audit_is_known [OF assms(4)] persisted_audit_shown [OF assms(1,2)] assms(3) by auto

definition demo_audit :: "unit irreversible_audit" where
  "demo_audit = IrrManual (manual_pending ''P1:13'' ''now'' AppxRemovals)"

definition demo_audit_disk :: "unit work_disk" where
  "demo_audit_disk =
     \<lparr>dk_documents =
        \<lparr>doc_state = None, doc_progress = None, doc_history = None, doc_backup = None, doc_audit = None, doc_evidence = None\<rparr>,
      dk_locked = True, dk_calls = 0, dk_fault = (\<lambda>_. None), dk_clock = (\<lambda>n. if n = 0 then ''now'' else ''later''),
      dk_entropy = (\<lambda>_. [])\<rparr>"

definition demo_audit_file :: "unit audit_file" where
  "demo_audit_file = \<lparr>audit_entries = [audit_entry demo_audit], audit_created = ''now'', audit_file_unknown = fmempty\<rparr>"

definition demo_audit_written :: "unit work_disk" where
  "demo_audit_written = demo_audit_disk
     \<lparr>dk_documents := (dk_documents demo_audit_disk)\<lparr>doc_audit := Some demo_audit_file\<rparr>, dk_calls := 3\<rparr>"

lemma demo_audit_facts:
  "pending_audit_identity demo_audit = (''P1:13'', ManualRecoveryAuditRequired)"
  "irreversible_valid_pending_for demo_audit ManualRecoveryAuditRequired ''P1:13''"
  "pending_irreversible_audit (demo_audit_file\<lparr>audit_entries := []\<rparr>) ''P1:13'' = Ok None"
  "pending_irreversible_audit demo_audit_file ''P1:13'' = Ok (Some demo_audit)"
  by (simp_all add: demo_audit_def manual_pending_def irreversible_valid_pending_for_def expected_manual_target_def
      P1_13_MANUAL_RECOVERY_TARGET_def pending_irreversible_audit_def demo_audit_file_def is_empty_map_def
      List.map_filter_def pending_for_def)

lemma demo_audit_loads:
  "load_audit_file disk_directory demo_audit_disk = (Ok (demo_audit_file\<lparr>audit_entries := []\<rparr>), demo_audit_disk\<lparr>dk_calls := 1\<rparr>)"
  "persist_audit_file disk_directory demo_audit_file (demo_audit_disk\<lparr>dk_calls := Suc 0\<rparr>) = (Ok (), demo_audit_written)"
  "\<exists>v. wd_lock disk_directory (wd_unlock disk_directory demo_audit_written) = (Ok (), v)
     \<and> (\<exists>v'. load_audit_file disk_directory v = (Ok demo_audit_file, v'))"
  by (simp_all add: load_audit_file_def persist_audit_file_def write_and_compare_def any_content_def io_bind_def io_ret_def
      io_map_err_def io_check_def io_call_def disk_directory_def disk_call_def Let_def demo_audit_disk_def
      demo_audit_file_def demo_audit_written_def)

lemma demo_audit_persisted:
  "persist_irreversible_audit disk_directory demo_audit (demo_audit_disk, True) = (Ok (), (demo_audit_written, True))"
proof -
  have e: "demo_audit_file\<lparr>audit_entries := [audit_entry demo_audit]\<rparr> = demo_audit_file" by (simp add: demo_audit_file_def)
  show ?thesis
    by (simp add: persist_irreversible_audit_def demo_audit_facts lock_is_held_def unheld_def demo_audit_loads e
        io_bind_def io_call_def io_check_def)
qed

lemma demo_audit_captured:
  "\<exists>a w. capture_irreversible_audit disk_directory ManualRecoveryAuditRequired ''P1:13''
     (wd_unlock disk_directory demo_audit_written, False) = (Ok a, w)"
  using demo_audit_loads(3)
  by (auto simp: capture_irreversible_audit_def irreversible_target_def lock_is_held_def retain_lock_def unheld_def
      io_bind_def io_call_def io_check_def io_match_def io_ret_def demo_audit_facts)

theorem pending_audit_is_resumed_witness:
  "\<exists>w3. persist_irreversible_audit disk_directory demo_audit (demo_audit_disk, True) = (Ok (), (demo_audit_written, True))
     \<and> capture_irreversible_audit disk_directory ManualRecoveryAuditRequired ''P1:13''
          (wd_unlock disk_directory demo_audit_written, False) = (Ok demo_audit, w3)"
proof -
  obtain a w3 where c: "capture_irreversible_audit disk_directory ManualRecoveryAuditRequired ''P1:13''
      (wd_unlock disk_directory demo_audit_written, False) = (Ok a, w3)"
    using demo_audit_captured by blast
  have "a = demo_audit"
    by (rule pending_audit_is_resumed [OF demo_audit_persisted _ _ c]) (simp_all add: demo_audit_facts disk_directory_def)
  then show ?thesis using demo_audit_persisted c by simp
qed

text \<open>
  The lock is not reentrant: as long as the backend retains it for a manual audit, every operation that takes
  the lock itself fails.  The removal and the installation of the driver (P2:2 and P3:1) are such operations,
  since they persist their transaction under the lock, and the engine runs them between the capture of the
  manual audit and its outcome.
\<close>

lemma manual_audit_holds_the_lock:
  assumes "capture_irreversible_audit disk_directory ManualRecoveryAuditRequired step w = (Ok audit, w1)"
  shows "\<exists>e w2. with_lock disk_directory m (fst w1) = (Err e, w2) \<and> dk_documents w2 = dk_documents (fst w1)"
proof -
  have keeps: "dk_locked v' = dk_locked v" if "load_audit_file disk_directory v = (r, v')" for r v v'
    using that
    by (auto simp: load_audit_file_def io_bind_def io_call_def io_map_err_def io_ret_def disk_directory_def disk_call_def
        Let_def split: if_splits option.splits disk_fault.splits)
  have clock: "dk_locked (snd (wd_timestamp disk_directory v)) = dk_locked v" for v :: "'a work_disk"
    by (simp add: disk_directory_def)
  have lock: "dk_locked v'" if "wd_lock disk_directory v = (Ok u, v')" for u and v v' :: "'a work_disk"
    using that by (auto simp: disk_directory_def disk_call_def Let_def split: if_splits option.splits disk_fault.splits)
  have "dk_locked (fst w1)"
    using assms
    by (auto simp: capture_irreversible_audit_def retain_lock_def lock_is_held_def unheld_def drop_lock_def io_bind_def
        io_match_def io_check_def io_call_def io_ret_def io_fail_def dest!: keeps lock
        split: if_splits prod.splits result.splits option.splits) (metis clock snd_conv)+
  then show ?thesis
    by (simp add: with_lock_def disk_directory_def disk_call_def Let_def io_bind_def
        split: option.splits disk_fault.splits)
qed

section \<open>Receipts of observations\<close>

lemma load_evidence_Ok:
  assumes "load_evidence_file disk_directory w = (Ok stored, w')"
  shows "dk_documents w' = dk_documents w"
    and "doc_evidence (dk_documents w) = Some stored \<or> doc_evidence (dk_documents w) = None \<and> ev_entries stored = []"
  using assms
  by (auto simp: load_evidence_file_def io_bind_def io_call_def io_map_err_def io_ret_def disk_directory_def disk_call_def
      Let_def split: if_splits option.splits disk_fault.splits)

lemma observation_for_empty: "ev_entries f = [] \<Longrightarrow> observation_for G f step = Ok None"
  by (simp add: observation_for_receipts)

text \<open>
  C40: A receipt that was persisted is the one that is found.  After a receipt was persisted, reading its step on
  the same documents returns exactly that receipt or fails; reading any other step returns what was stored for
  it before, and no other document of the work directory has changed.
\<close>

theorem persisted_observation_is_read_back:
  assumes "persist_observation_receipt G disk_directory receipt w = (Ok u, w1)"
    and "dk_documents w2 = dk_documents w1"
    and "load_observation_receipt G disk_directory step w2 = (Ok found, w3)"
  shows "(\<exists>stored. dk_documents w1 = (dk_documents w)\<lparr>doc_evidence := Some stored\<rparr>)
     \<and> (step = obs_step receipt \<longrightarrow> found = Some receipt)
     \<and> (step \<noteq> obs_step receipt \<longrightarrow>
          (case doc_evidence (dk_documents w) of
             None \<Rightarrow> found = None | Some before \<Rightarrow> observation_for G before step = Ok found))"
proof -
  obtain before v where before: "load_evidence_file disk_directory w = (Ok before, v)"
    and valid: "validate_for G receipt (obs_step receipt) = Ok ()"
    and tail: "io_bind (io_map_err (\<lambda>e. ''persist prerequisite evidence: '' @ e)
          (jf_write (wd_evidence disk_directory) (replace_observation receipt before))) (\<lambda>_.
        io_bind (io_map_err (\<lambda>e. ''read back prerequisite evidence: '' @ e) (jf_read (wd_evidence disk_directory))) (\<lambda>verified.
        if verified \<noteq> replace_observation receipt before
        then io_fail ''prerequisite evidence readback did not match the captured receipt''
        else
          io_bind (io_check (map_err (\<lambda>e. ''validate persisted prerequisite evidence: '' @ evidence_error_text e)
            (observation_for G verified (obs_step receipt)))) (\<lambda>found.
          if found \<noteq> Some receipt
          then io_fail ''prerequisite evidence readback did not match the captured receipt''
          else io_ret ()))) v = (Ok u, w1)"
    using assms(1)
    by (auto simp: persist_observation_receipt_def Let_def io_Ok guard_simps split: if_splits)
  obtain q v' where w: "jf_write (wd_evidence disk_directory) (replace_observation receipt before) v = (Ok q, v')"
    using tail by (auto simp: io_Ok)
  have "dk_documents w1 = dk_documents v'"
    using tail w evidence_doc.read_shown [of v']
    by (auto simp: io_bind_def io_map_err_def io_check_def io_ret_def io_fail_def split: if_splits prod.splits result.splits)
  then have d1: "dk_documents w1 = (dk_documents w)\<lparr>doc_evidence := Some (replace_observation receipt before)\<rparr>"
    using evidence_doc.write_law [OF w] load_evidence_Ok(1) [OF before] by simp
  obtain stored v2 where stored: "load_evidence_file disk_directory w2 = (Ok stored, v2)"
    and found: "observation_for G stored step = Ok found"
    using assms(3) by (auto simp: load_observation_receipt_def io_Ok guard_simps split: if_splits)
  have s: "stored = replace_observation receipt before" using load_evidence_Ok(2) [OF stored] d1 assms(2) by simp
  have "found = Some receipt" if "step = obs_step receipt"
    using found valid that by (simp add: s observation_for_replace_same)
  moreover have "case doc_evidence (dk_documents w) of None \<Rightarrow> found = None | Some b \<Rightarrow> observation_for G b step = Ok found"
    if "step \<noteq> obs_step receipt"
    using found load_evidence_Ok(2) [OF before] observation_for_replace_other [OF that, of G before] observation_for_empty [of before G step]
    by (auto simp: s split: option.splits)
  ultimately show ?thesis using d1 by blast
qed

definition demo_evidence_disk :: "unit work_disk" where
  "demo_evidence_disk =
     \<lparr>dk_documents =
        \<lparr>doc_state = None, doc_progress = None, doc_history = None, doc_backup = None, doc_audit = None, doc_evidence = None\<rparr>,
      dk_locked = False, dk_calls = 0, dk_fault = (\<lambda>_. None), dk_clock = (\<lambda>_. ''now''), dk_entropy = (\<lambda>_. [])\<rparr>"

lemma demo_observation_persists:
  assumes "validate_for G receipt (obs_step receipt) = Ok ()"
  shows "\<exists>w1. persist_observation_receipt G disk_directory receipt demo_evidence_disk = (Ok (), w1)
     \<and> (\<exists>found w3. load_observation_receipt G disk_directory (obs_step receipt) w1 = (Ok found, w3))"
  using assms
  by (auto simp: persist_observation_receipt_def load_observation_receipt_def load_evidence_file_def demo_evidence_disk_def
      observation_for_replace_same io_bind_def io_ret_def io_map_err_def io_check_def io_call_def disk_directory_def
      disk_call_def Let_def) (simp_all add: replace_observation_def is_empty_map_def)

theorem persisted_observation_is_read_back_witness:
  "\<exists>receipt w1 w3. persist_observation_receipt sample_digester disk_directory receipt demo_evidence_disk = (Ok (), w1)
     \<and> obs_subject receipt = MsiDeviceSet [sample_gpu]
     \<and> load_observation_receipt sample_digester disk_directory (obs_step receipt) w1 = (Ok (Some receipt), w3)"
proof -
  obtain receipt where new: "observation_receipt_new sample_digester ''2026-01-01T00:00:00Z'' None None
      (MsiDeviceSet [sample_gpu]) = Ok receipt"
    using sample_receipt_ok by (auto simp: is_ok_iff)
  note valid = observation_receipt_new_valid [OF new]
  then have "obs_step receipt = expected_step (MsiDeviceSet [sample_gpu])" by (simp add: validate_for_Ok)
  then have "validate_for sample_digester receipt (obs_step receipt) = Ok ()" using valid by (simp only:)
  from demo_observation_persists [OF this] obtain w1 found w3
    where p: "persist_observation_receipt sample_digester disk_directory receipt demo_evidence_disk = (Ok (), w1)"
      and l: "load_observation_receipt sample_digester disk_directory (obs_step receipt) w1 = (Ok found, w3)"
    by blast
  have "found = Some receipt" using persisted_observation_is_read_back [OF p refl l] by simp
  then show ?thesis using p l valid by blast
qed

end
