(* ===== verification/App_Benchmark.thy ===== *)
theory App_Benchmark
  imports Persistence Engine Orchestration
begin

text \<open>
  The benchmark commands of the application (\<open>crates/frametime-app/src/benchmark.rs\<close>, \<open>commands.rs\<close>,
  \<open>outcomes.rs\<close>): which source a capture is read from, which frame cap is selected, and what is persisted.
  The clipboard, the file and the regular expression of the parser are arguments.
\<close>

section \<open>Requests and outcomes\<close>

text \<open>
  \<open>ApplicationError\<close>.  A message that prints a value with \<open>Debug\<close> or \<open>Display\<close> is kept as that value;
  \<open>AppUnreachable\<close> stands for the panic of \<open>unreachable!\<close>.
\<close>

datatype (plugins only: code size) application_error =
    AppInvalid string
  | AppFailed string
  | AppRefused phase_request guard_error
  | AppUnresolved guard_error
  | AppEngine engine_error
  | AppMigrationPartial nat nat
  | AppMigrationRefused legacy_handoff
  | AppUnreachable string

datatype (plugins only: code size) fps_strategy_value = StrategyRaw | StrategyVrr

record fps_request =
  fq_average :: "f64 option"
  fq_text :: "string option"
  fq_file :: "string option"
  fq_clipboard :: bool
  fq_strategy :: fps_strategy_value
  fq_measured_cap :: u32
  fq_refresh_hz :: u32
  fq_ceiling_margin_hz :: u32
  fq_label :: string
  fq_copy :: bool
  fq_no_persist :: bool

record vprof_request =
  vq_text :: "string option"
  vq_file :: "string option"
  vq_clipboard :: bool

datatype (plugins only: code size) cap_label = LabelRawUncapped | LabelRawMeasured | LabelVrrCeiling

datatype (plugins only: code size) benchmark_persistence = Persisted | PersistenceDisabled | UnsupportedHost

record fps_cap_outcome =
  fo_cap :: u32
  fo_capture :: benchmark_capture
  fo_strategy :: cap_label
  fo_copied :: bool
  fo_persistence :: benchmark_persistence

record 'v benchmark_outcome =
  bo_capture :: benchmark_capture
  bo_receipt :: "'v final_benchmark_receipt option"

record ('w, 'v, 'p) benchmark_calls =
  bm_supported :: bool
  bm_read_file :: "string \<Rightarrow> ('w, string, string) io"
  bm_read_clipboard :: "('w, string, string) io"
  bm_write_clipboard :: "string \<Rightarrow> ('w, string, unit) io"
  bm_parse :: "string \<Rightarrow> benchmark_capture option"
  bm_authenticate :: "('w, string, 'p) io"
  bm_directory :: "('w, 'v) work_directory"

definition failing :: "('w, string, 'a) io \<Rightarrow> ('w, application_error, 'a) io" where
  "failing m = io_map_err AppFailed m"

definition authenticate_package :: "('w, string, 'p) io \<Rightarrow> ('w, application_error, 'p) io" where
  "authenticate_package m = io_map_err (\<lambda>e. AppFailed (''authenticated release package is required: '' @ e)) m"

section \<open>Sources\<close>

datatype (plugins only: code size) vprof_source = VprofText string | VprofFile string | VprofClipboard

fun select_vprof_source ::
  "string option \<Rightarrow> string option \<Rightarrow> bool \<Rightarrow> application_error \<Rightarrow> (vprof_source, application_error) result" where
  "select_vprof_source (Some value) None False _ = Ok (VprofText value)"
| "select_vprof_source None (Some path) False _ = Ok (VprofFile path)"
| "select_vprof_source None None True _ = Ok VprofClipboard"
| "select_vprof_source _ _ _ invalid = Err invalid"

fun invalid_vprof :: "vprof_source \<Rightarrow> string" where
  "invalid_vprof (VprofText _) = ''--vprof-text contains no valid VProf result''"
| "invalid_vprof (VprofFile _) = ''--vprof-file contains no valid VProf result''"
| "invalid_vprof VprofClipboard = ''clipboard contains no valid VProf result''"

fun vprof_text :: "('w, 'v, 'p) benchmark_calls \<Rightarrow> vprof_source \<Rightarrow> ('w, application_error, string) io" where
  "vprof_text C (VprofText value) = io_ret value"
| "vprof_text C (VprofFile path) = io_map_err (\<lambda>e. AppFailed (''read VProf file: '' @ e)) (bm_read_file C path)"
| "vprof_text C VprofClipboard = failing (bm_read_clipboard C)"

definition read_vprof_capture ::
  "('w, 'v, 'p) benchmark_calls \<Rightarrow> vprof_source \<Rightarrow> ('w, application_error, benchmark_capture) io" where
  "read_vprof_capture C source =
     io_bind (vprof_text C source) (\<lambda>value. io_check (ok_or (AppInvalid (invalid_vprof source)) (bm_parse C value)))"

definition fps_vprof_source_error :: application_error where
  "fps_vprof_source_error =
     AppInvalid ''provide exactly one of AVERAGE_FPS, --vprof-text, --vprof-file, or --clipboard''"

definition read_fps_capture ::
  "('w, 'v, 'p) benchmark_calls \<Rightarrow> fps_request \<Rightarrow> ('w, application_error, benchmark_capture) io" where
  "read_fps_capture C q =
     (case fq_average q of
        Some value \<Rightarrow>
          if fq_text q = None \<and> fq_file q = None \<and> \<not> fq_clipboard q
          then io_ret \<lparr>average_fps = value, capture_p1_fps = f64_zero, capture_runs = 1\<rparr>
          else io_fail fps_vprof_source_error
      | None \<Rightarrow>
          io_bind (io_check (select_vprof_source (fq_text q) (fq_file q) (fq_clipboard q) fps_vprof_source_error))
            (\<lambda>source. read_vprof_capture C source))"

definition validate_complete_vprof_capture ::
  "benchmark_capture \<Rightarrow> string \<Rightarrow> (benchmark_capture, application_error) result" where
  "validate_complete_vprof_capture c command =
     (if is_finite (average_fps c) \<and> f64_lt f64_zero (average_fps c)
         \<and> is_finite (capture_p1_fps c) \<and> f64_lt f64_zero (capture_p1_fps c)
         \<and> f64_le (capture_p1_fps c) (average_fps c) \<and> 0 < capture_runs c
      then Ok c
      else Err (AppInvalid (command @ '' requires complete VProf Avg > 0, P1 > 0, and runs > 0'')))"

definition only_on_windows :: "string \<Rightarrow> application_error" where
  "only_on_windows command = AppFailed (command @ '' is only supported on Windows; no artifacts were written'')"

definition require_windows_benchmark_host ::
  "('w, 'v, 'p) benchmark_calls \<Rightarrow> string \<Rightarrow> (unit, application_error) result" where
  "require_windows_benchmark_host C command = ensure (bm_supported C) (only_on_windows command)"

definition read_complete_vprof_capture ::
  "('w, 'v, 'p) benchmark_calls \<Rightarrow> vprof_request \<Rightarrow> string \<Rightarrow> ('w, application_error, benchmark_capture) io" where
  "read_complete_vprof_capture C q command =
     (if vq_clipboard q \<and> \<not> bm_supported C then io_fail (only_on_windows command)
      else
        io_bind (io_check (select_vprof_source (vq_text q) (vq_file q) (vq_clipboard q)
          (AppInvalid (command @ '': provide exactly one of --vprof-text, --vprof-file, or --clipboard'')))) (\<lambda>source.
        io_bind (read_vprof_capture C source) (\<lambda>c.
        io_check (validate_complete_vprof_capture c command))))"

section \<open>The commands\<close>

definition cap_in_range :: "u32 \<Rightarrow> bool" where
  "cap_in_range v \<longleftrightarrow> 30 \<le> v \<and> v \<le> 1000"

definition requested_strategy :: "fps_request \<Rightarrow> (fps_cap_strategy, application_error) result" where
  "requested_strategy q =
     (case fq_strategy q of
        StrategyRaw \<Rightarrow>
          if fq_measured_cap q = 0 then Ok (RawLatency None)
          else if cap_in_range (fq_measured_cap q) then Ok (RawLatency (Some (fq_measured_cap q)))
          else Err (AppInvalid ''--measured-cap must be zero (uncapped) or between 30 and 1000'')
      | StrategyVrr \<Rightarrow>
          if cap_in_range (fq_refresh_hz q) \<and> 0 < fq_ceiling_margin_hz q \<and> fq_ceiling_margin_hz q < fq_refresh_hz q
          then Ok (Vrr (fq_refresh_hz q) (fq_ceiling_margin_hz q))
          else Err (AppInvalid ''VRR requires --refresh-hz between 30 and 1000 and a positive --ceiling-margin-hz below refresh''))"

definition run_fps_cap ::
  "('w, 'v, 'p) benchmark_calls \<Rightarrow> fps_request \<Rightarrow> ('w, application_error, fps_cap_outcome) io" where
  "run_fps_cap C q =
     io_bind (read_fps_capture C q) (\<lambda>c.
     io_bind (io_check (requested_strategy q)) (\<lambda>strategy.
     io_bind (io_check (ok_or (AppInvalid ''capture P1 FPS does not sustain the selected measured or VRR cap'')
       (measured_fps_cap strategy c))) (\<lambda>cap.
     let label = (if cap = 0 then LabelRawUncapped
                  else if fq_strategy q = StrategyVrr then LabelVrrCeiling else LabelRawMeasured) in
     io_bind (if bm_supported C \<and> (fq_copy q \<or> \<not> fq_no_persist q)
              then io_bind (authenticate_package (bm_authenticate C)) (\<lambda>package. io_ret (Some package))
              else io_ret None) (\<lambda>package.
     io_bind (if fq_copy q then failing (bm_write_clipboard C (dec (unat cap))) else io_ret ()) (\<lambda>_.
     io_bind
       (if bm_supported C \<and> \<not> fq_no_persist q
        then io_bind (io_check (ok_or (AppFailed ''FPS persistence lost package authority'') package)) (\<lambda>_.
          io_bind (failing (persist_fps_capture (bm_directory C) cap c (fq_label q))) (\<lambda>_. io_ret Persisted))
        else io_ret (if fq_no_persist q then PersistenceDisabled else UnsupportedHost)) (\<lambda>persistence.
     io_ret \<lparr>fo_cap = cap, fo_capture = c, fo_strategy = label, fo_copied = fq_copy q,
             fo_persistence = persistence\<rparr>))))))"

definition run_baseline_benchmark ::
  "('w, 'v, 'p) benchmark_calls \<Rightarrow> vprof_request \<Rightarrow> ('w, application_error, 'v benchmark_outcome) io" where
  "run_baseline_benchmark C q =
     io_bind (read_complete_vprof_capture C q ''baseline-benchmark'') (\<lambda>c.
     io_bind (io_check (require_windows_benchmark_host C ''baseline-benchmark'')) (\<lambda>_.
     io_bind (authenticate_package (bm_authenticate C)) (\<lambda>_.
     io_bind (failing (persist_baseline_benchmark (bm_directory C) c)) (\<lambda>_.
     io_ret \<lparr>bo_capture = c, bo_receipt = None\<rparr>))))"

definition read_final_benchmark_capture ::
  "('w, 'v, 'p) benchmark_calls \<Rightarrow> vprof_request \<Rightarrow> ('w, application_error, benchmark_capture) io" where
  "read_final_benchmark_capture C q =
     io_bind (read_complete_vprof_capture C q ''final-benchmark'') (\<lambda>c.
     io_bind (io_check (require_windows_benchmark_host C ''final-benchmark'')) (\<lambda>_. io_ret c))"

text \<open>The configuration is that of the runtime that was verified.\<close>

definition persist_final_benchmark_capture ::
  "('w, 'v, 'p) benchmark_calls \<Rightarrow> config \<Rightarrow> benchmark_capture
     \<Rightarrow> ('w, application_error, 'v benchmark_outcome) io" where
  "persist_final_benchmark_capture C cfg c =
     io_bind (failing (persist_final_benchmark (bm_directory C) cfg c)) (\<lambda>receipt.
     io_ret \<lparr>bo_capture = c, bo_receipt = Some receipt\<rparr>)"

section \<open>What can be persisted\<close>

lemma persisted_cap_is_positive:
  "persist_fps_capture D cap c label w = (Ok s, w') \<Longrightarrow> cap \<noteq> 0"
  by (auto simp: persist_fps_capture_def io_Ok invalid_fps_capture_def)

text \<open>
  C21: The uncapped choice is the default of the command, and a frame cap of zero is what it selects; on
  Windows, unless persistence is switched off, the command then always fails, because what it persists must
  have a positive cap.
\<close>

theorem uncapped_choice_is_never_persisted:
  assumes "bm_supported C" and "\<not> fq_no_persist q" and "fq_strategy q = StrategyRaw" and "fq_measured_cap q = 0"
  shows "\<not> is_ok (fst (run_fps_cap C q w))"
proof
  assume "is_ok (fst (run_fps_cap C q w))"
  then obtain outcome w' where "run_fps_cap C q w = (Ok outcome, w')"
    by (metis is_ok_iff prod.collapse)
  then show False
    using assms by (auto simp: run_fps_cap_def io_Ok requested_strategy_def Let_def ok_or_def failing_def
        dest: persisted_cap_is_positive split: if_splits)
qed

definition sample_fps_request :: fps_request where
  "sample_fps_request =
     \<lparr>fq_average = Some (Finite 240), fq_text = None, fq_file = None, fq_clipboard = False,
      fq_strategy = StrategyRaw, fq_measured_cap = 0, fq_refresh_hz = 0, fq_ceiling_margin_hz = 3,
      fq_label = ''Manual benchmark'', fq_copy = False, fq_no_persist = False\<rparr>"

definition sample_benchmark_calls :: "(unit work_disk, unit, unit) benchmark_calls" where
  "sample_benchmark_calls =
     \<lparr>bm_supported = True, bm_read_file = \<lambda>_. io_fail ''absent'', bm_read_clipboard = io_fail ''empty'',
      bm_write_clipboard = \<lambda>_. io_ret (), bm_parse = \<lambda>_. None, bm_authenticate = io_ret (),
      bm_directory = disk_directory\<rparr>"

theorem uncapped_choice_is_never_persisted_witness:
  "\<forall>w. \<not> is_ok (fst (run_fps_cap sample_benchmark_calls sample_fps_request w))"
  by (rule allI, rule uncapped_choice_is_never_persisted)
    (simp_all add: sample_benchmark_calls_def sample_fps_request_def)

end
