(* ===== verification/Engine_Trace.thy ===== *)
theory Engine_Trace
  imports Engine
begin

text \<open>
  What a run does to its backend, in order.  \<open>recording B\<close> behaves as \<open>B\<close> and appends every call
  with its answer to a log; the lemmas describe the calls of each function of the engine, so that
  the properties of a run are statements about its log.
\<close>

section \<open>Recording\<close>

datatype (plugins only: code size) 'v call_record =
    CallInspect operation "(inspection, string) result"
  | CallPlan operation "(string list, string) result"
  | CallCaptureBackups operation "('v backup_entry list, string) result"
  | CallPersistBackups "'v backup_entry list" "(unit, string) result"
  | CallCaptureAudit operation "('v rebuildable_audit, string) result"
  | CallPersistAudit "'v rebuildable_audit" "(unit, string) result"
  | CallFinalizeAudit "'v rebuildable_audit" "(unit, string) result"
  | CallCaptureIrreversible operation "('v irreversible_audit, string) result"
  | CallPersistIrreversible "'v irreversible_audit" "(unit, string) result"
  | CallFinalizeIrreversible "'v irreversible_audit" "(unit, string) result"
  | CallFailIrreversible "'v irreversible_audit" "(unit, string) result"
  | CallCaptureEvidence operation "('v observation_receipt, string) result"
  | CallPersistEvidence "'v observation_receipt" "(unit, string) result"
  | CallVerifyEvidence operation "'v observation_receipt" "(unit, string) result"
  | CallApply operation "(unit, string) result"
  | CallVerify operation "(unit, string) result"
  | CallPersistProgress "'v progress" "(unit, string) result"

definition recorded ::
  "(('a, string) result \<Rightarrow> 'v call_record) \<Rightarrow> ('b, 'a) backend_call \<Rightarrow> ('b \<times> 'v call_record list, 'a) backend_call" where
  "recorded f m = (\<lambda>(b, log). let (r, b') = m b in (r, (b', log @ [f r])))"

definition recording :: "('b, 'v) backend \<Rightarrow> ('b \<times> 'v call_record list, 'v) backend" where
  "recording B =
     \<lparr>is_dry_run = \<lambda>b. is_dry_run B (fst b),
      inspect = \<lambda>o'. recorded (CallInspect o') (inspect B o'),
      plan = \<lambda>o'. recorded (CallPlan o') (plan B o'),
      capture_backups = \<lambda>o'. recorded (CallCaptureBackups o') (capture_backups B o'),
      persist_backups = \<lambda>es. recorded (CallPersistBackups es) (persist_backups B es),
      recovery_requirement_of = \<lambda>o' b. recovery_requirement_of B o' (fst b),
      capture_pending_audit = \<lambda>o'. recorded (CallCaptureAudit o') (capture_pending_audit B o'),
      persist_pending_audit = \<lambda>a. recorded (CallPersistAudit a) (persist_pending_audit B a),
      finalize_audit = \<lambda>a. recorded (CallFinalizeAudit a) (finalize_audit B a),
      capture_pending_irreversible_audit =
        \<lambda>o'. recorded (CallCaptureIrreversible o') (capture_pending_irreversible_audit B o'),
      persist_pending_irreversible_audit =
        \<lambda>a. recorded (CallPersistIrreversible a) (persist_pending_irreversible_audit B a),
      finalize_irreversible_audit =
        \<lambda>a. recorded (CallFinalizeIrreversible a) (finalize_irreversible_audit B a),
      fail_irreversible_audit =
        \<lambda>a. recorded (CallFailIrreversible a) (fail_irreversible_audit B a),
      evidence_requirement_of = \<lambda>o' b. evidence_requirement_of B o' (fst b),
      capture_evidence = \<lambda>o'. recorded (CallCaptureEvidence o') (capture_evidence B o'),
      persist_evidence = \<lambda>r. recorded (CallPersistEvidence r) (persist_evidence B r),
      verify_evidence = \<lambda>o' r. recorded (CallVerifyEvidence o' r) (verify_evidence B o' r),
      apply_operation = \<lambda>o'. recorded (CallApply o') (apply_operation B o'),
      verify_operation = \<lambda>o'. recorded (CallVerify o') (verify_operation B o'),
      persist_progress = \<lambda>p. recorded (CallPersistProgress p) (persist_progress B p),
      timestamp_of = \<lambda>b. timestamp_of B (fst b)\<rparr>"

lemma recording_simps [simp]:
  "is_dry_run (recording B) b = is_dry_run B (fst b)"
  "inspect (recording B) op = recorded (CallInspect op) (inspect B op)"
  "plan (recording B) op = recorded (CallPlan op) (plan B op)"
  "capture_backups (recording B) op = recorded (CallCaptureBackups op) (capture_backups B op)"
  "persist_backups (recording B) es = recorded (CallPersistBackups es) (persist_backups B es)"
  "recovery_requirement_of (recording B) op b = recovery_requirement_of B op (fst b)"
  "capture_pending_audit (recording B) op =
     recorded (CallCaptureAudit op) (capture_pending_audit B op)"
  "persist_pending_audit (recording B) a =
     recorded (CallPersistAudit a) (persist_pending_audit B a)"
  "finalize_audit (recording B) a = recorded (CallFinalizeAudit a) (finalize_audit B a)"
  "capture_pending_irreversible_audit (recording B) op =
     recorded (CallCaptureIrreversible op) (capture_pending_irreversible_audit B op)"
  "persist_pending_irreversible_audit (recording B) i =
     recorded (CallPersistIrreversible i) (persist_pending_irreversible_audit B i)"
  "finalize_irreversible_audit (recording B) i =
     recorded (CallFinalizeIrreversible i) (finalize_irreversible_audit B i)"
  "fail_irreversible_audit (recording B) i =
     recorded (CallFailIrreversible i) (fail_irreversible_audit B i)"
  "evidence_requirement_of (recording B) op b = evidence_requirement_of B op (fst b)"
  "capture_evidence (recording B) op = recorded (CallCaptureEvidence op) (capture_evidence B op)"
  "persist_evidence (recording B) r = recorded (CallPersistEvidence r) (persist_evidence B r)"
  "verify_evidence (recording B) op r =
     recorded (CallVerifyEvidence op r) (verify_evidence B op r)"
  "apply_operation (recording B) op = recorded (CallApply op) (apply_operation B op)"
  "verify_operation (recording B) op = recorded (CallVerify op) (verify_operation B op)"
  "persist_progress (recording B) p = recorded (CallPersistProgress p) (persist_progress B p)"
  "timestamp_of (recording B) b = timestamp_of B (fst b)"
  by (simp_all add: recording_def)

section \<open>Recording does not change a run\<close>

definition unrecorded :: "('b \<times> 'l, 'v, 'c) run_state \<Rightarrow> ('b, 'v, 'c) run_state" where
  "unrecorded s =
     \<lparr>rs_backend = fst (rs_backend s), rs_progress = rs_progress s, rs_report = rs_report s,
      rs_control = rs_control s\<rparr>"

definition same_run ::
  "('b \<times> 'l, 'v, 'c, 'a) action \<Rightarrow> ('b, 'v, 'c, 'a) action \<Rightarrow> bool" where
  "same_run m n \<longleftrightarrow> (\<forall>s. map_prod id unrecorded (m s) = n (unrecorded s))"

named_theorems same_run_intros

lemma unrecorded_simps [simp]:
  "rs_backend (unrecorded s) = fst (rs_backend s)"
  "rs_progress (unrecorded s) = rs_progress s"
  "rs_report (unrecorded s) = rs_report s"
  "rs_control (unrecorded s) = rs_control s"
  "unrecorded (s\<lparr>rs_progress := p\<rparr>) = (unrecorded s)\<lparr>rs_progress := p\<rparr>"
  "unrecorded (s\<lparr>rs_report := r\<rparr>) = (unrecorded s)\<lparr>rs_report := r\<rparr>"
  "unrecorded (s\<lparr>rs_control := c\<rparr>) = (unrecorded s)\<lparr>rs_control := c\<rparr>"
  by (simp_all add: unrecorded_def)

lemma same_run_seq [same_run_intros]:
  assumes "same_run m m'" and "\<And>x. same_run (f x) (f' x)"
  shows "same_run (seq m f) (seq m' f')"
  unfolding same_run_def
proof
  fix s
  obtain r t where ms: "m s = (r, t)" by (cases "m s")
  with assms(1) have "m' (unrecorded s) = (r, unrecorded t)"
    by (metis same_run_def map_prod_simp id_apply)
  with ms assms(2) show "map_prod id unrecorded (seq m f s) = seq m' f' (unrecorded s)"
    by (cases r) (simp_all add: seq_def same_run_def)
qed

lemma same_run_catch [same_run_intros]:
  assumes "same_run m m'" and "\<And>e. same_run (h e) (h' e)"
  shows "same_run (catch m h) (catch m' h')"
  unfolding same_run_def
proof
  fix s
  obtain r t where ms: "m s = (r, t)" by (cases "m s")
  with assms(1) have "m' (unrecorded s) = (r, unrecorded t)"
    by (metis same_run_def map_prod_simp id_apply)
  with ms assms(2) show "map_prod id unrecorded (catch m h s) = catch m' h' (unrecorded s)"
    by (cases r) (simp_all add: catch_def same_run_def)
qed

lemma same_run_call [same_run_intros]: "same_run (call (recorded f m) e) (call m e)"
  by (auto simp: same_run_def call_def recorded_def unrecorded_def Let_def split: prod.splits)

lemma same_run_basic [same_run_intros]:
  "same_run (ret x) (ret x)" "same_run (fail e) (fail e)" "same_run (push v) (push v)"
  "same_run count_completed count_completed" "same_run count_skipped count_skipped"
  "same_run count_advisory count_advisory" "same_run count_failed count_failed"
  "same_run (ask q) (ask q)" "same_run (set_progress p) (set_progress p)"
  by (auto simp: same_run_def action_defs Let_def split: prod.splits)

lemma same_run_get [same_run_intros]:
  "(\<And>s. f s = f' (unrecorded s)) \<Longrightarrow> same_run (get f) (get f')"
  by (auto simp: same_run_def get_def)

lemma same_run_if [same_run_intros]:
  "same_run m m' \<Longrightarrow> same_run n n' \<Longrightarrow> same_run (if c then m else n) (if c then m' else n')"
  by simp

lemma same_run_push_plan [same_run_intros]: "same_run (push_plan ls) (push_plan ls)"
  by (induction ls) (auto intro: same_run_intros)

lemma same_run_commit_progress [same_run_intros]:
  assumes "\<And>b p. f b p = f' (fst b) p"
  shows "same_run (commit_progress (recording B) k f) (commit_progress B k f')"
  unfolding commit_progress_def recording_simps by (intro same_run_intros) (simp add: assms)

lemma same_run_record_advisory [same_run_intros]:
  "same_run (record_advisory (recording B) st k reason) (record_advisory B st k reason)"
  unfolding record_advisory_def recording_simps by (intro same_run_intros; simp)

lemma same_run_record_skip [same_run_intros]:
  "same_run (record_skip (recording B) st k persist) (record_skip B st k persist)"
  unfolding record_skip_def recording_simps by (intro same_run_intros; simp)

lemma same_run_complete_live_step [same_run_intros]:
  "same_run (complete_live_step (recording B) st k) (complete_live_step B st k)"
  unfolding complete_live_step_def recording_simps by (intro same_run_intros; simp)

lemma same_run_apply_and_verify [same_run_intros]:
  "same_run (apply_and_verify (recording B) operation k) (apply_and_verify B operation k)"
  unfolding apply_and_verify_def recording_simps by (intro same_run_intros; simp)

lemma same_run_capture_lossless_backups [same_run_intros]:
  "same_run (capture_lossless_backups (recording B) operation k) (capture_lossless_backups B operation k)"
  unfolding capture_lossless_backups_def recording_simps by (intro same_run_intros; simp)

lemma same_run_run_lossless_operation [same_run_intros]:
  "same_run (run_lossless_operation (recording B) operation k) (run_lossless_operation B operation k)"
  unfolding run_lossless_operation_def recording_simps by (intro same_run_intros; simp)

lemma same_run_evidence_check [same_run_intros]:
  "same_run (case r of Ok x \<Rightarrow> ret () | Err e \<Rightarrow> fail (f e)) (case r of Ok x \<Rightarrow> ret () | Err e \<Rightarrow> fail (f e))"
  by (cases r) (auto intro: same_run_intros)

lemma same_run_run_evidence_operation [same_run_intros]:
  "same_run (run_evidence_operation D (recording B) operation k) (run_evidence_operation D B operation k)"
  unfolding run_evidence_operation_def recording_simps by (intro same_run_intros; simp)

lemma same_run_run_rebuildable_operation [same_run_intros]:
  "same_run (run_rebuildable_operation (recording B) operation k) (run_rebuildable_operation B operation k)"
  unfolding run_rebuildable_operation_def recording_simps by (intro same_run_intros; simp)

lemma same_run_on_apply_error [same_run_intros]:
  "same_run (on_apply_error (recording B) k audit error) (on_apply_error B k audit error)"
  unfolding on_apply_error_def recording_simps by (intro same_run_intros; simp)

lemma same_run_run_pending_irreversible_audit [same_run_intros]:
  "same_run (run_pending_irreversible_audit (recording B) operation k requirement) (run_pending_irreversible_audit B operation k requirement)"
  unfolding run_pending_irreversible_audit_def recording_simps by (intro same_run_intros; simp)

lemma same_run_run_irreversible_operation [same_run_intros]:
  "same_run (run_irreversible_operation (recording B) operation k) (run_irreversible_operation B operation k)"
  unfolding run_irreversible_operation_def recording_simps by (intro same_run_intros; simp)

lemma same_run_run_verification [same_run_intros]:
  "same_run (run_verification D (recording B) operation k) (run_verification D B operation k)"
  unfolding run_verification_def recording_simps by (intro same_run_intros; simp)

lemma same_run_run_mutation [same_run_intros]:
  "same_run (run_mutation (recording B) operation k) (run_mutation B operation k)"
  unfolding run_mutation_def recording_simps
  by (intro same_run_intros) (auto intro: same_run_intros split: recovery_requirement.splits)

lemma same_run_run_live_step [same_run_intros]:
  "same_run (run_live_step D (recording B) operation k i) (run_live_step D B operation k i)"
  unfolding run_live_step_def Let_def
  by (cases i) (auto intro!: same_run_intros)

lemma same_run_report_dry_run [same_run_intros]:
  "same_run (report_dry_run (recording B) operation k i) (report_dry_run B operation k i)"
  unfolding report_dry_run_def recording_simps
  by (cases i) (auto intro!: same_run_intros)

lemma same_run_skip_recorded_or_cancelled [same_run_intros]:
  "same_run (skip_recorded_or_cancelled (recording B) K k) (skip_recorded_or_cancelled B K k)"
  unfolding skip_recorded_or_cancelled_def recording_simps by (intro same_run_intros; simp)

lemma same_run_should_skip_for_policy [same_run_intros]:
  "same_run (should_skip_for_policy (recording B) K st pr) (should_skip_for_policy B K st pr)"
  unfolding should_skip_for_policy_def recording_simps
  by (cases "decision pr (tier st) (step_risk st)") (auto intro!: same_run_intros)

lemma same_run_run_step [same_run_intros]:
  "same_run (run_step D (recording B) K pr st) (run_step D B K pr st)"
  unfolding run_step_def recording_simps Let_def by (intro same_run_intros; simp)

lemma same_run_steps: "same_run (run_steps D (recording B) K pr sts) (run_steps D B K pr sts)"
  by (induction sts) (auto intro: same_run_intros)

section \<open>Guarded logs\<close>

text \<open>
  \<open>secured op h\<close>: the log ends (its last call is the head of \<open>h\<close>) with the capture and the
  accepted persistence of the recovery record of \<open>op\<close>.
\<close>

definition lossless_secured :: "operation \<Rightarrow> 'v call_record list \<Rightarrow> bool" where
  "lossless_secured op h \<longleftrightarrow>
     (case h of
        CallPersistBackups es (Ok _) # CallCaptureBackups op' (Ok es') # _ \<Rightarrow>
          op' = op \<and> es' = es \<and> es \<noteq> []
      | _ \<Rightarrow> False)"

definition audit_secured :: "operation \<Rightarrow> 'v call_record list \<Rightarrow> bool" where
  "audit_secured op h \<longleftrightarrow>
     (case h of
        CallPersistAudit a (Ok _) # CallCaptureAudit op' (Ok a') # _ \<Rightarrow>
          op' = op \<and> a' = a
          \<and> rebuildable_valid_pending_for a (progress_key (step_ident (op_step op)))
      | _ \<Rightarrow> False)"

definition irreversible_secured :: "operation \<Rightarrow> 'v call_record list \<Rightarrow> bool" where
  "irreversible_secured op h \<longleftrightarrow>
     (case h of
        CallPersistIrreversible a (Ok _) # CallCaptureIrreversible op' (Ok a') # h' \<Rightarrow>
          op' = op \<and> a' = a
          \<and> (irreversible_valid_pending_for a ManualRecoveryAuditRequired
                (progress_key (step_ident (op_step op)))
              \<or> irreversible_valid_pending_for a MixedRecovery
                  (progress_key (step_ident (op_step op)))
                \<and> lossless_secured op h')
      | _ \<Rightarrow> False)"

definition secured :: "operation \<Rightarrow> 'v call_record list \<Rightarrow> bool" where
  "secured op h \<longleftrightarrow> lossless_secured op h \<or> audit_secured op h \<or> irreversible_secured op h"

fun guarded_from :: "'v call_record list \<Rightarrow> 'v call_record list \<Rightarrow> bool" where
  "guarded_from h [] \<longleftrightarrow> True"
| "guarded_from h (c # l) \<longleftrightarrow>
     (case c of CallApply op _ \<Rightarrow> secured op h | _ \<Rightarrow> True) \<and> guarded_from (c # h) l"

lemma lossless_secured_iff:
  "lossless_secured op h \<longleftrightarrow>
     (\<exists>es h'. h = CallPersistBackups es (Ok ()) # CallCaptureBackups op (Ok es) # h' \<and> es \<noteq> [])"
  by (auto simp: lossless_secured_def split: list.splits call_record.splits result.splits)

lemma audit_secured_iff:
  "audit_secured op h \<longleftrightarrow>
     (\<exists>a h'. h = CallPersistAudit a (Ok ()) # CallCaptureAudit op (Ok a) # h'
       \<and> rebuildable_valid_pending_for a (progress_key (step_ident (op_step op))))"
  by (auto simp: audit_secured_def split: list.splits call_record.splits result.splits)

lemma irreversible_secured_iff:
  "irreversible_secured op h \<longleftrightarrow>
     (\<exists>a h'. h = CallPersistIrreversible a (Ok ()) # CallCaptureIrreversible op (Ok a) # h'
       \<and> (irreversible_valid_pending_for a ManualRecoveryAuditRequired
             (progress_key (step_ident (op_step op)))
           \<or> irreversible_valid_pending_for a MixedRecovery (progress_key (step_ident (op_step op)))
             \<and> lossless_secured op h'))"
  by (auto simp: irreversible_secured_def split: list.splits call_record.splits result.splits)

lemmas secured_iffs = secured_def lossless_secured_iff audit_secured_iff irreversible_secured_iff

lemma secured_append: "secured op h \<Longrightarrow> secured op (h @ g)"
  by (auto simp: secured_iffs)

lemma guarded_from_weaken: "guarded_from h l \<Longrightarrow> guarded_from (h @ g) l"
proof (induction l arbitrary: h)
  case (Cons c l)
  then show ?case
    using Cons.IH [of "c # h"] by (auto simp: secured_append split: call_record.splits)
qed simp

lemma guarded_from_append [simp]:
  "guarded_from h (l @ m) \<longleftrightarrow> guarded_from h l \<and> guarded_from (rev l @ h) m"
  by (induction l arbitrary: h) auto

lemma guarded_append: "guarded_from [] l \<Longrightarrow> guarded_from [] m \<Longrightarrow> guarded_from [] (l @ m)"
  using guarded_from_weaken [of "[]" m "rev l"] by simp

lemma guarded_from_iff:
  "guarded_from h l \<longleftrightarrow> (\<forall>pre op r post. l = pre @ CallApply op r # post \<longrightarrow> secured op (rev pre @ h))"
proof (induction l arbitrary: h)
  case Nil
  then show ?case by simp
next
  case (Cons c l)
  show ?case
  proof
    assume g: "guarded_from h (c # l)"
    show "\<forall>pre op r post. c # l = pre @ CallApply op r # post \<longrightarrow> secured op (rev pre @ h)"
    proof (intro allI impI)
      fix pre op r post
      assume eq: "c # l = pre @ CallApply op r # post"
      show "secured op (rev pre @ h)"
      proof (cases pre)
        case Nil
        with eq g show ?thesis by auto
      next
        case (Cons d pre')
        with eq g Cons.IH [of "c # h"] show ?thesis by auto
      qed
    qed
  next
    assume all: "\<forall>pre op r post. c # l = pre @ CallApply op r # post \<longrightarrow> secured op (rev pre @ h)"
    have "guarded_from (c # h) l"
      unfolding Cons.IH
    proof (intro allI impI)
      fix pre op r post
      assume "l = pre @ CallApply op r # post"
      with all [rule_format, of "c # pre" op r post] show "secured op (rev pre @ c # h)" by simp
    qed
    moreover have "secured op h" if "c = CallApply op r" for op r
      using all [rule_format, of "[]" op r l] that by simp
    ultimately show "guarded_from h (c # l)" by (auto split: call_record.splits)
  qed
qed

section \<open>Calls and progress\<close>

text \<open>The progress document the backend last accepted, starting from \<open>p\<close>.\<close>

definition accept_progress :: "'v call_record \<Rightarrow> 'v progress \<Rightarrow> 'v progress" where
  "accept_progress c p = (case c of CallPersistProgress q (Ok _) \<Rightarrow> q | _ \<Rightarrow> p)"

definition last_persisted :: "'v progress \<Rightarrow> 'v call_record list \<Rightarrow> 'v progress" where
  "last_persisted p l = fold accept_progress l p"

definition persists_progress :: "'v call_record \<Rightarrow> bool" where
  "persists_progress c = (case c of CallPersistProgress q r \<Rightarrow> True | _ \<Rightarrow> False)"

definition mutates_machine :: "'v call_record \<Rightarrow> bool" where
  "mutates_machine c = (case c of CallInspect _ _ \<Rightarrow> False | CallPlan _ _ \<Rightarrow> False | _ \<Rightarrow> True)"

lemma last_persisted_simps [simp]:
  "last_persisted p [] = p"
  "last_persisted p (c # l) = last_persisted (accept_progress c p) l"
  "last_persisted p (l @ m) = last_persisted (last_persisted p l) m"
  by (simp_all add: last_persisted_def)

lemma last_persisted_none: "\<forall>c\<in>set l. \<not> persists_progress c \<Longrightarrow> last_persisted p l = p"
  by (induction l arbitrary: p)
    (auto simp: accept_progress_def persists_progress_def split: call_record.splits)

section \<open>The calls of each function\<close>

definition log_of :: "('b \<times> 'l, 'v, 'c) run_state \<Rightarrow> 'l" where
  "log_of s = snd (rs_backend s)"

definition post ::
  "('b, 'v, 'c, 'a) action \<Rightarrow> ('b, 'v, 'c) run_state
   \<Rightarrow> (('a, engine_error) result \<Rightarrow> ('b, 'v, 'c) run_state \<Rightarrow> bool) \<Rightarrow> bool" where
  "post m s Q \<longleftrightarrow> (case m s of (r, s') \<Rightarrow> Q r s')"

lemma post_mono: "post m s Q \<Longrightarrow> (\<And>r s'. Q r s' \<Longrightarrow> R r s') \<Longrightarrow> post m s R"
  by (auto simp: post_def)

lemma post_seq [simp]:
  "post (seq m f) s Q \<longleftrightarrow>
     post m s (\<lambda>r s'. case r of Ok x \<Rightarrow> post (f x) s' Q | Err e \<Rightarrow> Q (Err e) s')"
  by (auto simp: post_def seq_def split: prod.splits result.splits)

lemma post_catch [simp]:
  "post (catch m h) s Q \<longleftrightarrow>
     post m s (\<lambda>r s'. case r of Ok x \<Rightarrow> Q (Ok x) s' | Err e \<Rightarrow> post (h e) s' Q)"
  by (auto simp: post_def catch_def split: prod.splits result.splits)

lemma post_ret [simp]: "post (ret x) s Q \<longleftrightarrow> Q (Ok x) s"
  by (simp add: post_def action_defs)

lemma post_fail [simp]: "post (fail e) s Q \<longleftrightarrow> Q (Err e) s"
  by (simp add: post_def action_defs)

lemma post_get [simp]: "post (get g) s Q \<longleftrightarrow> Q (Ok (g s)) s"
  by (simp add: post_def action_defs)

lemma post_set_progress [simp]:
  "post (set_progress p) s Q \<longleftrightarrow> Q (Ok ()) (s\<lparr>rs_progress := p\<rparr>)"
  by (simp add: post_def action_defs)

lemma post_report:
  "(\<And>rp. Q (Ok ()) (s\<lparr>rs_report := rp\<rparr>)) \<Longrightarrow> post (push v) s Q"
  "(\<And>rp. Q (Ok ()) (s\<lparr>rs_report := rp\<rparr>)) \<Longrightarrow> post count_completed s Q"
  "(\<And>rp. Q (Ok ()) (s\<lparr>rs_report := rp\<rparr>)) \<Longrightarrow> post count_skipped s Q"
  "(\<And>rp. Q (Ok ()) (s\<lparr>rs_report := rp\<rparr>)) \<Longrightarrow> post count_advisory s Q"
  "(\<And>rp. Q (Ok ()) (s\<lparr>rs_report := rp\<rparr>)) \<Longrightarrow> post count_failed s Q"
  by (simp_all add: post_def action_defs)

lemma post_ask: "(\<And>x c. Q (Ok x) (s\<lparr>rs_control := c\<rparr>)) \<Longrightarrow> post (ask q) s Q"
  by (auto simp: post_def action_defs split: prod.splits)

text \<open>A recorded call: any answer, and the answer is in the log.\<close>

lemma post_call:
  assumes "\<And>b y. Q (Ok y) (s\<lparr>rs_backend := (b, log_of s @ [f (Ok y)])\<rparr>)"
    and "\<And>b m. Q (Err (e m)) (s\<lparr>rs_backend := (b, log_of s @ [f (Err m)])\<rparr>)"
  shows "post (call (recorded f m') e) s Q"
proof -
  obtain x b where "m' (fst (rs_backend s)) = (x, b)" by (cases "m' (fst (rs_backend s))")
  then show ?thesis
    using assms
    by (cases x)
      (simp_all add: post_def call_def recorded_def log_of_def Let_def case_prod_beta)
qed

lemmas post_intros = post_call post_report post_ask

lemma log_of_simps [simp]:
  "log_of (s\<lparr>rs_backend := (b, l)\<rparr>) = l"
  "log_of (s\<lparr>rs_report := rp\<rparr>) = log_of s"
  "log_of (s\<lparr>rs_progress := p\<rparr>) = log_of s"
  "log_of (s\<lparr>rs_control := c\<rparr>) = log_of s"
  by (simp_all add: log_of_def)

end
