(* ===== verification/Engine_Facts.thy ===== *)
theory Engine_Facts
  imports Engine_Trace
begin

text \<open>
  Facts about the engine of \<open>Engine\<close> run over a recording backend: which calls each stage makes and in
  what order (a mutation is guarded by its persisted recovery record), what it does to the progress,
  and that only verified steps are recorded as completed.
\<close>

section \<open>Mutations are guarded\<close>

definition quiet ::
  "'v call_record list \<Rightarrow> ('b \<times> 'v call_record list, 'v, 'c) run_state \<Rightarrow> bool
   \<Rightarrow> operation \<Rightarrow> ('b \<times> 'v call_record list, 'v, 'c) run_state \<Rightarrow> bool" where
  "quiet h s ok op s' \<longleftrightarrow>
     rs_progress s' = rs_progress s
     \<and> (\<exists>l. log_of s' = log_of s @ l \<and> guarded_from h l
          \<and> (\<forall>c\<in>set l. \<not> persists_progress c)
          \<and> (ok \<longrightarrow> CallVerify op (Ok ()) \<in> set l))"

lemma apply_and_verify_quiet:
  assumes "secured op h"
  shows "post (apply_and_verify (recording B) op k) s (\<lambda>r s'. quiet h s (r = Ok ()) op s')"
  unfolding apply_and_verify_def
  by (auto intro!: post_intros simp: quiet_def persists_progress_def assms)

lemma capture_lossless_quiet:
  "post (capture_lossless_backups (recording B) op k) s (\<lambda>r s'.
     quiet [] s False op s'
     \<and> (r = Ok () \<longrightarrow> (\<exists>es. es \<noteq> [] \<and>
          log_of s' = log_of s @ [CallCaptureBackups op (Ok es), CallPersistBackups es (Ok ())])))"
  unfolding capture_lossless_backups_def
  by (auto intro!: post_intros simp: quiet_def persists_progress_def)

lemma run_lossless_quiet:
  "k = progress_key (step_ident (op_step op)) \<Longrightarrow>
     post (run_lossless_operation (recording B) op k) s (\<lambda>r s'. quiet [] s (r = Ok ()) op s')"
  unfolding run_lossless_operation_def capture_lossless_backups_def apply_and_verify_def
  by (auto intro!: post_intros simp: quiet_def persists_progress_def secured_iffs)

lemma run_rebuildable_quiet:
  "k = progress_key (step_ident (op_step op)) \<Longrightarrow>
     post (run_rebuildable_operation (recording B) op k) s (\<lambda>r s'. quiet [] s (r = Ok ()) op s')"
  unfolding run_rebuildable_operation_def apply_and_verify_def
  by (auto intro!: post_intros simp: quiet_def persists_progress_def secured_iffs)

lemma run_pending_irreversible_quiet:
  assumes "k = progress_key (step_ident (op_step op))"
    and "requirement = MixedRecovery \<Longrightarrow> lossless_secured op h"
  shows "post (run_pending_irreversible_audit (recording B) op k requirement) s
           (\<lambda>r s'. quiet h s (r = Ok ()) op s')"
proof -
  have "secured op (CallPersistIrreversible a (Ok ()) # CallCaptureIrreversible op (Ok a) # h)"
    if "irreversible_valid_pending_for a requirement k" for a
    using irreversible_valid_requirement [OF that] that assms
    by (auto simp: secured_def irreversible_secured_def)
  then show ?thesis
    unfolding run_pending_irreversible_audit_def apply_and_verify_def on_apply_error_def
    by (auto intro!: post_intros simp: quiet_def persists_progress_def)
qed

lemma run_evidence_quiet:
  "post (run_evidence_operation D (recording B) op k) s (\<lambda>r s'. quiet [] s (r = Ok ()) op s')"
  unfolding run_evidence_operation_def
  by (auto intro!: post_intros simp: quiet_def persists_progress_def split: result.splits)

lemma run_verification_quiet:
  "post (run_verification D (recording B) op k) s (\<lambda>r s'. quiet [] s (r = Ok ()) op s')"
proof -
  have "post (seq (call (verify_operation (recording B) op) (ErrVerify k)) (\<lambda>_. push (EventVerify k)))
          s (\<lambda>r s'. quiet [] s (r = Ok ()) op s')"
    by (auto intro!: post_intros simp: quiet_def persists_progress_def)
  then show ?thesis
    using run_evidence_quiet [of D B op k s] by (simp add: run_verification_def)
qed

lemma quiet_trans:
  assumes "quiet h s False op s1" and "log_of s1 = log_of s @ l" and "quiet (rev l @ h) s1 ok op s2"
  shows "quiet h s ok op s2"
  using assms by (auto simp: quiet_def)

lemma run_irreversible_quiet:
  assumes "k = progress_key (step_ident (op_step op))"
  shows "post (run_irreversible_operation (recording B) op k) s (\<lambda>r s'. quiet [] s (r = Ok ()) op s')"
proof (cases "recovery_requirement_of B op (fst (rs_backend s)) = MixedRecovery")
  case False
  then show ?thesis
    using run_pending_irreversible_quiet
      [OF assms, of "recovery_requirement_of B op (fst (rs_backend s))" "[]" B s]
    by (simp add: run_irreversible_operation_def)
next
  case True
  have "post (capture_lossless_backups (recording B) op k) s (\<lambda>r s1.
      case r of
        Ok x \<Rightarrow> post (run_pending_irreversible_audit (recording B) op k MixedRecovery) s1
                 (\<lambda>r s'. quiet [] s (r = Ok ()) op s')
      | Err e \<Rightarrow> quiet [] s (Err e = Ok ()) op s1)"
  proof (rule post_mono [OF capture_lossless_quiet])
    fix r :: "(unit, engine_error) result" and s1
    assume cap: "quiet [] s False op s1 \<and>
       (r = Ok () \<longrightarrow> (\<exists>es. es \<noteq> [] \<and>
          log_of s1 = log_of s @ [CallCaptureBackups op (Ok es), CallPersistBackups es (Ok ())]))"
    show "case r of
        Ok x \<Rightarrow> post (run_pending_irreversible_audit (recording B) op k MixedRecovery) s1
                 (\<lambda>r s'. quiet [] s (r = Ok ()) op s')
      | Err e \<Rightarrow> quiet [] s (Err e = Ok ()) op s1"
    proof (cases r)
      case (Err e)
      with cap show ?thesis by simp
    next
      case (Ok x)
      with cap obtain es where es: "es \<noteq> []"
        "log_of s1 = log_of s @ [CallCaptureBackups op (Ok es), CallPersistBackups es (Ok ())]"
        by auto
      let ?h = "[CallPersistBackups es (Ok ()), CallCaptureBackups op (Ok es)]"
      have "lossless_secured op ?h" using es(1) by (simp add: lossless_secured_iff)
      then have "post (run_pending_irreversible_audit (recording B) op k MixedRecovery) s1
          (\<lambda>r s'. quiet ?h s1 (r = Ok ()) op s')"
        by (rule run_pending_irreversible_quiet [OF assms])
      then have "post (run_pending_irreversible_audit (recording B) op k MixedRecovery) s1
          (\<lambda>r s'. quiet [] s (r = Ok ()) op s')"
        by (rule post_mono) (use cap es(2) in \<open>auto intro: quiet_trans\<close>)
      with Ok show ?thesis by simp
    qed
  qed
  with True show ?thesis by (simp add: run_irreversible_operation_def)
qed

lemma run_mutation_quiet:
  assumes "k = progress_key (step_ident (op_step op))"
  shows "post (run_mutation (recording B) op k) s (\<lambda>r s'. quiet [] s (r = Ok ()) op s')"
  using run_lossless_quiet [OF assms, of B s] run_rebuildable_quiet [OF assms, of B s]
    run_irreversible_quiet [OF assms, of B s]
  by (cases "recovery_requirement_of B op (fst (rs_backend s))") (simp_all add: run_mutation_def)

section \<open>One step changes the progress of that step\<close>

definition resolves ::
  "'v call_record list \<Rightarrow> step \<Rightarrow> 'v progress \<Rightarrow> 'v progress \<Rightarrow> bool" where
  "resolves l st p q \<longleftrightarrow>
     ((\<exists>t. q = complete_step (step_ident st) t p) \<and> CallVerify \<lparr>op_step = st\<rparr> (Ok ()) \<in> set l)
     \<or> q = skip_step (step_ident st) p
     \<or> (\<exists>reason. q = acknowledge_step_advisory (step_ident st) reason p)"

lemma resolves_append: "resolves l st p q \<Longrightarrow> resolves (l @ m) st p q"
  by (auto simp: resolves_def)

text \<open>
  What a step does: extend the log by guarded calls, keep progress equal to what was last
  persisted, and either leave progress alone or, when it returns \<open>Ok\<close>, resolve exactly this
  step; with \<open>must\<close>, returning \<open>Ok\<close> resolves it.
\<close>

definition stepped ::
  "bool \<Rightarrow> step \<Rightarrow> ('b \<times> 'v call_record list, 'v, 'c) run_state \<Rightarrow> (unit, engine_error) result
   \<Rightarrow> ('b \<times> 'v call_record list, 'v, 'c) run_state \<Rightarrow> bool" where
  "stepped must st s r s' \<longleftrightarrow>
     (\<exists>l. log_of s' = log_of s @ l
        \<and> guarded_from [] l
        \<and> rs_progress s' = last_persisted (rs_progress s) l
        \<and> (rs_progress s' = rs_progress s \<and> \<not> (must \<and> r = Ok ())
            \<or> r = Ok () \<and> resolves l st (rs_progress s) (rs_progress s')))"

lemma stepped_report [simp]: "stepped must st s r (s'\<lparr>rs_report := rp\<rparr>) = stepped must st s r s'"
  by (simp add: stepped_def)

lemma stepped_refl: "stepped False st s r s"
  by (simp add: stepped_def)

lemma commit_progress_stepped:
  assumes "log_of s1 = log_of s @ l" and "guarded_from [] l" and "rs_progress s1 = rs_progress s"
    and "\<forall>c\<in>set l. \<not> persists_progress c"
    and "resolves l st (rs_progress s) (change (rs_backend s1) (rs_progress s))"
  shows "post (commit_progress (recording B) k change) s1 (\<lambda>r s'. stepped True st s r s')"
  unfolding commit_progress_def
  using assms last_persisted_none [OF assms(4)]
  by (auto intro!: post_intros simp: stepped_def accept_progress_def intro: resolves_append)

lemma complete_live_step_stepped:
  assumes "quiet [] s True \<lparr>op_step = st\<rparr> s1"
  shows "post (complete_live_step (recording B) st k) s1 (\<lambda>r s'. stepped True st s r s')"
proof -
  from assms obtain l where l: "log_of s1 = log_of s @ l" "guarded_from [] l"
      "rs_progress s1 = rs_progress s" "\<forall>c\<in>set l. \<not> persists_progress c"
      "CallVerify \<lparr>op_step = st\<rparr> (Ok ()) \<in> set l"
    by (auto simp: quiet_def)
  have "post (commit_progress (recording B) k
          (\<lambda>b. complete_step (step_ident st) (timestamp_of (recording B) b))) s1
          (\<lambda>r s'. stepped True st s r s')"
    using l by (intro commit_progress_stepped) (auto simp: resolves_def)
  then show ?thesis
    unfolding complete_live_step_def
    by (auto elim!: post_mono intro!: post_intros split: result.splits)
qed

lemma record_skip_stepped:
  "post (record_skip (recording B) st k persist) s (\<lambda>r s'. stepped persist st s r s')"
proof -
  have "post (commit_progress (recording B) k (\<lambda>_. skip_step (step_ident st))) (s\<lparr>rs_report := rp\<rparr>)
          (\<lambda>r s'. stepped True st s r s')" for rp
    by (rule commit_progress_stepped [where l = "[]"]) (auto simp: resolves_def)
  note commit = this [THEN post_mono]
  show ?thesis
    unfolding record_skip_def
    by (cases persist) (auto intro!: post_intros commit stepped_refl split: result.splits)
qed

lemma record_advisory_stepped:
  "post (record_advisory (recording B) st k reason) s (\<lambda>r s'. stepped True st s r s')"
proof -
  have "post (commit_progress (recording B) k (\<lambda>_. acknowledge_step_advisory (step_ident st) reason)) s
          (\<lambda>r s'. stepped True st s r s')"
    by (rule commit_progress_stepped [where l = "[]"]) (auto simp: resolves_def)
  then show ?thesis
    unfolding record_advisory_def
    by (auto elim!: post_mono intro!: post_intros split: result.splits)
qed

lemma quiet_stepped: "quiet [] s False op s' \<Longrightarrow> stepped must st s (Err e) s'"
  by (auto simp: quiet_def stepped_def last_persisted_none)

lemma run_live_step_stepped:
  assumes "k = progress_key (step_ident st)"
  shows "post (run_live_step D (recording B) \<lparr>op_step = st\<rparr> k i) s
           (\<lambda>r s'. stepped True st s r s')"
proof -
  let ?op = "\<lparr>op_step = st\<rparr>"
  have body: "post (seq m (\<lambda>_. complete_live_step (recording B) st k)) s
      (\<lambda>r s'. stepped True st s r s')"
    if m: "post m s (\<lambda>r s'. quiet [] s (r = Ok ()) ?op s')"
    for m :: "('a \<times> 'b call_record list, 'b, 'c, unit) action"
    unfolding post_seq
    by (rule post_mono [OF m])
      (auto intro: complete_live_step_stepped quiet_stepped split: result.splits)
  have ver: "post (run_verification D (recording B) ?op k) s (\<lambda>r s'. quiet [] s (r = Ok ()) ?op s')"
    by (rule run_verification_quiet)
  have mut: "post (run_mutation (recording B) ?op k) s (\<lambda>r s'. quiet [] s (r = Ok ()) ?op s')"
    by (rule run_mutation_quiet) (simp add: assms)
  show ?thesis
    using body [OF ver] body [OF mut] record_skip_stepped [of B st k True s]
      record_advisory_stepped [of B st k _ s]
    by (cases i) (auto simp: run_live_step_def stepped_def simp del: post_seq)
qed

definition live :: "('b, 'v) backend \<Rightarrow> bool" where
  "live B \<longleftrightarrow> (\<forall>b. \<not> is_dry_run B b)"

lemma not_live: "is_dry_run B b \<Longrightarrow> live B = False"
  by (auto simp: live_def)

lemma stepped_prefix:
  assumes "stepped True st s1 r s'" and "log_of s1 = log_of s @ l" and "guarded_from [] l"
    and "\<forall>c\<in>set l. \<not> persists_progress c" and "rs_progress s1 = rs_progress s"
  shows "stepped must st s r s'"
proof -
  from assms(1) obtain m where m: "log_of s' = log_of s1 @ m" "guarded_from [] m"
      "rs_progress s' = last_persisted (rs_progress s1) m"
      "rs_progress s' = rs_progress s1 \<and> r \<noteq> Ok ()
       \<or> r = Ok () \<and> resolves m st (rs_progress s1) (rs_progress s')"
    by (auto simp: stepped_def)
  have "resolves (l @ m) st p q" if "resolves m st p q" for p q
    using that by (auto simp: resolves_def)
  with m assms(2-5) guarded_from_weaken [of "[]" m "rev l"] show ?thesis
    unfolding stepped_def
    by (intro exI [of _ "l @ m"]) (auto simp: last_persisted_none)
qed

lemma stepped_quiet:
  assumes "log_of s1 = log_of s @ l" and "guarded_from [] l" and "rs_progress s1 = rs_progress s"
    and "\<forall>c\<in>set l. \<not> persists_progress c" and "\<not> must \<or> r \<noteq> Ok ()"
  shows "stepped must st s r s1"
  using assms unfolding stepped_def by (auto simp: last_persisted_none)

lemma post_push_plan:
  "(\<And>rp. Q (Ok ()) (s\<lparr>rs_report := rp\<rparr>)) \<Longrightarrow> post (push_plan ls) s Q"
proof (induction ls arbitrary: s)
  case Nil
  from Nil [of "rs_report s"] show ?case by simp
next
  case (Cons a ls)
  have "post (push_plan ls) (s\<lparr>rs_report := rp\<rparr>) Q" for rp
    by (rule Cons.IH) (use Cons.prems in simp)
  then show ?case by (auto intro!: post_intros)
qed

lemma report_dry_run_stepped:
  assumes "log_of s1 = log_of s @ l" and "guarded_from [] l" and "rs_progress s1 = rs_progress s"
    and "\<forall>c\<in>set l. \<not> persists_progress c"
  shows "post (report_dry_run (recording B) op k i) s1 (\<lambda>r s'. stepped False st s r s')"
  using assms last_persisted_none [OF assms(4)] unfolding report_dry_run_def
  by (cases i)
    (auto intro!: post_intros post_push_plan simp: stepped_def accept_progress_def)

lemma stepped_start [simp]:
  "stepped must st (s\<lparr>rs_control := c\<rparr>) r s' = stepped must st s r s'"
  "stepped must st (s\<lparr>rs_report := rp\<rparr>) r s' = stepped must st s r s'"
  by (simp_all add: stepped_def)

text \<open>From the inspection on.\<close>

definition inspect_and_run ::
  "'v digester \<Rightarrow> ('b, 'v) backend \<Rightarrow> step \<Rightarrow> ('b, 'v, 'c, unit) action" where
  "inspect_and_run D B st =
     (let operation = \<lparr>op_step = st\<rparr>; k = progress_key (step_ident st) in
      seq (push (EventInspect k)) (\<lambda>_.
      seq (call (inspect B operation) (ErrInspect k)) (\<lambda>inspection.
      seq (get (\<lambda>s. is_dry_run B (rs_backend s))) (\<lambda>dry_run.
      if dry_run then report_dry_run B operation k inspection
      else run_live_step D B operation k inspection))))"

definition policy_and_run ::
  "'v digester \<Rightarrow> ('b, 'v) backend \<Rightarrow> 'c control \<Rightarrow> profile \<Rightarrow> step \<Rightarrow> ('b, 'v, 'c, unit) action" where
  "policy_and_run D B K pr st =
     seq (should_skip_for_policy B K st pr) (\<lambda>skipped.
     if skipped
     then seq (get (\<lambda>s. is_dry_run B (rs_backend s)))
            (\<lambda>dry_run. record_skip B st (progress_key (step_ident st)) (\<not> dry_run))
     else inspect_and_run D B st)"

lemma run_step_stages:
  "run_step D B K pr st =
     seq (skip_recorded_or_cancelled B K (progress_key (step_ident st))) (\<lambda>done.
     if done then ret () else policy_and_run D B K pr st)"
  unfolding run_step_def policy_and_run_def inspect_and_run_def Let_def by (rule refl)

lemma inspect_and_run_stepped:
  "post (inspect_and_run D (recording B) st) s (\<lambda>r s'. stepped (live B) st s r s')"
proof -
  let ?op = "\<lparr>op_step = st\<rparr>" and ?k = "progress_key (step_ident st)"
  let ?s = "\<lambda>rp b x. s\<lparr>rs_report := rp, rs_backend := (b, log_of s @ [CallInspect ?op x])\<rparr>"
  have dry: "post (report_dry_run (recording B) ?op ?k i) (?s rp b x) (stepped (live B) st s)"
    if "is_dry_run B b" for rp b x i
    by (rule post_mono [OF report_dry_run_stepped [where l = "[CallInspect ?op x]" and s = s and st = st]])
      (use that in \<open>auto simp: persists_progress_def not_live\<close>)
  have run: "post (run_live_step D (recording B) ?op ?k i) (?s rp b x) (stepped (live B) st s)"
    for rp b x i
    by (rule post_mono [OF run_live_step_stepped])
      (auto intro: stepped_prefix [where l = "[CallInspect ?op x]"] simp: persists_progress_def)
  have stop: "stepped (live B) st s (Err e) (?s rp b x)" for rp b x e
    by (rule stepped_quiet [where l = "[CallInspect ?op x]"]) (simp_all add: persists_progress_def)
  show ?thesis
    unfolding inspect_and_run_def Let_def
    by (auto intro!: post_intros dry run stop)
qed

lemma policy_and_run_stepped:
  "post (policy_and_run D (recording B) K pr st) s (\<lambda>r s'. stepped (live B) st s r s')"
proof -
  let ?k = "progress_key (step_ident st)"
  have main: "post (inspect_and_run D (recording B) st) (s\<lparr>rs_control := c\<rparr>) (stepped (live B) st s)" for c
    using inspect_and_run_stepped [of D B st "s\<lparr>rs_control := c\<rparr>"] by simp
  have skip: "post (record_skip (recording B) st ?k (\<not> is_dry_run B b)) (s\<lparr>rs_control := c\<rparr>)
      (stepped (live B) st s)" for b c
    by (rule post_mono [OF record_skip_stepped], cases "is_dry_run B b")
      (auto simp: stepped_def not_live)
  have same: "\<exists>d. s = s\<lparr>rs_control := d\<rparr>"
    by (rule exI [of _ "rs_control s"]) simp
  have "post (should_skip_for_policy (recording B) K st pr) s (\<lambda>r s'.
      (\<exists>d. s' = s\<lparr>rs_control := d\<rparr>) \<and> (\<exists>x. r = Ok x))"
    unfolding should_skip_for_policy_def
    by (cases "decision pr (tier st) (step_risk st)")
      (auto intro!: post_intros same)
  then show ?thesis
    unfolding policy_and_run_def post_seq
    by (rule post_mono) (auto intro: main skip)
qed

lemma run_step_stepped:
  "post (run_step D (recording B) K pr st) s (\<lambda>r s'.
     if resolved (rs_progress s) (step_ident st) then r = Ok () \<and> s' = s
     else stepped (live B) st s r s')"
proof -
  let ?k = "progress_key (step_ident st)"
  have recorded: "step_recorded (rs_progress s) ?k = resolved (rs_progress s) (step_ident st)"
    by (simp add: step_recorded_def resolved_def is_completed_def is_skipped_def has_advisory_def)
  have go: "post (policy_and_run D (recording B) K pr st) (s\<lparr>rs_control := c\<rparr>) (stepped (live B) st s)" for c
    using policy_and_run_stepped [of D B K pr st "s\<lparr>rs_control := c\<rparr>"] by simp
  have stop: "stepped (live B) st s (Err e) (s\<lparr>rs_control := c\<rparr>)" for e c
    by (rule stepped_quiet [where l = "[]"]) simp_all
  show ?thesis
    using go [of "rs_control s"]
    unfolding run_step_stages skip_recorded_or_cancelled_def
    by (auto simp: recorded intro!: post_intros go stop)
qed

section \<open>A whole run\<close>

definition verified_in :: "'v call_record list \<Rightarrow> step list \<Rightarrow> step_id \<Rightarrow> bool" where
  "verified_in l steps i \<longleftrightarrow>
     (\<exists>st\<in>set steps. step_ident st = i \<and> CallVerify \<lparr>op_step = st\<rparr> (Ok ()) \<in> set l)"

definition ran ::
  "bool \<Rightarrow> step list \<Rightarrow> 'v progress \<Rightarrow> bool \<Rightarrow> 'v progress \<Rightarrow> 'v call_record list \<Rightarrow> bool" where
  "ran must steps p ok q l \<longleftrightarrow>
     guarded_from [] l
     \<and> q = last_persisted p l
     \<and> (\<forall>i. resolved p i \<longrightarrow> resolution q i = resolution p i)
     \<and> (\<forall>i. i \<notin> step_ident ` set steps \<longrightarrow> resolution q i = resolution p i)
     \<and> (\<forall>i. resolution q i = Completed \<longrightarrow> resolution p i = Completed \<or> verified_in l steps i)
     \<and> (progress_wf p \<longrightarrow> progress_wf q)
     \<and> (must \<and> ok \<longrightarrow> (\<forall>st\<in>set steps. resolved q (step_ident st)))"

lemma resolved_iff: "resolved p i \<longleftrightarrow> resolution p i \<noteq> Unresolved"
  by (simp add: resolved_def resolution_def)

lemma resolves_resolution:
  assumes "resolves l st p q"
  shows "\<And>i. i \<noteq> step_ident st \<Longrightarrow> resolution q i = resolution p i"
    and "resolution q (step_ident st) \<noteq> Unresolved"
    and "resolution q (step_ident st) = Completed \<Longrightarrow> CallVerify \<lparr>op_step = st\<rparr> (Ok ()) \<in> set l"
    and "progress_wf p \<Longrightarrow> progress_wf q"
  using assms
  by (auto simp: resolves_def resolution_complete resolution_skip resolution_ack
      intro: progress_wf_intros)

lemma ranD:
  assumes "ran must steps p ok q l"
  shows "guarded_from [] l" and "q = last_persisted p l"
    and "\<And>i. resolved p i \<Longrightarrow> resolution q i = resolution p i"
    and "\<And>i. i \<notin> step_ident ` set steps \<Longrightarrow> resolution q i = resolution p i"
    and "\<And>i. resolution q i = Completed \<Longrightarrow> resolution p i \<noteq> Completed \<Longrightarrow> verified_in l steps i"
    and "progress_wf p \<Longrightarrow> progress_wf q"
    and "\<And>st. must \<Longrightarrow> ok \<Longrightarrow> st \<in> set steps \<Longrightarrow> resolved q (step_ident st)"
  using assms unfolding ran_def by blast+

lemma ranI:
  assumes "guarded_from [] l" and "q = last_persisted p l"
    and "\<And>i. resolved p i \<Longrightarrow> resolution q i = resolution p i"
    and "\<And>i. i \<notin> step_ident ` set steps \<Longrightarrow> resolution q i = resolution p i"
    and "\<And>i. resolution q i = Completed \<Longrightarrow> resolution p i \<noteq> Completed \<Longrightarrow> verified_in l steps i"
    and "progress_wf p \<Longrightarrow> progress_wf q"
    and "\<And>st. must \<Longrightarrow> ok \<Longrightarrow> st \<in> set steps \<Longrightarrow> resolved q (step_ident st)"
  shows "ran must steps p ok q l"
  using assms unfolding ran_def by blast

lemma ran_refl:
  "(\<And>st. must \<Longrightarrow> ok \<Longrightarrow> st \<in> set steps \<Longrightarrow> resolved p (step_ident st)) \<Longrightarrow> ran must steps p ok p []"
  by (rule ranI) simp_all

lemma ran_unchanged:
  "guarded_from [] l \<Longrightarrow> p = last_persisted p l \<Longrightarrow> \<not> (must \<and> ok) \<Longrightarrow> ran must steps p ok p l"
  by (rule ranI) simp_all

lemma ran_resolves:
  assumes res: "resolves l st p q" and "\<not> resolved p (step_ident st)"
    and "guarded_from [] l" and "q = last_persisted p l"
  shows "ran must [st] p ok q l"
proof -
  note R = resolves_resolution [OF res]
  have un: "resolution p (step_ident st) = Unresolved"
    using assms(2) by (simp add: resolved_iff)
  show ?thesis
  proof (rule ranI)
    show "resolution q i = resolution p i" if "resolved p i" for i
      using that un R(1) by (cases "i = step_ident st") (simp_all add: resolved_iff)
    show "verified_in l [st] i" if "resolution q i = Completed" "resolution p i \<noteq> Completed" for i
      using that R(1,3) by (cases "i = step_ident st") (simp_all add: verified_in_def)
  qed (use assms(3) R in \<open>simp_all add: resolved_iff assms(4)\<close>)
qed

lemma stepped_ran:
  assumes "stepped must st s r s'" and "\<not> resolved (rs_progress s) (step_ident st)"
  shows "\<exists>l. log_of s' = log_of s @ l \<and> ran must [st] (rs_progress s) (r = Ok ()) (rs_progress s') l"
proof -
  from assms(1) obtain l where l: "log_of s' = log_of s @ l" "guarded_from [] l"
      "rs_progress s' = last_persisted (rs_progress s) l"
      "rs_progress s' = rs_progress s \<and> \<not> (must \<and> r = Ok ())
        \<or> r = Ok () \<and> resolves l st (rs_progress s) (rs_progress s')"
    by (auto simp: stepped_def)
  from l(4) have "ran must [st] (rs_progress s) (r = Ok ()) (rs_progress s') l"
  proof
    assume "rs_progress s' = rs_progress s \<and> \<not> (must \<and> r = Ok ())"
    with ran_unchanged [of l "rs_progress s" must "r = Ok ()" "[st]"] l(2,3) show ?thesis by simp
  next
    assume "r = Ok () \<and> resolves l st (rs_progress s) (rs_progress s')"
    with ran_resolves [OF _ assms(2) l(2,3)] show ?thesis by simp
  qed
  with l(1) show ?thesis by blast
qed

lemma ran_append:
  assumes a: "ran must xs p True q l" and b: "ran must ys q ok t m"
  shows "ran must (xs @ ys) p ok t (l @ m)"
proof (rule ranI)
  note A = ranD [OF a] and B = ranD [OF b]
  have kept: "resolution t i = resolution q i" if "resolved q i" for i using B(3) [OF that] .
  show "guarded_from [] (l @ m)" by (rule guarded_append [OF A(1) B(1)])
  show "t = last_persisted p (l @ m)" using A(2) B(2) by simp
  show "resolution t i = resolution p i" if "resolved p i" for i
    using A(3) [OF that] kept [of i] that by (simp add: resolved_iff)
  show "resolution t i = resolution p i" if "i \<notin> step_ident ` set (xs @ ys)" for i
    using that A(4) [of i] B(4) [of i] by (simp add: image_Un)
  show "verified_in (l @ m) (xs @ ys) i"
    if "resolution t i = Completed" "resolution p i \<noteq> Completed" for i
    using A(5) [of i] B(5) [of i] that by (cases "resolution q i = Completed") (auto simp: verified_in_def)
  show "progress_wf t" if "progress_wf p" using A(6) B(6) that by blast
  show "resolved t (step_ident st)" if "must" "ok" "st \<in> set (xs @ ys)" for st
  proof (cases "st \<in> set ys")
    case True
    with that B(7) show ?thesis by blast
  next
    case False
    with that A(7) have "resolved q (step_ident st)" by simp
    with kept show ?thesis by (simp add: resolved_iff)
  qed
qed

lemma ran_append_err:
  assumes a: "ran must xs p False q l"
  shows "ran must (xs @ ys) p False q l"
proof (rule ranI)
  note A = ranD [OF a]
  show "verified_in l (xs @ ys) i" if "resolution q i = Completed" "resolution p i \<noteq> Completed" for i
    using A(5) [OF that] by (auto simp: verified_in_def)
  show "resolution q i = resolution p i" if "i \<notin> step_ident ` set (xs @ ys)" for i
    using that A(4) [of i] by auto
qed (use ranD [OF a] in simp_all)

text \<open>Sequential composition: the second part starts where an \<open>Ok\<close> of the first ended.\<close>

definition runs_as ::
  "bool \<Rightarrow> step list \<Rightarrow> ('b \<times> 'v call_record list, 'v, 'c) run_state \<Rightarrow> (unit, engine_error) result
   \<Rightarrow> ('b \<times> 'v call_record list, 'v, 'c) run_state \<Rightarrow> bool" where
  "runs_as must steps s r s' \<longleftrightarrow>
     (\<exists>l. log_of s' = log_of s @ l \<and> ran must steps (rs_progress s) (r = Ok ()) (rs_progress s') l)"

lemma runs_as_append:
  assumes "runs_as must xs s (Ok ()) s1" and "runs_as must ys s1 r s2"
  shows "runs_as must (xs @ ys) s r s2"
  using assms ran_append unfolding runs_as_def by fastforce

lemma runs_as_err: "runs_as must xs s (Err e) s1 \<Longrightarrow> runs_as must (xs @ ys) s (Err e) s1"
  using ran_append_err unfolding runs_as_def by fastforce

lemma run_step_runs_as: "post (run_step D (recording B) K pr st) s (runs_as (live B) [st] s)"
proof (rule post_mono [OF run_step_stepped])
  fix r s'
  assume st: "if resolved (rs_progress s) (step_ident st) then r = Ok () \<and> s' = s
    else stepped (live B) st s r s'"
  show "runs_as (live B) [st] s r s'"
  proof (cases "resolved (rs_progress s) (step_ident st)")
    case True
    with st show ?thesis by (auto simp: runs_as_def intro!: ran_refl)
  next
    case False
    with st stepped_ran show ?thesis by (auto simp: runs_as_def)
  qed
qed

lemma run_steps_runs_as: "post (run_steps D (recording B) K pr sts) s (runs_as (live B) sts s)"
proof (induction sts arbitrary: s)
  case Nil
  show ?case by (auto simp: runs_as_def intro!: ran_refl)
next
  case (Cons st sts)
  have rest: "post (run_steps D (recording B) K pr sts) s1 (runs_as (live B) (st # sts) s)"
    if "runs_as (live B) [st] s (Ok ()) s1" for s1
    by (rule post_mono [OF Cons.IH])
      (use runs_as_append [OF that] in \<open>auto simp: append_Cons [symmetric]\<close>)
  show ?case
    unfolding run_steps.simps post_seq
    by (rule post_mono [OF run_step_runs_as])
      (use rest runs_as_err [of "live B" "[st]"] in \<open>auto split: result.splits\<close>)
qed

section \<open>Runs of the engine\<close>

text \<open>The calls a run makes, and the run itself read off its recorded version.\<close>

definition call_log ::
  "'v digester \<Rightarrow> ('b, 'v) backend \<Rightarrow> 'c control \<Rightarrow> step list \<Rightarrow> profile \<Rightarrow> 'c \<Rightarrow> ('b, 'v) engine
   \<Rightarrow> 'v call_record list" where
  "call_log D B K steps pr c e =
     snd (eng_backend (fst (snd (run_with_control D (recording B) K steps pr c
       \<lparr>eng_backend = (eng_backend e, []), eng_progress = eng_progress e\<rparr>))))"

definition final_progress ::
  "'v digester \<Rightarrow> ('b, 'v) backend \<Rightarrow> 'c control \<Rightarrow> step list \<Rightarrow> profile \<Rightarrow> 'c \<Rightarrow> ('b, 'v) engine
   \<Rightarrow> 'v progress" where
  "final_progress D B K steps pr c e = eng_progress (fst (snd (run_with_control D B K steps pr c e)))"

lemma recorded_run_same:
  "run_with_control D B K steps pr c e =
     (case run_with_control D (recording B) K steps pr c
        \<lparr>eng_backend = (eng_backend e, l), eng_progress = eng_progress e\<rparr> of
        (r, e', c') \<Rightarrow>
          (r, \<lparr>eng_backend = fst (eng_backend e'), eng_progress = eng_progress e'\<rparr>, c'))"
proof -
  let ?s = "\<lparr>rs_backend = (eng_backend e, l), rs_progress = eng_progress e,
     rs_report = run_report_default, rs_control = c\<rparr>"
  have "run_steps D B K pr steps (unrecorded ?s)
      = map_prod id unrecorded (run_steps D (recording B) K pr steps ?s)"
    using same_run_steps [of D B K pr steps] by (simp add: same_run_def)
  then show ?thesis
    by (simp add: run_with_control_def unrecorded_def map_prod_def split: prod.splits result.splits)
qed

lemma run_ran:
  "ran (live B) steps (eng_progress e) (is_ok (fst (run_with_control D B K steps pr c e)))
     (final_progress D B K steps pr c e) (call_log D B K steps pr c e)"
proof -
  let ?s = "\<lparr>rs_backend = (eng_backend e, []), rs_progress = eng_progress e,
     rs_report = run_report_default, rs_control = c\<rparr>"
  obtain r t where rt: "run_steps D (recording B) K pr steps ?s = (r, t)"
    by (cases "run_steps D (recording B) K pr steps ?s")
  have "runs_as (live B) steps ?s r t"
    using run_steps_runs_as [of D B K pr steps ?s] rt by (simp add: post_def)
  then have "ran (live B) steps (eng_progress e) (r = Ok ()) (rs_progress t) (snd (rs_backend t))"
    by (auto simp: runs_as_def log_of_def)
  moreover have "call_log D B K steps pr c e = snd (rs_backend t)"
    by (simp add: call_log_def run_with_control_def rt)
  moreover have "final_progress D B K steps pr c e = rs_progress t"
      "is_ok (fst (run_with_control D B K steps pr c e)) = (r = Ok ())"
    using recorded_run_same [of D B K steps pr c e "[]"]
    by (cases r; simp add: final_progress_def run_with_control_def rt)+
  ultimately show ?thesis by simp
qed

lemmas run_facts = ranD [OF run_ran]

section \<open>Dry runs and repeated runs\<close>

lemma dry_run_step:
  assumes dry: "\<And>b. is_dry_run B b"
  shows "post (run_step D (recording B) K pr st) s (\<lambda>r s'.
     rs_progress s' = rs_progress s
     \<and> (\<exists>l. log_of s' = log_of s @ l \<and> (\<forall>x\<in>set l. \<not> mutates_machine x)))"
proof -
  have rep: "post (report_dry_run (recording B) \<lparr>op_step = st\<rparr> k i) t (\<lambda>r s'.
     rs_progress s' = rs_progress t
     \<and> (\<exists>l. log_of s' = log_of t @ l \<and> (\<forall>x\<in>set l. \<not> mutates_machine x)))" for k i t
    unfolding report_dry_run_def
    by (cases i) (auto intro!: post_intros post_push_plan simp: mutates_machine_def)
  have insp: "post (inspect_and_run D (recording B) st) t (\<lambda>r s'.
     rs_progress s' = rs_progress t
     \<and> (\<exists>l. log_of s' = log_of t @ l \<and> (\<forall>x\<in>set l. \<not> mutates_machine x)))" for t
    unfolding inspect_and_run_def Let_def
    by (auto intro!: post_intros post_mono [OF rep] simp: dry) (auto simp: mutates_machine_def)
  show ?thesis
    unfolding run_step_stages skip_recorded_or_cancelled_def policy_and_run_def
      should_skip_for_policy_def
    by (cases "decision pr (tier st) (step_risk st)")
      (auto intro!: post_intros insp simp: dry record_skip_def)
qed

lemma dry_run_steps:
  assumes dry: "\<And>b. is_dry_run B b"
  shows "post (run_steps D (recording B) K pr sts) s (\<lambda>r s'.
     rs_progress s' = rs_progress s
     \<and> (\<exists>l. log_of s' = log_of s @ l \<and> (\<forall>x\<in>set l. \<not> mutates_machine x)))"
proof (induction sts arbitrary: s)
  case Nil
  show ?case by auto
next
  case (Cons st sts)
  show ?case
    unfolding run_steps.simps post_seq
    by (rule post_mono [OF dry_run_step [OF dry]])
      (auto split: result.splits intro!: post_mono [OF Cons.IH])
qed

lemma run_steps_resolved:
  "\<forall>st\<in>set sts. resolved (rs_progress s) (step_ident st) \<Longrightarrow> run_steps D B K pr sts s = (Ok (), s)"
  by (induction sts)
    (simp_all add: run_step_def skip_recorded_or_cancelled_def step_recorded_def resolved_def
      is_completed_def is_skipped_def has_advisory_def Let_def seq_def get_def ret_def)

lemma run_all_resolved:
  "\<forall>st\<in>set steps. resolved (eng_progress e) (step_ident st) \<Longrightarrow>
     run_with_control D B K steps pr c e = (Ok run_report_default, e, c)"
  by (simp add: run_with_control_def run_steps_resolved)

end
