(* ===== verification/Engine_Contract.thy ===== *)
theory Engine_Contract
  imports Engine_Facts
begin

text \<open>
  The engine seen from a backend: a property of the backend state that every method keeps is kept
  by every run, and a backend that only plans never has its progress touched.  The interface is
  the locale \<open>backend_contract\<close>; the recording backend and the planner are its instances.
\<close>

definition keeps :: "('b \<Rightarrow> bool) \<Rightarrow> ('b, 'v, 'c, 'a) action \<Rightarrow> bool" where
  "keeps Inv m \<longleftrightarrow> (\<forall>s. Inv (rs_backend s) \<longrightarrow> Inv (rs_backend (snd (m s))))"

named_theorems keeps_intros \<open>actions that keep a property of the backend\<close>

lemma keeps_seq [keeps_intros]:
  "keeps Inv m \<Longrightarrow> (\<And>x. keeps Inv (f x)) \<Longrightarrow> keeps Inv (seq m f)"
  by (fastforce simp: keeps_def seq_def split: prod.splits result.splits)

lemma keeps_catch [keeps_intros]:
  "keeps Inv m \<Longrightarrow> (\<And>e. keeps Inv (h e)) \<Longrightarrow> keeps Inv (catch m h)"
  by (fastforce simp: keeps_def catch_def split: prod.splits result.splits)

lemma keeps_call [keeps_intros]:
  "(\<And>b. Inv b \<Longrightarrow> Inv (snd (m b))) \<Longrightarrow> keeps Inv (call m e)"
  by (auto simp: keeps_def call_def Let_def case_prod_beta)

lemma keeps_basic [keeps_intros]:
  "keeps Inv (ret x)" "keeps Inv (fail e)" "keeps Inv (push v)" "keeps Inv count_completed"
  "keeps Inv count_skipped" "keeps Inv count_advisory" "keeps Inv count_failed"
  "keeps Inv (ask q)" "keeps Inv (set_progress p)" "keeps Inv (get g)"
  by (auto simp: keeps_def action_defs Let_def split: prod.splits)

lemma keeps_if [keeps_intros]:
  "keeps Inv m \<Longrightarrow> keeps Inv n \<Longrightarrow> keeps Inv (if c then m else n)"
  by simp

lemma keeps_push_plan [keeps_intros]: "keeps Inv (push_plan ls)"
  by (induction ls) (auto intro: keeps_intros)

locale backend_contract =
  fixes B :: "('b, 'v) backend" and Inv :: "'b \<Rightarrow> bool"
  assumes inspect_keeps: "Inv b \<Longrightarrow> Inv (snd (inspect B operation b))"
    and plan_keeps: "Inv b \<Longrightarrow> Inv (snd (plan B operation b))"
    and capture_backups_keeps: "Inv b \<Longrightarrow> Inv (snd (capture_backups B operation b))"
    and persist_backups_keeps: "Inv b \<Longrightarrow> Inv (snd (persist_backups B entries b))"
    and capture_audit_keeps: "Inv b \<Longrightarrow> Inv (snd (capture_pending_audit B operation b))"
    and persist_audit_keeps: "Inv b \<Longrightarrow> Inv (snd (persist_pending_audit B audit b))"
    and finalize_audit_keeps: "Inv b \<Longrightarrow> Inv (snd (finalize_audit B audit b))"
    and capture_irreversible_keeps:
      "Inv b \<Longrightarrow> Inv (snd (capture_pending_irreversible_audit B operation b))"
    and persist_irreversible_keeps:
      "Inv b \<Longrightarrow> Inv (snd (persist_pending_irreversible_audit B irreversible b))"
    and finalize_irreversible_keeps:
      "Inv b \<Longrightarrow> Inv (snd (finalize_irreversible_audit B irreversible b))"
    and fail_irreversible_keeps: "Inv b \<Longrightarrow> Inv (snd (fail_irreversible_audit B irreversible b))"
    and capture_evidence_keeps: "Inv b \<Longrightarrow> Inv (snd (capture_evidence B operation b))"
    and persist_evidence_keeps: "Inv b \<Longrightarrow> Inv (snd (persist_evidence B receipt b))"
    and verify_evidence_keeps: "Inv b \<Longrightarrow> Inv (snd (verify_evidence B operation receipt b))"
    and apply_keeps: "Inv b \<Longrightarrow> Inv (snd (apply_operation B operation b))"
    and verify_keeps: "Inv b \<Longrightarrow> Inv (snd (verify_operation B operation b))"
    and persist_progress_keeps: "Inv b \<Longrightarrow> Inv (snd (persist_progress B progress b))"
begin

lemmas methods_keep = inspect_keeps plan_keeps capture_backups_keeps persist_backups_keeps
  capture_audit_keeps persist_audit_keeps finalize_audit_keeps capture_irreversible_keeps
  persist_irreversible_keeps finalize_irreversible_keeps fail_irreversible_keeps
  capture_evidence_keeps persist_evidence_keeps verify_evidence_keeps apply_keeps verify_keeps
  persist_progress_keeps

lemma commit_keeps: "keeps Inv (commit_progress B k change)"
  unfolding commit_progress_def by (intro keeps_intros methods_keep)

lemma apply_and_verify_keeps: "keeps Inv (apply_and_verify B operation k)"
  unfolding apply_and_verify_def by (intro keeps_intros methods_keep)

lemma lossless_keeps: "keeps Inv (capture_lossless_backups B operation k)"
  unfolding capture_lossless_backups_def by (intro keeps_intros methods_keep)

lemma run_lossless_keeps: "keeps Inv (run_lossless_operation B operation k)"
  unfolding run_lossless_operation_def
  by (intro keeps_intros lossless_keeps apply_and_verify_keeps)

lemma run_evidence_keeps: "keeps Inv (run_evidence_operation D B operation k)"
  unfolding run_evidence_operation_def
  by (intro keeps_intros methods_keep) (auto intro: keeps_intros split: result.splits)

lemma run_rebuildable_keeps: "keeps Inv (run_rebuildable_operation B operation k)"
  unfolding run_rebuildable_operation_def
  by (intro keeps_intros methods_keep apply_and_verify_keeps)

lemma run_pending_irreversible_keeps:
  "keeps Inv (run_pending_irreversible_audit B operation k requirement)"
  unfolding run_pending_irreversible_audit_def on_apply_error_def
  by (intro keeps_intros methods_keep apply_and_verify_keeps)

lemma run_irreversible_keeps: "keeps Inv (run_irreversible_operation B operation k)"
  unfolding run_irreversible_operation_def
  by (intro keeps_intros lossless_keeps run_pending_irreversible_keeps)

lemma run_verification_keeps: "keeps Inv (run_verification D B operation k)"
  unfolding run_verification_def by (intro keeps_intros methods_keep run_evidence_keeps)

lemma run_mutation_keeps: "keeps Inv (run_mutation B operation k)"
  unfolding run_mutation_def
  by (intro keeps_intros)
    (auto intro: run_lossless_keeps run_rebuildable_keeps run_irreversible_keeps
      split: recovery_requirement.splits)

lemma record_skip_keeps: "keeps Inv (record_skip B st k persist)"
  unfolding record_skip_def by (intro keeps_intros commit_keeps)

lemma record_advisory_keeps: "keeps Inv (record_advisory B st k reason)"
  unfolding record_advisory_def by (intro keeps_intros commit_keeps)

lemma complete_live_step_keeps: "keeps Inv (complete_live_step B st k)"
  unfolding complete_live_step_def by (intro keeps_intros commit_keeps)

lemma run_live_step_keeps: "keeps Inv (run_live_step D B operation k i)"
  unfolding run_live_step_def Let_def
  by (cases i)
    (auto intro!: keeps_intros record_skip_keeps record_advisory_keeps complete_live_step_keeps
      run_verification_keeps run_mutation_keeps)

lemma report_dry_run_keeps: "keeps Inv (report_dry_run B operation k i)"
  unfolding report_dry_run_def
  by (cases i) (auto intro!: keeps_intros methods_keep)

lemma policy_keeps: "keeps Inv (should_skip_for_policy B K st pr)"
  unfolding should_skip_for_policy_def
  by (cases "decision pr (tier st) (step_risk st)") (auto intro!: keeps_intros)

lemma run_step_keeps: "keeps Inv (run_step D B K pr st)"
  unfolding run_step_def skip_recorded_or_cancelled_def Let_def
  by (intro keeps_intros policy_keeps record_skip_keeps methods_keep report_dry_run_keeps
      run_live_step_keeps)

lemma run_steps_keeps: "keeps Inv (run_steps D B K pr sts)"
  by (induction sts) (auto intro: keeps_intros run_step_keeps)

lemma run_keeps:
  "Inv (eng_backend e) \<Longrightarrow> Inv (eng_backend (fst (snd (run_with_control D B K steps pr c e))))"
  using run_steps_keeps [of D K pr steps] by (simp add: run_with_control_def keeps_def Let_def case_prod_beta)

end

text \<open>A backend that answers \<open>is_dry_run\<close> with true.\<close>

locale dry_backend = backend_contract +
  assumes dry: "is_dry_run B b"
begin

lemma dry_progress: "final_progress D B K steps pr c e = eng_progress e"
proof -
  let ?s = "\<lparr>rs_backend = (eng_backend e, []), rs_progress = eng_progress e,
     rs_report = run_report_default, rs_control = c\<rparr>"
  have "post (run_steps D (recording B) K pr steps) ?s (\<lambda>r s'. rs_progress s' = rs_progress ?s)"
    by (rule post_mono [OF dry_run_steps [OF dry]]) simp
  then show ?thesis
    using recorded_run_same [of D B K steps pr c e "[]"]
    by (auto simp: final_progress_def run_with_control_def post_def split: prod.splits)
qed

lemma dry_calls: "x \<in> set (call_log D B K steps pr c e) \<Longrightarrow> \<not> mutates_machine x"
proof -
  let ?s = "\<lparr>rs_backend = (eng_backend e, []), rs_progress = eng_progress e,
     rs_report = run_report_default, rs_control = c\<rparr>"
  have "post (run_steps D (recording B) K pr steps) ?s (\<lambda>r s'. \<forall>x\<in>set (log_of s'). \<not> mutates_machine x)"
    by (rule post_mono [OF dry_run_steps [OF dry]]) (auto simp: log_of_def)
  then have "\<forall>x\<in>set (call_log D B K steps pr c e). \<not> mutates_machine x"
    by (auto simp: call_log_def run_with_control_def post_def log_of_def split: prod.splits)
  then show "x \<in> set (call_log D B K steps pr c e) \<Longrightarrow> \<not> mutates_machine x" by blast
qed

end

text \<open>Recording only ever appends.\<close>

interpretation recorded_backend: backend_contract "recording B" "\<lambda>b. \<exists>m. snd b = l @ m"
  for B :: "('b, 'v) backend" and l
  by unfold_locales (auto simp: recorded_def Let_def split: prod.splits)

end
