(* ===== verification/Planner.thy ===== *)
theory Planner
  imports Engine_Contract Actions
begin

text \<open>
  The read-only backend of a dry run (\<open>crates/frametime-windows/src/backend/planner.rs\<close>): what it
  reports for every action, and its refusal of every capture, mutation, verification and
  persistence.  It is the instance of the engine's backend contract from which follows that a dry
  run changes neither the backend nor the progress.  The clock is a parameter.
\<close>

section \<open>Guide texts\<close>

definition guide_gpu_driver_clean_preparation :: string where
  "guide_gpu_driver_clean_preparation =
     ''Would present GPU driver-clean preparation: confirm the exact target GPU and signed replacement driver, and prepare Safe Mode and recovery first; no driver removal, handoff, reboot, files, or system settings will be changed.''"

definition guide_nvidia_profile_preparation :: string where
  "guide_nvidia_profile_preparation =
     ''Would perform a read-only NVIDIA DRS profile inspection and prepare a durable receipt; NVAPI, DRS profiles, registry settings, files, and system settings will not be changed.''"

definition guide_safe_mode_handoff :: string where
  "guide_safe_mode_handoff =
     ''Would publish the exact compiled payload into a protected immutable generation, visibly elevate its retained frametime.exe, and let that selected process bind HKLM RunOnce and Safe Boot before P1:38 progress; dry-run performs none of those effects.''"

definition guide_phase_three_handoff :: string where
  "guide_phase_three_handoff =
     ''Would require coherent P2:2 removal evidence, the initiating TokenUser, and the selected immutable runtime before binding the exact HKCU Phase 3 Run handoff; dry-run performs no registry or reboot effect.''"

definition guide_msi_preparation :: string where
  "guide_msi_preparation =
     ''Would present MSI preparation: use only specifically supported devices, record current state, then reboot and verify negotiated mode because a registry request does not prove MSI or MSI-X is active; no files or system settings will be changed.''"

definition guide_nic_affinity_preparation :: string where
  "guide_nic_affinity_preparation =
     ''Would present NIC-affinity preparation only after reproducible NIC DPC diagnosis and authoritative logical-processor topology validation; an unsuitable mask can increase latency or concentrate load, and no files or system settings will be changed.''"

definition guide_cs2_launch_video_guide :: string where
  "guide_cs2_launch_video_guide =
     ''Would present manual CS2 launch-options plus Raw latency, NVIDIA VRR, AMD FreeSync, and GPU-constrained video UI guidance; Steam launch options and CS2 video files will not be written.''"

definition guide_amd_radeon_guide :: string where
  "guide_amd_radeon_guide =
     ''Would present AMD Radeon guidance: verify current AMD and game documentation, including anti-cheat compatibility, before enabling driver features; firmware, AMD settings, files, and system settings will not be changed.''"

definition guide_vram_usage_guide :: string where
  "guide_vram_usage_guide =
     ''Would present same-workload VRAM observation guidance; no telemetry is collected and no files or system settings will be changed.''"

definition guide_final_checklist_guide :: string where
  "guide_final_checklist_guide =
     ''Would present the final checklist without requiring optional hardware observations; no files or system settings will be changed.''"

fun plan_guide :: "action \<Rightarrow> string option" where
  "plan_guide ActGpuDriverCleanPreparation = Some guide_gpu_driver_clean_preparation"
| "plan_guide ActNvidiaProfilePreparation = Some guide_nvidia_profile_preparation"
| "plan_guide ActSafeModeHandoff = Some guide_safe_mode_handoff"
| "plan_guide ActPhaseThreeHandoff = Some guide_phase_three_handoff"
| "plan_guide ActMsiPreparation = Some guide_msi_preparation"
| "plan_guide ActNicAffinityPreparation = Some guide_nic_affinity_preparation"
| "plan_guide ActCs2LaunchVideoGuide = Some guide_cs2_launch_video_guide"
| "plan_guide ActAmdRadeonGuide = Some guide_amd_radeon_guide"
| "plan_guide ActVramUsageGuide = Some guide_vram_usage_guide"
| "plan_guide ActFinalChecklistGuide = Some guide_final_checklist_guide"
| "plan_guide _ = None"

section \<open>The backend\<close>

record planner_backend =
  planner_gpu_branch :: u8

definition planner_new :: "u8 \<Rightarrow> planner_backend" where
  "planner_new branch = \<lparr>planner_gpu_branch = branch\<rparr>"

text \<open>The branches of \<open>inspect\<close> for a supported action.\<close>

fun planned_inspection :: "action \<Rightarrow> inspection" where
  "planned_inspection ActFpsCapInfo = InspectSatisfied"
| "planned_inspection ActGpuDriverCleanPreparation = InspectSatisfied"
| "planned_inspection ActNvidiaProfilePreparation = InspectSatisfied"
| "planned_inspection ActSafeModeHandoff = InspectSatisfied"
| "planned_inspection ActPhaseThreeHandoff = InspectSatisfied"
| "planned_inspection ActMsiPreparation = InspectSatisfied"
| "planned_inspection ActNicAffinityPreparation = InspectSatisfied"
| "planned_inspection ActCs2LaunchVideoGuide = InspectSatisfied"
| "planned_inspection ActAmdRadeonGuide = InspectSatisfied"
| "planned_inspection ActVramUsageGuide = InspectSatisfied"
| "planned_inspection ActFinalChecklistGuide = InspectSatisfied"
| "planned_inspection ActObserveConfigState = InspectNeedsApply"
| "planned_inspection ActObserveGpuInventory = InspectNeedsApply"
| "planned_inspection ActObserveChipsetDriver = InspectNeedsApply"
| "planned_inspection _ = InspectNeedsApply"

definition planner_inspect :: "operation \<Rightarrow> planner_backend \<Rightarrow> (inspection, string) result" where
  "planner_inspect operation b =
     and_then (gpu_branch_try_from (planner_gpu_branch b)) (\<lambda>branch.
     if \<not> plan_applicable (plan_for_step (op_step operation) branch) then Ok InspectInapplicable
     else
     and_then (descriptor_for (op_step operation)) (\<lambda>descriptor.
     case ad_capability descriptor of
       AdvisoryOnly reason \<Rightarrow> Ok (InspectAdvisory reason)
     | Supported \<Rightarrow> Ok (planned_inspection (ad_action descriptor))))"

definition operation_key :: "operation \<Rightarrow> string" where
  "operation_key operation = progress_key (step_ident (op_step operation))"

definition planner_plan :: "operation \<Rightarrow> planner_backend \<Rightarrow> (string list, string) result" where
  "planner_plan operation b =
     (let k = operation_key operation; name = title (op_step operation) in
      and_then (gpu_branch_try_from (planner_gpu_branch b)) (\<lambda>branch.
      if \<not> plan_applicable (plan_for_step (op_step operation) branch)
      then Ok [''Would skip inapplicable '' @ k @ '' ('' @ name @ '') for '' @ gpu_branch_label branch
               @ ''; no files or system settings will be changed.'']
      else
      and_then (descriptor_for (op_step operation)) (\<lambda>descriptor.
      if ad_action descriptor = ActFpsCapInfo
      then Ok [''Would report '' @ k @ '' ('' @ name
               @ '') and that the final step will calculate the FPS cap; no files or system settings will be changed.'']
      else (case plan_guide (ad_action descriptor) of
        Some guide \<Rightarrow> Ok [''Would report '' @ k @ '' ('' @ guide @ '').'']
      | None \<Rightarrow>
          if ad_action descriptor = ActBaselineBenchmark
          then Ok [''Would require a complete VProf capture through baseline-benchmark for '' @ k
                   @ '' ('' @ name @ ''); no files or system settings will be changed.'']
          else if ad_action descriptor = ActFinalBenchmark
          then Ok [''Would require a complete VProf capture through final-benchmark for '' @ k @ '' (''
                   @ name @ '') and perform zero persistence; no files or system settings will be changed.'']
          else if ad_action descriptor = ActObserveMemoryTopology
          then Ok [''Would observe '' @ k @ '' ('' @ name
                   @ '') from SMBIOS firmware channel associations only; no active channel mode is inferred and zero persistence, files, or system settings will be changed.'']
          else (case ad_capability descriptor of
            AdvisoryOnly reason \<Rightarrow>
              Ok [k @ '' is advisory and unverified: '' @ reason
                  @ ''; no files or system settings will be changed.'']
          | Supported \<Rightarrow>
              Ok [''Would plan '' @ k @ '' ('' @ name @ '') for '' @ gpu_branch_label branch
                  @ ''; requires '' @ required_inputs_label (ad_required_inputs descriptor)
                  @ ''; no files or system settings will be changed.''])))))"

definition planner :: "string \<Rightarrow> (planner_backend, 'v) backend" where
  "planner now =
     with_trait_defaults
     \<lparr>is_dry_run = \<lambda>_. True,
      inspect = \<lambda>operation b. (planner_inspect operation b, b),
      plan = \<lambda>operation b. (planner_plan operation b, b),
      capture_backups = \<lambda>_. refuse ''planner backend does not capture or persist backups'',
      persist_backups = \<lambda>_. refuse ''planner backend performs zero persistence'',
      recovery_requirement_of = \<lambda>_ _. LosslessBackup,
      capture_pending_audit = \<lambda>_. refuse [],
      persist_pending_audit = \<lambda>_. refuse [],
      finalize_audit = \<lambda>_. refuse [],
      capture_pending_irreversible_audit = \<lambda>_. refuse [],
      persist_pending_irreversible_audit = \<lambda>_. refuse [],
      finalize_irreversible_audit = \<lambda>_. refuse [],
      fail_irreversible_audit = \<lambda>_. refuse [],
      evidence_requirement_of = \<lambda>_ _. EvidenceNone,
      capture_evidence = \<lambda>_. refuse [],
      persist_evidence = \<lambda>_. refuse [],
      verify_evidence = \<lambda>_ _. refuse [],
      apply_operation = \<lambda>_. refuse ''planner backend does not apply changes'',
      verify_operation = \<lambda>_. refuse ''planner backend does not verify live state'',
      persist_progress = \<lambda>_. refuse ''planner backend performs zero persistence'',
      timestamp_of = \<lambda>_. now\<rparr>"

section \<open>The planner is a dry backend\<close>

lemma planner_simps [simp]:
  "is_dry_run (planner now) b"
  "inspect (planner now) operation b = (planner_inspect operation b, b)"
  "plan (planner now) operation b = (planner_plan operation b, b)"
  by (simp_all add: planner_def with_trait_defaults_def)

interpretation planner_backend: dry_backend "planner now" "\<lambda>b. b = b0"
  for now :: string and b0 :: planner_backend
  by unfold_locales (simp_all add: planner_def with_trait_defaults_def refuse_def)

section \<open>Dry runs over the catalog\<close>

definition planned ::
  "(planner_backend, 'v, 'c) run_state \<Rightarrow> (unit, engine_error) result
   \<Rightarrow> (planner_backend, 'v, 'c) run_state \<Rightarrow> bool" where
  "planned s r s' \<longleftrightarrow>
     r = Ok () \<and> rs_backend s' = rs_backend s \<and> rs_progress s' = rs_progress s
     \<and> rs_control s' = rs_control s"

lemma planner_inspect_total:
  assumes "gpu_branch_try_from (planner_gpu_branch b) = Ok branch" and "descriptor_for st = Ok d"
  shows "\<exists>i. planner_inspect \<lparr>op_step = st\<rparr> b = Ok i"
    and "\<exists>lines. planner_plan \<lparr>op_step = st\<rparr> b = Ok lines"
  using assms
  by (auto simp: planner_inspect_def planner_plan_def Let_def split: capability.splits option.splits)

lemma planner_methods:
  "plan (planner now) operation = (\<lambda>b. (planner_plan operation b, b))"
  "inspect (planner now) operation = (\<lambda>b. (planner_inspect operation b, b))"
  by (simp_all add: fun_eq_iff)

lemma post_planner_call:
  "post (call (\<lambda>b. (f b, b)) e) s Q \<longleftrightarrow>
     (case f (rs_backend s) of Ok x \<Rightarrow> Q (Ok x) s | Err m \<Rightarrow> Q (Err (e m)) s)"
  by (cases "f (rs_backend s)") (simp_all add: post_def call_def)

lemma post_report_planned:
  "planned s (Ok ()) t \<Longrightarrow> post (push v) t (planned s)"
  "planned s (Ok ()) t \<Longrightarrow> post count_completed t (planned s)"
  "planned s (Ok ()) t \<Longrightarrow> post count_skipped t (planned s)"
  "planned s (Ok ()) t \<Longrightarrow> post count_advisory t (planned s)"
  "planned s (Ok ()) t \<Longrightarrow> post count_failed t (planned s)"
  by (auto intro!: post_report simp: planned_def)

lemma run_step_planned:
  assumes "gpu_branch_try_from (planner_gpu_branch (rs_backend s)) = Ok branch"
    and "descriptor_for st = Ok d"
  shows "post (run_step D (planner now) K pr st) s (planned s)"
proof -
  obtain i ls where i: "planner_inspect \<lparr>op_step = st\<rparr> (rs_backend s) = Ok i"
      "planner_plan \<lparr>op_step = st\<rparr> (rs_backend s) = Ok ls"
    using planner_inspect_total [OF assms] by blast
  have report: "post (report_dry_run (planner now) \<lparr>op_step = st\<rparr> k i) (s\<lparr>rs_report := rp\<rparr>)
      (planned s)" for k rp
    unfolding report_dry_run_def
    by (cases i)
      (auto simp: planner_methods post_planner_call i(2) intro!: post_push_plan post_report simp: planned_def)
  show ?thesis
    unfolding run_step_stages skip_recorded_or_cancelled_def policy_and_run_def
      should_skip_for_policy_def inspect_and_run_def Let_def
    by (cases "decision pr (tier st) (step_risk st)")
      (auto simp: planner_methods post_planner_call i(1) record_skip_def planned_def
        intro!: post_report report)
qed

lemma run_steps_planned:
  assumes "gpu_branch_try_from (planner_gpu_branch (rs_backend s)) = Ok branch"
    and "\<forall>st\<in>set sts. \<exists>d. descriptor_for st = Ok d"
  shows "post (run_steps D (planner now) K pr sts) s (planned s)"
  using assms
proof (induction sts arbitrary: s)
  case Nil
  show ?case by (simp add: planned_def)
next
  case (Cons st sts)
  then obtain d where d: "descriptor_for st = Ok d" by auto
  have rest: "post (run_steps D (planner now) K pr sts) t (planned s)" if "planned s (Ok ()) t" for t
    by (rule post_mono [OF Cons.IH]) (use that Cons.prems in \<open>auto simp: planned_def\<close>)
  show ?case
    unfolding run_steps.simps post_seq
    by (rule post_mono [OF run_step_planned [OF Cons.prems(1) d]])
      (use rest in \<open>auto simp: planned_def\<close>)
qed

lemma catalog_descriptor: "st \<in> set STEPS \<Longrightarrow> \<exists>d. descriptor_for st = Ok d"
  using descriptors_total
  by (cases "descriptor_for st") (auto simp: list_all_iff descriptor_holds_def)

end
