(* ===== verification/App_Workflow.thy ===== *)
theory App_Workflow
  imports App_Benchmark Engine Planner
begin

text \<open>
  The phases as the application runs them (\<open>crates/frametime-app/src/workflow.rs\<close>,
  \<open>workflow/live_commands.rs\<close>, \<open>actions.rs\<close>): every command loads the documents, inspects the machine,
  asks the guards, and only then calls the platform.  The public functions of \<open>frametime-windows\<close> that it
  imports are a record, an argument of every command.
\<close>

section \<open>The platform\<close>

datatype (plugins only: code size) ('p, 'v) authority =
    AuthorityPackage 'p
  | AuthorityRuntime "'v selected_runtime"

datatype (plugins only: code size) cleanup_mode = CleanupQuick | CleanupFull | CleanupDriver

record ('w, 'v, 'p, 'x) application =
  ap_benchmark :: "('w, 'v, 'p) benchmark_calls"
  ap_current_boot_mode :: "('w, string, boot_mode) io"
  ap_retain_selected_runtime :: "('w, string, 'v selected_runtime) io"
  ap_runtime_config :: "'v selected_runtime \<Rightarrow> config"
  ap_load_state :: "('w, string, 'v state) io"
  ap_load_progress :: "('w, string, 'v progress) io"
  ap_inspect_handoff :: "('w, string, reboot_handoff_state) io"
  ap_inventory_incomplete :: "'w \<Rightarrow> bool \<times> 'w"
  ap_final_status :: "('w, string, 'v final_benchmark_status) io"
  ap_arm_safe_mode :: "'v selected_runtime \<Rightarrow> ('w, string, unit) io"
  ap_complete_safe_boot_clear :: "'v selected_runtime \<Rightarrow> ('w, string, unit) io"
  ap_arm_phase_three :: "'v selected_runtime \<Rightarrow> ('w, string, unit) io"
  ap_clear_phase_three :: "'v selected_runtime \<Rightarrow> ('w, string, unit) io"
  ap_relaunch_phase_three :: "'v selected_runtime \<Rightarrow> ('w, string, unit) io"
  ap_publish :: "'p \<Rightarrow> ('w, string, 'v selected_runtime) io"
  ap_launch :: "'v selected_runtime \<Rightarrow> ('w, string, unit) io"
  ap_construct :: "('p, 'v) authority \<Rightarrow> ('w, string, unit) io"
  ap_run_engine :: "('p, 'v) authority \<Rightarrow> step list \<Rightarrow> profile \<Rightarrow> 'v progress \<Rightarrow> bool \<Rightarrow> ('w, engine_error, run_report) io"
  ap_step_messages :: "step list \<Rightarrow> 'v state \<Rightarrow> (string list, string) result"
  ap_prompt :: "step \<Rightarrow> 'w \<Rightarrow> bool \<times> 'w"
  ap_configure_profile :: "'p \<Rightarrow> profile \<Rightarrow> bool \<Rightarrow> ('w, string, 'v state) io"
  ap_deploy_cfgs :: "'p \<Rightarrow> 'x list \<Rightarrow> ('w, string, string list) io"
  ap_cleanup :: "cleanup_mode \<Rightarrow> 'p \<Rightarrow> ('w, string, unit) io"
  ap_restore :: "('p, 'v) authority \<Rightarrow> ('w, string, unit) io"
  ap_reset_progress :: "'p \<Rightarrow> ('w, string, unit) io"

type_synonym messages = "string list"

section \<open>Guards\<close>

definition require_yes :: "bool \<Rightarrow> string \<Rightarrow> (unit, application_error) result" where
  "require_yes yes command = ensure yes (AppInvalid (command @ '' requires --yes''))"

fun boot_mode_text :: "boot_mode \<Rightarrow> string" where
  "boot_mode_text ModeNormal = ''Normal''"
| "boot_mode_text ModeSafeMode = ''SafeMode''"

definition require_boot_mode ::
  "('w, 'v, 'p, 'x) application \<Rightarrow> boot_mode \<Rightarrow> string \<Rightarrow> ('w, application_error, unit) io" where
  "require_boot_mode A expected command =
     io_bind (failing (ap_current_boot_mode A)) (\<lambda>actual.
     if actual = expected then io_ret ()
     else io_fail (AppFailed (command @ '' requires '' @ boot_mode_text expected @ '' boot; current boot is ''
       @ boot_mode_text actual)))"

definition require_selected_runtime ::
  "('w, 'v, 'p, 'x) application \<Rightarrow> string \<Rightarrow> ('w, application_error, 'v selected_runtime) io" where
  "require_selected_runtime A command =
     io_map_err (\<lambda>e. AppFailed (command @ '' requires the retained verified selected runtime: '' @ e))
       (ap_retain_selected_runtime A)"

definition load_session ::
  "('w, 'v, 'p, 'x) application \<Rightarrow> ('w, application_error, 'v state \<times> 'v progress) io" where
  "load_session A =
     io_bind (failing (ap_load_state A)) (\<lambda>s.
     io_bind (failing (ap_load_progress A)) (\<lambda>p. io_ret (s, p)))"

definition state_has_reboot_transaction :: "'v state \<Rightarrow> bool" where
  "state_has_reboot_transaction s \<longleftrightarrow>
     phase1_safe_mode_ready s \<or> active_reboot_transaction s \<noteq> None
     \<or> contains_key (st_unknown s) ''activeRebootTransaction''"

definition require_clean_native_reboot_state ::
  "('w, 'v, 'p, 'x) application \<Rightarrow> string \<Rightarrow> ('w, application_error, unit) io" where
  "require_clean_native_reboot_state A command =
     io_bind (failing (ap_inspect_handoff A)) (\<lambda>native.
     io_bind (failing (ap_load_state A)) (\<lambda>s.
     if rh_boot_mode native = BootModeNormal \<and> rh_safeboot native = SafebootAbsent
        \<and> rh_phase2_runonce_armed native = NativeAbsent \<and> rh_phase3_run_armed native = NativeAbsent
        \<and> \<not> state_has_reboot_transaction s
     then io_ret ()
     else io_fail (AppFailed (command @
       '' refused because the native reboot transaction is armed or could not be completely inspected''))))"

definition migration_inventory_from_native :: "reboot_handoff_state \<Rightarrow> bool \<Rightarrow> migration_inventory" where
  "migration_inventory_from_native native incomplete =
     \<lparr>phase_two_run_once_armed = (rh_phase2_runonce_armed native = NativeVerified),
      phase_three_run_armed = (rh_phase3_run_armed native = NativeVerified),
      safe_boot_armed = (case rh_safeboot native of SafebootConfigured _ \<Rightarrow> True | _ \<Rightarrow> False),
      incomplete_runtime = (incomplete \<or> rh_phase2_runonce_armed native = NativeUnavailable
        \<or> rh_phase3_run_armed native = NativeUnavailable \<or> rh_safeboot native = SafebootUnavailable)\<rparr>"

fun require_migration_decision :: "migration_decision \<Rightarrow> bool \<Rightarrow> (unit, application_error) result" where
  "require_migration_decision NotNeeded _ = Ok ()"
| "require_migration_decision ConfirmIdle yes = require_yes yes ''optimize legacy Phase 1 migration''"
| "require_migration_decision (ConfirmPartialPhaseOne n m) yes =
     (if yes then Ok () else Err (AppMigrationPartial n m))"
| "require_migration_decision (Refuse reason) _ = Err (AppMigrationRefused reason)"

definition require_legacy_phase_one_migration ::
  "('w, 'v, 'p, 'x) application \<Rightarrow> 'v state \<Rightarrow> 'v progress \<Rightarrow> bool \<Rightarrow> ('w, application_error, unit) io" where
  "require_legacy_phase_one_migration A s p yes =
     io_bind (failing (ap_inspect_handoff A)) (\<lambda>native.
     io_bind (io_call (ap_inventory_incomplete A)) (\<lambda>incomplete.
     io_check (require_migration_decision
       (assess_inventory (Some s) (Some p) (migration_inventory_from_native native incomplete)) yes)))"

section \<open>Authorization\<close>

fun map_native_evidence :: "native_evidence \<Rightarrow> evidence" where
  "map_native_evidence NativeVerified = EvidenceVerified"
| "map_native_evidence NativeAbsent = EvidenceAbsent"
| "map_native_evidence NativeUnavailable = EvidenceUnavailable"

fun final_benchmark_evidence :: "'v final_benchmark_status \<Rightarrow> evidence" where
  "final_benchmark_evidence FinalAbsent = EvidenceAbsent"
| "final_benchmark_evidence (FinalCoherent _) = EvidenceVerified"
| "final_benchmark_evidence (FinalIncoherent _) = EvidenceUnavailable"

fun observed_boot :: "boot_mode_evidence \<Rightarrow> boot_environment option" where
  "observed_boot BootModeNormal = Some BootNormal"
| "observed_boot BootModeSafeMode = Some BootSafeMode"
| "observed_boot BootModeUnavailable = None"

fun expected_boot :: "boot_mode \<Rightarrow> boot_environment" where
  "expected_boot ModeNormal = BootNormal"
| "expected_boot ModeSafeMode = BootSafeMode"

fun safe_boot_evidence :: "safeboot_evidence \<Rightarrow> evidence" where
  "safe_boot_evidence (SafebootConfigured _) = EvidenceVerified"
| "safe_boot_evidence SafebootAbsent = EvidenceAbsent"
| "safe_boot_evidence SafebootUnavailable = EvidenceUnavailable"

definition native_facts ::
  "reboot_handoff_state \<Rightarrow> boot_environment \<Rightarrow> runtime_binding \<Rightarrow> 'v state \<Rightarrow> evidence \<Rightarrow> phase_facts" where
  "native_facts native boot runtime s final_persisted =
     \<lparr>facts_boot = boot,
      facts_runtime =
        (if runtime = VerifiedSelectedExecutable \<and> rh_selected_runtime_binding native = NativeVerified
         then VerifiedSelectedExecutable else RuntimeUnavailable),
      facts_handoff =
        \<lparr>phase_two_run_once = map_native_evidence (rh_phase2_runonce_armed native),
         phase_three_run = map_native_evidence (rh_phase3_run_armed native),
         safe_boot = safe_boot_evidence (rh_safeboot native),
         phase_three_same_user = map_native_evidence (rh_phase3_handoff_same_user native)\<rparr>,
      phase_one_safe_mode_ready = phase1_safe_mode_ready s,
      final_benchmark_persisted = final_persisted\<rparr>"

definition authorize_live_with_final_benchmark_evidence ::
  "('w, 'v, 'p, 'x) application \<Rightarrow> phase_request \<Rightarrow> 'v state \<Rightarrow> 'v progress \<Rightarrow> boot_mode \<Rightarrow> runtime_binding
     \<Rightarrow> evidence \<Rightarrow> ('w, application_error, transition) io" where
  "authorize_live_with_final_benchmark_evidence A request s p boot runtime final_persisted =
     io_bind (failing (ap_inspect_handoff A)) (\<lambda>native.
     io_bind (io_check (ok_or
       (AppFailed ''native reboot-state inspection could not determine the current boot mode'')
       (observed_boot (rh_boot_mode native)))) (\<lambda>observed.
     if observed \<noteq> expected_boot boot
     then io_fail (AppFailed ''native reboot-state evidence disagrees with the command boot-mode preflight'')
     else
       io_check (map_err (AppRefused request)
         (authorize request s p (native_facts native observed runtime s final_persisted)))))"

definition authorize_live ::
  "('w, 'v, 'p, 'x) application \<Rightarrow> phase_request \<Rightarrow> 'v state \<Rightarrow> 'v progress \<Rightarrow> boot_mode \<Rightarrow> runtime_binding
     \<Rightarrow> ('w, application_error, transition) io" where
  "authorize_live A request s p boot runtime =
     io_match (ap_final_status A) (\<lambda>status.
     authorize_live_with_final_benchmark_evidence A request s p boot runtime
       (case status of Ok v \<Rightarrow> final_benchmark_evidence v | Err _ \<Rightarrow> EvidenceUnavailable))"

section \<open>Running the engine\<close>

definition run_live_steps ::
  "('w, 'v, 'p, 'x) application \<Rightarrow> (step \<Rightarrow> bool) \<Rightarrow> profile \<Rightarrow> 'v progress \<Rightarrow> bool \<Rightarrow> ('p, 'v) authority
     \<Rightarrow> ('w, application_error, messages) io" where
  "run_live_steps A keep profile p yes authority =
     (let steps = filter keep STEPS in
     io_bind (failing (ap_construct A authority)) (\<lambda>_.
     io_bind (io_map_err AppEngine (ap_run_engine A authority steps profile p yes)) (\<lambda>report.
     io_bind (failing (ap_load_state A)) (\<lambda>s.
     io_bind (io_check (map_err AppFailed (ap_step_messages A steps s))) (\<lambda>more.
     io_ret ((''Completed: '' @ dec (completed report) @ ''; skipped: '' @ dec (skipped report)
       @ ''; advisories: '' @ dec (advisory_count report)) # more))))))"

section \<open>The phases\<close>

definition is_phase_one_engine_step :: "step \<Rightarrow> bool" where
  "is_phase_one_engine_step st \<longleftrightarrow> id_phase (step_ident st) = PhaseOne \<and> step_role st = RoleEngine"

definition run_phase_one ::
  "('w, 'v, 'p, 'x) application \<Rightarrow> bool \<Rightarrow> 'p \<Rightarrow> ('w, application_error, messages) io" where
  "run_phase_one A yes package =
     io_bind (require_boot_mode A ModeNormal ''optimize'') (\<lambda>_.
     io_bind (load_session A) (\<lambda>(s, p).
     io_bind (require_legacy_phase_one_migration A s p yes) (\<lambda>_.
     io_bind (authorize_live A RequestOptimize s p ModeNormal RuntimeUnavailable) (\<lambda>_.
     io_bind (run_live_steps A is_phase_one_engine_step (st_profile s) p yes (AuthorityPackage package)) (\<lambda>summary.
     io_bind (load_session A) (\<lambda>(_, p').
     io_bind (io_check (map_err AppUnresolved (require_phase_one_handoff_ready p'))) (\<lambda>_.
     io_bind (io_check (ok_or (AppFailed ''P1:38 is absent from the compiled catalog'')
       (step_by_id PHASE_ONE_SAFE_MODE_HANDOFF))) (\<lambda>handoff.
     io_bind (if yes then io_ret True else io_call (ap_prompt A handoff)) (\<lambda>agreed.
     if \<not> agreed
     then io_ret (summary @
       [''P1:38 was not armed; rerun optimize to publish the protected runtime and continue.''])
     else
       io_bind (failing (ap_publish A package)) (\<lambda>runtime.
       io_bind (failing (ap_launch A runtime)) (\<lambda>_.
       io_bind (load_session A) (\<lambda>(_, p'').
       if \<not> is_completed p'' PHASE_ONE_SAFE_MODE_HANDOFF
       then io_fail (AppFailed ''the selected runtime exited without durably completing P1:38'')
       else io_ret (summary @
         [''Published protected runtime generation '' @ rt_generation (sr_record runtime) @ ''.'',
          ''P1:38 Safe Mode handoff is armed; restart Windows to continue Phase 2.''])))))))))))))"

definition run_boot_safe_mode ::
  "('w, 'v, 'p, 'x) application \<Rightarrow> bool \<Rightarrow> ('w, application_error, messages) io" where
  "run_boot_safe_mode A yes =
     io_bind (io_check (require_yes yes ''boot-safe-mode'')) (\<lambda>_.
     io_bind (require_boot_mode A ModeNormal ''boot-safe-mode'') (\<lambda>_.
     io_bind (require_selected_runtime A ''boot-safe-mode'') (\<lambda>runtime.
     io_bind (load_session A) (\<lambda>(s, p).
     io_bind (authorize_live A RequestArmSafeMode s p ModeNormal VerifiedSelectedExecutable) (\<lambda>transition.
     if transition = ArmSafeMode True
     then io_bind (failing (ap_arm_safe_mode A runtime)) (\<lambda>_. io_ret [])
     else io_fail (AppUnreachable ''core returned an unexpected safe-mode transition''))))))"

definition run_phase_two ::
  "('w, 'v, 'p, 'x) application \<Rightarrow> bool \<Rightarrow> ('w, application_error, messages) io" where
  "run_phase_two A yes =
     io_bind (require_boot_mode A ModeSafeMode ''phase2'') (\<lambda>_.
     io_bind (require_selected_runtime A ''phase2'') (\<lambda>runtime.
     io_bind (load_session A) (\<lambda>(s, p).
     io_bind (authorize_live A RequestPhaseTwo s p ModeSafeMode VerifiedSelectedExecutable) (\<lambda>transition.
     case transition of
       RunPhaseTwoStepOne \<Rightarrow> io_bind (failing (ap_complete_safe_boot_clear A runtime)) (\<lambda>_. io_ret [])
     | RunRemainingPhaseTwo \<Rightarrow>
         io_bind (run_live_steps A (\<lambda>st. step_ident st = PHASE_TWO_DRIVER_CLEANUP) (st_profile s) p yes
           (AuthorityRuntime runtime)) (\<lambda>summary.
         io_bind (load_session A) (\<lambda>(_, p').
         io_bind (if is_completed p' PHASE_TWO_DRIVER_CLEANUP then failing (ap_arm_phase_three A runtime)
                  else io_ret ()) (\<lambda>_.
         io_ret summary)))
     | _ \<Rightarrow> io_fail (AppUnreachable ''core returned an unexpected Phase 2 transition'')))))"

datatype (plugins only: code size) 'v receipt_route = RunTheEngine | ReceiptComplete "'v final_benchmark_receipt"

definition incoherent_receipt :: "string \<Rightarrow> application_error" where
  "incoherent_receipt e = AppFailed (''P3:13 receipt is incoherent and was not repaired: '' @ e)"

fun phase_three_receipt_route :: "'v final_benchmark_status \<Rightarrow> ('v receipt_route, application_error) result" where
  "phase_three_receipt_route FinalAbsent = Ok RunTheEngine"
| "phase_three_receipt_route (FinalCoherent receipt) = Ok (ReceiptComplete receipt)"
| "phase_three_receipt_route (FinalIncoherent e) = Err (incoherent_receipt e)"

definition is_phase_three_engine_step :: "step \<Rightarrow> bool" where
  "is_phase_three_engine_step st \<longleftrightarrow> id_phase (step_ident st) = PhaseThree \<and> step_role st = RoleEngine"

definition coherent_receipt_message :: "'v final_benchmark_receipt \<Rightarrow> string" where
  "coherent_receipt_message r =
     ''P3:13 final benchmark receipt is coherent: '' @ transaction_id_as_str (fb_receipt_id r) @ ''.''"

text \<open>The phase three handoff is cleared for documents that show the persisted final benchmark.\<close>

definition authorize_and_clear ::
  "('w, 'v, 'p, 'x) application \<Rightarrow> 'v selected_runtime \<Rightarrow> 'v state \<Rightarrow> 'v progress
     \<Rightarrow> ('w, application_error, unit) io" where
  "authorize_and_clear A runtime s p =
     io_bind (authorize_live_with_final_benchmark_evidence A RequestClearPhaseThreeHandoff s p ModeNormal
       VerifiedSelectedExecutable EvidenceVerified) (\<lambda>_.
     failing (ap_clear_phase_three A runtime))"

definition run_phase_three ::
  "('w, 'v, 'p, 'x) application \<Rightarrow> bool \<Rightarrow> ('w, application_error, messages) io" where
  "run_phase_three A yes =
     io_bind (require_boot_mode A ModeNormal ''phase3'') (\<lambda>_.
     io_bind (require_selected_runtime A ''phase3'') (\<lambda>runtime.
     io_bind (load_session A) (\<lambda>(s, p).
     io_bind (failing (ap_final_status A)) (\<lambda>status.
     io_bind (io_check (phase_three_receipt_route status)) (\<lambda>route.
     case route of
       ReceiptComplete receipt \<Rightarrow>
         io_bind (authorize_and_clear A runtime s p) (\<lambda>_. io_ret [coherent_receipt_message receipt])
     | RunTheEngine \<Rightarrow>
         io_bind (authorize_live_with_final_benchmark_evidence A RequestPhaseThree s p ModeNormal
           VerifiedSelectedExecutable EvidenceAbsent) (\<lambda>_.
         io_bind (run_live_steps A is_phase_three_engine_step (st_profile s) p yes (AuthorityRuntime runtime)) (\<lambda>summary.
         io_bind (failing (ap_final_status A)) (\<lambda>status'.
         case status' of
           FinalAbsent \<Rightarrow> io_fail (AppFailed
             ''P3:13 is not persisted; run `frametime final-benchmark` with one complete VProf capture'')
         | FinalCoherent receipt \<Rightarrow>
             io_bind (load_session A) (\<lambda>(s', p').
             io_bind (authorize_and_clear A runtime s' p') (\<lambda>_.
             io_ret (summary @ [coherent_receipt_message receipt])))
         | FinalIncoherent e \<Rightarrow> io_fail (incoherent_receipt e)))))))))"

definition run_final_benchmark ::
  "('w, 'v, 'p, 'x) application \<Rightarrow> vprof_request \<Rightarrow> ('w, application_error, 'v benchmark_outcome) io" where
  "run_final_benchmark A q =
     io_bind (read_final_benchmark_capture (ap_benchmark A) q) (\<lambda>c.
     io_bind (require_boot_mode A ModeNormal ''final-benchmark'') (\<lambda>_.
     io_bind (require_selected_runtime A ''final-benchmark'') (\<lambda>runtime.
     io_bind (load_session A) (\<lambda>(s, p).
     io_bind (authorize_live A RequestFinalBenchmark s p ModeNormal VerifiedSelectedExecutable) (\<lambda>_.
     io_bind (persist_final_benchmark_capture (ap_benchmark A) (ap_runtime_config A runtime) c) (\<lambda>outcome.
     io_bind (load_session A) (\<lambda>(s', p').
     io_bind (authorize_and_clear A runtime s' p') (\<lambda>_.
     io_ret outcome))))))))"

definition run_phase_three_handoff ::
  "('w, 'v, 'p, 'x) application \<Rightarrow> ('w, application_error, messages) io" where
  "run_phase_three_handoff A =
     io_bind (require_boot_mode A ModeNormal ''phase3-handoff'') (\<lambda>_.
     io_bind (require_selected_runtime A ''phase3-handoff'') (\<lambda>runtime.
     io_bind (load_session A) (\<lambda>(s, p).
     io_bind (authorize_live A RequestPhaseThree s p ModeNormal VerifiedSelectedExecutable) (\<lambda>_.
     io_bind (failing (ap_relaunch_phase_three A runtime)) (\<lambda>_.
     io_ret [])))))"

end
