(* ===== verification/App_Safety.thy ===== *)
theory App_Safety
  imports App_Workflow
begin

text \<open>
  What the commands of the application may fail with: the arms marked \<open>unreachable!\<close> are never taken, because
  the guards of the domain answer a request only with the transitions that belong to it.
\<close>

section \<open>Actions without a panic\<close>

definition panics_not :: "('w, application_error, 'a) io \<Rightarrow> bool" where
  "panics_not m \<longleftrightarrow> (\<forall>w msg. fst (m w) \<noteq> Err (AppUnreachable msg))"

named_theorems panics_not_intros \<open>composed actions without a panic\<close>

lemma panics_not_ret [panics_not_intros]: "panics_not (io_ret x)"
  by (simp add: panics_not_def io_ret_def)

lemma panics_not_fail [panics_not_intros]: "(\<And>msg. e \<noteq> AppUnreachable msg) \<Longrightarrow> panics_not (io_fail e)"
  by (simp add: panics_not_def io_fail_def)

lemma panics_not_check [panics_not_intros]: "(\<And>msg. r \<noteq> Err (AppUnreachable msg)) \<Longrightarrow> panics_not (io_check r)"
  by (simp add: panics_not_def io_check_def)

lemma panics_not_call [panics_not_intros]: "panics_not (io_call f)"
  by (simp add: panics_not_def io_call_def split: prod.split)

lemma panics_not_map_err [panics_not_intros]: "(\<And>e msg. g e \<noteq> AppUnreachable msg) \<Longrightarrow> panics_not (io_map_err g m)"
  by (auto simp: panics_not_def io_map_err_def map_err_eq_Err split: prod.split) (metis)

lemma panics_not_failing [panics_not_intros]: "panics_not (failing m)"
  unfolding failing_def by (rule panics_not_map_err) simp

text \<open>The continuation matters only for the results the action can have.\<close>

lemma panics_not_bind:
  assumes "panics_not m" and "\<And>x w w'. m w = (Ok x, w') \<Longrightarrow> panics_not (f x)"
  shows "panics_not (io_bind m f)"
proof -
  have "fst (io_bind m f w) \<noteq> Err (AppUnreachable msg)" for w msg
  proof (cases "m w")
    case (Pair r w')
    have r: "r \<noteq> Err (AppUnreachable msg)" using assms(1) Pair by (metis fst_conv panics_not_def)
    show ?thesis
    proof (cases r)
      case (Ok x)
      then have "panics_not (f x)" using assms(2) Pair by blast
      then show ?thesis using Pair Ok by (simp add: io_bind_def panics_not_def)
    next
      case (Err e)
      then show ?thesis using r Pair by (simp add: io_bind_def)
    qed
  qed
  then show ?thesis by (simp add: panics_not_def)
qed

lemma panics_not_match [panics_not_intros]:
  "(\<And>r. panics_not (f r)) \<Longrightarrow> panics_not (io_match m f)"
  by (simp add: panics_not_def io_match_def split: prod.split)

section \<open>The parts of a command\<close>

lemma require_boot_mode_panics_not [panics_not_intros]: "panics_not (require_boot_mode A expected command)"
  unfolding require_boot_mode_def by (intro panics_not_bind panics_not_failing) (simp add: panics_not_intros)

lemma require_selected_runtime_panics_not [panics_not_intros]: "panics_not (require_selected_runtime A command)"
  unfolding require_selected_runtime_def by (rule panics_not_map_err) simp

lemma load_session_panics_not [panics_not_intros]: "panics_not (load_session A)"
  unfolding load_session_def by (intro panics_not_bind panics_not_failing panics_not_ret)

lemma require_yes_panics_not: "require_yes yes command \<noteq> Err (AppUnreachable msg)"
  by (simp add: require_yes_def ensure_def)

lemma authorize_live_panics_not [panics_not_intros]:
  "panics_not (authorize_live_with_final_benchmark_evidence A request s p boot runtime final)"
  "panics_not (authorize_live A request s p boot runtime)"
proof -
  show one: "panics_not (authorize_live_with_final_benchmark_evidence A request s p boot runtime final)" for final
    unfolding authorize_live_with_final_benchmark_evidence_def
    by (intro panics_not_bind panics_not_failing)
      (auto intro!: panics_not_intros simp: ok_or_def map_err_eq_Err split: option.split result.splits)
  show "panics_not (authorize_live A request s p boot runtime)"
    unfolding authorize_live_def by (intro panics_not_match one)
qed

lemma run_live_steps_panics_not [panics_not_intros]: "panics_not (run_live_steps A keep profile p yes authority)"
  unfolding run_live_steps_def Let_def
  by (intro panics_not_bind panics_not_failing panics_not_map_err panics_not_check panics_not_ret)
    (auto simp: map_err_eq_Err split: result.splits)

lemma authorized_live:
  assumes "authorize_live A request s p boot runtime w = (Ok t, w')"
  obtains native observed final where "authorize request s p (native_facts native observed runtime s final) = Ok t"
    and "observed = expected_boot boot"
  using assms
  by (auto simp: authorize_live_def authorize_live_with_final_benchmark_evidence_def io_match_def io_Ok map_err_eq_Ok
      ok_or_eq_Ok split: prod.splits if_splits)

section \<open>The commands that panic on an unexpected transition\<close>

text \<open>C20: The panics of the commands that arm Safe Mode and that run phase two are unreachable, whatever the
  platform answers: an authorized request yields only the transitions the command handles.\<close>

theorem unexpected_transitions_are_unreachable:
  "fst (run_boot_safe_mode A yes w) \<noteq> Err (AppUnreachable msg) \<and> fst (run_phase_two A yes w) \<noteq> Err (AppUnreachable msg)"
proof -
  have "panics_not (run_boot_safe_mode A yes)"
    unfolding run_boot_safe_mode_def
    by (intro panics_not_bind panics_not_intros)
      (auto intro!: panics_not_intros panics_not_bind elim!: authorized_live
        simp: require_yes_panics_not authorize_arm_iff)
  moreover have "panics_not (run_phase_two A yes)"
    unfolding run_phase_two_def
    by (intro panics_not_bind panics_not_intros)
      (auto intro!: panics_not_intros panics_not_bind elim!: authorized_live
        simp: authorize_phase_two_iff split: if_splits)
  ultimately show ?thesis by (simp add: panics_not_def)
qed

end
