(* ===== verification/Engine_Report.thy ===== *)
theory Engine_Report
  imports Engine_Facts
begin

text \<open>
  The report of a run adds up.  \<open>report_measure\<close> is a quantity read off the report that every way
  of finishing a step raises by the same amount; a run that returns a report then raised it once
  for every step that was not already resolved.  The number of outcomes and the balance between
  the counters and the events are its instances.
\<close>

locale report_measure =
  fixes w :: "run_report \<Rightarrow> int" and ev :: "event \<Rightarrow> int" and n :: int
  assumes push_measure: "w (rp\<lparr>events := events rp @ [e]\<rparr>) = w rp + ev e"
    and completed_measure: "w (rp\<lparr>completed := completed rp + 1\<rparr>) = w rp + n"
    and skipped_measure: "w (rp\<lparr>skipped := skipped rp + 1\<rparr>) = w rp + n - ev (EventSkip k)"
    and advisory_measure:
      "w (rp\<lparr>advisory_count := advisory_count rp + 1\<rparr>) = w rp + n - ev (EventAdvisory k reason)"
    and failed_measure: "w (rp\<lparr>failed := failed rp + 1\<rparr>) = w rp + n"
    and neutral_events:
      "ev (EventInspect k) = 0" "ev (EventCaptureBackup k) = 0" "ev (EventPersistBackup k) = 0"
      "ev (EventCaptureAudit k) = 0" "ev (EventPersistAudit k) = 0" "ev (EventCaptureEvidence k) = 0"
      "ev (EventPersistEvidence k) = 0" "ev (EventVerifyEvidence k) = 0" "ev (EventApply k) = 0"
      "ev (EventVerify k) = 0" "ev (EventFinalizeAudit k) = 0" "ev (EventFailAudit k) = 0"
      "ev (EventComplete k) = 0" "ev (EventPlan k) = 0"
begin

definition adds :: "int \<Rightarrow> ('b, 'v, 'c, 'a) action \<Rightarrow> bool" where
  "adds d m \<longleftrightarrow> (\<forall>s x s'. m s = (Ok x, s') \<longrightarrow> w (rs_report s') = w (rs_report s) + d)"

lemma adds_seq: "adds a m \<Longrightarrow> (\<And>x. adds b (f x)) \<Longrightarrow> a + b = d \<Longrightarrow> adds d (seq m f)"
  unfolding adds_def seq_def
  by (auto split: prod.splits result.splits)

lemma adds_seq_then: "adds 0 m \<Longrightarrow> (\<And>x. adds d (f x)) \<Longrightarrow> adds d (seq m f)"
  by (rule adds_seq [where a = 0 and b = d]) simp_all

lemma adds_neutral:
  "adds 0 (ret x)" "adds d (fail e)" "adds 0 (call m err)" "adds 0 (get g)" "adds 0 (ask q)"
  "adds 0 (set_progress p)"
  by (auto simp: adds_def action_defs Let_def case_prod_beta split: prod.splits)

lemma adds_push: "adds (ev e) (push e)"
  by (simp add: adds_def push_def push_measure)

lemma adds_quiet_push: "ev e = 0 \<Longrightarrow> adds 0 (push e)"
  using adds_push [of e] by simp

lemma adds_counts:
  "adds n count_completed" "adds (n - ev (EventSkip k)) count_skipped"
  "adds (n - ev (EventAdvisory k reason)) count_advisory" "adds n count_failed"
  using completed_measure skipped_measure advisory_measure failed_measure
  by (simp_all add: adds_def action_defs diff_add_eq add_diff_eq)

lemma adds_if: "adds d m \<Longrightarrow> adds d m' \<Longrightarrow> adds d (if c then m else m')"
  by simp

lemma adds_push_plan: "adds 0 (push_plan ls)"
  by (induction ls) (auto intro!: adds_neutral adds_seq_then adds_quiet_push neutral_events)

lemma adds_catch: "adds d m \<Longrightarrow> (\<And>e s. \<not> is_ok (fst (h e s))) \<Longrightarrow> adds d (catch m h)"
  unfolding adds_def catch_def
  by (auto split: prod.splits result.splits) (metis fst_conv is_ok.simps(1))

lemmas quiet_intros = adds_seq_then adds_neutral adds_quiet_push neutral_events adds_if

lemma adds_commit: "adds 0 (commit_progress B k change)"
  unfolding commit_progress_def by (intro quiet_intros)

lemma adds_apply: "adds 0 (apply_and_verify B op k)"
  unfolding apply_and_verify_def by (intro quiet_intros)

lemma adds_lossless: "adds 0 (capture_lossless_backups B op k)"
  unfolding capture_lossless_backups_def by (intro quiet_intros)

lemma on_apply_error_not_ok: "\<not> is_ok (fst (on_apply_error B k a e s))"
  by (auto simp: on_apply_error_def action_defs Let_def split: prod.splits result.splits)

lemma adds_irreversible: "adds 0 (run_pending_irreversible_audit B op k r)"
  unfolding run_pending_irreversible_audit_def
  by (intro quiet_intros adds_apply adds_catch on_apply_error_not_ok)

lemma adds_evidence: "adds 0 (run_evidence_operation D B op k)"
  unfolding run_evidence_operation_def
  by (intro quiet_intros) (auto intro: adds_neutral split: result.splits)

lemma adds_verification: "adds 0 (run_verification D B op k)"
  unfolding run_verification_def by (intro quiet_intros adds_evidence)

lemma adds_rebuildable: "adds 0 (run_rebuildable_operation B op k)"
  unfolding run_rebuildable_operation_def by (intro quiet_intros adds_apply)

lemma adds_mutation: "adds 0 (run_mutation B op k)"
  unfolding run_mutation_def run_irreversible_operation_def run_lossless_operation_def
  by (intro quiet_intros)
    (auto intro!: quiet_intros adds_apply adds_lossless adds_irreversible adds_rebuildable
      split: recovery_requirement.splits)

lemma adds_record_skip: "adds n (record_skip B st k persist)"
  unfolding record_skip_def
  by (intro adds_seq [where a = "ev (EventSkip k)" and b = "n - ev (EventSkip k)"] adds_push
      adds_seq_then adds_if adds_commit adds_neutral adds_counts) simp

lemma adds_record_advisory: "adds n (record_advisory B st k reason)"
  unfolding record_advisory_def
  by (intro adds_seq_then adds_commit adds_seq [where a = "ev (EventAdvisory k reason)"
        and b = "n - ev (EventAdvisory k reason)"] adds_push adds_counts) simp

lemma adds_complete: "adds n (complete_live_step B st k)"
  unfolding complete_live_step_def
  by (intro adds_seq_then adds_commit adds_quiet_push neutral_events adds_counts)

lemma adds_live_step: "adds n (run_live_step D B op k i)"
  unfolding run_live_step_def Let_def
  by (cases i)
    (auto intro!: adds_seq_then adds_if adds_verification adds_mutation adds_complete
      adds_record_skip adds_record_advisory adds_neutral)

lemma adds_dry_step: "adds n (report_dry_run B op k i)"
proof -
  have "adds n (seq (push (EventSkip k)) (\<lambda>_. count_skipped))"
    by (rule adds_seq [OF adds_push adds_counts(2) [of k]]) simp
  moreover have "adds n (seq (push (EventAdvisory k r)) (\<lambda>_. count_advisory))" for r
    by (rule adds_seq [OF adds_push adds_counts(3) [of k r]]) simp
  ultimately show ?thesis
    unfolding report_dry_run_def
    by (intro adds_seq_then adds_neutral adds_push_plan)
      (cases i; simp add: adds_counts)
qed

lemma adds_inspect_and_run: "adds n (inspect_and_run D B st)"
  unfolding inspect_and_run_def Let_def
  by (intro adds_seq_then adds_neutral adds_quiet_push neutral_events adds_if adds_dry_step
      adds_live_step)

lemma adds_policy: "adds n (policy_and_run D B K pr st)"
proof -
  have "adds 0 (should_skip_for_policy B K st pr)"
    unfolding should_skip_for_policy_def
    by (cases "decision pr (tier st) (step_risk st)") (auto intro!: quiet_intros)
  then show ?thesis
    unfolding policy_and_run_def
    by (intro adds_seq_then adds_if adds_neutral adds_record_skip adds_inspect_and_run)
qed

lemma run_step_measure:
  assumes "run_step D B K pr st s = (Ok u, s')"
  shows "w (rs_report s') =
     w (rs_report s) + (if resolved (rs_progress s) (step_ident st) then 0 else n)"
proof (cases "resolved (rs_progress s) (step_ident st)")
  case True
  with assms run_steps_resolved [of "[st]" s D B K pr] show ?thesis
    by (auto simp: seq_def ret_def)
next
  case False
  then obtain t where t: "policy_and_run D B K pr st t = (Ok u, s')" "rs_report t = rs_report s"
    using assms
    by (auto simp: run_step_stages skip_recorded_or_cancelled_def step_recorded_def resolved_def
        is_completed_def is_skipped_def has_advisory_def action_defs Let_def
        split: if_splits prod.splits)
  with adds_policy [of D B K pr st] have "w (rs_report s') = w (rs_report t) + n"
    by (simp add: adds_def)
  with t(2) False show ?thesis by simp
qed

end

text \<open>What \<open>ran\<close> says holds of the steps of an unrecorded run too.\<close>

lemma run_steps_ran:
  fixes s :: "('b, 'v, 'c) run_state"
  assumes "run_steps D B K pr sts s = (r, s')"
  shows "\<exists>l. ran (live B) sts (rs_progress s) (r = Ok ()) (rs_progress s') l"
proof -
  let ?s = "\<lparr>rs_backend = (rs_backend s, [] :: 'v call_record list), rs_progress = rs_progress s,
     rs_report = rs_report s, rs_control = rs_control s\<rparr>"
  have "map_prod id unrecorded (run_steps D (recording B) K pr sts ?s)
      = run_steps D B K pr sts (unrecorded ?s)"
    using same_run_steps [of D B K pr sts] by (simp add: same_run_def)
  moreover have "unrecorded ?s = s" by (simp add: unrecorded_def)
  ultimately obtain t where t: "run_steps D (recording B) K pr sts ?s = (r, t)" "s' = unrecorded t"
    using assms(1) by (cases "run_steps D (recording B) K pr sts ?s") auto
  have "runs_as (live B) sts ?s r t"
    using run_steps_runs_as [of D B K pr sts ?s] t(1) by (simp add: post_def)
  with t(2) show ?thesis by (auto simp: runs_as_def)
qed

lemma run_steps_kept:
  assumes "run_steps D B K pr sts s = (r, s')"
    and "resolved (rs_progress s) i \<or> i \<notin> step_ident ` set sts"
  shows "resolution (rs_progress s') i = resolution (rs_progress s) i"
  using run_steps_ran [OF assms(1)] assms(2) by (auto dest: ranD(3) ranD(4))

lemma run_step_other:
  assumes "run_step D B K pr st s = (r, s')" and "i \<noteq> step_ident st"
  shows "resolution (rs_progress s') i = resolution (rs_progress s) i"
proof -
  have "run_steps D B K pr [st] s = (r, s')"
    using assms(1) by (cases r) (auto simp: seq_def ret_def)
  then show ?thesis by (rule run_steps_kept) (use assms(2) in simp)
qed

definition unresolved_steps :: "'v progress \<Rightarrow> step list \<Rightarrow> step list" where
  "unresolved_steps p steps = filter (\<lambda>st. \<not> resolved p (step_ident st)) steps"

context report_measure
begin

lemma run_steps_measure:
  "distinct (map step_ident sts) \<Longrightarrow> run_steps D B K pr sts s = (Ok u, s') \<Longrightarrow>
     w (rs_report s') = w (rs_report s) + n * int (length (unresolved_steps (rs_progress s) sts))"
proof (induction sts arbitrary: s)
  case Nil
  then show ?case by (simp add: ret_def unresolved_steps_def)
next
  case (Cons st sts)
  from Cons.prems(2) obtain x s1 where s1: "run_step D B K pr st s = (Ok x, s1)"
      "run_steps D B K pr sts s1 = (Ok u, s')"
    by (auto simp: seq_def split: prod.splits result.splits)
  have "resolved (rs_progress s1) (step_ident t) = resolved (rs_progress s) (step_ident t)"
    if "t \<in> set sts" for t
  proof -
    from that Cons.prems(1) have "step_ident t \<noteq> step_ident st"
      by (metis distinct.simps(2) image_eqI list.set_map list.simps(9))
    then show ?thesis by (simp add: resolved_iff run_step_other [OF s1(1)])
  qed
  then have "unresolved_steps (rs_progress s1) sts = unresolved_steps (rs_progress s) sts"
    by (auto simp: unresolved_steps_def intro: filter_cong)
  then show ?case
    using Cons.IH [OF _ s1(2)] Cons.prems(1) run_step_measure [OF s1(1)]
    by (simp add: unresolved_steps_def algebra_simps)
qed

lemma run_measure:
  assumes "distinct (map step_ident steps)" and "fst (run_with_control D B K steps pr c e) = Ok rp"
  shows "w rp = w run_report_default
     + n * int (length (unresolved_steps (eng_progress e) steps))"
proof -
  let ?s = "\<lparr>rs_backend = eng_backend e, rs_progress = eng_progress e,
     rs_report = run_report_default, rs_control = c\<rparr>"
  obtain u s' where run: "run_steps D B K pr steps ?s = (Ok u, s')" "rp = rs_report s'"
    using assms(2) by (auto simp: run_with_control_def split: prod.splits result.splits)
  from run_steps_measure [OF assms(1) run(1)] run(2) show ?thesis by simp
qed

end

section \<open>Instances\<close>

definition outcomes :: "run_report \<Rightarrow> int" where
  "outcomes rp = int (completed rp) + int (skipped rp) + int (advisory_count rp) + int (failed rp)"

definition is_skip_event :: "event \<Rightarrow> bool" where
  "is_skip_event e = (case e of EventSkip _ \<Rightarrow> True | _ \<Rightarrow> False)"

definition is_advisory_event :: "event \<Rightarrow> bool" where
  "is_advisory_event e = (case e of EventAdvisory _ _ \<Rightarrow> True | _ \<Rightarrow> False)"

definition skip_balance :: "run_report \<Rightarrow> int" where
  "skip_balance rp = int (skipped rp) - int (length (filter is_skip_event (events rp)))"

definition advisory_balance :: "run_report \<Rightarrow> int" where
  "advisory_balance rp =
     int (advisory_count rp) - int (length (filter is_advisory_event (events rp)))"

interpretation outcome_count: report_measure outcomes "\<lambda>_. 0" 1
  by unfold_locales (simp_all add: outcomes_def)

interpretation skip_events: report_measure skip_balance "\<lambda>e. if is_skip_event e then -1 else 0" 0
  by unfold_locales (simp_all add: skip_balance_def is_skip_event_def)

interpretation advisory_events:
  report_measure advisory_balance "\<lambda>e. if is_advisory_event e then -1 else 0" 0
  by unfold_locales (simp_all add: advisory_balance_def is_advisory_event_def)

section \<open>Advisories of a run\<close>

lemma run_step_advisory:
  assumes "run_step D B K pr st s = (Ok u, s')" and "live B"
    and "\<not> resolved (rs_progress s) (step_ident st)"
    and "decision pr (tier st) (step_risk st) = Auto"
    and insp: "\<And>b. fst (inspect B \<lparr>op_step = st\<rparr> b) = Ok (InspectAdvisory reason)"
  shows "resolution (rs_progress s') (step_ident st) = Advisory"
proof -
  have "post (run_step D B K pr st) s (\<lambda>r s'.
      r = Ok () \<longrightarrow> resolution (rs_progress s') (step_ident st) = Advisory)"
  proof -
    have call: "post (call (inspect B \<lparr>op_step = st\<rparr>) e) t Q
        \<longleftrightarrow> Q (Ok (InspectAdvisory reason)) (t\<lparr>rs_backend := snd (inspect B \<lparr>op_step = st\<rparr> (rs_backend t))\<rparr>)"
      for e t Q
      using insp [of "rs_backend t"] by (simp add: post_def call_def Let_def case_prod_beta)
    have advisory: "post (record_advisory B st k reason) t (\<lambda>r s'.
        r = Ok () \<longrightarrow> resolution (rs_progress s') (step_ident st) = Advisory)" for k t
      unfolding record_advisory_def commit_progress_def
      by (auto simp: post_def seq_def get_def call_def set_progress_def push_def count_advisory_def
          Let_def resolution_ack split: prod.splits result.splits)
    have rec: "\<not> step_recorded (rs_progress s) (progress_key (step_ident st))"
      using assms(3)
      by (simp add: step_recorded_def resolved_def is_completed_def is_skipped_def has_advisory_def)
    have live: "\<not> is_dry_run B b" for b using assms(2) by (simp add: live_def)
    show ?thesis
      unfolding run_step_stages skip_recorded_or_cancelled_def policy_and_run_def
        should_skip_for_policy_def inspect_and_run_def Let_def
      by (auto simp: rec live assms(4) call run_live_step_def intro!: post_intros advisory)
  qed
  then show ?thesis using assms(1) by (simp add: post_def)
qed

lemma run_steps_advisory:
  assumes "distinct (map step_ident sts)" and "st \<in> set sts" and "live B"
    and "\<not> resolved (rs_progress s) (step_ident st)"
    and "decision pr (tier st) (step_risk st) = Auto"
    and "\<And>b. fst (inspect B \<lparr>op_step = st\<rparr> b) = Ok (InspectAdvisory reason)"
    and "run_steps D B K pr sts s = (Ok u, s')"
  shows "resolution (rs_progress s') (step_ident st) = Advisory"
  using assms(1,2,4,7)
proof (induction sts arbitrary: s)
  case Nil
  then show ?case by simp
next
  case (Cons t sts)
  from Cons.prems(4) obtain x s1 where s1: "run_step D B K pr t s = (Ok x, s1)"
      "run_steps D B K pr sts s1 = (Ok u, s')"
    by (auto simp: seq_def split: prod.splits result.splits)
  show ?case
  proof (cases "t = st")
    case True
    with s1 have adv: "resolution (rs_progress s1) (step_ident st) = Advisory"
      using run_step_advisory [OF _ assms(3) Cons.prems(3) assms(5,6)] by blast
    then show ?thesis
      using run_steps_kept [OF s1(2), of "step_ident st"] by (simp add: resolved_iff)
  next
    case False
    with Cons.prems(2) have mem: "st \<in> set sts" by simp
    with Cons.prems(1) have ne: "step_ident st \<noteq> step_ident t"
      by (metis distinct.simps(2) image_eqI list.set_map list.simps(9))
    have "\<not> resolved (rs_progress s1) (step_ident st)"
      using Cons.prems(3) run_step_other [OF s1(1) ne] by (simp add: resolved_iff)
    with Cons.IH [OF _ mem _ s1(2)] Cons.prems(1) show ?thesis by simp
  qed
qed

end
