(* ===== verification/Engine_Safety.thy ===== *)
theory Engine_Safety
  imports Engine_Report Planner
begin

text \<open>
  The properties of a run of the engine (\<open>engine.rs\<close>), each stated over the calls the run makes
  (\<open>call_log\<close>), the progress it ends with (\<open>final_progress\<close>) or its report.  \<open>scripted\<close> is a
  backend in the manner of the engine's own tests (\<open>engine_tests/backend.rs\<close>) on which the
  hypotheses of each property are shown to hold.
\<close>

section \<open>A scripted backend\<close>

definition scripted :: "inspection \<Rightarrow> recovery_requirement \<Rightarrow> (unit, string) result \<Rightarrow> (unit, unit) backend" where
  "scripted i requirement answer =
     \<lparr>is_dry_run = \<lambda>_. False,
      inspect = \<lambda>_ b. (Ok i, b),
      plan = \<lambda>_ b. (Ok [''Would apply''], b),
      capture_backups = \<lambda>_ b. (Ok [BackupUnknown ()], b),
      persist_backups = \<lambda>_ b. (Ok (), b),
      recovery_requirement_of = \<lambda>_ _. requirement,
      capture_pending_audit = \<lambda>_ b. (Err ''no audit'', b),
      persist_pending_audit = \<lambda>_ b. (Ok (), b),
      finalize_audit = \<lambda>_ b. (Ok (), b),
      capture_pending_irreversible_audit = \<lambda>operation b.
        (Ok (IrrManual (manual_pending (progress_key (step_ident (op_step operation))) ''captured''
           P2_2_MANUAL_RECOVERY_TARGET)), b),
      persist_pending_irreversible_audit = \<lambda>_ b. (Ok (), b),
      finalize_irreversible_audit = \<lambda>_ b. (Ok (), b),
      fail_irreversible_audit = \<lambda>_ b. (Ok (), b),
      evidence_requirement_of = \<lambda>_ _. EvidenceNone,
      capture_evidence = \<lambda>_ b. (Err ''no evidence'', b),
      persist_evidence = \<lambda>_ b. (Ok (), b),
      verify_evidence = \<lambda>_ _ b. (Ok (), b),
      apply_operation = \<lambda>_ b. (answer, b),
      verify_operation = \<lambda>_ b. (Ok (), b),
      persist_progress = \<lambda>_ b. (Ok (), b),
      timestamp_of = \<lambda>_. ''2026-01-01 00:00:00''\<rparr>"

definition agreeing :: "unit control" where
  "agreeing = \<lparr>consent = \<lambda>_ c. (True, c), cancelled = \<lambda>c. (False, c)\<rparr>"

definition fresh_engine :: "'b \<Rightarrow> ('b, unit) engine" where
  "fresh_engine b = \<lparr>eng_backend = b, eng_progress = progress_default\<rparr>"

definition sha_of_nothing :: "unit digester" where
  "sha_of_nothing = \<lparr>to_vec = \<lambda>_. None, sha256_hex = \<lambda>_. []\<rparr>"

text \<open>\<open>P1:12\<close> and \<open>P2:2\<close>: a lossless mutation and one with a manual recovery audit.\<close>

definition game_mode_step :: step where
  "game_mode_step = STEPS ! 11"

definition driver_removal_step :: step where
  "driver_removal_step = STEPS ! 39"

definition lossless_demo :: "(unit, unit) backend" where
  "lossless_demo = scripted InspectNeedsApply LosslessBackup (Ok ())"

lemma demo_step_facts [simp]:
  "tier game_mode_step = 1" "step_risk game_mode_step = RiskSafe" "\<not> check_only game_mode_step"
  "tier driver_removal_step = 1" "\<not> check_only driver_removal_step"
  "progress_key (step_ident driver_removal_step) = ''P2:2''"
proof -
  have "tier game_mode_step = 1 \<and> step_risk game_mode_step = RiskSafe \<and> \<not> check_only game_mode_step
      \<and> tier driver_removal_step = 1 \<and> \<not> check_only driver_removal_step
      \<and> progress_key (step_ident driver_removal_step) = ''P2:2''"
    by code_simp
  then show "tier game_mode_step = 1" "step_risk game_mode_step = RiskSafe" "\<not> check_only game_mode_step"
      "tier driver_removal_step = 1" "\<not> check_only driver_removal_step"
      "progress_key (step_ident driver_removal_step) = ''P2:2''"
    by simp_all
qed

lemma step_recorded_default [simp]: "\<not> step_recorded progress_default k"
  by (simp add: step_recorded_def progress_default_def contains_key_def)

lemma resolution_default [simp]: "resolution progress_default i = Unresolved"
  by (simp add: resolution_def is_completed_def is_skipped_def has_advisory_def
      progress_default_def contains_key_def)

lemmas run_defs = run_with_control_def run_step_def skip_recorded_or_cancelled_def
  should_skip_for_policy_def decision_def run_live_step_def run_mutation_def
  run_lossless_operation_def capture_lossless_backups_def apply_and_verify_def
  complete_live_step_def commit_progress_def record_skip_def record_advisory_def
  run_verification_def action_defs recorded_def Let_def

lemmas demo_defs = scripted_def agreeing_def fresh_engine_def

lemma lossless_demo_log:
  "call_log sha_of_nothing lossless_demo agreeing [game_mode_step] ProfileRecommended ()
     (fresh_engine ()) =
   [CallInspect \<lparr>op_step = game_mode_step\<rparr> (Ok InspectNeedsApply),
    CallCaptureBackups \<lparr>op_step = game_mode_step\<rparr> (Ok [BackupUnknown ()]),
    CallPersistBackups [BackupUnknown ()] (Ok ()),
    CallApply \<lparr>op_step = game_mode_step\<rparr> (Ok ()),
    CallVerify \<lparr>op_step = game_mode_step\<rparr> (Ok ()),
    CallPersistProgress
      (complete_step (step_ident game_mode_step) ''2026-01-01 00:00:00'' progress_default) (Ok ())]"
  by (simp add: call_log_def run_defs demo_defs lossless_demo_def)

definition demo_report :: run_report where
  "demo_report = run_report_default
     \<lparr>events := [EventInspect ''P1:12'', EventCaptureBackup ''P1:12'', EventPersistBackup ''P1:12'',
        EventApply ''P1:12'', EventVerify ''P1:12'', EventComplete ''P1:12''], completed := 1\<rparr>"

lemma lossless_demo_run:
  "run_with_control sha_of_nothing lossless_demo agreeing [game_mode_step] ProfileRecommended ()
     (fresh_engine ()) =
   (Ok demo_report,
    \<lparr>eng_backend = (), eng_progress =
       complete_step (step_ident game_mode_step) ''2026-01-01 00:00:00'' progress_default\<rparr>, ())"
proof -
  have "progress_key (step_ident game_mode_step) = ''P1:12''" by code_simp
  then show ?thesis
    by (simp add: run_defs demo_defs lossless_demo_def demo_report_def run_report_default_def)
qed

section \<open>Properties of a run\<close>

text \<open>
  C1: No step is applied to the machine before its recovery record was captured for that very
  step and accepted by the backend: in the calls of every run, whatever the backend, the profile,
  the consent and the cancellation, the two calls before an apply are a capture for the same
  operation and its successful persistence (a nonempty lossless backup, or a valid pending
  rebuildable, manual or mixed audit, the mixed one preceded by a lossless backup in turn).
\<close>

theorem apply_follows_persisted_recovery_record:
  assumes "call_log D B K steps pr c e = before @ CallApply operation answer # after"
  shows "secured operation (rev before)"
proof -
  have "guarded_from [] (call_log D B K steps pr c e)" by (rule run_facts(1))
  then show ?thesis using assms by (simp add: guarded_from_iff)
qed

theorem apply_follows_persisted_recovery_record_witness:
  "secured \<lparr>op_step = game_mode_step\<rparr>
     (rev [CallInspect \<lparr>op_step = game_mode_step\<rparr> (Ok InspectNeedsApply),
       CallCaptureBackups \<lparr>op_step = game_mode_step\<rparr> (Ok [BackupUnknown ()]),
       CallPersistBackups [BackupUnknown ()] (Ok ())])"
proof (rule apply_follows_persisted_recovery_record)
  show "call_log sha_of_nothing lossless_demo agreeing [game_mode_step] ProfileRecommended ()
      (fresh_engine ()) =
    [CallInspect \<lparr>op_step = game_mode_step\<rparr> (Ok InspectNeedsApply),
     CallCaptureBackups \<lparr>op_step = game_mode_step\<rparr> (Ok [BackupUnknown ()]),
     CallPersistBackups [BackupUnknown ()] (Ok ())]
    @ CallApply \<lparr>op_step = game_mode_step\<rparr> (Ok ())
    # [CallVerify \<lparr>op_step = game_mode_step\<rparr> (Ok ()),
       CallPersistProgress
         (complete_step (step_ident game_mode_step) ''2026-01-01 00:00:00'' progress_default) (Ok ())]"
    by (simp add: lossless_demo_log)
qed

text \<open>
  C3: The engine never holds progress that was not persisted: at the end of every run, however it
  ends, its progress is the document the backend last accepted, or the one it started from when
  none was accepted.
\<close>

theorem final_progress_is_last_persisted:
  "final_progress D B K steps pr c e
     = last_persisted (eng_progress e) (call_log D B K steps pr c e)"
  by (rule run_facts(2))

text \<open>
  C8: A step counts as completed after a run only if it counted as completed before, or the run
  verified it: some call of the run verified exactly this step and succeeded.
\<close>

theorem completed_steps_were_verified:
  assumes "resolution (final_progress D B K steps pr c e) i = Completed"
    and "resolution (eng_progress e) i \<noteq> Completed"
  shows "\<exists>st\<in>set steps. step_ident st = i
     \<and> CallVerify \<lparr>op_step = st\<rparr> (Ok ()) \<in> set (call_log D B K steps pr c e)"
  using run_facts(5) [OF assms] by (simp add: verified_in_def)

theorem completed_steps_were_verified_witness:
  "\<exists>st\<in>set [game_mode_step]. step_ident st = step_ident game_mode_step
     \<and> CallVerify \<lparr>op_step = st\<rparr> (Ok ())
         \<in> set (call_log sha_of_nothing lossless_demo agreeing [game_mode_step] ProfileRecommended ()
              (fresh_engine ()))"
  by (rule completed_steps_were_verified)
    (simp_all add: final_progress_def lossless_demo_run resolution_complete,
     simp add: fresh_engine_def)

text \<open>
  A run changes the resolution only of steps it was given and that were unresolved: what was
  completed, skipped or acknowledged stays as it was, and so does every step outside the list.
\<close>

theorem earlier_resolutions_are_kept:
  assumes "resolved (eng_progress e) i \<or> i \<notin> step_ident ` set steps"
  shows "resolution (final_progress D B K steps pr c e) i = resolution (eng_progress e) i"
  using assms by (elim disjE) (erule run_facts(3), erule run_facts(4))

theorem earlier_resolutions_are_kept_witness:
  "resolution (final_progress sha_of_nothing lossless_demo agreeing [game_mode_step]
      ProfileRecommended () (fresh_engine ())) (step_ident driver_removal_step)
     = resolution (eng_progress (fresh_engine ())) (step_ident driver_removal_step)"
proof (rule earlier_resolutions_are_kept)
  have "step_ident driver_removal_step \<noteq> step_ident game_mode_step" by code_simp
  then show "resolved (eng_progress (fresh_engine ())) (step_ident driver_removal_step)
      \<or> step_ident driver_removal_step \<notin> step_ident ` set [game_mode_step]" by simp
qed

text \<open>
  C35: Every run keeps the three resolutions of a step exclusive: no step key is in two of the
  completed, the skipped and the acknowledged sets.
\<close>

theorem run_keeps_progress_well_formed:
  assumes "progress_wf (eng_progress e)"
  shows "progress_wf (final_progress D B K steps pr c e)"
  by (rule run_facts(6) [OF assms])

theorem run_keeps_progress_well_formed_witness:
  "progress_wf (final_progress sha_of_nothing lossless_demo agreeing [game_mode_step]
     ProfileRecommended () (fresh_engine ()))"
  by (rule run_keeps_progress_well_formed) (simp add: fresh_engine_def progress_wf_default)

text \<open>
  C22: When a live run returns a report, every step of its list is resolved, and running the same
  list again does nothing: the same report is empty, and neither backend, progress nor the
  consent and cancellation closures are touched.
\<close>

theorem successful_live_run_is_complete:
  assumes "live B" and "run_with_control D B K steps pr c e = (Ok report, e', c')"
  shows "(\<forall>st\<in>set steps. resolved (eng_progress e') (step_ident st))
     \<and> run_with_control D B K steps pr c' e' = (Ok run_report_default, e', c')"
proof -
  have "eng_progress e' = final_progress D B K steps pr c e"
    by (simp add: final_progress_def assms(2))
  moreover have "resolved (final_progress D B K steps pr c e) (step_ident st)"
    if "st \<in> set steps" for st
    by (rule run_facts(7) [OF assms(1) _ that]) (simp add: assms(2))
  ultimately have "\<forall>st\<in>set steps. resolved (eng_progress e') (step_ident st)" by simp
  then show ?thesis by (simp add: run_all_resolved)
qed

theorem successful_live_run_is_complete_witness:
  "\<exists>e'. resolved (eng_progress e') (step_ident game_mode_step)
     \<and> run_with_control sha_of_nothing lossless_demo agreeing [game_mode_step] ProfileRecommended ()
         e' = (Ok run_report_default, e', ())"
proof -
  have "live lossless_demo" by (simp add: live_def lossless_demo_def scripted_def)
  note complete = successful_live_run_is_complete [OF this lossless_demo_run]
  show ?thesis
    by (rule exI [of _ "\<lparr>eng_backend = (), eng_progress =
          complete_step (step_ident game_mode_step) ''2026-01-01 00:00:00'' progress_default\<rparr>"])
      (use complete in simp)
qed

text \<open>
  The report of a run adds up: when a run over steps with distinct identifiers returns a
  report, its completed, skipped, advisory and failed counts together are the number of steps
  that were unresolved before, there is one skip event per skipped step, and one advisory event
  per advisory.
\<close>

theorem report_adds_up:
  assumes "distinct (map step_ident steps)"
    and "fst (run_with_control D B K steps pr c e) = Ok report"
  shows "completed report + skipped report + advisory_count report + failed report
       = length (unresolved_steps (eng_progress e) steps)
     \<and> length (filter is_skip_event (events report)) = skipped report
     \<and> length (filter is_advisory_event (events report)) = advisory_count report"
proof -
  note m = outcome_count.run_measure [OF assms] skip_events.run_measure [OF assms]
    advisory_events.run_measure [OF assms]
  show ?thesis
    using m by (simp add: outcomes_def skip_balance_def advisory_balance_def run_report_default_def)
qed

theorem report_adds_up_witness:
  "completed demo_report + skipped demo_report + advisory_count demo_report + failed demo_report
       = length (unresolved_steps (eng_progress (fresh_engine () :: (unit, unit) engine)) [game_mode_step])
     \<and> length (filter is_skip_event (events demo_report)) = skipped demo_report
     \<and> length (filter is_advisory_event (events demo_report)) = advisory_count demo_report"
proof (rule report_adds_up)
  show "fst (run_with_control sha_of_nothing lossless_demo agreeing [game_mode_step]
      ProfileRecommended () (fresh_engine ())) = Ok demo_report"
    by (simp add: lossless_demo_run)
qed simp

text \<open>
  C36: A dry run is read-only and total: over steps of the catalog and a valid GPU branch, the
  planner's run always returns a report, ends with the same backend, progress and closure state,
  and makes no call besides inspect and plan.
\<close>

theorem dry_run_plans_and_changes_nothing:
  assumes "gpu_branch_try_from branch = Ok gpu" and "set steps \<subseteq> set STEPS"
  shows "(\<exists>report. run_with_control D (planner now) K steps pr c
            \<lparr>eng_backend = planner_new branch, eng_progress = p\<rparr>
          = (Ok report, \<lparr>eng_backend = planner_new branch, eng_progress = p\<rparr>, c))
     \<and> filter mutates_machine (call_log D (planner now) K steps pr c
          \<lparr>eng_backend = planner_new branch, eng_progress = p\<rparr>) = []"
proof
  let ?s = "\<lparr>rs_backend = planner_new branch, rs_progress = p, rs_report = run_report_default,
    rs_control = c\<rparr>"
  have "post (run_steps D (planner now) K pr steps) ?s (planned ?s)"
    by (rule run_steps_planned) (use assms catalog_descriptor in \<open>auto simp: planner_new_def\<close>)
  then show "\<exists>report. run_with_control D (planner now) K steps pr c
      \<lparr>eng_backend = planner_new branch, eng_progress = p\<rparr>
    = (Ok report, \<lparr>eng_backend = planner_new branch, eng_progress = p\<rparr>, c)"
    by (auto simp: post_def planned_def run_with_control_def)
  show "filter mutates_machine (call_log D (planner now) K steps pr c
      \<lparr>eng_backend = planner_new branch, eng_progress = p\<rparr>) = []"
    using planner_backend.dry_calls by (fastforce simp: filter_empty_conv)
qed

theorem dry_run_plans_and_changes_nothing_witness:
  "(\<exists>report. run_with_control sha_of_nothing (planner []) agreeing STEPS ProfileYolo ()
        \<lparr>eng_backend = planner_new 2, eng_progress = progress_default\<rparr>
      = (Ok report, \<lparr>eng_backend = planner_new 2, eng_progress = progress_default\<rparr>, ()))
   \<and> filter mutates_machine (call_log sha_of_nothing (planner []) agreeing STEPS ProfileYolo ()
        \<lparr>eng_backend = planner_new 2, eng_progress = progress_default\<rparr>) = []"
  by (rule dry_run_plans_and_changes_nothing [where gpu = BranchNvidia])
    (simp_all add: gpu_branch_try_from_def)

text \<open>
  C34: An irreversible mutation that fails is recorded as failed before the error is returned:
  when the apply or the verification after a persisted pending audit fails, the last call of the
  operation persists that same audit with a failed outcome, and the operation returns an error.
\<close>

theorem failed_irreversible_mutation_is_recorded:
  assumes "run_pending_irreversible_audit (recording B) operation k requirement s = (r, s')"
    and "log_of s' = log_of s @ l"
    and "CallApply operation (Err m) \<in> set l \<or> CallVerify operation (Err m) \<in> set l"
  shows "\<not> is_ok r
     \<and> (\<exists>audit t answer. CallPersistIrreversible audit (Ok ()) \<in> set l
          \<and> last l = CallFailIrreversible (irreversible_failed audit t) answer)"
proof -
  have "post (run_pending_irreversible_audit (recording B) operation k requirement) s (\<lambda>r s'.
      \<exists>l. log_of s' = log_of s @ l
        \<and> ((CallApply operation (Err m) \<in> set l \<or> CallVerify operation (Err m) \<in> set l) \<longrightarrow>
            \<not> is_ok r
            \<and> (\<exists>audit t answer. CallPersistIrreversible audit (Ok ()) \<in> set l
               \<and> last l = CallFailIrreversible (irreversible_failed audit t) answer)))"
    unfolding run_pending_irreversible_audit_def apply_and_verify_def on_apply_error_def
    by (auto intro!: post_intros) blast+
  then show ?thesis using assms by (auto simp: post_def)
qed

theorem failed_irreversible_mutation_is_recorded_witness:
  "\<exists>r l. \<not> is_ok (r :: (unit, engine_error) result)
     \<and> (\<exists>audit t answer. CallPersistIrreversible audit (Ok ()) \<in> set (l :: unit call_record list)
          \<and> last l = CallFailIrreversible (irreversible_failed audit t) answer)"
proof (intro exI, rule failed_irreversible_mutation_is_recorded)
  let ?B = "scripted InspectNeedsApply ManualRecoveryAuditRequired (Err ''setup failed'')"
  let ?op = "\<lparr>op_step = driver_removal_step\<rparr>"
  let ?s = "\<lparr>rs_backend = ((), []), rs_progress = progress_default :: unit progress,
     rs_report = run_report_default, rs_control = ()\<rparr>"
  let ?run = "run_pending_irreversible_audit (recording ?B) ?op ''P2:2'' ManualRecoveryAuditRequired ?s"
  show "run_pending_irreversible_audit (recording ?B) ?op ''P2:2'' ManualRecoveryAuditRequired ?s
      = (fst ?run, snd ?run)" by simp
  show "log_of (snd ?run) = log_of ?s @ log_of (snd ?run)" by (simp add: log_of_def)
  have "irreversible_valid_pending_for
      (IrrManual (manual_pending ''P2:2'' ''captured'' P2_2_MANUAL_RECOVERY_TARGET) :: unit irreversible_audit)
      ManualRecoveryAuditRequired ''P2:2''"
    by code_simp
  then show "CallApply ?op (Err ''setup failed'') \<in> set (log_of (snd ?run))
      \<or> CallVerify ?op (Err ''setup failed'') \<in> set (log_of (snd ?run))"
    by (simp add: run_pending_irreversible_audit_def run_defs demo_defs on_apply_error_def
        catch_def log_of_def)
qed

end
