(* ===== verification/Steam.thy ===== *)
theory Steam
  imports Files
begin

text \<open>
  The reader of Steam's VDF documents (\<open>crates/frametime-domain/src/steam.rs\<close>): a lexer over the bytes of
  the text, a parser over its tokens, and the two questions the tool asks of a document.  A position
  in the source is the rest of the text (of the tokens) from there, so both functions return what is
  left.  The lemmas show that a document written out in the canonical form is read back as it was.
\<close>

section \<open>Documents\<close>

definition CS2_APP_ID :: string where
  "CS2_APP_ID = ''730''"

definition CS2_DIRECTORY :: string where
  "CS2_DIRECTORY = ''Counter-Strike Global Offensive''"

text \<open>\<open>Cs2Install\<close>.\<close>

record cs2_install =
  steam_root :: path
  library_root :: path
  install_root :: path

datatype vdf_value = VdfString string | VdfObject "(string, vdf_value) fmap"

datatype vdf_token = VdfText string | VdfOpen | VdfClose

text \<open>\<open>SteamError::InvalidVdf\<close> is its message.\<close>

section \<open>The lexer\<close>

definition is_ascii_whitespace :: "char \<Rightarrow> bool" where
  "is_ascii_whitespace c \<longleftrightarrow> byte c = 32 \<or> byte c = 9 \<or> byte c = 10 \<or> byte c = 12 \<or> byte c = 13"

definition QUOTE :: char where "QUOTE = CHR 0x22"

definition BACKSLASH :: char where "BACKSLASH = CHR 0x5C"

text \<open>The rest of the text from the next token on, empty when there is none.\<close>

function skip_space_and_comments :: "string \<Rightarrow> (string, string) result" where
  "skip_space_and_comments s =
     (let s' = dropWhile is_ascii_whitespace s in
      if s' = [] then Ok []
      else if take 2 s' = ''//''
      then skip_space_and_comments (dropWhile (\<lambda>c. c \<noteq> CHR 0x0A) (drop 2 s'))
      else if hd s' = CHR ''/'' then Err ''unsupported VDF comment''
      else Ok s')"
  by pat_completeness auto
termination
proof (relation "measure length", simp_all, goal_cases)
  case (1 s)
  let ?s = "dropWhile is_ascii_whitespace s"
  have "length (dropWhile (\<lambda>c. c \<noteq> CHR 0x0A) (drop 2 ?s)) \<le> length (drop 2 ?s)"
    by (rule length_dropWhile_le)
  moreover have "length (drop 2 ?s) < length ?s" using 1 by (cases ?s) auto
  moreover have "length ?s \<le> length s" by (rule length_dropWhile_le)
  ultimately show ?case by linarith
qed

declare skip_space_and_comments.simps [simp del]

text \<open>The text after the opening quote: the decoded string and the rest after the closing quote.\<close>

fun quoted_from :: "string \<Rightarrow> string \<Rightarrow> (string \<times> string, string) result" where
  "quoted_from res [] = Err ''unclosed VDF string''"
| "quoted_from res (c # s) =
     (if c = QUOTE then Ok (res, s)
      else if c = BACKSLASH then
        (case s of
           [] \<Rightarrow> Err ''unclosed VDF string''
         | escaped # s' \<Rightarrow>
             if escaped = QUOTE then quoted_from (res @ [QUOTE]) s'
             else if escaped = BACKSLASH then quoted_from (res @ [BACKSLASH]) s'
             else Err ''unsupported VDF escape'')
      else if byte c = 0 then Err ''NUL in VDF''
      else if byte c < 128 then quoted_from (res @ [c]) s
      else Err ''non-ASCII VDF text is unsupported'')"

lemma skip_shortens: "skip_space_and_comments s = Ok s' \<Longrightarrow> length s' \<le> length s"
proof (induction s arbitrary: s' rule: skip_space_and_comments.induct)
  case (1 s)
  let ?s = "dropWhile is_ascii_whitespace s"
  show ?case
  proof (cases "?s \<noteq> [] \<and> take 2 ?s = ''//''")
    case True
    then have "length s' \<le> length (dropWhile (\<lambda>c. c \<noteq> CHR 0x0A) (drop 2 ?s))"
      using 1 by (auto simp: skip_space_and_comments.simps [of s] Let_def split: if_splits)
    also have "\<dots> \<le> length (drop 2 ?s)" by (rule length_dropWhile_le)
    also have "\<dots> \<le> length ?s" by simp
    also have "\<dots> \<le> length s" by (rule length_dropWhile_le)
    finally show ?thesis .
  next
    case False
    then show ?thesis
      using "1.prems" length_dropWhile_le [of is_ascii_whitespace s]
      by (auto simp: skip_space_and_comments.simps [of s] Let_def split: if_splits)
  qed
qed

lemma quoted_shortens: "quoted_from res s = Ok (t, s') \<Longrightarrow> length s' < length s"
  by (induction res s arbitrary: t s' rule: quoted_from.induct)
    (auto split: if_splits list.splits intro: less_SucI)

function tokens_from :: "vdf_token list \<Rightarrow> string \<Rightarrow> (vdf_token list, string) result" where
  "tokens_from tokens s =
     (case skip_space_and_comments s of
        Err e \<Rightarrow> Err e
      | Ok [] \<Rightarrow> Ok tokens
      | Ok (c # r) \<Rightarrow>
          if c = CHR 0x7B then tokens_from (tokens @ [VdfOpen]) r
          else if c = CHR 0x7D then tokens_from (tokens @ [VdfClose]) r
          else if c = QUOTE then
            (case quoted_from [] r of
               Err e \<Rightarrow> Err e
             | Ok (text, r') \<Rightarrow> tokens_from (tokens @ [VdfText text]) r')
          else Err ''VDF values must be quoted'')"
  by pat_completeness auto
termination
  by (relation "measure (length \<circ> snd)") (auto dest!: skip_shortens quoted_shortens)

declare tokens_from.simps [simp del]

section \<open>The parser\<close>

text \<open>
  The loop of \<open>parse_object\<close>: what was inserted so far, and the tokens from the cursor on.  The value
  is the finished object with the tokens behind it.
\<close>

function parse_object ::
  "bool \<Rightarrow> (string, vdf_value) fmap \<Rightarrow> vdf_token list
   \<Rightarrow> ((string, vdf_value) fmap \<times> vdf_token list, string) result" where
  "parse_object expect_close object [] =
     (if expect_close then Err ''unclosed VDF object'' else Ok (object, []))"
| "parse_object expect_close object (VdfClose # r) =
     (if \<not> expect_close then Err ''unexpected VDF close brace'' else Ok (object, r))"
| "parse_object expect_close object (VdfOpen # r) = Err ''VDF key must be quoted''"
| "parse_object expect_close object [VdfText key] = Err ''VDF key has no value''"
| "parse_object expect_close object (VdfText key # VdfText v # r) =
     (if contains_key object key then Err (''duplicate VDF key: '' @ key)
      else parse_object expect_close (fmupd key (VdfString v) object) r)"
| "parse_object expect_close object (VdfText key # VdfOpen # r) =
     (case parse_object True fmempty r of
        Err e \<Rightarrow> Err e
      | Ok (inner, r') \<Rightarrow>
          if contains_key object key then Err (''duplicate VDF key: '' @ key)
          else parse_object expect_close (fmupd key (VdfObject inner) object) r')"
| "parse_object expect_close object (VdfText key # VdfClose # r) = Err ''VDF key has no value''"
  by pat_completeness auto

termination
proof -
  have shortens: "parse_object_dom (e, object, ts) \<Longrightarrow> parse_object e object ts = Ok (m, r) \<Longrightarrow>
      length r \<le> length ts" for e object ts m r
  proof (induction e object ts arbitrary: m r rule: parse_object.pinduct)
    case (6 e object key ts)
    then show ?case
      by (fastforce simp: parse_object.psimps split: result.splits prod.splits if_splits)
  qed (auto simp: parse_object.psimps split: if_splits dest: le_SucI)
  show ?thesis
  proof (relation "measure (\<lambda>(_, _, ts). length ts)", goal_cases)
    case (4 e object key ts x inner r')
    then show ?case by (auto dest!: shortens)
  qed auto
qed

definition parse_vdf :: "string \<Rightarrow> ((string, vdf_value) fmap, string) result" where
  "parse_vdf text =
     and_then (tokens_from [] text) (\<lambda>tokens.
     and_then (parse_object False fmempty tokens) (\<lambda>(object, rest).
     if rest \<noteq> [] then Err ''trailing VDF tokens'' else Ok object))"

section \<open>Questions\<close>

fun library_path :: "vdf_value \<Rightarrow> string option" where
  "library_path (VdfString path) = Some path"
| "library_path (VdfObject entries) =
     (case fmlookup entries ''path'' of Some (VdfString path) \<Rightarrow> Some path | _ \<Rightarrow> None)"

definition library_paths_from_vdf :: "string \<Rightarrow> (string list, string) result" where
  "library_paths_from_vdf text =
     and_then (parse_vdf text) (\<lambda>root.
     case fmlookup root ''libraryfolders'' of
       Some (VdfObject libraries) \<Rightarrow> Ok (List.map_filter library_path (btree_values libraries))
     | _ \<Rightarrow> Ok [])"

definition app_manifest_is_cs2 :: "string \<Rightarrow> bool" where
  "app_manifest_is_cs2 text =
     (case parse_vdf text of
        Err _ \<Rightarrow> False
      | Ok root \<Rightarrow>
          (case fmlookup root ''AppState'' of
             Some (VdfObject app_state) \<Rightarrow>
               (case fmlookup app_state ''appid'' of
                  Some (VdfString v) \<Rightarrow> v = CS2_APP_ID
                | _ \<Rightarrow> False)
           | _ \<Rightarrow> False))"

section \<open>The canonical form of a document\<close>

text \<open>
  What the reader has to understand: every text quoted, with the two escapes, and the entries of an
  object in braces.
\<close>

definition text_ok :: "string \<Rightarrow> bool" where
  "text_ok s \<longleftrightarrow> list_all (\<lambda>c. 0 < byte c \<and> byte c < 128) s"

primrec value_ok :: "vdf_value \<Rightarrow> bool" where
  "value_ok (VdfString s) = text_ok s"
| "value_ok (VdfObject m) = fmpred (\<lambda>k ok. text_ok k \<and> ok) (fmmap value_ok m)"

definition escape :: "char \<Rightarrow> string" where
  "escape c = (if c = QUOTE \<or> c = BACKSLASH then [BACKSLASH, c] else [c])"

definition quote :: "string \<Rightarrow> string" where
  "quote s = QUOTE # concat (map escape s) @ [QUOTE]"

definition render_entries :: "(string \<times> string) list \<Rightarrow> string" where
  "render_entries es = concat (map (\<lambda>(k, v). quote k @ '' '' @ v @ [CHR 0x0A]) es)"

primrec render_value :: "vdf_value \<Rightarrow> string" where
  "render_value (VdfString s) = quote s"
| "render_value (VdfObject m) =
     CHR 0x7B # render_entries (sorted_list_of_fmap (fmmap render_value m)) @ [CHR 0x7D]"

definition render_document :: "(string, vdf_value) fmap \<Rightarrow> string" where
  "render_document m = render_entries (sorted_list_of_fmap (fmmap render_value m))"

text \<open>The tokens of a document.\<close>

definition entry_tokens :: "(string \<times> vdf_token list) list \<Rightarrow> vdf_token list" where
  "entry_tokens es = concat (map (\<lambda>(k, v). VdfText k # v) es)"

primrec value_tokens :: "vdf_value \<Rightarrow> vdf_token list" where
  "value_tokens (VdfString s) = [VdfText s]"
| "value_tokens (VdfObject m) =
     VdfOpen # entry_tokens (sorted_list_of_fmap (fmmap value_tokens m)) @ [VdfClose]"

section \<open>Reading the canonical form\<close>

lemma render_entries_simps [simp]:
  "render_entries [] = []"
  "render_entries (e # es) = quote (fst e) @ '' '' @ snd e @ [CHR 0x0A] @ render_entries es"
  by (auto simp: render_entries_def split: prod.splits)

lemma entry_tokens_simps [simp]:
  "entry_tokens [] = []"
  "entry_tokens (e # es) = VdfText (fst e) # snd e @ entry_tokens es"
  by (auto simp: entry_tokens_def split: prod.splits)

lemma sorted_list_of_fmmap: "sorted_list_of_fmap (fmmap f m) = map (apsnd f) (sorted_list_of_fmap m)"
  by (auto simp: sorted_list_of_fmap_def fmlookup_dom'_iff)

lemma sorted_list_of_fmap_lookup:
  "(k, v) \<in> set (sorted_list_of_fmap m) \<longleftrightarrow> fmlookup m k = Some v"
  by (auto simp: sorted_list_of_fmap_def fmlookup_dom_iff)

lemma value_ok_entries:
  "value_ok (VdfObject m) \<longleftrightarrow> (\<forall>k v. fmlookup m k = Some v \<longrightarrow> text_ok k \<and> value_ok v)"
  by (fastforce simp: fmpred_iff)

lemma quoted_escape:
  "text_ok s \<Longrightarrow> quoted_from res (concat (map escape s) @ QUOTE # r) = Ok (res @ s, r)"
  by (induction s arbitrary: res)
    (auto simp: text_ok_def escape_def QUOTE_def BACKSLASH_def byte_def)

lemma skip_token:
  "\<not> is_ascii_whitespace c \<Longrightarrow> c \<noteq> CHR ''/'' \<Longrightarrow> skip_space_and_comments (c # r) = Ok (c # r)"
  by (subst skip_space_and_comments.simps) (auto simp: Let_def)

lemma skip_white:
  "is_ascii_whitespace c \<Longrightarrow> skip_space_and_comments (c # r) = skip_space_and_comments r"
  by (subst (1 2) skip_space_and_comments.simps) (simp add: Let_def)

lemma tokens_white: "is_ascii_whitespace c \<Longrightarrow> tokens_from ts (c # r) = tokens_from ts r"
  by (subst (1 2) tokens_from.simps) (simp add: skip_white)

lemma tokens_space [simp]:
  "tokens_from ts (CHR '' '' # r) = tokens_from ts r" "tokens_from ts (CHR 0x0A # r) = tokens_from ts r"
  by (simp_all add: tokens_white is_ascii_whitespace_def byte_def)

lemma tokens_brace [simp]:
  "tokens_from ts (CHR 0x7B # r) = tokens_from (ts @ [VdfOpen]) r"
  "tokens_from ts (CHR 0x7D # r) = tokens_from (ts @ [VdfClose]) r"
  by (subst tokens_from.simps, simp add: skip_token is_ascii_whitespace_def byte_def)+

lemma tokens_nil [simp]: "tokens_from ts [] = Ok ts"
  by (subst tokens_from.simps, subst skip_space_and_comments.simps) simp

lemma tokens_quote [simp]:
  "text_ok s \<Longrightarrow> tokens_from ts (quote s @ r) = tokens_from (ts @ [VdfText s]) r"
  by (subst tokens_from.simps)
    (simp add: quote_def skip_token is_ascii_whitespace_def byte_def QUOTE_def
      quoted_escape [unfolded QUOTE_def])

lemma tokens_entries:
  assumes "\<And>k v. (k, v) \<in> set es \<Longrightarrow> text_ok k"
    and "\<And>k v ts r. (k, v) \<in> set es \<Longrightarrow>
      tokens_from ts (render_value v @ r) = tokens_from (ts @ value_tokens v) r"
  shows "tokens_from ts (render_entries (map (apsnd render_value) es) @ r) =
    tokens_from (ts @ entry_tokens (map (apsnd value_tokens) es)) r"
  using assms
proof (induction es arbitrary: ts)
  case (Cons e es)
  have k: "text_ok (fst e)" using Cons.prems(1) [of "fst e" "snd e"] by simp
  have v: "tokens_from ts (render_value (snd e) @ r) = tokens_from (ts @ value_tokens (snd e)) r" for ts r
    using Cons.prems(2) [of "fst e" "snd e"] by simp
  have "tokens_from ts (render_entries (map (apsnd render_value) es) @ r) =
      tokens_from (ts @ entry_tokens (map (apsnd value_tokens) es)) r" for ts
    by (intro Cons.IH) (use Cons.prems in \<open>metis list.set_intros(2)\<close>)+
  with k v show ?case by simp
qed simp

lemma tokens_value:
  "value_ok v \<Longrightarrow> tokens_from ts (render_value v @ r) = tokens_from (ts @ value_tokens v) r"
proof (induction v arbitrary: ts r)
  case (VdfObject m)
  have "tokens_from ts (render_entries (map (apsnd render_value) (sorted_list_of_fmap m)) @ r) =
      tokens_from (ts @ entry_tokens (map (apsnd value_tokens) (sorted_list_of_fmap m))) r" for ts r
  proof (rule tokens_entries)
    show "text_ok k" if "(k, v) \<in> set (sorted_list_of_fmap m)" for k v
      using that VdfObject.prems unfolding value_ok_entries sorted_list_of_fmap_lookup by blast
    show "tokens_from ts (render_value v @ r) = tokens_from (ts @ value_tokens v) r"
      if "(k, v) \<in> set (sorted_list_of_fmap m)" for k v ts r
      using that VdfObject.prems VdfObject.IH [of v ts r]
      unfolding value_ok_entries sorted_list_of_fmap_lookup by (blast intro: fmlookup_ran'_iff [THEN iffD2])
  qed
  then show ?case by (simp add: sorted_list_of_fmmap del: value_ok.simps)
qed simp

text \<open>Inserting the entries of a list one after the other.\<close>

definition insert_entries ::
  "(string \<times> vdf_value) list \<Rightarrow> (string, vdf_value) fmap \<Rightarrow> (string, vdf_value) fmap" where
  "insert_entries es m = fold (\<lambda>(k, v). fmupd k v) es m"

lemma insert_entries_simps [simp]:
  "insert_entries [] m = m"
  "insert_entries (e # es) m = insert_entries es (fmupd (fst e) (snd e) m)"
  by (auto simp: insert_entries_def split: prod.splits)

lemma insert_entries_lookup:
  "distinct (map fst es) \<Longrightarrow> fmlookup (insert_entries es m) k =
     (case map_of es k of None \<Rightarrow> fmlookup m k | Some v \<Rightarrow> Some v)"
proof (induction es arbitrary: m)
  case (Cons e es)
  then have "map_of es (fst e) = None" by (simp add: map_of_eq_None_iff)
  with Cons show ?case by (cases e) (simp split: option.splits)
qed simp

lemma distinct_entries: "distinct (map fst (sorted_list_of_fmap m))"
  by (simp add: sorted_list_of_fmap_def comp_def sorted_list_of_fset.rep_eq)

lemma insert_own_entries: "insert_entries (sorted_list_of_fmap m) fmempty = m"
proof -
  have "fmlookup (insert_entries (sorted_list_of_fmap m) fmempty) k = fmlookup m k" for k
    by (subst insert_entries_lookup [OF distinct_entries]) (simp split: option.splits)
  then show ?thesis by (intro fmap_ext) simp
qed


lemma parse_entry:
  assumes "value_ok v"
    and "\<And>m r. v = VdfObject m \<Longrightarrow>
      parse_object True fmempty (entry_tokens (map (apsnd value_tokens) (sorted_list_of_fmap m)) @ VdfClose # r)
        = Ok (m, r)"
    and "\<not> contains_key object k"
  shows "parse_object e object (VdfText k # value_tokens v @ ts) = parse_object e (fmupd k v object) ts"
  using assms by (cases v) (simp_all add: sorted_list_of_fmmap)

lemma parse_entries:
  assumes "distinct (map fst es)" and "\<And>k v. (k, v) \<in> set es \<Longrightarrow> \<not> contains_key object k"
    and "\<And>k v object ts. (k, v) \<in> set es \<Longrightarrow> \<not> contains_key object k \<Longrightarrow>
      parse_object e object (VdfText k # value_tokens v @ ts) = parse_object e (fmupd k v object) ts"
  shows "parse_object e object (entry_tokens (map (apsnd value_tokens) es) @ ts) =
    parse_object e (insert_entries es object) ts"
  using assms
proof (induction es arbitrary: object)
  case (Cons x es)
  have "parse_object e object (VdfText (fst x) # value_tokens (snd x)
        @ entry_tokens (map (apsnd value_tokens) es) @ ts) =
      parse_object e (fmupd (fst x) (snd x) object) (entry_tokens (map (apsnd value_tokens) es) @ ts)"
    by (rule Cons.prems(3)) (use Cons.prems(2) [of "fst x" "snd x"] in simp_all)
  also have "\<dots> = parse_object e (insert_entries es (fmupd (fst x) (snd x) object)) ts"
  proof (rule Cons.IH)
    show "\<not> contains_key (fmupd (fst x) (snd x) object) k" if "(k, v) \<in> set es" for k v
      using that Cons.prems(1,2) by (force simp: image_iff)
  qed (use Cons.prems(1,3) in auto)
  finally show ?case by simp
qed simp

lemma parse_value:
  "value_ok v \<Longrightarrow> \<not> contains_key object k \<Longrightarrow>
     parse_object e object (VdfText k # value_tokens v @ ts) = parse_object e (fmupd k v object) ts"
proof (induction v arbitrary: e object k ts)
  case (VdfObject m)
  have "parse_object True fmempty
      (entry_tokens (map (apsnd value_tokens) (sorted_list_of_fmap m)) @ VdfClose # r) =
      parse_object True (insert_entries (sorted_list_of_fmap m) fmempty) (VdfClose # r)" for r
  proof (rule parse_entries [OF distinct_entries])
    fix k v ts and object :: "(string, vdf_value) fmap"
    assume "(k, v) \<in> set (sorted_list_of_fmap m)" and "\<not> contains_key object k"
    then show "parse_object True object (VdfText k # value_tokens v @ ts) =
        parse_object True (fmupd k v object) ts"
      using VdfObject.prems(1) VdfObject.IH [of v object k True ts]
      unfolding value_ok_entries sorted_list_of_fmap_lookup
      by (blast intro: fmlookup_ran'_iff [THEN iffD2])
  qed simp
  then have "parse_object True fmempty
      (entry_tokens (map (apsnd value_tokens) (sorted_list_of_fmap m)) @ VdfClose # r) = Ok (m, r)" for r
    by (simp add: insert_own_entries)
  with VdfObject.prems show ?case by (intro parse_entry) auto
qed simp

lemma parse_vdf_render:
  assumes "value_ok (VdfObject m)"
  shows "parse_vdf (render_document m) = Ok m"
proof -
  note ok = assms [unfolded value_ok_entries]
  let ?es = "sorted_list_of_fmap m"
  have "tokens_from [] (render_entries (map (apsnd render_value) ?es) @ []) =
      tokens_from ([] @ entry_tokens (map (apsnd value_tokens) ?es)) []"
    by (rule tokens_entries) (use ok in \<open>auto simp: sorted_list_of_fmap_lookup tokens_value\<close>)
  then have "tokens_from [] (render_document m) = Ok (entry_tokens (map (apsnd value_tokens) ?es))"
    by (simp add: render_document_def sorted_list_of_fmmap)
  moreover have "parse_object False fmempty (entry_tokens (map (apsnd value_tokens) ?es) @ []) =
      parse_object False (insert_entries ?es fmempty) []"
    by (rule parse_entries [OF distinct_entries])
      (use ok in \<open>auto simp: sorted_list_of_fmap_lookup parse_value\<close>)
  ultimately show ?thesis by (simp add: parse_vdf_def insert_own_entries)
qed

section \<open>What is read is canonical\<close>

lemma quoted_text_ok:
  "quoted_from res s = Ok (t, r) \<Longrightarrow> text_ok res \<Longrightarrow> text_ok t"
  by (induction res s arbitrary: t r rule: quoted_from.induct)
    (auto simp: text_ok_def QUOTE_def BACKSLASH_def byte_def split: if_splits list.splits)

fun token_ok :: "vdf_token \<Rightarrow> bool" where
  "token_ok (VdfText s) = text_ok s"
| "token_ok _ = True"

lemma tokens_ok:
  "tokens_from ts s = Ok ts' \<Longrightarrow> list_all token_ok ts \<Longrightarrow> list_all token_ok ts'"
proof (induction ts s arbitrary: ts' rule: tokens_from.induct)
  case (1 ts s)
  show ?case
  proof (cases "skip_space_and_comments s")
    case (Err e)
    then show ?thesis using "1.prems"(1) by (subst (asm) tokens_from.simps) simp
  next
    case (Ok s')
    show ?thesis
    proof (cases s')
      case Nil
      then show ?thesis using "1.prems" Ok by (subst (asm) tokens_from.simps) simp
    next
      case (Cons c r)
      note rest = "1.prems"(1) [unfolded tokens_from.simps [of ts s] Ok Cons, simplified]
      consider "c = CHR 0x7B" | "c = CHR 0x7D" | "c = QUOTE"
        using rest by (auto split: if_splits)
      then show ?thesis
      proof cases
        case 1
        show ?thesis by (rule "1.IH"(1) [OF Ok Cons 1]) (use rest 1 "1.prems"(2) in simp_all)
      next
        case 2
        then have "c \<noteq> CHR 0x7B" by simp
        then show ?thesis by (rule "1.IH"(2) [OF Ok Cons _ 2]) (use rest 2 "1.prems"(2) in simp_all)
      next
        case 3
        then have c: "c \<noteq> CHR 0x7B" "c \<noteq> CHR 0x7D" by (simp_all add: QUOTE_def)
        obtain t r' where q: "quoted_from [] r = Ok (t, r')"
          using rest 3 c by (auto split: result.splits)
        have t: "text_ok t" using quoted_text_ok [OF q] by (simp add: text_ok_def)
        show ?thesis
          by (rule "1.IH"(3) [OF Ok Cons c 3 q refl]) (use rest 3 c q t "1.prems"(2) in simp_all)
      qed
    qed
  qed
qed

lemma value_ok_fmupd:
  "value_ok (VdfObject m) \<Longrightarrow> text_ok k \<Longrightarrow> value_ok v \<Longrightarrow> value_ok (VdfObject (fmupd k v m))"
  unfolding value_ok_entries by simp

lemma value_ok_empty: "value_ok (VdfObject fmempty)"
  by (simp add: value_ok_entries del: value_ok.simps)

lemma parsed_ok:
  "parse_object e object ts = Ok (m, r) \<Longrightarrow> list_all token_ok ts \<Longrightarrow> value_ok (VdfObject object) \<Longrightarrow>
     value_ok (VdfObject m) \<and> list_all token_ok r"
proof (induction e object ts arbitrary: m r rule: parse_object.induct)
  case (6 e object key ts)
  then show ?case
    by (auto simp del: value_ok.simps simp: value_ok_empty value_ok_fmupd
        split: result.splits prod.splits if_splits)
qed (auto simp del: value_ok.simps(2) simp: value_ok_fmupd split: if_splits)

lemma parsed_document_ok:
  assumes "parse_vdf text = Ok m"
  shows "value_ok (VdfObject m)"
proof -
  obtain ts where "tokens_from [] text = Ok ts" and "parse_object False fmempty ts = Ok (m, [])"
    using assms by (auto simp: parse_vdf_def guard_simps split: if_splits)
  then show ?thesis using tokens_ok [where ts = "[]"] parsed_ok value_ok_empty by fastforce
qed

text \<open>
  C7: The reader of VDF documents accepts exactly the documents of ASCII texts without NUL: each of
  them, however deeply nested and whatever quotes and backslashes its texts hold, is read back from
  its canonical form as it was, and no text at all is read as another document.
\<close>

theorem vdf_documents_round_trip:
  "(parse_vdf (render_document m) = Ok m \<longleftrightarrow> value_ok (VdfObject m))
   \<and> ((\<exists>text. parse_vdf text = Ok m) \<longleftrightarrow> value_ok (VdfObject m))"
  using parse_vdf_render parsed_document_ok by blast

text \<open>
  A library folder document written with any number of libraries, as bare paths or as objects
  with a path, is read as exactly the paths of its libraries in the order of their keys, entries
  without a path left out; and an application manifest is accepted exactly when its identifier is
  that of the game.
\<close>

theorem steam_documents_are_understood:
  assumes "value_ok (VdfObject libraries)" and "value_ok (VdfObject app)"
  shows "library_paths_from_vdf (render_document (fmupd ''libraryfolders'' (VdfObject libraries) fmempty))
      = Ok (List.map_filter library_path (btree_values libraries))
    \<and> (app_manifest_is_cs2 (render_document (fmupd ''AppState'' (VdfObject app) fmempty))
      \<longleftrightarrow> fmlookup app ''appid'' = Some (VdfString ''730''))"
proof -
  have "text_ok ''libraryfolders''" "text_ok ''AppState''" by (simp_all add: text_ok_def byte_def)
  then have "value_ok (VdfObject (fmupd ''libraryfolders'' (VdfObject libraries) fmempty))"
      "value_ok (VdfObject (fmupd ''AppState'' (VdfObject app) fmempty))"
    using assms by (intro value_ok_fmupd value_ok_empty; simp)+
  then show ?thesis
    by (auto simp: library_paths_from_vdf_def app_manifest_is_cs2_def parse_vdf_render CS2_APP_ID_def
        split: option.splits vdf_value.splits)
qed

theorem steam_documents_are_understood_witness:
  "library_paths_from_vdf (render_document (fmupd ''libraryfolders''
      (VdfObject (fmupd ''1'' (VdfString ''D:/Games'') fmempty)) fmempty))
    = Ok (List.map_filter library_path (btree_values (fmupd ''1'' (VdfString ''D:/Games'') fmempty)))
   \<and> (app_manifest_is_cs2 (render_document (fmupd ''AppState''
        (VdfObject (fmupd ''appid'' (VdfString ''730'') fmempty)) fmempty))
      \<longleftrightarrow> fmlookup (fmupd ''appid'' (VdfString ''730'') fmempty) ''appid'' = Some (VdfString ''730''))"
  by (rule steam_documents_are_understood; intro value_ok_fmupd value_ok_empty;
      simp add: text_ok_def byte_def)

end
