(* ===== verification/Cs2_Render.thy ===== *)
theory Cs2_Render
  imports Rust_Text
begin

text \<open>
  The generated configuration files (\<open>crates/frametime-domain/src/cs2.rs\<close>): the embedded template, the
  rendered \<open>optimization.cfg\<close> and the bootstrap line that is added to the user's \<open>autoexec.cfg\<close>.  The
  property shows that adding the line keeps the user's text and is done at most once.
\<close>

section \<open>The generated file\<close>

text \<open>\<open>assets/cfgs/optimization.cfg.template\<close>, which the source includes.\<close>

definition OPTIMIZATION_TEMPLATE :: string where
  "OPTIMIZATION_TEMPLATE = ''fps_max 400'' @ [LF]"

definition AUTOEXEC_LINE :: string where
  "AUTOEXEC_LINE = ''exec optimization.cfg''"

definition optimization_values :: "(string, string) fmap" where
  "optimization_values =
     fmap_of_list (rev (List.map_filter (split_once CHR '' '') (lines OPTIMIZATION_TEMPLATE)))"

definition BACKSLASH_TEXT :: string where
  "BACKSLASH_TEXT = [CHR 0x5C]"

definition optimization_header :: "string list" where
  "optimization_header =
     [''// Optional autoexec bootstrap; command order can vary with other configs.'',
      ''// Prove the active cfg with a temporary sentinel before relying on it.'',
      ''// Keep personal settings in your own autoexec or separate cfg.'',
      ''//'',
      ''// Optional standalone CFGs (also in game'' @ BACKSLASH_TEXT @ ''csgo'' @ BACKSLASH_TEXT
        @ ''cfg'' @ BACKSLASH_TEXT @ '', use from console as needed):'',
      ''//   exec net_stable     - buffering None / reset'',
      ''//   exec net_highping   - buffering None; high RTT cannot be buffered away'',
      ''//   exec net_unstable   - 1 Packet trial for measured jitter/misses'',
      ''//   exec net_bad        - 2 Packets only when misses persist at 1'',
      ''//   exec debug_hud      - temporary telemetry and network diagnostics'',
      ''//   exec debug_hud_off  - restore normal conditional telemetry'',
      ''//   exec frame_baseline_400 - restore the configured 400 FPS baseline'',
      ''//   exec frame_raw_uncapped - raw-latency branch; run before connecting'',
      ''//   exec audio_stable   - restore Natural EQ and automatic audio'',
      ''//   exec audio_eq_crisp - optional mid/high emphasis'',
      ''//   exec audio_eq_smooth - optional reduced mid/high energy'',
      ''//   exec audio_legacy_lr_isolation - legacy hard L/R trial'',
      ''//   exec audio_lowlatency_025 - manual larger-buffer compatibility test'',
      ''//   exec audio_lowlatency_001 - compatibility alias for current defaults'',
      '''']"

definition render_optimization_cfg_at :: "string \<Rightarrow> string" where
  "render_optimization_cfg_at timestamp =
     (let output = ''// frametime.cfg - optimization.cfg'' @ [LF]
            @ ''// Generated: '' @ timestamp @ [LF]
            @ concat (map (\<lambda>l. l @ [LF]) optimization_header)
            @ OPTIMIZATION_TEMPLATE in
      if ends_in [LF] output then output else output @ [LF])"

section \<open>The bootstrap line\<close>

definition is_optimization_exec :: "string \<Rightarrow> bool" where
  "is_optimization_exec line =
     eq_ignore_ascii_case
       (trim (case split_once_str ''//'' line of None \<Rightarrow> line | Some (command, _) \<Rightarrow> command))
       AUTOEXEC_LINE"

definition is_line_end :: "char \<Rightarrow> bool" where
  "is_line_end c \<longleftrightarrow> c = CR \<or> c = LF"

text \<open>\<open>existing.trim_end_matches(['\r', '\n']).rsplit(['\r', '\n']).next()\<close>.\<close>

definition final_line :: "string \<Rightarrow> string" where
  "final_line existing =
     rev (takeWhile (\<lambda>c. \<not> is_line_end c) (dropWhile is_line_end (rev existing)))"

definition autoexec_bootstrap :: string where
  "autoexec_bootstrap =
     ''// Optional frametime.cfg bootstrap. Keep personal CVars in this file.'' @ [LF]
     @ ''// Add a temporary sentinel to prove CS2 executed the line; this does not guarantee precedence.''
     @ [LF, LF] @ AUTOEXEC_LINE @ [LF]"

definition ensure_autoexec_line :: "string \<Rightarrow> string" where
  "ensure_autoexec_line existing =
     (if list_ex is_optimization_exec (lines existing) then existing
      else if existing = [] then autoexec_bootstrap
      else
        let has_blank_final_line =
              ends_in [LF, LF] existing \<or> ends_in [CR, LF, CR, LF] existing
              \<or> trim (final_line existing) = [];
            output = (if ends_in [LF] existing then existing else existing @ [LF]);
            output = (if has_blank_final_line then output else output @ [LF])
        in output @ AUTOEXEC_LINE @ [LF])"

section \<open>Lemmas\<close>

lemma autoexec_line_is_trimmed: "trim AUTOEXEC_LINE = AUTOEXEC_LINE"
  by (rule trim_ascii) (simp_all add: AUTOEXEC_LINE_def byte_def is_whitespace_def)

lemma autoexec_line_has_no_comment: "split_once_str ''//'' AUTOEXEC_LINE = None"
  by (simp add: split_once_str_def AUTOEXEC_LINE_def starts_with_def)

lemma autoexec_line_is_exec: "is_optimization_exec AUTOEXEC_LINE"
  by (simp add: is_optimization_exec_def autoexec_line_is_trimmed autoexec_line_has_no_comment
      eq_ignore_ascii_case_def)

lemma autoexec_line_is_one_line: "LF \<notin> set AUTOEXEC_LINE" "strip_cr AUTOEXEC_LINE = AUTOEXEC_LINE"
  by (simp_all add: AUTOEXEC_LINE_def strip_cr_def)

lemma appended_line_is_exec: "list_ex is_optimization_exec (lines (a @ LF # AUTOEXEC_LINE @ [LF]))"
  by (simp add: lines_last autoexec_line_is_one_line autoexec_line_is_exec)

lemma bootstrap_has_exec: "list_ex is_optimization_exec (lines autoexec_bootstrap)"
proof -
  have "autoexec_bootstrap =
      (''// Optional frametime.cfg bootstrap. Keep personal CVars in this file.'' @ [LF]
        @ ''// Add a temporary sentinel to prove CS2 executed the line; this does not guarantee precedence.''
        @ [LF]) @ LF # AUTOEXEC_LINE @ [LF]"
    by (simp only: autoexec_bootstrap_def append_assoc append_Cons append_Nil)
  then show ?thesis by (metis appended_line_is_exec)
qed

lemma ensure_has_exec: "list_ex is_optimization_exec (lines (ensure_autoexec_line s))"
proof (cases "list_ex is_optimization_exec (lines s) \<or> s = []")
  case True
  then show ?thesis by (auto simp: ensure_autoexec_line_def bootstrap_has_exec)
next
  case False
  define out where "out = (if ends_in [LF] s then s else s @ [LF])"
  have "out \<noteq> []" "last out = LF" using False by (auto simp: out_def ends_in_single)
  then obtain a where a: "out = a @ [LF]" by (metis append_butlast_last_id)
  have "ensure_autoexec_line s = a @ LF # AUTOEXEC_LINE @ [LF]
      \<or> ensure_autoexec_line s = (a @ [LF]) @ LF # AUTOEXEC_LINE @ [LF]"
    using False a by (auto simp: ensure_autoexec_line_def Let_def out_def)
  then show ?thesis by (metis appended_line_is_exec)
qed

text \<open>
  Adding the bootstrap line to \<open>autoexec.cfg\<close> is safe for the user's file: whatever the file
  holds, its text stays in front unchanged, the result has a line that executes the generated
  configuration, and adding it again changes nothing.
\<close>

theorem autoexec_bootstrap_is_idempotent:
  "starts_with s (ensure_autoexec_line s)
   \<and> list_ex is_optimization_exec (lines (ensure_autoexec_line s))
   \<and> ensure_autoexec_line (ensure_autoexec_line s) = ensure_autoexec_line s"
proof -
  have "starts_with s (ensure_autoexec_line s)"
    by (auto simp: starts_with_iff ensure_autoexec_line_def Let_def)
  moreover have "ensure_autoexec_line t = t" if "list_ex is_optimization_exec (lines t)" for t
    using that by (simp add: ensure_autoexec_line_def)
  ultimately show ?thesis using ensure_has_exec by simp
qed

end
