(* ===== verification/Cs2_Config.thy ===== *)
theory Cs2_Config
  imports Steam Cs2_Render Cs2_Targets
begin

text \<open>
  The controller that writes the game's configuration files
  (\<open>crates/frametime-domain/src/cs2_config.rs\<close> and \<open>cs2_config/transaction.rs\<close>) over its file-system
  trait.  A trait object is a record of functions over the world; the contents of the embedded assets
  are a parameter \<open>A\<close>.
\<close>

section \<open>Errors and reports\<close>

datatype (plugins only: code size) cs2_config_error =
    InvalidBinding
  | InvalidTimestamp
  | EmptyOptionalSelection
  | PreconditionMismatch path
  | UntrustedPath path
  | AutoexecNotUtf8
  | CfgIo io_error
  | CfgMutation string "path option" io_error
  | ReadbackMismatch path "path option"

record cfg_asset_deployment =
  dep_asset :: optional_cfg_asset
  dep_source_name :: string
  dep_target :: path
  dep_bytes :: string

record cs2_config_preview =
  pv_cfg_directory :: path
  pv_optimization_path :: path
  pv_autoexec_path :: "path option"
  pv_autoexec_backup_path :: "path option"
  pv_optimization_bytes :: string
  pv_autoexec_would_change :: bool
  pv_optional_assets :: "cfg_asset_deployment list"

datatype (plugins only: code size) optimization_backup =
  OptBackupCreated path | OptBackupRetained path | OptBackupNotNeeded

datatype (plugins only: code size) autoexec_backup =
  AutoBackupCreated path | AutoBackupRetained path | AutoBackupNotNeeded

record cs2_config_write_report =
  wr_optimization_path :: path
  wr_autoexec_path :: "path option"
  wr_optimization_backup :: optimization_backup
  wr_autoexec_backup :: autoexec_backup
  wr_autoexec_updated :: bool
  wr_optional_assets_written :: "path list"

section \<open>The file-system trait\<close>

record 'w cs2_config_fs =
  create_directory :: "path \<Rightarrow> ('w, io_error, unit) io"
  read_file :: "path \<Rightarrow> ('w, io_error, string) io"
  create_file_new :: "path \<Rightarrow> string \<Rightarrow> ('w, io_error, unit) io"
  atomic_replace :: "path \<Rightarrow> string \<Rightarrow> ('w, io_error, unit) io"
  remove_file :: "path \<Rightarrow> ('w, io_error, unit) io"

section \<open>Paths\<close>

definition validate_install :: "cs2_install \<Rightarrow> (unit, cs2_config_error) result" where
  "validate_install i =
     (let expected = join_names (library_root i) [''steamapps'', ''common'', CS2_DIRECTORY] in
      if install_root i \<noteq> expected then Err InvalidBinding else Ok ())"

definition assert_existing_path_safe :: "path \<Rightarrow> path \<Rightarrow> (unit, cs2_config_error) result" where
  "assert_existing_path_safe root candidate =
     (case strip_prefix_path root candidate of
        None \<Rightarrow> Err (UntrustedPath candidate)
      | Some relative \<Rightarrow>
          if relative = [] \<or> list_ex (\<lambda>c. \<not> is_normal c) relative then Err (UntrustedPath candidate)
          else Ok ())"

definition ensure_safe_target :: "path \<Rightarrow> path \<Rightarrow> (unit, cs2_config_error) result" where
  "ensure_safe_target root target = assert_existing_path_safe root target"

definition ensure_cfg_directory ::
  "'w cs2_config_fs \<Rightarrow> path \<Rightarrow> path \<Rightarrow> ('w, cs2_config_error, unit) io" where
  "ensure_cfg_directory F root p =
     io_bind (io_map_err CfgIo (create_directory F p)) (\<lambda>_.
     io_check (assert_existing_path_safe root p))"

record cs2_paths =
  cfg_directory :: path
  optimization_path :: path
  optimization_backup_path :: path
  autoexec_path :: path
  autoexec_backup_path :: path

text \<open>\<open>Cs2ConfigController\<close> is its install; \<open>new\<close> and \<open>paths\<close>.\<close>

definition controller_new :: "cs2_install \<Rightarrow> (cs2_install, cs2_config_error) result" where
  "controller_new i = and_then (validate_install i) (\<lambda>_. Ok i)"

definition controller_paths :: "cs2_install \<Rightarrow> (cs2_paths, cs2_config_error) result" where
  "controller_paths i =
     and_then (validate_install i) (\<lambda>_.
     let cfg_parent = join_names (install_root i) [''game'', ''csgo''] in
     and_then (assert_existing_path_safe (install_root i) cfg_parent) (\<lambda>_.
     let cfg = join_names cfg_parent [''cfg''] in
     and_then (assert_existing_path_safe (install_root i) cfg) (\<lambda>_.
     Ok \<lparr>cfg_directory = cfg,
         optimization_path = join_names cfg [OPTIMIZATION_FILE],
         optimization_backup_path = join_names cfg [''optimization.cfg.bak''],
         autoexec_path = join_names cfg [AUTOEXEC_FILE],
         autoexec_backup_path = join_names cfg [AUTOEXEC_BACKUP_FILE]\<rparr>)))"

type_synonym asset_contents = "optional_cfg_asset \<Rightarrow> string"

definition deployments_for_assets ::
  "asset_contents \<Rightarrow> cs2_paths \<Rightarrow> optional_cfg_asset list \<Rightarrow> cfg_asset_deployment list" where
  "deployments_for_assets A ps assets =
     map (\<lambda>a. \<lparr>dep_asset = a, dep_source_name = asset_file_name a,
               dep_target = join_names (cfg_directory ps) [asset_file_name a], dep_bytes = A a\<rparr>) assets"

definition optional_deployments ::
  "asset_contents \<Rightarrow> cs2_paths \<Rightarrow> cs2_config_request \<Rightarrow> cfg_asset_deployment list" where
  "optional_deployments A ps r = deployments_for_assets A ps (optional_assets r)"

section \<open>Reading and writing\<close>

definition read_optional :: "'w cs2_config_fs \<Rightarrow> path \<Rightarrow> ('w, cs2_config_error, string option) io" where
  "read_optional F p =
     io_match (read_file F p) (\<lambda>r.
     case r of
       Ok bytes \<Rightarrow> io_ret (Some bytes)
     | Err e \<Rightarrow> if error_kind e = IoNotFound then io_ret None else io_fail (CfgIo e))"

text \<open>\<open>str::from_utf8\<close>.\<close>

definition continues :: "nat \<Rightarrow> nat \<Rightarrow> char \<Rightarrow> bool" where
  "continues low high c \<longleftrightarrow> low \<le> byte c \<and> byte c \<le> high"

fun valid_utf8 :: "string \<Rightarrow> bool" where
  "valid_utf8 [] = True"
| "valid_utf8 (a # s) =
     (if byte a < 0x80 then valid_utf8 s
      else case s of
        [] \<Rightarrow> False
      | b # s' \<Rightarrow>
          if continues 0xC2 0xDF a then continues 0x80 0xBF b \<and> valid_utf8 s'
          else case s' of
            [] \<Rightarrow> False
          | c # s'' \<Rightarrow>
              if continues 0xE0 0xEF a
              then continues (if byte a = 0xE0 then 0xA0 else 0x80) (if byte a = 0xED then 0x9F else 0xBF) b
                \<and> continues 0x80 0xBF c \<and> valid_utf8 s''
              else case s'' of
                [] \<Rightarrow> False
              | d # s''' \<Rightarrow>
                  continues 0xF0 0xF4 a
                  \<and> continues (if byte a = 0xF0 then 0x90 else 0x80) (if byte a = 0xF4 then 0x8F else 0xBF) b
                  \<and> continues 0x80 0xBF c \<and> continues 0x80 0xBF d \<and> valid_utf8 s''')"

definition bytes_as_autoexec :: "string \<Rightarrow> (string, cs2_config_error) result" where
  "bytes_as_autoexec bytes = (if valid_utf8 bytes then Ok bytes else Err AutoexecNotUtf8)"

text \<open>\<open>existing.as_deref().map(bytes_as_autoexec).transpose()\<close>.\<close>

fun optional_autoexec :: "string option \<Rightarrow> (string option, cs2_config_error) result" where
  "optional_autoexec None = Ok None"
| "optional_autoexec (Some bytes) = and_then (bytes_as_autoexec bytes) (\<lambda>t. Ok (Some t))"

definition write_and_verify ::
  "'w cs2_config_fs \<Rightarrow> path \<Rightarrow> string \<Rightarrow> string \<Rightarrow> path option \<Rightarrow> ('w, cs2_config_error, unit) io" where
  "write_and_verify F p expected stage recovery =
     io_bind (io_map_err (CfgMutation stage recovery) (atomic_replace F p expected)) (\<lambda>_.
     io_bind (io_map_err (CfgMutation ''written CFG readback'' recovery) (read_file F p)) (\<lambda>actual.
     if actual = expected then io_ret () else io_fail (ReadbackMismatch p recovery)))"

definition verify_bytes :: "'w cs2_config_fs \<Rightarrow> path \<Rightarrow> string \<Rightarrow> ('w, cs2_config_error, unit) io" where
  "verify_bytes F p expected =
     io_bind (io_map_err CfgIo (read_file F p)) (\<lambda>actual.
     if actual = expected then io_ret () else io_fail (ReadbackMismatch p None))"

definition create_optimization_backup ::
  "'w cs2_config_fs \<Rightarrow> path \<Rightarrow> string option \<Rightarrow> ('w, cs2_config_error, optimization_backup) io" where
  "create_optimization_backup F p original =
     (case original of
        None \<Rightarrow> io_ret OptBackupNotNeeded
      | Some bytes \<Rightarrow>
          io_match (create_file_new F p bytes) (\<lambda>r.
          case r of
            Ok _ \<Rightarrow>
              io_match (read_file F p) (\<lambda>r.
              case r of
                Ok readback \<Rightarrow>
                  if readback = bytes then io_ret (OptBackupCreated p)
                  else io_fail (ReadbackMismatch p None)
              | Err e \<Rightarrow> io_fail (CfgMutation ''optimization.cfg backup readback'' None e))
          | Err e \<Rightarrow>
              if error_kind e = IoAlreadyExists then io_ret (OptBackupRetained p)
              else io_fail (CfgMutation ''optimization.cfg backup'' None e)))"

fun backup_path :: "optimization_backup \<Rightarrow> path option" where
  "backup_path (OptBackupCreated p) = Some p"
| "backup_path (OptBackupRetained p) = Some p"
| "backup_path OptBackupNotNeeded = None"

definition create_autoexec_backup ::
  "'w cs2_config_fs \<Rightarrow> path \<Rightarrow> string option \<Rightarrow> bool \<Rightarrow> ('w, cs2_config_error, autoexec_backup) io" where
  "create_autoexec_backup F p original autoexec_updated =
     (if \<not> autoexec_updated then io_ret AutoBackupNotNeeded
      else case original of
        None \<Rightarrow> io_ret AutoBackupNotNeeded
      | Some bytes \<Rightarrow>
          io_match (create_file_new F p bytes) (\<lambda>r.
          case r of
            Ok _ \<Rightarrow>
              io_match (read_file F p) (\<lambda>r.
              case r of
                Ok readback \<Rightarrow>
                  if readback = bytes then io_ret (AutoBackupCreated p)
                  else io_fail (ReadbackMismatch p None)
              | Err e \<Rightarrow> io_fail (CfgMutation ''autoexec.cfg backup readback'' None e))
          | Err e \<Rightarrow>
              if error_kind e = IoAlreadyExists then io_ret (AutoBackupRetained p)
              else io_fail (CfgMutation ''autoexec.cfg backup'' None e)))"

section \<open>The controller\<close>

text \<open>The checks that \<open>preview\<close>, \<open>apply\<close> and \<open>verify\<close> make of the targets of a request.\<close>

definition check_generated_targets ::
  "cs2_paths \<Rightarrow> cs2_config_request \<Rightarrow> (unit, cs2_config_error) result" where
  "check_generated_targets ps r =
     and_then (ensure_safe_target (cfg_directory ps) (optimization_path ps)) (\<lambda>_.
     and_then (ensure_safe_target (cfg_directory ps) (optimization_backup_path ps)) (\<lambda>_.
     if bootstrap_autoexec r
     then
       and_then (ensure_safe_target (cfg_directory ps) (autoexec_path ps)) (\<lambda>_.
       ensure_safe_target (cfg_directory ps) (autoexec_backup_path ps))
     else Ok ()))"

definition check_deployments ::
  "cs2_paths \<Rightarrow> cfg_asset_deployment list \<Rightarrow> (unit, cs2_config_error) result" where
  "check_deployments ps ds = try_each (\<lambda>d. ensure_safe_target (cfg_directory ps) (dep_target d)) ds"

definition controller_preview ::
  "asset_contents \<Rightarrow> 'w cs2_config_fs \<Rightarrow> cs2_install \<Rightarrow> cs2_config_request
   \<Rightarrow> ('w, cs2_config_error, cs2_config_preview) io" where
  "controller_preview A F i r =
     io_bind (io_check (controller_paths i)) (\<lambda>ps.
     io_bind (io_check (check_generated_targets ps r)) (\<lambda>_.
     io_bind (io_check (check_deployments ps (optional_deployments A ps r))) (\<lambda>_.
     io_bind
       (if bootstrap_autoexec r
        then
          io_bind (read_optional F (autoexec_path ps)) (\<lambda>bytes.
          io_bind (io_check (optional_autoexec bytes)) (\<lambda>t.
          let existing = (case t of None \<Rightarrow> [] | Some s \<Rightarrow> s) in
          io_ret (Some (autoexec_path ps), Some (autoexec_backup_path ps),
                  ensure_autoexec_line existing \<noteq> existing)))
        else io_ret (None, None, False)) (\<lambda>(autoexec, backup, would_change).
     io_ret
       \<lparr>pv_cfg_directory = cfg_directory ps,
        pv_optimization_path = optimization_path ps,
        pv_autoexec_path = autoexec,
        pv_autoexec_backup_path = backup,
        pv_optimization_bytes = render_optimization_cfg_at (generated_at r),
        pv_autoexec_would_change = would_change,
        pv_optional_assets = optional_deployments A ps r\<rparr>))))"

text \<open>What \<open>apply\<close> expects \<open>autoexec.cfg\<close> to hold, and whether that is a change.\<close>

definition expected_autoexec :: "cs2_config_request \<Rightarrow> string option \<Rightarrow> string option" where
  "expected_autoexec r before =
     (if bootstrap_autoexec r
      then Some (case before of None \<Rightarrow> ensure_autoexec_line [] | Some t \<Rightarrow> ensure_autoexec_line t)
      else None)"

definition autoexec_needs_update :: "cs2_config_request \<Rightarrow> string option \<Rightarrow> bool" where
  "autoexec_needs_update r before =
     (case expected_autoexec r before of
        None \<Rightarrow> False
      | Some expected \<Rightarrow> (case before of None \<Rightarrow> True | Some t \<Rightarrow> t \<noteq> expected))"

definition write_deployment ::
  "'w cs2_config_fs \<Rightarrow> path option \<Rightarrow> cfg_asset_deployment \<Rightarrow> ('w, cs2_config_error, path) io" where
  "write_deployment F recovery d =
     io_bind (write_and_verify F (dep_target d) (dep_bytes d) ''optional CFG replacement'' recovery) (\<lambda>_.
     io_ret (dep_target d))"

definition controller_apply ::
  "asset_contents \<Rightarrow> 'w cs2_config_fs \<Rightarrow> cs2_install \<Rightarrow> cs2_config_request
   \<Rightarrow> ('w, cs2_config_error, cs2_config_write_report) io" where
  "controller_apply A F i r =
     io_bind (io_check (controller_paths i)) (\<lambda>ps.
     io_bind (ensure_cfg_directory F (install_root i) (cfg_directory ps)) (\<lambda>_.
     io_bind (io_check (check_generated_targets ps r)) (\<lambda>_.
     let optional = optional_deployments A ps r in
     io_bind (io_check (check_deployments ps optional)) (\<lambda>_.
     io_bind (read_optional F (optimization_path ps)) (\<lambda>original_optimization.
     io_bind (if bootstrap_autoexec r then read_optional F (autoexec_path ps) else io_ret None)
       (\<lambda>autoexec_original.
     io_bind (io_check (optional_autoexec autoexec_original)) (\<lambda>autoexec_before.
     let updated = autoexec_needs_update r autoexec_before in
     io_bind (create_optimization_backup F (optimization_backup_path ps) original_optimization) (\<lambda>backup.
     let recovery = backup_path backup in
     io_bind (write_and_verify F (optimization_path ps) (render_optimization_cfg_at (generated_at r))
       ''optimization.cfg replacement'' recovery) (\<lambda>_.
     io_bind
       (if bootstrap_autoexec r
        then create_autoexec_backup F (autoexec_backup_path ps) autoexec_original updated
        else io_ret AutoBackupNotNeeded) (\<lambda>autoexec_backup.
     io_bind
       (case (if updated then expected_autoexec r autoexec_before else None) of
          None \<Rightarrow> io_ret ()
        | Some expected \<Rightarrow>
            write_and_verify F (autoexec_path ps) expected ''autoexec.cfg replacement'' recovery) (\<lambda>_.
     io_bind (io_each (write_deployment F recovery) optional) (\<lambda>written.
     io_ret
       \<lparr>wr_optimization_path = optimization_path ps,
        wr_autoexec_path = (if bootstrap_autoexec r then Some (autoexec_path ps) else None),
        wr_optimization_backup = backup,
        wr_autoexec_backup = autoexec_backup,
        wr_autoexec_updated = updated,
        wr_optional_assets_written = written\<rparr>))))))))))))"

definition verify_deployment ::
  "'w cs2_config_fs \<Rightarrow> cs2_paths \<Rightarrow> cfg_asset_deployment \<Rightarrow> ('w, cs2_config_error, unit) io" where
  "verify_deployment F ps d =
     io_bind (io_check (ensure_safe_target (cfg_directory ps) (dep_target d))) (\<lambda>_.
     verify_bytes F (dep_target d) (dep_bytes d))"

definition controller_verify ::
  "asset_contents \<Rightarrow> 'w cs2_config_fs \<Rightarrow> cs2_install \<Rightarrow> cs2_config_request
   \<Rightarrow> ('w, cs2_config_error, unit) io" where
  "controller_verify A F i r =
     io_bind (io_check (controller_paths i)) (\<lambda>ps.
     io_bind (io_check (ensure_safe_target (cfg_directory ps) (optimization_path ps))) (\<lambda>_.
     io_bind (io_check
       (if bootstrap_autoexec r
        then
          and_then (ensure_safe_target (cfg_directory ps) (autoexec_path ps)) (\<lambda>_.
          ensure_safe_target (cfg_directory ps) (autoexec_backup_path ps))
        else Ok ())) (\<lambda>_.
     io_bind (verify_bytes F (optimization_path ps) (render_optimization_cfg_at (generated_at r))) (\<lambda>_.
     io_bind
       (if bootstrap_autoexec r
        then
          io_bind (io_map_err CfgIo (read_file F (autoexec_path ps))) (\<lambda>bytes.
          io_bind (io_check (bytes_as_autoexec bytes)) (\<lambda>autoexec.
          if ensure_autoexec_line autoexec \<noteq> autoexec
          then io_fail (ReadbackMismatch (autoexec_path ps) None)
          else io_ret ()))
        else io_ret ()) (\<lambda>_.
     io_bind (io_each (verify_deployment F ps) (optional_deployments A ps r)) (\<lambda>_.
     io_ret ()))))))"

section \<open>Optional assets alone\<close>

definition deploy_one ::
  "'w cs2_config_fs \<Rightarrow> cs2_paths \<Rightarrow> cfg_asset_deployment \<Rightarrow> ('w, cs2_config_error, path) io" where
  "deploy_one F ps d =
     io_bind (io_check (ensure_safe_target (cfg_directory ps) (dep_target d))) (\<lambda>_.
     write_deployment F None d)"

definition apply_optional_assets ::
  "asset_contents \<Rightarrow> 'w cs2_config_fs \<Rightarrow> cs2_install \<Rightarrow> optional_cfg_asset list
   \<Rightarrow> ('w, cs2_config_error, path list) io" where
  "apply_optional_assets A F i assets =
     (if assets = [] then io_fail EmptyOptionalSelection
      else
        io_bind (io_check (controller_paths i)) (\<lambda>ps.
        io_bind (ensure_cfg_directory F (install_root i) (cfg_directory ps)) (\<lambda>_.
        io_each (deploy_one F ps) (deployments_for_assets A ps assets))))"

definition verify_optional_assets ::
  "asset_contents \<Rightarrow> 'w cs2_config_fs \<Rightarrow> cs2_install \<Rightarrow> optional_cfg_asset list
   \<Rightarrow> ('w, cs2_config_error, unit) io" where
  "verify_optional_assets A F i assets =
     (if assets = [] then io_fail EmptyOptionalSelection
      else
        io_bind (io_check (controller_paths i)) (\<lambda>ps.
        io_bind (io_each (verify_deployment F ps) (deployments_for_assets A ps assets)) (\<lambda>_.
        io_ret ())))"

type_synonym snapshots = "(cs2_config_target \<times> string option) list"

definition deploy_if_unchanged ::
  "'w cs2_config_fs \<Rightarrow> cs2_paths \<Rightarrow> cfg_asset_deployment \<times> cs2_config_target \<times> string option
   \<Rightarrow> ('w, cs2_config_error, path) io" where
  "deploy_if_unchanged F ps =
     (\<lambda>(d, _, original).
        io_bind (io_check (ensure_safe_target (cfg_directory ps) (dep_target d))) (\<lambda>_.
        io_bind (read_optional F (dep_target d)) (\<lambda>current.
        if current \<noteq> original then io_fail (PreconditionMismatch (dep_target d))
        else write_deployment F None d)))"

definition apply_optional_assets_if_unchanged ::
  "asset_contents \<Rightarrow> 'w cs2_config_fs \<Rightarrow> cs2_install \<Rightarrow> optional_cfg_asset list \<Rightarrow> snapshots
   \<Rightarrow> ('w, cs2_config_error, path list) io" where
  "apply_optional_assets_if_unchanged A F i assets snaps =
     (if assets = [] then io_fail EmptyOptionalSelection
      else
        io_bind (io_check (controller_paths i)) (\<lambda>ps.
        io_bind (ensure_cfg_directory F (install_root i) (cfg_directory ps)) (\<lambda>_.
        let deployments = deployments_for_assets A ps assets in
        if map (\<lambda>d. from_optional_asset (dep_asset d)) deployments \<noteq> map fst snaps
        then io_fail InvalidBinding
        else io_each (deploy_if_unchanged F ps) (zip deployments snaps))))"

section \<open>Restoring\<close>

definition target_paths :: "cs2_paths \<Rightarrow> cs2_config_target list \<Rightarrow> (cs2_config_target \<times> path) list" where
  "target_paths ps ts = map (\<lambda>t. (t, join_names (cfg_directory ps) [target_file_name t])) ts"

definition check_targets ::
  "cs2_paths \<Rightarrow> (cs2_config_target \<times> path) list \<Rightarrow> (unit, cs2_config_error) result" where
  "check_targets ps ts = try_each (\<lambda>(_, p). ensure_safe_target (cfg_directory ps) p) ts"

definition backup_targets ::
  "cs2_install \<Rightarrow> cs2_config_request \<Rightarrow> ((cs2_config_target \<times> path) list, cs2_config_error) result" where
  "backup_targets i r =
     and_then (controller_paths i) (\<lambda>ps.
     let targets = target_paths ps (for_request r) in
     and_then (check_targets ps targets) (\<lambda>_. Ok targets))"

definition backup_optional_targets ::
  "cs2_install \<Rightarrow> optional_cfg_asset list
   \<Rightarrow> ((cs2_config_target \<times> path) list, cs2_config_error) result" where
  "backup_optional_targets i assets =
     (if assets = [] then Err EmptyOptionalSelection
      else
        and_then (controller_paths i) (\<lambda>ps.
        let targets = target_paths ps (for_optional_assets assets) in
        and_then (check_targets ps targets) (\<lambda>_. Ok targets)))"

definition remove_target :: "'w cs2_config_fs \<Rightarrow> path \<Rightarrow> ('w, cs2_config_error, unit) io" where
  "remove_target F p =
     io_match (remove_file F p) (\<lambda>r.
     case r of
       Ok _ \<Rightarrow> io_ret ()
     | Err e \<Rightarrow>
         if error_kind e = IoNotFound then io_ret ()
         else io_fail (CfgMutation ''CS2 CFG restore deletion'' None e))"

definition restore_one ::
  "'w cs2_config_fs \<Rightarrow> (cs2_config_target \<times> path) \<times> cs2_config_target \<times> string option
   \<Rightarrow> ('w, cs2_config_error, unit) io" where
  "restore_one F =
     (\<lambda>((_, p), _, original).
        io_bind (io_check (ok_or (UntrustedPath p) (path_parent p))) (\<lambda>root.
        io_bind (io_check (ensure_safe_target root p)) (\<lambda>_.
        case original of
          Some bytes \<Rightarrow> write_and_verify F p bytes ''CS2 CFG restore replacement'' None
        | None \<Rightarrow>
            io_bind (remove_target F p) (\<lambda>_.
            io_bind (read_optional F p) (\<lambda>current.
            if current \<noteq> None then io_fail (ReadbackMismatch p None) else io_ret ())))))"

definition restore_targets ::
  "'w cs2_config_fs \<Rightarrow> (cs2_config_target \<times> path) list \<Rightarrow> snapshots
   \<Rightarrow> ('w, cs2_config_error, unit) io" where
  "restore_targets F targets snaps =
     (if map fst targets \<noteq> map fst snaps then io_fail InvalidBinding
      else io_bind (io_each (restore_one F) (zip targets snaps)) (\<lambda>_. io_ret ()))"

definition controller_restore ::
  "'w cs2_config_fs \<Rightarrow> cs2_install \<Rightarrow> cs2_config_request \<Rightarrow> snapshots
   \<Rightarrow> ('w, cs2_config_error, unit) io" where
  "controller_restore F i r snaps =
     io_bind (io_check (backup_targets i r)) (\<lambda>targets. restore_targets F targets snaps)"

definition restore_optional_assets ::
  "'w cs2_config_fs \<Rightarrow> cs2_install \<Rightarrow> optional_cfg_asset list \<Rightarrow> snapshots
   \<Rightarrow> ('w, cs2_config_error, unit) io" where
  "restore_optional_assets F i assets snaps =
     io_bind (io_check (backup_optional_targets i assets)) (\<lambda>targets. restore_targets F targets snaps)"

end
