(* ===== verification/Cs2_Contract.thy ===== *)
theory Cs2_Contract
  imports Cs2_Config
begin

text \<open>
  What the configuration controller relies on when it calls its file-system trait, as a locale, and
  what it achieves under that contract: which files each operation may touch, what a successful write
  leaves, and that a restore leaves every target as it was captured.
\<close>

section \<open>The files of a directory the tool manages\<close>

definition OPTIMIZATION_BACKUP_FILE :: string where
  "OPTIMIZATION_BACKUP_FILE = ''optimization.cfg.bak''"

definition managed_names :: "string set" where
  "managed_names = range target_file_name \<union> {OPTIMIZATION_BACKUP_FILE, AUTOEXEC_BACKUP_FILE}"

definition managed :: "path \<Rightarrow> path \<Rightarrow> bool" where
  "managed dir p \<longleftrightarrow> (\<exists>n\<in>managed_names. p = dir @ [Normal n])"

lemma managed_target [simp]: "managed dir (dir @ [Normal (target_file_name t)])"
  by (auto simp: managed_def managed_names_def)

lemma managed_asset [simp]: "managed dir (dir @ [Normal (asset_file_name a)])"
  using managed_target [of dir "from_optional_asset a"] by simp

lemma managed_fixed [simp]:
  "managed dir (dir @ [Normal OPTIMIZATION_FILE])" "managed dir (dir @ [Normal AUTOEXEC_FILE])"
  using managed_target [of dir TargetOptimization] managed_target [of dir TargetAutoexec] by simp_all

lemma managed_backups [simp]:
  "managed dir (dir @ [Normal OPTIMIZATION_BACKUP_FILE])" "managed dir (dir @ [Normal AUTOEXEC_BACKUP_FILE])"
  by (auto simp: managed_def managed_names_def)

text \<open>The paths of an install that binds, and the directory they are in.\<close>

definition cfg_dir :: "cs2_install \<Rightarrow> path" where
  "cfg_dir i = join_names (install_root i) [''game'', ''csgo'', ''cfg'']"

lemma controller_paths_Ok:
  "controller_paths i = Ok ps \<longleftrightarrow> validate_install i = Ok ()
     \<and> ps = \<lparr>cfg_directory = cfg_dir i,
            optimization_path = cfg_dir i @ [Normal OPTIMIZATION_FILE],
            optimization_backup_path = cfg_dir i @ [Normal OPTIMIZATION_BACKUP_FILE],
            autoexec_path = cfg_dir i @ [Normal AUTOEXEC_FILE],
            autoexec_backup_path = cfg_dir i @ [Normal AUTOEXEC_BACKUP_FILE]\<rparr>"
  by (auto simp: controller_paths_def guard_simps Let_def assert_existing_path_safe_def cfg_dir_def
      join_names_def OPTIMIZATION_BACKUP_FILE_def strip_prefix_path_def)

lemma safe_child [simp]: "ensure_safe_target d (d @ [Normal n]) = Ok ()"
  by (simp add: ensure_safe_target_def assert_existing_path_safe_def)

lemma target_paths_eq: "target_paths ps ts = map (\<lambda>t. (t, cfg_directory ps @ [Normal (target_file_name t)])) ts"
  by (simp add: target_paths_def)

lemma check_targets_Ok [simp]: "check_targets ps (target_paths ps ts) = Ok ()"
  by (auto simp: check_targets_def target_paths_eq guard_simps)

lemma backup_targets_Ok:
  "backup_targets i r = Ok ts \<longleftrightarrow> validate_install i = Ok ()
     \<and> ts = map (\<lambda>t. (t, cfg_dir i @ [Normal (target_file_name t)])) (for_request r)"
  by (auto simp: backup_targets_def guard_simps Let_def controller_paths_Ok) (auto simp: target_paths_eq)

text \<open>The files that applying a request may change: its targets and the backups beside them.\<close>

definition apply_files :: "path \<Rightarrow> cs2_config_request \<Rightarrow> path set" where
  "apply_files dir r =
     (\<lambda>t. dir @ [Normal (target_file_name t)]) ` set (for_request r)
     \<union> {dir @ [Normal OPTIMIZATION_BACKUP_FILE], dir @ [Normal AUTOEXEC_BACKUP_FILE]}"

lemma apply_files_target:
  "t \<in> set (for_request r) \<Longrightarrow> dir @ [Normal (target_file_name t)] \<in> apply_files dir r"
  by (auto simp: apply_files_def)

lemma apply_files_simps [simp]:
  "dir @ [Normal OPTIMIZATION_FILE] \<in> apply_files dir r"
  "bootstrap_autoexec r \<Longrightarrow> dir @ [Normal AUTOEXEC_FILE] \<in> apply_files dir r"
  "a \<in> set (optional_assets r) \<Longrightarrow> dir @ [Normal (asset_file_name a)] \<in> apply_files dir r"
  "dir @ [Normal OPTIMIZATION_BACKUP_FILE] \<in> apply_files dir r"
  "dir @ [Normal AUTOEXEC_BACKUP_FILE] \<in> apply_files dir r"
  using apply_files_target [of TargetOptimization r dir] apply_files_target [of TargetAutoexec r dir]
    apply_files_target [of "from_optional_asset a" r dir]
  by (simp_all add: for_request_def request_asset_target_eq apply_files_def)

lemma names_differ [simp]:
  "OPTIMIZATION_FILE \<noteq> AUTOEXEC_FILE" "OPTIMIZATION_FILE \<noteq> OPTIMIZATION_BACKUP_FILE"
  "OPTIMIZATION_FILE \<noteq> AUTOEXEC_BACKUP_FILE" "AUTOEXEC_FILE \<noteq> OPTIMIZATION_BACKUP_FILE"
  "AUTOEXEC_FILE \<noteq> AUTOEXEC_BACKUP_FILE" "OPTIMIZATION_BACKUP_FILE \<noteq> AUTOEXEC_BACKUP_FILE"
  "asset_file_name a \<noteq> OPTIMIZATION_FILE" "asset_file_name a \<noteq> AUTOEXEC_FILE"
  "asset_file_name a \<noteq> OPTIMIZATION_BACKUP_FILE" "asset_file_name a \<noteq> AUTOEXEC_BACKUP_FILE"
  "AUTOEXEC_FILE \<noteq> OPTIMIZATION_FILE" "OPTIMIZATION_BACKUP_FILE \<noteq> OPTIMIZATION_FILE"
  by (simp_all add: OPTIMIZATION_FILE_def AUTOEXEC_FILE_def OPTIMIZATION_BACKUP_FILE_def
      AUTOEXEC_BACKUP_FILE_def) (cases a; simp)+

lemmas names_differ_symmetric [simp] = names_differ [symmetric]

lemma asset_file_name_inject [simp]: "asset_file_name a = asset_file_name b \<longleftrightarrow> a = b"
  using target_file_name_inject [of "from_optional_asset a" "from_optional_asset b"] by simp

section \<open>Touching only some files\<close>

text \<open>Of the managed files of \<open>dir\<close>, an action changes only those in \<open>S\<close>.\<close>

definition touches ::
  "path \<Rightarrow> ('w \<Rightarrow> bool) \<Rightarrow> ('w \<Rightarrow> path \<Rightarrow> string option) \<Rightarrow> path set \<Rightarrow> 'w \<Rightarrow> 'w \<Rightarrow> bool" where
  "touches dir ready content S w w' \<longleftrightarrow>
     (ready w \<longrightarrow> ready w' \<and> (\<forall>q. managed dir q \<longrightarrow> q \<notin> S \<longrightarrow> content w' q = content w q))"

lemma touches_refl [simp]: "reflp (touches dir ready content S)"
  by (auto simp: reflp_def touches_def)

lemma touches_trans [simp]: "transp (touches dir ready content S)"
  by (auto simp: transp_def touches_def)

lemma touches_mono:
  "io_within (touches dir ready content S) m \<Longrightarrow> S \<subseteq> T \<Longrightarrow> io_within (touches dir ready content T) m"
  unfolding io_within_def touches_def by blast

lemma touchesD:
  assumes "io_within (touches dir ready content S) m" and "m w = (r, w')" and "ready w"
  shows "ready w'" and "managed dir q \<Longrightarrow> q \<notin> S \<Longrightarrow> content w' q = content w q"
  using io_withinD [OF assms(1,2)] assms(3) by (auto simp: touches_def)

lemmas touches_steps =
  io_within_ret [OF touches_refl] io_within_fail [OF touches_refl] io_within_check [OF touches_refl]
  io_within_bind [OF touches_trans] io_within_match [OF touches_trans] io_within_map_err
  io_within_check_bind [OF touches_refl] io_within_each [OF touches_refl touches_trans]

section \<open>The contract\<close>

locale config_files =
  fixes F :: "'w cs2_config_fs"
    and dir :: path
    and ready :: "'w \<Rightarrow> bool"
    and content :: "'w \<Rightarrow> path \<Rightarrow> string option"
  assumes directory_frame:
      "create_directory F p w = (r, w') \<Longrightarrow> ready w \<Longrightarrow>
         ready w' \<and> (\<forall>q. managed dir q \<longrightarrow> content w' q = content w q)"
    and read_frame:
      "read_file F p w = (x, w') \<Longrightarrow> ready w \<Longrightarrow>
         ready w' \<and> (\<forall>q. managed dir q \<longrightarrow> content w' q = content w q)"
    and read_Ok:
      "read_file F p w = (Ok bytes, w') \<Longrightarrow> ready w \<Longrightarrow> managed dir p \<Longrightarrow> content w p = Some bytes"
    and read_missing:
      "read_file F p w = (Err e, w') \<Longrightarrow> error_kind e = IoNotFound \<Longrightarrow> ready w \<Longrightarrow> managed dir p \<Longrightarrow>
         content w p = None"
    and replace_frame:
      "atomic_replace F p bytes w = (r, w') \<Longrightarrow> ready w \<Longrightarrow> managed dir p \<Longrightarrow>
         ready w' \<and> (\<forall>q. managed dir q \<longrightarrow> q \<noteq> p \<longrightarrow> content w' q = content w q)"
    and replace_Ok:
      "atomic_replace F p bytes w = (Ok u, w') \<Longrightarrow> ready w \<Longrightarrow> managed dir p \<Longrightarrow> content w' p = Some bytes"
    and replace_atomic:
      "atomic_replace F p bytes w = (Err e, w') \<Longrightarrow> ready w \<Longrightarrow> managed dir p \<Longrightarrow>
         content w' p \<in> {content w p, Some bytes}"
    and create_frame:
      "create_file_new F p bytes w = (r, w') \<Longrightarrow> ready w \<Longrightarrow> managed dir p \<Longrightarrow>
         ready w' \<and> (\<forall>q. managed dir q \<longrightarrow> q \<noteq> p \<longrightarrow> content w' q = content w q)"
    and create_Ok:
      "create_file_new F p bytes w = (Ok u, w') \<Longrightarrow> ready w \<Longrightarrow> managed dir p \<Longrightarrow>
         content w p = None \<and> content w' p = Some bytes"
    and create_exists:
      "create_file_new F p bytes w = (Err e, w') \<Longrightarrow> error_kind e = IoAlreadyExists \<Longrightarrow> ready w \<Longrightarrow>
         managed dir p \<Longrightarrow> content w' p = content w p \<and> content w p \<noteq> None"
    and remove_frame:
      "remove_file F p w = (r, w') \<Longrightarrow> ready w \<Longrightarrow> managed dir p \<Longrightarrow>
         ready w' \<and> (\<forall>q. managed dir q \<longrightarrow> q \<noteq> p \<longrightarrow> content w' q = content w q)"
begin

lemma directory_touches: "io_within (touches dir ready content S) (create_directory F p)"
  unfolding io_within_def touches_def using directory_frame by (metis prod.collapse)

lemma read_touches: "io_within (touches dir ready content S) (read_file F p)"
  unfolding io_within_def touches_def using read_frame by (metis prod.collapse)

lemma replace_touches: "managed dir p \<Longrightarrow> p \<in> S \<Longrightarrow> io_within (touches dir ready content S) (atomic_replace F p bytes)"
  unfolding io_within_def touches_def using replace_frame by (metis prod.collapse)

lemma create_touches: "managed dir p \<Longrightarrow> p \<in> S \<Longrightarrow> io_within (touches dir ready content S) (create_file_new F p bytes)"
  unfolding io_within_def touches_def using create_frame by (metis prod.collapse)

lemma remove_touches: "managed dir p \<Longrightarrow> p \<in> S \<Longrightarrow> io_within (touches dir ready content S) (remove_file F p)"
  unfolding io_within_def touches_def using remove_frame by (metis prod.collapse)

lemmas touch_intros = touches_steps directory_touches read_touches replace_touches create_touches remove_touches

text \<open>An action that touches only \<open>S\<close> keeps everything else.\<close>

lemma stays_ready: "io_within (touches dir ready content S) m \<Longrightarrow> m w = (r, w') \<Longrightarrow> ready w \<Longrightarrow> ready w'"
  by (rule touchesD(1))

lemma unchanged:
  "io_within (touches dir ready content S) m \<Longrightarrow> m w = (r, w') \<Longrightarrow> ready w \<Longrightarrow> managed dir q \<Longrightarrow> q \<notin> S \<Longrightarrow>
     content w' q = content w q"
  by (rule touchesD(2))

text \<open>Reading a managed file.\<close>

lemma read_optional_touches: "io_within (touches dir ready content S) (read_optional F p)"
  unfolding read_optional_def
  by (intro touch_intros) (auto intro!: touch_intros split: result.splits)

lemma read_optional_Ok:
  assumes "read_optional F p w = (Ok x, w')" and "ready w" and "managed dir p"
  shows "content w p = x"
proof -
  obtain r w1 where r: "read_file F p w = (r, w1)" by fastforce
  show ?thesis
  proof (cases r)
    case (Ok bytes)
    then show ?thesis
      using read_Ok [of p w bytes w1] r assms by (auto simp: read_optional_def io_match_def io_ret_def)
  next
    case (Err e)
    then show ?thesis
      using read_missing [of p w e w1] r assms
      by (auto simp: read_optional_def io_match_def io_ret_def io_fail_def split: if_splits)
  qed
qed

text \<open>A write that is verified.\<close>

lemma write_touches:
  "managed dir p \<Longrightarrow> p \<in> S \<Longrightarrow> io_within (touches dir ready content S) (write_and_verify F p bytes stage rec)"
  unfolding write_and_verify_def by (intro touch_intros) (auto intro!: touch_intros)

lemma write_Ok:
  assumes "write_and_verify F p bytes stage rec w = (Ok u, w')" and "ready w" and "managed dir p"
  shows "content w' p = Some bytes"
proof -
  obtain w1 where w1: "atomic_replace F p bytes w = (Ok (), w1)" "read_file F p w1 = (Ok bytes, w')"
    using assms(1) by (auto simp: write_and_verify_def io_Ok split: if_splits)
  have "ready w1" using replace_frame [OF w1(1) assms(2,3)] by simp
  then show ?thesis using read_frame [OF w1(2)] replace_Ok [OF w1(1) assms(2,3)] assms(3) by simp
qed

lemma write_deployment_touches:
  "managed dir (dep_target d) \<Longrightarrow> dep_target d \<in> S \<Longrightarrow>
     io_within (touches dir ready content S) (write_deployment F rec d)"
  unfolding write_deployment_def by (intro touch_intros write_touches) auto

lemma write_deployments_Ok:
  assumes "io_each (write_deployment F rec) ds w = (Ok ps, w')" and "ready w"
    and "\<And>d. d \<in> set ds \<Longrightarrow> managed dir (dep_target d)" and "distinct (map dep_target ds)"
  shows "ps = map dep_target ds \<and> (\<forall>d\<in>set ds. content w' (dep_target d) = Some (dep_bytes d))"
  using assms
proof (induction ds arbitrary: w ps)
  case Nil
  then show ?case by (simp add: io_Ok)
next
  case (Cons d ds)
  obtain w1 p qs where w1: "write_deployment F rec d w = (Ok p, w1)"
      and rest: "io_each (write_deployment F rec) ds w1 = (Ok qs, w')" and ps: "ps = p # qs"
    using Cons.prems(1) by (auto simp: io_Ok)
  have d: "managed dir (dep_target d)" using Cons.prems(3) by simp
  have one: "p = dep_target d" "content w1 (dep_target d) = Some (dep_bytes d)"
    using w1 write_Ok [OF _ Cons.prems(2) d] by (auto simp: write_deployment_def io_Ok)
  have "ready w1" using stays_ready [OF write_deployment_touches [OF d] w1 Cons.prems(2)] by blast
  then have ih: "qs = map dep_target ds" "\<forall>d\<in>set ds. content w' (dep_target d) = Some (dep_bytes d)"
    using Cons.IH [OF rest] Cons.prems(3,4) by auto
  have each: "io_within (touches dir ready content (dep_target ` set ds)) (io_each (write_deployment F rec) ds)"
    by (intro io_within_each write_deployment_touches touches_refl touches_trans)
      (use Cons.prems(3) in auto)
  have "content w' (dep_target d) = content w1 (dep_target d)"
    by (rule unchanged [OF each rest \<open>ready w1\<close> d]) (use Cons.prems(4) in auto)
  with one ih ps show ?case by simp
qed

text \<open>Restoring one target, and a list of targets.\<close>

lemma remove_target_touches:
  "managed dir p \<Longrightarrow> p \<in> S \<Longrightarrow> io_within (touches dir ready content S) (remove_target F p)"
  unfolding remove_target_def by (auto intro!: touch_intros split: result.splits)

lemma restore_one_touches:
  "managed dir p \<Longrightarrow> p \<in> S \<Longrightarrow> io_within (touches dir ready content S) (restore_one F ((t, p), x))"
  unfolding restore_one_def
  by (cases x) (auto intro!: touch_intros write_touches remove_target_touches read_optional_touches
      split: option.splits)

lemma restore_one_Ok:
  assumes "restore_one F ((t, p), t', original) w = (Ok u, w')" and "ready w" and "managed dir p"
  shows "content w' p = original"
proof (cases original)
  case (Some bytes)
  then show ?thesis
    using assms by (auto simp: restore_one_def io_Ok intro: write_Ok)
next
  case None
  obtain w1 where w1: "remove_target F p w = (Ok (), w1)" "read_optional F p w1 = (Ok None, w')"
    using assms(1) None by (auto simp: restore_one_def io_Ok split: if_splits)
  have "ready w1" by (rule stays_ready [OF remove_target_touches [OF assms(3) singletonI] w1(1) assms(2)])
  then have "content w1 p = None" by (rule read_optional_Ok [OF w1(2) _ assms(3)])
  moreover have "content w' p = content w1 p"
    by (rule unchanged [OF read_optional_touches [of "{}"] w1(2) \<open>ready w1\<close> assms(3)]) simp
  ultimately show ?thesis using None by simp
qed

lemma restore_each_Ok:
  assumes "io_each (restore_one F) (zip ts xs) w = (Ok us, w')" and "ready w"
    and "\<And>t p. (t, p) \<in> set ts \<Longrightarrow> managed dir p" and "distinct (map snd ts)" and "length ts = length xs"
  shows "\<forall>((t, p), (t', original))\<in>set (zip ts xs). content w' p = original"
  using assms
proof (induction ts arbitrary: xs w us)
  case (Cons tp ts)
  obtain t p where tp: "tp = (t, p)" by (cases tp)
  obtain t' original ys where xs: "xs = (t', original) # ys"
    using Cons.prems(5) by (cases xs) auto
  obtain w1 u vs where w1: "restore_one F ((t, p), (t', original)) w = (Ok u, w1)"
      and rest: "io_each (restore_one F) (zip ts ys) w1 = (Ok vs, w')"
    using Cons.prems(1) by (auto simp: io_Ok tp xs)
  have p: "managed dir p" using Cons.prems(3) [of t p] tp by simp
  have one: "content w1 p = original" by (rule restore_one_Ok [OF w1 Cons.prems(2) p])
  have ready: "ready w1" using stays_ready [OF restore_one_touches [OF p] w1 Cons.prems(2)] by blast
  have ih: "\<forall>((t, p), (t', original))\<in>set (zip ts ys). content w' p = original"
  proof (rule Cons.IH [OF rest \<open>ready w1\<close>])
    show "managed dir q" if "(s, q) \<in> set ts" for s q using Cons.prems(3) [of s q] that by simp
  qed (use Cons.prems(4,5) xs in auto)
  have each: "io_within (touches dir ready content (snd ` set ts)) (io_each (restore_one F) (zip ts ys))"
  proof (intro io_within_each touches_refl touches_trans)
    fix x assume "x \<in> set (zip ts ys)"
    then obtain s q y where x: "x = ((s, q), y)" "(s, q) \<in> set ts"
      by (metis surj_pair in_set_zipE)
    then have "managed dir q" "q \<in> snd ` set ts" using Cons.prems(3) [of s q] by force+
    with x show "io_within (touches dir ready content (snd ` set ts)) (restore_one F x)"
      by (simp add: restore_one_touches)
  qed
  have "content w' p = content w1 p"
    by (rule unchanged [OF each rest \<open>ready w1\<close> p]) (use Cons.prems(4) tp in auto)
  with one ih show ?case by (auto simp: tp xs)
qed simp

lemma restore_targets_touches:
  assumes "\<And>t p. (t, p) \<in> set ts \<Longrightarrow> managed dir p \<and> p \<in> S"
  shows "io_within (touches dir ready content S) (restore_targets F ts xs)"
proof -
  have "io_within (touches dir ready content S) (io_each (restore_one F) (zip ts xs))"
  proof (intro touches_steps)
    fix x assume "x \<in> set (zip ts xs)"
    then obtain t p y where "x = ((t, p), y)" "(t, p) \<in> set ts"
      by (metis surj_pair in_set_zipE)
    then show "io_within (touches dir ready content S) (restore_one F x)"
      using assms by (auto intro!: restore_one_touches)
  qed
  then show ?thesis unfolding restore_targets_def by (auto intro: touches_steps)
qed

lemma restore_targets_Ok:
  assumes "restore_targets F ts xs w = (Ok u, w')" and "ready w"
    and "\<And>t p. (t, p) \<in> set ts \<Longrightarrow> managed dir p" and "distinct (map snd ts)"
  shows "\<forall>((t, p), (t', original))\<in>set (zip ts xs). content w' p = original"
proof -
  have "length ts = length xs"
    using assms(1) by (auto simp: restore_targets_def io_Ok split: if_splits dest: map_eq_imp_length_eq)
  moreover obtain us where "io_each (restore_one F) (zip ts xs) w = (Ok us, w')"
    using assms(1) by (auto simp: restore_targets_def io_Ok split: if_splits)
  ultimately show ?thesis by (intro restore_each_Ok [OF _ assms(2-4)])
qed

text \<open>Backups beside the files.\<close>

lemma optimization_backup_touches:
  "managed dir p \<Longrightarrow> p \<in> S \<Longrightarrow> io_within (touches dir ready content S) (create_optimization_backup F p x)"
  unfolding create_optimization_backup_def
  by (cases x) (auto intro!: touch_intros split: result.splits)

lemma autoexec_backup_touches:
  "managed dir p \<Longrightarrow> p \<in> S \<Longrightarrow> io_within (touches dir ready content S) (create_autoexec_backup F p x b)"
  unfolding create_autoexec_backup_def
  by (cases x) (auto intro!: touch_intros split: result.splits)

lemma ensure_directory_touches: "io_within (touches dir ready content S) (ensure_cfg_directory F root p)"
  unfolding ensure_cfg_directory_def by (intro touch_intros)

text \<open>The managed files of a request and what \<open>apply\<close> may touch.\<close>

lemma apply_touches:
  assumes "dir = cfg_dir i"
  shows "io_within (touches dir ready content (apply_files dir r)) (controller_apply A F i r)"
  unfolding controller_apply_def Let_def
  by (auto intro!: touch_intros ensure_directory_touches read_optional_touches
      optimization_backup_touches autoexec_backup_touches write_touches write_deployment_touches
      simp: controller_paths_Ok assms [symmetric] optional_deployments_def deployments_for_assets_def
        expected_autoexec_def
      split: option.splits if_splits)

lemma optimization_backup_Ok:
  assumes "create_optimization_backup F p original w = (Ok b, w')" and "ready w" and "managed dir p"
  shows "content w' p = (case content w p of None \<Rightarrow> original | Some x \<Rightarrow> if original = None then content w p else Some x)"
proof (cases original)
  case None
  then show ?thesis
    using assms(1) by (auto simp: create_optimization_backup_def io_Ok split: option.splits)
next
  case (Some bytes)
  obtain r w1 where r: "create_file_new F p bytes w = (r, w1)" by fastforce
  have w1: "ready w1" using create_frame [OF r assms(2,3)] by simp
  show ?thesis
  proof (cases r)
    case (Ok u)
    obtain x w2 where x: "read_file F p w1 = (x, w2)" by fastforce
    then have "w2 = w'"
      using assms(1) Some r Ok
      by (cases x) (auto simp: create_optimization_backup_def io_match_def io_ret_def io_fail_def
          split: if_splits)
    with x have "read_file F p w1 = (x, w')" by simp
    then have "content w' p = content w1 p" using read_frame w1 assms(3) by blast
    then show ?thesis using create_Ok [OF _ assms(2,3)] r Ok Some by auto
  next
    case (Err e)
    then have e: "error_kind e = IoAlreadyExists" and "w' = w1"
      using assms(1) Some r
      by (auto simp: create_optimization_backup_def io_match_def io_ret_def io_fail_def split: if_splits)
    then show ?thesis
      using create_exists [OF r [unfolded Err] e assms(2,3)] Some by (auto split: option.splits)
  qed
qed

text \<open>What a successful \<open>apply\<close> leaves in the files of its request.\<close>

lemma apply_Ok:
  assumes "controller_apply A F i r w = (Ok report, w')" and ready: "ready w" and dir: "dir = cfg_dir i"
    and distinct: "distinct (optional_assets r)"
  shows "content w' (dir @ [Normal OPTIMIZATION_FILE]) = Some (render_optimization_cfg_at (generated_at r))"
    and "bootstrap_autoexec r \<Longrightarrow> content w' (dir @ [Normal AUTOEXEC_FILE]) =
      Some (ensure_autoexec_line
        (case content w (dir @ [Normal AUTOEXEC_FILE]) of None \<Rightarrow> [] | Some t \<Rightarrow> t))"
    and "a \<in> set (optional_assets r) \<Longrightarrow> content w' (dir @ [Normal (asset_file_name a)]) = Some (A a)"
    and "content w' (dir @ [Normal OPTIMIZATION_BACKUP_FILE]) =
      (case content w (dir @ [Normal OPTIMIZATION_BACKUP_FILE]) of
         None \<Rightarrow> content w (dir @ [Normal OPTIMIZATION_FILE])
       | Some x \<Rightarrow> Some x)"
proof -
  let ?o = "dir @ [Normal OPTIMIZATION_FILE]" and ?ob = "dir @ [Normal OPTIMIZATION_BACKUP_FILE]"
  let ?a = "dir @ [Normal AUTOEXEC_FILE]" and ?ab = "dir @ [Normal AUTOEXEC_BACKUP_FILE]"
  let ?ds = "map (\<lambda>a. \<lparr>dep_asset = a, dep_source_name = asset_file_name a,
      dep_target = dir @ [Normal (asset_file_name a)], dep_bytes = A a\<rparr>) (optional_assets r)"
  obtain w1 w2 w3 w4 w5 w6 w7 o_before a_before a_text backup ab written rec where
    s1: "ensure_cfg_directory F (install_root i) dir w = (Ok (), w1)"
    and s2: "read_optional F ?o w1 = (Ok o_before, w2)"
    and s3: "(if bootstrap_autoexec r then read_optional F ?a else io_ret None) w2 = (Ok a_before, w3)"
    and a_ok: "optional_autoexec a_before = Ok a_text"
    and s4: "create_optimization_backup F ?ob o_before w3 = (Ok backup, w4)"
    and s5: "write_and_verify F ?o (render_optimization_cfg_at (generated_at r))
        ''optimization.cfg replacement'' rec w4 = (Ok (), w5)"
    and s6: "(if bootstrap_autoexec r
        then create_autoexec_backup F ?ab a_before (autoexec_needs_update r a_text)
        else io_ret AutoBackupNotNeeded) w5 = (Ok ab, w6)"
    and s7: "(case (if autoexec_needs_update r a_text then expected_autoexec r a_text else None) of
          None \<Rightarrow> io_ret ()
        | Some expected \<Rightarrow> write_and_verify F ?a expected ''autoexec.cfg replacement'' rec) w6 = (Ok (), w7)"
    and s8: "io_each (write_deployment F rec) ?ds w7 = (Ok written, w')"
    using assms(1) by (auto simp: controller_apply_def io_Ok Let_def controller_paths_Ok
        dir [symmetric] optional_deployments_def deployments_for_assets_def cong: if_cong option.case_cong)
  have t3: "io_within (touches dir ready content {})
      (if bootstrap_autoexec r then read_optional F ?a else io_ret None)"
    by (auto intro: read_optional_touches touch_intros)
  have t6: "io_within (touches dir ready content {?ab}) (if bootstrap_autoexec r
        then create_autoexec_backup F ?ab a_before (autoexec_needs_update r a_text)
        else io_ret AutoBackupNotNeeded)"
    by (auto intro: autoexec_backup_touches touch_intros)
  have t7: "io_within (touches dir ready content {?a})
      (case (if autoexec_needs_update r a_text then expected_autoexec r a_text else None) of
          None \<Rightarrow> io_ret ()
        | Some expected \<Rightarrow> write_and_verify F ?a expected ''autoexec.cfg replacement'' rec)"
    by (auto intro: write_touches touch_intros split: option.splits)
  have t8: "io_within (touches dir ready content (dep_target ` set ?ds)) (io_each (write_deployment F rec) ?ds)"
    by (intro touches_steps write_deployment_touches) auto
  note t1 = ensure_directory_touches [of "{}" "install_root i" dir]
  note t2 = read_optional_touches [of "{}" ?o]
  note t4 = optimization_backup_touches [of ?ob "{?ob}" o_before, simplified]
  note t5 = write_touches [of ?o "{?o}" "render_optimization_cfg_at (generated_at r)"
      "''optimization.cfg replacement''" rec, simplified]
  have r1: "ready w1" by (rule stays_ready [OF t1 s1 ready])
  have r2: "ready w2" by (rule stays_ready [OF t2 s2 r1])
  have r3: "ready w3" by (rule stays_ready [OF t3 s3 r2])
  have r4: "ready w4" by (rule stays_ready [OF t4 s4 r3])
  have r5: "ready w5" by (rule stays_ready [OF t5 s5 r4])
  have r6: "ready w6" by (rule stays_ready [OF t6 s6 r5])
  have r7: "ready w7" by (rule stays_ready [OF t7 s7 r6])
  have u3: "content w3 q = content w q" if "managed dir q" for q
    using unchanged [OF t1 s1 ready that] unchanged [OF t2 s2 r1 that] unchanged [OF t3 s3 r2 that] by simp
  have u8: "content w' q = content w7 q"
    if "managed dir q" "\<And>a. q \<noteq> dir @ [Normal (asset_file_name a)]" for q
    by (rule unchanged [OF t8 s8 r7 that(1)]) (use that(2) in fastforce)
  have "content w5 ?o = Some (render_optimization_cfg_at (generated_at r))"
    by (rule write_Ok [OF s5 r4]) simp
  then show "content w' ?o = Some (render_optimization_cfg_at (generated_at r))"
    using u8 [of ?o] unchanged [OF t6 s6 r5, of ?o] unchanged [OF t7 s7 r6, of ?o] by simp
  have "content w2 ?o = content w1 ?o" by (rule unchanged [OF t2 s2 r1]) simp_all
  then have o: "o_before = content w3 ?o"
    using read_optional_Ok [OF s2 r1] unchanged [OF t3 s3 r2, of ?o] by simp
  have "content w4 ?ob = (case content w3 ?ob of None \<Rightarrow> o_before
      | Some x \<Rightarrow> if o_before = None then content w3 ?ob else Some x)"
    by (rule optimization_backup_Ok [OF s4 r3]) simp
  then have "content w4 ?ob = (case content w3 ?ob of None \<Rightarrow> o_before | Some x \<Rightarrow> Some x)"
    by (auto split: option.splits)
  then show "content w' ?ob = (case content w ?ob of None \<Rightarrow> content w ?o | Some x \<Rightarrow> Some x)"
    using u8 [of ?ob] unchanged [OF t7 s7 r6, of ?ob] unchanged [OF t6 s6 r5, of ?ob]
      unchanged [OF t5 s5 r4, of ?ob] o u3 [of ?ob] u3 [of ?o]
    by (simp cong: option.case_cong)
  show "content w' (dir @ [Normal (asset_file_name a)]) = Some (A a)" if "a \<in> set (optional_assets r)"
  proof -
    have "written = map dep_target ?ds \<and> (\<forall>d\<in>set ?ds. content w' (dep_target d) = Some (dep_bytes d))"
      by (rule write_deployments_Ok [OF s8 r7])
        (use distinct in \<open>auto simp: distinct_map comp_def inj_on_def\<close>)
    then show ?thesis using that by simp
  qed
  show "content w' ?a = Some (ensure_autoexec_line (case content w ?a of None \<Rightarrow> [] | Some t \<Rightarrow> t))"
    if boot: "bootstrap_autoexec r"
  proof -
    have "content w2 ?a = a_before" using read_optional_Ok [OF _ r2] s3 boot by simp
    then have a: "content w ?a = a_before"
      using unchanged [OF t1 s1 ready, of ?a] unchanged [OF t2 s2 r1, of ?a] by simp
    have "a_text = a_before"
      using a_ok by (cases a_before) (auto simp: bytes_as_autoexec_def split: if_splits)
    moreover have "content w6 ?a = content w ?a"
      using unchanged [OF t6 s6 r5, of ?a] unchanged [OF t5 s5 r4, of ?a] unchanged [OF t4 s4 r3, of ?a]
        u3 [of ?a] by simp
    ultimately have "content w7 ?a = Some (ensure_autoexec_line (case content w ?a of None \<Rightarrow> [] | Some t \<Rightarrow> t))"
      using s7 boot a write_Ok [OF _ r6, of ?a]
      by (auto simp: expected_autoexec_def autoexec_needs_update_def io_Ok split: option.splits if_splits)
    then show ?thesis using u8 [of ?a] by simp
  qed
qed

end

end
