(* ===== verification/Cs2_Backup.thy ===== *)
theory Cs2_Backup
  imports Cs2_Contract Backup
begin

text \<open>
  The recovery record of the configuration files (\<open>crates/frametime-domain/src/backup/cs2_config.rs\<close>):
  capturing the exact bytes of every target before it is written, validating a captured record against
  the install and the request, and restoring from it.  SHA-256 (\<open>digest\<close>, the 32 raw bytes) and the
  bytes by which the system spells a path (\<open>os_bytes\<close>) are parameters.
\<close>

section \<open>Vocabulary\<close>

definition CS2_CONFIG_TRANSACTION_STEP :: string where
  "CS2_CONFIG_TRANSACTION_STEP = ''P1:34''"

definition CS2_OPTIONAL_CONFIG_TRANSACTION_STEP :: string where
  "CS2_OPTIONAL_CONFIG_TRANSACTION_STEP = ''CS2:CFG''"

definition CS2_CONFIG_MAX_FILE_BYTES :: nat where
  "CS2_CONFIG_MAX_FILE_BYTES = 1024 * 1024"

definition CS2_CONFIG_MAX_TOTAL_BYTES :: nat where
  "CS2_CONFIG_MAX_TOTAL_BYTES = 8 * 1024 * 1024"

datatype (plugins only: code size) cs2_config_backup_error =
    BackupConfig cs2_config_error
  | BackupRead cs2_config_target io_error
  | FileTooLarge cs2_config_target nat nat
  | TotalTooLarge nat nat
  | WrongStep string string
  | WrongEntryType
  | DuplicateTarget cs2_config_target
  | MissingTarget cs2_config_target
  | UnexpectedTarget cs2_config_target
  | TargetOrderMismatch
  | AbsentTargetHasBytes cs2_config_target
  | ExistingTargetMissingBytes cs2_config_target
  | MissingDigest cs2_config_target
  | DigestMismatch cs2_config_target
  | InstallMismatch
  | UnknownFields

record hashing =
  digest :: "string \<Rightarrow> string"
  os_bytes :: "path \<Rightarrow> string"

section \<open>Digests\<close>

definition HEX :: string where
  "HEX = ''0123456789abcdef''"

definition hex_digest :: "string \<Rightarrow> string" where
  "hex_digest bytes = concat (map (\<lambda>b. [HEX ! (byte b div 16), HEX ! (byte b mod 16)]) bytes)"

definition sha256_hex :: "hashing \<Rightarrow> string \<Rightarrow> string" where
  "sha256_hex H bytes = hex_digest (digest H bytes)"

fun le_bytes :: "nat \<Rightarrow> nat \<Rightarrow> string" where
  "le_bytes 0 v = []"
| "le_bytes (Suc n) v = char_of (v mod 256) # le_bytes n (v div 256)"

definition install_identity :: "hashing \<Rightarrow> cs2_install \<Rightarrow> 'v cs2_install_identity" where
  "install_identity H i =
     \<lparr>steam_app_id = CS2_APP_ID,
      install_fingerprint =
        hex_digest (digest H (''frametime-cfg/cs2-install/v1'' @ [CHR 0x00]
          @ concat (map (\<lambda>p. le_bytes 8 (length (os_bytes H p)) @ os_bytes H p)
              [steam_root i, library_root i, install_root i]))),
      identity_unknown = fmempty\<rparr>"

section \<open>Validation\<close>

definition saturating_add :: "nat \<Rightarrow> nat \<Rightarrow> nat" where
  "saturating_add a b = min (a + b) (2 ^ 64 - 1)"

text \<open>The new total of the bytes, or the error.\<close>

definition validate_snapshot_bytes ::
  "hashing \<Rightarrow> 'v cs2_config_snapshot \<Rightarrow> nat \<Rightarrow> (nat, cs2_config_backup_error) result" where
  "validate_snapshot_bytes H s used =
     (case original_bytes s of
        None \<Rightarrow>
          if \<not> snap_existed s
          then (case original_sha256 s of
                  None \<Rightarrow> Ok used
                | Some _ \<Rightarrow> Err (AbsentTargetHasBytes (snap_target s)))
          else Err (ExistingTargetMissingBytes (snap_target s))
      | Some bytes \<Rightarrow>
          if \<not> snap_existed s then Err (AbsentTargetHasBytes (snap_target s))
          else if length bytes > CS2_CONFIG_MAX_FILE_BYTES
          then Err (FileTooLarge (snap_target s) (length bytes) CS2_CONFIG_MAX_FILE_BYTES)
          else
            let used' = saturating_add used (length bytes) in
            if used' > CS2_CONFIG_MAX_TOTAL_BYTES
            then Err (TotalTooLarge used' CS2_CONFIG_MAX_TOTAL_BYTES)
            else (case original_sha256 s of
                    None \<Rightarrow> Err (MissingDigest (snap_target s))
                  | Some d \<Rightarrow>
                      if d \<noteq> sha256_hex H bytes then Err (DigestMismatch (snap_target s))
                      else Ok used'))"

fun validate_snapshots_from ::
  "hashing \<Rightarrow> cs2_config_target list \<Rightarrow> cs2_config_target list \<Rightarrow> nat \<Rightarrow> 'v cs2_config_snapshot list
   \<Rightarrow> (cs2_config_target list, cs2_config_backup_error) result" where
  "validate_snapshots_from H expected seen used [] = Ok seen"
| "validate_snapshots_from H expected seen used (s # ss) =
     (if snap_target s \<in> set seen then Err (DuplicateTarget (snap_target s))
      else if snap_target s \<notin> set expected then Err (UnexpectedTarget (snap_target s))
      else
        and_then (validate_snapshot_bytes H s used) (\<lambda>used'.
        validate_snapshots_from H expected (snap_target s # seen) used' ss))"

definition validate_snapshot_targets ::
  "hashing \<Rightarrow> 'v cs2_config_snapshot list \<Rightarrow> cs2_config_target list
   \<Rightarrow> (unit, cs2_config_backup_error) result" where
  "validate_snapshot_targets H snapshots expected =
     and_then (validate_snapshots_from H expected [] 0 snapshots) (\<lambda>seen.
     and_then (try_each (\<lambda>t. if t \<notin> set seen then Err (MissingTarget t) else Ok ()) expected) (\<lambda>_.
     if map snap_target snapshots \<noteq> expected then Err TargetOrderMismatch else Ok ()))"

fun as_cs2_config :: "'v backup_entry \<Rightarrow> ('v cs2_config_backup, cs2_config_backup_error) result" where
  "as_cs2_config (BackupCs2ConfigTransaction b) = Ok b"
| "as_cs2_config _ = Err WrongEntryType"

text \<open>The checks that the two kinds of transaction share.\<close>

definition validate_transaction ::
  "hashing \<Rightarrow> string \<Rightarrow> cs2_install \<Rightarrow> cs2_config_target list \<Rightarrow> 'v backup_entry
   \<Rightarrow> (unit, cs2_config_backup_error) result" where
  "validate_transaction H step i expected e =
     and_then (as_cs2_config e) (\<lambda>b.
     if cfg_step b \<noteq> step then Err (WrongStep step (cfg_step b))
     else
       and_then (map_err BackupConfig (controller_new i)) (\<lambda>install.
       let identity = install_identity H install :: 'v cs2_install_identity in
       if steam_app_id (cfg_install_identity b) \<noteq> steam_app_id identity
          \<or> install_fingerprint (cfg_install_identity b) \<noteq> install_fingerprint identity
       then Err InstallMismatch
       else validate_snapshot_targets H (cfg_targets b) expected))"

definition validate_cs2_config_transaction ::
  "hashing \<Rightarrow> cs2_install \<Rightarrow> cs2_config_request \<Rightarrow> 'v backup_entry
   \<Rightarrow> (unit, cs2_config_backup_error) result" where
  "validate_cs2_config_transaction H i r e =
     validate_transaction H CS2_CONFIG_TRANSACTION_STEP i (for_request r) e"

definition validate_optional_cs2_config_transaction ::
  "hashing \<Rightarrow> cs2_install \<Rightarrow> optional_cfg_asset list \<Rightarrow> 'v backup_entry
   \<Rightarrow> (unit, cs2_config_backup_error) result" where
  "validate_optional_cs2_config_transaction H i assets e =
     validate_transaction H CS2_OPTIONAL_CONFIG_TRANSACTION_STEP i (for_optional_assets assets) e"

section \<open>Capturing\<close>

fun capture_from ::
  "'w cs2_config_fs \<Rightarrow> hashing \<Rightarrow> nat \<Rightarrow> (cs2_config_target \<times> path) list
   \<Rightarrow> ('w, cs2_config_backup_error, 'v cs2_config_snapshot list) io" where
  "capture_from F H used [] = io_ret []"
| "capture_from F H used ((target, p) # rest) =
     io_match (read_file F p) (\<lambda>r.
     case r of
       Ok bytes \<Rightarrow>
         if length bytes > CS2_CONFIG_MAX_FILE_BYTES
         then io_fail (FileTooLarge target (length bytes) CS2_CONFIG_MAX_FILE_BYTES)
         else
           let used' = saturating_add used (length bytes) in
           if used' > CS2_CONFIG_MAX_TOTAL_BYTES
           then io_fail (TotalTooLarge used' CS2_CONFIG_MAX_TOTAL_BYTES)
           else
             io_bind (capture_from F H used' rest) (\<lambda>ss.
             io_ret (\<lparr>snap_target = target, snap_existed = True, original_bytes = Some bytes,
                      original_sha256 = Some (sha256_hex H bytes), snap_unknown = fmempty\<rparr> # ss))
     | Err e \<Rightarrow>
         if error_kind e = IoNotFound
         then
           io_bind (capture_from F H used rest) (\<lambda>ss.
           io_ret (\<lparr>snap_target = target, snap_existed = False, original_bytes = None,
                    original_sha256 = None, snap_unknown = fmempty\<rparr> # ss))
         else io_fail (BackupRead target e))"

definition capture_targets ::
  "'w cs2_config_fs \<Rightarrow> hashing \<Rightarrow> cs2_install \<Rightarrow> string \<Rightarrow> string \<Rightarrow> (cs2_config_target \<times> path) list
   \<Rightarrow> ('w, cs2_config_backup_error, 'v backup_entry) io" where
  "capture_targets F H i step captured_at targets =
     io_bind (capture_from F H 0 targets) (\<lambda>ss.
     io_ret (BackupCs2ConfigTransaction
       \<lparr>cfg_step = step, cfg_timestamp = captured_at, cfg_install_identity = install_identity H i,
        cfg_targets = ss, cfg_unknown = fmempty\<rparr>))"

definition capture_cs2_config_transaction ::
  "'w cs2_config_fs \<Rightarrow> hashing \<Rightarrow> cs2_install \<Rightarrow> cs2_config_request \<Rightarrow> string
   \<Rightarrow> ('w, cs2_config_backup_error, 'v backup_entry) io" where
  "capture_cs2_config_transaction F H i r captured_at =
     io_bind (io_check (map_err BackupConfig (controller_new i))) (\<lambda>install.
     io_bind (io_check (map_err BackupConfig (backup_targets install r))) (\<lambda>targets.
     io_bind (capture_targets F H install CS2_CONFIG_TRANSACTION_STEP captured_at targets) (\<lambda>e.
     io_bind (io_check (validate_cs2_config_transaction H i r e)) (\<lambda>_.
     io_ret e))))"

definition capture_optional_cs2_config_transaction ::
  "'w cs2_config_fs \<Rightarrow> hashing \<Rightarrow> cs2_install \<Rightarrow> optional_cfg_asset list \<Rightarrow> string
   \<Rightarrow> ('w, cs2_config_backup_error, 'v backup_entry) io" where
  "capture_optional_cs2_config_transaction F H i assets captured_at =
     io_bind (io_check (map_err BackupConfig (controller_new i))) (\<lambda>install.
     io_bind (io_check (map_err BackupConfig (backup_optional_targets install assets))) (\<lambda>targets.
     io_bind (capture_targets F H install CS2_OPTIONAL_CONFIG_TRANSACTION_STEP captured_at targets) (\<lambda>e.
     io_bind (io_check (validate_optional_cs2_config_transaction H i assets e)) (\<lambda>_.
     io_ret e))))"

section \<open>Restoring\<close>

definition has_unknown_fields :: "'v cs2_config_backup \<Rightarrow> bool" where
  "has_unknown_fields b \<longleftrightarrow>
     \<not> is_empty_map (cfg_unknown b)
     \<or> \<not> is_empty_map (identity_unknown (cfg_install_identity b))
     \<or> list_ex (\<lambda>s. \<not> is_empty_map (snap_unknown s)) (cfg_targets b)"

definition snapshot_values :: "'v cs2_config_backup \<Rightarrow> snapshots" where
  "snapshot_values b = map (\<lambda>s. (snap_target s, original_bytes s)) (cfg_targets b)"

definition restore_cs2_config_transaction ::
  "'w cs2_config_fs \<Rightarrow> hashing \<Rightarrow> cs2_install \<Rightarrow> cs2_config_request \<Rightarrow> 'v backup_entry
   \<Rightarrow> ('w, cs2_config_backup_error, unit) io" where
  "restore_cs2_config_transaction F H i r e =
     io_bind (io_check (validate_cs2_config_transaction H i r e)) (\<lambda>_.
     io_bind (io_check (as_cs2_config e)) (\<lambda>b.
     if has_unknown_fields b then io_fail UnknownFields
     else
       io_bind (io_check (map_err BackupConfig (controller_new i))) (\<lambda>install.
       io_map_err BackupConfig (controller_restore F install r (snapshot_values b)))))"

text \<open>Collecting into a \<open>BTreeSet\<close>, or the first target that is not an optional asset.\<close>

fun optional_assets_of :: "cs2_config_target list \<Rightarrow> (optional_cfg_asset list, cs2_config_backup_error) result" where
  "optional_assets_of [] = Ok []"
| "optional_assets_of (t # ts) =
     and_then (ok_or (UnexpectedTarget t) (optional_asset t)) (\<lambda>a.
     and_then (optional_assets_of ts) (\<lambda>as. Ok (a # as)))"

definition optional_assets_from_snapshots ::
  "'v cs2_config_snapshot list \<Rightarrow> (optional_cfg_asset list, cs2_config_backup_error) result" where
  "optional_assets_from_snapshots ss =
     and_then (optional_assets_of (map snap_target ss)) (\<lambda>as. Ok (btree_set as))"

definition restore_optional_cs2_config_transaction ::
  "'w cs2_config_fs \<Rightarrow> hashing \<Rightarrow> cs2_install \<Rightarrow> 'v backup_entry \<Rightarrow> ('w, cs2_config_backup_error, unit) io" where
  "restore_optional_cs2_config_transaction F H i e =
     io_bind (io_check (as_cs2_config e)) (\<lambda>b.
     io_bind (io_check (optional_assets_from_snapshots (cfg_targets b))) (\<lambda>assets.
     io_bind (io_check (validate_optional_cs2_config_transaction H i assets e)) (\<lambda>_.
     if has_unknown_fields b then io_fail UnknownFields
     else
       io_bind (io_check (map_err BackupConfig (controller_new i))) (\<lambda>install.
       io_map_err BackupConfig (restore_optional_assets F install assets (snapshot_values b))))))"

definition apply_optional_cs2_config_transaction ::
  "asset_contents \<Rightarrow> 'w cs2_config_fs \<Rightarrow> hashing \<Rightarrow> cs2_install \<Rightarrow> 'v backup_entry
   \<Rightarrow> ('w, cs2_config_backup_error, path list) io" where
  "apply_optional_cs2_config_transaction A F H i e =
     io_bind (io_check (as_cs2_config e)) (\<lambda>b.
     io_bind (io_check (optional_assets_from_snapshots (cfg_targets b))) (\<lambda>assets.
     io_bind (io_check (validate_optional_cs2_config_transaction H i assets e)) (\<lambda>_.
     if has_unknown_fields b then io_fail UnknownFields
     else
       io_bind (io_check (map_err BackupConfig (controller_new i))) (\<lambda>install.
       io_map_err BackupConfig
         (apply_optional_assets_if_unchanged A F install assets (snapshot_values b))))))"

section \<open>What a capture holds and a restore brings back\<close>

lemma captured_install_binds:
  "capture_cs2_config_transaction F H i r at w = (Ok e, w') \<Longrightarrow> validate_install i = Ok ()"
  by (auto simp: capture_cs2_config_transaction_def io_Ok guard_simps controller_new_def)

lemma map_pairs: "map f xs = ks \<Longrightarrow> map g xs = map h ks \<Longrightarrow> map (\<lambda>x. (f x, g x)) xs = map (\<lambda>k. (k, h k)) ks"
  by (induction xs arbitrary: ks) auto

context config_files
begin

lemma capture_from_touches: "io_within (touches dir ready content S) (capture_from F H used ts)"
proof (induction ts arbitrary: used)
  case (Cons tp ts)
  then show ?case
    by (cases tp) (auto intro!: touch_intros simp: Let_def split: result.splits)
qed (auto intro!: touch_intros)

lemma capture_from_Ok:
  fixes ss :: "'v cs2_config_snapshot list"
  assumes "capture_from F H used ts w = (Ok ss, w')" and "ready w"
    and "\<And>t p. (t, p) \<in> set ts \<Longrightarrow> managed dir p"
  shows "map snap_target ss = map fst ts \<and> map original_bytes ss = map (\<lambda>(t, p). content w p) ts"
  using assms
proof (induction ts arbitrary: used w ss)
  case Nil
  then show ?case by (simp add: io_Ok)
next
  case (Cons tp ts)
  obtain t p where tp: "tp = (t, p)" by (cases tp)
  have p: "managed dir p" using Cons.prems(3) [of t p] tp by simp
  obtain r w1 where r: "read_file F p w = (r, w1)" by fastforce
  have w1: "ready w1" "managed dir q \<Longrightarrow> content w1 q = content w q" for q
    using read_frame [OF r Cons.prems(2)] by simp_all
  have same: "map (\<lambda>(t, p). content w1 p) ts = map (\<lambda>(t, p). content w p) ts"
    using w1(2) Cons.prems(3) by (auto intro!: map_cong)
  have ih: "map snap_target zs = map fst ts \<and> map original_bytes zs = map (\<lambda>(t, p). content w1 p) ts"
    if "capture_from F H n ts w1 = (Ok zs, w')" for n and zs :: "'v cs2_config_snapshot list"
    by (rule Cons.IH [OF that w1(1)]) (use Cons.prems(3) in auto)
  show ?case
  proof (cases r)
    case (Ok bytes)
    then have "content w p = Some bytes" using read_Ok [OF _ Cons.prems(2) p] r by simp
    moreover from Cons.prems(1) Ok r obtain n and zs :: "'v cs2_config_snapshot list" where "capture_from F H n ts w1 = (Ok zs, w')"
        and "ss = \<lparr>snap_target = t, snap_existed = True, original_bytes = Some bytes,
          original_sha256 = Some (sha256_hex H bytes), snap_unknown = fmempty\<rparr> # zs"
      by (auto simp: tp io_match_def io_Ok Let_def split: if_splits)
    ultimately show ?thesis using ih same by (simp add: tp)
  next
    case (Err e)
    then have e: "error_kind e = IoNotFound"
      using Cons.prems(1) r by (auto simp: tp io_match_def io_Ok split: if_splits)
    then have "content w p = None" using read_missing [OF _ _ Cons.prems(2) p] r Err by simp
    moreover from Cons.prems(1) Err r e obtain zs :: "'v cs2_config_snapshot list" where "capture_from F H used ts w1 = (Ok zs, w')"
        and "ss = \<lparr>snap_target = t, snap_existed = False, original_bytes = None,
          original_sha256 = None, snap_unknown = fmempty\<rparr> # zs"
      by (auto simp: tp io_match_def io_Ok)
    ultimately show ?thesis using ih same by (simp add: tp)
  qed
qed

text \<open>The targets of a request with the contents that a captured record holds for them.\<close>

lemma capture_Ok:
  assumes "capture_cs2_config_transaction F H i r at w = (Ok e, w')" and "ready w" and "dir = cfg_dir i"
  obtains b where "e = BackupCs2ConfigTransaction b"
    and "snapshot_values b =
      map (\<lambda>t. (t, content w (dir @ [Normal (target_file_name t)]))) (for_request r)"
    and "ready w'" and "\<And>q. managed dir q \<Longrightarrow> content w' q = content w q"
proof -
  define ts where "ts = map (\<lambda>t. (t, dir @ [Normal (target_file_name t)])) (for_request r)"
  obtain ss where ss: "capture_from F H 0 ts w = (Ok ss, w')"
      and e: "e = BackupCs2ConfigTransaction \<lparr>cfg_step = CS2_CONFIG_TRANSACTION_STEP,
        cfg_timestamp = at, cfg_install_identity = install_identity H i, cfg_targets = ss,
        cfg_unknown = fmempty\<rparr>"
    using assms(1,3) by (auto simp: capture_cs2_config_transaction_def capture_targets_def io_Ok
        guard_simps controller_new_def backup_targets_Ok ts_def)
  have "map snap_target ss = map fst ts \<and> map original_bytes ss = map (\<lambda>(t, p). content w p) ts"
    by (rule capture_from_Ok [OF ss assms(2)]) (auto simp: ts_def)
  then have "map snap_target ss = for_request r"
    "map original_bytes ss = map (\<lambda>t. content w (dir @ [Normal (target_file_name t)])) (for_request r)"
    by (simp_all add: ts_def comp_def)
  then have "map (\<lambda>s. (snap_target s, original_bytes s)) ss =
      map (\<lambda>t. (t, content w (dir @ [Normal (target_file_name t)]))) (for_request r)"
    by (rule map_pairs)
  with e show ?thesis
    using stays_ready [OF capture_from_touches ss assms(2)]
      unchanged [OF capture_from_touches [of "{}"] ss assms(2)]
    by (intro that) (auto simp: snapshot_values_def)
qed

lemma restore_touches:
  assumes "dir = cfg_dir i"
  shows "io_within (touches dir ready content
      ((\<lambda>t. dir @ [Normal (target_file_name t)]) ` set (for_request r)))
    (restore_cs2_config_transaction F H i r e)"
  unfolding restore_cs2_config_transaction_def controller_restore_def
  by (auto intro!: touches_steps restore_targets_touches
      simp: guard_simps controller_new_def backup_targets_Ok assms [symmetric])

lemma restore_Ok:
  assumes "restore_cs2_config_transaction F H i r (BackupCs2ConfigTransaction b) w = (Ok u, w')"
    and "ready w" and "dir = cfg_dir i" and "distinct (optional_assets r)"
    and "snapshot_values b = map (\<lambda>t. (t, original t)) (for_request r)" and "t \<in> set (for_request r)"
  shows "content w' (dir @ [Normal (target_file_name t)]) = original t"
proof -
  let ?ts = "map (\<lambda>t. (t, dir @ [Normal (target_file_name t)])) (for_request r)"
  have "restore_targets F ?ts (map (\<lambda>t. (t, original t)) (for_request r)) w = (Ok u, w')"
    using assms(1,3,5) by (auto simp: restore_cs2_config_transaction_def controller_restore_def io_Ok
        guard_simps controller_new_def backup_targets_Ok split: if_splits)
  then have "\<forall>((t, p), (t', x))\<in>set (zip ?ts (map (\<lambda>t. (t, original t)) (for_request r))). content w' p = x"
    by (rule restore_targets_Ok [OF _ assms(2)])
      (use distinct_for_request [OF assms(4)] in \<open>auto simp: distinct_map comp_def inj_on_def\<close>)
  moreover have "((t, dir @ [Normal (target_file_name t)]), (t, original t))
      \<in> set (zip ?ts (map (\<lambda>t. (t, original t)) (for_request r)))"
    using assms(6) by (auto simp: zip_map_map zip_same_conv_map)
  ultimately show ?thesis by fastforce
qed

lemma restore_undoes_apply:
  assumes dir: "dir = cfg_dir i" and ready: "ready w" and distinct: "distinct (optional_assets r)"
    and capture: "capture_cs2_config_transaction F H i r at w = (Ok e, w1)"
    and apply': "controller_apply A F i r w1 = (outcome, w2)"
    and restore: "restore_cs2_config_transaction F H i r e w2 = (Ok u, w3)"
    and q: "managed dir q"
    and no_backup: "q \<noteq> dir @ [Normal OPTIMIZATION_BACKUP_FILE]" "q \<noteq> dir @ [Normal AUTOEXEC_BACKUP_FILE]"
  shows "content w3 q = content w q"
proof -
  obtain b where e: "e = BackupCs2ConfigTransaction b"
      and b: "snapshot_values b =
        map (\<lambda>t. (t, content w (dir @ [Normal (target_file_name t)]))) (for_request r)"
      and w1: "ready w1" "\<And>q. managed dir q \<Longrightarrow> content w1 q = content w q"
    using capture_Ok [OF capture ready dir] by blast
  have w2: "ready w2" by (rule stays_ready [OF apply_touches [OF dir] apply' w1(1)])
  show ?thesis
  proof (cases "q \<in> (\<lambda>t. dir @ [Normal (target_file_name t)]) ` set (for_request r)")
    case True
    then show ?thesis using restore_Ok [OF restore [unfolded e] w2 dir distinct b] by auto
  next
    case False
    then have "q \<notin> apply_files dir r" using no_backup by (simp add: apply_files_def)
    then have "content w2 q = content w1 q" by (rule unchanged [OF apply_touches [OF dir] apply' w1(1) q])
    moreover have "content w3 q = content w2 q"
      by (rule unchanged [OF restore_touches [OF dir] restore w2 q False])
    ultimately show ?thesis using w1(2) [OF q] by simp
  qed
qed

end

end
