(* ===== verification/Native_Files.thy ===== *)
theory Native_Files
  imports Cs2_Backup
begin

text \<open>
  The adapter through which the controller reaches the disk
  (\<open>crates/frametime-windows/src/system/cs2/fs.rs\<close>): every operation first observes the bound install
  again and refuses anything that is not a plain file of the closed target set.  The lemmas say what a
  target that passed is, that the checks leave the disk alone, which errors they give and which
  entries each call may change.
\<close>

section \<open>Trust\<close>

fun component_text :: "path_component \<Rightarrow> string" where
  "component_text (PathPrefix s) = s"
| "component_text RootDir = [CHR 0x5C]"
| "component_text CurDir = ''.''"
| "component_text ParentDir = ''..''"
| "component_text (Normal s) = s"

fun display_path :: "path \<Rightarrow> string" where
  "display_path [] = []"
| "display_path [c] = component_text c"
| "display_path (c # d # p) =
     component_text c
     @ (if c = RootDir \<or> d = RootDir then [] else [CHR 0x5C]) @ display_path (d # p)"

definition untrusted_path :: "path \<Rightarrow> io_error" where
  "untrusted_path p = IoError IoPermissionDenied (''CS2 CFG path is not trusted: '' @ display_path p)"

definition untrusted :: "string \<Rightarrow> io_error" where
  "untrusted message = IoError IoPermissionDenied message"

fun is_unsafe_component :: "path_component \<Rightarrow> bool" where
  "is_unsafe_component ParentDir = True"
| "is_unsafe_component CurDir = True"
| "is_unsafe_component _ = False"

definition has_unsafe_components :: "path \<Rightarrow> bool" where
  "has_unsafe_components p \<longleftrightarrow> list_ex is_unsafe_component p"

fun metadata_is_reparse :: "node \<Rightarrow> bool" where
  "metadata_is_reparse (Reparse _) = True"
| "metadata_is_reparse _ = False"

definition metadata_is_dir :: "node \<Rightarrow> bool" where
  "metadata_is_dir m \<longleftrightarrow> m = Directory"

fun metadata_is_file :: "node \<Rightarrow> bool" where
  "metadata_is_file (Regular _) = True"
| "metadata_is_file _ = False"

definition trusted_directory :: "path \<Rightarrow> unit os_call" where
  "trusted_directory p =
     (if \<not> is_absolute p \<or> has_unsafe_components p then io_fail (untrusted_path p)
      else
        io_bind (symlink_metadata p) (\<lambda>metadata.
        if metadata_is_reparse metadata \<or> \<not> metadata_is_dir metadata then io_fail (untrusted_path p)
        else io_ret ()))"

fun reject_reparse_from :: "path \<Rightarrow> path \<Rightarrow> unit os_call" where
  "reject_reparse_from current [] = io_ret ()"
| "reject_reparse_from current (c # cs) =
     (let current' = current @ [c] in
      io_match (symlink_metadata current') (\<lambda>r.
      case r of
        Ok metadata \<Rightarrow>
          if metadata_is_reparse metadata then io_fail (untrusted_path current')
          else reject_reparse_from current' cs
      | Err e \<Rightarrow> if error_kind e = IoNotFound then io_ret () else io_fail e))"

definition reject_reparse_ancestors :: "path \<Rightarrow> path \<Rightarrow> unit os_call" where
  "reject_reparse_ancestors candidate root =
     io_bind (io_check (ok_or (untrusted_path candidate) (strip_prefix_path root candidate))) (\<lambda>relative.
     if has_unsafe_components candidate \<or> relative = [] \<or> list_ex (\<lambda>c. \<not> is_normal c) relative
     then io_fail (untrusted_path candidate)
     else reject_reparse_from root relative)"

definition trusted_directory_under :: "path \<Rightarrow> path \<Rightarrow> unit os_call" where
  "trusted_directory_under root candidate =
     io_bind (trusted_directory root) (\<lambda>_.
     io_bind (reject_reparse_ancestors candidate root) (\<lambda>_.
     io_bind (symlink_metadata candidate) (\<lambda>metadata.
     if metadata_is_reparse metadata \<or> \<not> metadata_is_dir metadata then io_fail (untrusted_path candidate)
     else io_ret ())))"

definition trusted_file_under :: "path \<Rightarrow> path \<Rightarrow> unit os_call" where
  "trusted_file_under root candidate =
     io_bind (trusted_directory root) (\<lambda>_.
     io_bind (reject_reparse_ancestors candidate root) (\<lambda>_.
     io_bind (canonicalize root) (\<lambda>canonical_root.
     io_bind (canonicalize candidate) (\<lambda>canonical_candidate.
     if strip_prefix_path canonical_root canonical_candidate = None
     then io_fail (untrusted_path candidate)
     else
       io_bind (symlink_metadata candidate) (\<lambda>metadata.
       if metadata_is_reparse metadata \<or> \<not> metadata_is_file metadata
       then io_fail (untrusted_path candidate)
       else io_ret ())))))"

definition validate_direct_child :: "path \<Rightarrow> path \<Rightarrow> (string \<Rightarrow> bool) \<Rightarrow> (unit, io_error) result" where
  "validate_direct_child root candidate expected_name =
     and_then (ok_or (untrusted_path candidate) (strip_prefix_path root candidate)) (\<lambda>relative.
     case relative of
       Normal name # rest \<Rightarrow>
         if rest \<noteq> [] \<or> \<not> expected_name name then Err (untrusted_path candidate) else Ok ()
     | _ \<Rightarrow> Err (untrusted_path candidate))"

definition validate_existing_file_or_absent :: "path \<Rightarrow> unit os_call" where
  "validate_existing_file_or_absent p =
     io_match (symlink_metadata p) (\<lambda>r.
     case r of
       Ok metadata \<Rightarrow>
         if metadata_is_reparse metadata \<or> \<not> metadata_is_file metadata then io_fail (untrusted_path p)
         else io_ret ()
     | Err e \<Rightarrow> if error_kind e = IoNotFound then io_ret () else io_fail e)"

definition is_known_target_name :: "string \<Rightarrow> bool" where
  "is_known_target_name name \<longleftrightarrow>
     name = OPTIMIZATION_FILE \<or> name = OPTIMIZATION_BACKUP_FILE \<or> name = AUTOEXEC_FILE
     \<or> name = AUTOEXEC_BACKUP_FILE
     \<or> list_ex (\<lambda>asset. asset_file_name asset = name) ALL_ASSETS"

section \<open>The adapter\<close>

record native_cs2_config_fs =
  nf_steam_root :: path
  nf_library_root :: path
  nf_install_root :: path
  nf_cfg_directory :: path

definition cs2_executable :: "native_cs2_config_fs \<Rightarrow> path" where
  "cs2_executable n = join_names (nf_install_root n) [''game'', ''bin'', ''win64'', ''cs2.exe'']"

definition validate_binding :: "native_cs2_config_fs \<Rightarrow> unit os_call" where
  "validate_binding n =
     io_bind (trusted_directory (nf_steam_root n)) (\<lambda>_.
     io_bind (trusted_directory (nf_library_root n)) (\<lambda>_.
     io_bind (trusted_directory (nf_install_root n)) (\<lambda>_.
     io_bind (trusted_file_under (nf_library_root n) (cs2_executable n)) (\<lambda>_.
     trusted_directory_under (nf_install_root n) (join_names (nf_install_root n) [''game'', ''csgo''])))))"

definition native_adapter :: "cs2_install \<Rightarrow> native_cs2_config_fs" where
  "native_adapter i =
     \<lparr>nf_steam_root = steam_root i, nf_library_root = library_root i, nf_install_root = install_root i,
      nf_cfg_directory = join_names (install_root i) [''game'', ''csgo'', ''cfg'']\<rparr>"

definition native_new :: "cs2_install \<Rightarrow> native_cs2_config_fs os_call" where
  "native_new i =
     (let expected = join_names (library_root i) [''steamapps'', ''common'', CS2_DIRECTORY] in
      if install_root i \<noteq> expected
      then io_fail (untrusted ''CS2 install does not match the Steam library layout'')
      else io_bind (validate_binding (native_adapter i)) (\<lambda>_. io_ret (native_adapter i)))"

definition validate_cfg_directory :: "native_cs2_config_fs \<Rightarrow> bool \<Rightarrow> unit os_call" where
  "validate_cfg_directory n require_existing =
     io_bind (validate_binding n) (\<lambda>_.
     io_match (symlink_metadata (nf_cfg_directory n)) (\<lambda>r.
     case r of
       Ok metadata \<Rightarrow>
         if metadata_is_reparse metadata \<or> \<not> metadata_is_dir metadata
         then io_fail (untrusted_path (nf_cfg_directory n))
         else io_ret ()
     | Err e \<Rightarrow>
         if error_kind e = IoNotFound \<and> \<not> require_existing then io_ret () else io_fail e))"

definition validate_target :: "native_cs2_config_fs \<Rightarrow> path \<Rightarrow> unit os_call" where
  "validate_target n target =
     io_bind (validate_cfg_directory n False) (\<lambda>_.
     io_bind (io_check (validate_direct_child (nf_cfg_directory n) target is_known_target_name)) (\<lambda>_.
     validate_existing_file_or_absent target))"

definition validate_temporary :: "native_cs2_config_fs \<Rightarrow> path \<Rightarrow> unit os_call" where
  "validate_temporary n temporary =
     io_bind (validate_cfg_directory n True) (\<lambda>_.
     io_bind (io_check (validate_direct_child (nf_cfg_directory n) temporary
       (\<lambda>name. find_str ''.tmp.'' name \<noteq> None))) (\<lambda>_.
     validate_existing_file_or_absent temporary))"

text \<open>The clock is read when the name is made.\<close>

definition temporary_path :: "path \<Rightarrow> os \<Rightarrow> path" where
  "temporary_path p w =
     (case rev p of
        Normal name # d \<Rightarrow>
          rev d @ [Normal (name @ ''.tmp.'' @ dec (os_process w) @ ''.'' @ dec (os_nanos w (os_calls w)))]
      | _ \<Rightarrow> p)"

text \<open>
  \<open>MoveFileExW\<close> with \<open>MOVEFILE_REPLACE_EXISTING\<close> is what \<open>std::fs::rename\<close> calls as well; here its
  errors carry no kind.
\<close>

definition replace_file :: "path \<Rightarrow> path \<Rightarrow> unit os_call" where
  "replace_file source destination =
     io_map_err (\<lambda>e. IoError IoOther (error_text e)) (fs_rename source destination)"

definition sync_parent :: "path \<Rightarrow> unit os_call" where
  "sync_parent _ = io_ret ()"

definition native_create_directory :: "native_cs2_config_fs \<Rightarrow> path \<Rightarrow> unit os_call" where
  "native_create_directory n p =
     (if p \<noteq> nf_cfg_directory n then io_fail (untrusted_path p)
      else
        io_bind (validate_cfg_directory n False) (\<lambda>_.
        io_bind (create_dir_all p) (\<lambda>_.
        validate_cfg_directory n True)))"

definition native_read_file :: "native_cs2_config_fs \<Rightarrow> path \<Rightarrow> string os_call" where
  "native_read_file n p = io_bind (validate_target n p) (\<lambda>_. fs_read p)"

definition native_create_file_new :: "native_cs2_config_fs \<Rightarrow> path \<Rightarrow> string \<Rightarrow> unit os_call" where
  "native_create_file_new n p bytes =
     io_bind (validate_target n p) (\<lambda>_.
     io_bind (open_new p) (\<lambda>_.
     io_bind (write_all p bytes) (\<lambda>_.
     sync_all)))"

definition replace_through :: "native_cs2_config_fs \<Rightarrow> path \<Rightarrow> path \<Rightarrow> string \<Rightarrow> unit os_call" where
  "replace_through n p temporary bytes =
     io_bind (validate_temporary n temporary) (\<lambda>_.
     io_bind (open_new temporary) (\<lambda>_.
     io_bind (write_all temporary bytes) (\<lambda>_.
     io_bind sync_all (\<lambda>_.
     io_bind (validate_target n p) (\<lambda>_.
     io_bind (validate_temporary n temporary) (\<lambda>_.
     io_bind (replace_file temporary p) (\<lambda>_.
     io_bind (validate_cfg_directory n True) (\<lambda>_.
     sync_parent (nf_cfg_directory n)))))))))"

text \<open>A failed attempt removes the temporary file if it can; the outcome of that is ignored.\<close>

definition discard_temporary :: "native_cs2_config_fs \<Rightarrow> path \<Rightarrow> unit os_call" where
  "discard_temporary n temporary =
     io_match (validate_temporary n temporary) (\<lambda>r.
     case r of
       Ok _ \<Rightarrow> io_match (fs_remove_file temporary) (\<lambda>_. io_ret ())
     | Err _ \<Rightarrow> io_ret ())"

definition native_atomic_replace :: "native_cs2_config_fs \<Rightarrow> path \<Rightarrow> string \<Rightarrow> unit os_call" where
  "native_atomic_replace n p bytes =
     io_bind (validate_target n p) (\<lambda>_.
     io_bind (\<lambda>w. (Ok (temporary_path p w), w)) (\<lambda>temporary.
     io_match (replace_through n p temporary bytes) (\<lambda>r.
     case r of
       Ok _ \<Rightarrow> io_ret ()
     | Err e \<Rightarrow> io_bind (discard_temporary n temporary) (\<lambda>_. io_fail e))))"

definition native_remove_file :: "native_cs2_config_fs \<Rightarrow> path \<Rightarrow> unit os_call" where
  "native_remove_file n p = io_bind (validate_target n p) (\<lambda>_. fs_remove_file p)"

definition native_files :: "native_cs2_config_fs \<Rightarrow> os cs2_config_fs" where
  "native_files n =
     \<lparr>create_directory = native_create_directory n,
      read_file = native_read_file n,
      create_file_new = native_create_file_new n,
      atomic_replace = native_atomic_replace n,
      remove_file = native_remove_file n\<rparr>"

section \<open>Checks leave the disk alone\<close>

definition same_disk :: "os \<Rightarrow> os \<Rightarrow> bool" where
  "same_disk w w' \<longleftrightarrow> os_disk w' = os_disk w"

lemma same_disk_equiv [simp]: "reflp same_disk" "transp same_disk"
  by (auto simp: reflp_def transp_def same_disk_def)

lemmas same_disk_steps =
  io_within_ret [OF same_disk_equiv(1)] io_within_fail [OF same_disk_equiv(1)]
  io_within_check [OF same_disk_equiv(1)] io_within_bind [OF same_disk_equiv(2)]
  io_within_match [OF same_disk_equiv(2)]

lemma os_step_same_disk:
  assumes "\<And>w. os_disk (snd (act w)) = os_disk w" and "\<And>n w. os_disk (damage n w) = os_disk w"
  shows "io_within same_disk (os_step act damage)"
  using assms by (auto simp: io_within_def same_disk_def os_step_def Let_def split: option.splits)

lemma metadata_same_disk: "io_within same_disk (symlink_metadata p)"
  unfolding symlink_metadata_def by (rule os_step_same_disk) simp_all

lemma canonicalize_same_disk: "io_within same_disk (canonicalize p)"
  unfolding canonicalize_def by (rule os_step_same_disk) simp_all

lemma read_same_disk: "io_within same_disk (fs_read p)"
  unfolding fs_read_def by (rule os_step_same_disk) simp_all

lemma sync_same_disk: "io_within same_disk sync_all"
  unfolding sync_all_def by (rule os_step_same_disk) simp_all

lemmas observe_intros = same_disk_steps metadata_same_disk canonicalize_same_disk read_same_disk
  sync_same_disk

lemma trusted_directory_same: "io_within same_disk (trusted_directory p)"
  unfolding trusted_directory_def by (auto intro!: observe_intros)

lemma reject_from_same: "io_within same_disk (reject_reparse_from p cs)"
  by (induction cs arbitrary: p)
    (auto intro!: observe_intros simp: Let_def split: result.splits)

lemma reject_same: "io_within same_disk (reject_reparse_ancestors p q)"
  unfolding reject_reparse_ancestors_def by (auto intro!: observe_intros reject_from_same)

lemma directory_under_same: "io_within same_disk (trusted_directory_under p q)"
  unfolding trusted_directory_under_def
  by (auto intro!: observe_intros trusted_directory_same reject_same)

lemma file_under_same: "io_within same_disk (trusted_file_under p q)"
  unfolding trusted_file_under_def
  by (auto intro!: observe_intros trusted_directory_same reject_same)

lemma binding_same: "io_within same_disk (validate_binding n)"
  unfolding validate_binding_def
  by (auto intro!: observe_intros trusted_directory_same file_under_same directory_under_same)

lemma cfg_directory_same: "io_within same_disk (validate_cfg_directory n b)"
  unfolding validate_cfg_directory_def
  by (auto intro!: observe_intros binding_same split: result.splits)

lemma existing_same: "io_within same_disk (validate_existing_file_or_absent p)"
  unfolding validate_existing_file_or_absent_def by (auto intro!: observe_intros split: result.splits)

lemma target_same: "io_within same_disk (validate_target n p)"
  unfolding validate_target_def by (intro observe_intros cfg_directory_same existing_same)

lemma temporary_same: "io_within same_disk (validate_temporary n p)"
  unfolding validate_temporary_def by (intro observe_intros cfg_directory_same existing_same)

lemma native_read_same: "io_within same_disk (native_read_file n p)"
  unfolding native_read_file_def by (intro observe_intros target_same)

text \<open>A check keeps every property of the disk.\<close>

lemma observe:
  "io_within same_disk m \<Longrightarrow>
     io_spec (\<lambda>w. P (os_disk w)) m (\<lambda>_ w. P (os_disk w)) (\<lambda>_ w. P (os_disk w))"
  by (rule io_specI, rename_tac r w', case_tac r) (auto dest!: io_withinD simp: same_disk_def)

section \<open>What a checked target is\<close>

definition file_content :: "os \<Rightarrow> path \<Rightarrow> string option" where
  "file_content w p = (case on_disk w p of Some (Regular bytes) \<Rightarrow> Some bytes | _ \<Rightarrow> None)"

definition plain_or_absent :: "(path, node) fmap \<Rightarrow> path \<Rightarrow> bool" where
  "plain_or_absent d p \<longleftrightarrow> fmlookup d p = None \<or> is_regular (fmlookup d p)"

lemma plain_or_absent_not_directory: "plain_or_absent d p \<Longrightarrow> fmlookup d p \<noteq> Some Directory"
  by (auto simp: plain_or_absent_def)

lemma metadata_Ok: "symlink_metadata p w = (Ok m, w') \<Longrightarrow> fmlookup (os_disk w) p = Some m"
  by (auto simp: symlink_metadata_def os_step_def Let_def ok_or_def on_disk_def split: option.splits)

lemma metadata_Err:
  "symlink_metadata p w = (Err e, w') \<Longrightarrow>
     error_kind e \<noteq> IoAlreadyExists \<and> (error_kind e = IoNotFound \<longrightarrow> fmlookup (os_disk w) p = None)"
  by (auto simp: symlink_metadata_def os_step_def Let_def ok_or_def on_disk_def not_found_def
      split: option.splits)

lemma metadata_is_file_iff: "metadata_is_file m \<longleftrightarrow> is_regular (Some m)"
  by (cases m) auto

lemma existing_Ok:
  assumes "validate_existing_file_or_absent p w = (Ok u, w')"
  shows "plain_or_absent (os_disk w) p"
proof -
  obtain r w1 where "symlink_metadata p w = (r, w1)" by fastforce
  then show ?thesis
    using assms metadata_Ok [of p w _ w1] metadata_Err [of p w _ w1]
    by (cases r) (auto simp: validate_existing_file_or_absent_def io_match_def io_ret_def io_fail_def
        plain_or_absent_def metadata_is_file_iff split: if_splits)
qed

lemma same_diskD: "io_within same_disk m \<Longrightarrow> m w = (r, w') \<Longrightarrow> os_disk w' = os_disk w"
  by (drule io_withinD) (simp_all add: same_disk_def)

lemma direct_child_Ok: "validate_direct_child d p f = Ok u \<longleftrightarrow> (\<exists>n. p = d @ [Normal n] \<and> f n)"
proof
  assume "validate_direct_child d p f = Ok u"
  then obtain r where r: "p = d @ r"
      and "(case r of Normal n # rest \<Rightarrow>
          if rest \<noteq> [] \<or> \<not> f n then Err (untrusted_path p) else Ok () | _ \<Rightarrow> Err (untrusted_path p)) = Ok u"
    by (auto simp: validate_direct_child_def guard_simps strip_prefix_path_Some)
  then obtain n rest where "r = Normal n # rest" "rest = []" "f n"
    by (cases r; cases "hd r") (auto split: if_splits)
  with r show "\<exists>n. p = d @ [Normal n] \<and> f n" by simp
qed (auto simp: validate_direct_child_def ok_or_def)

lemma known_name_iff: "is_known_target_name n \<longleftrightarrow> n \<in> managed_names"
proof -
  have "range target_file_name = {OPTIMIZATION_FILE, AUTOEXEC_FILE} \<union> range asset_file_name"
  proof
    show "range target_file_name \<subseteq> {OPTIMIZATION_FILE, AUTOEXEC_FILE} \<union> range asset_file_name"
    proof
      fix n assume "n \<in> range target_file_name"
      then obtain t where t: "n = target_file_name t" by auto
      show "n \<in> {OPTIMIZATION_FILE, AUTOEXEC_FILE} \<union> range asset_file_name"
      proof (cases "optional_asset t")
        case None
        then show ?thesis using t by (cases t) simp_all
      next
        case (Some a)
        then show ?thesis using t by (auto simp: optional_asset_Some_iff)
      qed
    qed
    show "{OPTIMIZATION_FILE, AUTOEXEC_FILE} \<union> range asset_file_name \<subseteq> range target_file_name"
      by (metis (no_types, lifting) Un_subset_iff empty_subsetI image_subsetI insert_subset rangeI
          target_file_name.simps(1,2) target_file_name_asset)
  qed
  then show ?thesis
    by (auto simp: is_known_target_name_def managed_names_def list_ex_iff)
qed

lemma target_Ok:
  assumes "validate_target n p w = (Ok u, w')"
  shows "managed (nf_cfg_directory n) p" and "plain_or_absent (os_disk w) p"
proof -
  obtain w1 where w1: "validate_cfg_directory n False w = (Ok (), w1)"
      and child: "validate_direct_child (nf_cfg_directory n) p is_known_target_name = Ok ()"
      and existing: "validate_existing_file_or_absent p w1 = (Ok u, w')"
    using assms by (auto simp: validate_target_def io_Ok)
  show "managed (nf_cfg_directory n) p"
    using child by (auto simp: direct_child_Ok known_name_iff managed_def)
  show "plain_or_absent (os_disk w) p"
    using existing_Ok [OF existing] same_diskD [OF cfg_directory_same w1] by simp
qed

lemma temporary_Ok:
  assumes "validate_temporary n p w = (Ok u, w')"
  shows "plain_or_absent (os_disk w) p"
proof -
  obtain w1 where w1: "validate_cfg_directory n True w = (Ok (), w1)"
      and existing: "validate_existing_file_or_absent p w1 = (Ok u, w')"
    using assms by (auto simp: validate_temporary_def io_Ok)
  then show ?thesis
    using existing_Ok [OF existing] same_diskD [OF cfg_directory_same w1] by simp
qed

section \<open>Errors of a bound install\<close>

text \<open>The install is there: its directories and its executable.\<close>

definition bound_disk :: "native_cs2_config_fs \<Rightarrow> (path, node) fmap \<Rightarrow> bool" where
  "bound_disk n d \<longleftrightarrow>
     fmlookup d (nf_steam_root n) = Some Directory
     \<and> fmlookup d (nf_library_root n) = Some Directory
     \<and> fmlookup d (nf_install_root n) = Some Directory
     \<and> fmlookup d (join_names (nf_install_root n) [''game'', ''csgo'']) = Some Directory
     \<and> fmlookup d (cs2_executable n) \<noteq> None"

text \<open>An error that says nothing about the file itself.\<close>

definition unrelated :: "io_error \<Rightarrow> bool" where
  "unrelated e \<longleftrightarrow> error_kind e \<noteq> IoNotFound \<and> error_kind e \<noteq> IoAlreadyExists"

definition blames_itself :: "native_cs2_config_fs \<Rightarrow> 'a os_call \<Rightarrow> bool" where
  "blames_itself n m \<longleftrightarrow>
     io_spec (\<lambda>w. bound_disk n (os_disk w)) m (\<lambda>_ w. bound_disk n (os_disk w)) (\<lambda>e _. unrelated e)"

lemma untrusted_unrelated [simp]: "unrelated (untrusted_path p)"
  by (simp add: unrelated_def untrusted_path_def)

lemma blames_ret: "blames_itself n (io_ret x)"
  unfolding blames_itself_def by (rule io_spec_ret)

lemma blames_fail: "unrelated e \<Longrightarrow> blames_itself n (io_fail e)"
  unfolding blames_itself_def by (rule io_spec_fail)

lemma blames_check: "(\<And>e. r = Err e \<Longrightarrow> unrelated e) \<Longrightarrow> blames_itself n (io_check r)"
  unfolding blames_itself_def by (rule io_spec_check)

lemma blames_bind: "blames_itself n m \<Longrightarrow> (\<And>x. blames_itself n (f x)) \<Longrightarrow> blames_itself n (io_bind m f)"
  unfolding blames_itself_def by (rule io_spec_bind)

lemma metadata_spec:
  "io_spec (\<lambda>w. P (os_disk w)) (symlink_metadata p) (\<lambda>m w. P (os_disk w) \<and> fmlookup (os_disk w) p = Some m)
     (\<lambda>e w. P (os_disk w) \<and> error_kind e \<noteq> IoAlreadyExists
        \<and> (error_kind e = IoNotFound \<longrightarrow> fmlookup (os_disk w) p = None))"
proof (rule io_specI)
  fix w r w' assume run: "symlink_metadata p w = (r, w')" and P: "P (os_disk w)"
  have "os_disk w' = os_disk w" by (rule same_diskD [OF metadata_same_disk run])
  then show "io_post (\<lambda>m w. P (os_disk w) \<and> fmlookup (os_disk w) p = Some m)
      (\<lambda>e w. P (os_disk w) \<and> error_kind e \<noteq> IoAlreadyExists
        \<and> (error_kind e = IoNotFound \<longrightarrow> fmlookup (os_disk w) p = None)) r w'"
    using run P metadata_Ok [of p w _ w'] metadata_Err [of p w _ w'] by (cases r) auto
qed

lemma canonicalize_Err:
  "canonicalize p w = (Err e, w') \<Longrightarrow>
     error_kind e \<noteq> IoAlreadyExists \<and> (error_kind e = IoNotFound \<longrightarrow> fmlookup (os_disk w) p = None)"
  by (auto simp: canonicalize_def os_step_def Let_def on_disk_def not_found_def split: option.splits)

lemma blames_metadata:
  "(\<And>d. bound_disk n d \<Longrightarrow> fmlookup d p \<noteq> None) \<Longrightarrow> blames_itself n (symlink_metadata p)"
  unfolding blames_itself_def
  by (rule io_spec_conseq [OF metadata_spec [where P = "bound_disk n"]]) (fastforce simp: unrelated_def)+

lemma blames_canonicalize:
  assumes "\<And>d. bound_disk n d \<Longrightarrow> fmlookup d p \<noteq> None"
  shows "blames_itself n (canonicalize p)"
  unfolding blames_itself_def
proof (rule io_specI)
  fix w r w' assume "canonicalize p w = (r, w')" "bound_disk n (os_disk w)"
  then show "io_post (\<lambda>_ w. bound_disk n (os_disk w)) (\<lambda>e _. unrelated e) r w'"
    using assms canonicalize_Err [of p w _ w'] same_diskD [OF canonicalize_same_disk, of p w r w']
    by (cases r) (fastforce simp: unrelated_def)+
qed

text \<open>Looking at metadata where a missing entry is an answer.\<close>

lemma blames_metadata_match:
  "(\<And>m. blames_itself n (f (Ok m))) \<Longrightarrow>
   (\<And>e. error_kind e = IoNotFound \<Longrightarrow> blames_itself n (f (Err e))) \<Longrightarrow>
   (\<And>e. unrelated e \<Longrightarrow> blames_itself n (f (Err e))) \<Longrightarrow>
     blames_itself n (io_match (symlink_metadata p) f)"
  unfolding blames_itself_def
proof (rule io_spec_match [OF metadata_spec])
  fix e
  assume nf: "\<And>e. error_kind e = IoNotFound \<Longrightarrow>
      io_spec (\<lambda>w. bound_disk n (os_disk w)) (f (Err e)) (\<lambda>_ w. bound_disk n (os_disk w)) (\<lambda>e _. unrelated e)"
    and other: "\<And>e. unrelated e \<Longrightarrow>
      io_spec (\<lambda>w. bound_disk n (os_disk w)) (f (Err e)) (\<lambda>_ w. bound_disk n (os_disk w)) (\<lambda>e _. unrelated e)"
  show "io_spec (\<lambda>w. bound_disk n (os_disk w) \<and> error_kind e \<noteq> IoAlreadyExists
        \<and> (error_kind e = IoNotFound \<longrightarrow> fmlookup (os_disk w) p = None))
      (f (Err e)) (\<lambda>_ w. bound_disk n (os_disk w)) (\<lambda>e _. unrelated e)"
  proof (cases "error_kind e = IoAlreadyExists")
    case True
    then show ?thesis by (auto intro!: io_specI)
  next
    case False
    then consider "error_kind e = IoNotFound" | "unrelated e" by (auto simp: unrelated_def)
    then show ?thesis
    proof cases
      case 1
      then show ?thesis by (rule io_spec_conseq [OF nf]) auto
    next
      case 2
      then show ?thesis by (rule io_spec_conseq [OF other]) auto
    qed
  qed
next
  fix m
  assume "\<And>m. io_spec (\<lambda>w. bound_disk n (os_disk w)) (f (Ok m)) (\<lambda>_ w. bound_disk n (os_disk w))
      (\<lambda>e _. unrelated e)"
  then show "io_spec (\<lambda>w. bound_disk n (os_disk w) \<and> fmlookup (os_disk w) p = Some m) (f (Ok m))
      (\<lambda>_ w. bound_disk n (os_disk w)) (\<lambda>e _. unrelated e)"
    by (rule io_spec_conseq) auto
qed

lemmas blames_steps = blames_ret blames_fail blames_check blames_bind

lemma trusted_directory_blames:
  "(\<And>d. bound_disk n d \<Longrightarrow> fmlookup d p \<noteq> None) \<Longrightarrow> blames_itself n (trusted_directory p)"
  unfolding trusted_directory_def by (auto intro!: blames_steps blames_metadata)

lemma reject_from_blames: "blames_itself n (reject_reparse_from p cs)"
proof (induction cs arbitrary: p)
  case (Cons c cs)
  then show ?case
    by (auto intro!: blames_steps blames_metadata_match simp: Let_def)
qed (auto intro!: blames_steps)

lemma reject_blames: "blames_itself n (reject_reparse_ancestors p q)"
  unfolding reject_reparse_ancestors_def
  by (auto intro!: blames_steps reject_from_blames simp: ok_or_def split: option.splits)

lemma binding_blames: "blames_itself n (validate_binding n)"
  unfolding validate_binding_def trusted_file_under_def trusted_directory_under_def
  by (auto intro!: blames_steps trusted_directory_blames reject_blames blames_canonicalize blames_metadata
      simp: bound_disk_def)

lemma cfg_directory_blames: "blames_itself n (validate_cfg_directory n False)"
  unfolding validate_cfg_directory_def
  by (auto intro!: blames_steps binding_blames blames_metadata_match)

lemma target_blames: "blames_itself n (validate_target n p)"
  unfolding validate_target_def validate_existing_file_or_absent_def
  by (auto intro!: blames_steps cfg_directory_blames blames_metadata_match
      simp: validate_direct_child_def guard_simps ok_or_def
      split: option.splits list.splits path_component.splits if_splits)

lemma target_Err: "validate_target n p w = (Err e, w') \<Longrightarrow> bound_disk n (os_disk w) \<Longrightarrow> unrelated e"
  using io_specD [OF target_blames [unfolded blames_itself_def], of n p w "Err e" w'] by simp

section \<open>What the calls change\<close>

text \<open>A call changes only entries of \<open>S\<close> and never a directory.\<close>

definition disk_changes :: "path set \<Rightarrow> os \<Rightarrow> os \<Rightarrow> bool" where
  "disk_changes S w w' \<longleftrightarrow>
     (\<forall>q. q \<notin> S \<longrightarrow> fmlookup (os_disk w') q = fmlookup (os_disk w) q)
     \<and> (\<forall>q. fmlookup (os_disk w) q = Some Directory \<longrightarrow> fmlookup (os_disk w') q = Some Directory)"

lemma disk_changes_equiv [simp]: "reflp (disk_changes S)" "transp (disk_changes S)"
  by (auto simp: reflp_def transp_def disk_changes_def)

lemma same_disk_changes: "io_within same_disk m \<Longrightarrow> io_within (disk_changes S) m"
  by (auto simp: io_within_def same_disk_def disk_changes_def)

lemmas change_steps =
  io_within_ret [OF disk_changes_equiv(1)] io_within_fail [OF disk_changes_equiv(1)]
  io_within_check [OF disk_changes_equiv(1)] io_within_bind [OF disk_changes_equiv(2)]
  io_within_match [OF disk_changes_equiv(2)]

lemma open_new_Ok:
  "open_new p w = (Ok u, w') \<Longrightarrow>
     fmlookup (os_disk w) p = None \<and> os_disk w' = fmupd p (Regular []) (os_disk w)"
  by (auto simp: open_new_def os_step_def Let_def on_disk_def set_node_def split: option.splits if_splits)

lemma open_new_Err:
  "open_new p w = (Err e, w') \<Longrightarrow>
     os_disk w' = os_disk w \<and> (error_kind e = IoAlreadyExists \<longrightarrow> fmlookup (os_disk w) p \<noteq> None)"
  by (auto simp: open_new_def os_step_def Let_def on_disk_def not_found_def split: option.splits if_splits)

lemma write_all_Ok:
  "write_all p bytes w = (Ok u, w') \<Longrightarrow>
     is_regular (fmlookup (os_disk w) p) \<and> os_disk w' = fmupd p (Regular bytes) (os_disk w)"
  by (auto simp: write_all_def os_step_def Let_def on_disk_def set_node_def split: option.splits if_splits)

lemma write_all_Err:
  "write_all p bytes w = (Err e, w') \<Longrightarrow> unrelated e \<and>
     (os_disk w' = os_disk w
      \<or> is_regular (fmlookup (os_disk w) p) \<and> (\<exists>x. os_disk w' = fmupd p (Regular x) (os_disk w)))"
  by (auto simp: write_all_def os_step_def Let_def on_disk_def set_node_def unrelated_def
      split: option.splits if_splits)

lemma sync_all_Err: "sync_all w = (Err e, w') \<Longrightarrow> unrelated e"
  by (auto simp: sync_all_def os_step_def Let_def unrelated_def split: option.splits)

lemma rename_Ok:
  "fs_rename t p w = (Ok u, w') \<Longrightarrow>
     \<exists>x. fmlookup (os_disk w) t = Some x \<and> x \<noteq> Directory \<and> fmlookup (os_disk w) p \<noteq> Some Directory
       \<and> os_disk w' = fmupd p x (fmdrop t (os_disk w))"
  by (auto simp: fs_rename_def os_step_def Let_def on_disk_def set_node_def drop_node_def
      split: option.splits if_splits)

lemma rename_Err: "fs_rename t p w = (Err e, w') \<Longrightarrow> os_disk w' = os_disk w"
  by (auto simp: fs_rename_def os_step_def Let_def split: option.splits if_splits)

lemma remove_Ok:
  "fs_remove_file p w = (Ok u, w') \<Longrightarrow>
     fmlookup (os_disk w) p \<noteq> Some Directory \<and> os_disk w' = fmdrop p (os_disk w)"
  by (auto simp: fs_remove_file_def os_step_def Let_def on_disk_def drop_node_def
      split: option.splits node.splits)

lemma remove_Err: "fs_remove_file p w = (Err e, w') \<Longrightarrow> os_disk w' = os_disk w"
  by (auto simp: fs_remove_file_def os_step_def Let_def split: option.splits node.splits)

lemma io_withinI: "(\<And>w r w'. m w = (r, w') \<Longrightarrow> R w w') \<Longrightarrow> io_within R m"
  by (simp add: io_within_def prod_eq_iff)

lemma open_new_changes: "p \<in> S \<Longrightarrow> io_within (disk_changes S) (open_new p)"
  by (rule io_withinI, rename_tac r w', case_tac r)
    (fastforce dest: open_new_Ok open_new_Err simp: disk_changes_def)+

lemma write_all_changes: "p \<in> S \<Longrightarrow> io_within (disk_changes S) (write_all p bytes)"
  by (rule io_withinI, rename_tac r w', case_tac r)
    (fastforce dest: write_all_Ok write_all_Err simp: disk_changes_def)+

lemma replace_file_Ok: "replace_file t p w = (Ok u, w') \<Longrightarrow> fs_rename t p w = (Ok u, w')"
  by (simp add: replace_file_def io_Ok)

lemma replace_file_Err: "replace_file t p w = (Err e, w') \<Longrightarrow> \<exists>e'. fs_rename t p w = (Err e', w')"
  by (cases "fs_rename t p w"; cases "fst (fs_rename t p w)") (auto simp: replace_file_def io_map_err_def)

lemma replace_file_changes: "p \<in> S \<Longrightarrow> t \<in> S \<Longrightarrow> io_within (disk_changes S) (replace_file t p)"
  unfolding replace_file_def
  by (rule io_within_map_err, rule io_withinI, rename_tac r w', case_tac r)
    (fastforce dest: rename_Ok rename_Err simp: disk_changes_def)+

lemma remove_changes: "p \<in> S \<Longrightarrow> io_within (disk_changes S) (fs_remove_file p)"
  by (rule io_withinI, rename_tac r w', case_tac r)
    (fastforce dest: remove_Ok remove_Err simp: disk_changes_def)+

lemma missing_directories_prefix:
  "missing_directories w p = Some ds \<Longrightarrow> d \<in> set ds \<Longrightarrow> (\<exists>k. d = take k p) \<and> fmlookup (os_disk w) d = None"
proof (induction w p arbitrary: ds rule: missing_directories.induct)
  case (1 w p)
  show ?case
  proof (cases "on_disk w p")
    case None
    then obtain ds' where ds': "missing_directories w (butlast p) = Some ds'" "ds = ds' @ [p]" "p \<noteq> []"
      using "1.prems"(1) by (subst (asm) missing_directories.simps) (auto split: if_splits)
    then consider "d \<in> set ds'" | "d = p" using "1.prems"(2) by auto
    then show ?thesis
    proof cases
      case 1
      then have "(\<exists>k. d = take k (butlast p)) \<and> fmlookup (os_disk w) d = None"
        using "1.IH" [OF None \<open>p \<noteq> []\<close> ds'(1)] by simp
      then show ?thesis by (metis butlast_conv_take take_take)
    next
      case 2
      then show ?thesis using None by (metis on_disk_def take_all order_refl)
    qed
  next
    case (Some x)
    then show ?thesis using "1.prems" by (subst (asm) missing_directories.simps) (auto split: node.splits)
  qed
qed

lemma fold_set_directories:
  "fmlookup (os_disk (fold (\<lambda>d. set_node d Directory) ds w)) q =
     (if q \<in> set ds then Some Directory else fmlookup (os_disk w) q)"
  by (induction ds arbitrary: w) (auto simp: set_node_def)

lemma create_dir_all_changes: "io_within (disk_changes (range (\<lambda>k. take k p))) (create_dir_all p)"
proof (rule io_withinI)
  fix w r w' assume run: "create_dir_all p w = (r, w')"
  let ?w = "w\<lparr>os_calls := Suc (os_calls w)\<rparr>"
  show "disk_changes (range (\<lambda>k. take k p)) w w'"
  proof (cases "os_disk w' = os_disk w")
    case False
    then obtain ds where ds: "missing_directories ?w p = Some ds"
        and w': "w' = fold (\<lambda>d. set_node d Directory) ds ?w"
      using run by (auto simp: create_dir_all_def os_step_def Let_def split: option.splits)
    show ?thesis
      using missing_directories_prefix [OF ds]
      by (auto simp: w' disk_changes_def fold_set_directories)
  qed (simp add: disk_changes_def)
qed

end
