(* ===== verification/Native_Contract.thy ===== *)
theory Native_Contract
  imports Native_Files
begin

text \<open>
  The native adapter keeps the contract of \<open>Cs2_Contract\<close>: a read tells what the file holds, an
  atomic replacement leaves the old or the new bytes and nothing else changes, a creation never
  overwrites.  The interpretation carries the properties of the configuration transaction over to the
  disk.
\<close>

section \<open>Temporary files\<close>

lemma find_str_append: "find_str p (a @ p @ b) \<noteq> None"
proof (induction a)
  case Nil
  have "starts_with p (p @ b)" by simp
  then show ?case by (cases "p @ b") auto
next
  case (Cons c a)
  then show ?case by auto
qed

lemma known_names_not_temporary:
  "list_all (\<lambda>n. find_str ''.tmp.'' n = None)
     ([OPTIMIZATION_FILE, OPTIMIZATION_BACKUP_FILE, AUTOEXEC_FILE, AUTOEXEC_BACKUP_FILE]
      @ map asset_file_name ALL_ASSETS)"
  by code_simp

lemma managed_not_temporary: "m \<in> managed_names \<Longrightarrow> find_str ''.tmp.'' m = None"
proof -
  assume "m \<in> managed_names"
  then have "m \<in> set ([OPTIMIZATION_FILE, OPTIMIZATION_BACKUP_FILE, AUTOEXEC_FILE, AUTOEXEC_BACKUP_FILE]
      @ map asset_file_name ALL_ASSETS)"
    unfolding known_name_iff [symmetric] is_known_target_name_def list_ex_iff by (elim disjE bexE) auto
  then show ?thesis
    using known_names_not_temporary unfolding list_all_iff by (rule bspec [rotated])
qed

lemma managed_no_tmp: "m \<in> managed_names \<Longrightarrow> m \<noteq> x @ ''.tmp.'' @ y"
  by (metis managed_not_temporary find_str_append)

text \<open>The files an atomic replacement may change: the target and temporary files for it.\<close>

definition replace_files :: "path \<Rightarrow> path set" where
  "replace_files p = insert p {q. \<exists>d x y. p = d @ [Normal x] \<and> q = d @ [Normal (x @ ''.tmp.'' @ y)]}"

lemma temporary_in_replace_files: "p = d @ [Normal x] \<Longrightarrow> temporary_path p w \<in> replace_files p"
  by (simp add: temporary_path_def replace_files_def)

lemma temporary_differs: "p = d @ [Normal x] \<Longrightarrow> temporary_path p w \<noteq> p"
  by (simp add: temporary_path_def)

lemma managed_in_replace_files: "managed d q \<Longrightarrow> q \<in> replace_files p \<Longrightarrow> q = p"
  using managed_no_tmp by (auto simp: managed_def replace_files_def)

section \<open>The adapter keeps the contract\<close>

abbreviation native_ready :: "cs2_install \<Rightarrow> os \<Rightarrow> bool" where
  "native_ready i w \<equiv> bound_disk (native_adapter i) (os_disk w)"

lemma native_adapter_simps [simp]:
  "nf_cfg_directory (native_adapter i) = cfg_dir i" "nf_install_root (native_adapter i) = install_root i"
  by (simp_all add: native_adapter_def cfg_dir_def)

lemma cfg_dir_eq: "cfg_dir i = install_root i @ [Normal ''game'', Normal ''csgo'', Normal ''cfg'']"
  by (simp add: cfg_dir_def join_names_def)

lemma executable_outside:
  "managed (cfg_dir i) p \<Longrightarrow> cs2_executable (native_adapter i) \<notin> replace_files p"
  "cs2_executable (native_adapter i) \<notin> range (\<lambda>k. take k (cfg_dir i))"
proof -
  show "managed (cfg_dir i) p \<Longrightarrow> cs2_executable (native_adapter i) \<notin> replace_files p"
    by (auto simp: managed_def replace_files_def cs2_executable_def cfg_dir_eq join_names_def)
  have "length (take k (cfg_dir i)) < length (cs2_executable (native_adapter i))" for k
    by (simp add: cs2_executable_def cfg_dir_eq join_names_def)
  then show "cs2_executable (native_adapter i) \<notin> range (\<lambda>k. take k (cfg_dir i))"
    by (metis less_irrefl rangeE)
qed

lemma managed_not_prefix: "managed (cfg_dir i) q \<Longrightarrow> q \<notin> range (\<lambda>k. take k (cfg_dir i))"
proof
  assume "managed (cfg_dir i) q" and "q \<in> range (\<lambda>k. take k (cfg_dir i))"
  then obtain m k where "cfg_dir i @ [Normal m] = take k (cfg_dir i)" by (auto simp: managed_def) metis
  then have "length (cfg_dir i @ [Normal m]) = length (take k (cfg_dir i))" by simp
  then show False by simp
qed

lemma bound_kept:
  "disk_changes S w w' \<Longrightarrow> native_ready i w \<Longrightarrow> cs2_executable (native_adapter i) \<notin> S \<Longrightarrow> native_ready i w'"
  by (auto simp: bound_disk_def disk_changes_def)

lemma content_kept:
  "disk_changes S w w' \<Longrightarrow> q \<notin> S \<Longrightarrow> file_content w' q = file_content w q"
  by (simp add: file_content_def on_disk_def disk_changes_def)

lemma replace_frame_native:
  assumes "io_within (disk_changes (replace_files p)) m" and "m w = (r, w')" and "native_ready i w"
    and "managed (cfg_dir i) p"
  shows "native_ready i w' \<and> (\<forall>q. managed (cfg_dir i) q \<longrightarrow> q \<noteq> p \<longrightarrow> file_content w' q = file_content w q)"
  using io_withinD [OF assms(1,2)] bound_kept [OF _ assms(3) executable_outside(1) [OF assms(4)]]
    content_kept managed_in_replace_files by blast

lemma create_changes: "io_within (disk_changes (replace_files p)) (native_create_file_new n p bytes)"
  unfolding native_create_file_new_def
  by (intro change_steps same_disk_changes target_same sync_same_disk open_new_changes write_all_changes)
    (simp_all add: replace_files_def)

lemma remove_file_changes: "io_within (disk_changes (replace_files p)) (native_remove_file n p)"
  unfolding native_remove_file_def
  by (intro change_steps same_disk_changes target_same remove_changes) (simp add: replace_files_def)

lemma replace_through_changes:
  "p \<in> S \<Longrightarrow> t \<in> S \<Longrightarrow> io_within (disk_changes S) (replace_through n p t bytes)"
  unfolding replace_through_def sync_parent_def
  by (intro change_steps same_disk_changes [OF target_same] same_disk_changes [OF temporary_same]
      same_disk_changes [OF cfg_directory_same] same_disk_changes [OF sync_same_disk]
      open_new_changes write_all_changes replace_file_changes)

lemma discard_changes: "t \<in> S \<Longrightarrow> io_within (disk_changes S) (discard_temporary n t)"
  unfolding discard_temporary_def
  by (auto intro!: change_steps same_disk_changes [OF temporary_same] remove_changes split: result.splits)

lemma atomic_replace_changes:
  assumes "p = d @ [Normal x]"
  shows "io_within (disk_changes (replace_files p)) (native_atomic_replace n p bytes)"
proof -
  have "io_within (disk_changes (replace_files p)) (io_match (replace_through n p t bytes) (\<lambda>r. case r of
      Ok _ \<Rightarrow> io_ret () | Err e \<Rightarrow> io_bind (discard_temporary n t) (\<lambda>_. io_fail e)))"
    if "t \<in> replace_files p" for t
  proof -
    have "p \<in> replace_files p" by (simp add: replace_files_def)
    then show ?thesis
      by (intro change_steps replace_through_changes that)
        (auto intro!: change_steps discard_changes that split: result.splits)
  qed
  from this [OF temporary_in_replace_files [OF assms]]
  have "disk_changes (replace_files p) w (snd (io_bind (\<lambda>w. (Ok (temporary_path p w), w))
      (\<lambda>t. io_match (replace_through n p t bytes) (\<lambda>r. case r of
         Ok _ \<Rightarrow> io_ret () | Err e \<Rightarrow> io_bind (discard_temporary n t) (\<lambda>_. io_fail e))) w))" for w
    unfolding io_within_def io_bind_def prod.case result.case by blast
  then have "io_within (disk_changes (replace_files p)) (io_bind (\<lambda>w. (Ok (temporary_path p w), w))
      (\<lambda>t. io_match (replace_through n p t bytes) (\<lambda>r. case r of
         Ok _ \<Rightarrow> io_ret () | Err e \<Rightarrow> io_bind (discard_temporary n t) (\<lambda>_. io_fail e))))"
    by (simp add: io_within_def)
  then show ?thesis
    unfolding native_atomic_replace_def
    by (rule io_within_bind [OF disk_changes_equiv(2) same_disk_changes [OF target_same]])
qed

text \<open>The replacement is atomic: the target holds the old or the new bytes.\<close>

lemma open_new_spec:
  "t \<noteq> p \<Longrightarrow> io_spec (\<lambda>w. fmlookup (os_disk w) p = v) (open_new t)
     (\<lambda>_ w. fmlookup (os_disk w) p = v) (\<lambda>_ w. fmlookup (os_disk w) p = v)"
  by (rule io_specI, rename_tac r w', case_tac r) (auto dest!: open_new_Ok open_new_Err)

lemma write_all_spec:
  "t \<noteq> p \<Longrightarrow> io_spec (\<lambda>w. fmlookup (os_disk w) p = v) (write_all t bytes)
     (\<lambda>_ w. fmlookup (os_disk w) p = v \<and> fmlookup (os_disk w) t = Some (Regular bytes))
     (\<lambda>_ w. fmlookup (os_disk w) p = v)"
  by (rule io_specI, rename_tac r w', case_tac r) (auto dest!: write_all_Ok write_all_Err)

lemma rename_spec:
  "io_spec (\<lambda>w. fmlookup (os_disk w) p = v \<and> fmlookup (os_disk w) t = Some x) (replace_file t p)
     (\<lambda>_ w. fmlookup (os_disk w) p = Some x) (\<lambda>_ w. fmlookup (os_disk w) p = v)"
  by (rule io_specI, rename_tac r w', case_tac r) (auto dest!: replace_file_Ok replace_file_Err rename_Ok rename_Err)

lemma remove_spec:
  "t \<noteq> p \<Longrightarrow> io_spec (\<lambda>w. fmlookup (os_disk w) p = v) (fs_remove_file t)
     (\<lambda>_ w. fmlookup (os_disk w) p = v) (\<lambda>_ w. fmlookup (os_disk w) p = v)"
  by (rule io_specI, rename_tac r w', case_tac r) (auto dest!: remove_Ok remove_Err)

text \<open>A check in the middle, for a property of the disk that the last postcondition follows from.\<close>

lemma observe_bind:
  assumes "io_within same_disk m" and "\<And>x. io_spec (\<lambda>w. P (os_disk w)) (f x) Q E"
    and "\<And>e w. P (os_disk w) \<Longrightarrow> E e w"
  shows "io_spec (\<lambda>w. P (os_disk w)) (io_bind m f) Q E"
  by (rule io_spec_bind [OF _ assms(2)], rule io_spec_conseq [OF observe [OF assms(1), of P]])
    (use assms(3) in auto)

lemma replace_through_spec:
  assumes "t \<noteq> p"
  shows "io_spec (\<lambda>w. fmlookup (os_disk w) p = v) (replace_through n p t bytes)
     (\<lambda>_ w. fmlookup (os_disk w) p = Some (Regular bytes))
     (\<lambda>_ w. fmlookup (os_disk w) p \<in> {v, Some (Regular bytes)})"
proof -
  let ?E = "\<lambda>(_ :: io_error) w. fmlookup (os_disk w) p \<in> {v, Some (Regular bytes)}"
  let ?P = "\<lambda>d. fmlookup d p = v" and ?R = "\<lambda>d. fmlookup d p = v \<and> fmlookup d t = Some (Regular bytes)"
  let ?N = "\<lambda>d. fmlookup d p = Some (Regular bytes)"
  have finish: "io_spec (\<lambda>w. ?N (os_disk w))
      (io_bind (validate_cfg_directory n True) (\<lambda>_. sync_parent (nf_cfg_directory n)))
      (\<lambda>_ w. ?N (os_disk w)) ?E"
    by (rule observe_bind [OF cfg_directory_same, of ?N]) (auto simp: sync_parent_def intro: io_spec_ret)
  have rename: "io_spec (\<lambda>w. ?R (os_disk w)) (io_bind (replace_file t p) (\<lambda>_.
      io_bind (validate_cfg_directory n True) (\<lambda>_. sync_parent (nf_cfg_directory n))))
      (\<lambda>_ w. ?N (os_disk w)) ?E"
    by (rule io_spec_bind [OF io_spec_conseq [OF rename_spec] finish]) auto
  have checked: "io_spec (\<lambda>w. ?R (os_disk w)) (io_bind sync_all (\<lambda>_. io_bind (validate_target n p) (\<lambda>_.
      io_bind (validate_temporary n t) (\<lambda>_. io_bind (replace_file t p) (\<lambda>_.
      io_bind (validate_cfg_directory n True) (\<lambda>_. sync_parent (nf_cfg_directory n)))))))
      (\<lambda>_ w. ?N (os_disk w)) ?E"
    by (rule observe_bind [of _ ?R, OF sync_same_disk], rule observe_bind [of _ ?R, OF target_same],
        rule observe_bind [of _ ?R, OF temporary_same], rule rename) auto
  have written: "io_spec (\<lambda>w. ?P (os_disk w)) (io_bind (write_all t bytes) (\<lambda>_. io_bind sync_all (\<lambda>_.
      io_bind (validate_target n p) (\<lambda>_. io_bind (validate_temporary n t) (\<lambda>_.
      io_bind (replace_file t p) (\<lambda>_.
      io_bind (validate_cfg_directory n True) (\<lambda>_. sync_parent (nf_cfg_directory n))))))))
      (\<lambda>_ w. ?N (os_disk w)) ?E"
    by (rule io_spec_bind [OF io_spec_conseq [OF write_all_spec [OF assms]] checked]) auto
  have opened: "io_spec (\<lambda>w. ?P (os_disk w)) (io_bind (open_new t) (\<lambda>_. io_bind (write_all t bytes) (\<lambda>_.
      io_bind sync_all (\<lambda>_. io_bind (validate_target n p) (\<lambda>_. io_bind (validate_temporary n t) (\<lambda>_.
      io_bind (replace_file t p) (\<lambda>_.
      io_bind (validate_cfg_directory n True) (\<lambda>_. sync_parent (nf_cfg_directory n)))))))))
      (\<lambda>_ w. ?N (os_disk w)) ?E"
    by (rule io_spec_bind [OF io_spec_conseq [OF open_new_spec [OF assms]] written]) auto
  show ?thesis
    unfolding replace_through_def by (rule observe_bind [of _ ?P, OF temporary_same opened]) simp
qed

lemma discard_spec:
  assumes "t \<noteq> p"
  shows "io_spec (\<lambda>w. fmlookup (os_disk w) p = v) (discard_temporary n t)
    (\<lambda>_ w. fmlookup (os_disk w) p = v) (\<lambda>_ w. fmlookup (os_disk w) p = v)"
  unfolding discard_temporary_def
  by (rule io_spec_match [OF observe [OF temporary_same, of "\<lambda>d. fmlookup d p = v"]])
    (auto intro!: io_spec_ret io_spec_match [OF remove_spec [OF assms]])

lemma atomic_replace_spec:
  assumes "p = d @ [Normal x]"
  shows "io_spec (\<lambda>w. fmlookup (os_disk w) p = v) (native_atomic_replace n p bytes)
     (\<lambda>_ w. fmlookup (os_disk w) p = Some (Regular bytes))
     (\<lambda>_ w. fmlookup (os_disk w) p \<in> {v, Some (Regular bytes)})"
proof -
  let ?E = "\<lambda>(_ :: io_error) w. fmlookup (os_disk w) p \<in> {v, Some (Regular bytes)}"
  have "io_spec (\<lambda>w. fmlookup (os_disk w) p = v) (io_match (replace_through n p t bytes) (\<lambda>r. case r of
      Ok _ \<Rightarrow> io_ret () | Err e \<Rightarrow> io_bind (discard_temporary n t) (\<lambda>_. io_fail e)))
      (\<lambda>_ w. fmlookup (os_disk w) p = Some (Regular bytes)) ?E" if t: "t \<noteq> p" for t
  proof (rule io_spec_match [OF replace_through_spec [OF t]])
    fix e
    have kept: "io_spec (\<lambda>w. fmlookup (os_disk w) p = u) (io_bind (discard_temporary n t) (\<lambda>_. io_fail e))
        (\<lambda>_ w. fmlookup (os_disk w) p = Some (Regular bytes)) (\<lambda>_ w. fmlookup (os_disk w) p = u)" for u
      by (rule io_spec_bind [OF discard_spec [OF t]]) (auto intro: io_spec_fail)
    show "io_spec (\<lambda>w. fmlookup (os_disk w) p \<in> {v, Some (Regular bytes)})
        (case Err e of Ok _ \<Rightarrow> io_ret () | Err e \<Rightarrow> io_bind (discard_temporary n t) (\<lambda>_. io_fail e))
        (\<lambda>_ w. fmlookup (os_disk w) p = Some (Regular bytes)) ?E"
    proof (rule io_specI, unfold result.case)
      fix w r w' assume "io_bind (discard_temporary n t) (\<lambda>_. io_fail e) w = (r, w')"
        and "fmlookup (os_disk w) p \<in> {v, Some (Regular bytes)}"
      then show "io_post (\<lambda>_ w. fmlookup (os_disk w) p = Some (Regular bytes)) ?E r w'"
        using io_post_mono [OF io_specD [OF kept], of w r w' "fmlookup (os_disk w) p"] by auto
    qed
  qed (auto intro: io_spec_ret)
  then have named: "io_spec (\<lambda>w. fmlookup (os_disk w) p = v)
      (io_bind (\<lambda>w. (Ok (temporary_path p w), w)) (\<lambda>t. io_match (replace_through n p t bytes) (\<lambda>r. case r of
      Ok _ \<Rightarrow> io_ret () | Err e \<Rightarrow> io_bind (discard_temporary n t) (\<lambda>_. io_fail e))))
      (\<lambda>_ w. fmlookup (os_disk w) p = Some (Regular bytes)) ?E"
    using temporary_differs [OF assms] by (auto simp: io_spec_def io_bind_def)
  show ?thesis
    unfolding native_atomic_replace_def
    by (rule observe_bind [of _ "\<lambda>d. fmlookup d p = v", OF target_same named]) simp
qed

section \<open>The laws\<close>

lemma io_bind_Err:
  "io_bind m f w = (Err e, w'') \<longleftrightarrow>
     m w = (Err e, w'') \<or> (\<exists>x w'. m w = (Ok x, w') \<and> f x w' = (Err e, w''))"
  by (auto simp: io_bind_def split: prod.splits result.splits)

lemma managedE: assumes "managed d p" obtains x where "p = d @ [Normal x]" and "x \<in> managed_names"
  using assms by (auto simp: managed_def)

lemma fs_read_Ok:
  "fs_read p w = (Ok bytes, w') \<Longrightarrow>
     fmlookup (os_disk w) p \<in> {Some (Regular bytes), Some (Reparse (Some bytes))}"
  by (auto simp: fs_read_def os_step_def Let_def on_disk_def split: option.splits node.splits)

lemma fs_read_Err:
  "fs_read p w = (Err e, w') \<Longrightarrow> error_kind e = IoNotFound \<Longrightarrow> fmlookup (os_disk w) p = None"
  by (auto simp: fs_read_def os_step_def Let_def on_disk_def split: option.splits node.splits)

lemma plain_lookup: "plain_or_absent d p \<Longrightarrow> fmlookup d p \<noteq> None \<Longrightarrow> \<exists>x. fmlookup d p = Some (Regular x)"
  by (auto simp: plain_or_absent_def) (metis is_regular.simps node.exhaust)

lemma native_directory_frame:
  assumes "native_create_directory (native_adapter i) p w = (r, w')" and "native_ready i w"
  shows "native_ready i w' \<and> (\<forall>q. managed (cfg_dir i) q \<longrightarrow> file_content w' q = file_content w q)"
proof -
  have "io_within (disk_changes (range (\<lambda>k. take k (cfg_dir i)))) (native_create_directory (native_adapter i) p)"
    using create_dir_all_changes [of "cfg_dir i"]
    by (auto simp: native_create_directory_def
        intro!: change_steps same_disk_changes [OF cfg_directory_same])
  from io_withinD [OF this assms(1)] show ?thesis
    using bound_kept [OF _ assms(2) executable_outside(2)] content_kept managed_not_prefix by metis
qed

lemma native_read_frame:
  "native_read_file n p w = (r, w') \<Longrightarrow> os_disk w' = os_disk w"
  by (rule same_diskD [OF native_read_same])

lemma native_read_Ok:
  assumes "native_read_file n p w = (Ok bytes, w')"
  shows "file_content w p = Some bytes"
proof -
  obtain w1 where w1: "validate_target n p w = (Ok (), w1)" "fs_read p w1 = (Ok bytes, w')"
    using assms by (auto simp: native_read_file_def io_Ok)
  have "os_disk w1 = os_disk w" by (rule same_diskD [OF target_same w1(1)])
  then have "fmlookup (os_disk w) p \<in> {Some (Regular bytes), Some (Reparse (Some bytes))}"
    using fs_read_Ok [OF w1(2)] by simp
  then show ?thesis
    using target_Ok(2) [OF w1(1)] by (auto simp: file_content_def on_disk_def plain_or_absent_def)
qed

lemma native_read_missing:
  assumes "native_read_file n p w = (Err e, w')" and "error_kind e = IoNotFound" and "bound_disk n (os_disk w)"
  shows "file_content w p = None"
proof -
  obtain w1 where w1: "validate_target n p w = (Ok (), w1)" "fs_read p w1 = (Err e, w')"
    using assms target_Err [of n p w e w'] by (auto simp: native_read_file_def io_bind_Err unrelated_def)
  have "os_disk w1 = os_disk w" by (rule same_diskD [OF target_same w1(1)])
  then show ?thesis using fs_read_Err [OF w1(2) assms(2)] by (simp add: file_content_def on_disk_def)
qed

lemma native_create_Ok:
  assumes "native_create_file_new n p bytes w = (Ok u, w')"
  shows "file_content w p = None \<and> file_content w' p = Some bytes"
proof -
  obtain w1 w2 w3 where w1: "validate_target n p w = (Ok (), w1)" "open_new p w1 = (Ok (), w2)"
      "write_all p bytes w2 = (Ok (), w3)" "sync_all w3 = (Ok u, w')"
    using assms by (auto simp: native_create_file_new_def io_Ok)
  have "os_disk w1 = os_disk w" "os_disk w' = os_disk w3"
    using same_diskD [OF target_same w1(1)] same_diskD [OF sync_same_disk w1(4)] by simp_all
  then show ?thesis
    using open_new_Ok [OF w1(2)] write_all_Ok [OF w1(3)] by (simp add: file_content_def on_disk_def)
qed

lemma native_create_exists:
  assumes run: "native_create_file_new n p bytes w = (Err e, w')" and e: "error_kind e = IoAlreadyExists"
    and bound: "bound_disk n (os_disk w)"
  shows "file_content w' p = file_content w p \<and> file_content w p \<noteq> None"
proof -
  have "\<not> unrelated e" using e by (simp add: unrelated_def)
  then obtain w1 where w1: "validate_target n p w = (Ok (), w1)" "open_new p w1 = (Err e, w')"
    using run target_Err [of n p w e w'] bound write_all_Err [of p bytes _ e w'] sync_all_Err [of _ e w']
    by (fastforce simp: native_create_file_new_def io_bind_Err)
  have "os_disk w1 = os_disk w" by (rule same_diskD [OF target_same w1(1)])
  then show ?thesis
    using open_new_Err [OF w1(2)] e plain_lookup [OF target_Ok(2) [OF w1(1)]]
    by (auto simp: file_content_def on_disk_def)
qed

interpretation native: config_files "native_files (native_adapter i)" "cfg_dir i" "native_ready i" file_content
  for i
proof
  fix p w w' and r :: "(unit, io_error) result" and x :: "(string, io_error) result" and bytes e u
  note simps = native_files_def
  show "native_ready i w' \<and> (\<forall>q. managed (cfg_dir i) q \<longrightarrow> file_content w' q = file_content w q)"
    if "create_directory (native_files (native_adapter i)) p w = (r, w')" "native_ready i w"
    using that by (auto simp: simps dest: native_directory_frame)
  show "native_ready i w' \<and> (\<forall>q. managed (cfg_dir i) q \<longrightarrow> file_content w' q = file_content w q)"
    if "read_file (native_files (native_adapter i)) p w = (x, w')" "native_ready i w"
    using that native_read_frame by (auto simp: simps file_content_def on_disk_def)
  show "file_content w p = Some bytes"
    if "read_file (native_files (native_adapter i)) p w = (Ok bytes, w')"
    using that by (auto simp: simps dest: native_read_Ok)
  show "file_content w p = None"
    if "read_file (native_files (native_adapter i)) p w = (Err e, w')" "error_kind e = IoNotFound"
      "native_ready i w"
    using that by (auto simp: simps dest: native_read_missing)
  show "native_ready i w' \<and> (\<forall>q. managed (cfg_dir i) q \<longrightarrow> q \<noteq> p \<longrightarrow> file_content w' q = file_content w q)"
    if "atomic_replace (native_files (native_adapter i)) p bytes w = (r, w')" "native_ready i w"
      "managed (cfg_dir i) p"
  proof -
    note m = that(3)
    obtain y where y: "p = cfg_dir i @ [Normal y]" by (rule managedE [OF m])
    show ?thesis
      by (rule replace_frame_native [OF atomic_replace_changes [OF y] _ that(2,3)])
        (use that(1) in \<open>simp add: simps\<close>)
  qed
  show "file_content w' p = Some bytes"
    if "atomic_replace (native_files (native_adapter i)) p bytes w = (Ok u, w')" "managed (cfg_dir i) p"
  proof -
    note m = that(2)
    obtain y where y: "p = cfg_dir i @ [Normal y]" by (rule managedE [OF m])
    show ?thesis
      using io_specD [OF atomic_replace_spec [OF y], of "native_adapter i" bytes w "Ok u" w'] that(1)
      by (simp add: simps file_content_def on_disk_def)
  qed
  show "file_content w' p \<in> {file_content w p, Some bytes}"
    if "atomic_replace (native_files (native_adapter i)) p bytes w = (Err e, w')" "managed (cfg_dir i) p"
  proof -
    note m = that(2)
    obtain y where y: "p = cfg_dir i @ [Normal y]" by (rule managedE [OF m])
    show ?thesis
      using io_specD [OF atomic_replace_spec [OF y], of "native_adapter i" bytes w "Err e" w'] that(1)
      by (auto simp: simps file_content_def on_disk_def)
  qed
  show "native_ready i w' \<and> (\<forall>q. managed (cfg_dir i) q \<longrightarrow> q \<noteq> p \<longrightarrow> file_content w' q = file_content w q)"
    if "create_file_new (native_files (native_adapter i)) p bytes w = (r, w')" "native_ready i w"
      "managed (cfg_dir i) p"
    by (rule replace_frame_native [OF create_changes _ that(2,3)]) (use that(1) in \<open>simp add: simps\<close>)
  show "file_content w p = None \<and> file_content w' p = Some bytes"
    if "create_file_new (native_files (native_adapter i)) p bytes w = (Ok u, w')"
    using that by (auto simp: simps dest: native_create_Ok)
  show "file_content w' p = file_content w p \<and> file_content w p \<noteq> None"
    if "create_file_new (native_files (native_adapter i)) p bytes w = (Err e, w')"
      "error_kind e = IoAlreadyExists" "native_ready i w"
    using that native_create_exists [of "native_adapter i" p bytes w e w'] by (auto simp: simps)
  show "native_ready i w' \<and> (\<forall>q. managed (cfg_dir i) q \<longrightarrow> q \<noteq> p \<longrightarrow> file_content w' q = file_content w q)"
    if "remove_file (native_files (native_adapter i)) p w = (r, w')" "native_ready i w"
      "managed (cfg_dir i) p"
    by (rule replace_frame_native [OF remove_file_changes _ that(2,3)]) (use that(1) in \<open>simp add: simps\<close>)
qed

end
