(* ===== verification/Cs2_Store.thy ===== *)
theory Cs2_Store
  imports Cs2_Backup
begin

text \<open>
  The configuration transaction on a store that works: where \<open>Cs2_Contract\<close> says what holds of a run
  that returns, here every operation of the trait does what it is asked, and the lemmas show that the
  controller then returns, with which result and with which contents: \<open>apply\<close> refines the function
  \<open>applied_config\<close> on the contents of the files, a capture and a restore refine reading and writing back
  the targets.
\<close>

section \<open>What applying a request does to the contents\<close>

type_synonym contents = "path \<Rightarrow> string option"

text \<open>A backup is made once: of a file that is there, where no backup is yet.\<close>

definition keep_backup :: "path \<Rightarrow> string option \<Rightarrow> contents \<Rightarrow> contents" where
  "keep_backup p original C = (if C p = None \<and> original \<noteq> None then C(p := original) else C)"

definition put_asset :: "asset_contents \<Rightarrow> path \<Rightarrow> optional_cfg_asset \<Rightarrow> contents \<Rightarrow> contents" where
  "put_asset A dir a C = C(dir @ [Normal (asset_file_name a)] := Some (A a))"

definition put_autoexec :: "path \<Rightarrow> cs2_config_request \<Rightarrow> contents \<Rightarrow> contents" where
  "put_autoexec dir r C =
     (let before = C (dir @ [Normal AUTOEXEC_FILE]);
          after = ensure_autoexec_line (case before of None \<Rightarrow> [] | Some t \<Rightarrow> t) in
      if bootstrap_autoexec r \<and> before \<noteq> Some after
      then (keep_backup (dir @ [Normal AUTOEXEC_BACKUP_FILE]) before C)
             (dir @ [Normal AUTOEXEC_FILE] := Some after)
      else C)"

definition applied_config :: "asset_contents \<Rightarrow> path \<Rightarrow> cs2_config_request \<Rightarrow> contents \<Rightarrow> contents" where
  "applied_config A dir r C =
     fold (put_asset A dir) (optional_assets r)
       (put_autoexec dir r
         ((keep_backup (dir @ [Normal OPTIMIZATION_BACKUP_FILE]) (C (dir @ [Normal OPTIMIZATION_FILE])) C)
            (dir @ [Normal OPTIMIZATION_FILE] := Some (render_optimization_cfg_at (generated_at r)))))"

text \<open>The one thing \<open>apply\<close> asks of the contents.\<close>

definition autoexec_readable :: "path \<Rightarrow> cs2_config_request \<Rightarrow> contents \<Rightarrow> bool" where
  "autoexec_readable dir r C \<longleftrightarrow>
     (if bootstrap_autoexec r
      then (case C (dir @ [Normal AUTOEXEC_FILE]) of None \<Rightarrow> True | Some t \<Rightarrow> valid_utf8 t)
      else True)"

lemma optional_autoexec_Ok [simp]:
  "optional_autoexec x = Ok y \<longleftrightarrow> y = x \<and> (case x of None \<Rightarrow> True | Some t \<Rightarrow> valid_utf8 t)"
  by (cases x) (auto simp: bytes_as_autoexec_def)

section \<open>What a capture records\<close>

definition snapshot_of :: "hashing \<Rightarrow> contents \<Rightarrow> cs2_config_target \<times> path \<Rightarrow> 'v cs2_config_snapshot" where
  "snapshot_of H C = (\<lambda>(t, p).
     \<lparr>snap_target = t, snap_existed = (C p \<noteq> None), original_bytes = C p,
      original_sha256 = map_option (sha256_hex H) (C p), snap_unknown = fmempty\<rparr>)"

definition size_of :: "contents \<Rightarrow> path \<Rightarrow> nat" where
  "size_of C p = (case C p of None \<Rightarrow> 0 | Some bytes \<Rightarrow> length bytes)"

definition target_path :: "path \<Rightarrow> cs2_config_target \<Rightarrow> path" where
  "target_path dir t = dir @ [Normal (target_file_name t)]"

text \<open>The files to capture are within the limits of a record.\<close>

definition capturable :: "path \<Rightarrow> cs2_config_request \<Rightarrow> contents \<Rightarrow> bool" where
  "capturable dir r C \<longleftrightarrow>
     list_all (\<lambda>t. size_of C (target_path dir t) \<le> CS2_CONFIG_MAX_FILE_BYTES) (for_request r)
     \<and> sum_list (map (\<lambda>t. size_of C (target_path dir t)) (for_request r)) \<le> CS2_CONFIG_MAX_TOTAL_BYTES"

definition captured_entry :: "hashing \<Rightarrow> cs2_install \<Rightarrow> cs2_config_request \<Rightarrow> string \<Rightarrow> contents \<Rightarrow> 'v backup_entry" where
  "captured_entry H i r at C =
     BackupCs2ConfigTransaction \<lparr>cfg_step = CS2_CONFIG_TRANSACTION_STEP, cfg_timestamp = at,
       cfg_install_identity = install_identity H i,
       cfg_targets = map (\<lambda>t. snapshot_of H C (t, target_path (cfg_dir i) t)) (for_request r),
       cfg_unknown = fmempty\<rparr>"

text \<open>Writing captured contents back.\<close>

definition restored_config :: "path \<Rightarrow> cs2_config_request \<Rightarrow> contents \<Rightarrow> contents \<Rightarrow> contents" where
  "restored_config dir r before C =
     (\<lambda>q. if q \<in> target_path dir ` set (for_request r) then before q else C q)"

lemma saturating_add_small: "a + b \<le> CS2_CONFIG_MAX_TOTAL_BYTES \<Longrightarrow> saturating_add a b = a + b"
  by (simp add: saturating_add_def CS2_CONFIG_MAX_TOTAL_BYTES_def)

lemma snapshot_bytes_valid:
  "size_of C p \<le> CS2_CONFIG_MAX_FILE_BYTES \<Longrightarrow> used + size_of C p \<le> CS2_CONFIG_MAX_TOTAL_BYTES \<Longrightarrow>
     validate_snapshot_bytes H (snapshot_of H C (t, p)) used = Ok (used + size_of C p)"
  by (cases "C p") (simp_all add: validate_snapshot_bytes_def snapshot_of_def size_of_def saturating_add_small Let_def)

lemma snapshots_valid:
  assumes "distinct (map fst ts)" and "set (map fst ts) \<subseteq> set expected" and "set (map fst ts) \<inter> set seen = {}"
    and "\<And>t p. (t, p) \<in> set ts \<Longrightarrow> size_of C p \<le> CS2_CONFIG_MAX_FILE_BYTES"
    and "used + sum_list (map (size_of C \<circ> snd) ts) \<le> CS2_CONFIG_MAX_TOTAL_BYTES"
  shows "validate_snapshots_from H expected seen used (map (snapshot_of H C) ts :: 'v cs2_config_snapshot list)
     = Ok (rev (map fst ts) @ seen)"
  using assms
proof (induction ts arbitrary: seen used)
  case (Cons tp ts)
  obtain t p where tp: "tp = (t, p)" by (cases tp)
  have "validate_snapshot_bytes H (snapshot_of H C (t, p) :: 'v cs2_config_snapshot) used
      = Ok (used + size_of C p)"
    using Cons.prems(4) [of t p] Cons.prems(5) tp by (intro snapshot_bytes_valid) simp_all
  moreover have "snap_target (snapshot_of H C (t, p) :: 'v cs2_config_snapshot) = t" by (simp add: snapshot_of_def)
  moreover have "validate_snapshots_from H expected (t # seen) (used + size_of C p)
      (map (snapshot_of H C) ts :: 'v cs2_config_snapshot list) = Ok (rev (map fst ts) @ t # seen)"
    by (rule Cons.IH) (use Cons.prems tp in \<open>auto simp: add.assoc\<close>)
  ultimately show ?case using Cons.prems(2,3) by (simp add: tp)
qed simp

lemma captured_entry_valid:
  assumes "validate_install i = Ok ()" and "distinct (optional_assets r)" and "capturable (cfg_dir i) r C"
  shows "validate_cs2_config_transaction H i r (captured_entry H i r at C) = Ok ()"
proof -
  let ?ts = "map (\<lambda>t. (t, target_path (cfg_dir i) t)) (for_request r)"
  have "validate_snapshots_from H (for_request r) [] 0 (map (snapshot_of H C) ?ts) = Ok (rev (map fst ?ts) @ [])"
    by (rule snapshots_valid)
      (use assms(3) distinct_for_request [OF assms(2)] in \<open>auto simp: capturable_def list_all_iff comp_def\<close>)
  then show ?thesis
    using assms(1)
    by (auto simp: validate_cs2_config_transaction_def validate_transaction_def captured_entry_def
        controller_new_def validate_snapshot_targets_def guard_simps comp_def snapshot_of_def Let_def)
qed

section \<open>A store that works\<close>

locale config_store =
  fixes F :: "'w cs2_config_fs"
    and dir :: path
    and state :: "contents \<Rightarrow> 'w \<Rightarrow> bool"
  assumes directory: "gives (state C) (create_directory F dir) (Ok ()) (state C)"
    and read_some:
      "managed dir p \<Longrightarrow> C p = Some bytes \<Longrightarrow> gives (state C) (read_file F p) (Ok bytes) (state C)"
    and read_none:
      "managed dir p \<Longrightarrow> C p = None \<Longrightarrow>
         \<exists>e. error_kind e = IoNotFound \<and> gives (state C) (read_file F p) (Err e) (state C)"
    and replace:
      "managed dir p \<Longrightarrow> gives (state C) (atomic_replace F p bytes) (Ok ()) (state (C(p := Some bytes)))"
    and create:
      "managed dir p \<Longrightarrow> C p = None \<Longrightarrow>
         gives (state C) (create_file_new F p bytes) (Ok ()) (state (C(p := Some bytes)))"
    and create_exists:
      "managed dir p \<Longrightarrow> C p \<noteq> None \<Longrightarrow>
         \<exists>e. error_kind e = IoAlreadyExists \<and> gives (state C) (create_file_new F p bytes) (Err e) (state C)"
    and remove_some:
      "managed dir p \<Longrightarrow> C p \<noteq> None \<Longrightarrow> gives (state C) (remove_file F p) (Ok ()) (state (C(p := None)))"
    and remove_none:
      "managed dir p \<Longrightarrow> C p = None \<Longrightarrow>
         \<exists>e. error_kind e = IoNotFound \<and> gives (state C) (remove_file F p) (Err e) (state C)"
begin

lemma read_optional_gives: "managed dir p \<Longrightarrow> gives (state C) (read_optional F p) (Ok (C p)) (state C)"
proof (cases "C p")
  case None
  assume m: "managed dir p"
  obtain e where "error_kind e = IoNotFound" "gives (state C) (read_file F p) (Err e) (state C)"
    using read_none [of p C, OF m None] by blast
  then show ?thesis
    unfolding read_optional_def using None by (intro gives_match [of _ _ "Err e"]) (auto intro: gives_ret)
next
  case (Some b)
  assume m: "managed dir p"
  show ?thesis
    unfolding read_optional_def
    by (rule gives_match [OF read_some [of p C b, OF m Some]]) (simp add: Some gives_ret)
qed

lemma write_gives:
  "managed dir p \<Longrightarrow>
     gives (state C) (write_and_verify F p bytes stage rec) (Ok ()) (state (C(p := Some bytes)))"
  unfolding write_and_verify_def
  by (rule gives_bind [OF gives_map_err_Ok [OF replace]], assumption,
      rule gives_bind [OF gives_map_err_Ok [OF read_some [where bytes = bytes]]])
    (simp_all add: gives_ret)

lemma backup_gives:
  assumes "managed dir p"
  shows "\<exists>b. gives (state C) (create_optimization_backup F p x) (Ok b) (state (keep_backup p x C))"
    and "\<exists>b. gives (state C) (create_autoexec_backup F p x True) (Ok b) (state (keep_backup p x C))"
proof -
  consider "x = None" | bytes where "x = Some bytes" "C p = None" | bytes where "x = Some bytes" "C p \<noteq> None"
    by (cases x; cases "C p") auto
  then have "(\<exists>b. gives (state C) (create_optimization_backup F p x) (Ok b) (state (keep_backup p x C)))
    \<and> (\<exists>b. gives (state C) (create_autoexec_backup F p x True) (Ok b) (state (keep_backup p x C)))"
  proof cases
    case 1
    then show ?thesis
      by (auto simp: create_optimization_backup_def create_autoexec_backup_def keep_backup_def intro: gives_ret)
  next
    case (2 bytes)
    note steps = gives_match [OF create [of p C bytes, OF assms 2(2)]]
      gives_match [OF read_some [of p "C(p := Some bytes)" bytes, OF assms]]
    show ?thesis
      unfolding create_optimization_backup_def create_autoexec_backup_def keep_backup_def
      using 2 by (auto intro!: exI steps gives_ret)
  next
    case (3 bytes)
    obtain e where e: "error_kind e = IoAlreadyExists"
        "gives (state C) (create_file_new F p bytes) (Err e) (state C)"
      using create_exists [of p C bytes, OF assms 3(2)] by blast
    show ?thesis
      unfolding create_optimization_backup_def create_autoexec_backup_def keep_backup_def
      using 3 e(1) by (auto intro!: exI gives_match [OF e(2)] gives_ret)
  qed
  then show "\<exists>b. gives (state C) (create_optimization_backup F p x) (Ok b) (state (keep_backup p x C))"
    and "\<exists>b. gives (state C) (create_autoexec_backup F p x True) (Ok b) (state (keep_backup p x C))"
    by simp_all
qed

lemma deployments_give:
  assumes "\<And>d. d \<in> set ds \<Longrightarrow> managed dir (dep_target d)"
  shows "gives (state C) (io_each (write_deployment F rec) ds) (Ok (map dep_target ds))
     (state (fold (\<lambda>d C. C(dep_target d := Some (dep_bytes d))) ds C))"
  using assms
proof (induction ds arbitrary: C)
  case Nil
  then show ?case by (simp add: gives_ret)
next
  case (Cons d ds)
  have one: "gives (state C) (write_deployment F rec d) (Ok (dep_target d))
      (state (C(dep_target d := Some (dep_bytes d))))"
    unfolding write_deployment_def by (rule gives_bind [OF write_gives gives_ret]) (simp add: Cons.prems)
  have rest: "gives (state (C(dep_target d := Some (dep_bytes d)))) (io_each (write_deployment F rec) ds)
      (Ok (map dep_target ds))
      (state (fold (\<lambda>d C. C(dep_target d := Some (dep_bytes d))) ds (C(dep_target d := Some (dep_bytes d)))))"
    by (rule Cons.IH) (simp add: Cons.prems)
  show ?case
    unfolding io_each.simps fold_simps list.map
    by (rule gives_bind [OF one gives_bind [OF rest gives_ret]])
qed

lemma autoexec_gives:
  fixes C r
  defines "before \<equiv> if bootstrap_autoexec r then C (dir @ [Normal AUTOEXEC_FILE]) else None"
  defines "updated \<equiv> autoexec_needs_update r before"
  shows "\<exists>b C'. gives (state C)
      (if bootstrap_autoexec r
       then create_autoexec_backup F (dir @ [Normal AUTOEXEC_BACKUP_FILE]) before updated
       else io_ret AutoBackupNotNeeded) (Ok b) (state C')
    \<and> gives (state C')
      (case (if updated then expected_autoexec r before else None) of
         None \<Rightarrow> io_ret ()
       | Some expected \<Rightarrow> write_and_verify F (dir @ [Normal AUTOEXEC_FILE]) expected stage rec)
      (Ok ()) (state (put_autoexec dir r C))"
proof (cases updated)
  case True
  let ?a = "dir @ [Normal AUTOEXEC_FILE]" and ?b = "dir @ [Normal AUTOEXEC_BACKUP_FILE]"
  have boot: "bootstrap_autoexec r"
    using True by (auto simp: updated_def autoexec_needs_update_def expected_autoexec_def split: if_splits)
  define after where "after = ensure_autoexec_line (case C ?a of None \<Rightarrow> [] | Some t \<Rightarrow> t)"
  have after: "expected_autoexec r before = Some after" "C ?a \<noteq> Some after"
    using True boot by (auto simp: updated_def autoexec_needs_update_def expected_autoexec_def before_def
        after_def split: option.splits)
  have put: "put_autoexec dir r C = (keep_backup ?b (C ?a) C)(?a := Some after)"
    using boot after(2) by (simp add: put_autoexec_def after_def Let_def)
  obtain b where "gives (state C) (create_autoexec_backup F ?b (C ?a) True) (Ok b) (state (keep_backup ?b (C ?a) C))"
    using backup_gives(2) [of ?b C "C ?a"] by auto
  moreover have "gives (state (keep_backup ?b (C ?a) C)) (write_and_verify F ?a after stage rec) (Ok ())
      (state (put_autoexec dir r C))"
    unfolding put by (rule write_gives) simp
  ultimately show ?thesis
    using True boot after(1) by (auto simp: before_def)
next
  case False
  then have "put_autoexec dir r C = C"
    by (auto simp: updated_def before_def put_autoexec_def autoexec_needs_update_def expected_autoexec_def
        Let_def split: if_splits option.splits)
  with False show ?thesis
    by (auto simp: create_autoexec_backup_def intro!: exI [of _ C] exI [of _ AutoBackupNotNeeded] gives_ret)
qed

lemma apply_gives:
  assumes dir: "dir = cfg_dir i" and bound: "validate_install i = Ok ()"
    and readable: "autoexec_readable dir r C"
  shows "\<exists>report. gives (state C) (controller_apply A F i r) (Ok report) (state (applied_config A dir r C))"
proof -
  let ?o = "dir @ [Normal OPTIMIZATION_FILE]" and ?ob = "dir @ [Normal OPTIMIZATION_BACKUP_FILE]"
  let ?a = "dir @ [Normal AUTOEXEC_FILE]" and ?ab = "dir @ [Normal AUTOEXEC_BACKUP_FILE]"
  let ?ps = "\<lparr>cfg_directory = dir, optimization_path = ?o, optimization_backup_path = ?ob,
      autoexec_path = ?a, autoexec_backup_path = ?ab\<rparr>"
  define before where "before = (if bootstrap_autoexec r then C ?a else None)"
  define C1 where "C1 = keep_backup ?ob (C ?o) C"
  define C2 where "C2 = C1(?o := Some (render_optimization_cfg_at (generated_at r)))"
  define ds where "ds = optional_deployments A ?ps r"
  have paths: "controller_paths i = Ok ?ps"
    using bound by (simp add: controller_paths_Ok dir)
  have C2a: "(if bootstrap_autoexec r then C2 ?a else None) = before"
    by (simp add: before_def C2_def C1_def keep_backup_def)
  have s1: "gives (state C) (ensure_cfg_directory F (install_root i) dir) (Ok ()) (state C)"
    unfolding ensure_cfg_directory_def
    by (rule gives_bind [OF gives_map_err_Ok [OF directory]])
      (simp add: dir cfg_dir_def assert_existing_path_safe_def join_names_def gives_def io_check_def)
  have s2: "gives (state C) (read_optional F ?o) (Ok (C ?o)) (state C)" by (rule read_optional_gives) simp
  have s3: "gives (state C) (if bootstrap_autoexec r then read_optional F ?a else io_ret None)
      (Ok before) (state C)"
    using read_optional_gives [of ?a C] by (auto simp: before_def intro: gives_ret)
  have utf8: "optional_autoexec before = Ok before"
    using readable by (auto simp: before_def autoexec_readable_def)
  obtain b where s4: "gives (state C) (create_optimization_backup F ?ob (C ?o)) (Ok b) (state C1)"
    using backup_gives(1) [of ?ob C "C ?o"] by (auto simp: C1_def)
  have s5: "gives (state C1) (write_and_verify F ?o (render_optimization_cfg_at (generated_at r))
      ''optimization.cfg replacement'' (backup_path b)) (Ok ()) (state C2)"
    unfolding C2_def by (rule write_gives) simp
  obtain ab C3 where s6: "gives (state C2)
      (if bootstrap_autoexec r
       then create_autoexec_backup F ?ab before (autoexec_needs_update r before)
       else io_ret AutoBackupNotNeeded) (Ok ab) (state C3)"
    and s7: "gives (state C3)
      (case (if autoexec_needs_update r before then expected_autoexec r before else None) of
         None \<Rightarrow> io_ret ()
       | Some expected \<Rightarrow> write_and_verify F ?a expected ''autoexec.cfg replacement'' (backup_path b))
      (Ok ()) (state (put_autoexec dir r C2))"
    using autoexec_gives [of C2 r "''autoexec.cfg replacement''" "backup_path b"] unfolding C2a by blast
  have "fold (\<lambda>d C. C(dep_target d := Some (dep_bytes d))) ds (put_autoexec dir r C2) = applied_config A dir r C"
    by (simp add: ds_def optional_deployments_def deployments_for_assets_def applied_config_def C2_def C1_def
        fold_map comp_def put_asset_def [abs_def])
  moreover have "gives (state (put_autoexec dir r C2)) (io_each (write_deployment F (backup_path b)) ds)
      (Ok (map dep_target ds)) (state (fold (\<lambda>d C. C(dep_target d := Some (dep_bytes d))) ds
         (put_autoexec dir r C2)))"
    by (rule deployments_give) (auto simp: ds_def optional_deployments_def deployments_for_assets_def)
  ultimately have s8: "gives (state (put_autoexec dir r C2)) (io_each (write_deployment F (backup_path b)) ds)
      (Ok (map dep_target ds)) (state (applied_config A dir r C))"
    by simp
  have checks: "check_generated_targets ?ps r = Ok ()" "check_deployments ?ps ds = Ok ()"
    by (auto simp: check_generated_targets_def check_deployments_def guard_simps ds_def
        optional_deployments_def deployments_for_assets_def)
  show ?thesis
    unfolding controller_apply_def Let_def
    apply (rule exI, rule gives_check_bind [OF paths])
    apply (simp only: cs2_paths.simps ds_def [symmetric])
    apply (rule gives_bind [OF s1], rule gives_check_bind [OF checks(1)], rule gives_check_bind [OF checks(2)])
    apply (rule gives_bind [OF s2], rule gives_bind [OF s3], rule gives_check_bind [OF utf8])
    apply (rule gives_bind [OF s4], rule gives_bind [OF s5], rule gives_bind [OF s6], rule gives_bind [OF s7])
    by (rule gives_bind [OF s8 gives_ret])
qed

lemma apply_rejects:
  assumes dir: "dir = cfg_dir i" and bound: "validate_install i = Ok ()"
    and unreadable: "\<not> autoexec_readable dir r C"
  shows "gives (state C) (controller_apply A F i r) (Err AutoexecNotUtf8) (state C)"
proof -
  let ?a = "dir @ [Normal AUTOEXEC_FILE]"
  obtain t where t: "bootstrap_autoexec r" "C ?a = Some t" "\<not> valid_utf8 t"
    using unreadable by (auto simp: autoexec_readable_def split: if_splits option.splits)
  have s1: "gives (state C) (ensure_cfg_directory F (install_root i) dir) (Ok ()) (state C)"
    unfolding ensure_cfg_directory_def
    by (rule gives_bind [OF gives_map_err_Ok [OF directory]])
      (simp add: dir cfg_dir_def assert_existing_path_safe_def join_names_def gives_def io_check_def)
  have s2: "gives (state C) (read_optional F p) (Ok (C p)) (state C)" if "managed dir p" for p
    by (rule read_optional_gives [OF that])
  have bad: "gives (state C) (io_check (optional_autoexec (C ?a))) (Err AutoexecNotUtf8) (state C)"
    using t gives_check [of "state C" "optional_autoexec (C ?a)"] by (simp add: bytes_as_autoexec_def)
  have paths: "controller_paths i = Ok \<lparr>cfg_directory = dir,
      optimization_path = dir @ [Normal OPTIMIZATION_FILE],
      optimization_backup_path = dir @ [Normal OPTIMIZATION_BACKUP_FILE], autoexec_path = ?a,
      autoexec_backup_path = dir @ [Normal AUTOEXEC_BACKUP_FILE]\<rparr>"
    using bound by (simp add: controller_paths_Ok dir)
  show ?thesis
    unfolding controller_apply_def Let_def
    apply (rule gives_check_bind [OF paths])
    apply (simp only: cs2_paths.simps t(1) if_True)
    apply (rule gives_bind [OF s1])
    apply (rule gives_check_bind, simp add: check_generated_targets_def t(1))
    apply (rule gives_check_bind, simp add: check_deployments_def guard_simps optional_deployments_def
        deployments_for_assets_def)
    by (rule gives_bind [OF s2], simp, rule gives_bind [OF s2], simp, rule gives_bind_Err [OF bad])
qed

lemma capture_from_gives:
  assumes "\<And>t p. (t, p) \<in> set ts \<Longrightarrow> managed dir p \<and> size_of C p \<le> CS2_CONFIG_MAX_FILE_BYTES"
    and "used + sum_list (map (size_of C \<circ> snd) ts) \<le> CS2_CONFIG_MAX_TOTAL_BYTES"
  shows "gives (state C) (capture_from F H used ts) (Ok (map (snapshot_of H C) ts :: 'v cs2_config_snapshot list)) (state C)"
  using assms
proof (induction ts arbitrary: used)
  case Nil
  then show ?case by (simp add: gives_ret)
next
  case (Cons tp ts)
  obtain t p where tp: "tp = (t, p)" by (cases tp)
  have p: "managed dir p" "size_of C p \<le> CS2_CONFIG_MAX_FILE_BYTES" using Cons.prems(1) [of t p] tp by simp_all
  have rest: "gives (state C) (capture_from F H (used + size_of C p) ts)
      (Ok (map (snapshot_of H C) ts :: 'v cs2_config_snapshot list)) (state C)"
    by (rule Cons.IH) (use Cons.prems tp in \<open>auto simp: add.assoc\<close>)
  show ?case
  proof (cases "C p")
    case None
    obtain e where e: "error_kind e = IoNotFound" "gives (state C) (read_file F p) (Err e) (state C)"
      using read_none [of p C, OF p(1) None] by blast
    show ?thesis
      unfolding tp capture_from.simps list.map
      by (rule gives_match [OF e(2)])
        (use gives_bind [OF rest gives_ret] e(1) None in \<open>simp add: size_of_def snapshot_of_def\<close>)
  next
    case (Some bytes)
    have small: "saturating_add used (length bytes) = used + length bytes"
      "used + length bytes \<le> CS2_CONFIG_MAX_TOTAL_BYTES"
      using Cons.prems(2) Some tp by (auto intro!: saturating_add_small simp: size_of_def)
    show ?thesis
      unfolding tp capture_from.simps list.map
      by (rule gives_match [OF read_some [of p C bytes, OF p(1) Some]])
        (use gives_bind [OF rest gives_ret] p(2) small Some in \<open>simp add: size_of_def snapshot_of_def Let_def\<close>)
  qed
qed

lemma capture_gives:
  assumes dir: "dir = cfg_dir i" and bound: "validate_install i = Ok ()" and "distinct (optional_assets r)"
    and small: "capturable dir r C"
  shows "gives (state C) (capture_cs2_config_transaction F H i r at) (Ok (captured_entry H i r at C)) (state C)"
proof -
  let ?ts = "map (\<lambda>t. (t, target_path dir t)) (for_request r)"
  have targets: "backup_targets i r = Ok ?ts"
    using bound by (simp add: backup_targets_Ok dir target_path_def)
  have "gives (state C) (capture_from F H 0 ?ts) (Ok (map (snapshot_of H C) ?ts)) (state C)"
    by (rule capture_from_gives) (use small in \<open>auto simp: capturable_def list_all_iff comp_def target_path_def\<close>)
  then have s1: "gives (state C) (capture_targets F H i CS2_CONFIG_TRANSACTION_STEP at ?ts)
      (Ok (captured_entry H i r at C)) (state C)"
    unfolding capture_targets_def captured_entry_def
    by (rule gives_bind) (simp add: gives_ret dir [symmetric] comp_def)
  show ?thesis
    unfolding capture_cs2_config_transaction_def
    by (rule gives_check_bind [of _ i], simp add: controller_new_def bound,
        rule gives_check_bind [of _ ?ts], simp add: targets, rule gives_bind [OF s1],
        rule gives_check_bind [OF captured_entry_valid gives_ret])
      (use assms in auto)
qed

lemma restore_one_gives:
  assumes "managed dir p"
  shows "gives (state C) (restore_one F ((t, p), (t', x))) (Ok ()) (state (C(p := x)))"
proof -
  obtain n where n: "p = dir @ [Normal n]" using assms by (auto simp: managed_def)
  have "gives (state C) (remove_target F p) (Ok ()) (state (C(p := None)))"
  proof (cases "C p")
    case None
    obtain e where e: "error_kind e = IoNotFound" "gives (state C) (remove_file F p) (Err e) (state C)"
      using remove_none [of p C, OF assms None] by blast
    have "C(p := None) = C" using None by auto
    then show ?thesis
      unfolding remove_target_def by (intro gives_match [OF e(2)]) (simp add: e(1) gives_ret)
  next
    case (Some b)
    then show ?thesis
      unfolding remove_target_def by (intro gives_match [OF remove_some [of p C, OF assms]]) (simp_all add: gives_ret)
  qed
  then have "gives (state C) (io_bind (remove_target F p) (\<lambda>_. io_bind (read_optional F p) (\<lambda>current.
      if current \<noteq> None then io_fail (ReadbackMismatch p None) else io_ret ()))) (Ok ()) (state (C(p := None)))"
    by (rule gives_bind) (rule gives_bind [OF read_optional_gives [OF assms]], simp add: gives_ret)
  then have "gives (state C) (case x of
       Some bytes \<Rightarrow> write_and_verify F p bytes ''CS2 CFG restore replacement'' None
     | None \<Rightarrow> io_bind (remove_target F p) (\<lambda>_. io_bind (read_optional F p) (\<lambda>current.
         if current \<noteq> None then io_fail (ReadbackMismatch p None) else io_ret ()))) (Ok ()) (state (C(p := x)))"
    using write_gives [OF assms] by (cases x) simp_all
  then show ?thesis
    unfolding restore_one_def prod.case
    by (intro gives_check_bind [of _ dir] gives_check_bind [of _ "()"]) (simp_all add: n ok_or_def)
qed

lemma restore_each_gives:
  assumes "\<And>t. t \<in> set ts \<Longrightarrow> managed dir (f t)"
  shows "gives (state C) (io_each (restore_one F) (zip (map (\<lambda>t. (t, f t)) ts) (map (\<lambda>t. (t, g (f t))) ts)))
     (Ok (map (\<lambda>_. ()) ts)) (state (\<lambda>q. if q \<in> f ` set ts then g q else C q))"
  using assms
proof (induction ts arbitrary: C)
  case Nil
  then show ?case by (simp add: gives_ret)
next
  case (Cons t ts)
  have rest: "gives (state (C(f t := g (f t))))
      (io_each (restore_one F) (zip (map (\<lambda>t. (t, f t)) ts) (map (\<lambda>t. (t, g (f t))) ts)))
      (Ok (map (\<lambda>_. ()) ts)) (state (\<lambda>q. if q \<in> f ` set ts then g q else (C(f t := g (f t))) q))"
    by (rule Cons.IH) (simp add: Cons.prems)
  have "(\<lambda>q. if q \<in> f ` set ts then g q else (C(f t := g (f t))) q) = (\<lambda>q. if q \<in> f ` set (t # ts) then g q else C q)"
    by auto
  with rest show ?case
    unfolding list.map zip_Cons_Cons io_each.simps
    by (intro gives_bind [OF restore_one_gives gives_bind [OF _ gives_ret]]) (simp_all add: Cons.prems)
qed

lemma restore_gives:
  assumes dir: "dir = cfg_dir i" and bound: "validate_install i = Ok ()" and "distinct (optional_assets r)"
    and "capturable dir r C"
  shows "gives (state C')
     (restore_cs2_config_transaction F H i r (captured_entry H i r at C :: 'v backup_entry)) (Ok ())
     (state (restored_config dir r C C'))"
proof -
  let ?ts = "map (\<lambda>t. (t, target_path dir t)) (for_request r)"
  let ?xs = "map (\<lambda>t. (t, C (target_path dir t))) (for_request r)"
  have "gives (state C') (io_each (restore_one F) (zip ?ts ?xs)) (Ok (map (\<lambda>_. ()) (for_request r)))
      (state (restored_config dir r C C'))"
    unfolding restored_config_def by (rule restore_each_gives) (simp add: target_path_def)
  then have "gives (state C') (restore_targets F ?ts ?xs) (Ok ()) (state (restored_config dir r C C'))"
    unfolding restore_targets_def by (simp add: comp_def) (rule gives_bind [OF _ gives_ret])
  then have s1: "gives (state C') (controller_restore F i r ?xs) (Ok ()) (state (restored_config dir r C C'))"
    unfolding controller_restore_def
    using bound by (intro gives_check_bind [of _ ?ts]) (simp_all add: backup_targets_Ok dir target_path_def)
  have valid: "validate_cs2_config_transaction H i r (captured_entry H i r at C :: 'v backup_entry) = Ok ()"
    using captured_entry_valid [OF bound assms(3)] assms(4) dir by simp
  obtain b :: "'v cs2_config_backup" where b: "captured_entry H i r at C = BackupCs2ConfigTransaction b"
      and xs: "snapshot_values b = ?xs" and known: "\<not> has_unknown_fields b"
    by (auto simp: captured_entry_def snapshot_values_def snapshot_of_def has_unknown_fields_def
        install_identity_def is_empty_map_def list_ex_iff dir comp_def)
  show ?thesis
    unfolding restore_cs2_config_transaction_def
    by (rule gives_check_bind [OF valid], rule gives_check_bind [of _ b], simp add: b,
        unfold if_not_P [OF known] xs, rule gives_check_bind [of _ i], simp add: controller_new_def bound,
        rule gives_map_err_Ok [OF s1])
qed

end

end
