(* ===== verification/Native_Store.thy ===== *)
theory Native_Store
  imports Native_Contract Cs2_Store
begin

text \<open>
  The native adapter on a sound install and a medium without faults: every check passes and every call
  does what it is asked, so the adapter is a store in the sense of \<open>Cs2_Store\<close>.
\<close>

section \<open>A sound install\<close>

definition install_directories :: "cs2_install \<Rightarrow> path list" where
  "install_directories i =
     [steam_root i, library_root i,
      join_names (library_root i) [''steamapps''], join_names (library_root i) [''steamapps'', ''common''],
      install_root i, join_names (install_root i) [''game''],
      join_names (install_root i) [''game'', ''csgo''], cfg_dir i,
      join_names (install_root i) [''game'', ''bin''], join_names (install_root i) [''game'', ''bin'', ''win64'']]"

definition sound_tree :: "cs2_install \<Rightarrow> (path, node) fmap \<Rightarrow> bool" where
  "sound_tree i d \<longleftrightarrow>
     validate_install i = Ok ()
     \<and> is_absolute (steam_root i) \<and> \<not> has_unsafe_components (steam_root i)
     \<and> is_absolute (library_root i) \<and> \<not> has_unsafe_components (library_root i)
     \<and> list_all (\<lambda>p. fmlookup d p = Some Directory) (install_directories i)
     \<and> is_regular (fmlookup d (cs2_executable (native_adapter i)))"

definition no_temporaries :: "cs2_install \<Rightarrow> (path, node) fmap \<Rightarrow> bool" where
  "no_temporaries i d \<longleftrightarrow>
     (\<forall>n. find_str ''.tmp.'' n \<noteq> None \<longrightarrow> fmlookup d (cfg_dir i @ [Normal n]) = None)"

definition no_leftovers :: "cs2_install \<Rightarrow> (path, node) fmap \<Rightarrow> bool" where
  "no_leftovers i d \<longleftrightarrow>
     (\<forall>q. managed (cfg_dir i) q \<longrightarrow> plain_or_absent d q)
     \<and> no_temporaries i d"

text \<open>The medium has no faults, and the executable stays below its library when links are resolved.\<close>

definition calm :: "cs2_install \<Rightarrow> (path, node) fmap \<Rightarrow> os \<Rightarrow> bool" where
  "calm i d w \<longleftrightarrow>
     os_disk w = d \<and> os_fault w = (\<lambda>_. None)
     \<and> strip_prefix_path (os_canonical w (library_root i))
         (os_canonical w (cs2_executable (native_adapter i))) \<noteq> None"

definition healthy :: "cs2_install \<Rightarrow> os \<Rightarrow> bool" where
  "healthy i w \<longleftrightarrow> sound_tree i (os_disk w) \<and> no_leftovers i (os_disk w) \<and> calm i (os_disk w) w"

definition native_state :: "cs2_install \<Rightarrow> contents \<Rightarrow> os \<Rightarrow> bool" where
  "native_state i C w \<longleftrightarrow> healthy i w \<and> (\<forall>q. managed (cfg_dir i) q \<longrightarrow> file_content w q = C q)"

section \<open>Calls on a calm medium\<close>

lemma calm_tick [simp]: "calm i d (w\<lparr>os_calls := n\<rparr>) = calm i d w"
  by (simp add: calm_def)

lemma step_gives:
  assumes "\<And>w. calm i d w \<Longrightarrow> \<exists>w'. act w = (r, w') \<and> calm i d' w'"
  shows "gives (calm i d) (os_step act damage) r (calm i d')"
proof (rule givesI)
  fix w assume w: "calm i d w"
  then have "calm i d (w\<lparr>os_calls := Suc (os_calls w)\<rparr>)" by simp
  from assms [OF this] w show "\<exists>w'. os_step act damage w = (r, w') \<and> calm i d' w'"
    by (auto simp: os_step_def Let_def calm_def)
qed

lemma metadata_gives: "gives (calm i d) (symlink_metadata p) (ok_or not_found (fmlookup d p)) (calm i d)"
  unfolding symlink_metadata_def by (rule step_gives) (auto simp: on_disk_def calm_def)

lemma metadata_there: "fmlookup d p = Some m \<Longrightarrow> gives (calm i d) (symlink_metadata p) (Ok m) (calm i d)"
  using metadata_gives [of i d p] by (simp add: ok_or_def)

lemma read_there: "fmlookup d p = Some (Regular bytes) \<Longrightarrow> gives (calm i d) (fs_read p) (Ok bytes) (calm i d)"
  unfolding fs_read_def by (rule step_gives) (auto simp: on_disk_def calm_def)

lemma read_absent: "fmlookup d p = None \<Longrightarrow> gives (calm i d) (fs_read p) (Err not_found) (calm i d)"
  unfolding fs_read_def by (rule step_gives) (auto simp: on_disk_def calm_def)

lemma sync_gives: "gives (calm i d) sync_all (Ok ()) (calm i d)"
  unfolding sync_all_def by (rule step_gives) simp

lemma open_new_gives:
  "fmlookup d (p @ [Normal n]) = None \<Longrightarrow> fmlookup d p = Some Directory \<Longrightarrow>
     gives (calm i d) (open_new (p @ [Normal n])) (Ok ()) (calm i (fmupd (p @ [Normal n]) (Regular []) d))"
  unfolding open_new_def
  by (rule step_gives) (auto simp: on_disk_def calm_def has_directory_def set_node_def)

lemma open_new_exists:
  "fmlookup d p \<noteq> None \<Longrightarrow>
     gives (calm i d) (open_new p) (Err (IoError IoAlreadyExists ''file exists'')) (calm i d)"
  unfolding open_new_def by (rule step_gives) (auto simp: on_disk_def calm_def)

lemma write_all_gives:
  "is_regular (fmlookup d p) \<Longrightarrow>
     gives (calm i d) (write_all p bytes) (Ok ()) (calm i (fmupd p (Regular bytes) d))"
  unfolding write_all_def by (rule step_gives) (auto simp: on_disk_def calm_def set_node_def)

lemma remove_gives:
  "is_regular (fmlookup d p) \<Longrightarrow> gives (calm i d) (fs_remove_file p) (Ok ()) (calm i (fmdrop p d))"
  unfolding fs_remove_file_def
  by (rule step_gives) (auto simp: on_disk_def calm_def drop_node_def elim!: is_regular.elims)

lemma remove_absent:
  "fmlookup d p = None \<Longrightarrow> gives (calm i d) (fs_remove_file p) (Err not_found) (calm i d)"
  unfolding fs_remove_file_def by (rule step_gives) (auto simp: on_disk_def calm_def)

lemma rename_gives:
  "fmlookup d t = Some (Regular x) \<Longrightarrow> fmlookup d p \<noteq> Some Directory \<Longrightarrow>
     gives (calm i d) (replace_file t p) (Ok ()) (calm i (fmupd p (Regular x) (fmdrop t d)))"
  unfolding replace_file_def fs_rename_def
  by (rule gives_map_err_Ok, rule step_gives) (auto simp: on_disk_def calm_def drop_node_def set_node_def)

lemma create_dir_all_gives:
  "fmlookup d p = Some Directory \<Longrightarrow> gives (calm i d) (create_dir_all p) (Ok ()) (calm i d)"
  unfolding create_dir_all_def
  by (rule step_gives) (auto simp: on_disk_def calm_def missing_directories.simps)

section \<open>The checks pass\<close>

lemma trusted_directory_gives:
  "is_absolute p \<Longrightarrow> \<not> has_unsafe_components p \<Longrightarrow> fmlookup d p = Some Directory \<Longrightarrow>
     gives (calm i d) (trusted_directory p) (Ok ()) (calm i d)"
  unfolding trusted_directory_def
  by (auto simp: metadata_is_dir_def intro!: gives_bind [OF metadata_there] gives_ret)

lemma reject_from_gives:
  "(\<And>k. 0 < k \<Longrightarrow> k \<le> length cs \<Longrightarrow>
      \<exists>m. fmlookup d (p @ take k cs) = Some m \<and> \<not> metadata_is_reparse m) \<Longrightarrow>
     gives (calm i d) (reject_reparse_from p cs) (Ok ()) (calm i d)"
proof (induction cs arbitrary: p)
  case Nil
  then show ?case by (simp add: gives_ret)
next
  case (Cons c cs)
  obtain m where m: "fmlookup d (p @ [c]) = Some m" "\<not> metadata_is_reparse m"
    using Cons.prems [of 1] by auto
  have "gives (calm i d) (reject_reparse_from (p @ [c]) cs) (Ok ()) (calm i d)"
  proof (rule Cons.IH)
    show "\<exists>m. fmlookup d ((p @ [c]) @ take k cs) = Some m \<and> \<not> metadata_is_reparse m"
      if "0 < k" "k \<le> length cs" for k
      using Cons.prems [of "Suc k"] that by simp
  qed
  then show ?case
    by (simp add: Let_def) (rule gives_match [OF metadata_there [OF m(1)]], simp add: m(2))
qed

lemma reject_gives:
  assumes "\<not> has_unsafe_components (root @ cs)" and "cs \<noteq> []" and "list_all is_normal cs"
    and "\<And>k. 0 < k \<Longrightarrow> k \<le> length cs \<Longrightarrow>
      \<exists>m. fmlookup d (root @ take k cs) = Some m \<and> \<not> metadata_is_reparse m"
  shows "gives (calm i d) (reject_reparse_ancestors (root @ cs) root) (Ok ()) (calm i d)"
proof -
  have "\<not> list_ex (\<lambda>c. \<not> is_normal c) cs" using assms(3) by (simp add: list_ex_iff list_all_iff)
  then show ?thesis
    unfolding reject_reparse_ancestors_def
    by (intro gives_check_bind [of _ cs]) (simp_all add: ok_or_def assms(1,2) reject_from_gives assms(4))
qed

lemma unsafe_append [simp]:
  "has_unsafe_components (p @ q) \<longleftrightarrow> has_unsafe_components p \<or> has_unsafe_components q"
  by (simp add: has_unsafe_components_def)

lemma unsafe_simps [simp]:
  "\<not> has_unsafe_components []" "has_unsafe_components (c # q) \<longleftrightarrow> is_unsafe_component c \<or> has_unsafe_components q"
  by (simp_all add: has_unsafe_components_def)

lemma is_absolute_append: "is_absolute p \<Longrightarrow> is_absolute (p @ q)"
  by (cases p rule: is_absolute.cases) simp_all

lemma sound_tree_directory:
  "sound_tree i d \<Longrightarrow> p \<in> set (install_directories i) \<Longrightarrow> fmlookup d p = Some Directory"
  by (simp add: sound_tree_def list_all_iff)

lemma install_root_eq:
  "sound_tree i d \<Longrightarrow> install_root i = join_names (library_root i) [''steamapps'', ''common'', CS2_DIRECTORY]"
  by (auto simp: sound_tree_def validate_install_def Let_def split: if_splits)

lemma binding_gives:
  assumes tree: "sound_tree i d"
  shows "gives (calm i d) (validate_binding (native_adapter i)) (Ok ()) (calm i d)"
proof -
  let ?L = "library_root i" and ?I = "install_root i"
  let ?cs = "map Normal [''steamapps'', ''common'', CS2_DIRECTORY, ''game'', ''bin'', ''win64'', ''cs2.exe'']"
  note dirs = sound_tree_directory [OF tree] and I = install_root_eq [OF tree]
  have roots: "is_absolute (steam_root i)" "\<not> has_unsafe_components (steam_root i)"
      "is_absolute ?L" "\<not> has_unsafe_components ?L" "is_absolute ?I" "\<not> has_unsafe_components ?I"
    using tree by (auto simp: I sound_tree_def is_absolute_append join_names_def)
  have exe: "cs2_executable (native_adapter i) = ?L @ ?cs"
    by (simp add: cs2_executable_def I join_names_def)
  obtain x where x: "fmlookup d (?L @ ?cs) = Some (Regular x)"
    using tree by (auto simp: sound_tree_def exe elim!: is_regular.elims)
  have reject: "gives (calm i d) (reject_reparse_ancestors (?L @ ?cs) ?L) (Ok ()) (calm i d)"
  proof (rule reject_gives)
    show "\<exists>m. fmlookup d (?L @ take k ?cs) = Some m \<and> \<not> metadata_is_reparse m"
      if "0 < k" "k \<le> length ?cs" for k
    proof -
      have "k = 7 \<or> k \<in> {1,2,3,4,5,6}" using that by (auto simp: le_Suc_eq)
      then consider "k = 7" | "k \<in> {1,2,3,4,5,6}" by blast
      then show ?thesis
      proof cases
        case 1
        then show ?thesis using x by simp
      next
        case 2
        then have "?L @ take k ?cs \<in> set (install_directories i)"
          by (auto simp: install_directories_def I join_names_def)
        then show ?thesis using dirs by simp
      qed
    qed
  qed (use roots in simp_all)
  have canonical: "gives (calm i d) (io_bind (canonicalize ?L) (\<lambda>r. io_bind (canonicalize (?L @ ?cs)) (\<lambda>c.
      if strip_prefix_path r c = None then io_fail e else m))) v Q" if "gives (calm i d) m v Q" for m v Q e
  proof (rule givesI)
    fix w assume w: "calm i d w"
    then show "\<exists>w'. io_bind (canonicalize ?L) (\<lambda>r. io_bind (canonicalize (?L @ ?cs)) (\<lambda>c.
        if strip_prefix_path r c = None then io_fail e else m)) w = (v, w') \<and> Q w'"
      using givesD [OF that, of "w\<lparr>os_calls := Suc (Suc (os_calls w))\<rparr>"] x dirs [of ?L]
      by (auto simp: canonicalize_def os_step_def io_bind_def calm_def on_disk_def install_directories_def
          exe Let_def)
  qed
  have exe_file: "gives (calm i d) (trusted_file_under ?L (?L @ ?cs)) (Ok ()) (calm i d)"
    unfolding trusted_file_under_def
    by (rule gives_bind [OF trusted_directory_gives], simp_all only: roots not_False_eq_True,
        rule dirs, simp add: install_directories_def,
        rule gives_bind [OF reject], rule canonical, rule gives_bind [OF metadata_there [OF x]])
      (simp add: gives_ret)
  have csgo: "gives (calm i d) (trusted_directory_under ?I (join_names ?I [''game'', ''csgo''])) (Ok ()) (calm i d)"
  proof -
    have "gives (calm i d) (reject_reparse_ancestors (?I @ map Normal [''game'', ''csgo'']) ?I) (Ok ()) (calm i d)"
    proof (rule reject_gives)
      show "\<exists>m. fmlookup d (?I @ take k (map Normal [''game'', ''csgo''])) = Some m \<and> \<not> metadata_is_reparse m"
        if "0 < k" "k \<le> length (map Normal [''game'', ''csgo''])" for k
      proof -
        have "k \<in> {1,2}" using that by fastforce
        then have "?I @ take k (map Normal [''game'', ''csgo'']) \<in> set (install_directories i)"
          by (auto simp: install_directories_def join_names_def)
        then show ?thesis using dirs by simp
      qed
    qed (use roots in simp_all)
    then have s1: "gives (calm i d) (reject_reparse_ancestors (join_names ?I [''game'', ''csgo'']) ?I)
        (Ok ()) (calm i d)"
      by (simp add: join_names_def)
    have s2: "gives (calm i d) (trusted_directory ?I) (Ok ()) (calm i d)"
      by (rule trusted_directory_gives [OF roots(5,6) dirs]) (simp add: install_directories_def)
    have "fmlookup d (join_names ?I [''game'', ''csgo'']) = Some Directory"
      by (rule dirs) (simp add: install_directories_def)
    note s3 = metadata_there [OF this, of i]
    show ?thesis
      unfolding trusted_directory_under_def
      by (rule gives_bind [OF s2], rule gives_bind [OF s1], rule gives_bind [OF s3])
        (simp add: metadata_is_dir_def gives_ret)
  qed
  have steam: "gives (calm i d) (trusted_directory (steam_root i)) (Ok ()) (calm i d)"
    by (rule trusted_directory_gives [OF roots(1,2) dirs]) (simp add: install_directories_def)
  have lib: "gives (calm i d) (trusted_directory ?L) (Ok ()) (calm i d)"
    by (rule trusted_directory_gives [OF roots(3,4) dirs]) (simp add: install_directories_def)
  have root: "gives (calm i d) (trusted_directory ?I) (Ok ()) (calm i d)"
    by (rule trusted_directory_gives [OF roots(5,6) dirs]) (simp add: install_directories_def)
  have fields: "nf_steam_root (native_adapter i) = steam_root i" "nf_library_root (native_adapter i) = ?L"
    by (simp_all add: native_adapter_def)
  show ?thesis
    unfolding validate_binding_def fields native_adapter_simps exe
    by (rule gives_bind [OF steam], rule gives_bind [OF lib], rule gives_bind [OF root],
        rule gives_bind [OF exe_file], rule csgo)
qed

lemma cfg_is_directory: "sound_tree i d \<Longrightarrow> fmlookup d (cfg_dir i) = Some Directory"
  by (erule sound_tree_directory) (simp only: install_directories_def list.set insert_iff simp_thms)

lemma cfg_directory_gives:
  assumes "sound_tree i d"
  shows "gives (calm i d) (validate_cfg_directory (native_adapter i) b) (Ok ()) (calm i d)"
  unfolding validate_cfg_directory_def native_adapter_simps
  by (rule gives_bind [OF binding_gives [OF assms]],
      rule gives_match [OF metadata_there [OF cfg_is_directory [OF assms]]])
    (simp add: metadata_is_dir_def gives_ret)

lemma existing_gives:
  assumes "plain_or_absent d p"
  shows "gives (calm i d) (validate_existing_file_or_absent p) (Ok ()) (calm i d)"
  unfolding validate_existing_file_or_absent_def
proof (rule gives_match [OF metadata_gives])
  show "gives (calm i d) (case ok_or not_found (fmlookup d p) of
      Ok metadata \<Rightarrow> if metadata_is_reparse metadata \<or> \<not> metadata_is_file metadata then io_fail (untrusted_path p)
        else io_ret ()
    | Err e \<Rightarrow> if error_kind e = IoNotFound then io_ret () else io_fail e) (Ok ()) (calm i d)"
    using assms by (auto simp: plain_or_absent_def ok_or_def not_found_def gives_ret elim!: is_regular.elims)
qed

lemma target_gives:
  assumes "sound_tree i d" and "managed (cfg_dir i) p" and "plain_or_absent d p"
  shows "gives (calm i d) (validate_target (native_adapter i) p) (Ok ()) (calm i d)"
proof -
  have "validate_direct_child (cfg_dir i) p is_known_target_name = Ok ()"
    using assms(2) by (auto simp: direct_child_Ok managed_def known_name_iff)
  then show ?thesis
    unfolding validate_target_def
    by (intro gives_bind [OF cfg_directory_gives [OF assms(1)]] gives_check_bind [of _ "()"]
        existing_gives [OF assms(3)]) simp
qed

lemma temporary_gives:
  assumes "sound_tree i d" and "plain_or_absent d (cfg_dir i @ [Normal n])" and "find_str ''.tmp.'' n \<noteq> None"
  shows "gives (calm i d) (validate_temporary (native_adapter i) (cfg_dir i @ [Normal n])) (Ok ()) (calm i d)"
proof -
  have "validate_direct_child (cfg_dir i) (cfg_dir i @ [Normal n]) (\<lambda>n. find_str ''.tmp.'' n \<noteq> None) = Ok ()"
    using assms(3) by (simp add: direct_child_Ok)
  then show ?thesis
    unfolding validate_temporary_def
    by (intro gives_bind [OF cfg_directory_gives [OF assms(1)]] gives_check_bind [of _ "()"]
        existing_gives [OF assms(2)]) simp
qed

section \<open>The calls of the adapter\<close>

lemma sound_tree_kept:
  assumes "sound_tree i d" and "\<And>q. fmlookup d q = Some Directory \<Longrightarrow> fmlookup d' q = Some Directory"
    and "is_regular (fmlookup d' (cs2_executable (native_adapter i)))"
  shows "sound_tree i d'"
  using assms by (auto simp: sound_tree_def list_all_iff)

lemma executable_not_in_cfg: "cs2_executable (native_adapter i) \<noteq> cfg_dir i @ [Normal n]"
  by (simp add: cs2_executable_def cfg_dir_eq join_names_def)

lemma sound_tree_update:
  "sound_tree i d \<Longrightarrow> fmlookup d (cfg_dir i @ [Normal n]) \<noteq> Some Directory \<Longrightarrow>
     sound_tree i (fmupd (cfg_dir i @ [Normal n]) (Regular x) d)"
  by (rule sound_tree_kept) (auto simp: sound_tree_def executable_not_in_cfg)

lemma sound_tree_drop:
  "sound_tree i d \<Longrightarrow> fmlookup d (cfg_dir i @ [Normal n]) \<noteq> Some Directory \<Longrightarrow>
     sound_tree i (fmdrop (cfg_dir i @ [Normal n]) d)"
  by (rule sound_tree_kept) (auto simp: sound_tree_def executable_not_in_cfg)

lemma replace_through_gives:
  assumes tree: "sound_tree i d" and p: "managed (cfg_dir i) p" and plain: "plain_or_absent d p"
    and t: "find_str ''.tmp.'' n \<noteq> None" "fmlookup d (cfg_dir i @ [Normal n]) = None"
  shows "gives (calm i d) (replace_through (native_adapter i) p (cfg_dir i @ [Normal n]) bytes) (Ok ())
    (calm i (fmupd p (Regular bytes) (fmdrop (cfg_dir i @ [Normal n]) d)))"
proof -
  let ?t = "cfg_dir i @ [Normal n]"
  obtain x where x: "p = cfg_dir i @ [Normal x]" "x \<in> managed_names" by (rule managedE [OF p])
  have differ: "p \<noteq> ?t" using managed_not_temporary [OF x(2)] t(1) x(1) by auto
  let ?d1 = "fmupd ?t (Regular []) d" and ?d2 = "fmupd ?t (Regular bytes) (fmupd ?t (Regular []) d)"
  let ?d3 = "fmupd p (Regular bytes) (fmdrop ?t ?d2)"
  have same: "?d3 = fmupd p (Regular bytes) (fmdrop ?t d)"
    by (rule fmap_ext) (simp add: fmlookup_drop)
  have tree1: "sound_tree i ?d1" by (rule sound_tree_update [OF tree]) (simp add: t)
  have tree2: "sound_tree i ?d2" by (rule sound_tree_update [OF tree1]) simp
  have "sound_tree i (fmdrop ?t ?d2)" by (rule sound_tree_drop [OF tree2]) simp
  then have tree3: "sound_tree i ?d3"
    unfolding x(1)
    by (rule sound_tree_update) (use plain plain_or_absent_not_directory differ x(1) in \<open>auto simp: fmlookup_drop\<close>)
  have plain2: "plain_or_absent ?d2 p" using plain differ by (auto simp: plain_or_absent_def)
  have s1: "gives (calm i d) (validate_temporary (native_adapter i) ?t) (Ok ()) (calm i d)"
    by (rule temporary_gives [OF tree _ t(1)]) (simp add: plain_or_absent_def t)
  have s2: "gives (calm i d) (open_new ?t) (Ok ()) (calm i ?d1)"
    by (rule open_new_gives [OF t(2) cfg_is_directory [OF tree]])
  have s3: "gives (calm i ?d1) (write_all ?t bytes) (Ok ()) (calm i ?d2)"
    by (rule write_all_gives) simp
  have s4: "gives (calm i ?d2) (validate_target (native_adapter i) p) (Ok ()) (calm i ?d2)"
    by (rule target_gives [OF tree2 p plain2])
  have s5: "gives (calm i ?d2) (validate_temporary (native_adapter i) ?t) (Ok ()) (calm i ?d2)"
    by (rule temporary_gives [OF tree2 _ t(1)]) (simp add: plain_or_absent_def)
  have s6: "gives (calm i ?d2) (replace_file ?t p) (Ok ()) (calm i ?d3)"
    by (rule rename_gives) (use plain_or_absent_not_directory [OF plain2] in simp_all)
  have s7: "gives (calm i ?d3) (validate_cfg_directory (native_adapter i) True) (Ok ()) (calm i ?d3)"
    by (rule cfg_directory_gives [OF tree3])
  show ?thesis
    unfolding replace_through_def sync_parent_def same [symmetric]
    by (rule gives_bind [OF s1], rule gives_bind [OF s2], rule gives_bind [OF s3], rule gives_bind [OF sync_gives],
        rule gives_bind [OF s4], rule gives_bind [OF s5], rule gives_bind [OF s6], rule gives_bind [OF s7 gives_ret])
qed

text \<open>From a disk to the contents of the managed files.\<close>

lemma plain_content:
  "plain_or_absent (os_disk w) q \<Longrightarrow> fmlookup (os_disk w) q = map_option Regular (file_content w q)"
  by (auto simp: plain_or_absent_def file_content_def on_disk_def elim!: is_regular.elims)

lemma state_lookup:
  "native_state i C w \<Longrightarrow> managed (cfg_dir i) q \<Longrightarrow> fmlookup (os_disk w) q = map_option Regular (C q)"
  using plain_content [of w q] by (auto simp: native_state_def healthy_def no_leftovers_def)

lemma state_of_disk:
  assumes "sound_tree i d" and "calm i d w"
    and "\<And>q. managed (cfg_dir i) q \<Longrightarrow> fmlookup d q = map_option Regular (C q)"
    and "no_temporaries i d"
  shows "native_state i C w"
proof -
  have d: "os_disk w = d" using assms(2) by (simp add: calm_def)
  have plain: "plain_or_absent d q" "file_content w q = C q" if "managed (cfg_dir i) q" for q
    using assms(3) [OF that] by (cases "C q"; simp add: plain_or_absent_def file_content_def on_disk_def d)+
  show ?thesis
    using assms plain by (auto simp: native_state_def healthy_def no_leftovers_def d)
qed

lemma state_gives:
  assumes "\<And>d. sound_tree i d \<Longrightarrow>
     (\<And>q. managed (cfg_dir i) q \<Longrightarrow> fmlookup d q = map_option Regular (C q)) \<Longrightarrow>
     no_temporaries i d \<Longrightarrow>
     \<exists>d'. gives (calm i d) m r (calm i d') \<and> sound_tree i d'
       \<and> (\<forall>q. managed (cfg_dir i) q \<longrightarrow> fmlookup d' q = map_option Regular (C' q))
       \<and> no_temporaries i d'"
  shows "gives (native_state i C) m r (native_state i C')"
proof (rule givesI)
  fix w assume w: "native_state i C w"
  have "sound_tree i (os_disk w)" "no_leftovers i (os_disk w)" and calm: "calm i (os_disk w) w"
    using w by (simp_all add: native_state_def healthy_def)
  then obtain d' where d': "gives (calm i (os_disk w)) m r (calm i d')" "sound_tree i d'"
      "\<And>q. managed (cfg_dir i) q \<Longrightarrow> fmlookup d' q = map_option Regular (C' q)"
      "no_temporaries i d'"
    using assms [of "os_disk w"] state_lookup [OF w] unfolding no_leftovers_def by blast
  obtain w' where "m w = (r, w')" "calm i d' w'" using givesD [OF d'(1) calm] by blast
  then show "\<exists>w'. m w = (r, w') \<and> native_state i C' w'"
    using state_of_disk [OF d'(2) _ d'(3,4)] by blast
qed

lemma state_observes:
  assumes "\<And>d. sound_tree i d \<Longrightarrow>
     (\<And>q. managed (cfg_dir i) q \<Longrightarrow> fmlookup d q = map_option Regular (C q)) \<Longrightarrow>
     gives (calm i d) m r (calm i d)"
  shows "gives (native_state i C) m r (native_state i C)"
  by (rule state_gives) (use assms in blast)

lemma managed_update_clean:
  assumes "managed (cfg_dir i) p"
    and "no_temporaries i d"
  shows "no_temporaries i (fmupd p x d)"
  using assms managed_not_temporary by (auto simp: managed_def no_temporaries_def)

lemma managed_target_gives:
  assumes "sound_tree i d" and "managed (cfg_dir i) p"
    and "\<And>q. managed (cfg_dir i) q \<Longrightarrow> fmlookup d q = map_option Regular (C q)"
  shows "gives (calm i d) (validate_target (native_adapter i) p) (Ok ()) (calm i d)"
  by (rule target_gives [OF assms(1,2)])
    (use assms(3) [OF assms(2)] in \<open>cases "C p"; simp add: plain_or_absent_def\<close>)

lemma native_directory_gives:
  "gives (native_state i C) (native_create_directory (native_adapter i) (cfg_dir i)) (Ok ()) (native_state i C)"
  by (rule state_observes, simp add: native_create_directory_def,
      rule gives_bind [OF cfg_directory_gives], assumption,
      rule gives_bind [OF create_dir_all_gives [OF cfg_is_directory]], assumption, rule cfg_directory_gives)

lemma native_read_some_gives:
  assumes "managed (cfg_dir i) p" and "C p = Some bytes"
  shows "gives (native_state i C) (native_read_file (native_adapter i) p) (Ok bytes) (native_state i C)"
  unfolding native_read_file_def
  by (rule state_observes, rule gives_bind [OF managed_target_gives [OF _ assms(1)]], assumption, assumption,
      rule read_there) (use assms in simp)

lemma native_read_none_gives:
  assumes "managed (cfg_dir i) p" and "C p = None"
  shows "gives (native_state i C) (native_read_file (native_adapter i) p) (Err not_found) (native_state i C)"
  unfolding native_read_file_def
  by (rule state_observes, rule gives_bind [OF managed_target_gives [OF _ assms(1)]], assumption, assumption,
      rule read_absent) (use assms in simp)

lemma native_create_gives:
  assumes p: "managed (cfg_dir i) p" and "C p = None"
  shows "gives (native_state i C) (native_create_file_new (native_adapter i) p bytes) (Ok ())
    (native_state i (C(p := Some bytes)))"
proof (rule state_gives)
  fix d assume tree: "sound_tree i d"
    and look: "\<And>q. managed (cfg_dir i) q \<Longrightarrow> fmlookup d q = map_option Regular (C q)"
    and clean: "no_temporaries i d"
  obtain x where x: "p = cfg_dir i @ [Normal x]" by (rule managedE [OF p])
  have absent: "fmlookup d p = None" using look [OF p] assms(2) by simp
  let ?d = "fmupd p (Regular bytes) (fmupd p (Regular []) d)"
  have "gives (calm i d) (native_create_file_new (native_adapter i) p bytes) (Ok ()) (calm i ?d)"
    unfolding native_create_file_new_def
    by (rule gives_bind [OF managed_target_gives [OF tree p look]], assumption,
        rule gives_bind [OF open_new_gives [OF absent [unfolded x] cfg_is_directory [OF tree], folded x]],
        rule gives_bind [OF write_all_gives sync_gives]) simp
  moreover have "sound_tree i ?d"
    unfolding x by (intro sound_tree_update tree) (use absent x in simp_all)
  moreover have "\<forall>q. managed (cfg_dir i) q \<longrightarrow> fmlookup ?d q = map_option Regular ((C(p := Some bytes)) q)"
    using look by auto
  moreover have "no_temporaries i ?d"
    by (intro managed_update_clean p clean)
  ultimately show "\<exists>d'. gives (calm i d) (native_create_file_new (native_adapter i) p bytes) (Ok ()) (calm i d')
      \<and> sound_tree i d' \<and> (\<forall>q. managed (cfg_dir i) q \<longrightarrow> fmlookup d' q = map_option Regular ((C(p := Some bytes)) q))
      \<and> no_temporaries i d'"
    by blast
qed

lemma native_create_exists_gives:
  assumes "managed (cfg_dir i) p" and "C p \<noteq> None"
  shows "gives (native_state i C) (native_create_file_new (native_adapter i) p bytes)
    (Err (IoError IoAlreadyExists ''file exists'')) (native_state i C)"
  unfolding native_create_file_new_def
  by (rule state_observes, rule gives_bind [OF managed_target_gives [OF _ assms(1)]], assumption, assumption,
      rule gives_bind_Err [OF open_new_exists]) (use assms in auto)

lemma native_remove_gives:
  assumes p: "managed (cfg_dir i) p" and "C p \<noteq> None"
  shows "gives (native_state i C) (native_remove_file (native_adapter i) p) (Ok ()) (native_state i (C(p := None)))"
proof (rule state_gives)
  fix d assume tree: "sound_tree i d"
    and look: "\<And>q. managed (cfg_dir i) q \<Longrightarrow> fmlookup d q = map_option Regular (C q)"
    and clean: "no_temporaries i d"
  obtain x where x: "p = cfg_dir i @ [Normal x]" by (rule managedE [OF p])
  have regular: "is_regular (fmlookup d p)" using look [OF p] assms(2) by auto
  have "gives (calm i d) (native_remove_file (native_adapter i) p) (Ok ()) (calm i (fmdrop p d))"
    unfolding native_remove_file_def
    by (rule gives_bind [OF managed_target_gives [OF tree p look]], assumption, rule remove_gives [OF regular])
  moreover have "sound_tree i (fmdrop p d)"
    unfolding x by (intro sound_tree_drop tree) (use regular x in auto)
  ultimately show "\<exists>d'. gives (calm i d) (native_remove_file (native_adapter i) p) (Ok ()) (calm i d')
      \<and> sound_tree i d' \<and> (\<forall>q. managed (cfg_dir i) q \<longrightarrow> fmlookup d' q = map_option Regular ((C(p := None)) q))
      \<and> no_temporaries i d'"
    using look clean by (intro exI [of _ "fmdrop p d"]) (auto simp: fmlookup_drop no_temporaries_def)
qed

lemma native_remove_none_gives:
  assumes "managed (cfg_dir i) p" and "C p = None"
  shows "gives (native_state i C) (native_remove_file (native_adapter i) p) (Err not_found) (native_state i C)"
  unfolding native_remove_file_def
  by (rule state_observes, rule gives_bind [OF managed_target_gives [OF _ assms(1)]], assumption, assumption,
      rule remove_absent) (use assms in simp)

lemma named_gives:
  assumes "\<And>t. t \<in> range (temporary_path p) \<Longrightarrow> gives P (f t) r Q"
  shows "gives P (io_bind (\<lambda>w. (Ok (temporary_path p w), w)) f) r Q"
  using assms by (auto simp: gives_def io_bind_def)

lemma native_replace_gives:
  assumes p: "managed (cfg_dir i) p"
  shows "gives (native_state i C) (native_atomic_replace (native_adapter i) p bytes) (Ok ())
    (native_state i (C(p := Some bytes)))"
proof (rule state_gives)
  fix d assume tree: "sound_tree i d"
    and look: "\<And>q. managed (cfg_dir i) q \<Longrightarrow> fmlookup d q = map_option Regular (C q)"
    and clean: "no_temporaries i d"
  obtain x where x: "p = cfg_dir i @ [Normal x]" "x \<in> managed_names" by (rule managedE [OF p])
  have plain: "plain_or_absent d p"
    using look [OF p] by (cases "C p") (simp_all add: plain_or_absent_def)
  let ?d = "fmupd p (Regular bytes) d"
  have through: "gives (calm i d) (replace_through (native_adapter i) p t bytes) (Ok ()) (calm i ?d)"
    if t: "t \<in> range (temporary_path p)" for t
  proof -
    obtain y where y: "t = cfg_dir i @ [Normal (x @ ''.tmp.'' @ y)]"
      using t by (auto simp: temporary_path_def x(1))
    have tmp: "find_str ''.tmp.'' (x @ ''.tmp.'' @ y) \<noteq> None" by (rule find_str_append)
    then have absent: "fmlookup d t = None" using clean unfolding no_temporaries_def y by (elim allE impE)
    then have "fmdrop t d = d" by (intro fmap_ext) (simp add: fmlookup_drop)
    then show ?thesis
      using replace_through_gives [OF tree p plain tmp] absent unfolding y by simp
  qed
  have "gives (calm i d) (native_atomic_replace (native_adapter i) p bytes) (Ok ()) (calm i ?d)"
    unfolding native_atomic_replace_def
    by (rule gives_bind [OF managed_target_gives [OF tree p look]], assumption, rule named_gives,
        rule gives_match [OF through], assumption) (simp add: gives_ret)
  moreover have "sound_tree i ?d"
    unfolding x(1)
    by (rule sound_tree_update [OF tree]) (use plain_or_absent_not_directory [OF plain] x(1) in simp)
  moreover have "no_temporaries i ?d" by (rule managed_update_clean [OF p clean])
  ultimately show "\<exists>d'. gives (calm i d) (native_atomic_replace (native_adapter i) p bytes) (Ok ()) (calm i d')
      \<and> sound_tree i d'
      \<and> (\<forall>q. managed (cfg_dir i) q \<longrightarrow> fmlookup d' q = map_option Regular ((C(p := Some bytes)) q))
      \<and> no_temporaries i d'"
    using look by (intro exI [of _ ?d]) simp
qed

interpretation store: config_store "native_files (native_adapter i)" "cfg_dir i" "native_state i" for i
proof
  fix C and p and bytes :: string
  note simps = native_files_def
  show "gives (native_state i C) (create_directory (native_files (native_adapter i)) (cfg_dir i)) (Ok ())
      (native_state i C)"
    by (simp add: simps native_directory_gives)
  show "gives (native_state i C) (read_file (native_files (native_adapter i)) p) (Ok bytes) (native_state i C)"
    if "managed (cfg_dir i) p" "C p = Some bytes"
    using that by (simp add: simps native_read_some_gives)
  show "\<exists>e. error_kind e = IoNotFound
      \<and> gives (native_state i C) (read_file (native_files (native_adapter i)) p) (Err e) (native_state i C)"
    if "managed (cfg_dir i) p" "C p = None"
    using native_read_none_gives [of i p C, OF that] by (intro exI [of _ not_found]) (simp add: simps not_found_def)
  show "gives (native_state i C) (atomic_replace (native_files (native_adapter i)) p bytes) (Ok ())
      (native_state i (C(p := Some bytes)))"
    if "managed (cfg_dir i) p"
    using that by (simp add: simps native_replace_gives)
  show "gives (native_state i C) (create_file_new (native_files (native_adapter i)) p bytes) (Ok ())
      (native_state i (C(p := Some bytes)))"
    if "managed (cfg_dir i) p" "C p = None"
    using that by (simp add: simps native_create_gives)
  show "\<exists>e. error_kind e = IoAlreadyExists
      \<and> gives (native_state i C) (create_file_new (native_files (native_adapter i)) p bytes) (Err e)
          (native_state i C)"
    if "managed (cfg_dir i) p" "C p \<noteq> None"
    using native_create_exists_gives [of i p C bytes, OF that]
    by (intro exI [of _ "IoError IoAlreadyExists ''file exists''"]) (simp add: simps)
  show "gives (native_state i C) (remove_file (native_files (native_adapter i)) p) (Ok ())
      (native_state i (C(p := None)))"
    if "managed (cfg_dir i) p" "C p \<noteq> None"
    using that by (simp add: simps native_remove_gives)
  show "\<exists>e. error_kind e = IoNotFound
      \<and> gives (native_state i C) (remove_file (native_files (native_adapter i)) p) (Err e) (native_state i C)"
    if "managed (cfg_dir i) p" "C p = None"
    using native_remove_none_gives [of i p C, OF that] by (intro exI [of _ not_found]) (simp add: simps not_found_def)
qed

end
