(* ===== verification/Cs2_Transaction.thy ===== *)
theory Cs2_Transaction
  imports Native_Store
begin

text \<open>
  The configuration transaction on the disk: on a sound install it completes with the contents its
  abstract specification gives, restoring the record captured before it undoes it whatever became of
  the run, and an attempt that is cut short in its first backup leaves a backup that is kept for good.
\<close>

section \<open>An install\<close>

definition demo_library :: path where
  "demo_library = [PathPrefix ''D:'', RootDir]"

definition demo_install :: cs2_install where
  "demo_install = \<lparr>steam_root = demo_library, library_root = demo_library,
     install_root = join_names demo_library [''steamapps'', ''common'', CS2_DIRECTORY]\<rparr>"

definition demo_contents :: "(string \<times> string) list \<Rightarrow> contents" where
  "demo_contents fs = map_of (map (\<lambda>(n, bytes). (cfg_dir demo_install @ [Normal n], bytes)) fs)"

definition demo_tree :: "(string \<times> string) list \<Rightarrow> (path \<times> node) list" where
  "demo_tree fs =
     map (\<lambda>(n, bytes). (cfg_dir demo_install @ [Normal n], Regular bytes)) fs
     @ (cs2_executable (native_adapter demo_install), Regular ''MZ'')
       # map (\<lambda>p. (p, Directory)) (install_directories demo_install)"

definition demo_os :: "(string \<times> string) list \<Rightarrow> os" where
  "demo_os fs = \<lparr>os_disk = fmap_of_list (demo_tree fs), os_calls = 0, os_fault = (\<lambda>_. None),
     os_canonical = (\<lambda>p. p), os_nanos = (\<lambda>n. n), os_process = 7\<rparr>"

definition demo_request :: cs2_config_request where
  "demo_request = \<lparr>generated_at = ''2025-01-01 00:00'', optional_assets = [], bootstrap_autoexec = True\<rparr>"

definition demo_hashing :: hashing where
  "demo_hashing = \<lparr>digest = (\<lambda>s. take 2 s), os_bytes = (\<lambda>_. [])\<rparr>"

lemma demo_paths:
  "steam_root demo_install = demo_library" "library_root demo_install = demo_library"
  "install_root demo_install = demo_library @ map Normal [''steamapps'', ''common'', CS2_DIRECTORY]"
  by (simp_all add: demo_install_def join_names_def)

lemma demo_bound: "validate_install demo_install = Ok ()"
  by (simp add: validate_install_def demo_install_def)

lemma cfg_file_not_directory: "cfg_dir demo_install @ [Normal n] \<notin> set (install_directories demo_install)"
  by (simp add: install_directories_def cfg_dir_def demo_paths demo_library_def join_names_def)

lemma executable_not_directory:
  "cs2_executable (native_adapter demo_install) \<notin> set (install_directories demo_install)"
  by (simp add: install_directories_def cfg_dir_def cs2_executable_def demo_paths demo_library_def join_names_def)

lemma demo_files_lookup:
  "map_of (map (\<lambda>(n, bytes). (cfg_dir demo_install @ [Normal n], Regular bytes)) fs) q =
     map_option Regular (demo_contents fs q)"
  by (induction fs) (auto simp: demo_contents_def)

lemma demo_contents_outside: "\<forall>n. q \<noteq> cfg_dir demo_install @ [Normal n] \<Longrightarrow> demo_contents fs q = None"
  by (induction fs) (auto simp: demo_contents_def)

lemma demo_contents_name:
  "demo_contents fs (cfg_dir demo_install @ [Normal n]) = map_of fs n"
  by (induction fs) (auto simp: demo_contents_def)

lemma demo_lookup:
  "fmlookup (fmap_of_list (demo_tree fs)) q =
     (case demo_contents fs q of
        Some bytes \<Rightarrow> Some (Regular bytes)
      | None \<Rightarrow>
          if q = cs2_executable (native_adapter demo_install) then Some (Regular ''MZ'')
          else if q \<in> set (install_directories demo_install) then Some Directory
          else None)"
  unfolding demo_tree_def fmlookup_of_list map_of_append map_add_def map_of.simps
  by (cases "demo_contents fs q") (simp_all add: map_add_def demo_files_lookup map_of_map_restrict restrict_map_def)

lemma demo_cfg_lookup:
  "fmlookup (fmap_of_list (demo_tree fs)) (cfg_dir demo_install @ [Normal n]) = map_option Regular (map_of fs n)"
  using cfg_file_not_directory [of n] executable_not_in_cfg [of demo_install n, symmetric]
  by (simp add: demo_lookup demo_contents_name split: option.splits)

lemma demo_sound: "sound_tree demo_install (fmap_of_list (demo_tree fs))"
proof -
  have "demo_contents fs p = None" if "p \<in> set (install_directories demo_install)" for p
    by (rule demo_contents_outside) (use that cfg_file_not_directory in blast)
  moreover have "demo_contents fs (cs2_executable (native_adapter demo_install)) = None"
    by (rule demo_contents_outside) (simp add: executable_not_in_cfg)
  ultimately show ?thesis
    using executable_not_directory
    by (auto simp: sound_tree_def demo_bound demo_paths demo_lookup list_all_iff demo_library_def)
qed

lemma demo_state:
  assumes "set (map fst fs) \<subseteq> managed_names"
  shows "native_state demo_install (demo_contents fs) (demo_os fs)"
proof (rule state_of_disk [OF demo_sound])
  show "calm demo_install (fmap_of_list (demo_tree fs)) (demo_os fs)"
    by (simp add: calm_def demo_os_def cs2_executable_def join_names_def demo_paths strip_prefix_path_def
        native_adapter_def)
  show "fmlookup (fmap_of_list (demo_tree fs)) q = map_option Regular (demo_contents fs q)"
    if "managed (cfg_dir demo_install) q" for q
    using that by (auto simp: managed_def demo_cfg_lookup demo_contents_name)
  have "map_of fs n = None" if "find_str ''.tmp.'' n \<noteq> None" for n
    using that assms managed_not_temporary by (auto simp: map_of_eq_None_iff)
  then show "no_temporaries demo_install (fmap_of_list (demo_tree fs))"
    unfolding no_temporaries_def demo_cfg_lookup by simp
qed

lemma managed_name_simps [simp]:
  "OPTIMIZATION_FILE \<in> managed_names" "AUTOEXEC_FILE \<in> managed_names" "OPTIMIZATION_BACKUP_FILE \<in> managed_names"
  using managed_fixed [of "[]"] managed_backups [of "[]"] by (simp_all add: managed_def)

text \<open>Three worlds: a configuration, an autoexec that is not text, a backup that was cut short.\<close>

abbreviation demo_plain :: "(string \<times> string) list" where
  "demo_plain \<equiv> [(OPTIMIZATION_FILE, ''fps_max 0'')]"

abbreviation demo_garbled :: "(string \<times> string) list" where
  "demo_garbled \<equiv> [(AUTOEXEC_FILE, [CHR 0xFF])]"

abbreviation demo_cut :: "(string \<times> string) list" where
  "demo_cut \<equiv> [(OPTIMIZATION_FILE, ''fps_max 0''), (OPTIMIZATION_BACKUP_FILE, ''fps'')]"

lemma demo_capturable: "capturable (cfg_dir demo_install) demo_request (demo_contents demo_plain)"
  by (simp add: capturable_def demo_request_def for_request_def target_path_def size_of_def demo_contents_name
      CS2_CONFIG_MAX_FILE_BYTES_def CS2_CONFIG_MAX_TOTAL_BYTES_def)

lemma demo_readable:
  "autoexec_readable (cfg_dir demo_install) demo_request (demo_contents demo_plain)"
  "autoexec_readable (cfg_dir demo_install) demo_request (demo_contents demo_cut)"
  "\<not> autoexec_readable (cfg_dir demo_install) demo_request (demo_contents demo_garbled)"
  by (simp_all add: autoexec_readable_def demo_request_def demo_contents_name continues_def byte_def)

section \<open>Runs\<close>

lemma state_bound: "native_state i C w \<Longrightarrow> validate_install i = Ok ()"
  by (simp add: native_state_def healthy_def sound_tree_def)

lemma state_ready: "native_state i C w \<Longrightarrow> native_ready i w"
proof -
  assume "native_state i C w"
  then have tree: "sound_tree i (os_disk w)" by (simp add: native_state_def healthy_def)
  have "fmlookup (os_disk w) p = Some Directory"
    if "p \<in> {steam_root i, library_root i, install_root i, join_names (install_root i) [''game'', ''csgo'']}" for p
    by (rule sound_tree_directory [OF tree]) (use that in \<open>auto simp: install_directories_def\<close>)
  moreover have "fmlookup (os_disk w) (cs2_executable (native_adapter i)) \<noteq> None"
    using tree by (auto simp: sound_tree_def elim!: is_regular.elims)
  ultimately show "native_ready i w" by (simp add: bound_disk_def native_adapter_def)
qed

lemma state_content: "native_state i C w \<Longrightarrow> managed (cfg_dir i) q \<Longrightarrow> file_content w q = C q"
  by (simp add: native_state_def)

lemma apply_runs:
  assumes "native_state i C w" and "autoexec_readable (cfg_dir i) r C"
  obtains report w' where "controller_apply A (native_files (native_adapter i)) i r w = (Ok report, w')"
    and "native_state i (applied_config A (cfg_dir i) r C) w'"
proof -
  obtain report where "gives (native_state i C) (controller_apply A (native_files (native_adapter i)) i r)
      (Ok report) (native_state i (applied_config A (cfg_dir i) r C))"
    using store.apply_gives [OF refl state_bound [OF assms(1)] assms(2)] by blast
  from givesD [OF this assms(1)] show thesis using that by blast
qed

lemma capture_runs:
  assumes "native_state i C w" and "distinct (optional_assets r)" and "capturable (cfg_dir i) r C"
  obtains w' where "capture_cs2_config_transaction (native_files (native_adapter i)) H i r at w
      = (Ok (captured_entry H i r at C), w')" and "native_state i C w'"
  using givesD [OF store.capture_gives [OF refl state_bound [OF assms(1)] assms(2,3)] assms(1)] that by blast

lemma restore_runs:
  assumes "native_state i C' w" and "distinct (optional_assets r)" and "capturable (cfg_dir i) r C"
  obtains w' where "restore_cs2_config_transaction (native_files (native_adapter i)) H i r
      (captured_entry H i r at C) w = (Ok (), w')" and "native_state i (restored_config (cfg_dir i) r C C') w'"
  using givesD [OF store.restore_gives [OF refl state_bound [OF assms(1)] assms(2,3)] assms(1)] that by blast

lemma fold_put_asset_other:
  "(\<And>a. a \<in> set as \<Longrightarrow> q \<noteq> dir @ [Normal (asset_file_name a)]) \<Longrightarrow> fold (put_asset A dir) as C q = C q"
  by (induction as arbitrary: C) (simp_all add: put_asset_def)

lemma put_autoexec_other:
  "q \<noteq> dir @ [Normal AUTOEXEC_FILE] \<Longrightarrow> q \<noteq> dir @ [Normal AUTOEXEC_BACKUP_FILE] \<Longrightarrow> put_autoexec dir r C q = C q"
  by (simp add: put_autoexec_def Let_def keep_backup_def)

lemma applied_optimization:
  "applied_config A dir r C (dir @ [Normal OPTIMIZATION_FILE]) = Some (render_optimization_cfg_at (generated_at r))"
  "applied_config A dir r C (dir @ [Normal OPTIMIZATION_BACKUP_FILE]) =
     (case C (dir @ [Normal OPTIMIZATION_BACKUP_FILE]) of
        None \<Rightarrow> C (dir @ [Normal OPTIMIZATION_FILE]) | Some x \<Rightarrow> Some x)"
  by (auto simp: applied_config_def fold_put_asset_other put_autoexec_other keep_backup_def split: option.splits)

section \<open>Properties\<close>

text \<open>C6: on a sound install and a medium without faults, capturing, applying and restoring a
configuration request all return, and the managed files hold exactly what the abstract specification
says: after \<open>apply\<close> the contents \<open>applied_config\<close> (the new \<open>optimization.cfg\<close>, the autoexec with
its line, the assets, and the backups made once), after \<open>restore\<close> every target of the request as it was
captured and every other file as \<open>apply\<close> left it.\<close>

theorem configuration_transaction_refines_contents:
  assumes "native_state i C w" and "distinct (optional_assets r)"
    and "capturable (cfg_dir i) r C" and "autoexec_readable (cfg_dir i) r C"
  shows "\<exists>e report w1 w2 w3.
    capture_cs2_config_transaction (native_files (native_adapter i)) H i r at w = (Ok (e :: 'v backup_entry), w1)
    \<and> controller_apply A (native_files (native_adapter i)) i r w1 = (Ok report, w2)
    \<and> native_state i (applied_config A (cfg_dir i) r C) w2
    \<and> restore_cs2_config_transaction (native_files (native_adapter i)) H i r e w2 = (Ok (), w3)
    \<and> native_state i (restored_config (cfg_dir i) r C (applied_config A (cfg_dir i) r C)) w3"
proof -
  obtain w1 where w1: "capture_cs2_config_transaction (native_files (native_adapter i)) H i r at w
      = (Ok (captured_entry H i r at C :: 'v backup_entry), w1)" "native_state i C w1"
    by (rule capture_runs [OF assms(1-3)])
  obtain report w2 where w2: "controller_apply A (native_files (native_adapter i)) i r w1 = (Ok report, w2)"
      "native_state i (applied_config A (cfg_dir i) r C) w2"
    by (rule apply_runs [OF w1(2) assms(4)])
  obtain w3 where w3: "restore_cs2_config_transaction (native_files (native_adapter i)) H i r
      (captured_entry H i r at C :: 'v backup_entry) w2 = (Ok (), w3)"
      "native_state i (restored_config (cfg_dir i) r C (applied_config A (cfg_dir i) r C)) w3"
    by (rule restore_runs [OF w2(2) assms(2,3)])
  from w1(1) w2 w3 show ?thesis by blast
qed

theorem configuration_transaction_refines_contents_witness:
  "\<exists>e report w1 w2 w3.
    capture_cs2_config_transaction (native_files (native_adapter demo_install)) demo_hashing demo_install
      demo_request ''now'' (demo_os demo_plain) = (Ok (e :: string backup_entry), w1)
    \<and> controller_apply (\<lambda>_. []) (native_files (native_adapter demo_install)) demo_install demo_request w1
        = (Ok report, w2)
    \<and> native_state demo_install
        (applied_config (\<lambda>_. []) (cfg_dir demo_install) demo_request (demo_contents demo_plain)) w2
    \<and> restore_cs2_config_transaction (native_files (native_adapter demo_install)) demo_hashing demo_install
        demo_request e w2 = (Ok (), w3)
    \<and> native_state demo_install (restored_config (cfg_dir demo_install) demo_request (demo_contents demo_plain)
        (applied_config (\<lambda>_. []) (cfg_dir demo_install) demo_request (demo_contents demo_plain))) w3"
  by (rule configuration_transaction_refines_contents [OF demo_state _ demo_capturable demo_readable(1)])
    (simp_all add: demo_request_def)

text \<open>an \<open>autoexec.cfg\<close> that is not text stops \<open>apply\<close> before it writes anything: the error is
\<open>AutoexecNotUtf8\<close> and every managed file is as it was.\<close>

theorem unreadable_autoexec_changes_nothing:
  assumes "native_state i C w" and "\<not> autoexec_readable (cfg_dir i) r C"
  shows "\<exists>w'. controller_apply A (native_files (native_adapter i)) i r w = (Err AutoexecNotUtf8, w')
    \<and> native_state i C w'"
  using givesD [OF store.apply_rejects [OF refl state_bound [OF assms(1)] assms(2)] assms(1)] .

theorem unreadable_autoexec_changes_nothing_witness:
  "\<exists>w'. controller_apply (\<lambda>_. []) (native_files (native_adapter demo_install)) demo_install demo_request
      (demo_os demo_garbled) = (Err AutoexecNotUtf8, w')
    \<and> native_state demo_install (demo_contents demo_garbled) w'"
  by (rule unreadable_autoexec_changes_nothing [OF demo_state demo_readable(3)]) simp

text \<open>C5: a restore undoes \<open>apply\<close> on the disk whatever became of it.  With an install that is in place,
a record captured in a world, any outcome of \<open>apply\<close> after it (faults of the medium in the middle of a
write included) and a restore that succeeds, every file of the closed target set holds what it held in
the beginning, apart from the two backups that \<open>apply\<close> makes beside the files.\<close>

theorem configuration_restore_undoes_apply:
  assumes "native_ready i w" and "distinct (optional_assets r)"
    and "capture_cs2_config_transaction (native_files (native_adapter i)) H i r at w = (Ok e, w1)"
    and "controller_apply A (native_files (native_adapter i)) i r w1 = (outcome, w2)"
    and "restore_cs2_config_transaction (native_files (native_adapter i)) H i r e w2 = (Ok u, w3)"
    and "managed (cfg_dir i) q"
    and "q \<noteq> cfg_dir i @ [Normal OPTIMIZATION_BACKUP_FILE]" and "q \<noteq> cfg_dir i @ [Normal AUTOEXEC_BACKUP_FILE]"
  shows "file_content w3 q = file_content w q"
  by (rule native.restore_undoes_apply [OF refl assms])

theorem configuration_restore_undoes_apply_witness:
  "\<exists>(e :: string backup_entry) w1 outcome w2 w3.
    capture_cs2_config_transaction (native_files (native_adapter demo_install)) demo_hashing demo_install
      demo_request ''now'' (demo_os demo_plain) = (Ok e, w1)
    \<and> controller_apply (\<lambda>_. []) (native_files (native_adapter demo_install)) demo_install demo_request w1
        = (outcome, w2)
    \<and> restore_cs2_config_transaction (native_files (native_adapter demo_install)) demo_hashing demo_install
        demo_request e w2 = (Ok (), w3)
    \<and> file_content w3 (cfg_dir demo_install @ [Normal OPTIMIZATION_FILE])
        = file_content (demo_os demo_plain) (cfg_dir demo_install @ [Normal OPTIMIZATION_FILE])"
proof -
  have state: "native_state demo_install (demo_contents demo_plain) (demo_os demo_plain)"
    by (rule demo_state) simp
  have distinct: "distinct (optional_assets demo_request)" by (simp add: demo_request_def)
  obtain w1 where w1: "capture_cs2_config_transaction (native_files (native_adapter demo_install)) demo_hashing
        demo_install demo_request ''now'' (demo_os demo_plain)
      = (Ok (captured_entry demo_hashing demo_install demo_request ''now'' (demo_contents demo_plain)
          :: string backup_entry), w1)" "native_state demo_install (demo_contents demo_plain) w1"
    by (rule capture_runs [OF state distinct demo_capturable])
  obtain report w2 where w2: "controller_apply (\<lambda>_. []) (native_files (native_adapter demo_install))
        demo_install demo_request w1 = (Ok report, w2)"
      "native_state demo_install
        (applied_config (\<lambda>_. []) (cfg_dir demo_install) demo_request (demo_contents demo_plain)) w2"
    by (rule apply_runs [OF w1(2) demo_readable(1)])
  obtain w3 where w3: "restore_cs2_config_transaction (native_files (native_adapter demo_install)) demo_hashing
      demo_install demo_request (captured_entry demo_hashing demo_install demo_request ''now''
        (demo_contents demo_plain) :: string backup_entry) w2 = (Ok (), w3)"
    by (rule restore_runs [OF w2(2) distinct demo_capturable])
  have "file_content w3 (cfg_dir demo_install @ [Normal OPTIMIZATION_FILE])
      = file_content (demo_os demo_plain) (cfg_dir demo_install @ [Normal OPTIMIZATION_FILE])"
  proof (rule configuration_restore_undoes_apply)
    show "native_ready demo_install (demo_os demo_plain)" by (rule state_ready [OF state])
    show "distinct (optional_assets demo_request)" by (rule distinct)
  qed (rule w1(1), rule w2(1), rule w3, simp_all)
  with w1(1) w2(1) w3 show ?thesis by blast
qed

text \<open>C37: a backup that is there is never looked at.  Where an earlier attempt was cut short while it wrote
\<open>optimization.cfg.bak\<close> and left some other bytes there, \<open>apply\<close> succeeds, keeps those bytes as the
backup and replaces the original, which is then in no file beside it.\<close>

theorem incomplete_backup_is_retained:
  assumes "native_state i C w" and "autoexec_readable (cfg_dir i) r C"
    and "C (cfg_dir i @ [Normal OPTIMIZATION_FILE]) = Some original"
    and "C (cfg_dir i @ [Normal OPTIMIZATION_BACKUP_FILE]) = Some partial"
  shows "\<exists>report w'. controller_apply A (native_files (native_adapter i)) i r w = (Ok report, w')
    \<and> file_content w' (cfg_dir i @ [Normal OPTIMIZATION_BACKUP_FILE]) = Some partial
    \<and> file_content w' (cfg_dir i @ [Normal OPTIMIZATION_FILE])
        = Some (render_optimization_cfg_at (generated_at r))"
proof -
  obtain report w' where "controller_apply A (native_files (native_adapter i)) i r w = (Ok report, w')"
      and "native_state i (applied_config A (cfg_dir i) r C) w'"
    by (rule apply_runs [OF assms(1,2)])
  then show ?thesis
    using assms(4) applied_optimization [of A "cfg_dir i" r C] by (auto simp: state_content)
qed


theorem incomplete_backup_is_retained_witness:
  "\<exists>report w'. controller_apply (\<lambda>_. []) (native_files (native_adapter demo_install)) demo_install demo_request
      (demo_os demo_cut) = (Ok report, w')
    \<and> file_content w' (cfg_dir demo_install @ [Normal OPTIMIZATION_BACKUP_FILE]) = Some ''fps''
    \<and> file_content w' (cfg_dir demo_install @ [Normal OPTIMIZATION_FILE])
        = Some (render_optimization_cfg_at (generated_at demo_request))"
  by (rule incomplete_backup_is_retained [OF demo_state demo_readable(2), where original = "''fps_max 0''"])
    (simp_all add: demo_contents_name)

end
