(* ===== verification/Spec2Isabelle.thy ===== *)
theory Spec2Isabelle
  imports Pagefile_Live Interrupt_Registry Driver_Safety Reboot_Safety Persistence_Retry Recovery_Safety App_Safety Engine_Safety Orchestration Benchmark Cs2_Transaction
begin

text \<open>
  This development models the core of \<open>frametime\<close>, a tool that tunes a Windows machine for one game.  The
  program lives in \<open>crates/\<close>: \<open>frametime-domain\<close> holds the decisions and document formats,
  \<open>frametime-windows\<close> the Windows adapters, \<open>frametime-app\<close>, \<open>frametime-cli\<close> and \<open>frametime-gui\<close> the
  front ends.  Its work is a catalog of 54 steps in three phases, separated by two reboots (one of them into
  Safe Mode); each step is inspected, its previous state captured in a recovery record that is persisted
  before anything is changed, applied, verified and recorded in the progress document.  Which phase may go
  on after a reboot is decided by guards over the persisted documents and the inspected platform.

  The parts, in the order the theories depend on each other:

  \<^item> \<open>Frametime_Prelude\<close>: results, JSON values and their serde accessors, ASCII case, decimal and
    hexadecimal text, IEEE doubles as a datatype whose finite values are reals, sorted insertion.
  \<^item> \<open>Catalog\<close> (\<open>catalog.rs\<close>, \<open>catalog/definitions.rs\<close>, \<open>operations.rs\<close>): the table of steps, row by
    row, identifiers and their keys.  \<open>Policy\<close> (\<open>policy.rs\<close>): which step a profile runs, asks or skips.
  \<^item> \<open>Handoff\<close> (\<open>handoff.rs\<close>): the reboot transaction, its stages and authorization.  \<open>Binding\<close>
    (\<open>binding.rs\<close>): device bindings.  \<open>Fps\<close> (\<open>fps.rs\<close>, \<open>config.rs\<close>, receipts of \<open>benchmark.rs\<close>): the
    measured frame cap.  \<open>Session\<close> (\<open>state.rs\<close>, \<open>state/\<close>): the state and progress documents with
    their tolerant decoding.
  \<^item> \<open>State_Audit\<close> (\<open>audit.rs\<close>), \<open>Evidence\<close> (\<open>evidence.rs\<close>), \<open>Network_Stack\<close>
    (\<open>backup/network_stack.rs\<close>, \<open>backup/interrupt.rs\<close>), \<open>Cs2_Targets\<close> (\<open>cs2_config.rs\<close> targets) and
    \<open>Backup\<close> (\<open>backup.rs\<close>): the recovery records.  A hash function is a parameter of the definitions
    that use it.
  \<^item> \<open>Engine\<close> (\<open>engine.rs\<close>): the engine.  A backend is a record of functions over a backend state;
    the engine is a composition of actions that stop at the first error.  \<open>Engine_Trace\<close> wraps any
    backend in one that logs its calls; \<open>Engine_Facts\<close> proves what every stage does to log and
    progress; \<open>Engine_Contract\<close> states the locales a backend may satisfy, \<open>Engine_Report\<close> counts
    outcomes, \<open>Engine_Safety\<close> holds the properties.  \<open>Actions\<close> (\<open>operations/\<close> of
    \<open>frametime-windows\<close>) is the closed catalog of native actions, \<open>Planner\<close> (\<open>backend/planner.rs\<close>) the
    backend of a dry run, which interprets the locales.
  \<^item> \<open>Orchestration\<close> (\<open>orchestration.rs\<close>, \<open>migration.rs\<close>): the guards of every phase and of the legacy
    migration.  \<open>Benchmark\<close> (\<open>benchmark.rs\<close>): the two benchmark commits and the validators of what they
    persist.  \<open>Samples\<close>: the concrete documents that the witnesses evaluate.
  \<^item> \<open>Rust_Text\<close> and \<open>Files\<close>: strings as the code treats them, and actions over a model of
    \<open>std::fs\<close> in which every call may fault and a failed write may leave a part of its bytes.
    \<open>Steam\<close> (\<open>steam.rs\<close>): Valve's key-value documents.  \<open>Cs2_Render\<close> (\<open>cs2.rs\<close>) and \<open>Cs2_Config\<close>
    (\<open>cs2_config.rs\<close>, \<open>cs2_config/transaction.rs\<close>): the controller of the game's configuration over its
    file-system trait, a record of functions over any world.  \<open>Cs2_Contract\<close> states what a run that
    returns may rely on as a locale, \<open>Cs2_Store\<close> what a store that works does as another;
    \<open>Cs2_Backup\<close> (\<open>backup/cs2_config.rs\<close>) is the recovery record.  \<open>Native_Files\<close>
    (\<open>system/cs2/fs.rs\<close> of \<open>frametime-windows\<close>) is the adapter on the disk; \<open>Native_Contract\<close> and
    \<open>Native_Store\<close> interpret the two locales on it, and \<open>Cs2_Transaction\<close> draws the properties.
  \<^item> \<open>Driver_Model\<close>, \<open>Utc_Time\<close>, \<open>Driver_Evidence\<close>, \<open>Driver_Adapters\<close> (\<open>driver/\<close> of
    \<open>frametime-domain\<close>): packages, artifacts and the dry-run plan; the parser and the formatter of UTC
    instants, proved against the calendar; captures, authorizations and evidence; the orchestrators over
    injected adapters.  \<open>Driver_Native\<close>, \<open>Driver_Transaction\<close> (\<open>driver/\<close> of \<open>frametime-windows\<close>): the
    native adapters over a record of what Windows answers, and the durable transaction.  \<open>Driver_Safety\<close>
    draws the properties.
  \<^item> \<open>Device_Bindings\<close> (\<open>system/device_bindings.rs\<close>, \<open>device_binding_resolution.rs\<close>),
    \<open>Interrupt_Policy\<close> (\<open>system/interrupts.rs\<close>, \<open>interrupt_registry.rs\<close>) and \<open>Interrupt_Registry\<close>
    (\<open>interrupt_registry_windows.rs\<close>): the devices a change may touch, and the interrupt values with
    their capture, application and restoration.  A store of such values is a locale, interpreted on the
    registry calls.
  \<^item> \<open>Wmi\<close> (\<open>system/wmi.rs\<close>): a CIM repository whose calls may fail at any moment.  \<open>Pagefile\<close>
    (\<open>system/pagefile.rs\<close>): the transaction over its store trait, with the laws of a store as a locale;
    \<open>Pagefile_Store\<close> (\<open>system/pagefile_native.rs\<close>) interprets it on the repository; \<open>Pagefile_Live\<close>
    adds the privilege and the steps of the live backend, and draws the properties.
  \<^item> \<open>Call_Log\<close> logs the questions and answers of an action.  \<open>Reboot_Handoff\<close> (\<open>reboot/handoff.rs\<close>,
    \<open>reboot/hardware.rs\<close> of \<open>frametime-windows\<close>): the checkpoints between the phases over a record of what the
    stores, the registry and the tools answer; \<open>Reboot_Safety\<close> draws the properties.
  \<^item> \<open>Work_Directory\<close> (\<open>trust/public.rs\<close>, the lock of \<open>system/platform.rs\<close>): the calls on the documents of
    the work directory as a record, the laws of a document as two locales, interpreted on a directory any of
    whose calls may be refused or lose its answer.  \<open>Persistence\<close> (\<open>storage/persistence.rs\<close>,
    \<open>storage/persistence_final_support.rs\<close>): the profile, the advisory capture, the baseline and the final
    benchmark under the lock.  \<open>Persistence_Safety\<close> follows an interrupted run and an undisturbed retry,
    \<open>Persistence_Retry\<close> draws the properties.
  \<^item> \<open>Recovery_Store\<close> (\<open>storage/irreversible_audit.rs\<close>, \<open>storage/evidence_store.rs\<close>, the end of
    \<open>storage/evidence_backend.rs\<close> that checks a persisted receipt, \<open>backend/public.rs\<close>): the audits of irreversible
    mutations under the lock that the live backend retains, the receipts of observations, and the restoration,
    the clearing and the reset that users ask for; \<open>Recovery_Safety\<close> draws the properties.
  \<^item> \<open>App_Benchmark\<close> (\<open>benchmark.rs\<close>, \<open>commands.rs\<close>, \<open>outcomes.rs\<close> of \<open>frametime-app\<close>) and
    \<open>App_Workflow\<close> (\<open>workflow.rs\<close>): the commands of the application over a record of the platform functions
    they call; \<open>App_Safety\<close> shows their panics unreachable.
  \<^item> this theory: properties that span the engine, the guards and the benchmark commits.

  What is shown: the engine never mutates the machine before the matching recovery record was accepted, holds
  only persisted progress, completes only what was verified, and its report adds up; the guards authorize at
  most two transitions at a time, in four combinations only, and treat missing evidence as a refusal; the commits
  write what their validators accept and survive a crash between writes; a restoration keeps every record it
  could not replay, an interrupted irreversible mutation is resumed under its own audit; a
  configuration transaction refines a function on the contents of the managed files, and restoring its record
  undoes it whatever fault cut it short.  Interrupt values are restored exactly; a pagefile setting that was
  created is removed again and foreign settings are never touched, but one that was resized is never put
  back.  A driver removal touches captured names only and its evidence is complete; the native one never gets
  past its own evidence, because that is stamped in local time, so phase three is never armed.  A checkpoint
  writes state and progress in this order and only after the machine was read back; one that is interrupted
  between the two strands the workflow.  A final benchmark that is interrupted anywhere between or inside its
  writes is finished by repeating it, with the receipt of the first attempt; an advisory capture under its
  label blocks it.  The commands of the phases never reach the transitions they take for impossible.

  Modelling choices.  Machine integers carry their range where the code checks it; arithmetic that can
  overflow is the checked operation of the source.  Rust results are the type \<open>result\<close>; the panics of the
  application are an error value of their own, which is shown not to occur.  A tolerant decoder of a document
  is a function from JSON values.  The work directory is an idealised store of typed documents: writing and
  reading is the identity where the code prints and parses JSON (floating point numbers are printed with one
  decimal), and asking whether a document exists never fails, while \<open>Path::exists\<close> also answers no on an
  error.  Every loop of
  the modelled code runs over a finite collection, so no definition needs fuel; the search for an unused
  receipt identifier is bounded by its eight attempts in the code itself.

  Not modelled: the Windows adapters other than those named above (calls of the Windows API behind traits,
  which appear as parameters), the handles, access control and signatures behind the storage and trust
  layers, the dispatch of the live backend, the reports and read models of the application, the command line
  and the graphical interface, and the two separate tools under \<open>tools/\<close>.
\<close>

section \<open>Advisories and the Safe Mode handoff\<close>

text \<open>\<open>P1:3\<close>, an advisory row that every profile but Custom runs without asking.\<close>

definition shader_cache_step :: step where
  "shader_cache_step = STEPS ! 2"

lemma shader_cache_step_facts:
  "tier shader_cache_step = 1" "id_phase (step_ident shader_cache_step) = PhaseOne"
  "step_role shader_cache_step = RoleEngine" "shader_cache_step \<in> set STEPS"
  "\<not> phase_one_advisory_is_authorized (step_ident shader_cache_step)"
  by (code_simp, code_simp, code_simp, simp add: shader_cache_step_def length_STEPS, code_simp)

lemma unauthorized_advisory_blocks_arming:
  assumes "st \<in> set STEPS" and "id_phase (step_ident st) = PhaseOne" and "step_role st = RoleEngine"
    and "\<not> phase_one_advisory_is_authorized (step_ident st)"
    and "resolution p (step_ident st) = Advisory"
  shows "\<not> is_ok (authorize RequestArmSafeMode s p f)"
proof -
  have "\<not> phase_one_resolved p (step_ident st)"
    using assms(4,5) by (auto simp: phase_one_resolved_def resolution_def split: if_splits)
  then have "require_resolved_phase_one p \<noteq> Ok ()"
    using assms(1-3) by (auto simp: require_resolved_phase_one_Ok)
  then show ?thesis by (simp add: is_ok_iff authorize_arm_iff)
qed

text \<open>
  C27: The engine and the guard of the Safe Mode handoff disagree on advisories.  The action of P1:3 is advisory
  in the catalog of native actions; with a backend that reports it as such, every live run of phase one that
  returns a report, that has P1:3 still to resolve, and that runs under a profile other than Custom, records it
  as an acknowledged advisory, and after that run no state and no facts about the platform let Safe Mode be
  armed.  (Under Custom the user may decline P1:3, which is then skipped and does not stand in the way.)
\<close>

theorem phase_one_advisories_block_arming:
  assumes "live B" and "distinct (map step_ident steps)" and "shader_cache_step \<in> set steps"
    and "pr \<noteq> ProfileCustom" and "\<not> resolved (eng_progress e) (step_ident shader_cache_step)"
    and "\<And>b. fst (inspect B \<lparr>op_step = shader_cache_step\<rparr> b)
          = Ok (InspectAdvisory SHADER_CACHE_HEALTH_ADVISORY)"
    and "run_with_control D B K steps pr c e = (Ok report, e', c')"
  shows "resolution (eng_progress e') (step_ident shader_cache_step) = Advisory
     \<and> \<not> is_ok (authorize RequestArmSafeMode s (eng_progress e') f)"
proof
  let ?s = "\<lparr>rs_backend = eng_backend e, rs_progress = eng_progress e,
     rs_report = run_report_default, rs_control = c\<rparr>"
  obtain u s' where run: "run_steps D B K pr steps ?s = (Ok u, s')" "rs_progress s' = eng_progress e'"
    using assms(7) by (auto simp: run_with_control_def split: prod.splits result.splits)
  have "decision pr (tier shader_cache_step) (step_risk shader_cache_step) = Auto"
    using assms(4) by (simp add: decision_Auto_iff shader_cache_step_facts)
  then show adv: "resolution (eng_progress e') (step_ident shader_cache_step) = Advisory"
    using run_steps_advisory [OF assms(2,3,1) _ _ assms(6) run(1)] assms(5) run(2) by simp
  show "\<not> is_ok (authorize RequestArmSafeMode s (eng_progress e') f)"
    by (rule unauthorized_advisory_blocks_arming [OF shader_cache_step_facts(4,2,3,5) adv])
qed

definition advisory_demo :: "(unit, unit) backend" where
  "advisory_demo = scripted (InspectAdvisory SHADER_CACHE_HEALTH_ADVISORY) LosslessBackup (Ok ())"

lemma advisory_demo_ok:
  "fst (run_with_control sha_of_nothing advisory_demo agreeing [shader_cache_step] ProfileRecommended ()
     (fresh_engine ())) =
   Ok (run_report_default\<lparr>events := [EventInspect ''P1:3'',
         EventAdvisory ''P1:3'' SHADER_CACHE_HEALTH_ADVISORY], advisory_count := 1\<rparr>)"
proof -
  have "progress_key (step_ident shader_cache_step) = ''P1:3''" by code_simp
  then show ?thesis
    by (simp add: run_defs demo_defs advisory_demo_def run_report_default_def shader_cache_step_facts)
qed

theorem phase_one_advisories_block_arming_witness:
  "\<exists>p. resolution p (step_ident shader_cache_step) = Advisory
     \<and> \<not> is_ok (authorize RequestArmSafeMode state_default (p :: unit progress) (demo_facts BootNormal))"
proof -
  obtain e' c' where run: "run_with_control sha_of_nothing advisory_demo agreeing [shader_cache_step]
      ProfileRecommended () (fresh_engine ()) =
     (Ok (run_report_default\<lparr>events := [EventInspect ''P1:3'',
         EventAdvisory ''P1:3'' SHADER_CACHE_HEALTH_ADVISORY], advisory_count := 1\<rparr>), e', c')"
    using advisory_demo_ok by (metis prod.collapse)
  show ?thesis
    by (rule exI, rule phase_one_advisories_block_arming [OF _ _ _ _ _ _ run])
      (simp_all add: live_def advisory_demo_def scripted_def fresh_engine_def resolved_iff)
qed

section \<open>The final benchmark and the phase three handoff\<close>

text \<open>
  C23: What the final benchmark commit writes authorizes exactly the end of the workflow.  Once its state and
  progress are persisted, a request is authorized on a platform if and only if the phase three handoff is
  observed for the same user and either the clearing of the handoff is requested and the final benchmark is
  found persisted, or the final benchmark is requested once more from the verified executable after a
  normal boot with phase two completed.  Nothing of phases one to three is authorized again.
\<close>

theorem final_commit_authorizes_clearing:
  assumes "prepare_final_benchmark_commit s p h cfg receipt_id ts capture = Ok commit"
  shows "authorize q (fc_state commit) (fc_progress commit) f = Ok t \<longleftrightarrow>
     phase_three_run (facts_handoff f) = EvidenceVerified
     \<and> phase_three_same_user (facts_handoff f) = EvidenceVerified
     \<and> (q = RequestClearPhaseThreeHandoff \<and> t = ClearPhaseThreeHandoff
          \<and> final_benchmark_persisted f = EvidenceVerified
        \<or> q = RequestFinalBenchmark \<and> t = PersistFinalBenchmark
          \<and> facts_boot f = BootNormal \<and> facts_runtime f = VerifiedSelectedExecutable
          \<and> require_phase_two_completed p = Ok ())"
proof -
  obtain x r where x: "is_authorized_at x PhaseThreeArmed"
    and st: "fc_state commit = (final_state s r)\<lparr>active_reboot_transaction :=
          Some (x\<lparr>tx_stage := PhaseThreeComplete, tx_updated_utc := Some ts\<rparr>)\<rparr>"
    and pr: "fc_progress commit = complete_step PHASE_THREE_FINAL_BENCHMARK ts p"
    and dr: "is_completed p PHASE_THREE_DRIVER_INSTALL"
    using prepare_final_Ok [OF assms] by blast
  have auth: "is_authorized_at (x\<lparr>tx_stage := PhaseThreeComplete, tx_updated_utc := Some ts\<rparr>) g
      \<longleftrightarrow> g = PhaseThreeComplete" for g
    using x by (auto simp: is_authorized_at_def)
  have two: "require_phase_two_completed (complete_step PHASE_THREE_FINAL_BENCHMARK ts p) = Ok ()
      \<longleftrightarrow> require_phase_two_completed p = Ok ()"
    by (auto simp: require_phase_two_completed_Ok progress_simps PHASE_THREE_FINAL_BENCHMARK_def step_id_new_def)
  have three: "has_phase (complete_step PHASE_THREE_FINAL_BENCHMARK ts p) PhaseThree"
    using dr by (intro phase_three_completed_has_phase_three) (simp add: progress_simps)
  show ?thesis
    using dr by (cases q) (auto simp: authorize_iffs st pr auth two three progress_simps)
qed

theorem final_commit_authorizes_clearing_witness:
  "\<exists>commit :: unit final_commit.
     authorize RequestClearPhaseThreeHandoff (fc_state commit) (fc_progress commit)
       ((demo_facts BootNormal)\<lparr>final_benchmark_persisted := EvidenceVerified\<rparr>)
       = Ok ClearPhaseThreeHandoff
     \<and> authorize RequestPhaseThree (fc_state commit) (fc_progress commit)
       ((demo_facts BootNormal)\<lparr>final_benchmark_persisted := EvidenceVerified\<rparr>) \<noteq> Ok RunPhaseThree"
proof -
  obtain commit where c: "prepare_final_benchmark_commit (demo_state PhaseThreeArmed) demo_phase_three []
      demo_config demo_receipt_id demo_time demo_capture = Ok commit"
    using demo_final_ok by (auto simp: is_ok_iff)
  show ?thesis
    by (intro exI [of _ commit]) (simp add: final_commit_authorizes_clearing [OF c] demo_facts_def handoff_verified_def)
qed

end
